(* ===== verification/Prelude.thy ===== *)
theory Prelude
  imports Main "HOL-Library.Char_ord" "HOL-Library.List_Lexorder" "HOL-Library.Word"
begin

text \<open>
  Shared vocabulary of the development: the transaction monad every database operation runs
  in, the relational calculus over it (locale \<open>evolution\<close>), row-wise updates of a table, the
  JavaScript string operations and regular-expression tests the sources use, and decimal
  printing. A JavaScript string is a \<^typ>\<open>string\<close> whose characters are code units up to 255; a
  \<open>Date\<close> is its time value in milliseconds, an \<^typ>\<open>int\<close>.
\<close>

named_theorems tx_defs \<open>the primitive combinators of the transaction monad\<close>
named_theorems steps_intro \<open>structural rules that show a transaction stays within a relation\<close>

type_synonym date = int
type_synonym byte = "8 word"
type_synonym bytes = "byte list"
type_synonym ('s, 'e, 'a) txn = "'s \<Rightarrow> 'e + 'a \<times> 's"

subsection \<open>Transactions\<close>

text \<open>
  A transaction maps the database to an error or to a result and the new database. An error
  carries no database: the serializable transaction is rolled back, so the caller keeps the
  state it started from.
\<close>

definition return_tx :: "'a \<Rightarrow> ('s, 'e, 'a) txn" where
  "return_tx x s = Inr (x, s)"

definition throw_tx :: "'e \<Rightarrow> ('s, 'e, 'a) txn" where
  "throw_tx e s = Inl e"

definition bind_tx :: "('s, 'e, 'a) txn \<Rightarrow> ('a \<Rightarrow> ('s, 'e, 'b) txn) \<Rightarrow> ('s, 'e, 'b) txn" where
  "bind_tx m f s = (case m s of Inl e \<Rightarrow> Inl e | Inr (x, s') \<Rightarrow> f x s')"

definition gets_tx :: "('s \<Rightarrow> 'a) \<Rightarrow> ('s, 'e, 'a) txn" where
  "gets_tx f s = Inr (f s, s)"

definition lift_tx :: "'e + 'a \<Rightarrow> ('s, 'e, 'a) txn" where
  "lift_tx r s = (case r of Inl e \<Rightarrow> Inl e | Inr x \<Rightarrow> Inr (x, s))"

definition when_tx :: "bool \<Rightarrow> ('s, 'e, unit) txn \<Rightarrow> ('s, 'e, unit) txn" where
  "when_tx b m = (if b then m else return_tx ())"

fun mapM_tx :: "('a \<Rightarrow> ('s, 'e, 'b) txn) \<Rightarrow> 'a list \<Rightarrow> ('s, 'e, 'b list) txn" where
  "mapM_tx f [] = return_tx []"
| "mapM_tx f (x # xs) =
     bind_tx (f x) (\<lambda>y. bind_tx (mapM_tx f xs) (\<lambda>ys. return_tx (y # ys)))"

lemmas [tx_defs] = return_tx_def throw_tx_def gets_tx_def lift_tx_def

lemma bind_tx_Inr:
  "bind_tx m f s = Inr (y, s'') \<longleftrightarrow> (\<exists>x s'. m s = Inr (x, s') \<and> f x s' = Inr (y, s''))"
  by (auto simp: bind_tx_def split: sum.splits)

lemma bind_tx_Inl:
  "bind_tx m f s = Inl e \<longleftrightarrow> m s = Inl e \<or> (\<exists>x s'. m s = Inr (x, s') \<and> f x s' = Inl e)"
  by (auto simp: bind_tx_def split: sum.splits)

lemma bind_tx_step [simp]: "m s = Inr (x, s') \<Longrightarrow> bind_tx m f s = f x s'"
  by (simp add: bind_tx_def)

lemma bind_tx_fail [simp]: "m s = Inl e \<Longrightarrow> bind_tx m f s = Inl e"
  by (simp add: bind_tx_def)

lemma return_tx_apply [simp]: "return_tx x s = Inr (x, s)"
  by (simp add: return_tx_def)

lemma throw_tx_apply [simp]: "throw_tx e s = Inl e"
  by (simp add: throw_tx_def)

lemma gets_tx_apply [simp]: "gets_tx f s = Inr (f s, s)"
  by (simp add: gets_tx_def)

lemma lift_tx_Inr [simp]: "lift_tx r s = Inr (x, s') \<longleftrightarrow> r = Inr x \<and> s' = s"
  by (auto simp: lift_tx_def split: sum.splits)

lemma lift_tx_Inl [simp]: "lift_tx r s = Inl e \<longleftrightarrow> r = Inl e"
  by (auto simp: lift_tx_def split: sum.splits)

text \<open>
  \<open>steps R m\<close>: whenever \<open>m\<close> commits, the database it started from and the one it leaves are
  related by \<open>R\<close>.
\<close>

definition steps :: "('s \<Rightarrow> 's \<Rightarrow> bool) \<Rightarrow> ('s, 'e, 'a) txn \<Rightarrow> bool" where
  "steps R m \<longleftrightarrow> (\<forall>s x s'. m s = Inr (x, s') \<longrightarrow> R s s')"

lemma stepsI: "(\<And>s x s'. m s = Inr (x, s') \<Longrightarrow> R s s') \<Longrightarrow> steps R m"
  by (auto simp: steps_def)

lemma stepsD: "steps R m \<Longrightarrow> m s = Inr (x, s') \<Longrightarrow> R s s'"
  by (auto simp: steps_def)

text \<open>
  The relational contract of a transaction system: a reflexive and transitive relation is kept
  by every composition of transactions that keep it.
\<close>

locale evolution =
  fixes R :: "'s \<Rightarrow> 's \<Rightarrow> bool"
  assumes refl_R: "R s s"
    and trans_R: "R s t \<Longrightarrow> R t u \<Longrightarrow> R s u"
begin

lemma steps_return: "steps R (return_tx x)"
  by (auto intro!: stepsI simp: refl_R)

lemma steps_throw: "steps R (throw_tx e)"
  by (auto intro!: stepsI)

lemma steps_gets: "steps R (gets_tx f)"
  by (auto intro!: stepsI simp: refl_R)

lemma steps_lift: "steps R (lift_tx r)"
  by (auto intro!: stepsI simp: refl_R)

lemma steps_bind: "steps R m \<Longrightarrow> (\<And>x. steps R (f x)) \<Longrightarrow> steps R (bind_tx m f)"
  by (rule stepsI) (auto simp: bind_tx_Inr dest!: stepsD intro: trans_R)

lemma steps_if: "(b \<Longrightarrow> steps R m) \<Longrightarrow> (\<not> b \<Longrightarrow> steps R n) \<Longrightarrow> steps R (if b then m else n)"
  by simp

lemma steps_when: "steps R m \<Longrightarrow> steps R (when_tx b m)"
  by (simp add: when_tx_def steps_return)

lemma steps_option:
  "(x = None \<Longrightarrow> steps R m) \<Longrightarrow> (\<And>y. x = Some y \<Longrightarrow> steps R (f y)) \<Longrightarrow>
    steps R (case x of None \<Rightarrow> m | Some y \<Rightarrow> f y)"
  by (cases x) auto

lemma steps_let: "(\<And>x. x = a \<Longrightarrow> steps R (f x)) \<Longrightarrow> steps R (Let a f)"
  by simp

lemma steps_prod: "(\<And>x y. p = (x, y) \<Longrightarrow> steps R (f x y)) \<Longrightarrow> steps R (case p of (x, y) \<Rightarrow> f x y)"
  by (cases p) auto

lemma steps_list:
  "(xs = [] \<Longrightarrow> steps R m) \<Longrightarrow> (\<And>y ys. xs = y # ys \<Longrightarrow> steps R (f y ys)) \<Longrightarrow>
    steps R (case xs of [] \<Rightarrow> m | y # ys \<Rightarrow> f y ys)"
  by (cases xs) auto

lemma steps_mapM: "(\<And>x. steps R (f x)) \<Longrightarrow> steps R (mapM_tx f xs)"
  by (induction xs) (auto intro: steps_return steps_bind)

lemmas steps_rules = steps_return steps_throw steps_gets steps_lift steps_bind steps_if
  steps_when steps_option steps_let steps_prod steps_list steps_mapM

end

text \<open>The conjunction of two such relations is one again.\<close>

lemma steps_conj: "steps R m \<Longrightarrow> steps Q m \<Longrightarrow> steps (\<lambda>s t. R s t \<and> Q s t) m"
  by (auto simp: steps_def)

subsection \<open>Row-wise updates\<close>

text \<open>
  A database statement touches the rows of a table one after the other; the first row whose
  triggers raise aborts the statement.
\<close>

fun map_rows :: "('r \<Rightarrow> 'e + 'r) \<Rightarrow> 'r list \<Rightarrow> 'e + 'r list" where
  "map_rows f [] = Inr []"
| "map_rows f (r # rs) =
     (case f r of Inl e \<Rightarrow> Inl e
      | Inr r' \<Rightarrow> (case map_rows f rs of Inl e \<Rightarrow> Inl e | Inr rs' \<Rightarrow> Inr (r' # rs')))"

lemma map_rows_all2: "map_rows f rs = Inr rs' \<Longrightarrow> list_all2 (\<lambda>r r'. f r = Inr r') rs rs'"
  by (induction rs arbitrary: rs') (auto split: sum.splits)

lemma map_rows_Inr: "list_all2 (\<lambda>r r'. f r = Inr r') rs rs' \<Longrightarrow> map_rows f rs = Inr rs'"
  by (induction rs rs' rule: list_all2_induct) auto

lemma map_rows_map: "(\<And>r. r \<in> set rs \<Longrightarrow> f r = Inr (g r)) \<Longrightarrow> map_rows f rs = Inr (map g rs)"
  by (induction rs) auto

lemma map_rows_Inl: "map_rows f rs = Inl e \<Longrightarrow> \<exists>r \<in> set rs. f r = Inl e"
  by (induction rs) (auto split: sum.splits)

lemma map_rows_length: "map_rows f rs = Inr rs' \<Longrightarrow> length rs' = length rs"
  using map_rows_all2 list_all2_lengthD by metis

definition first_row :: "('r \<Rightarrow> bool) \<Rightarrow> 'r list \<Rightarrow> 'r option" where
  "first_row p rs = List.find p rs"

lemma first_row_Some: "first_row p rs = Some r \<Longrightarrow> r \<in> set rs \<and> p r"
  by (auto simp: first_row_def find_Some_iff)

lemma first_row_None: "first_row p rs = None \<longleftrightarrow> (\<forall>r \<in> set rs. \<not> p r)"
  by (auto simp: first_row_def find_None_iff)

definition opt_max :: "int list \<Rightarrow> int option" where
  "opt_max xs = (case xs of [] \<Rightarrow> None | _ \<Rightarrow> Some (fold max xs (hd xs)))"

subsection \<open>JavaScript strings and regular expressions\<close>

definition js_space :: "char \<Rightarrow> bool" where
  "js_space c \<longleftrightarrow> (let n = (of_char c :: nat) in (9 \<le> n \<and> n \<le> 13) \<or> n = 32 \<or> n = 160)"

definition js_trim :: "string \<Rightarrow> string" where
  "js_trim s = rev (dropWhile js_space (rev (dropWhile js_space s)))"

definition js_lower_char :: "char \<Rightarrow> char" where
  "js_lower_char c =
     (let n = (of_char c :: nat)
      in if (65 \<le> n \<and> n \<le> 90) \<or> (192 \<le> n \<and> n \<le> 222 \<and> n \<noteq> 215) then char_of (n + 32) else c)"

definition js_lower :: "string \<Rightarrow> string" where
  "js_lower s = map js_lower_char s"

definition in_range :: "char \<Rightarrow> char \<Rightarrow> char \<Rightarrow> bool" where
  "in_range lo hi c \<longleftrightarrow> (of_char lo :: nat) \<le> of_char c \<and> (of_char c :: nat) \<le> of_char hi"

definition lower_alpha :: "char \<Rightarrow> bool" where
  "lower_alpha c \<longleftrightarrow> in_range CHR ''a'' CHR ''z'' c"

definition digit :: "char \<Rightarrow> bool" where
  "digit c \<longleftrightarrow> in_range CHR ''0'' CHR ''9'' c"

definition alnum :: "char \<Rightarrow> bool" where
  "alnum c \<longleftrightarrow> lower_alpha c \<or> in_range CHR ''A'' CHR ''Z'' c \<or> digit c"

definition hex_lower :: "char \<Rightarrow> bool" where
  "hex_lower c \<longleftrightarrow> digit c \<or> in_range CHR ''a'' CHR ''f'' c"

text \<open>The identifiers of the payment provider: a fixed prefix and at least one alphanumeric.\<close>

definition prefixed_id :: "string \<Rightarrow> string \<Rightarrow> bool" where
  "prefixed_id p s \<longleftrightarrow>
     take (length p) s = p \<and> drop (length p) s \<noteq> [] \<and> list_all alnum (drop (length p) s)"

text \<open>\<open>list_match ps s\<close>: the string matches the character classes \<open>ps\<close>, one per position.\<close>

definition list_match :: "(char \<Rightarrow> bool) list \<Rightarrow> string \<Rightarrow> bool" where
  "list_match ps s \<longleftrightarrow> length ps = length s \<and> list_all (\<lambda>(p, c). p c) (zip ps s)"

definition uuid_classes :: "(char \<Rightarrow> bool) list" where
  "uuid_classes =
     replicate 8 hex_lower @ [(=) CHR ''-''] @ replicate 4 hex_lower @ [(=) CHR ''-''] @
     [in_range CHR ''1'' CHR ''8''] @ replicate 3 hex_lower @ [(=) CHR ''-''] @
     [\<lambda>c. c = CHR ''8'' \<or> c = CHR ''9'' \<or> c = CHR ''a'' \<or> c = CHR ''b''] @
     replicate 3 hex_lower @ [(=) CHR ''-''] @ replicate 12 hex_lower"

text \<open>The version-checked UUID pattern, case-sensitive, and with the \<open>i\<close> flag.\<close>

definition uuid_strict :: "string \<Rightarrow> bool" where
  "uuid_strict s \<longleftrightarrow> list_match uuid_classes s"

definition ascii_lower_char :: "char \<Rightarrow> char" where
  "ascii_lower_char c = (if in_range CHR ''A'' CHR ''Z'' c then char_of ((of_char c :: nat) + 32) else c)"

definition uuid_nocase :: "string \<Rightarrow> bool" where
  "uuid_nocase s \<longleftrightarrow> uuid_strict (map ascii_lower_char s)"

lemma list_match_set:
  assumes "list_match ps s" and "\<And>p c. p \<in> set ps \<Longrightarrow> p c \<Longrightarrow> Q c" and "c \<in> set s"
  shows "Q c"
proof -
  from assms(3) obtain i where i: "i < length s" "s ! i = c" by (auto simp: in_set_conv_nth)
  with assms(1) have "(ps ! i) c" "ps ! i \<in> set ps"
    by (auto simp: list_match_def list_all_length)
  then show ?thesis using assms(2) by blast
qed

lemma uuid_strict_lower:
  assumes "uuid_strict s" and "c \<in> set s"
  shows "js_lower_char c = c \<and> ascii_lower_char c = c"
proof -
  have "hex_lower c \<or> c = CHR ''-''"
    by (rule list_match_set [OF assms(1) [unfolded uuid_strict_def] _ assms(2)])
      (auto simp: uuid_classes_def hex_lower_def digit_def in_range_def)
  then show ?thesis
    by (auto simp: hex_lower_def digit_def in_range_def js_lower_char_def ascii_lower_char_def Let_def)
qed

lemma js_lower_uuid [simp]: "uuid_strict s \<Longrightarrow> js_lower s = s"
  using uuid_strict_lower [of s] by (auto simp: js_lower_def intro: map_idI)

lemma uuid_strict_nocase [simp]: "uuid_strict s \<Longrightarrow> uuid_nocase s"
proof -
  assume u: "uuid_strict s"
  then have "map ascii_lower_char s = s" using uuid_strict_lower [of s] by (auto intro: map_idI)
  with u show ?thesis by (simp add: uuid_nocase_def)
qed

subsection \<open>Decimal printing\<close>

fun show_nat :: "nat \<Rightarrow> string" where
  "show_nat n = (if n < 10 then [char_of (48 + n)] else show_nat (n div 10) @ [char_of (48 + n mod 10)])"

declare show_nat.simps [simp del]

definition show_int :: "int \<Rightarrow> string" where
  "show_int i = (if i < 0 then CHR ''-'' # show_nat (nat (- i)) else show_nat (nat i))"

lemma show_nat_nonempty [simp]: "show_nat n \<noteq> []"
  by (subst show_nat.simps) simp

fun read_nat :: "nat \<Rightarrow> string \<Rightarrow> nat" where
  "read_nat acc [] = acc"
| "read_nat acc (c # cs) = read_nat (acc * 10 + (of_char c - 48)) cs"

lemma read_nat_append: "read_nat acc (xs @ ys) = read_nat (read_nat acc xs) ys"
  by (induction xs arbitrary: acc) auto

lemma read_show_nat: "read_nat 0 (show_nat n) = n"
proof (induction n rule: show_nat.induct)
  case (1 n)
  show ?case
  proof (cases "n < 10")
    case True
    then show ?thesis by (subst show_nat.simps) simp
  next
    case False
    with 1 have "read_nat 0 (show_nat (n div 10)) = n div 10" by simp
    moreover have "n mod 10 < 10" by simp
    then have "48 + n mod 10 < 256" by linarith
    ultimately show ?thesis using False
      by (subst show_nat.simps) (simp add: read_nat_append)
  qed
qed

lemma show_nat_inject [simp]: "show_nat m = show_nat n \<longleftrightarrow> m = n"
  by (metis read_show_nat)

lemma show_nat_digit: "c \<in> set (show_nat n) \<Longrightarrow> digit c"
proof (induction n rule: show_nat.induct)
  case (1 n)
  have *: "digit (char_of (48 + k))" if "k < 10" for k :: nat
    using that by (simp add: digit_def in_range_def)
  from 1 show ?case
    by (subst (asm) show_nat.simps) (auto simp: * split: if_splits)
qed

lemma show_int_inject [simp]: "show_int i = show_int j \<longleftrightarrow> i = j"
proof -
  have minus: "CHR ''-'' \<notin> set (show_nat n)" for n
    using show_nat_digit [of "CHR ''-''" n] by (auto simp: digit_def in_range_def)
  have ne: "CHR ''-'' # xs \<noteq> show_nat a" for a xs
    using minus [of a] by (metis list.set_intros(1))
  show ?thesis
    using ne ne [symmetric] by (auto simp: show_int_def)
qed

subsection \<open>Safe integers\<close>

text \<open>\<open>Number.isSafeInteger\<close> on an integral number.\<close>

definition safe_integer :: "int \<Rightarrow> bool" where
  "safe_integer n \<longleftrightarrow> \<bar>n\<bar> \<le> 9007199254740991"

end
