(* ===== verification/Domain_Types.thy ===== *)
theory Domain_Types
  imports Prelude
begin

text \<open>
  The vocabulary of \<open>packages/domain/src/types.ts\<close> and \<open>errors.ts\<close>: the enumerations of the
  refund workflow, the workflow record, and the errors the code throws. Each string literal
  union of the source is a datatype; the constructor prefix keeps the unions apart where they
  share a literal.
\<close>

datatype DomainErrorCode =
    INVALID_AMOUNT | INVALID_CURRENCY | INVALID_EFFECT_TRANSITION | INVALID_ENCRYPTION_KEY
  | INVALID_APPROVAL_ATTESTATION | INVALID_PROOF | INVALID_QUORUM | INVALID_WORKFLOW_TRANSITION
  | REQUEST_EXPIRED | SELF_APPROVAL | DUPLICATE_DECISION | REJECTION_JUSTIFICATION_REQUIRED
  | UNAUTHORIZED_CANCELLATION

text \<open>
  Everything the modelled code can throw: a \<open>DomainError\<close> with its code, the built-in
  \<open>RangeError\<close>, \<open>TypeError\<close> and \<open>Error\<close> with their message, an exception raised by a database
  trigger or check constraint, a unique-index violation (Prisma's P2002), a serialization
  conflict (P2034, 40001, 40P01) and the exhaustion of its retries, the worker's
  retryable error, its live-mode rejection, the attestation store's error with its kind
  and reason, and the error of the web API.
\<close>

datatype err =
    DomainError DomainErrorCode
  | RangeError string
  | TypeError string
  | Error string
  | DbError string
  | UniqueViolation string
  | TransactionWriteConflict
  | TransactionRetryExhausted int
  | RetryableWorkerError string
  | LiveModeRejected
  | ApprovalAttestationStoreError string string
  | PilotApiError string int string  \<comment> \<open>code, HTTP status, message\<close>

definition bind_err :: "err + 'a \<Rightarrow> ('a \<Rightarrow> err + 'b) \<Rightarrow> err + 'b" where
  "bind_err r f = (case r of Inl e \<Rightarrow> Inl e | Inr x \<Rightarrow> f x)"

lemma bind_err_Inr [simp]: "bind_err r f = Inr y \<longleftrightarrow> (\<exists>x. r = Inr x \<and> f x = Inr y)"
  by (auto simp: bind_err_def split: sum.splits)

lemma bind_err_simps [simp]: "bind_err (Inr x) f = f x" "bind_err (Inl e) f = Inl e"
  by (simp_all add: bind_err_def)

datatype WorkflowStatus =
    W_pending_approval | W_approved | W_executing | W_reconciliation_required | W_succeeded
  | W_failed_terminal | W_rejected | W_canceled | W_expired | W_stale

datatype StripeRefundStatus = R_pending | R_requires_action | R_succeeded | R_failed | R_canceled

datatype EffectState = E_not_started | E_possible | E_identified | E_absence_proven

datatype StripeEnvironment = Env_live | Env_test | Env_sandbox

datatype RefundReason = duplicate | fraudulent | requested_by_customer

datatype ApprovalDecisionKind = D_approve | D_reject

record ApprovalDecision =
  approverId :: string
  decision :: ApprovalDecisionKind
  decidedAt :: date

record RefundWorkflow =
  wf_id :: string
  requesterId :: string
  requiredApprovals :: int
  expiresAt :: date
  status :: WorkflowStatus
  effectState :: EffectState
  stripeRefundId :: "string option"
  stripeRefundStatus :: "StripeRefundStatus option"
  decisions :: "ApprovalDecision list"

text \<open>The statuses with no outgoing edge but the terminal correction.\<close>

definition terminal_status :: "WorkflowStatus \<Rightarrow> bool" where
  "terminal_status w \<longleftrightarrow> w \<in> {W_succeeded, W_failed_terminal, W_rejected, W_canceled, W_expired, W_stale}"

definition env_name :: "StripeEnvironment \<Rightarrow> string" where
  "env_name e = (case e of Env_live \<Rightarrow> ''live'' | Env_test \<Rightarrow> ''test'' | Env_sandbox \<Rightarrow> ''sandbox'')"

definition reason_name :: "RefundReason \<Rightarrow> string" where
  "reason_name r = (case r of duplicate \<Rightarrow> ''duplicate'' | fraudulent \<Rightarrow> ''fraudulent''
     | requested_by_customer \<Rightarrow> ''requested_by_customer'')"

lemma env_name_inject [simp]: "env_name a = env_name b \<longleftrightarrow> a = b"
  by (cases a; cases b) (auto simp: env_name_def)

lemma env_name_nonempty [simp]: "env_name e \<noteq> []"
  by (cases e) (auto simp: env_name_def)

lemma reason_name_inject [simp]: "reason_name a = reason_name b \<longleftrightarrow> a = b"
  by (cases a; cases b) (auto simp: reason_name_def)

lemma terminal_status_simps [simp]:
  "terminal_status W_succeeded" "terminal_status W_failed_terminal" "terminal_status W_rejected"
  "terminal_status W_canceled" "terminal_status W_expired" "terminal_status W_stale"
  "\<not> terminal_status W_pending_approval" "\<not> terminal_status W_approved"
  "\<not> terminal_status W_executing" "\<not> terminal_status W_reconciliation_required"
  by (simp_all add: terminal_status_def)

end
