(* ===== verification/Money.thy ===== *)
theory Money
  imports Domain_Types
begin

text \<open>
  \<open>packages/domain/src/money.ts\<close> and \<open>eligibility.ts\<close>: normalisation of currency codes,
  checks of minor-unit amounts (JavaScript \<open>bigint\<close>, unbounded, hence \<^typ>\<open>int\<close>) and the
  eligibility decision on a captured card payment.
\<close>

definition currency_pattern :: "string \<Rightarrow> bool" where
  "currency_pattern s \<longleftrightarrow> length s = 3 \<and> list_all lower_alpha s"

definition normalizeCurrency :: "string \<Rightarrow> err + string" where
  "normalizeCurrency currency =
     (let normalized = js_lower (js_trim currency)
      in if \<not> currency_pattern normalized then Inl (DomainError INVALID_CURRENCY)
         else Inr normalized)"

definition assertPositiveMinorAmount :: "int \<Rightarrow> err + unit" where
  "assertPositiveMinorAmount amountMinor =
     (if amountMinor \<le> 0 then Inl (DomainError INVALID_AMOUNT) else Inr ())"

definition remainingRefundableAmount :: "int \<Rightarrow> int \<Rightarrow> err + int" where
  "remainingRefundableAmount amountCaptured amountRefunded =
     (if amountCaptured < 0 \<or> amountRefunded < 0 \<or> amountRefunded > amountCaptured
      then Inl (DomainError INVALID_AMOUNT)
      else Inr (amountCaptured - amountRefunded))"

definition assertRefundAmountWithinRemaining :: "int \<Rightarrow> int \<Rightarrow> err + unit" where
  "assertRefundAmountWithinRemaining amountMinor remainingMinor =
     (case assertPositiveMinorAmount amountMinor of Inl e \<Rightarrow> Inl e
      | Inr _ \<Rightarrow> (if remainingMinor < 0 \<or> amountMinor > remainingMinor
                  then Inl (DomainError INVALID_AMOUNT) else Inr ()))"

subsection \<open>Eligibility\<close>

datatype IneligibilityCode =
    NOT_PAID | NOT_CAPTURED | DISPUTED | CONNECT_UNSUPPORTED | PAYMENT_METHOD_UNSUPPORTED
  | CARD_PRESENT_UNSUPPORTED | NOTHING_REFUNDABLE | AMOUNT_EXCEEDS_REMAINING | CURRENCY_MISMATCH

record PaymentEligibilityInput =
  pe_paymentKey :: string
  amountCaptured :: int
  amountRefunded :: int
  pe_currency :: string
  paid :: bool
  captured :: bool
  disputed :: bool
  paymentMethodType :: "string option"
  hasConnectSemantics :: bool
  requestedAmountMinor :: "int option"
  requestedCurrency :: "string option"

datatype PaymentEligibility =
    Eligible string string int  \<comment> \<open>payment key, currency, remaining amount\<close>
  | Ineligible IneligibilityCode

text \<open>
  The last step of the evaluation, after currency and balance are known: the requested amount,
  where given, must fit. The source turns any exception of the check into the ineligible code.
\<close>

definition evaluateRequestedAmount :: "PaymentEligibilityInput \<Rightarrow> string \<Rightarrow> int \<Rightarrow> PaymentEligibility" where
  "evaluateRequestedAmount payment currency remainingMinor =
     (case requestedAmountMinor payment of
        None \<Rightarrow> Eligible (pe_paymentKey payment) currency remainingMinor
      | Some a \<Rightarrow> (case assertRefundAmountWithinRemaining a remainingMinor of
            Inl _ \<Rightarrow> Ineligible AMOUNT_EXCEEDS_REMAINING
          | Inr _ \<Rightarrow> Eligible (pe_paymentKey payment) currency remainingMinor))"

definition evaluatePaymentEligibility :: "PaymentEligibilityInput \<Rightarrow> err + PaymentEligibility" where
  "evaluatePaymentEligibility payment =
     (if \<not> paid payment then Inr (Ineligible NOT_PAID)
      else if \<not> captured payment then Inr (Ineligible NOT_CAPTURED)
      else if disputed payment then Inr (Ineligible DISPUTED)
      else if hasConnectSemantics payment then Inr (Ineligible CONNECT_UNSUPPORTED)
      else if paymentMethodType payment = Some ''card_present'' then Inr (Ineligible CARD_PRESENT_UNSUPPORTED)
      else if paymentMethodType payment \<noteq> Some ''card'' then Inr (Ineligible PAYMENT_METHOD_UNSUPPORTED)
      else (case normalizeCurrency (pe_currency payment) of Inl e \<Rightarrow> Inl e | Inr currency \<Rightarrow>
        (case remainingRefundableAmount (amountCaptured payment) (amountRefunded payment) of
           Inl e \<Rightarrow> Inl e
         | Inr remainingMinor \<Rightarrow>
             if remainingMinor = 0 then Inr (Ineligible NOTHING_REFUNDABLE)
             else (case requestedCurrency payment of
                 None \<Rightarrow> Inr (evaluateRequestedAmount payment currency remainingMinor)
               | Some rc \<Rightarrow> (case normalizeCurrency rc of Inl e \<Rightarrow> Inl e
                   | Inr rc' \<Rightarrow> if rc' \<noteq> currency then Inr (Ineligible CURRENCY_MISMATCH)
                               else Inr (evaluateRequestedAmount payment currency remainingMinor))))))"

subsection \<open>Lemmas\<close>

lemma lower_alpha_not_space: "lower_alpha c \<Longrightarrow> \<not> js_space c"
  by (auto simp: lower_alpha_def in_range_def js_space_def Let_def)

lemma lower_alpha_lower: "lower_alpha c \<Longrightarrow> js_lower_char c = c"
  by (auto simp: lower_alpha_def in_range_def js_lower_char_def Let_def)

lemma js_trim_alpha: "list_all lower_alpha s \<Longrightarrow> js_trim s = s"
proof -
  assume s: "list_all lower_alpha s"
  have d: "dropWhile js_space xs = xs" if "list_all lower_alpha xs" for xs
    using that by (cases xs) (auto simp: lower_alpha_not_space)
  from s have "list_all lower_alpha (rev s)" by (simp add: list_all_iff)
  with s show ?thesis by (simp add: js_trim_def d)
qed

lemma js_lower_alpha: "list_all lower_alpha s \<Longrightarrow> js_lower s = s"
  by (induction s) (auto simp: js_lower_def lower_alpha_lower)

lemma normalizeCurrency_Inr:
  "normalizeCurrency c = Inr n \<longleftrightarrow> n = js_lower (js_trim c) \<and> currency_pattern n"
  by (auto simp: normalizeCurrency_def Let_def)

lemma normalizeCurrency_canonical: "currency_pattern c \<Longrightarrow> normalizeCurrency c = Inr c"
  by (simp add: normalizeCurrency_def currency_pattern_def js_trim_alpha js_lower_alpha)

lemma currency_pattern_nonempty: "currency_pattern c \<Longrightarrow> c \<noteq> []"
  by (auto simp: currency_pattern_def)

lemma remainingRefundableAmount_Inr:
  "remainingRefundableAmount c r = Inr m \<longleftrightarrow> 0 \<le> r \<and> r \<le> c \<and> m = c - r"
  by (auto simp: remainingRefundableAmount_def)

lemma assertRefundAmount_Inr:
  "assertRefundAmountWithinRemaining a m = Inr u \<longleftrightarrow> 0 < a \<and> a \<le> m"
  by (auto simp: assertRefundAmountWithinRemaining_def assertPositiveMinorAmount_def split: sum.splits)

text \<open>
  normalisation of a currency is idempotent and its results are exactly the canonical
  three-letter lower-case codes: a code is a result of \<open>normalizeCurrency\<close> if and only if it is
  its own normalisation, if and only if it matches the pattern.
\<close>

lemma normalizeCurrency_fixpoints:
  "((\<exists>c. normalizeCurrency c = Inr n) \<longleftrightarrow> normalizeCurrency n = Inr n)
   \<and> (normalizeCurrency n = Inr n \<longleftrightarrow> currency_pattern n)"
  using normalizeCurrency_canonical [of n] by (auto simp: normalizeCurrency_Inr)

text \<open>
  A payment is found eligible for a requested amount exactly when it is a paid, captured,
  undisputed, non-Connect card payment whose totals are consistent, whose currency is the
  requested one and whose remaining balance covers the positive requested amount; the balance
  reported is captured minus refunded.
\<close>

lemma evaluatePaymentEligibility_iff:
  assumes "requestedAmountMinor p = Some a" and "requestedCurrency p = Some rc"
  shows "evaluatePaymentEligibility p = Inr (Eligible k cur rem) \<longleftrightarrow>
    paid p \<and> captured p \<and> \<not> disputed p \<and> \<not> hasConnectSemantics p
    \<and> paymentMethodType p = Some ''card'' \<and> k = pe_paymentKey p
    \<and> normalizeCurrency (pe_currency p) = Inr cur \<and> normalizeCurrency rc = Inr cur
    \<and> 0 \<le> amountRefunded p \<and> rem = amountCaptured p - amountRefunded p
    \<and> 0 < a \<and> a \<le> rem"
proof -
  have amount: "evaluateRequestedAmount p c m = Eligible k cur rem \<longleftrightarrow>
      k = pe_paymentKey p \<and> c = cur \<and> m = rem \<and> 0 < a \<and> a \<le> m" for c m
    using assertRefundAmount_Inr [of a m]
    by (auto simp: evaluateRequestedAmount_def assms split: sum.splits)
  show ?thesis
    by (auto simp: evaluatePaymentEligibility_def assms amount remainingRefundableAmount_def
        split: sum.splits if_splits)
qed

end
