(* ===== verification/Workflow.thy ===== *)
theory Workflow
  imports Domain_Types
begin

text \<open>
  \<open>packages/domain/src/effect.ts\<close>, \<open>workflow.ts\<close> and \<open>error-classification.ts\<close>: the effect
  state machine, the workflow state machine with its evidence checks, the operations on a
  \<open>RefundWorkflow\<close> and the classification of provider failures. The abstract specification of
  the workflow is the inductive relation \<open>workflow_edge\<close>; \<open>lifecycle\<close> is the set of workflows
  the operations can produce.
\<close>

subsection \<open>Effect state machine\<close>

definition effect_transitions :: "EffectState \<Rightarrow> EffectState list" where
  "effect_transitions e = (case e of
     E_not_started \<Rightarrow> [E_possible, E_absence_proven]
   | E_possible \<Rightarrow> [E_identified, E_absence_proven]
   | E_identified \<Rightarrow> [E_absence_proven]
   | E_absence_proven \<Rightarrow> [E_possible])"

record IdentifiedRefundAbsenceEvidence =
  authoritativeStripeRefundStatus :: StripeRefundStatus
  linkedStripeRefundId :: string
  observedStripeRefundId :: string

text \<open>The empty context of the source is \<^term>\<open>None\<close>.\<close>

definition transitionEffectState ::
  "EffectState \<Rightarrow> EffectState \<Rightarrow> IdentifiedRefundAbsenceEvidence option \<Rightarrow> err + EffectState" where
  "transitionEffectState current target context =
     (if current = target then Inr target
      else if target \<notin> set (effect_transitions current) then Inl (DomainError INVALID_EFFECT_TRANSITION)
      else if current = E_identified \<and> target = E_absence_proven then
        (case context of
           None \<Rightarrow> Inl (DomainError INVALID_EFFECT_TRANSITION)
         | Some ev \<Rightarrow>
             if (authoritativeStripeRefundStatus ev \<noteq> R_failed
                 \<and> authoritativeStripeRefundStatus ev \<noteq> R_canceled)
                \<or> \<not> prefixed_id ''re_'' (linkedStripeRefundId ev)
                \<or> observedStripeRefundId ev \<noteq> linkedStripeRefundId ev
             then Inl (DomainError INVALID_EFFECT_TRANSITION) else Inr target)
      else Inr target)"

definition hasCertainAbsenceOfEffect :: "EffectState \<Rightarrow> bool" where
  "hasCertainAbsenceOfEffect e \<longleftrightarrow> e = E_not_started \<or> e = E_absence_proven"

record GuardState =
  gs_workflowStatus :: WorkflowStatus
  gs_effectState :: EffectState
  gs_stripeRefundStatus :: "StripeRefundStatus option"

definition canReleasePaymentGuard :: "GuardState \<Rightarrow> bool" where
  "canReleasePaymentGuard g =
     (if gs_workflowStatus g = W_reconciliation_required then False
      else if gs_workflowStatus g = W_rejected \<or> gs_workflowStatus g = W_canceled
              \<or> gs_workflowStatus g = W_expired
        then hasCertainAbsenceOfEffect (gs_effectState g)
      else if gs_workflowStatus g = W_failed_terminal \<or> gs_workflowStatus g = W_stale
        then gs_effectState g = E_absence_proven
      else if gs_workflowStatus g = W_succeeded then gs_stripeRefundStatus g = Some R_succeeded
      else False)"

subsection \<open>Workflow state machine\<close>

definition workflow_transitions :: "WorkflowStatus \<Rightarrow> WorkflowStatus list" where
  "workflow_transitions w = (case w of
     W_pending_approval \<Rightarrow> [W_approved, W_rejected, W_canceled, W_expired, W_stale]
   | W_approved \<Rightarrow> [W_executing, W_stale]
   | W_executing \<Rightarrow> [W_succeeded, W_reconciliation_required, W_failed_terminal]
   | W_reconciliation_required \<Rightarrow> [W_succeeded, W_failed_terminal, W_executing]
   | W_succeeded \<Rightarrow> [W_failed_terminal]
   | W_failed_terminal \<Rightarrow> [] | W_rejected \<Rightarrow> [] | W_canceled \<Rightarrow> [] | W_expired \<Rightarrow> [] | W_stale \<Rightarrow> [])"

record LinkedRefundTerminalCorrection =
  co_kind :: string
  previousEffectState :: EffectState
  nextEffectState :: EffectState
  co_linkedStripeRefundId :: string
  co_observedStripeRefundId :: string
  previousStripeRefundStatus :: StripeRefundStatus
  co_authoritativeStripeRefundStatus :: StripeRefundStatus

text \<open>The optional, nullable \<open>stripeRefundStatus\<close> of the source is an option: the code only tests it for equality.\<close>

record TransitionContext =
  tc_effectState :: EffectState
  tc_stripeRefundStatus :: "StripeRefundStatus option"
  linkedRefundTerminalCorrection :: "LinkedRefundTerminalCorrection option"

definition correction_evidence :: "LinkedRefundTerminalCorrection \<Rightarrow> IdentifiedRefundAbsenceEvidence" where
  "correction_evidence co =
     \<lparr>authoritativeStripeRefundStatus = co_authoritativeStripeRefundStatus co,
      linkedStripeRefundId = co_linkedStripeRefundId co,
      observedStripeRefundId = co_observedStripeRefundId co\<rparr>"

text \<open>The check of the terminal correction, on the edge from succeeded to failed.\<close>

definition check_correction :: "TransitionContext \<Rightarrow> err + unit" where
  "check_correction context =
     (case linkedRefundTerminalCorrection context of
        None \<Rightarrow> Inl (DomainError INVALID_WORKFLOW_TRANSITION)
      | Some co \<Rightarrow>
          if co_kind co \<noteq> ''linked_refund_terminal_correction''
             \<or> previousEffectState co \<noteq> E_identified
             \<or> nextEffectState co \<noteq> E_absence_proven
             \<or> previousStripeRefundStatus co \<noteq> R_succeeded
             \<or> Some (co_authoritativeStripeRefundStatus co) \<noteq> tc_stripeRefundStatus context
             \<or> tc_effectState context \<noteq> E_absence_proven
          then Inl (DomainError INVALID_WORKFLOW_TRANSITION)
          else (case transitionEffectState (previousEffectState co) (nextEffectState co)
                       (Some (correction_evidence co)) of
                  Inl e \<Rightarrow> Inl e | Inr _ \<Rightarrow> Inr ()))"

definition transitionWorkflowStatus ::
  "WorkflowStatus \<Rightarrow> WorkflowStatus \<Rightarrow> TransitionContext \<Rightarrow> err + WorkflowStatus" where
  "transitionWorkflowStatus current target context =
     (if current = target then Inr current
      else if target \<notin> set (workflow_transitions current) then Inl (DomainError INVALID_WORKFLOW_TRANSITION)
      else let isLinkedRefundTerminalCorrection = (current = W_succeeded \<and> target = W_failed_terminal)
      in if linkedRefundTerminalCorrection context \<noteq> None \<and> \<not> isLinkedRefundTerminalCorrection
         then Inl (DomainError INVALID_WORKFLOW_TRANSITION)
      else (case (if isLinkedRefundTerminalCorrection then check_correction context else Inr ()) of
          Inl e \<Rightarrow> Inl e
        | Inr _ \<Rightarrow>
            if current = W_reconciliation_required \<and> target = W_executing
               \<and> tc_effectState context \<noteq> E_absence_proven
            then Inl (DomainError INVALID_WORKFLOW_TRANSITION)
            else if target = W_succeeded
               \<and> (tc_effectState context \<noteq> E_identified \<or> tc_stripeRefundStatus context \<noteq> Some R_succeeded)
            then Inl (DomainError INVALID_WORKFLOW_TRANSITION)
            else if (target = W_failed_terminal \<or> target = W_stale)
               \<and> tc_effectState context \<noteq> E_absence_proven
            then Inl (DomainError INVALID_WORKFLOW_TRANSITION)
            else Inr target))"

definition standard_context :: "EffectState \<Rightarrow> TransitionContext" where
  "standard_context e =
     \<lparr>tc_effectState = e, tc_stripeRefundStatus = None, linkedRefundTerminalCorrection = None\<rparr>"

subsection \<open>Operations on a workflow\<close>

definition correctLinkedRefundTerminalStatus ::
  "RefundWorkflow \<Rightarrow> string \<Rightarrow> StripeRefundStatus \<Rightarrow> err + RefundWorkflow" where
  "correctLinkedRefundTerminalStatus workflow observed authoritative =
     (if status workflow \<noteq> W_succeeded \<or> effectState workflow \<noteq> E_identified
         \<or> stripeRefundStatus workflow \<noteq> Some R_succeeded \<or> stripeRefundId workflow = None
      then Inl (DomainError INVALID_WORKFLOW_TRANSITION)
      else let correction =
          \<lparr>co_kind = ''linked_refund_terminal_correction'', previousEffectState = E_identified,
           nextEffectState = E_absence_proven, co_linkedStripeRefundId = the (stripeRefundId workflow),
           co_observedStripeRefundId = observed, previousStripeRefundStatus = R_succeeded,
           co_authoritativeStripeRefundStatus = authoritative\<rparr>
      in (case transitionEffectState (effectState workflow) (nextEffectState correction)
                 (Some (correction_evidence correction)) of
            Inl e \<Rightarrow> Inl e
          | Inr es \<Rightarrow>
              (case transitionWorkflowStatus (status workflow) W_failed_terminal
                      \<lparr>tc_effectState = es, tc_stripeRefundStatus = Some authoritative,
                       linkedRefundTerminalCorrection = Some correction\<rparr> of
                 Inl e \<Rightarrow> Inl e
               | Inr st \<Rightarrow> Inr (workflow\<lparr>status := st, effectState := es,
                                       stripeRefundStatus := Some authoritative\<rparr>))))"

definition recordDecision ::
  "RefundWorkflow \<Rightarrow> string \<Rightarrow> ApprovalDecisionKind \<Rightarrow> date \<Rightarrow> string option \<Rightarrow> err + RefundWorkflow" where
  "recordDecision workflow approver dec at rejectionJustification =
     (if status workflow \<noteq> W_pending_approval then Inl (DomainError INVALID_WORKFLOW_TRANSITION)
      else if at \<ge> expiresAt workflow then Inl (DomainError REQUEST_EXPIRED)
      else if requesterId workflow = approver then Inl (DomainError SELF_APPROVAL)
      else if \<exists>d \<in> set (decisions workflow). approverId d = approver
        then Inl (DomainError DUPLICATE_DECISION)
      else if dec = D_reject \<and> (case rejectionJustification of None \<Rightarrow> True
                                 | Some j \<Rightarrow> length (js_trim j) < 10)
        then Inl (DomainError REJECTION_JUSTIFICATION_REQUIRED)
      else let newDecisions = decisions workflow @ [\<lparr>approverId = approver, decision = dec, decidedAt = at\<rparr>];
               approvals = int (length (filter (\<lambda>d. decision d = D_approve) newDecisions));
               target = (if dec = D_reject then W_rejected
                         else if approvals \<ge> requiredApprovals workflow then W_approved
                         else W_pending_approval)
      in (case transitionWorkflowStatus (status workflow) target (standard_context (effectState workflow)) of
            Inl e \<Rightarrow> Inl e
          | Inr st \<Rightarrow> Inr (workflow\<lparr>decisions := newDecisions, status := st\<rparr>)))"

definition validateRequiredApprovals :: "int \<Rightarrow> err + unit" where
  "validateRequiredApprovals n = (if \<not> safe_integer n \<or> n < 1 then Inl (DomainError INVALID_QUORUM) else Inr ())"

definition cancelPendingWorkflow :: "RefundWorkflow \<Rightarrow> string \<Rightarrow> err + RefundWorkflow" where
  "cancelPendingWorkflow workflow actor =
     (if actor \<noteq> requesterId workflow then Inl (DomainError UNAUTHORIZED_CANCELLATION)
      else (case transitionWorkflowStatus (status workflow) W_canceled (standard_context (effectState workflow)) of
              Inl e \<Rightarrow> Inl e | Inr st \<Rightarrow> Inr (workflow\<lparr>status := st\<rparr>)))"

definition expirePendingWorkflow :: "RefundWorkflow \<Rightarrow> date \<Rightarrow> err + RefundWorkflow" where
  "expirePendingWorkflow workflow now =
     (if now < expiresAt workflow then Inl (DomainError INVALID_WORKFLOW_TRANSITION)
      else (case transitionWorkflowStatus (status workflow) W_expired (standard_context (effectState workflow)) of
              Inl e \<Rightarrow> Inl e | Inr st \<Rightarrow> Inr (workflow\<lparr>status := st\<rparr>)))"

subsection \<open>Failure classification\<close>

datatype RefundFailureClass = retryable | terminal | ambiguous

datatype RefundFailureKind =
    F_network | F_timeout | F_rate_limit | F_api_error | F_authentication | F_permission
  | F_invalid_request | F_idempotency | F_not_found | F_conflict | F_unknown

record RefundFailureSignal =
  fs_kind :: RefundFailureKind
  httpStatus :: "int option"
  effectBoundaryCrossed :: bool

record ClassifiedRefundFailure =
  classification :: RefundFailureClass
  retryWithSameIdempotencyKey :: bool

definition classifyRefundFailure :: "RefundFailureSignal \<Rightarrow> ClassifiedRefundFailure" where
  "classifyRefundFailure signal =
     (let kind = fs_kind signal; http = httpStatus signal
      in if effectBoundaryCrossed signal
            \<and> (kind = F_network \<or> kind = F_timeout \<or> kind = F_api_error \<or> kind = F_idempotency
               \<or> kind = F_conflict \<or> kind = F_unknown \<or> http = Some 409
               \<or> (case http of None \<Rightarrow> False | Some h \<Rightarrow> h \<ge> 500))
         then \<lparr>classification = ambiguous, retryWithSameIdempotencyKey = True\<rparr>
         else if kind = F_authentication \<or> kind = F_permission \<or> kind = F_invalid_request
            \<or> kind = F_idempotency \<or> kind = F_not_found \<or> kind = F_conflict
            \<or> (case http of None \<Rightarrow> False
               | Some h \<Rightarrow> h \<ge> 400 \<and> h < 500 \<and> h \<noteq> 409 \<and> h \<noteq> 429)
         then \<lparr>classification = terminal, retryWithSameIdempotencyKey = False\<rparr>
         else if kind = F_rate_limit \<or> http = Some 429
         then \<lparr>classification = retryable, retryWithSameIdempotencyKey = True\<rparr>
         else \<lparr>classification = retryable, retryWithSameIdempotencyKey = True\<rparr>)"

subsection \<open>The abstract workflow: legal edges and their evidence\<close>

definition correction_valid :: "TransitionContext \<Rightarrow> bool" where
  "correction_valid ctx \<longleftrightarrow> (\<exists>co. linkedRefundTerminalCorrection ctx = Some co
     \<and> co_kind co = ''linked_refund_terminal_correction''
     \<and> previousEffectState co = E_identified \<and> nextEffectState co = E_absence_proven
     \<and> previousStripeRefundStatus co = R_succeeded
     \<and> tc_stripeRefundStatus ctx = Some (co_authoritativeStripeRefundStatus co)
     \<and> co_authoritativeStripeRefundStatus co \<in> {R_failed, R_canceled}
     \<and> prefixed_id ''re_'' (co_linkedStripeRefundId co)
     \<and> co_observedStripeRefundId co = co_linkedStripeRefundId co)"

inductive workflow_edge :: "WorkflowStatus \<Rightarrow> TransitionContext \<Rightarrow> WorkflowStatus \<Rightarrow> bool" where
  close_pending: "\<lbrakk>t \<in> {W_approved, W_rejected, W_canceled, W_expired};
     linkedRefundTerminalCorrection ctx = None\<rbrakk> \<Longrightarrow> workflow_edge W_pending_approval ctx t"
| make_stale: "\<lbrakk>w \<in> {W_pending_approval, W_approved}; tc_effectState ctx = E_absence_proven;
     linkedRefundTerminalCorrection ctx = None\<rbrakk> \<Longrightarrow> workflow_edge w ctx W_stale"
| claim: "linkedRefundTerminalCorrection ctx = None \<Longrightarrow> workflow_edge W_approved ctx W_executing"
| reconcile: "linkedRefundTerminalCorrection ctx = None \<Longrightarrow>
     workflow_edge W_executing ctx W_reconciliation_required"
| resume: "\<lbrakk>tc_effectState ctx = E_absence_proven; linkedRefundTerminalCorrection ctx = None\<rbrakk> \<Longrightarrow>
     workflow_edge W_reconciliation_required ctx W_executing"
| succeed: "\<lbrakk>w \<in> {W_executing, W_reconciliation_required}; tc_effectState ctx = E_identified;
     tc_stripeRefundStatus ctx = Some R_succeeded; linkedRefundTerminalCorrection ctx = None\<rbrakk> \<Longrightarrow>
     workflow_edge w ctx W_succeeded"
| fail: "\<lbrakk>w \<in> {W_executing, W_reconciliation_required}; tc_effectState ctx = E_absence_proven;
     linkedRefundTerminalCorrection ctx = None\<rbrakk> \<Longrightarrow> workflow_edge w ctx W_failed_terminal"
| correct: "\<lbrakk>correction_valid ctx; tc_effectState ctx = E_absence_proven\<rbrakk> \<Longrightarrow>
     workflow_edge W_succeeded ctx W_failed_terminal"

inductive_cases edge_from_terminal:
  "workflow_edge W_rejected ctx t" "workflow_edge W_canceled ctx t" "workflow_edge W_expired ctx t"
  "workflow_edge W_stale ctx t" "workflow_edge W_failed_terminal ctx t" "workflow_edge W_succeeded ctx t"

inductive_simps workflow_edge_from [simp]:
  "workflow_edge W_pending_approval ctx t" "workflow_edge W_approved ctx t"
  "workflow_edge W_executing ctx t" "workflow_edge W_reconciliation_required ctx t"
  "workflow_edge W_succeeded ctx t" "workflow_edge W_failed_terminal ctx t"
  "workflow_edge W_rejected ctx t" "workflow_edge W_canceled ctx t"
  "workflow_edge W_expired ctx t" "workflow_edge W_stale ctx t"

lemma transitionEffectState_Inr:
  "transitionEffectState c t ev = Inr r \<longleftrightarrow> r = t \<and> (c = t \<or> t \<in> set (effect_transitions c)
     \<and> (c = E_identified \<and> t = E_absence_proven \<longrightarrow>
          (\<exists>e. ev = Some e \<and> authoritativeStripeRefundStatus e \<in> {R_failed, R_canceled}
             \<and> prefixed_id ''re_'' (linkedStripeRefundId e)
             \<and> observedStripeRefundId e = linkedStripeRefundId e)))"
  by (auto simp: transitionEffectState_def split: option.splits)

lemma check_correction_Inr:
  "check_correction ctx = Inr u \<longleftrightarrow> correction_valid ctx \<and> tc_effectState ctx = E_absence_proven"
proof (cases "linkedRefundTerminalCorrection ctx")
  case None
  then show ?thesis by (simp add: check_correction_def correction_valid_def)
next
  case (Some co)
  have "(case transitionEffectState E_identified E_absence_proven (Some (correction_evidence co)) of
          Inl e \<Rightarrow> Inl e | Inr x \<Rightarrow> Inr ()) = Inr u \<longleftrightarrow>
        transitionEffectState E_identified E_absence_proven (Some (correction_evidence co)) = Inr E_absence_proven"
    using transitionEffectState_Inr [of E_identified E_absence_proven "Some (correction_evidence co)"]
    by (cases "transitionEffectState E_identified E_absence_proven (Some (correction_evidence co))") auto
  then show ?thesis using Some
    by (auto simp: check_correction_def correction_valid_def transitionEffectState_Inr
        correction_evidence_def effect_transitions_def)
qed

lemma transitionWorkflowStatus_Inr:
  "transitionWorkflowStatus c t ctx = Inr r \<longleftrightarrow> r = t \<and> (c = t \<or> workflow_edge c ctx t)"
proof (cases "c = W_succeeded \<and> t = W_failed_terminal")
  case True
  then show ?thesis using check_correction_Inr [of ctx "()"]
    by (cases "check_correction ctx")
      (auto simp: transitionWorkflowStatus_def workflow_transitions_def Let_def)
next
  case False
  then show ?thesis
    by (cases c; cases t) (auto simp: transitionWorkflowStatus_def workflow_transitions_def Let_def)
qed

text \<open>
  C1: the workflow state machine implements its specification. \<open>transitionWorkflowStatus\<close>
  accepts a transition exactly when it is the identity or a legal edge of \<open>workflow_edge\<close> with
  its evidence, and then returns the requested status; every other request is refused with the
  workflow or effect transition error.
\<close>

theorem transitionWorkflowStatus_refines:
  "(transitionWorkflowStatus c t ctx = Inr r \<longleftrightarrow> r = t \<and> (c = t \<or> workflow_edge c ctx t))
   \<and> (transitionWorkflowStatus c t ctx = Inl e \<longrightarrow>
        e \<in> {DomainError INVALID_WORKFLOW_TRANSITION, DomainError INVALID_EFFECT_TRANSITION})"
  using transitionWorkflowStatus_Inr [of c t ctx r]
  by (auto simp: transitionWorkflowStatus_def check_correction_def transitionEffectState_def Let_def
      split: if_splits option.splits sum.splits)

theorem transitionWorkflowStatus_refines_witness:
  "transitionWorkflowStatus W_approved W_executing (standard_context E_not_started) = Inr W_executing
   \<and> transitionWorkflowStatus W_stale W_approved (standard_context E_not_started)
       = Inl (DomainError INVALID_WORKFLOW_TRANSITION)"
  using transitionWorkflowStatus_refines
      [of W_approved W_executing "standard_context E_not_started" W_executing]
    transitionWorkflowStatus_refines
      [of W_stale W_approved "standard_context E_not_started" W_executing "DomainError INVALID_WORKFLOW_TRANSITION"]
  by (simp add: standard_context_def transitionWorkflowStatus_def workflow_transitions_def)

subsection \<open>The lifecycle of a workflow and its approval quorum\<close>

text \<open>
  A workflow is created pending, with a validated quorum and no decision. It then changes by
  the operations above, or, once it is no longer pending, by a legal transition of status and
  effect (execution and reconciliation).
\<close>

inductive lifecycle :: "RefundWorkflow \<Rightarrow> bool" where
  create: "\<lbrakk>status w = W_pending_approval; effectState w = E_not_started; decisions w = [];
     validateRequiredApprovals (requiredApprovals w) = Inr ()\<rbrakk> \<Longrightarrow> lifecycle w"
| decide: "\<lbrakk>lifecycle w; recordDecision w a d at j = Inr w'\<rbrakk> \<Longrightarrow> lifecycle w'"
| cancel: "\<lbrakk>lifecycle w; cancelPendingWorkflow w a = Inr w'\<rbrakk> \<Longrightarrow> lifecycle w'"
| expire: "\<lbrakk>lifecycle w; expirePendingWorkflow w now = Inr w'\<rbrakk> \<Longrightarrow> lifecycle w'"
| correction: "\<lbrakk>lifecycle w; correctLinkedRefundTerminalStatus w obs st = Inr w'\<rbrakk> \<Longrightarrow> lifecycle w'"
| advance: "\<lbrakk>lifecycle w; status w \<noteq> W_pending_approval;
     transitionEffectState (effectState w) e ev = Inr e';
     transitionWorkflowStatus (status w) t \<lparr>tc_effectState = e', tc_stripeRefundStatus = st,
       linkedRefundTerminalCorrection = None\<rparr> = Inr t'\<rbrakk> \<Longrightarrow>
     lifecycle (w\<lparr>status := t', effectState := e', stripeRefundStatus := st\<rparr>)"

definition approvals :: "RefundWorkflow \<Rightarrow> string list" where
  "approvals w = map approverId (filter (\<lambda>d. decision d = D_approve) (decisions w))"

definition past_approval :: "WorkflowStatus \<Rightarrow> bool" where
  "past_approval s \<longleftrightarrow> s \<in> {W_approved, W_executing, W_reconciliation_required, W_succeeded, W_failed_terminal}"

definition decisions_inv :: "RefundWorkflow \<Rightarrow> bool" where
  "decisions_inv w \<longleftrightarrow> 1 \<le> requiredApprovals w
     \<and> distinct (map approverId (decisions w))
     \<and> (\<forall>d \<in> set (decisions w). approverId d \<noteq> requesterId w \<and> decidedAt d < expiresAt w)
     \<and> (status w = W_pending_approval \<longrightarrow> (\<forall>d \<in> set (decisions w). decision d = D_approve)
          \<and> int (length (approvals w)) < requiredApprovals w)
     \<and> (past_approval (status w) \<longrightarrow> (\<forall>d \<in> set (decisions w). decision d = D_approve)
          \<and> int (length (approvals w)) = requiredApprovals w)"

lemma recordDecision_Inr:
  assumes "recordDecision w a d at j = Inr w'"
  shows "status w = W_pending_approval" "at < expiresAt w" "requesterId w \<noteq> a"
    "a \<notin> approverId ` set (decisions w)"
    "d = D_reject \<longrightarrow> (\<exists>t. j = Some t \<and> 10 \<le> length (js_trim t))"
    "w' = w\<lparr>decisions := decisions w @ [\<lparr>approverId = a, decision = d, decidedAt = at\<rparr>],
            status := (if d = D_reject then W_rejected
              else if requiredApprovals w \<le> 1 + int (length (approvals w)) then W_approved
              else W_pending_approval)\<rparr>"
proof -
  have c: "d \<noteq> D_reject \<longleftrightarrow> d = D_approve" by (cases d) auto
  show "status w = W_pending_approval" "at < expiresAt w" "requesterId w \<noteq> a"
    "a \<notin> approverId ` set (decisions w)"
    "d = D_reject \<longrightarrow> (\<exists>t. j = Some t \<and> 10 \<le> length (js_trim t))"
    using assms by (auto simp: recordDecision_def split: if_splits option.splits)
  show "w' = w\<lparr>decisions := decisions w @ [\<lparr>approverId = a, decision = d, decidedAt = at\<rparr>],
            status := (if d = D_reject then W_rejected
              else if requiredApprovals w \<le> 1 + int (length (approvals w)) then W_approved
              else W_pending_approval)\<rparr>"
    using assms
    by (auto simp: recordDecision_def Let_def approvals_def c transitionWorkflowStatus_def
        workflow_transitions_def standard_context_def add.commute
        split: if_splits option.splits sum.splits)
qed

lemma decisions_inv_decide: "recordDecision w a d at j = Inr w' \<Longrightarrow> decisions_inv w \<Longrightarrow> decisions_inv w'"
  using recordDecision_Inr [of w a d at j w'] ApprovalDecisionKind.exhaust [of d]
  by (auto simp: decisions_inv_def approvals_def past_approval_def)

lemma decisions_inv_other:
  assumes "decisions_inv w" and "status w' = status w \<or> (\<exists>ctx. workflow_edge (status w) ctx (status w'))"
    and "status w' \<noteq> W_approved \<or> status w = W_approved" and "requiredApprovals w' = requiredApprovals w"
    and "decisions w' = decisions w" and "requesterId w' = requesterId w" and "expiresAt w' = expiresAt w"
  shows "decisions_inv w'"
  using assms by (cases "status w") (auto simp: decisions_inv_def approvals_def past_approval_def)

lemma lifecycle_decisions_inv: "lifecycle w \<Longrightarrow> decisions_inv w"
proof (induction rule: lifecycle.induct)
  case (create w)
  then show ?case
    by (auto simp: decisions_inv_def approvals_def past_approval_def validateRequiredApprovals_def split: if_splits)
next
  case (decide w a d at j w')
  then show ?case by (blast intro: decisions_inv_decide)
next
  case (cancel w a w')
  then show ?case
    by (intro decisions_inv_other [OF cancel.IH])
      (auto simp: cancelPendingWorkflow_def transitionWorkflowStatus_Inr split: if_splits sum.splits)
next
  case (expire w now w')
  then show ?case
    by (intro decisions_inv_other [OF expire.IH])
      (auto simp: expirePendingWorkflow_def transitionWorkflowStatus_Inr split: if_splits sum.splits)
next
  case (correction w obs st w')
  from correction.hyps have "status w = W_succeeded" "status w' = W_failed_terminal"
    "requiredApprovals w' = requiredApprovals w" "decisions w' = decisions w"
    "requesterId w' = requesterId w" "expiresAt w' = expiresAt w"
    by (auto simp: correctLinkedRefundTerminalStatus_def transitionWorkflowStatus_Inr Let_def
        split: if_splits sum.splits)
  with correction.IH show ?case by (auto simp: decisions_inv_def approvals_def past_approval_def)
next
  case (advance w e ev e' t st t')
  then have edge: "status w = t' \<or> (\<exists>ctx. workflow_edge (status w) ctx t')"
    unfolding transitionWorkflowStatus_Inr by blast
  moreover from edge advance.hyps have "t' \<noteq> W_approved \<or> status w = W_approved"
    by (cases "status w") auto
  ultimately show ?case
    using advance.IH decisions_inv_other
      [of w "w\<lparr>status := t', effectState := e', stripeRefundStatus := st\<rparr>"] by auto
qed

text \<open>
  C2: no workflow gets past approval without its quorum. In every workflow the operations can
  produce, a request that is approved, executing, in reconciliation, succeeded or failed carries
  exactly the required number of approvals, at least one, from pairwise distinct people none of
  whom is the requester, all decided before the expiry, and no rejection.
\<close>

theorem lifecycle_quorum:
  assumes "lifecycle w" and "past_approval (status w)"
  shows "int (length (approvals w)) = requiredApprovals w \<and> 1 \<le> requiredApprovals w
    \<and> distinct (approvals w) \<and> requesterId w \<notin> set (approvals w)
    \<and> (\<forall>d \<in> set (decisions w). decision d = D_approve \<and> decidedAt d < expiresAt w)"
proof -
  have inv: "decisions_inv w" using assms(1) by (rule lifecycle_decisions_inv)
  have "distinct (approvals w)"
    using inv by (auto simp: decisions_inv_def approvals_def distinct_map intro: inj_on_subset)
  with inv assms(2) show ?thesis
    by (auto simp: decisions_inv_def approvals_def)
qed

definition sample_workflow :: RefundWorkflow where
  "sample_workflow = \<lparr>wf_id = ''r1'', requesterId = ''alice'', requiredApprovals = 1, expiresAt = 100,
     status = W_pending_approval, effectState = E_not_started, stripeRefundId = None,
     stripeRefundStatus = None, decisions = []\<rparr>"

definition sample_approved :: RefundWorkflow where
  "sample_approved = sample_workflow\<lparr>status := W_approved,
     decisions := [\<lparr>approverId = ''bob'', decision = D_approve, decidedAt = 5\<rparr>]\<rparr>"

theorem lifecycle_quorum_witness:
  "past_approval (status sample_approved) \<and> int (length (approvals sample_approved)) = 1"
proof -
  have "lifecycle sample_workflow"
    by (rule lifecycle.create) (simp_all add: sample_workflow_def validateRequiredApprovals_def safe_integer_def)
  moreover have "recordDecision sample_workflow ''bob'' D_approve 5 None = Inr sample_approved"
    by (simp add: recordDecision_def sample_workflow_def sample_approved_def transitionWorkflowStatus_def
        workflow_transitions_def standard_context_def)
  ultimately have life: "lifecycle sample_approved" by (rule lifecycle.decide)
  have past: "past_approval (status sample_approved)"
    by (simp add: past_approval_def sample_approved_def)
  show ?thesis using lifecycle_quorum [OF life past] past
    by (simp add: sample_approved_def sample_workflow_def)
qed

text \<open>
  after the effect boundary a provider failure is treated as certain absence (terminal or
  retryable) only for the kinds that report a refused request and only when the HTTP status is
  neither 409 nor a server error; everything else is ambiguous. The same idempotency key is
  reused exactly for the failures that may be retried.
\<close>

lemma classifyRefundFailure_absence:
  "(effectBoundaryCrossed s \<longrightarrow> (classification (classifyRefundFailure s) \<noteq> ambiguous \<longleftrightarrow>
      fs_kind s \<in> {F_rate_limit, F_authentication, F_permission, F_invalid_request, F_not_found}
      \<and> (\<forall>h. httpStatus s = Some h \<longrightarrow> h \<noteq> 409 \<and> h < 500)))
   \<and> (\<not> effectBoundaryCrossed s \<longrightarrow> classification (classifyRefundFailure s) \<noteq> ambiguous)
   \<and> (retryWithSameIdempotencyKey (classifyRefundFailure s) \<longleftrightarrow>
        classification (classifyRefundFailure s) \<noteq> terminal)"
  by (cases "httpStatus s"; cases "fs_kind s") (auto simp: classifyRefundFailure_def Let_def)

end
