(* ===== verification/Access_Policy.thy ===== *)
theory Access_Policy
  imports Domain_Types
begin

text \<open>
  \<open>packages/domain/src/stripe-roles.ts\<close> and \<open>access-policy.ts\<close>: which signed roles count as an
  administrator, and the pilot's access decision.
\<close>

datatype RoleType = builtIn | custom

record StripeRoleIdentity =
  role_id :: "string option"
  role_name :: string
  role_type :: RoleType

definition isStripeAdministratorRole :: "StripeRoleIdentity \<Rightarrow> bool" where
  "isStripeAdministratorRole role =
     (if role_type role \<noteq> builtIn then False
      else case role_id role of
        Some i \<Rightarrow> i \<in> set [''admin'', ''super_admin'']
      | None \<Rightarrow> role_name role \<in> set [''Administrator'', ''Super Administrator''])"

definition hasStripeAdministratorRole :: "StripeRoleIdentity list \<Rightarrow> bool" where
  "hasStripeAdministratorRole roles = list_ex isStripeAdministratorRole roles"

datatype AccessAction =
    A_onboarding | A_settings | A_create_refund_request | A_decide_refund_request
  | A_cancel_refund_request | A_execute_refund | A_read | A_audit_export | A_reconcile | A_receive_webhook

datatype AccessDenialCode =
    TENANT_INACTIVE | INSTALLATION_INACTIVE | PILOT_LIVE_DISABLED | ADMIN_REQUIRED
  | EXPLICIT_APPROVER_REQUIRED

datatype TenantStatus = T_active | T_suspended | T_deauthorized | T_pending_deletion

datatype InstallationStatus = I_active | I_suspended | I_deauthorized

record AccessContext =
  ac_action :: AccessAction
  ac_environment :: StripeEnvironment
  tenantStatus :: TenantStatus
  installationStatus :: InstallationStatus
  globalLiveEnabled :: bool
  tenantLiveEnabled :: bool
  signedStripeRoles :: "StripeRoleIdentity list"
  explicitApprover :: bool

datatype AccessDecision = Allowed | Denied AccessDenialCode

definition authorize :: "AccessContext \<Rightarrow> AccessDecision" where
  "authorize context =
     (if tenantStatus context \<noteq> T_active then Denied TENANT_INACTIVE
      else if installationStatus context \<noteq> I_active then Denied INSTALLATION_INACTIVE
      else if ac_environment context = Env_live then Denied PILOT_LIVE_DISABLED
      else if ac_action context \<in> set [A_onboarding, A_settings]
              \<and> \<not> hasStripeAdministratorRole (signedStripeRoles context) then Denied ADMIN_REQUIRED
      else if ac_action context = A_decide_refund_request \<and> \<not> explicitApprover context
        then Denied EXPLICIT_APPROVER_REQUIRED
      else Allowed)"

lemma hasStripeAdministratorRole_iff:
  "hasStripeAdministratorRole roles \<longleftrightarrow> (\<exists>r \<in> set roles. role_type r = builtIn
      \<and> (role_id r \<in> {Some ''admin'', Some ''super_admin''}
         \<or> role_id r = None \<and> role_name r \<in> {''Administrator'', ''Super Administrator''}))"
proof -
  have "isStripeAdministratorRole r \<longleftrightarrow> role_type r = builtIn
      \<and> (role_id r \<in> {Some ''admin'', Some ''super_admin''}
         \<or> role_id r = None \<and> role_name r \<in> {''Administrator'', ''Super Administrator''})" for r
    by (auto simp: isStripeAdministratorRole_def split: option.splits)
  then show ?thesis by (simp add: hasStripeAdministratorRole_def list_ex_iff)
qed

text \<open>
  The pilot's access decision. An action is allowed exactly on an active tenant and
  installation outside live mode, with a built-in administrator role for onboarding and
  settings and explicit approver status for decisions; a custom role never counts as
  administrator, whatever its name or id, and the two live switches have no influence.
\<close>

lemma authorize_allowed_iff:
  "(authorize c = Allowed \<longleftrightarrow>
      tenantStatus c = T_active \<and> installationStatus c = I_active \<and> ac_environment c \<noteq> Env_live
      \<and> (ac_action c \<in> {A_onboarding, A_settings} \<longrightarrow>
           (\<exists>r \<in> set (signedStripeRoles c). role_type r = builtIn
              \<and> (role_id r \<in> {Some ''admin'', Some ''super_admin''}
                 \<or> role_id r = None \<and> role_name r \<in> {''Administrator'', ''Super Administrator''})))
      \<and> (ac_action c = A_decide_refund_request \<longrightarrow> explicitApprover c))
   \<and> authorize (c\<lparr>globalLiveEnabled := g, tenantLiveEnabled := t\<rparr>) = authorize c"
  unfolding hasStripeAdministratorRole_iff [symmetric] by (auto simp: authorize_def)

end
