(* ===== verification/Encoding.thy ===== *)
theory Encoding
  imports Domain_Types
begin

text \<open>
  The two encodings of the standard library the signed tokens rest on: \<open>JSON.stringify\<close> of an
  array of strings, nulls and integers, and Node's \<open>base64url\<close> encoding and decoding of a
  \<open>Buffer\<close>. The lemmas of interest are injectivity of the first and the round trip of the second.
\<close>

subsection \<open>JSON text of an array\<close>

datatype json_item = JStr string | JNull | JInt int

definition hex_digit :: "nat \<Rightarrow> char" where
  "hex_digit n = (if n < 10 then char_of (48 + n) else char_of (87 + n))"

definition json_escape_char :: "char \<Rightarrow> string" where
  "json_escape_char c =
     (let n = (of_char c :: nat)
      in if n = 34 then [CHR 0x5C, CHR 0x22]
         else if n = 92 then [CHR 0x5C, CHR 0x5C]
         else if n = 8 then [CHR 0x5C, CHR ''b'']
         else if n = 9 then [CHR 0x5C, CHR ''t'']
         else if n = 10 then [CHR 0x5C, CHR ''n'']
         else if n = 12 then [CHR 0x5C, CHR ''f'']
         else if n = 13 then [CHR 0x5C, CHR ''r'']
         else if n < 32 then [CHR 0x5C, CHR ''u'', CHR ''0'', CHR ''0'', hex_digit (n div 16), hex_digit (n mod 16)]
         else [c])"

definition json_string :: "string \<Rightarrow> string" where
  "json_string s = [CHR 0x22] @ concat (map json_escape_char s) @ [CHR 0x22]"

fun json_print :: "json_item \<Rightarrow> string" where
  "json_print (JStr s) = json_string s"
| "json_print JNull = ''null''"
| "json_print (JInt i) = show_int i"

fun json_items :: "json_item list \<Rightarrow> string" where
  "json_items [] = []"
| "json_items [x] = json_print x"
| "json_items (x # xs) = json_print x @ [CHR '',''] @ json_items xs"

definition json_array :: "json_item list \<Rightarrow> string" where
  "json_array xs = [CHR ''[''] @ json_items xs @ [CHR '']'']"

text \<open>
  Injectivity: \<open>unescape1\<close> reads one escaped character back, so escaping is a prefix code that
  never starts with a quote.
\<close>

definition hex_value :: "char \<Rightarrow> nat" where
  "hex_value c = (let n = of_char c in if n < 58 then n - 48 else n - 87)"

fun unescape1 :: "string \<Rightarrow> char \<times> string" where
  "unescape1 (b # e # cs) =
     (if b \<noteq> CHR 0x5C then (b, e # cs)
      else if e = CHR ''b'' then (char_of (8::nat), cs) else if e = CHR ''t'' then (char_of (9::nat), cs)
      else if e = CHR ''n'' then (char_of (10::nat), cs) else if e = CHR ''f'' then (char_of (12::nat), cs)
      else if e = CHR ''r'' then (char_of (13::nat), cs)
      else if e = CHR ''u'' then
        (char_of (16 * hex_value (cs ! 2) + hex_value (cs ! 3)), drop 4 cs)
      else (e, cs))"
| "unescape1 cs = (hd cs, tl cs)"

lemma hex_value_digit: "n < 16 \<Longrightarrow> hex_value (hex_digit n) = n"
  by (auto simp: hex_value_def hex_digit_def Let_def)

lemma unescape1_escape: "unescape1 (json_escape_char c @ cs) = (c, cs)"
proof -
  define n where "n = (of_char c :: nat)"
  then have c: "char_of n = c" by simp
  have e: "json_escape_char c =
     (if n = 34 then [CHR 0x5C, CHR 0x22] else if n = 92 then [CHR 0x5C, CHR 0x5C]
      else if n = 8 then [CHR 0x5C, CHR ''b''] else if n = 9 then [CHR 0x5C, CHR ''t'']
      else if n = 10 then [CHR 0x5C, CHR ''n''] else if n = 12 then [CHR 0x5C, CHR ''f'']
      else if n = 13 then [CHR 0x5C, CHR ''r'']
      else if n < 32 then [CHR 0x5C, CHR ''u'', CHR ''0'', CHR ''0'', hex_digit (n div 16), hex_digit (n mod 16)]
      else [c])"
    by (simp add: json_escape_char_def Let_def n_def)
  consider "n \<in> {34, 92, 8, 9, 10, 12, 13}" | "n < 32" "n \<notin> {34, 92, 8, 9, 10, 12, 13}"
    | "\<not> n < 32" "n \<notin> {34, 92}" by fastforce
  then show ?thesis
  proof cases
    case 1
    moreover have "n = 34 \<Longrightarrow> c = CHR 0x22" "n = 92 \<Longrightarrow> c = CHR 0x5C"
      using of_char_eq_iff [where 'a = nat, of c "CHR 0x22"] of_char_eq_iff [where 'a = nat, of c "CHR 0x5C"]
      by (simp_all add: n_def)
    ultimately show ?thesis using c unfolding e by auto
  next
    case 2
    then have "16 * hex_value (hex_digit (n div 16)) + hex_value (hex_digit (n mod 16)) = n"
      by (simp add: hex_value_digit)
    with 2 c show ?thesis unfolding e by auto
  next
    case 3
    then have "c \<noteq> CHR 0x5C" using n_def by auto
    with 3 show ?thesis unfolding e by (cases cs) auto
  qed
qed

lemma escape_nonempty: "json_escape_char c \<noteq> []"
  by (simp add: json_escape_char_def Let_def)

lemma escape_not_quote: "hd (json_escape_char c) \<noteq> CHR 0x22"
proof -
  have "c \<noteq> CHR 0x22" if "of_char c \<noteq> (34::nat)" using that by auto
  then show ?thesis by (simp add: json_escape_char_def Let_def)
qed

lemma escape_prefix_code:
  "json_escape_char c @ xs = json_escape_char d @ ys \<Longrightarrow> c = d \<and> xs = ys"
  by (metis unescape1_escape prod.inject)

lemma escape_neq_quote: "json_escape_char c @ xs \<noteq> CHR 0x22 # ys"
  using escape_not_quote [of c] escape_nonempty [of c] by (cases "json_escape_char c") auto

lemma escapes_inject:
  "concat (map json_escape_char s) @ CHR 0x22 # r = concat (map json_escape_char t) @ CHR 0x22 # r'
   \<Longrightarrow> s = t \<and> r = r'"
proof (induction s t rule: list_induct2')
  case (2 c s)
  then show ?case using escape_neq_quote [of c "concat (map json_escape_char s) @ CHR 0x22 # r"] by simp
next
  case (3 d t)
  then show ?case using escape_neq_quote [of d "concat (map json_escape_char t) @ CHR 0x22 # r'" r]
    by (metis append.assoc append_Nil concat.simps list.simps(8,9))
next
  case (4 c s d t)
  then show ?case
    using escape_prefix_code [of c "concat (map json_escape_char s) @ CHR 0x22 # r" d
        "concat (map json_escape_char t) @ CHR 0x22 # r'"] by simp
qed simp

text \<open>The shapes of the printed items: what follows an item is a comma or the closing bracket.\<close>

lemma json_string_inject: "json_string s @ r = json_string t @ r' \<Longrightarrow> s = t \<and> r = r'"
  by (auto simp: json_string_def dest: escapes_inject)

definition int_char :: "char \<Rightarrow> bool" where
  "int_char c \<longleftrightarrow> digit c \<or> c = CHR ''-''"

lemma show_int_chars: "list_all int_char (show_int i)" "show_int i \<noteq> []"
  by (auto simp: show_int_def int_char_def list_all_iff dest: show_nat_digit)

lemma takeWhile_sep:
  "list_all P xs \<Longrightarrow> r \<noteq> [] \<Longrightarrow> \<not> P (hd r) \<Longrightarrow> takeWhile P (xs @ r) = xs \<and> dropWhile P (xs @ r) = r"
  by (induction xs) (cases r; auto)+

lemma int_inject:
  assumes "show_int i @ r = show_int j @ r'" and "r \<noteq> []" "r' \<noteq> []"
    and "\<not> int_char (hd r)" "\<not> int_char (hd r')"
  shows "i = j \<and> r = r'"
proof -
  have "show_int i = show_int j \<and> r = r'"
    using takeWhile_sep [OF show_int_chars(1) assms(2,4), of i]
      takeWhile_sep [OF show_int_chars(1) assms(3,5), of j] assms(1) by metis
  then show ?thesis by simp
qed

definition sep :: "string \<Rightarrow> bool" where
  "sep r \<longleftrightarrow> r \<noteq> [] \<and> (hd r = CHR '','' \<or> hd r = CHR '']'')"

lemma sep_not_int: "sep r \<Longrightarrow> r \<noteq> [] \<and> \<not> int_char (hd r)"
  by (auto simp: sep_def int_char_def digit_def in_range_def)

lemma json_print_hd:
  "hd (json_print x) = (case x of JStr _ \<Rightarrow> CHR 0x22 | JNull \<Rightarrow> CHR ''n'' | JInt i \<Rightarrow> hd (show_int i))"
  "json_print x \<noteq> []"
  by (cases x; simp add: json_string_def show_int_chars)+

lemma int_hd: "int_char (hd (show_int i))"
  using show_int_chars [of i] by (cases "show_int i") auto

lemma not_int_chars: "\<not> int_char CHR 0x22" "\<not> int_char CHR ''n''"
  by (auto simp: int_char_def digit_def in_range_def)

lemma json_print_inject:
  assumes "json_print x @ r = json_print y @ r'" and "sep r" and "sep r'"
  shows "x = y \<and> r = r'"
proof -
  have hd: "hd (json_print x) = hd (json_print y)"
    using assms(1) json_print_hd(2) by (metis hd_append2)
  from assms sep_not_int [of r] sep_not_int [of r'] hd int_hd not_int_chars show ?thesis
    by (cases x; cases y)
      (auto simp: json_print_hd simp del: json_print.simps, auto dest: json_string_inject int_inject,
        (metis int_hd)+)
qed

lemma json_items_Cons: "json_items (x # xs) = json_print x @ (if xs = [] then [] else CHR '','' # json_items xs)"
  by (cases xs) auto

lemma json_items_inject:
  assumes "length xs = length ys" and "json_items xs @ [CHR '']''] = json_items ys @ [CHR '']'']"
  shows "xs = ys"
  using assms
proof (induction xs ys rule: list_induct2)
  case Nil
  then show ?case by simp
next
  case (Cons x xs y ys)
  let ?r = "\<lambda>zs. (if zs = [] then [] else CHR '','' # json_items zs) @ [CHR '']'']"
  have sep: "sep (?r zs)" for zs by (simp add: sep_def)
  from Cons.prems have "json_print x @ ?r xs = json_print y @ ?r ys"
    by (simp only: json_items_Cons append_assoc)
  then have "x = y" and "?r xs = ?r ys"
    using json_print_inject [OF _ sep sep] by blast+
  with Cons show ?case by (auto split: if_splits)
qed

lemma json_array_inject: "length xs = length ys \<Longrightarrow> json_array xs = json_array ys \<longleftrightarrow> xs = ys"
  by (auto simp: json_array_def dest: json_items_inject)

subsection \<open>UTF-8\<close>

definition utf8_char :: "char \<Rightarrow> bytes" where
  "utf8_char c = (let n = (of_char c :: nat)
     in if n < 128 then [of_nat n] else [of_nat (192 + n div 64), of_nat (128 + n mod 64)])"

definition utf8 :: "string \<Rightarrow> bytes" where
  "utf8 s = concat (map utf8_char s)"

lemma unat_byte: "n < 256 \<Longrightarrow> unat (of_nat n :: byte) = n"
  by (simp add: unat_of_nat)

lemma of_char_less: "(of_char (c::char) :: nat) < 256"
  using nat_of_char_less_256 [of c] by simp

lemma byte_inject: "m < 256 \<Longrightarrow> n < 256 \<Longrightarrow> (of_nat m :: byte) = of_nat n \<longleftrightarrow> m = n"
  by (metis unat_byte)

lemma utf8_prefix_code:
  assumes "utf8_char c @ xs = utf8_char d @ ys" shows "c = d \<and> xs = ys"
proof -
  define m n where "m = (of_char c :: nat)" and "n = (of_char d :: nat)"
  have b: "m < 256" "n < 256" by (simp_all add: m_def n_def of_char_less)
  from b have lt: "192 + m div 64 < 256" "192 + n div 64 < 256" "128 + m mod 64 < 256" "128 + n mod 64 < 256"
    by (auto simp: less_mult_imp_div_less)
  have eq: "m div 64 = n div 64 \<Longrightarrow> m mod 64 = n mod 64 \<Longrightarrow> m = n"
    by (metis div_mult_mod_eq)
  have small: "k < 128 \<Longrightarrow> k \<noteq> 192 + l" for k l :: nat by simp
  have "m = n \<and> xs = ys"
    using assms b lt eq small byte_inject [of m n] byte_inject [of m "192 + n div 64"] byte_inject [of "192 + m div 64" n]
      byte_inject [of "192 + m div 64" "192 + n div 64"] byte_inject [of "128 + m mod 64" "128 + n mod 64"]
    by (auto simp: utf8_char_def Let_def m_def [symmetric] n_def [symmetric] simp del: of_nat_add split: if_splits)
  then show ?thesis by (auto simp: m_def n_def)
qed

lemma utf8_char_nonempty: "utf8_char c \<noteq> []"
  by (simp add: utf8_char_def Let_def)

lemma utf8_inject [simp]: "utf8 s = utf8 t \<longleftrightarrow> s = t"
proof
  show "utf8 s = utf8 t \<Longrightarrow> s = t"
    by (induction s t rule: list_induct2')
      (auto simp: utf8_def utf8_char_nonempty dest: utf8_prefix_code)
qed simp

subsection \<open>base64url\<close>

definition b64_char :: "nat \<Rightarrow> char" where
  "b64_char n = (if n < 26 then char_of (65 + n) else if n < 52 then char_of (71 + n)
     else if n < 62 then char_of (n - 4) else if n = 62 then CHR ''-'' else CHR ''_'')"

definition b64_value :: "char \<Rightarrow> nat" where
  "b64_value c = (let n = of_char c
     in if 65 \<le> n \<and> n \<le> 90 then n - 65 else if 97 \<le> n \<and> n \<le> 122 then n - 71
        else if 48 \<le> n \<and> n \<le> 57 then n + 4 else if n = 45 then 62 else 63)"

text \<open>The class \<open>[A-Za-z0-9_-]\<close> of the token patterns.\<close>

definition b64_alphabet :: "char \<Rightarrow> bool" where
  "b64_alphabet c \<longleftrightarrow> alnum c \<or> c = CHR ''_'' \<or> c = CHR ''-''"

fun b64_encode :: "bytes \<Rightarrow> string" where
  "b64_encode [] = []"
| "b64_encode [a] = [b64_char (unat a div 4), b64_char (unat a mod 4 * 16)]"
| "b64_encode [a, b] = [b64_char (unat a div 4), b64_char (unat a mod 4 * 16 + unat b div 16),
     b64_char (unat b mod 16 * 4)]"
| "b64_encode (a # b # c # bs) = [b64_char (unat a div 4), b64_char (unat a mod 4 * 16 + unat b div 16),
     b64_char (unat b mod 16 * 4 + unat c div 64), b64_char (unat c mod 64)] @ b64_encode bs"

text \<open>
  \<open>Buffer.from(s, "base64url")\<close>, on strings of the alphabet: a last incomplete group of two or
  three characters gives one or two bytes and its left-over low bits are dropped.
\<close>

fun b64_decode :: "string \<Rightarrow> bytes" where
  "b64_decode (p # q # r # t # cs) =
     [of_nat (b64_value p * 4 + b64_value q div 16),
      of_nat (b64_value q mod 16 * 16 + b64_value r div 4),
      of_nat (b64_value r mod 4 * 64 + b64_value t)] @ b64_decode cs"
| "b64_decode [p, q, r] = [of_nat (b64_value p * 4 + b64_value q div 16),
      of_nat (b64_value q mod 16 * 16 + b64_value r div 4)]"
| "b64_decode [p, q] = [of_nat (b64_value p * 4 + b64_value q div 16)]"
| "b64_decode [p] = []"
| "b64_decode [] = []"

lemma b64_value_char: "n < 64 \<Longrightarrow> b64_value (b64_char n) = n"
  by (auto simp: b64_value_def b64_char_def Let_def)

lemma b64_char_alphabet: "b64_alphabet (b64_char n)"
  by (auto simp: b64_alphabet_def b64_char_def alnum_def lower_alpha_def digit_def in_range_def)

lemma byte_unat: "unat (a::byte) < 256"
  using unsigned_less [of a] by simp

lemma b64_groups:
  assumes "a < 256" "b < 256" "c < (256::nat)"
  shows "a div 4 < 64" "a mod 4 * 16 < 64" "a mod 4 * 16 + b div 16 < 64" "b mod 16 * 4 < 64"
    "b mod 16 * 4 + c div 64 < 64" "c mod 64 < 64"
    "a div 4 * 4 + (a mod 4 * 16) div 16 = a" "a div 4 * 4 + (a mod 4 * 16 + b div 16) div 16 = a"
    "(a mod 4 * 16 + b div 16) mod 16 * 16 + (b mod 16 * 4) div 4 = b"
    "(a mod 4 * 16 + b div 16) mod 16 * 16 + (b mod 16 * 4 + c div 64) div 4 = b"
    "(b mod 16 * 4 + c div 64) mod 4 * 64 + c mod 64 = c"
proof -
  have r: "a div 4 < 64" "b div 16 < 16" "c div 64 < 4" "a mod 4 < 4" "b mod 16 < 16" "c mod 64 < 64"
    using assms by (auto simp: less_mult_imp_div_less)
  then show "a div 4 < 64" "a mod 4 * 16 < 64" "a mod 4 * 16 + b div 16 < 64" "b mod 16 * 4 < 64"
    "b mod 16 * 4 + c div 64 < 64" "c mod 64 < 64" by linarith+
  show "a div 4 * 4 + (a mod 4 * 16) div 16 = a" "a div 4 * 4 + (a mod 4 * 16 + b div 16) div 16 = a"
    "(a mod 4 * 16 + b div 16) mod 16 * 16 + (b mod 16 * 4) div 4 = b"
    "(a mod 4 * 16 + b div 16) mod 16 * 16 + (b mod 16 * 4 + c div 64) div 4 = b"
    "(b mod 16 * 4 + c div 64) mod 4 * 64 + c mod 64 = c"
    using r by (simp_all add: div_mult_mod_eq)
qed

lemma b64_decode_encode [simp]: "b64_decode (b64_encode bs) = bs"
proof (induction bs rule: b64_encode.induct)
  case (2 a)
  show ?case using b64_groups [OF byte_unat [of a] byte_unat [of a] byte_unat [of a]]
    by (simp add: b64_value_char del: of_nat_add of_nat_mult)
next
  case (3 a b)
  show ?case using b64_groups [OF byte_unat [of a] byte_unat [of b] byte_unat [of b]]
    by (simp add: b64_value_char del: of_nat_add of_nat_mult)
next
  case (4 a b c bs)
  then show ?case using b64_groups [OF byte_unat [of a] byte_unat [of b] byte_unat [of c]]
    by (simp add: b64_value_char del: of_nat_add of_nat_mult)
qed simp

lemma b64_encode_inject [simp]: "b64_encode as = b64_encode bs \<longleftrightarrow> as = bs"
  by (metis b64_decode_encode)

lemma b64_encode_alphabet: "list_all b64_alphabet (b64_encode bs)"
  by (induction bs rule: b64_encode.induct) (auto simp: b64_char_alphabet)

lemma b64_encode_length: "length (b64_encode bs) = (length bs * 4 + 2) div 3"
  by (induction bs rule: b64_encode.induct) auto

subsection \<open>ISO instants\<close>

text \<open>
  The proleptic Gregorian calendar of \<open>Date\<close>: the day number (days since 1970-01-01) of a civil
  date and back, with March as the first month so that the leap day comes last.
\<close>

definition days_from_civil :: "int \<Rightarrow> int \<Rightarrow> int \<Rightarrow> int" where
  "days_from_civil y m d =
     (let y' = (if m \<le> 2 then y - 1 else y); era = y' div 400; yoe = y' mod 400;
          doy = (153 * ((m + 9) mod 12) + 2) div 5 + d - 1
      in era * 146097 + (yoe * 365 + yoe div 4 - yoe div 100 + doy) - 719468)"

definition civil_from_days :: "int \<Rightarrow> int \<times> int \<times> int" where
  "civil_from_days z0 =
     (let z = z0 + 719468; era = z div 146097; doe = z mod 146097;
          yoe = (doe - doe div 1460 + doe div 36524 - doe div 146096) div 365;
          doy = doe - (365 * yoe + yoe div 4 - yoe div 100);
          mp = (5 * doy + 2) div 153;
          d = doy - (153 * mp + 2) div 5 + 1;
          m = (if mp < 10 then mp + 3 else mp - 9)
      in (yoe + era * 400 + (if m \<le> 2 then 1 else 0), m, d))"

definition pad_int :: "nat \<Rightarrow> int \<Rightarrow> string" where
  "pad_int w n = (let s = show_int n in replicate (w - length s) CHR ''0'' @ s)"

text \<open>\<open>Date.prototype.toISOString\<close> on a valid date: years outside 0 to 9999 take a sign and six digits.\<close>

definition iso_year :: "int \<Rightarrow> string" where
  "iso_year y = (if 0 \<le> y \<and> y \<le> 9999 then pad_int 4 y
     else if y < 0 then CHR ''-'' # pad_int 6 (- y) else CHR ''+'' # pad_int 6 y)"

definition toISOString :: "date \<Rightarrow> string" where
  "toISOString t =
     (let (y, m, d) = civil_from_days (t div 86400000); ms = t mod 86400000
      in iso_year y @ ''-'' @ pad_int 2 m @ ''-'' @ pad_int 2 d @ ''T''
         @ pad_int 2 (ms div 3600000) @ '':'' @ pad_int 2 (ms div 60000 mod 60) @ '':''
         @ pad_int 2 (ms div 1000 mod 60) @ ''.'' @ pad_int 3 (ms mod 1000) @ ''Z'')"

definition iso_classes :: "(char \<Rightarrow> bool) list" where
  "iso_classes = replicate 4 digit @ [(=) CHR ''-''] @ replicate 2 digit @ [(=) CHR ''-''] @ replicate 2 digit
     @ [(=) CHR ''T''] @ replicate 2 digit @ [(=) CHR '':''] @ replicate 2 digit @ [(=) CHR '':''] @ replicate 2 digit
     @ [(=) CHR ''.''] @ replicate 3 digit @ [(=) CHR ''Z'']"

definition iso_field :: "nat \<Rightarrow> nat \<Rightarrow> string \<Rightarrow> int" where
  "iso_field pos len s = int (read_nat 0 (take len (drop pos s)))"

text \<open>
  The time value of a string of the pattern \<open>YYYY-MM-DDThh:mm:ss.sssZ\<close>, from its fields; the
  caller compares the printed instant with the text, which refuses out-of-range fields.
\<close>

definition iso_time :: "string \<Rightarrow> date" where
  "iso_time s = days_from_civil (iso_field 0 4 s) (iso_field 5 2 s) (iso_field 8 2 s) * 86400000
     + iso_field 11 2 s * 3600000 + iso_field 14 2 s * 60000 + iso_field 17 2 s * 1000 + iso_field 20 3 s"

end
