(* ===== verification/Tokens.thy ===== *)
theory Tokens
  imports Money Encoding
begin

text \<open>
  What the three keyrings of \<open>packages/domain/src\<close> share: versioned secrets, the version
  patterns, the construction of the verification-key map and the token format
  \<open>version.base64url\<close>. The locale \<open>token_format\<close> states what the signing code relies on of a
  version pattern; it is interpreted on the patterns of both keyrings.
\<close>

record VersionedSecret =
  vs_version :: string
  vs_key :: bytes

text \<open>\<open>/^v[1-9]\d*$/u\<close>\<close>

definition version_pattern :: "string \<Rightarrow> bool" where
  "version_pattern s = (case s of
     v # c # cs \<Rightarrow> v = CHR ''v'' \<and> in_range CHR ''1'' CHR ''9'' c \<and> list_all digit cs
   | _ \<Rightarrow> False)"

text \<open>\<open>/^v[1-9]\d{0,8}$/u\<close>\<close>

definition version_pattern_9 :: "string \<Rightarrow> bool" where
  "version_pattern_9 s \<longleftrightarrow> version_pattern s \<and> length s \<le> 10"

text \<open>
  \<open>/^(version)\.([A-Za-z0-9_-]{43})$/u\<close> with its two groups: neither a version nor the
  base64url alphabet has a dot, so the groups are what stands before and after the first dot.
\<close>

definition parse_token :: "(string \<Rightarrow> bool) \<Rightarrow> string \<Rightarrow> (string \<times> string) option" where
  "parse_token version_ok token =
     (let version = takeWhile (\<lambda>c. c \<noteq> CHR ''.'') token;
          rest = dropWhile (\<lambda>c. c \<noteq> CHR ''.'') token
      in if rest \<noteq> [] \<and> version_ok version \<and> length (tl rest) = 43 \<and> list_all b64_alphabet (tl rest)
         then Some (version, tl rest) else None)"

definition format_token :: "string \<Rightarrow> bytes \<Rightarrow> string" where
  "format_token version dig = version @ [CHR ''.''] @ b64_encode dig"

text \<open>
  The loop over \<open>Object.entries(keys.verificationOnly)\<close> that both constructors run:
  \<open>validate\<close> is the class's secret check and \<open>e\<close> the error it throws for a version that is also
  the active one. The entries come in the object's order.
\<close>

fun add_verification_keys ::
  "(VersionedSecret \<Rightarrow> err + unit) \<Rightarrow> err \<Rightarrow> string \<Rightarrow> (string \<times> bytes) list \<Rightarrow> (string \<rightharpoonup> bytes)
   \<Rightarrow> err + (string \<rightharpoonup> bytes)" where
  "add_verification_keys validate e active [] m = Inr m"
| "add_verification_keys validate e active ((version, key) # rest) m =
     (case validate \<lparr>vs_version = version, vs_key = key\<rparr> of Inl err \<Rightarrow> Inl err
      | Inr _ \<Rightarrow> if version = active then Inl e
                 else add_verification_keys validate e active rest (m(version \<mapsto> key)))"

lemma add_verification_keys_Inr:
  assumes "add_verification_keys validate e active ks m = Inr m'"
  shows "m' = m ++ map_of (rev ks)
    \<and> (\<forall>(v, k) \<in> set ks. v \<noteq> active \<and> (\<exists>u. validate \<lparr>vs_version = v, vs_key = k\<rparr> = Inr u))"
  using assms
  by (induction validate e active ks m rule: add_verification_keys.induct)
    (auto simp: map_add_def fun_eq_iff split: sum.splits if_splits option.splits)

lemma add_verification_keys_active:
  "add_verification_keys validate e active ks m = Inr m' \<Longrightarrow> m' active = m active"
  by (induction validate e active ks m rule: add_verification_keys.induct) (auto split: sum.splits if_splits)

text \<open>The contract between a version pattern and the token format.\<close>

locale token_format =
  fixes version_ok :: "string \<Rightarrow> bool"
  assumes no_dot: "version_ok v \<Longrightarrow> CHR ''.'' \<notin> set v"
begin

lemma split_dot:
  assumes "CHR ''.'' \<notin> set v"
  shows "takeWhile (\<lambda>c. c \<noteq> CHR ''.'') (v @ CHR ''.'' # s) = v
    \<and> dropWhile (\<lambda>c. c \<noteq> CHR ''.'') (v @ CHR ''.'' # s) = CHR ''.'' # s"
  using assms by (induction v) auto

lemma parse_token_Some:
  "parse_token version_ok token = Some (v, s) \<longleftrightarrow>
     token = v @ CHR ''.'' # s \<and> version_ok v \<and> length s = 43 \<and> list_all b64_alphabet s"
proof
  assume p: "parse_token version_ok token = Some (v, s)"
  then have d: "dropWhile (\<lambda>c. c \<noteq> CHR ''.'') token = CHR ''.'' # s"
    using hd_dropWhile [of "\<lambda>c. c \<noteq> CHR ''.''" token]
    by (cases "dropWhile (\<lambda>c. c \<noteq> CHR ''.'') token") (auto simp: parse_token_def Let_def split: if_splits)
  have "token = takeWhile (\<lambda>c. c \<noteq> CHR ''.'') token @ dropWhile (\<lambda>c. c \<noteq> CHR ''.'') token" by simp
  with p d show "token = v @ CHR ''.'' # s \<and> version_ok v \<and> length s = 43 \<and> list_all b64_alphabet s"
    by (auto simp: parse_token_def Let_def split: if_splits)
next
  assume "token = v @ CHR ''.'' # s \<and> version_ok v \<and> length s = 43 \<and> list_all b64_alphabet s"
  then show "parse_token version_ok token = Some (v, s)"
    using split_dot [OF no_dot, of v s] by (simp add: parse_token_def Let_def)
qed

lemma parse_format:
  "version_ok v \<Longrightarrow> length d = 32 \<Longrightarrow> parse_token version_ok (format_token v d) = Some (v, b64_encode d)"
  by (simp add: parse_token_Some format_token_def b64_encode_length b64_encode_alphabet)

end

lemma version_pattern_no_dot: "version_pattern v \<Longrightarrow> CHR ''.'' \<notin> set v"
  by (auto simp: version_pattern_def list_all_iff digit_def in_range_def split: list.splits)

interpretation proof_token: token_format version_pattern
  by unfold_locales (rule version_pattern_no_dot)

interpretation attestation_token: token_format version_pattern_9
  by unfold_locales (simp add: version_pattern_9_def version_pattern_no_dot)

end
