(* ===== verification/Refund_Proof.thy ===== *)
theory Refund_Proof
  imports Tokens
begin

text \<open>
  \<open>packages/domain/src/refund-proof.ts\<close>: the signed proof that ties a Stripe refund to a request,
  the classification of refund evidence and the idempotency key of the refund call. HMAC-SHA256
  of Node's crypto is the parameter \<open>hmac\<close> (key, message); the only fact used of it is that a
  digest has 32 bytes. Security statements are reductions: a proof that verifies for two
  different payloads exhibits a collision of \<open>hmac\<close>.
\<close>

record RefundProofPayload =
  rp_tenantId :: string
  rp_stripeAccountId :: string
  rp_requestId :: string
  rp_paymentKey :: string
  rp_amountMinor :: int
  rp_currency :: string
  rp_environment :: StripeEnvironment

record RefundProofKeys =
  rk_active :: VersionedSecret
  rk_verificationOnly :: "(string \<times> bytes) list"

definition validateSecret :: "VersionedSecret \<Rightarrow> err + unit" where
  "validateSecret secret =
     (if \<not> version_pattern (vs_version secret) \<or> length (vs_key secret) < 32
      then Inl (DomainError INVALID_PROOF) else Inr ())"

definition proof_fields :: "RefundProofPayload \<Rightarrow> string \<Rightarrow> string list" where
  "proof_fields payload currency =
     [rp_tenantId payload, rp_stripeAccountId payload, rp_requestId payload, rp_paymentKey payload,
      show_int (rp_amountMinor payload), currency, env_name (rp_environment payload)]"

definition canonicalProofPayload :: "RefundProofPayload \<Rightarrow> err + string" where
  "canonicalProofPayload payload =
     (case assertPositiveMinorAmount (rp_amountMinor payload) of Inl e \<Rightarrow> Inl e
      | Inr _ \<Rightarrow> (case normalizeCurrency (rp_currency payload) of Inl e \<Rightarrow> Inl e
        | Inr currency \<Rightarrow>
            (let fields = proof_fields payload currency
             in if list_ex (\<lambda>f. length f = 0) fields then Inl (DomainError INVALID_PROOF)
                else Inr (json_array (map JStr fields)))))"

definition proof_digest :: "(bytes \<Rightarrow> bytes \<Rightarrow> bytes) \<Rightarrow> RefundProofPayload \<Rightarrow> bytes \<Rightarrow> err + bytes" where
  "proof_digest hmac payload key =
     (case canonicalProofPayload payload of Inl e \<Rightarrow> Inl e | Inr text \<Rightarrow> Inr (hmac key (utf8 text)))"

record RefundProofKeyring =
  kr_active :: VersionedSecret
  kr_verificationKeys :: "string \<rightharpoonup> bytes"

definition newRefundProofKeyring :: "RefundProofKeys \<Rightarrow> err + RefundProofKeyring" where
  "newRefundProofKeyring keys =
     (case validateSecret (rk_active keys) of Inl e \<Rightarrow> Inl e
      | Inr _ \<Rightarrow> (case add_verification_keys validateSecret (DomainError INVALID_PROOF)
            (vs_version (rk_active keys)) (rk_verificationOnly keys)
            [vs_version (rk_active keys) \<mapsto> vs_key (rk_active keys)] of
          Inl e \<Rightarrow> Inl e
        | Inr verificationKeys \<Rightarrow>
            Inr \<lparr>kr_active = rk_active keys, kr_verificationKeys = verificationKeys\<rparr>))"

definition sign :: "(bytes \<Rightarrow> bytes \<Rightarrow> bytes) \<Rightarrow> RefundProofKeyring \<Rightarrow> RefundProofPayload \<Rightarrow> err + string" where
  "sign hmac kr payload =
     (case proof_digest hmac payload (vs_key (kr_active kr)) of Inl e \<Rightarrow> Inl e
      | Inr d \<Rightarrow> Inr (format_token (vs_version (kr_active kr)) d))"

definition verify ::
  "(bytes \<Rightarrow> bytes \<Rightarrow> bytes) \<Rightarrow> RefundProofKeyring \<Rightarrow> RefundProofPayload \<Rightarrow> string \<Rightarrow> err + bool" where
  "verify hmac kr payload token =
     (case parse_token version_pattern token of None \<Rightarrow> Inr False
      | Some (version, encodedDigest) \<Rightarrow>
          (case kr_verificationKeys kr version of None \<Rightarrow> Inr False
           | Some key \<Rightarrow>
               (let supplied = b64_decode encodedDigest
                in case proof_digest hmac payload key of Inl e \<Rightarrow> Inl e
                   | Inr expected \<Rightarrow> Inr (length supplied = length expected \<and> supplied = expected))))"

datatype RefundEvidenceClassification =
    C_external | C_tampered | C_workflow_candidate | C_workflow_refund | C_proof_replay

record RefundEvidenceInput =
  candidateRefundId :: string
  metadataRequestId :: "string option"
  metadataProof :: "string option"
  expectedRequestId :: string
  proofValid :: bool
  linkedRefundId :: "string option"

definition classifyRefundEvidence :: "RefundEvidenceInput \<Rightarrow> RefundEvidenceClassification" where
  "classifyRefundEvidence evidence =
     (if metadataRequestId evidence = None \<or> metadataProof evidence = None then C_external
      else if metadataRequestId evidence \<noteq> Some (expectedRequestId evidence) \<or> \<not> proofValid evidence
        then C_tampered
      else if linkedRefundId evidence = None then C_workflow_candidate
      else if linkedRefundId evidence = Some (candidateRefundId evidence) then C_workflow_refund
      else C_proof_replay)"

definition refundIdempotencyKey :: "string \<Rightarrow> err + string" where
  "refundIdempotencyKey requestId =
     (if \<not> uuid_nocase requestId then Inl (DomainError INVALID_PROOF)
      else Inr (''refunddesk:refund-request:'' @ js_lower requestId @ '':v1''))"

subsection \<open>Keyrings\<close>

lemma newRefundProofKeyring_Inr:
  assumes "newRefundProofKeyring keys = Inr kr"
  shows "kr_active kr = rk_active keys" "version_pattern (vs_version (kr_active kr))"
    "kr_verificationKeys kr (vs_version (kr_active kr)) = Some (vs_key (kr_active kr))"
  using assms
  by (auto simp: newRefundProofKeyring_def validateSecret_def dest!: add_verification_keys_active
      split: sum.splits if_splits)

subsection \<open>Proofs\<close>

lemma canonicalProofPayload_inject:
  assumes "canonicalProofPayload p = Inr s" and "canonicalProofPayload q = Inr s"
  shows "q = p\<lparr>rp_currency := rp_currency q\<rparr> \<and> normalizeCurrency (rp_currency p) = normalizeCurrency (rp_currency q)"
proof -
  obtain c d where c: "normalizeCurrency (rp_currency p) = Inr c" "normalizeCurrency (rp_currency q) = Inr d"
    and eq: "json_array (map JStr (proof_fields p c)) = json_array (map JStr (proof_fields q d))"
    using assms by (auto simp: canonicalProofPayload_def Let_def split: sum.splits if_splits)
  have "map JStr (proof_fields p c) = map JStr (proof_fields q d)"
    using eq by (subst (asm) json_array_inject) (simp_all add: proof_fields_def)
  with c show ?thesis
    by (auto simp: proof_fields_def intro!: RefundProofPayload.equality)
qed

lemma verify_True:
  "verify hmac kr p token = Inr True \<longleftrightarrow>
     (\<exists>v s k d. token = v @ CHR ''.'' # s \<and> version_pattern v \<and> length s = 43 \<and> list_all b64_alphabet s
        \<and> kr_verificationKeys kr v = Some k \<and> proof_digest hmac p k = Inr d \<and> b64_decode s = d)"
proof (cases "parse_token version_pattern token")
  case None
  then show ?thesis
    using proof_token.parse_token_Some [of token] by (auto simp: verify_def)
next
  case (Some vs)
  obtain v s where vs: "vs = (v, s)" by (cases vs)
  with Some have t: "token = v @ CHR ''.'' # s" "version_pattern v" "length s = 43" "list_all b64_alphabet s"
    by (simp_all add: proof_token.parse_token_Some)
  have "v' = v \<and> s' = s" if "token = v' @ CHR ''.'' # s'" "version_pattern v'" "length s' = 43"
    "list_all b64_alphabet s'" for v' s'
    using that Some vs by (simp add: proof_token.parse_token_Some [THEN iffD2])
  then show ?thesis using Some vs t
    by (auto simp: verify_def Let_def split: option.splits sum.splits)
qed

lemma b64_decode_malleable:
  "length bs mod 3 = 2 \<Longrightarrow> \<exists>s. s \<noteq> b64_encode bs \<and> length s = length (b64_encode bs)
     \<and> list_all b64_alphabet s \<and> b64_decode s = bs"
proof (induction bs rule: b64_encode.induct)
  case (3 a b)
  let ?s = "[b64_char (unat a div 4), b64_char (unat a mod 4 * 16 + unat b div 16),
     b64_char (unat b mod 16 * 4 + 1)]"
  note g = b64_groups [OF byte_unat [of a] byte_unat [of b] byte_unat [of b]]
  have l: "unat b mod 16 < 16" by simp
  then have lt: "unat b mod 16 * 4 + 1 < 64" by linarith
  have q: "Suc (unat b mod 16 * 4) div 4 = unat b mod 16"
    "unat b div 16 mod 16 * 16 + unat b mod 16 = unat b"
    using byte_unat [of b] div_mult_mod_eq [of "unat b" 16] less_mult_imp_div_less [of "unat b" 16 16] by simp_all
  have "b64_value (b64_char (unat b mod 16 * 4 + 1)) \<noteq> b64_value (b64_char (unat b mod 16 * 4))"
    using lt by (simp add: b64_value_char)
  then have "?s \<noteq> b64_encode [a, b]" by auto
  moreover have "b64_decode ?s = [a, b]"
    using g lt q by (simp add: b64_value_char del: of_nat_add of_nat_mult)
  ultimately show ?case by (intro exI [of _ ?s]) (simp add: b64_char_alphabet)
next
  case (4 a b c bs)
  then obtain s where s: "s \<noteq> b64_encode bs" "length s = length (b64_encode bs)"
    "list_all b64_alphabet s" "b64_decode s = bs" by auto
  let ?h = "[b64_char (unat a div 4), b64_char (unat a mod 4 * 16 + unat b div 16),
     b64_char (unat b mod 16 * 4 + unat c div 64), b64_char (unat c mod 64)]"
  have "b64_decode (?h @ s) = a # b # c # bs"
    using s b64_groups [OF byte_unat [of a] byte_unat [of b] byte_unat [of c]]
    by (simp add: b64_value_char del: of_nat_add of_nat_mult)
  with s show ?case by (intro exI [of _ "?h @ s"]) (simp add: b64_char_alphabet)
qed auto


definition zero_hmac :: "bytes \<Rightarrow> bytes \<Rightarrow> bytes" where
  "zero_hmac k m = take 32 (m @ replicate 32 0)"

definition sample_keys :: RefundProofKeys where
  "sample_keys = \<lparr>rk_active = \<lparr>vs_version = ''v1'', vs_key = replicate 32 0\<rparr>, rk_verificationOnly = []\<rparr>"

definition sample_keyring :: RefundProofKeyring where
  "sample_keyring = \<lparr>kr_active = \<lparr>vs_version = ''v1'', vs_key = replicate 32 0\<rparr>,
     kr_verificationKeys = [''v1'' \<mapsto> replicate 32 0]\<rparr>"

definition sample_proof_payload :: RefundProofPayload where
  "sample_proof_payload = \<lparr>rp_tenantId = ''t'', rp_stripeAccountId = ''acct_1'', rp_requestId = ''r'',
     rp_paymentKey = ''pi_1'', rp_amountMinor = 5, rp_currency = ''eur'', rp_environment = Env_test\<rparr>"

lemma sample_keyring_new: "newRefundProofKeyring sample_keys = Inr sample_keyring"
  by (simp add: newRefundProofKeyring_def sample_keys_def sample_keyring_def validateSecret_def
      version_pattern_def in_range_def)

lemma sample_signs: "\<exists>token. sign zero_hmac sample_keyring sample_proof_payload = Inr token"
  by (simp add: sign_def proof_digest_def canonicalProofPayload_def sample_proof_payload_def
      assertPositiveMinorAmount_def normalizeCurrency_def js_lower_def js_trim_def js_space_def
      js_lower_char_def currency_pattern_def lower_alpha_def in_range_def proof_fields_def Let_def
      show_int_def)

lemma zero_hmac_length: "length (zero_hmac k m) = 32"
  by (simp add: zero_hmac_def)


text \<open>
  Proofs are malleable. For every payload a keyring signs there is a second, different
  string that the same keyring also accepts as its proof: the decoder drops the two unused bits
  of the last character and the code, unlike the approval attestations, does not compare the
  re-encoded digest with the supplied text.
\<close>

lemma proof_malleable:
  assumes hmac_length: "\<And>k m. length (hmac k m) = 32"
    and "newRefundProofKeyring keys = Inr kr" and "sign hmac kr p = Inr token"
  shows "\<exists>token'. token' \<noteq> token \<and> verify hmac kr p token' = Inr True"
proof -
  obtain d where d: "proof_digest hmac p (vs_key (kr_active kr)) = Inr d"
    "token = format_token (vs_version (kr_active kr)) d"
    using assms(3) by (auto simp: sign_def split: sum.splits)
  then have len: "length d = 32" by (auto simp: proof_digest_def hmac_length split: sum.splits)
  then obtain s where s: "s \<noteq> b64_encode d" "length s = 43" "list_all b64_alphabet s" "b64_decode s = d"
    using b64_decode_malleable [of d] by (auto simp: b64_encode_length)
  let ?t = "vs_version (kr_active kr) @ CHR ''.'' # s"
  have "verify hmac kr p ?t = Inr True"
    using newRefundProofKeyring_Inr [OF assms(2)] d s by (auto simp: verify_True)
  moreover have "?t \<noteq> token" using d s by (simp add: format_token_def)
  ultimately show ?thesis by blast
qed

text \<open>
  the idempotency key of the refund call is defined exactly for UUIDs and identifies the
  request up to letter case: two valid request ids share a key only if they are the same UUID.
\<close>

lemma refundIdempotencyKey_inject:
  "(\<exists>k. refundIdempotencyKey a = Inr k) = uuid_nocase a
   \<and> (refundIdempotencyKey a = Inr k \<and> refundIdempotencyKey b = Inr k \<longrightarrow> js_lower a = js_lower b)
   \<and> (uuid_strict a \<and> uuid_strict b \<and> refundIdempotencyKey a = refundIdempotencyKey b \<longrightarrow> a = b)"
  by (auto simp: refundIdempotencyKey_def)

definition sample_uuid :: string where
  "sample_uuid = ''00000000-0000-4000-8000-000000000001''"

lemma sample_uuid_strict: "uuid_strict sample_uuid"
  by (simp add: sample_uuid_def uuid_strict_def uuid_classes_def list_match_def hex_lower_def digit_def
      in_range_def numeral_nat)

end
