(* ===== verification/Approval_Attestation.thy ===== *)
theory Approval_Attestation
  imports Tokens
begin

text \<open>
  \<open>packages/domain/src/approval-attestation.ts\<close>: the signed attestation of one approval. The
  payload is validated field by field and serialised; the token is \<open>version.base64url(hmac)\<close>.
  HMAC-SHA256 is the parameter \<open>hmac\<close>, as in \<open>Refund_Proof\<close>. The branches of the source that only
  guard against values outside the TypeScript types (a resource type other than the two, an
  amount that is not a bigint, a reason outside the union) have no counterpart.
\<close>

datatype AttestationResourceType = RT_payment_intent | RT_charge

definition resource_type_name :: "AttestationResourceType \<Rightarrow> string" where
  "resource_type_name r = (case r of RT_payment_intent \<Rightarrow> ''payment_intent'' | RT_charge \<Rightarrow> ''charge'')"

record ApprovalAttestationPayload =
  aap_canonicalRequestHash :: bytes
  aap_requestNonce :: string
  aap_tenantId :: string
  aap_installationId :: string
  aap_stripeAccountId :: string
  aap_environment :: StripeEnvironment
  aap_resourceType :: AttestationResourceType
  aap_resourceId :: string
  aap_requestId :: string
  aap_requestVersion :: int
  aap_approverUserId :: string
  aap_requesterUserId :: string
  aap_approverStripeUserId :: string
  aap_requesterStripeUserId :: string
  aap_paymentKey :: string
  aap_paymentIntentId :: "string option"
  aap_chargeId :: string
  aap_amountMinor :: int
  aap_currency :: string
  aap_reason :: RefundReason
  aap_policyVersion :: int
  aap_requiredApprovals :: int
  aap_expiresAt :: string
  aap_verifiedAt :: string
  aap_consumeBefore :: string

record ApprovalAttestationKeys =
  aak_active :: VersionedSecret
  aak_verificationOnly :: "(string \<times> bytes) list"

definition invalidAttestation :: err where
  "invalidAttestation = DomainError INVALID_APPROVAL_ATTESTATION"

definition DOMAIN_SEPARATOR :: bytes where
  "DOMAIN_SEPARATOR = utf8 (''refunddesk'' @ [CHR 0x00] @ ''approval-attestation'' @ [CHR 0x00]
     @ ''payload-v1'' @ [CHR 0x00])"

definition validateAttestationSecret :: "VersionedSecret \<Rightarrow> err + unit" where
  "validateAttestationSecret secret =
     (if \<not> version_pattern_9 (vs_version secret) \<or> length (vs_key secret) < 32
      then Inl invalidAttestation else Inr ())"

definition boundedMatch :: "string \<Rightarrow> (string \<Rightarrow> bool) \<Rightarrow> nat \<Rightarrow> bool" where
  "boundedMatch value pattern maximumLength \<longleftrightarrow> length value \<le> maximumLength \<and> pattern value"

definition parseCanonicalInstant :: "string \<Rightarrow> err + date" where
  "parseCanonicalInstant value =
     (if \<not> list_match iso_classes value \<or> toISOString (iso_time value) \<noteq> value
      then Inl invalidAttestation else Inr (iso_time value))"

text \<open>The identifier checks of \<open>canonicalPayload\<close>, lines 99 to 146 of the source, in order.\<close>

definition identifiers_ok :: "ApprovalAttestationPayload \<Rightarrow> bool" where
  "identifiers_ok p \<longleftrightarrow>
     length (aap_canonicalRequestHash p) = 32
     \<and> boundedMatch (aap_requestNonce p) uuid_strict 36
     \<and> boundedMatch (aap_tenantId p) uuid_strict 36
     \<and> boundedMatch (aap_installationId p) uuid_strict 36
     \<and> boundedMatch (aap_requestId p) uuid_strict 36
     \<and> safe_integer (aap_requestVersion p) \<and> aap_requestVersion p \<ge> 0
     \<and> boundedMatch (aap_stripeAccountId p) (prefixed_id ''acct_'') 255
     \<and> boundedMatch (aap_approverUserId p) uuid_strict 36
     \<and> boundedMatch (aap_requesterUserId p) uuid_strict 36
     \<and> aap_approverUserId p \<noteq> aap_requesterUserId p
     \<and> boundedMatch (aap_approverStripeUserId p) (prefixed_id ''usr_'') 255
     \<and> boundedMatch (aap_requesterStripeUserId p) (prefixed_id ''usr_'') 255
     \<and> aap_approverStripeUserId p \<noteq> aap_requesterStripeUserId p
     \<and> aap_environment p \<noteq> Env_live
     \<and> (case aap_resourceType p of
          RT_payment_intent \<Rightarrow> boundedMatch (aap_resourceId p) (prefixed_id ''pi_'') 255
        | RT_charge \<Rightarrow> boundedMatch (aap_resourceId p) (prefixed_id ''ch_'') 255)
     \<and> boundedMatch (aap_paymentKey p) (\<lambda>s. prefixed_id ''pi_'' s \<or> prefixed_id ''ch_'' s) 255
     \<and> (case aap_paymentIntentId p of None \<Rightarrow> True | Some i \<Rightarrow> boundedMatch i (prefixed_id ''pi_'') 255)
     \<and> boundedMatch (aap_chargeId p) (prefixed_id ''ch_'') 255
     \<and> aap_paymentKey p = (case aap_paymentIntentId p of None \<Rightarrow> aap_chargeId p | Some i \<Rightarrow> i)
     \<and> \<not> (aap_resourceType p = RT_payment_intent \<and> Some (aap_resourceId p) \<noteq> aap_paymentIntentId p)
     \<and> \<not> (aap_resourceType p = RT_charge \<and> aap_resourceId p \<noteq> aap_chargeId p)"

definition canonical_items :: "ApprovalAttestationPayload \<Rightarrow> string \<Rightarrow> json_item list" where
  "canonical_items p currency =
     [JStr (b64_encode (aap_canonicalRequestHash p)), JStr (aap_requestNonce p), JStr (aap_tenantId p),
      JStr (aap_installationId p), JStr (aap_stripeAccountId p), JStr (env_name (aap_environment p)),
      JStr (resource_type_name (aap_resourceType p)), JStr (aap_resourceId p), JStr (aap_requestId p),
      JInt (aap_requestVersion p), JStr (aap_approverUserId p), JStr (aap_requesterUserId p),
      JStr (aap_approverStripeUserId p), JStr (aap_requesterStripeUserId p), JStr (aap_paymentKey p),
      (case aap_paymentIntentId p of None \<Rightarrow> JNull | Some i \<Rightarrow> JStr i), JStr (aap_chargeId p),
      JStr (show_int (aap_amountMinor p)), JStr currency, JStr (reason_name (aap_reason p)),
      JInt (aap_policyVersion p), JInt (aap_requiredApprovals p), JStr (aap_expiresAt p),
      JStr (aap_verifiedAt p), JStr (aap_consumeBefore p)]"

definition canonicalPayload :: "ApprovalAttestationPayload \<Rightarrow> err + string" where
  "canonicalPayload p =
     (if \<not> identifiers_ok p then Inl invalidAttestation
      else (case assertPositiveMinorAmount (aap_amountMinor p) of Inl e \<Rightarrow> Inl e
      | Inr _ \<Rightarrow> (case normalizeCurrency (aap_currency p) of Inl e \<Rightarrow> Inl e
      | Inr currency \<Rightarrow>
          if currency \<noteq> aap_currency p then Inl invalidAttestation
          else if \<not> safe_integer (aap_policyVersion p) \<or> aap_policyVersion p < 1 then Inl invalidAttestation
          else if \<not> safe_integer (aap_requiredApprovals p) \<or> aap_requiredApprovals p < 1
            then Inl invalidAttestation
          else (case parseCanonicalInstant (aap_expiresAt p) of Inl e \<Rightarrow> Inl e
          | Inr expires \<Rightarrow> (case parseCanonicalInstant (aap_verifiedAt p) of Inl e \<Rightarrow> Inl e
          | Inr verified \<Rightarrow> (case parseCanonicalInstant (aap_consumeBefore p) of Inl e \<Rightarrow> Inl e
          | Inr consumeBefore \<Rightarrow>
              if verified \<ge> consumeBefore \<or> consumeBefore > expires then Inl invalidAttestation
              else Inr (json_array (canonical_items p currency))))))))"

definition attestation_digest ::
  "(bytes \<Rightarrow> bytes \<Rightarrow> bytes) \<Rightarrow> ApprovalAttestationPayload \<Rightarrow> bytes \<Rightarrow> err + bytes" where
  "attestation_digest hmac payload key =
     (case canonicalPayload payload of Inl e \<Rightarrow> Inl e
      | Inr text \<Rightarrow> Inr (hmac key (DOMAIN_SEPARATOR @ utf8 text)))"

record ApprovalAttestationKeyring =
  ak_active :: VersionedSecret
  ak_verificationKeys :: "string \<rightharpoonup> bytes"

definition newApprovalAttestationKeyring :: "ApprovalAttestationKeys \<Rightarrow> err + ApprovalAttestationKeyring" where
  "newApprovalAttestationKeyring keys =
     (case validateAttestationSecret (aak_active keys) of Inl e \<Rightarrow> Inl e
      | Inr _ \<Rightarrow> (case add_verification_keys validateAttestationSecret invalidAttestation
            (vs_version (aak_active keys)) (aak_verificationOnly keys)
            [vs_version (aak_active keys) \<mapsto> vs_key (aak_active keys)] of
          Inl e \<Rightarrow> Inl e
        | Inr verificationKeys \<Rightarrow>
            Inr \<lparr>ak_active = aak_active keys, ak_verificationKeys = verificationKeys\<rparr>))"

definition sign_attestation ::
  "(bytes \<Rightarrow> bytes \<Rightarrow> bytes) \<Rightarrow> ApprovalAttestationKeyring \<Rightarrow> ApprovalAttestationPayload \<Rightarrow> err + string" where
  "sign_attestation hmac kr payload =
     (case attestation_digest hmac payload (vs_key (ak_active kr)) of Inl e \<Rightarrow> Inl e
      | Inr d \<Rightarrow> Inr (format_token (vs_version (ak_active kr)) d))"

definition verify_attestation ::
  "(bytes \<Rightarrow> bytes \<Rightarrow> bytes) \<Rightarrow> ApprovalAttestationKeyring \<Rightarrow> ApprovalAttestationPayload \<Rightarrow> string \<Rightarrow> err + bool" where
  "verify_attestation hmac kr payload token =
     (case parse_token version_pattern_9 token of None \<Rightarrow> Inr False
      | Some (version, encodedDigest) \<Rightarrow>
          (case ak_verificationKeys kr version of None \<Rightarrow> Inr False
           | Some key \<Rightarrow>
               (let supplied = b64_decode encodedDigest
                in if b64_encode supplied \<noteq> encodedDigest then Inr False
                   else (case attestation_digest hmac payload key of Inl e \<Rightarrow> Inl e
                     | Inr expected \<Rightarrow> Inr (length supplied = length expected \<and> supplied = expected)))))"

subsection \<open>Lemmas\<close>

lemma resource_type_name_inject [simp]: "resource_type_name a = resource_type_name b \<longleftrightarrow> a = b"
  by (cases a; cases b) (auto simp: resource_type_name_def)

lemma canonical_items_length: "length (canonical_items p c) = 25"
  by (simp add: canonical_items_def)

lemma canonical_items_inject: "canonical_items p c = canonical_items q d \<Longrightarrow>
    aap_currency p = c \<Longrightarrow> aap_currency q = d \<Longrightarrow> p = q"
  by (auto simp: canonical_items_def intro!: ApprovalAttestationPayload.equality split: option.splits)

lemma canonicalPayload_Inr:
  "canonicalPayload p = Inr s \<longleftrightarrow>
     identifiers_ok p \<and> aap_amountMinor p > 0 \<and> normalizeCurrency (aap_currency p) = Inr (aap_currency p)
     \<and> safe_integer (aap_policyVersion p) \<and> aap_policyVersion p \<ge> 1
     \<and> safe_integer (aap_requiredApprovals p) \<and> aap_requiredApprovals p \<ge> 1
     \<and> (\<exists>e v c. parseCanonicalInstant (aap_expiresAt p) = Inr e \<and> parseCanonicalInstant (aap_verifiedAt p) = Inr v
          \<and> parseCanonicalInstant (aap_consumeBefore p) = Inr c \<and> v < c \<and> c \<le> e)
     \<and> s = json_array (canonical_items p (aap_currency p))"
  by (auto simp: canonicalPayload_def assertPositiveMinorAmount_def split: sum.splits if_splits)

lemma parseCanonicalInstant_Inr: "parseCanonicalInstant s = Inr t \<Longrightarrow> t = iso_time s"
  by (simp add: parseCanonicalInstant_def split: if_splits)

lemma canonicalPayload_inject: "canonicalPayload p = Inr s \<Longrightarrow> canonicalPayload q = Inr s \<Longrightarrow> p = q"
  by (auto simp: canonicalPayload_Inr json_array_inject canonical_items_length intro: canonical_items_inject)

lemma verify_attestation_True:
  assumes hmac_length: "\<And>k m. length (hmac k m) = 32"
  shows "verify_attestation hmac kr p token = Inr True \<longleftrightarrow>
     (\<exists>v k d. version_pattern_9 v \<and> ak_verificationKeys kr v = Some k
        \<and> attestation_digest hmac p k = Inr d \<and> token = format_token v d)"
proof
  assume "verify_attestation hmac kr p token = Inr True"
  then obtain v s k d where "parse_token version_pattern_9 token = Some (v, s)"
    "ak_verificationKeys kr v = Some k" "attestation_digest hmac p k = Inr d" "b64_encode d = s"
    by (auto simp: verify_attestation_def Let_def split: option.splits sum.splits if_splits)
  then show "\<exists>v k d. version_pattern_9 v \<and> ak_verificationKeys kr v = Some k
        \<and> attestation_digest hmac p k = Inr d \<and> token = format_token v d"
    by (auto simp: attestation_token.parse_token_Some format_token_def)
next
  assume "\<exists>v k d. version_pattern_9 v \<and> ak_verificationKeys kr v = Some k
        \<and> attestation_digest hmac p k = Inr d \<and> token = format_token v d"
  then obtain v k d where *: "version_pattern_9 v" "ak_verificationKeys kr v = Some k"
    "attestation_digest hmac p k = Inr d" "token = format_token v d" by blast
  then have "length d = 32" by (auto simp: attestation_digest_def hmac_length split: sum.splits)
  with * show "verify_attestation hmac kr p token = Inr True"
    by (simp add: verify_attestation_def attestation_token.parse_format)
qed

lemma newApprovalAttestationKeyring_Inr:
  assumes "newApprovalAttestationKeyring keys = Inr kr"
  shows "version_pattern_9 (vs_version (ak_active kr))"
    "ak_verificationKeys kr (vs_version (ak_active kr)) = Some (vs_key (ak_active kr))"
  using assms
  by (auto simp: newApprovalAttestationKeyring_def validateAttestationSecret_def
      dest!: add_verification_keys_active split: sum.splits if_splits)


definition sample_attestation :: ApprovalAttestationPayload where
  "sample_attestation = \<lparr>aap_canonicalRequestHash = replicate 32 7,
     aap_requestNonce = ''00000000-0000-4000-8000-000000000001'',
     aap_tenantId = ''00000000-0000-4000-8000-000000000002'',
     aap_installationId = ''00000000-0000-4000-8000-000000000003'',
     aap_stripeAccountId = ''acct_1'', aap_environment = Env_test, aap_resourceType = RT_payment_intent,
     aap_resourceId = ''pi_1'', aap_requestId = ''00000000-0000-4000-8000-000000000004'',
     aap_requestVersion = 0, aap_approverUserId = ''00000000-0000-4000-8000-000000000005'',
     aap_requesterUserId = ''00000000-0000-4000-8000-000000000006'',
     aap_approverStripeUserId = ''usr_1'', aap_requesterStripeUserId = ''usr_2'',
     aap_paymentKey = ''pi_1'', aap_paymentIntentId = Some ''pi_1'', aap_chargeId = ''ch_1'',
     aap_amountMinor = 500, aap_currency = ''eur'', aap_reason = duplicate, aap_policyVersion = 1,
     aap_requiredApprovals = 1, aap_expiresAt = ''2026-07-28T10:00:00.000Z'',
     aap_verifiedAt = ''2026-07-27T10:00:00.000Z'', aap_consumeBefore = ''2026-07-27T11:00:00.000Z''\<rparr>"

definition sample_attestation_keys :: ApprovalAttestationKeys where
  "sample_attestation_keys =
     \<lparr>aak_active = \<lparr>vs_version = ''v1'', vs_key = replicate 32 0\<rparr>, aak_verificationOnly = []\<rparr>"

definition sample_attestation_keyring :: ApprovalAttestationKeyring where
  "sample_attestation_keyring = \<lparr>ak_active = \<lparr>vs_version = ''v1'', vs_key = replicate 32 0\<rparr>,
     ak_verificationKeys = [''v1'' \<mapsto> replicate 32 0]\<rparr>"

definition truncate_hmac :: "bytes \<Rightarrow> bytes \<Rightarrow> bytes" where
  "truncate_hmac k m = take 32 (m @ replicate 32 0)"

lemma truncate_hmac_length: "length (truncate_hmac k m) = 32"
  by (simp add: truncate_hmac_def)

lemma sample_attestation_keyring_new:
  "newApprovalAttestationKeyring sample_attestation_keys = Inr sample_attestation_keyring"
  by (simp add: newApprovalAttestationKeyring_def sample_attestation_keys_def sample_attestation_keyring_def
      validateAttestationSecret_def version_pattern_9_def version_pattern_def in_range_def)

lemma sample_attestation_canonical: "\<not> isl (canonicalPayload sample_attestation)"
  by code_simp


end
