(* ===== verification/Canonical_Json.thy ===== *)
theory Canonical_Json
  imports Encoding
begin

text \<open>
  \<open>packages/contracts/src/canonical-json.ts\<close>: JSON values and their canonical text. The numbers of
  this program are integers. An object is its list of properties in insertion order; the values
  the code builds have distinct keys. The order of keys is that of \<open>localeCompare\<close>, a parameter.
\<close>

datatype json = JsNull | JsBool bool | JsNum int | JsStr string | JsArr "json list" | JsObj "(string \<times> json) list"

definition is_object :: "json \<Rightarrow> bool" where
  "is_object v = (case v of JsObj _ \<Rightarrow> True | _ \<Rightarrow> False)"

fun insert_by :: "('a \<Rightarrow> 'a \<Rightarrow> bool) \<Rightarrow> 'a \<Rightarrow> 'a list \<Rightarrow> 'a list" where
  "insert_by le x [] = [x]"
| "insert_by le x (y # ys) = (if le x y then x # y # ys else y # insert_by le x ys)"

definition sort_by :: "('a \<Rightarrow> 'a \<Rightarrow> bool) \<Rightarrow> 'a list \<Rightarrow> 'a list" where
  "sort_by le xs = foldr (insert_by le) xs []"

fun normalize :: "(string \<Rightarrow> string \<Rightarrow> bool) \<Rightarrow> json \<Rightarrow> json" where
  "normalize le (JsArr vs) = JsArr (map (normalize le) vs)"
| "normalize le (JsObj ps) = JsObj (sort_by (\<lambda>p q. le (fst p) (fst q)) (map (\<lambda>p. (fst p, normalize le (snd p))) ps))"
| "normalize le v = v"

definition commas :: "string list \<Rightarrow> string" where
  "commas ts = concat (case ts of [] \<Rightarrow> [] | t # ts \<Rightarrow> t # map (\<lambda>y. '','' @ y) ts)"

fun stringify :: "json \<Rightarrow> string" where
  "stringify JsNull = ''null''"
| "stringify (JsBool b) = (if b then ''true'' else ''false'')"
| "stringify (JsNum n) = show_int n"
| "stringify (JsStr s) = json_string s"
| "stringify (JsArr vs) = ''['' @ commas (map stringify vs) @ '']''"
| "stringify (JsObj ps) = ''{'' @ commas (map (\<lambda>p. json_string (fst p) @ '':'' @ stringify (snd p)) ps) @ ''}''"

definition canonicalJson :: "(string \<Rightarrow> string \<Rightarrow> bool) \<Rightarrow> json \<Rightarrow> string" where
  "canonicalJson le v = stringify (normalize le v)"

end
