(* ===== verification/Db_Schema.thy ===== *)
theory Db_Schema
  imports Access_Policy Refund_Proof Approval_Attestation Canonical_Json
begin

text \<open>
  The rows of \<open>packages/db/prisma/schema.prisma\<close> as records, one per model, the database as a
  record of tables, and the context of a tenant transaction. A table is the list of its rows;
  only \<open>orderBy\<close> clauses give a list of rows a meaningful order. The bookkeeping column
  \<open>updated_at\<close> and opaque JSON documents the modelled code only copies (role lists, audit
  payloads, receipts' response bodies) are omitted or kept as text.
\<close>

subsection \<open>Enumerations\<close>

datatype ExecutionAttemptState =
    X_started | X_retryable_failure | X_ambiguous_failure | X_terminal_failure | X_completed

datatype WebhookEndpoint =
    EP_connected_live | EP_connected_test | EP_connected_sandbox | EP_account_test | EP_account_sandbox

datatype ReceiptStatus = RC_received | RC_processing | RC_processed | RC_failed

datatype AlertStatus = AL_open | AL_acknowledged

datatype CorrelationCandidateState = CC_pending | CC_exact_linked | CC_unique_linked | CC_conflict

datatype EventIdempotencyCorrelation = EV_absent | EV_exact | EV_mismatch

text \<open>The classification column of an alert; the check constraint admits these three values.\<close>

datatype AlertClassification = AC_external | AC_tampered | AC_proof_replay

subsection \<open>Rows\<close>

record Tenant =
  tn_id :: string
  tn_status :: TenantStatus
  tn_liveEnabled :: bool
  tn_pendingDeleteAt :: "date option"

record StripeInstallation =
  si_id :: string
  si_tenantId :: string
  si_stripeAccountId :: string
  si_environment :: StripeEnvironment
  si_status :: InstallationStatus
  si_onboardingCompletedAt :: "date option"
  si_installedAt :: date
  si_deauthorizedAt :: "date option"
  si_lastLifecycleEventId :: "string option"
  si_lastLifecycleEventType :: "string option"
  si_lastLifecycleEventCreatedAt :: "date option"

record TenantUser =
  tu_id :: string
  tu_tenantId :: string
  tu_stripeUserId :: string
  tu_displayName :: "string option"
  tu_stripeRoles :: string
  tu_approverEnabled :: bool
  tu_lastVerifiedAt :: date
  tu_createdAt :: date

record ApprovalPolicy =
  ap_id :: string
  ap_tenantId :: string
  ap_version :: int
  ap_active :: bool
  ap_requiredApprovals :: int
  ap_expiresAfterSeconds :: int
  ap_createdByStripeUserId :: string
  ap_createdAt :: date

text \<open>The four columns of an encrypted text: ciphertext, nonce, authentication tag and key version.\<close>

record EncryptedColumns =
  enc_ciphertext :: bytes
  enc_nonce :: bytes
  enc_authTag :: bytes
  enc_keyVersion :: string

record RefundRequest =
  rr_id :: string
  rr_tenantId :: string
  rr_installationId :: string
  rr_environment :: StripeEnvironment
  rr_paymentKey :: string
  rr_paymentIntentId :: "string option"
  rr_chargeId :: "string option"
  rr_amountMinor :: int
  rr_currency :: string
  rr_reason :: RefundReason
  rr_justification :: EncryptedColumns
  rr_requesterUserId :: string
  rr_policyVersion :: int
  rr_requiredApprovals :: int
  rr_workflowStatus :: WorkflowStatus
  rr_effectState :: EffectState
  rr_version :: int
  rr_paymentGuardReleasedAt :: "date option"
  rr_createdAt :: date
  rr_expiresAt :: date
  rr_approvedAt :: "date option"
  rr_executionStartedAt :: "date option"
  rr_reconciliationSafeAfterAt :: "date option"
  rr_terminalAt :: "date option"

record RefundCorrelationCandidate =
  cc_id :: string
  cc_tenantId :: string
  cc_requestId :: string
  cc_installationId :: string
  cc_stripeRefundId :: string
  cc_paymentKey :: string
  cc_paymentIntentId :: "string option"
  cc_chargeId :: "string option"
  cc_amountMinor :: int
  cc_currency :: string
  cc_stripeRefundStatus :: "StripeRefundStatus option"
  cc_stripeCreatedAt :: date
  cc_stripeStateObservedAt :: date
  cc_stripeEventId :: "string option"
  cc_stripeEventCreatedAt :: "date option"
  cc_eventIdempotencyCorrelation :: EventIdempotencyCorrelation
  cc_lastSeenScanWindowEnd :: "date option"
  cc_state :: CorrelationCandidateState
  cc_firstObservedAt :: date
  cc_lastObservedAt :: date
  cc_resolvedAt :: "date option"

record ApprovalDecisionRow =
  ad_id :: string
  ad_tenantId :: string
  ad_requestId :: string
  ad_approverUserId :: string
  ad_approvalAttestationId :: "string option"
  ad_decision :: ApprovalDecisionKind
  ad_rejection :: "EncryptedColumns option"
  ad_stripeRolesSnapshot :: string
  ad_decidedAt :: date

record ApprovalAttestation =
  aa_id :: string
  aa_tenantId :: string
  aa_installationId :: string
  aa_requestId :: string
  aa_approverUserId :: string
  aa_requestNonce :: string
  aa_stripeAccountId :: string
  aa_environment :: StripeEnvironment
  aa_resourceType :: string
  aa_resourceId :: string
  aa_requestVersion :: int
  aa_signedEnvelopeHash :: bytes
  aa_authorizationSnapshotHash :: bytes
  aa_verifiedAt :: date
  aa_consumeBefore :: date
  aa_hmacKeyVersion :: string
  aa_hmac :: bytes
  aa_createdAt :: date

record RefundExecution =
  ex_id :: string
  ex_tenantId :: string
  ex_requestId :: string
  ex_idempotencyKey :: string
  ex_canonicalParametersHash :: bytes
  ex_stripeRefundId :: "string option"
  ex_stripeRefundStatus :: "StripeRefundStatus option"
  ex_amountMinor :: int
  ex_currency :: string
  ex_lastStripeEventId :: "string option"
  ex_lastStripeEventCreatedAt :: "date option"
  ex_lastStripeRequestId :: "string option"
  ex_createdAt :: date
  ex_reconciledAt :: "date option"

record RefundExecutionAttempt =
  at_id :: string
  at_tenantId :: string
  at_executionId :: string
  at_attemptNumber :: int
  at_state :: ExecutionAttemptState
  at_normalizedErrorCode :: "string option"
  at_stripeRequestId :: "string option"
  at_startedAt :: date
  at_finishedAt :: "date option"

text \<open>
  The normalised webhook payload of \<open>connected-webhook.ts\<close>, parsed: a refund event or an
  installation event. Amounts are decimal strings and times are seconds, as in the source.
\<close>

record NormalizedWebhookRefund =
  nr_refund_id :: string
  nr_payment_intent_id :: "string option"
  nr_charge_id :: "string option"
  nr_amount_minor :: string
  nr_currency :: string
  nr_status :: "StripeRefundStatus option"
  nr_created :: int
  nr_metadata_request_id :: "string option"
  nr_metadata_proof :: "string option"

datatype WebhookBody =
    RefundBody NormalizedWebhookRefund
  | InstallationBody string  \<comment> \<open>application id\<close>

record NormalizedAccountWebhookPayload =
  np_environment :: StripeEnvironment
  np_event_created :: int
  np_event_idempotency_key :: "string option"
  np_event_type :: string
  np_body :: WebhookBody

record WebhookReceipt =
  wr_id :: string
  wr_tenantId :: string
  wr_installationId :: string
  wr_endpoint :: WebhookEndpoint
  wr_stripeEventId :: string
  wr_stripeAccountId :: string
  wr_eventType :: string
  wr_objectId :: string
  wr_normalizedPayload :: NormalizedAccountWebhookPayload
  wr_stripeCreatedAt :: date
  wr_receivedAt :: date
  wr_status :: ReceiptStatus
  wr_processingAttempts :: int
  wr_processedAt :: "date option"
  wr_lastErrorCode :: "string option"

record ExternalRefundAlert =
  al_id :: string
  al_tenantId :: string
  al_installationId :: string
  al_environment :: StripeEnvironment
  al_stripeRefundId :: string
  al_stripeRefundCreatedAt :: date
  al_paymentKey :: string
  al_amountMinor :: int
  al_currency :: string
  al_classification :: AlertClassification
  al_status :: AlertStatus
  al_detectedAt :: date
  al_acknowledgedAt :: "date option"
  al_acknowledgedByUserId :: "string option"
  al_overlappedRequestId :: "string option"
  al_reconciledAt :: "date option"

record AuditEvent =
  ae_id :: string
  ae_tenantId :: string
  ae_actorType :: string
  ae_actorId :: "string option"
  ae_actorSnapshot :: json
  ae_action :: string
  ae_entityType :: string
  ae_entityId :: string
  ae_payload :: json
  ae_correlationRequestId :: string
  ae_occurredAt :: date

record ApiMutationReceipt =
  mr_id :: string
  mr_tenantId :: string
  mr_requestNonce :: string
  mr_actorId :: string
  mr_operation :: string
  mr_canonicalRequestHash :: bytes
  mr_responseStatus :: int
  mr_responseBody :: json
  mr_createdAt :: date
  mr_expiresAt :: date

record ReconciliationCheckpoint =
  ck_id :: string
  ck_tenantId :: string
  ck_installationId :: string
  ck_committedThrough :: date
  ck_scanWindowEnd :: "date option"
  ck_startingAfter :: "string option"
  ck_pageInProgress :: bool

subsection \<open>The database and the transaction context\<close>

text \<open>\<open>db_fresh\<close> counts the identifiers \<open>gen_random_uuid()\<close> has handed out.\<close>

record db =
  tenants :: "Tenant list"
  installations :: "StripeInstallation list"
  users :: "TenantUser list"
  policies :: "ApprovalPolicy list"
  requests :: "RefundRequest list"
  decision_rows :: "ApprovalDecisionRow list"
  attestations :: "ApprovalAttestation list"
  executions :: "RefundExecution list"
  attempts :: "RefundExecutionAttempt list"
  candidates :: "RefundCorrelationCandidate list"
  receipts :: "WebhookReceipt list"
  alerts :: "ExternalRefundAlert list"
  audits :: "AuditEvent list"
  mutations :: "ApiMutationReceipt list"
  checkpoints :: "ReconciliationCheckpoint list"
  db_fresh :: nat

text \<open>
  What a transaction knows besides the database: the tenant row-level security is set to, whether
  the session belongs to the web runtime role, the reading of the database clock and the supply
  of identifiers. The clock is read once per transaction; the code only compares it with stored
  timestamps. \<open>cx_conflict n\<close> tells whether the \<open>n\<close>-th attempt of a transaction is aborted by a
  serialization conflict with a concurrent one.
\<close>

record txctx =
  cx_tenant :: string
  cx_web :: bool
  cx_clock :: date
  cx_uuid :: "nat \<Rightarrow> string"
  cx_conflict :: "nat \<Rightarrow> bool"

type_synonym 'a tx = "(db, err, 'a) txn"

definition non_live :: "StripeEnvironment \<Rightarrow> bool" where
  "non_live e \<longleftrightarrow> e \<in> {Env_test, Env_sandbox}"

lemma non_live_iff: "non_live e \<longleftrightarrow> e \<noteq> Env_live"
  by (cases e) (auto simp: non_live_def)

definition payment_key_ok :: "string \<Rightarrow> bool" where
  "payment_key_ok k \<longleftrightarrow> prefixed_id ''pi_'' k \<or> prefixed_id ''ch_'' k"

end
