(* ===== verification/Db_Triggers.thy ===== *)
theory Db_Triggers
  imports Db_Schema Workflow
begin

text \<open>
  The database side of the contract: the row triggers and check constraints of
  \<open>packages/db/prisma/migrations\<close> in their last version, with SQL's three-valued logic written
  out (a comparison with NULL is neither true nor false, and \<open>IF\<close> takes only a true condition).
  Each trigger is a function of the old and the new row that raises or returns; the BEFORE
  triggers of a table fire in alphabetical order of their names, then the checks apply.
  Triggers declared \<open>UPDATE OF\<close> a column return at once when the column is unchanged, so they may
  be run on every update.
\<close>

definition raise_when :: "bool \<Rightarrow> string \<Rightarrow> err + unit" where
  "raise_when b msg = (if b then Inl (DbError msg) else Inr ())"

lemma raise_when_Inr [simp]: "raise_when b msg = Inr u \<longleftrightarrow> \<not> b"
  by (simp add: raise_when_def)

text \<open>The Stripe status of the execution linked to a request; NULL when there is no row.\<close>

definition linked_refund_status :: "db \<Rightarrow> RefundRequest \<Rightarrow> StripeRefundStatus option" where
  "linked_refund_status d r =
     (case first_row (\<lambda>e. ex_requestId e = rr_id r \<and> ex_tenantId e = rr_tenantId r) (executions d) of
        None \<Rightarrow> None | Some e \<Rightarrow> ex_stripeRefundStatus e)"

text \<open>\<open>refunddesk_lock_payment_scope\<close>: the advisory lock itself has no value; its guard raises.\<close>

definition lock_payment_scope :: "StripeEnvironment \<Rightarrow> string \<Rightarrow> err + unit" where
  "lock_payment_scope env paymentKey =
     raise_when (\<not> non_live env \<or> \<not> payment_key_ok paymentKey) ''invalid payment scope''"

subsection \<open>Triggers of \<open>refund_requests\<close>\<close>

definition blocking_alert :: "db \<Rightarrow> RefundRequest \<Rightarrow> bool" where
  "blocking_alert d r \<longleftrightarrow> (\<exists>al \<in> set (alerts d). al_tenantId al = rr_tenantId r
     \<and> al_installationId al = rr_installationId r \<and> al_environment al = rr_environment r
     \<and> al_paymentKey al = rr_paymentKey r \<and> al_reconciledAt al = None)"

definition trg_external_payment_protection :: "db \<Rightarrow> RefundRequest \<Rightarrow> err + unit" where
  "trg_external_payment_protection d new =
     bind_err (lock_payment_scope (rr_environment new) (rr_paymentKey new)) (\<lambda>_.
     raise_when (rr_workflowStatus new \<in> {W_pending_approval, W_approved, W_executing} \<and> blocking_alert d new)
       ''payment is protected by unresolved external reconciliation'')"

definition same_snapshot :: "RefundRequest \<Rightarrow> RefundRequest \<Rightarrow> bool" where
  "same_snapshot new old \<longleftrightarrow>
     rr_tenantId new = rr_tenantId old \<and> rr_installationId new = rr_installationId old
     \<and> rr_environment new = rr_environment old \<and> rr_paymentKey new = rr_paymentKey old
     \<and> rr_paymentIntentId new = rr_paymentIntentId old \<and> rr_chargeId new = rr_chargeId old
     \<and> rr_amountMinor new = rr_amountMinor old \<and> rr_currency new = rr_currency old
     \<and> rr_reason new = rr_reason old \<and> rr_justification new = rr_justification old
     \<and> rr_requesterUserId new = rr_requesterUserId old \<and> rr_policyVersion new = rr_policyVersion old
     \<and> rr_requiredApprovals new = rr_requiredApprovals old \<and> rr_createdAt new = rr_createdAt old
     \<and> rr_expiresAt new = rr_expiresAt old"

definition trg_preserve_request_snapshot :: "RefundRequest \<Rightarrow> RefundRequest \<Rightarrow> err + unit" where
  "trg_preserve_request_snapshot old new =
     bind_err (raise_when (\<not> same_snapshot new old) ''refund request financial snapshot is immutable'') (\<lambda>_.
     bind_err (raise_when (rr_version new \<noteq> rr_version old + 1)
       ''refund request version must increment exactly once'') (\<lambda>_.
     raise_when (rr_terminalAt old \<noteq> None \<and> rr_terminalAt new \<noteq> rr_terminalAt old)
       ''refund request terminal timestamp is immutable''))"

definition greatest_clock :: "date \<Rightarrow> date option \<Rightarrow> date" where
  "greatest_clock c t = (case t of None \<Rightarrow> c | Some s \<Rightarrow> max c s)"

definition trg_stamp_reconciliation_safe_boundary ::
  "txctx \<Rightarrow> RefundRequest \<Rightarrow> RefundRequest \<Rightarrow> err + RefundRequest" where
  "trg_stamp_reconciliation_safe_boundary ctx old new =
     (if rr_workflowStatus new = W_reconciliation_required \<and> rr_workflowStatus old \<noteq> W_reconciliation_required
      then Inr (new\<lparr>rr_reconciliationSafeAfterAt :=
             Some (greatest_clock (cx_clock ctx) (rr_executionStartedAt new))\<rparr>)
      else bind_err (raise_when (rr_reconciliationSafeAfterAt new \<noteq> rr_reconciliationSafeAfterAt old)
             ''reconciliation safe boundary is database-managed'') (\<lambda>_. Inr new))"

text \<open>
  The boundary of the web role: after a suspended or deauthorized installation only the three
  protective changes, otherwise only the decision and cancellation of a pending request.
\<close>

definition protective_deauthorization :: "db \<Rightarrow> RefundRequest \<Rightarrow> RefundRequest \<Rightarrow> bool" where
  "protective_deauthorization d old new \<longleftrightarrow>
     (\<exists>i \<in> set (installations d). si_id i = rr_installationId new \<and> si_tenantId i = rr_tenantId new
        \<and> si_environment i = rr_environment new \<and> si_status i \<in> {I_suspended, I_deauthorized})
     \<and> rr_approvedAt new = rr_approvedAt old
     \<and> rr_executionStartedAt new = rr_executionStartedAt old
     \<and> rr_reconciliationSafeAfterAt new = rr_reconciliationSafeAfterAt old
     \<and> (rr_workflowStatus old \<in> {W_pending_approval, W_approved} \<and> rr_effectState old = E_not_started
          \<and> rr_paymentGuardReleasedAt old = None \<and> rr_workflowStatus new = W_stale
          \<and> rr_effectState new = E_absence_proven \<and> rr_terminalAt new \<noteq> None
          \<and> rr_paymentGuardReleasedAt new = rr_terminalAt new
        \<or> rr_workflowStatus old = W_executing \<and> rr_effectState old \<in> {E_not_started, E_absence_proven}
          \<and> rr_paymentGuardReleasedAt old = None \<and> rr_workflowStatus new = W_failed_terminal
          \<and> rr_effectState new = E_absence_proven \<and> rr_terminalAt new \<noteq> None
          \<and> rr_paymentGuardReleasedAt new = rr_terminalAt new
        \<or> rr_workflowStatus old = W_executing \<and> rr_effectState old \<in> {E_possible, E_identified}
          \<and> rr_paymentGuardReleasedAt old = None \<and> rr_workflowStatus new = W_reconciliation_required
          \<and> rr_effectState new = rr_effectState old \<and> rr_terminalAt new = rr_terminalAt old
          \<and> rr_paymentGuardReleasedAt new = None)"

definition web_decision :: "RefundRequest \<Rightarrow> RefundRequest \<Rightarrow> bool" where
  "web_decision old new \<longleftrightarrow>
     rr_workflowStatus old = W_pending_approval \<and> rr_workflowStatus new \<in> {W_approved, W_rejected, W_canceled}
     \<and> rr_effectState old = E_not_started \<and> rr_effectState new = E_not_started
     \<and> rr_executionStartedAt new = None \<and> rr_reconciliationSafeAfterAt new = None
     \<and> (rr_workflowStatus new = W_approved \<and> rr_approvedAt new \<noteq> None \<and> rr_terminalAt new = None
          \<and> rr_paymentGuardReleasedAt new = None
        \<or> rr_workflowStatus new \<in> {W_rejected, W_canceled} \<and> rr_approvedAt new = None
          \<and> rr_terminalAt new \<noteq> None \<and> rr_paymentGuardReleasedAt new = rr_terminalAt new)"

definition trg_enforce_request_role_boundary ::
  "txctx \<Rightarrow> db \<Rightarrow> RefundRequest \<Rightarrow> RefundRequest \<Rightarrow> err + unit" where
  "trg_enforce_request_role_boundary ctx d old new =
     (if \<not> cx_web ctx then Inr ()
      else if protective_deauthorization d old new then Inr ()
      else if web_decision old new then Inr ()
      else Inl (DbError ''web runtime cannot mutate worker-owned refund lifecycle state''))"

definition trg_enforce_request_role_boundary_insert :: "txctx \<Rightarrow> RefundRequest \<Rightarrow> err + unit" where
  "trg_enforce_request_role_boundary_insert ctx new =
     raise_when (cx_web ctx \<and> (rr_workflowStatus new \<noteq> W_pending_approval \<or> rr_effectState new \<noteq> E_not_started
         \<or> rr_version new \<noteq> 0 \<or> rr_paymentGuardReleasedAt new \<noteq> None \<or> rr_approvedAt new \<noteq> None
         \<or> rr_executionStartedAt new \<noteq> None \<or> rr_reconciliationSafeAfterAt new \<noteq> None
         \<or> rr_terminalAt new \<noteq> None))
       ''web runtime can create only a new pending refund request''"

text \<open>
  The counts of the durable-decision trigger: the decisions of the request, joined with an
  enabled approver of the same tenant who is not the requester.
\<close>

definition request_decisions :: "db \<Rightarrow> RefundRequest \<Rightarrow> ApprovalDecisionRow list" where
  "request_decisions d r =
     filter (\<lambda>x. ad_tenantId x = rr_tenantId r \<and> ad_requestId x = rr_id r) (decision_rows d)"

definition valid_decision :: "db \<Rightarrow> RefundRequest \<Rightarrow> ApprovalDecisionKind \<Rightarrow> ApprovalDecisionRow \<Rightarrow> bool" where
  "valid_decision d r k x \<longleftrightarrow> ad_decision x = k
     \<and> (if k = D_approve then ad_approvalAttestationId x \<noteq> None else ad_approvalAttestationId x = None)
     \<and> (\<exists>u \<in> set (users d). tu_id u = ad_approverUserId x \<and> tu_tenantId u = ad_tenantId x
          \<and> tu_approverEnabled u \<and> tu_id u \<noteq> rr_requesterUserId r)"

definition trg_validate_durable_decision_transition :: "db \<Rightarrow> RefundRequest \<Rightarrow> RefundRequest \<Rightarrow> err + unit" where
  "trg_validate_durable_decision_transition d old new =
     (if rr_workflowStatus old \<noteq> W_pending_approval \<or> rr_workflowStatus new \<notin> {W_approved, W_rejected} then Inr ()
      else let ds = request_decisions d new;
               approvals = int (length (filter (valid_decision d new D_approve) ds));
               rejections = int (length (filter (valid_decision d new D_reject) ds))
      in bind_err (raise_when (int (length ds) \<noteq> approvals + rejections)
           ''refund decision references invalid approval evidence'') (\<lambda>_.
         bind_err (raise_when (rr_workflowStatus new = W_approved
             \<and> (approvals < rr_requiredApprovals new \<or> rejections \<noteq> 0))
           ''approval transition requires a durable coherent quorum'') (\<lambda>_.
         raise_when (rr_workflowStatus new = W_rejected \<and> rejections < 1)
           ''rejection transition requires a durable rejection decision'')))"

definition trg_validate_effect_transition :: "db \<Rightarrow> RefundRequest \<Rightarrow> RefundRequest \<Rightarrow> err + unit" where
  "trg_validate_effect_transition d old new =
     (if rr_effectState new = rr_effectState old then Inr ()
      else bind_err (raise_when (rr_effectState new \<notin> set (effect_transitions (rr_effectState old)))
          ''invalid effect transition'') (\<lambda>_.
        raise_when (rr_effectState old = E_identified \<and> rr_effectState new = E_absence_proven
            \<and> (case linked_refund_status d new of None \<Rightarrow> False | Some s \<Rightarrow> s \<notin> {R_failed, R_canceled}))
          ''identified effect absence requires authoritative Stripe terminal status''))"

definition trg_validate_guard_release :: "db \<Rightarrow> RefundRequest \<Rightarrow> RefundRequest \<Rightarrow> err + unit" where
  "trg_validate_guard_release d old new =
     (if rr_paymentGuardReleasedAt old \<noteq> None then
        raise_when (rr_paymentGuardReleasedAt new \<noteq> rr_paymentGuardReleasedAt old)
          ''payment guard release is immutable''
      else if rr_paymentGuardReleasedAt new = None then Inr ()
      else if rr_workflowStatus new = W_reconciliation_required then
        Inl (DbError ''payment guard cannot be released during reconciliation'')
      else if rr_workflowStatus new \<in> {W_rejected, W_canceled, W_expired} \<and> rr_effectState new = E_not_started
        then Inr ()
      else if rr_workflowStatus new \<in> {W_stale, W_failed_terminal} \<and> rr_effectState new = E_absence_proven
        then Inr ()
      else if rr_workflowStatus new = W_succeeded \<and> linked_refund_status d new = Some R_succeeded then Inr ()
      else Inl (DbError ''payment guard release requires certain absence or a terminal Stripe refund''))"

definition trg_validate_workflow_transition :: "db \<Rightarrow> RefundRequest \<Rightarrow> RefundRequest \<Rightarrow> err + unit" where
  "trg_validate_workflow_transition d old new =
     (if rr_workflowStatus new = rr_workflowStatus old then Inr ()
      else bind_err (raise_when (rr_workflowStatus new \<notin> set (workflow_transitions (rr_workflowStatus old)))
          ''invalid workflow transition'') (\<lambda>_.
        bind_err (raise_when (rr_workflowStatus old = W_reconciliation_required
            \<and> rr_workflowStatus new = W_executing \<and> rr_effectState new \<noteq> E_absence_proven)
          ''reconciliation can resume only after absence is proven'') (\<lambda>_.
        bind_err (raise_when (rr_workflowStatus new = W_succeeded
            \<and> (rr_effectState new \<noteq> E_identified
               \<or> (case linked_refund_status d new of None \<Rightarrow> False | Some s \<Rightarrow> s \<noteq> R_succeeded)))
          ''workflow succeeds only after Stripe confirms refund success'') (\<lambda>_.
        bind_err (raise_when (rr_workflowStatus old = W_succeeded \<and> rr_workflowStatus new = W_failed_terminal
            \<and> (rr_effectState old \<noteq> E_identified \<or> rr_effectState new \<noteq> E_absence_proven
               \<or> linked_refund_status d new \<notin> {Some R_failed, Some R_canceled}))
          ''succeeded workflow can fail only after the same Refund fails or is canceled'') (\<lambda>_.
        raise_when (rr_workflowStatus new \<in> {W_stale, W_failed_terminal} \<and> rr_effectState new \<noteq> E_absence_proven)
          ''terminal state requires certain absence of effect'')))))"

text \<open>The check constraints of the table, all of them, as one predicate.\<close>

definition encrypted_ok :: "EncryptedColumns \<Rightarrow> bool" where
  "encrypted_ok e \<longleftrightarrow> enc_ciphertext e \<noteq> [] \<and> length (enc_nonce e) = 12 \<and> length (enc_authTag e) = 16
     \<and> version_pattern (enc_keyVersion e)"

definition request_checks :: "RefundRequest \<Rightarrow> bool" where
  "request_checks r \<longleftrightarrow> non_live (rr_environment r) \<and> payment_key_ok (rr_paymentKey r)
     \<and> (rr_paymentIntentId r \<noteq> None \<or> rr_chargeId r \<noteq> None)
     \<and> (case rr_paymentIntentId r of None \<Rightarrow> True | Some i \<Rightarrow> prefixed_id ''pi_'' i)
     \<and> (case rr_chargeId r of None \<Rightarrow> True | Some i \<Rightarrow> prefixed_id ''ch_'' i)
     \<and> rr_amountMinor r > 0 \<and> currency_pattern (rr_currency r) \<and> encrypted_ok (rr_justification r)
     \<and> rr_requiredApprovals r = 1 \<and> rr_policyVersion r > 0 \<and> rr_version r \<ge> 0
     \<and> rr_expiresAt r > rr_createdAt r
     \<and> (terminal_status (rr_workflowStatus r) \<longrightarrow> rr_terminalAt r \<noteq> None)
     \<and> (rr_workflowStatus r = W_reconciliation_required \<longrightarrow>
          (case (rr_reconciliationSafeAfterAt r, rr_executionStartedAt r) of
             (Some safe, Some started) \<Rightarrow> safe \<ge> started | _ \<Rightarrow> False))"

text \<open>The update of one request row: the triggers in their alphabetical order, then the checks.\<close>

definition request_update :: "txctx \<Rightarrow> db \<Rightarrow> RefundRequest \<Rightarrow> RefundRequest \<Rightarrow> err + RefundRequest" where
  "request_update ctx d old new =
     bind_err (trg_enforce_request_role_boundary ctx d old new) (\<lambda>_.
     bind_err (trg_external_payment_protection d new) (\<lambda>_.
     bind_err (trg_preserve_request_snapshot old new) (\<lambda>_.
     bind_err (trg_stamp_reconciliation_safe_boundary ctx old new) (\<lambda>new'.
     bind_err (trg_validate_durable_decision_transition d old new') (\<lambda>_.
     bind_err (trg_validate_effect_transition d old new') (\<lambda>_.
     bind_err (trg_validate_guard_release d old new') (\<lambda>_.
     bind_err (trg_validate_workflow_transition d old new') (\<lambda>_.
     bind_err (raise_when (\<not> request_checks new') ''refund_requests check constraint'') (\<lambda>_.
     Inr new')))))))))"

definition trg_validate_request_approver_available :: "db \<Rightarrow> RefundRequest \<Rightarrow> err + unit" where
  "trg_validate_request_approver_available d new =
     raise_when (\<not> (\<exists>u \<in> set (users d). tu_tenantId u = rr_tenantId new \<and> tu_approverEnabled u
         \<and> tu_id u \<noteq> rr_requesterUserId new))
       ''a distinct enabled approver is required''"

text \<open>
  The insertion of a request: triggers in order (role boundary, payment protection, stamp,
  approver available), checks, foreign keys to tenant, installation and requester, the primary
  key and the partial unique index that admits one unreleased request per payment.
\<close>

definition request_insert :: "txctx \<Rightarrow> db \<Rightarrow> RefundRequest \<Rightarrow> err + RefundRequest" where
  "request_insert ctx d new =
     bind_err (trg_enforce_request_role_boundary_insert ctx new) (\<lambda>_.
     bind_err (trg_external_payment_protection d new) (\<lambda>_.
     (let new' = (if rr_workflowStatus new = W_reconciliation_required
                  then new\<lparr>rr_reconciliationSafeAfterAt :=
                        Some (greatest_clock (cx_clock ctx) (rr_executionStartedAt new))\<rparr> else new)
      in bind_err (trg_validate_request_approver_available d new') (\<lambda>_.
         bind_err (raise_when (\<not> request_checks new') ''refund_requests check constraint'') (\<lambda>_.
         bind_err (raise_when (rr_tenantId new' \<noteq> cx_tenant ctx) ''row-level security'') (\<lambda>_.
         bind_err (raise_when (\<not> (\<exists>t \<in> set (tenants d). tn_id t = rr_tenantId new')
             \<or> \<not> (\<exists>i \<in> set (installations d). si_id i = rr_installationId new'
                   \<and> si_tenantId i = rr_tenantId new' \<and> si_environment i = rr_environment new')
             \<or> \<not> (\<exists>u \<in> set (users d). tu_id u = rr_requesterUserId new' \<and> tu_tenantId u = rr_tenantId new'))
           ''refund_requests foreign key'') (\<lambda>_.
         if \<exists>r \<in> set (requests d). rr_id r = rr_id new' then Inl (UniqueViolation ''refund_requests_pkey'')
         else if rr_paymentGuardReleasedAt new' = None
           \<and> (\<exists>r \<in> set (requests d). rr_tenantId r = rr_tenantId new' \<and> rr_environment r = rr_environment new'
               \<and> rr_paymentKey r = rr_paymentKey new' \<and> rr_paymentGuardReleasedAt r = None)
         then Inl (UniqueViolation ''refund_requests_active_payment_guard_key'')
         else Inr new'))))))) "

subsection \<open>What an accepted update satisfies\<close>

definition stamped :: "txctx \<Rightarrow> RefundRequest \<Rightarrow> RefundRequest \<Rightarrow> RefundRequest" where
  "stamped ctx old new =
     (if rr_workflowStatus new = W_reconciliation_required \<and> rr_workflowStatus old \<noteq> W_reconciliation_required
      then new\<lparr>rr_reconciliationSafeAfterAt := Some (greatest_clock (cx_clock ctx) (rr_executionStartedAt new))\<rparr>
      else new)"

lemma stamped_fields [simp]:
  "rr_workflowStatus (stamped ctx old new) = rr_workflowStatus new"
  "rr_effectState (stamped ctx old new) = rr_effectState new"
  "rr_paymentGuardReleasedAt (stamped ctx old new) = rr_paymentGuardReleasedAt new"
  "rr_id (stamped ctx old new) = rr_id new" "rr_tenantId (stamped ctx old new) = rr_tenantId new"
  "rr_version (stamped ctx old new) = rr_version new" "rr_terminalAt (stamped ctx old new) = rr_terminalAt new"
  "rr_executionStartedAt (stamped ctx old new) = rr_executionStartedAt new"
  "rr_approvedAt (stamped ctx old new) = rr_approvedAt new"
  "rr_requesterUserId (stamped ctx old new) = rr_requesterUserId new"
  "rr_installationId (stamped ctx old new) = rr_installationId new"
  "rr_environment (stamped ctx old new) = rr_environment new"
  "rr_paymentKey (stamped ctx old new) = rr_paymentKey new"
  "linked_refund_status d (stamped ctx old new) = linked_refund_status d new"
  "request_decisions d (stamped ctx old new) = request_decisions d new"
  "valid_decision d (stamped ctx old new) k = valid_decision d new k"
  by (auto simp: stamped_def linked_refund_status_def request_decisions_def valid_decision_def fun_eq_iff)

lemma trg_stamp_Inr:
  "trg_stamp_reconciliation_safe_boundary ctx old new = Inr r \<longleftrightarrow> r = stamped ctx old new
     \<and> (rr_workflowStatus new = W_reconciliation_required \<and> rr_workflowStatus old \<noteq> W_reconciliation_required
        \<or> rr_reconciliationSafeAfterAt new = rr_reconciliationSafeAfterAt old)"
  by (auto simp: trg_stamp_reconciliation_safe_boundary_def stamped_def)

lemma request_update_Inr:
  "request_update ctx d old new = Inr r \<longleftrightarrow>
     r = stamped ctx old new
     \<and> trg_enforce_request_role_boundary ctx d old new = Inr ()
     \<and> trg_external_payment_protection d new = Inr ()
     \<and> trg_preserve_request_snapshot old new = Inr ()
     \<and> (rr_workflowStatus new = W_reconciliation_required \<and> rr_workflowStatus old \<noteq> W_reconciliation_required
        \<or> rr_reconciliationSafeAfterAt new = rr_reconciliationSafeAfterAt old)
     \<and> trg_validate_durable_decision_transition d old r = Inr ()
     \<and> trg_validate_effect_transition d old r = Inr ()
     \<and> trg_validate_guard_release d old r = Inr ()
     \<and> trg_validate_workflow_transition d old r = Inr ()
     \<and> request_checks r"
  unfolding request_update_def by (auto simp: trg_stamp_Inr)

lemma trg_preserve_Inr:
  "trg_preserve_request_snapshot old new = Inr u \<longleftrightarrow> same_snapshot new old
     \<and> rr_version new = rr_version old + 1
     \<and> (rr_terminalAt old \<noteq> None \<longrightarrow> rr_terminalAt new = rr_terminalAt old)"
  by (auto simp: trg_preserve_request_snapshot_def)

lemma trg_effect_Inr:
  "trg_validate_effect_transition d old new = Inr u \<longleftrightarrow> rr_effectState new = rr_effectState old
     \<or> rr_effectState new \<in> set (effect_transitions (rr_effectState old))
       \<and> (rr_effectState old = E_identified \<longrightarrow> linked_refund_status d new \<in> {None, Some R_failed, Some R_canceled})"
  by (cases "rr_effectState old"; cases "rr_effectState new"; cases "linked_refund_status d new")
    (auto simp: trg_validate_effect_transition_def effect_transitions_def)

lemma trg_guard_Inr:
  "trg_validate_guard_release d old new = Inr u \<longleftrightarrow>
     rr_paymentGuardReleasedAt new = rr_paymentGuardReleasedAt old
     \<or> rr_paymentGuardReleasedAt old = None \<and> rr_paymentGuardReleasedAt new \<noteq> None
       \<and> (rr_workflowStatus new \<in> {W_rejected, W_canceled, W_expired} \<and> rr_effectState new = E_not_started
          \<or> rr_workflowStatus new \<in> {W_stale, W_failed_terminal} \<and> rr_effectState new = E_absence_proven
          \<or> rr_workflowStatus new = W_succeeded \<and> linked_refund_status d new = Some R_succeeded)"
  by (auto simp: trg_validate_guard_release_def)

lemma trg_workflow_Inr:
  "trg_validate_workflow_transition d old new = Inr u \<longleftrightarrow>
     rr_workflowStatus new = rr_workflowStatus old
     \<or> rr_workflowStatus new \<in> set (workflow_transitions (rr_workflowStatus old))
       \<and> (rr_workflowStatus old = W_reconciliation_required \<and> rr_workflowStatus new = W_executing
            \<longrightarrow> rr_effectState new = E_absence_proven)
       \<and> (rr_workflowStatus new = W_succeeded \<longrightarrow> rr_effectState new = E_identified
            \<and> linked_refund_status d new \<in> {None, Some R_succeeded})
       \<and> (rr_workflowStatus old = W_succeeded \<and> rr_workflowStatus new = W_failed_terminal \<longrightarrow>
            rr_effectState old = E_identified \<and> rr_effectState new = E_absence_proven
            \<and> linked_refund_status d new \<in> {Some R_failed, Some R_canceled})
       \<and> (rr_workflowStatus new \<in> {W_stale, W_failed_terminal} \<longrightarrow> rr_effectState new = E_absence_proven)"
  by (cases "linked_refund_status d new") (auto simp: trg_validate_workflow_transition_def)

lemma trg_durable_approved:
  "trg_validate_durable_decision_transition d old new = Inr u \<Longrightarrow> rr_workflowStatus old = W_pending_approval \<Longrightarrow>
   rr_workflowStatus new = W_approved \<Longrightarrow> rr_requiredApprovals new = 1 \<Longrightarrow>
   \<exists>x \<in> set (request_decisions d new). valid_decision d new D_approve x"
  by (auto simp: trg_validate_durable_decision_transition_def Let_def filter_empty_conv
      dest!: leI [of "length _"] split: if_splits)

subsection \<open>Sample rows\<close>

definition empty_db :: db where
  "empty_db = \<lparr>tenants = [], installations = [], users = [], policies = [], requests = [], decision_rows = [],
     attestations = [], executions = [], attempts = [], candidates = [], receipts = [], alerts = [], audits = [],
     mutations = [], checkpoints = [], db_fresh = 0\<rparr>"

definition sample_request :: RefundRequest where
  "sample_request = \<lparr>rr_id = sample_uuid, rr_tenantId = ''t1'', rr_installationId = ''i1'',
     rr_environment = Env_test, rr_paymentKey = ''pi_1'', rr_paymentIntentId = Some ''pi_1'', rr_chargeId = Some ''ch_1'',
     rr_amountMinor = 500, rr_currency = ''eur'', rr_reason = duplicate,
     rr_justification = \<lparr>enc_ciphertext = [1], enc_nonce = replicate 12 0, enc_authTag = replicate 16 0,
       enc_keyVersion = ''v1''\<rparr>,
     rr_requesterUserId = ''u1'', rr_policyVersion = 1, rr_requiredApprovals = 1,
     rr_workflowStatus = W_pending_approval, rr_effectState = E_not_started, rr_version = 0,
     rr_paymentGuardReleasedAt = None, rr_createdAt = 1000, rr_expiresAt = 9000, rr_approvedAt = None,
     rr_executionStartedAt = None, rr_reconciliationSafeAfterAt = None, rr_terminalAt = None\<rparr>"

definition sample_ctx :: "bool \<Rightarrow> txctx" where
  "sample_ctx web = \<lparr>cx_tenant = ''t1'', cx_web = web, cx_clock = 2000, cx_uuid = (\<lambda>n. ''uuid-'' @ show_nat n),
     cx_conflict = (\<lambda>_. False)\<rparr>"

definition sample_canceled :: RefundRequest where
  "sample_canceled = sample_request\<lparr>rr_workflowStatus := W_canceled, rr_terminalAt := Some 2000,
     rr_paymentGuardReleasedAt := Some 2000, rr_version := 1\<rparr>"

lemma sample_cancel_update:
  "request_update (sample_ctx True) empty_db sample_request sample_canceled = Inr sample_canceled"
  by code_simp



text \<open>
  C39: what the database admits when a payment guard is released. Releasing is final: a released
  guard never changes. A newly released guard belongs to a request whose domain predicate
  \<open>canReleasePaymentGuard\<close> holds for its new state.
\<close>

theorem guard_release_sound:
  assumes "request_update ctx d old new = Inr r"
  shows "(rr_paymentGuardReleasedAt old \<noteq> None \<longrightarrow> rr_paymentGuardReleasedAt r = rr_paymentGuardReleasedAt old)
    \<and> (rr_paymentGuardReleasedAt old = None \<and> rr_paymentGuardReleasedAt r \<noteq> None \<longrightarrow>
         canReleasePaymentGuard \<lparr>gs_workflowStatus = rr_workflowStatus r, gs_effectState = rr_effectState r,
           gs_stripeRefundStatus = linked_refund_status d r\<rparr>)"
proof -
  have "trg_validate_guard_release d old r = Inr ()" using assms unfolding request_update_Inr by blast
  then show ?thesis
    by (cases "rr_paymentGuardReleasedAt old"; cases "rr_workflowStatus r")
      (auto simp: trg_guard_Inr canReleasePaymentGuard_def hasCertainAbsenceOfEffect_def)
qed

theorem guard_release_sound_witness:
  "rr_paymentGuardReleasedAt sample_canceled \<noteq> None
   \<and> canReleasePaymentGuard \<lparr>gs_workflowStatus = rr_workflowStatus sample_canceled,
       gs_effectState = rr_effectState sample_canceled,
       gs_stripeRefundStatus = linked_refund_status empty_db sample_canceled\<rparr>"
  using guard_release_sound [OF sample_cancel_update]
  by (simp add: sample_canceled_def sample_request_def)

text \<open>
  The boundary of the web role. Whatever statement a web session issues, an accepted update
  of a request either decides or cancels a pending request whose effect has not started, or
  freezes a request of a suspended or deauthorized installation; it never starts an execution,
  never records an effect as possible or identified and never confirms a success.
\<close>

lemma web_role_boundary:
  assumes "cx_web ctx" and "request_update ctx d old new = Inr r"
  shows "(web_decision old new \<or> protective_deauthorization d old new)
    \<and> rr_workflowStatus r \<notin> {W_executing, W_succeeded, W_expired, W_pending_approval}
    \<and> (rr_effectState r = rr_effectState old \<or> rr_effectState r = E_absence_proven)
    \<and> rr_executionStartedAt r \<in> {rr_executionStartedAt old, None}"
proof -
  have r: "r = stamped ctx old new" and "trg_enforce_request_role_boundary ctx d old new = Inr ()"
    using assms(2) by (simp_all add: request_update_Inr)
  then have "protective_deauthorization d old new \<or> web_decision old new"
    using assms(1) by (auto simp: trg_enforce_request_role_boundary_def split: if_splits)
  then show ?thesis
  proof
    assume *: "protective_deauthorization d old new"
    then show ?thesis by (auto simp: r protective_deauthorization_def)
  next
    assume *: "web_decision old new"
    then show ?thesis by (auto simp: r web_decision_def)
  qed
qed

text \<open>
  The database accepts a success that Stripe has not confirmed. A worker update that marks an
  executing request as succeeded with an identified effect is accepted although the linked refund
  has no status, when it leaves the payment guard alone: the trigger compares a null status with
  \<open><>\<close>, which is neither true nor false, so its exception is not raised. The domain code refuses
  the same transition.
\<close>

lemma sql_accepts_unconfirmed_success:
  assumes "\<not> cx_web ctx" and "request_checks old" and "rr_workflowStatus old = W_executing"
    and "rr_effectState old = E_identified" and "linked_refund_status d old = None" and "rr_terminalAt old = None"
    and "new = old\<lparr>rr_workflowStatus := W_succeeded, rr_terminalAt := Some t, rr_version := rr_version old + 1\<rparr>"
  shows "request_update ctx d old new = Inr new
    \<and> transitionWorkflowStatus W_executing W_succeeded
        \<lparr>tc_effectState = rr_effectState new, tc_stripeRefundStatus = linked_refund_status d new,
         linkedRefundTerminalCorrection = None\<rparr> = Inl (DomainError INVALID_WORKFLOW_TRANSITION)"
proof -
  have l: "linked_refund_status d new = None"
    using assms(5,7) by (simp add: linked_refund_status_def)
  have st: "stamped ctx old new = new" using assms by (simp add: stamped_def)
  have "trg_validate_workflow_transition d old new = Inr ()" "trg_validate_effect_transition d old new = Inr ()"
    "trg_validate_guard_release d old new = Inr ()" "trg_preserve_request_snapshot old new = Inr ()"
    "trg_enforce_request_role_boundary ctx d old new = Inr ()"
    "trg_validate_durable_decision_transition d old new = Inr ()"
    using assms l by (simp_all add: trg_workflow_Inr trg_effect_Inr trg_guard_Inr trg_preserve_Inr
        workflow_transitions_def same_snapshot_def trg_enforce_request_role_boundary_def
        trg_validate_durable_decision_transition_def)
  moreover have "request_checks new" using assms(2,3,7) by (simp add: request_checks_def)
  moreover have "trg_external_payment_protection d new = Inr ()"
    using assms(2,7)
    by (simp add: trg_external_payment_protection_def lock_payment_scope_def request_checks_def)
  moreover have "rr_reconciliationSafeAfterAt new = rr_reconciliationSafeAfterAt old" using assms(7) by simp
  ultimately have "request_update ctx d old new = Inr new"
    unfolding request_update_Inr st by blast
  then show ?thesis using l
    by (simp add: transitionWorkflowStatus_def workflow_transitions_def)
qed

end
