(* ===== verification/Db_Tables.thy ===== *)
theory Db_Tables
  imports Db_Triggers "HOL-Library.Product_Lexorder" "HOL-Library.Sublist"
begin

text \<open>
  The statements the repositories issue, one \<open>update_\<close> and one \<open>insert_\<close> operation per table,
  each with its triggers, check constraints, foreign keys and unique indexes and under
  row-level security: a statement sees and changes only rows of the transaction's tenant, while
  unique indexes range over the whole table. The where clause of an update is a predicate on
  rows, the data a function on rows; the result is the number of rows changed.
\<close>

definition with_db :: "(db \<Rightarrow> 'a tx) \<Rightarrow> 'a tx" where
  "with_db f d = f d d"

lemma with_db_apply [simp]: "with_db f d = f d d"
  by (simp add: with_db_def)

definition update_table :: "('r \<Rightarrow> bool) \<Rightarrow> ('r \<Rightarrow> err + 'r) \<Rightarrow> 'r list \<Rightarrow> err + nat \<times> 'r list" where
  "update_table p f rs =
     (case map_rows (\<lambda>r. if p r then f r else Inr r) rs of
        Inl e \<Rightarrow> Inl e | Inr rs' \<Rightarrow> Inr (length (filter p rs), rs'))"

lemma update_table_Inr:
  "update_table p f rs = Inr (n, rs') \<longleftrightarrow>
     n = length (filter p rs) \<and> list_all2 (\<lambda>r r'. if p r then f r = Inr r' else r' = r) rs rs'"
proof -
  let ?g = "\<lambda>r. if p r then f r else Inr r"
  have eq: "(\<lambda>r r'. ?g r = Inr r') = (\<lambda>r r'. if p r then f r = Inr r' else r' = r)"
    by (auto simp: fun_eq_iff)
  have "map_rows ?g rs = Inr rs' \<longleftrightarrow> list_all2 (\<lambda>r r'. ?g r = Inr r') rs rs'"
    by (rule iffI, erule map_rows_all2, erule map_rows_Inr)
  then have "map_rows ?g rs = Inr rs' \<longleftrightarrow> list_all2 (\<lambda>r r'. if p r then f r = Inr r' else r' = r) rs rs'"
    unfolding eq .
  then show ?thesis by (cases "map_rows ?g rs") (auto simp: update_table_def)
qed

text \<open>
  Row-level security: \<open>tn\<close> reads the tenant column of the table; the policy's \<open>USING\<close> clause
  restricts the rows, its \<open>WITH CHECK\<close> clause the new row.
\<close>

definition update_own ::
  "('r \<Rightarrow> string) \<Rightarrow> txctx \<Rightarrow> ('r \<Rightarrow> bool) \<Rightarrow> ('r \<Rightarrow> err + 'r) \<Rightarrow> 'r list \<Rightarrow> err + nat \<times> 'r list" where
  "update_own tn ctx p f =
     update_table (\<lambda>r. tn r = cx_tenant ctx \<and> p r)
       (\<lambda>r. bind_err (f r) (\<lambda>r'. if tn r' \<noteq> cx_tenant ctx then Inl (DbError ''row-level security'') else Inr r'))"

lemma update_own_Inr:
  "update_own tn ctx p f rs = Inr (n, rs') \<longleftrightarrow>
     n = length (filter (\<lambda>r. tn r = cx_tenant ctx \<and> p r) rs)
     \<and> list_all2 (\<lambda>r r'. if tn r = cx_tenant ctx \<and> p r then f r = Inr r' \<and> tn r' = cx_tenant ctx else r' = r) rs rs'"
proof -
  have eq: "(bind_err (f r) (\<lambda>r'. if tn r' \<noteq> cx_tenant ctx then Inl (DbError e) else Inr r') = Inr r')
      \<longleftrightarrow> f r = Inr r' \<and> tn r' = cx_tenant ctx" for r r' e by auto
  show ?thesis by (simp only: update_own_def update_table_Inr eq)
qed

lemma update_own_foreign:
  assumes "update_own tn ctx p f rs = Inr (n, rs')"
  shows "filter (\<lambda>r. tn r \<noteq> cx_tenant ctx) rs' = filter (\<lambda>r. tn r \<noteq> cx_tenant ctx) rs"
proof -
  from assms have "list_all2 (\<lambda>r r'. if tn r = cx_tenant ctx \<and> p r then f r = Inr r' \<and> tn r' = cx_tenant ctx else r' = r) rs rs'"
    by (simp add: update_own_Inr)
  then show ?thesis by (induction rule: list_all2_induct) (auto split: if_splits)
qed

lemma update_own_rows:
  assumes "update_own tn ctx p f rs = Inr (n, rs')"
  shows "list_all2 (\<lambda>r r'. r' = r \<or> tn r = cx_tenant ctx \<and> p r \<and> f r = Inr r' \<and> tn r' = cx_tenant ctx) rs rs'"
  using assms unfolding update_own_Inr by (auto elim!: list_all2_mono split: if_splits)

text \<open>\<open>fresh ctx\<close>: the next generated identifier.\<close>

definition fresh :: "txctx \<Rightarrow> db \<Rightarrow> string" where
  "fresh ctx d = cx_uuid ctx (db_fresh d)"

subsection \<open>Tenants, installations, users, policies\<close>

definition update_tenants :: "txctx \<Rightarrow> (Tenant \<Rightarrow> bool) \<Rightarrow> (Tenant \<Rightarrow> Tenant) \<Rightarrow> nat tx" where
  "update_tenants ctx p f d =
     (case update_own tn_id ctx p
        (\<lambda>r. bind_err (raise_when (tn_liveEnabled (f r)
             \<or> tn_status (f r) = T_pending_deletion \<and> tn_pendingDeleteAt (f r) = None)
           ''tenants check constraint'') (\<lambda>_. Inr (f r))) (tenants d) of
      Inl e \<Rightarrow> Inl e | Inr (n, rs) \<Rightarrow> Inr (n, d\<lparr>tenants := rs\<rparr>))"

definition installation_checks :: "StripeInstallation \<Rightarrow> bool" where
  "installation_checks i \<longleftrightarrow> prefixed_id ''acct_'' (si_stripeAccountId i)
     \<and> (si_status i = I_deauthorized \<longrightarrow> si_deauthorizedAt i \<noteq> None)
     \<and> (case (si_lastLifecycleEventId i, si_lastLifecycleEventType i, si_lastLifecycleEventCreatedAt i) of
          (None, None, None) \<Rightarrow> True
        | (Some e, Some t, Some _) \<Rightarrow> prefixed_id ''evt_'' e
            \<and> t \<in> {''account.application.authorized'', ''account.application.deauthorized''}
        | _ \<Rightarrow> False)"

definition update_installations ::
  "txctx \<Rightarrow> (StripeInstallation \<Rightarrow> bool) \<Rightarrow> (StripeInstallation \<Rightarrow> StripeInstallation) \<Rightarrow> nat tx" where
  "update_installations ctx p f d =
     (case update_own si_tenantId ctx p
        (\<lambda>r. bind_err (raise_when (\<not> installation_checks (f r)) ''stripe_installations check constraint'')
           (\<lambda>_. Inr (f r))) (installations d) of
      Inl e \<Rightarrow> Inl e | Inr (n, rs) \<Rightarrow> Inr (n, d\<lparr>installations := rs\<rparr>))"

definition update_users :: "txctx \<Rightarrow> (TenantUser \<Rightarrow> bool) \<Rightarrow> (TenantUser \<Rightarrow> TenantUser) \<Rightarrow> nat tx" where
  "update_users ctx p f d =
     (case update_own tu_tenantId ctx p
        (\<lambda>r. bind_err (raise_when (tu_tenantId (f r) \<noteq> tu_tenantId r \<or> tu_stripeUserId (f r) \<noteq> tu_stripeUserId r
               \<or> tu_createdAt (f r) \<noteq> tu_createdAt r) ''tenant user identity is immutable'')
           (\<lambda>_. Inr (f r))) (users d) of
      Inl e \<Rightarrow> Inl e | Inr (n, rs) \<Rightarrow> Inr (n, d\<lparr>users := rs\<rparr>))"

text \<open>The insertions take the row without its generated id and fill it in.\<close>

definition insert_user :: "txctx \<Rightarrow> TenantUser \<Rightarrow> TenantUser tx" where
  "insert_user ctx r d =
     (let r' = r\<lparr>tu_id := fresh ctx d\<rparr>
      in if tu_tenantId r' \<noteq> cx_tenant ctx then Inl (DbError ''row-level security'')
         else if \<not> prefixed_id ''usr_'' (tu_stripeUserId r') then Inl (DbError ''tenant_users check constraint'')
         else if \<not> (\<exists>t \<in> set (tenants d). tn_id t = tu_tenantId r') then Inl (DbError ''tenant_users foreign key'')
         else if \<exists>x \<in> set (users d). tu_id x = tu_id r'
              \<or> tu_tenantId x = tu_tenantId r' \<and> tu_stripeUserId x = tu_stripeUserId r'
           then Inl (UniqueViolation ''tenant_users_tenant_stripe_user_key'')
         else Inr (r', d\<lparr>users := users d @ [r'], db_fresh := Suc (db_fresh d)\<rparr>))"

definition update_policies :: "txctx \<Rightarrow> (ApprovalPolicy \<Rightarrow> bool) \<Rightarrow> (ApprovalPolicy \<Rightarrow> ApprovalPolicy) \<Rightarrow> nat tx" where
  "update_policies ctx p f d =
     (case update_own ap_tenantId ctx p (\<lambda>r. Inr (f r)) (policies d) of
      Inl e \<Rightarrow> Inl e | Inr (n, rs) \<Rightarrow> Inr (n, d\<lparr>policies := rs\<rparr>))"

definition insert_policy :: "txctx \<Rightarrow> ApprovalPolicy \<Rightarrow> ApprovalPolicy tx" where
  "insert_policy ctx r d =
     (let r' = r\<lparr>ap_id := fresh ctx d\<rparr>
      in if ap_tenantId r' \<noteq> cx_tenant ctx then Inl (DbError ''row-level security'')
         else if ap_version r' \<le> 0 \<or> ap_requiredApprovals r' \<noteq> 1 \<or> ap_expiresAfterSeconds r' \<noteq> 604800
              \<or> \<not> prefixed_id ''usr_'' (ap_createdByStripeUserId r')
           then Inl (DbError ''approval_policies check constraint'')
         else if \<not> (\<exists>t \<in> set (tenants d). tn_id t = ap_tenantId r') then Inl (DbError ''approval_policies foreign key'')
         else if \<exists>x \<in> set (policies d). ap_id x = ap_id r' \<or> ap_tenantId x = ap_tenantId r' \<and> ap_version x = ap_version r'
           then Inl (UniqueViolation ''approval_policies_tenant_version_key'')
         else if ap_active r' \<and> (\<exists>x \<in> set (policies d). ap_tenantId x = ap_tenantId r' \<and> ap_active x)
           then Inl (UniqueViolation ''approval_policies_one_active_per_tenant_key'')
         else Inr (r', d\<lparr>policies := policies d @ [r'], db_fresh := Suc (db_fresh d)\<rparr>))"

subsection \<open>Refund requests\<close>

definition update_requests :: "txctx \<Rightarrow> (RefundRequest \<Rightarrow> bool) \<Rightarrow> (RefundRequest \<Rightarrow> RefundRequest) \<Rightarrow> nat tx" where
  "update_requests ctx p f d =
     (case update_own rr_tenantId ctx p (\<lambda>r. request_update ctx d r (f r)) (requests d) of
      Inl e \<Rightarrow> Inl e | Inr (n, rs) \<Rightarrow> Inr (n, d\<lparr>requests := rs\<rparr>))"

definition insert_request :: "txctx \<Rightarrow> RefundRequest \<Rightarrow> RefundRequest tx" where
  "insert_request ctx r d =
     (case request_insert ctx d r of Inl e \<Rightarrow> Inl e
      | Inr r' \<Rightarrow> Inr (r', d\<lparr>requests := requests d @ [r']\<rparr>))"

subsection \<open>Decisions and attestations\<close>

definition decision_checks :: "ApprovalDecisionRow \<Rightarrow> bool" where
  "decision_checks r = (case (ad_decision r, ad_rejection r) of
     (D_reject, Some e) \<Rightarrow> encrypted_ok e | (D_approve, None) \<Rightarrow> True | _ \<Rightarrow> False)"

definition resource_matches :: "ApprovalAttestation \<Rightarrow> RefundRequest \<Rightarrow> bool" where
  "resource_matches a r \<longleftrightarrow>
     aa_resourceType a = ''payment_intent'' \<and> rr_paymentIntentId r = Some (aa_resourceId a)
     \<or> aa_resourceType a = ''charge'' \<and> rr_chargeId r = Some (aa_resourceId a)"

text \<open>\<open>refunddesk_validate_decision\<close> of migration 20260727230000.\<close>

definition trg_validate_decision :: "txctx \<Rightarrow> db \<Rightarrow> ApprovalDecisionRow \<Rightarrow> err + unit" where
  "trg_validate_decision ctx d new =
     (case first_row (\<lambda>r. rr_id r = ad_requestId new \<and> rr_tenantId r = ad_tenantId new) (requests d) of
        None \<Rightarrow> Inl (DbError ''refund request not found in tenant'')
      | Some r \<Rightarrow>
        if rr_requesterUserId r = ad_approverUserId new
          then Inl (DbError ''requester cannot decide their own request'')
        else if \<not> (\<exists>u \<in> set (users d). tu_tenantId u = ad_tenantId new \<and> tu_id u = ad_approverUserId new
                     \<and> tu_approverEnabled u)
          then Inl (DbError ''approver is not explicitly enabled in the request tenant'')
        else if rr_workflowStatus r \<noteq> W_pending_approval \<or> cx_clock ctx \<ge> rr_expiresAt r
             \<or> ad_decidedAt new < rr_createdAt r \<or> ad_decidedAt new \<ge> rr_expiresAt r
             \<or> ad_decidedAt new > cx_clock ctx
          then Inl (DbError ''request is no longer open for decisions'')
        else if ad_decision new = D_reject then
          raise_when (ad_approvalAttestationId new \<noteq> None)
            ''rejection decisions cannot consume an approval attestation''
        else (case ad_approvalAttestationId new of
            None \<Rightarrow> Inl (DbError ''approval decisions require an independent attestation'')
          | Some aid \<Rightarrow>
            (case first_row (\<lambda>a. aa_id a = aid \<and> aa_tenantId a = ad_tenantId new
                 \<and> aa_requestId a = ad_requestId new \<and> aa_approverUserId a = ad_approverUserId new)
                (attestations d) of
               None \<Rightarrow> Inl (DbError ''approval attestation does not match the decision identity'')
             | Some a \<Rightarrow>
               (case first_row (\<lambda>i. si_id i = rr_installationId r \<and> si_tenantId i = ad_tenantId new
                    \<and> si_environment i = rr_environment r) (installations d) of
                  None \<Rightarrow> Inl (DbError ''approval attestation does not match the current request snapshot'')
                | Some i \<Rightarrow>
                  raise_when (aa_installationId a \<noteq> rr_installationId r
                      \<or> aa_stripeAccountId a \<noteq> si_stripeAccountId i
                      \<or> aa_environment a \<noteq> rr_environment r
                      \<or> aa_requestVersion a \<noteq> rr_version r
                      \<or> aa_verifiedAt a < rr_createdAt r \<or> aa_verifiedAt a > ad_decidedAt new
                      \<or> ad_decidedAt new \<ge> aa_consumeBefore a \<or> aa_consumeBefore a > rr_expiresAt r
                      \<or> \<not> resource_matches a r)
                    ''approval attestation does not match the current request snapshot''))))"

text \<open>The caller may give the identifier of a decision; an absent one is drawn.\<close>

definition insert_decision :: "txctx \<Rightarrow> ApprovalDecisionRow \<Rightarrow> ApprovalDecisionRow tx" where
  "insert_decision ctx r d =
     (let r' = r\<lparr>ad_id := (if ad_id r = [] then fresh ctx d else ad_id r)\<rparr>
      in case trg_validate_decision ctx d r' of Inl e \<Rightarrow> Inl e
         | Inr _ \<Rightarrow>
           if ad_tenantId r' \<noteq> cx_tenant ctx then Inl (DbError ''row-level security'')
           else if \<not> decision_checks r' then Inl (DbError ''approval_decisions check constraint'')
           else if \<exists>x \<in> set (decision_rows d). ad_id x = ad_id r'
                \<or> ad_requestId x = ad_requestId r' \<and> ad_approverUserId x = ad_approverUserId r'
             then Inl (UniqueViolation ''approval_decisions_request_approver_key'')
           else if ad_approvalAttestationId r' \<noteq> None
                \<and> (\<exists>x \<in> set (decision_rows d). ad_approvalAttestationId x = ad_approvalAttestationId r')
             then Inl (UniqueViolation ''approval_decisions_attestation_id_key'')
           else Inr (r', d\<lparr>decision_rows := decision_rows d @ [r'], db_fresh := Suc (db_fresh d)\<rparr>))"

definition attestation_checks :: "ApprovalAttestation \<Rightarrow> bool" where
  "attestation_checks a \<longleftrightarrow> non_live (aa_environment a) \<and> prefixed_id ''acct_'' (aa_stripeAccountId a)
     \<and> (aa_resourceType a = ''payment_intent'' \<and> prefixed_id ''pi_'' (aa_resourceId a)
        \<or> aa_resourceType a = ''charge'' \<and> prefixed_id ''ch_'' (aa_resourceId a))
     \<and> aa_requestVersion a \<ge> 0 \<and> length (aa_signedEnvelopeHash a) = 32
     \<and> length (aa_authorizationSnapshotHash a) = 32 \<and> length (aa_hmac a) = 32
     \<and> version_pattern_9 (aa_hmacKeyVersion a)
     \<and> aa_verifiedAt a \<le> aa_createdAt a \<and> aa_createdAt a < aa_consumeBefore a"

definition insert_attestation :: "txctx \<Rightarrow> ApprovalAttestation \<Rightarrow> ApprovalAttestation tx" where
  "insert_attestation ctx r d =
     (if aa_tenantId r \<noteq> cx_tenant ctx then Inl (DbError ''row-level security'')
      else if \<not> attestation_checks r then Inl (DbError ''approval_attestations check constraint'')
      else if \<not> (\<exists>i \<in> set (installations d). si_id i = aa_installationId r \<and> si_tenantId i = aa_tenantId r
               \<and> si_stripeAccountId i = aa_stripeAccountId r \<and> si_environment i = aa_environment r)
           \<or> \<not> (\<exists>q \<in> set (requests d). rr_id q = aa_requestId r \<and> rr_tenantId q = aa_tenantId r
               \<and> rr_installationId q = aa_installationId r \<and> rr_environment q = aa_environment r)
           \<or> \<not> (\<exists>u \<in> set (users d). tu_id u = aa_approverUserId r \<and> tu_tenantId u = aa_tenantId r)
        then Inl (DbError ''approval_attestations foreign key'')
      else if \<exists>x \<in> set (attestations d). aa_id x = aa_id r
           \<or> aa_tenantId x = aa_tenantId r \<and> aa_requestNonce x = aa_requestNonce r
        then Inl (UniqueViolation ''approval_attestations_tenant_nonce_key'')
      else Inr (r, d\<lparr>attestations := attestations d @ [r]\<rparr>))"

subsection \<open>Executions and attempts\<close>

definition web_denied :: "txctx \<Rightarrow> err + unit" where
  "web_denied ctx = raise_when (cx_web ctx) ''web runtime cannot write worker-owned execution data''"

definition trg_validate_execution_insert :: "db \<Rightarrow> RefundExecution \<Rightarrow> err + unit" where
  "trg_validate_execution_insert d new =
     (case first_row (\<lambda>r. rr_id r = ex_requestId new \<and> rr_tenantId r = ex_tenantId new) (requests d) of
        None \<Rightarrow> Inl (DbError ''refund request not found for execution'')
      | Some r \<Rightarrow>
        bind_err (raise_when (rr_amountMinor r \<noteq> ex_amountMinor new \<or> rr_currency r \<noteq> ex_currency new)
          ''execution parameters differ from request snapshot'') (\<lambda>_.
        bind_err (raise_when (ex_idempotencyKey new
            \<noteq> ''refunddesk:refund-request:'' @ ex_requestId new @ '':v1'')
          ''execution idempotency key does not match request'') (\<lambda>_.
        raise_when (rr_workflowStatus r \<noteq> W_executing)
          ''execution can be created only for a claimed request'')))"

definition execution_checks :: "RefundExecution \<Rightarrow> bool" where
  "execution_checks e \<longleftrightarrow>
     (\<exists>u. ex_idempotencyKey e = ''refunddesk:refund-request:'' @ u @ '':v1'' \<and> uuid_strict u)
     \<and> length (ex_canonicalParametersHash e) = 32
     \<and> (case ex_stripeRefundId e of None \<Rightarrow> ex_stripeRefundStatus e = None | Some i \<Rightarrow> prefixed_id ''re_'' i)
     \<and> ex_amountMinor e > 0 \<and> currency_pattern (ex_currency e)"

text \<open>The idempotency-key pattern of the check, executably: strip the fixed prefix and suffix.\<close>

lemma execution_checks_code [code]:
  "execution_checks e \<longleftrightarrow>
     (let k = ex_idempotencyKey e; u = take (length k - 29) (drop 26 k)
      in k = ''refunddesk:refund-request:'' @ u @ '':v1'' \<and> uuid_strict u)
     \<and> length (ex_canonicalParametersHash e) = 32
     \<and> (case ex_stripeRefundId e of None \<Rightarrow> ex_stripeRefundStatus e = None | Some i \<Rightarrow> prefixed_id ''re_'' i)
     \<and> ex_amountMinor e > 0 \<and> currency_pattern (ex_currency e)"
proof -
  have "(\<exists>u. k = ''refunddesk:refund-request:'' @ u @ '':v1'' \<and> uuid_strict u) \<longleftrightarrow>
      k = ''refunddesk:refund-request:'' @ take (length k - 29) (drop 26 k) @ '':v1''
      \<and> uuid_strict (take (length k - 29) (drop 26 k))" for k
  proof
    assume "\<exists>u. k = ''refunddesk:refund-request:'' @ u @ '':v1'' \<and> uuid_strict u"
    then obtain u where k: "k = ''refunddesk:refund-request:'' @ u @ '':v1''" and u: "uuid_strict u" by blast
    have "length k = length u + 29" using k by simp
    moreover have "drop 26 k = u @ '':v1''" using k by (simp add: numeral_nat)
    ultimately have "take (length k - 29) (drop 26 k) = u" by simp
    with k u show "k = ''refunddesk:refund-request:'' @ take (length k - 29) (drop 26 k) @ '':v1''
      \<and> uuid_strict (take (length k - 29) (drop 26 k))" by simp
  qed blast
  then show ?thesis by (auto simp: execution_checks_def Let_def)
qed

definition executions_unique :: "RefundExecution list \<Rightarrow> bool" where
  "executions_unique es \<longleftrightarrow>
     distinct (map (\<lambda>e. (ex_tenantId e, ex_stripeRefundId e)) (filter (\<lambda>e. ex_stripeRefundId e \<noteq> None) es))"

definition insert_execution :: "txctx \<Rightarrow> RefundExecution \<Rightarrow> RefundExecution tx" where
  "insert_execution ctx r d =
     (let r' = r\<lparr>ex_id := fresh ctx d\<rparr>
      in case bind_err (web_denied ctx) (\<lambda>_. trg_validate_execution_insert d r') of Inl e \<Rightarrow> Inl e
         | Inr _ \<Rightarrow>
           if ex_tenantId r' \<noteq> cx_tenant ctx then Inl (DbError ''row-level security'')
           else if \<not> execution_checks r' then Inl (DbError ''refund_executions check constraint'')
           else if \<exists>x \<in> set (executions d). ex_id x = ex_id r'
                \<or> ex_requestId x = ex_requestId r' \<and> ex_tenantId x = ex_tenantId r'
                \<or> ex_tenantId x = ex_tenantId r' \<and> ex_idempotencyKey x = ex_idempotencyKey r'
                \<or> ex_tenantId x = ex_tenantId r' \<and> ex_stripeRefundId r' \<noteq> None
                  \<and> ex_stripeRefundId x = ex_stripeRefundId r'
             then Inl (UniqueViolation ''refund_executions'')
           else Inr (r', d\<lparr>executions := executions d @ [r'], db_fresh := Suc (db_fresh d)\<rparr>))"

text \<open>\<open>refunddesk_preserve_first_refund_link\<close> of migration 20260726190000.\<close>

definition trg_preserve_first_refund_link :: "RefundExecution \<Rightarrow> RefundExecution \<Rightarrow> err + unit" where
  "trg_preserve_first_refund_link old new =
     bind_err (raise_when (ex_tenantId new \<noteq> ex_tenantId old \<or> ex_requestId new \<noteq> ex_requestId old
         \<or> ex_idempotencyKey new \<noteq> ex_idempotencyKey old
         \<or> ex_canonicalParametersHash new \<noteq> ex_canonicalParametersHash old
         \<or> ex_amountMinor new \<noteq> ex_amountMinor old \<or> ex_currency new \<noteq> ex_currency old
         \<or> ex_createdAt new \<noteq> ex_createdAt old)
       ''refund execution identity and parameters are immutable'') (\<lambda>_.
     bind_err (raise_when (ex_stripeRefundId old \<noteq> None \<and> ex_stripeRefundId new \<noteq> ex_stripeRefundId old)
       ''the first linked Stripe Refund ID is immutable'') (\<lambda>_.
     bind_err (raise_when (ex_stripeRefundStatus old \<in> {Some R_succeeded, Some R_failed, Some R_canceled}
         \<and> ex_stripeRefundStatus new \<noteq> ex_stripeRefundStatus old
         \<and> \<not> (ex_stripeRefundStatus old = Some R_succeeded
               \<and> ex_stripeRefundStatus new \<in> {Some R_failed, Some R_canceled}
            \<or> ex_stripeRefundStatus old = Some R_canceled \<and> ex_stripeRefundStatus new = Some R_failed))
       ''terminal Stripe refund status is immutable'') (\<lambda>_.
     raise_when (case (ex_lastStripeEventCreatedAt old, ex_lastStripeEventCreatedAt new) of
         (Some o', Some n) \<Rightarrow> n < o' | _ \<Rightarrow> False)
       ''out-of-order Stripe event cannot replace newer state'')))"

definition update_executions ::
  "txctx \<Rightarrow> (RefundExecution \<Rightarrow> bool) \<Rightarrow> (RefundExecution \<Rightarrow> RefundExecution) \<Rightarrow> nat tx" where
  "update_executions ctx p f d =
     (case update_own ex_tenantId ctx p
        (\<lambda>r. bind_err (web_denied ctx) (\<lambda>_. bind_err (trg_preserve_first_refund_link r (f r)) (\<lambda>_.
           bind_err (raise_when (\<not> execution_checks (f r)) ''refund_executions check constraint'')
             (\<lambda>_. Inr (f r))))) (executions d) of
      Inl e \<Rightarrow> Inl e
    | Inr (n, rs) \<Rightarrow>
        if executions_unique rs then Inr (n, d\<lparr>executions := rs\<rparr>)
        else Inl (UniqueViolation ''refund_executions_tenant_stripe_refund_key''))"

definition attempt_checks :: "RefundExecutionAttempt \<Rightarrow> bool" where
  "attempt_checks a \<longleftrightarrow> at_attemptNumber a > 0 \<and> (at_state a = X_started \<longleftrightarrow> at_finishedAt a = None)"

definition insert_attempt :: "txctx \<Rightarrow> RefundExecutionAttempt \<Rightarrow> RefundExecutionAttempt tx" where
  "insert_attempt ctx r d =
     (let r' = r\<lparr>at_id := fresh ctx d\<rparr>
      in if cx_web ctx then Inl (DbError ''web runtime cannot write worker-owned execution data'')
         else if at_tenantId r' \<noteq> cx_tenant ctx then Inl (DbError ''row-level security'')
         else if \<not> attempt_checks r' then Inl (DbError ''refund_execution_attempts check constraint'')
         else if \<not> (\<exists>e \<in> set (executions d). ex_id e = at_executionId r' \<and> ex_tenantId e = at_tenantId r')
           then Inl (DbError ''refund_execution_attempts foreign key'')
         else if \<exists>x \<in> set (attempts d). at_id x = at_id r'
              \<or> at_executionId x = at_executionId r' \<and> at_attemptNumber x = at_attemptNumber r'
           then Inl (UniqueViolation ''refund_execution_attempts_execution_number_key'')
         else Inr (r', d\<lparr>attempts := attempts d @ [r'], db_fresh := Suc (db_fresh d)\<rparr>))"

definition update_attempts ::
  "txctx \<Rightarrow> (RefundExecutionAttempt \<Rightarrow> bool) \<Rightarrow> (RefundExecutionAttempt \<Rightarrow> RefundExecutionAttempt) \<Rightarrow> nat tx" where
  "update_attempts ctx p f d =
     (case update_own at_tenantId ctx p
        (\<lambda>r. bind_err (web_denied ctx) (\<lambda>_.
           bind_err (raise_when (\<not> attempt_checks (f r)) ''refund_execution_attempts check constraint'')
             (\<lambda>_. Inr (f r)))) (attempts d) of
      Inl e \<Rightarrow> Inl e | Inr (n, rs) \<Rightarrow> Inr (n, d\<lparr>attempts := rs\<rparr>))"

subsection \<open>Correlation candidates\<close>

definition candidate_checks :: "RefundCorrelationCandidate \<Rightarrow> bool" where
  "candidate_checks c \<longleftrightarrow> prefixed_id ''re_'' (cc_stripeRefundId c) \<and> payment_key_ok (cc_paymentKey c)
     \<and> (cc_paymentIntentId c \<noteq> None \<or> cc_chargeId c \<noteq> None)
     \<and> cc_amountMinor c > 0 \<and> currency_pattern (cc_currency c)
     \<and> (case cc_stripeEventId c of None \<Rightarrow> True | Some e \<Rightarrow> prefixed_id ''evt_'' e)
     \<and> (cc_stripeEventId c = None \<longleftrightarrow> cc_stripeEventCreatedAt c = None)
     \<and> (cc_eventIdempotencyCorrelation c = EV_absent \<or> cc_stripeEventId c \<noteq> None)
     \<and> cc_lastObservedAt c \<ge> cc_firstObservedAt c
     \<and> (cc_state c \<in> {CC_exact_linked, CC_unique_linked} \<longleftrightarrow> cc_resolvedAt c \<noteq> None)"

definition insert_candidate :: "txctx \<Rightarrow> RefundCorrelationCandidate \<Rightarrow> RefundCorrelationCandidate tx" where
  "insert_candidate ctx r d =
     (let r' = r\<lparr>cc_id := fresh ctx d\<rparr>
      in if cx_web ctx then Inl (DbError ''web runtime cannot write worker-owned execution data'')
         else if cc_tenantId r' \<noteq> cx_tenant ctx then Inl (DbError ''row-level security'')
         else if \<not> candidate_checks r' then Inl (DbError ''refund_correlation_candidates check constraint'')
         else if \<not> (\<exists>q \<in> set (requests d). rr_id q = cc_requestId r' \<and> rr_tenantId q = cc_tenantId r')
              \<or> \<not> (\<exists>i \<in> set (installations d). si_id i = cc_installationId r' \<and> si_tenantId i = cc_tenantId r')
           then Inl (DbError ''refund_correlation_candidates foreign key'')
         else if \<exists>x \<in> set (candidates d). cc_id x = cc_id r'
              \<or> cc_requestId x = cc_requestId r' \<and> cc_stripeRefundId x = cc_stripeRefundId r'
           then Inl (UniqueViolation ''refund_candidates_request_refund_key'')
         else Inr (r', d\<lparr>candidates := candidates d @ [r'], db_fresh := Suc (db_fresh d)\<rparr>))"

definition update_candidates ::
  "txctx \<Rightarrow> (RefundCorrelationCandidate \<Rightarrow> bool) \<Rightarrow> (RefundCorrelationCandidate \<Rightarrow> RefundCorrelationCandidate) \<Rightarrow> nat tx" where
  "update_candidates ctx p f d =
     (case update_own cc_tenantId ctx p
        (\<lambda>r. bind_err (web_denied ctx) (\<lambda>_.
           bind_err (raise_when (\<not> candidate_checks (f r)) ''refund_correlation_candidates check constraint'')
             (\<lambda>_. Inr (f r)))) (candidates d) of
      Inl e \<Rightarrow> Inl e | Inr (n, rs) \<Rightarrow> Inr (n, d\<lparr>candidates := rs\<rparr>))"

subsection \<open>Webhook receipts\<close>

definition endpoint_environment :: "WebhookEndpoint \<Rightarrow> StripeEnvironment option" where
  "endpoint_environment e = (case e of
     EP_connected_test \<Rightarrow> Some Env_test | EP_account_test \<Rightarrow> Some Env_test
   | EP_connected_sandbox \<Rightarrow> Some Env_sandbox | EP_account_sandbox \<Rightarrow> Some Env_sandbox
   | EP_connected_live \<Rightarrow> None)"

definition payload_object_id :: "NormalizedAccountWebhookPayload \<Rightarrow> string" where
  "payload_object_id p = (case np_body p of RefundBody r \<Rightarrow> nr_refund_id r | InstallationBody a \<Rightarrow> a)"

definition receipt_checks :: "WebhookReceipt \<Rightarrow> bool" where
  "receipt_checks r \<longleftrightarrow> prefixed_id ''evt_'' (wr_stripeEventId r) \<and> prefixed_id ''acct_'' (wr_stripeAccountId r)
     \<and> wr_endpoint r \<noteq> EP_connected_live
     \<and> wr_eventType r \<in> {''refund.created'', ''refund.updated'', ''refund.failed'',
          ''account.application.authorized'', ''account.application.deauthorized''}
     \<and> np_event_type (wr_normalizedPayload r) = wr_eventType r
     \<and> endpoint_environment (wr_endpoint r) = Some (np_environment (wr_normalizedPayload r))
     \<and> payload_object_id (wr_normalizedPayload r) = wr_objectId r
     \<and> wr_processingAttempts r \<ge> 0 \<and> (wr_status r = RC_processed \<longrightarrow> wr_processedAt r \<noteq> None)"

text \<open>\<open>createMany\<close> with \<open>skipDuplicates\<close>: a conflict inserts nothing and counts zero.\<close>

definition insert_receipt_skip :: "txctx \<Rightarrow> WebhookReceipt \<Rightarrow> nat tx" where
  "insert_receipt_skip ctx r d =
     (let r' = r\<lparr>wr_id := fresh ctx d\<rparr>
      in if wr_tenantId r' \<noteq> cx_tenant ctx then Inl (DbError ''row-level security'')
         else if \<not> receipt_checks r' then Inl (DbError ''webhook_receipts check constraint'')
         else if \<exists>x \<in> set (receipts d). wr_id x = wr_id r'
              \<or> wr_stripeAccountId x = wr_stripeAccountId r' \<and> wr_stripeEventId x = wr_stripeEventId r'
           then Inr (0, d\<lparr>db_fresh := Suc (db_fresh d)\<rparr>)
         else if \<not> (\<exists>i \<in> set (installations d). si_id i = wr_installationId r' \<and> si_tenantId i = wr_tenantId r')
           then Inl (DbError ''webhook_receipts foreign key'')
         else Inr (1, d\<lparr>receipts := receipts d @ [r'], db_fresh := Suc (db_fresh d)\<rparr>))"

definition update_receipts :: "txctx \<Rightarrow> (WebhookReceipt \<Rightarrow> bool) \<Rightarrow> (WebhookReceipt \<Rightarrow> WebhookReceipt) \<Rightarrow> nat tx" where
  "update_receipts ctx p f d =
     (case update_own wr_tenantId ctx p
        (\<lambda>r. bind_err (raise_when (\<not> receipt_checks (f r)) ''webhook_receipts check constraint'')
           (\<lambda>_. Inr (f r))) (receipts d) of
      Inl e \<Rightarrow> Inl e | Inr (n, rs) \<Rightarrow> Inr (n, d\<lparr>receipts := rs\<rparr>))"

subsection \<open>External refund alerts\<close>

definition alert_checks :: "ExternalRefundAlert \<Rightarrow> bool" where
  "alert_checks a \<longleftrightarrow> prefixed_id ''re_'' (al_stripeRefundId a) \<and> non_live (al_environment a)
     \<and> al_stripeRefundCreatedAt a \<le> al_detectedAt a \<and> payment_key_ok (al_paymentKey a)
     \<and> al_amountMinor a > 0 \<and> currency_pattern (al_currency a)
     \<and> (if al_status a = AL_acknowledged then al_acknowledgedAt a \<noteq> None \<and> al_acknowledgedByUserId a \<noteq> None
        else al_acknowledgedAt a = None \<and> al_acknowledgedByUserId a = None)
     \<and> al_reconciledAt a = None"

text \<open>\<open>INSERT ... ON CONFLICT (installation_id, stripe_refund_id) DO NOTHING\<close>\<close>

definition insert_alert_skip :: "txctx \<Rightarrow> ExternalRefundAlert \<Rightarrow> unit tx" where
  "insert_alert_skip ctx r d =
     (let r' = r\<lparr>al_id := fresh ctx d\<rparr>
      in if al_tenantId r' \<noteq> cx_tenant ctx then Inl (DbError ''row-level security'')
         else if \<not> alert_checks r' then Inl (DbError ''external_refund_alerts check constraint'')
         else if \<exists>x \<in> set (alerts d). al_installationId x = al_installationId r'
              \<and> al_stripeRefundId x = al_stripeRefundId r'
           then Inr ((), d\<lparr>db_fresh := Suc (db_fresh d)\<rparr>)
         else if \<exists>x \<in> set (alerts d). al_id x = al_id r' then Inl (UniqueViolation ''external_refund_alerts_pkey'')
         else if \<not> (\<exists>i \<in> set (installations d). si_id i = al_installationId r' \<and> si_tenantId i = al_tenantId r'
                  \<and> si_environment i = al_environment r')
           then Inl (DbError ''external_refund_alerts foreign key'')
         else Inr ((), d\<lparr>alerts := alerts d @ [r'], db_fresh := Suc (db_fresh d)\<rparr>))"

definition same_protection :: "ExternalRefundAlert \<Rightarrow> ExternalRefundAlert \<Rightarrow> bool" where
  "same_protection new old \<longleftrightarrow>
     al_tenantId new = al_tenantId old \<and> al_installationId new = al_installationId old
     \<and> al_environment new = al_environment old \<and> al_stripeRefundId new = al_stripeRefundId old
     \<and> al_stripeRefundCreatedAt new = al_stripeRefundCreatedAt old \<and> al_paymentKey new = al_paymentKey old
     \<and> al_amountMinor new = al_amountMinor old \<and> al_currency new = al_currency old
     \<and> al_classification new = al_classification old \<and> al_detectedAt new = al_detectedAt old
     \<and> al_overlappedRequestId new = al_overlappedRequestId old \<and> al_reconciledAt new = al_reconciledAt old"

definition trg_preserve_external_refund_protection :: "ExternalRefundAlert \<Rightarrow> ExternalRefundAlert \<Rightarrow> err + unit" where
  "trg_preserve_external_refund_protection old new =
     bind_err (raise_when (\<not> same_protection new old) ''external refund payment protection is immutable'') (\<lambda>_.
     raise_when (al_status old = AL_acknowledged
         \<and> (al_status new \<noteq> al_status old \<or> al_acknowledgedAt new \<noteq> al_acknowledgedAt old
            \<or> al_acknowledgedByUserId new \<noteq> al_acknowledgedByUserId old))
       ''external refund acknowledgement is immutable'')"

definition update_alerts ::
  "txctx \<Rightarrow> (ExternalRefundAlert \<Rightarrow> bool) \<Rightarrow> (ExternalRefundAlert \<Rightarrow> ExternalRefundAlert) \<Rightarrow> nat tx" where
  "update_alerts ctx p f d =
     (case update_own al_tenantId ctx p
        (\<lambda>r. bind_err (trg_preserve_external_refund_protection r (f r)) (\<lambda>_.
           bind_err (raise_when (\<not> alert_checks (f r)) ''external_refund_alerts check constraint'')
             (\<lambda>_. Inr (f r)))) (alerts d) of
      Inl e \<Rightarrow> Inl e | Inr (n, rs) \<Rightarrow> Inr (n, d\<lparr>alerts := rs\<rparr>))"

subsection \<open>Audit events and mutation receipts\<close>

definition insert_audit :: "txctx \<Rightarrow> AuditEvent \<Rightarrow> AuditEvent tx" where
  "insert_audit ctx r d =
     (let r' = r\<lparr>ae_id := fresh ctx d\<rparr>
      in if ae_tenantId r' \<noteq> cx_tenant ctx then Inl (DbError ''row-level security'')
         else if ae_actorType r' \<notin> {''stripe_user'', ''system'', ''worker'', ''webhook''}
              \<or> \<not> is_object (ae_actorSnapshot r') \<or> \<not> is_object (ae_payload r')
           then Inl (DbError ''audit_events check constraint'')
         else if \<not> (\<exists>t \<in> set (tenants d). tn_id t = ae_tenantId r') then Inl (DbError ''audit_events foreign key'')
         else if \<exists>x \<in> set (audits d). ae_id x = ae_id r' then Inl (UniqueViolation ''audit_events_pkey'')
         else Inr (r', d\<lparr>audits := audits d @ [r'], db_fresh := Suc (db_fresh d)\<rparr>))"

definition insert_mutation :: "txctx \<Rightarrow> ApiMutationReceipt \<Rightarrow> ApiMutationReceipt tx" where
  "insert_mutation ctx r d =
     (let r' = r\<lparr>mr_id := fresh ctx d\<rparr>
      in if mr_tenantId r' \<noteq> cx_tenant ctx then Inl (DbError ''row-level security'')
         else if length (mr_canonicalRequestHash r') \<noteq> 32 \<or> mr_responseStatus r' < 200 \<or> mr_responseStatus r' > 499
              \<or> mr_expiresAt r' \<le> mr_createdAt r'
           then Inl (DbError ''api_mutation_receipts check constraint'')
         else if \<exists>x \<in> set (mutations d). mr_id x = mr_id r'
              \<or> mr_tenantId x = mr_tenantId r' \<and> mr_requestNonce x = mr_requestNonce r'
           then Inl (UniqueViolation ''api_mutation_receipts_tenant_nonce_key'')
         else Inr (r', d\<lparr>mutations := mutations d @ [r'], db_fresh := Suc (db_fresh d)\<rparr>))"

subsection \<open>Reconciliation checkpoints\<close>

definition checkpoint_checks :: "ReconciliationCheckpoint \<Rightarrow> bool" where
  "checkpoint_checks c \<longleftrightarrow>
     (if ck_pageInProgress c then (case ck_scanWindowEnd c of None \<Rightarrow> False | Some e \<Rightarrow> e > ck_committedThrough c)
      else ck_scanWindowEnd c = None \<and> ck_startingAfter c = None)"

definition insert_checkpoint :: "txctx \<Rightarrow> ReconciliationCheckpoint \<Rightarrow> ReconciliationCheckpoint tx" where
  "insert_checkpoint ctx r d =
     (let r' = r\<lparr>ck_id := fresh ctx d\<rparr>
      in if ck_tenantId r' \<noteq> cx_tenant ctx then Inl (DbError ''row-level security'')
         else if \<not> checkpoint_checks r' then Inl (DbError ''reconciliation_checkpoints check constraint'')
         else if \<not> (\<exists>i \<in> set (installations d). si_id i = ck_installationId r' \<and> si_tenantId i = ck_tenantId r')
           then Inl (DbError ''reconciliation_checkpoints foreign key'')
         else if \<exists>x \<in> set (checkpoints d). ck_id x = ck_id r' \<or> ck_installationId x = ck_installationId r'
           then Inl (UniqueViolation ''reconciliation_checkpoints_installation_key'')
         else Inr (r', d\<lparr>checkpoints := checkpoints d @ [r'], db_fresh := Suc (db_fresh d)\<rparr>))"

definition update_checkpoints ::
  "txctx \<Rightarrow> (ReconciliationCheckpoint \<Rightarrow> bool) \<Rightarrow> (ReconciliationCheckpoint \<Rightarrow> ReconciliationCheckpoint) \<Rightarrow> nat tx" where
  "update_checkpoints ctx p f d =
     (case update_own ck_tenantId ctx p
        (\<lambda>r. bind_err (raise_when (\<not> checkpoint_checks (f r)) ''reconciliation_checkpoints check constraint'')
           (\<lambda>_. Inr (f r))) (checkpoints d) of
      Inl e \<Rightarrow> Inl e | Inr (n, rs) \<Rightarrow> Inr (n, d\<lparr>checkpoints := rs\<rparr>))"

end
