(* ===== verification/Tenant_Repositories.thy ===== *)
theory Tenant_Repositories
  imports Db_Tables
begin

text \<open>
  \<open>packages/db/src/tenant-repositories.ts\<close> and \<open>refund-candidate-policy.ts\<close>: every operation of
  the class \<open>TenantRepositories\<close> that changes the database, and the reads the workers use. An
  operation is a transaction over \<open>db\<close>; \<open>ctx\<close> is the transaction context with the tenant of the
  class instance. Row locks (\<open>FOR UPDATE\<close>, advisory locks) have no effect inside a serialised
  transaction, only the number of rows they return is used. Text columns are ordered by code
  unit.
\<close>

subsection \<open>Inputs and results\<close>

record IdentifiedRefundInput =
  ii_requestId :: string
  ii_stripeRefundId :: string
  ii_stripeRefundStatus :: "StripeRefundStatus option"
  ii_preserve :: bool  \<comment> \<open>reconciliationResolution = "preserve"\<close>
  ii_stripeRequestId :: "string option"
  ii_stripeEventId :: "string option"
  ii_stripeEventCreatedAt :: "date option"
  ii_observedAt :: date

record RefundCorrelationCandidateInput =
  ci_requestId :: string
  ci_installationId :: string
  ci_stripeRefundId :: string
  ci_paymentKey :: string
  ci_paymentIntentId :: "string option"
  ci_chargeId :: "string option"
  ci_amountMinor :: int
  ci_currency :: string
  ci_stripeRefundStatus :: "StripeRefundStatus option"
  ci_stripeCreatedAt :: date
  ci_stripeEventId :: "string option"
  ci_stripeEventCreatedAt :: "date option"
  ci_eventIdempotencyCorrelation :: EventIdempotencyCorrelation
  ci_scanWindowEnd :: "date option"
  ci_observedAt :: date

record FinishExecutionAttemptInput =
  fi_attemptId :: string
  fi_state :: ExecutionAttemptState
  fi_normalizedErrorCode :: "string option"
  fi_stripeRequestId :: "string option"
  fi_finishedAt :: date

text \<open>The dates of an observation may be invalid (\<open>NaN\<close>): \<^term>\<open>None\<close>.\<close>

record ExternalRefundObservationInput =
  eo_installationId :: string
  eo_stripeRefundId :: string
  eo_stripeRefundCreatedAt :: "date option"
  eo_paymentKey :: string
  eo_amountMinor :: int
  eo_currency :: string
  eo_classification :: AlertClassification
  eo_observedAt :: "date option"

record WebhookDeauthorizationInput =
  wd_installationId :: string
  wd_stripeEventId :: string
  wd_stripeEventCreatedAt :: date
  wd_purgeAt :: date

record DecisionResult =
  dr_decision :: ApprovalDecisionRow
  becameApproved :: bool
  becameRejected :: bool

record ExecutionWorkItem =
  wi_request :: RefundRequest
  wi_tenant :: Tenant
  wi_installation :: StripeInstallation
  wi_execution :: "(RefundExecution \<times> RefundExecutionAttempt list) option"
  wi_requester :: TenantUser
  wi_approval :: "(ApprovalDecisionRow \<times> TenantUser \<times> ApprovalAttestation option) option"

datatype RefundCandidateDecision =
    CD_already_linked | CD_proof_replay | CD_link_exact | CD_link_unique
  | CD_wait_for_complete_scan | CD_conflict

definition decideRefundCandidate ::
  "string option \<Rightarrow> string \<Rightarrow> EventIdempotencyCorrelation \<Rightarrow> int \<Rightarrow> bool \<Rightarrow> bool \<Rightarrow> err + RefundCandidateDecision" where
  "decideRefundCandidate linkedId candidateId evidence candidateCount completeScan scanCoversExecution =
     (if \<not> safe_integer candidateCount \<or> candidateCount < 1
      then Inl (RangeError ''candidateCount must be a positive integer'')
      else (case linkedId of
          Some l \<Rightarrow> Inr (if l = candidateId then CD_already_linked else CD_proof_replay)
        | None \<Rightarrow>
            Inr (if evidence = EV_exact then CD_link_exact
                 else if evidence = EV_mismatch \<or> candidateCount > 1 then CD_conflict
                 else if completeScan \<and> scanCoversExecution then CD_link_unique
                 else CD_wait_for_complete_scan)))"

text \<open>
  Whether an observation of a linked refund replaces the stored one; the arguments are the stored
  status and event time and the incoming ones.
\<close>

definition shouldApplyRefundObservation ::
  "StripeRefundStatus option \<Rightarrow> date option \<Rightarrow> StripeRefundStatus option \<Rightarrow> date option \<Rightarrow> bool" where
  "shouldApplyRefundObservation currentStatus currentEventCreatedAt incomingStatus incomingEventCreatedAt =
     (if (case (incomingEventCreatedAt, currentEventCreatedAt) of (Some i, Some c) \<Rightarrow> i < c | _ \<Rightarrow> False) then False
      else if currentStatus = Some R_failed then incomingStatus = Some R_failed
      else if currentStatus = Some R_canceled then incomingStatus = Some R_canceled \<or> incomingStatus = Some R_failed
      else if currentStatus = Some R_succeeded \<and> incomingStatus \<noteq> Some R_succeeded then
        incomingStatus = Some R_failed \<or> incomingStatus = Some R_canceled
      else if currentStatus \<noteq> None \<and> incomingStatus = None then False
      else if (case (incomingEventCreatedAt, currentEventCreatedAt) of (Some i, Some c) \<Rightarrow> i = c | _ \<Rightarrow> False)
              \<and> incomingStatus \<noteq> currentStatus then
        (if incomingStatus = Some R_failed then True
         else if currentStatus = None \<and> incomingStatus \<noteq> None then True
         else incomingStatus = Some R_succeeded \<or> incomingStatus = Some R_canceled)
      else True)"

subsection \<open>Users, installations, policies\<close>

definition getTenantUserByStripeUserId :: "txctx \<Rightarrow> string \<Rightarrow> db \<Rightarrow> TenantUser option" where
  "getTenantUserByStripeUserId ctx stripeUserId d =
     first_row (\<lambda>u. tu_tenantId u = cx_tenant ctx \<and> tu_stripeUserId u = stripeUserId) (users d)"

text \<open>An absent \<open>displayName\<close> or \<open>stripeRoles\<close> (\<open>undefined\<close>) is \<^term>\<open>None\<close>; a null name is \<^term>\<open>Some None\<close>.\<close>

definition observeTenantUser :: "txctx \<Rightarrow> string \<Rightarrow> string option option \<Rightarrow> string option \<Rightarrow> date \<Rightarrow> TenantUser tx" where
  "observeTenantUser ctx stripeUserId displayName roles verifiedAt =
     with_db (\<lambda>d. case getTenantUserByStripeUserId ctx stripeUserId d of
        None \<Rightarrow> insert_user ctx \<lparr>tu_id = [], tu_tenantId = cx_tenant ctx, tu_stripeUserId = stripeUserId,
          tu_displayName = (case displayName of None \<Rightarrow> None | Some n \<Rightarrow> n),
          tu_stripeRoles = (case roles of None \<Rightarrow> ''[]'' | Some r \<Rightarrow> r), tu_approverEnabled = False,
          tu_lastVerifiedAt = verifiedAt, tu_createdAt = cx_clock ctx\<rparr>
      | Some u \<Rightarrow>
          (let upd = (\<lambda>r. r\<lparr>tu_displayName := (case displayName of None \<Rightarrow> tu_displayName r | Some n \<Rightarrow> n),
                 tu_stripeRoles := (case roles of None \<Rightarrow> tu_stripeRoles r | Some s \<Rightarrow> s),
                 tu_lastVerifiedAt := verifiedAt\<rparr>)
           in bind_tx (update_users ctx (\<lambda>r. tu_id r = tu_id u) upd) (\<lambda>_. return_tx (upd u))))"

definition setApproverEnabled :: "txctx \<Rightarrow> string \<Rightarrow> bool \<Rightarrow> TenantUser option tx" where
  "setApproverEnabled ctx userId enabled =
     bind_tx (update_users ctx (\<lambda>r. tu_id r = userId \<and> tu_tenantId r = cx_tenant ctx)
                (\<lambda>r. r\<lparr>tu_approverEnabled := enabled\<rparr>)) (\<lambda>n.
     if n = 1 then gets_tx (\<lambda>d. first_row (\<lambda>u. tu_id u = userId \<and> tu_tenantId u = cx_tenant ctx) (users d))
     else return_tx None)"

definition setApproverEnabledByStripeUserId :: "txctx \<Rightarrow> string \<Rightarrow> bool \<Rightarrow> TenantUser option tx" where
  "setApproverEnabledByStripeUserId ctx stripeUserId enabled =
     bind_tx (update_users ctx (\<lambda>r. tu_tenantId r = cx_tenant ctx \<and> tu_stripeUserId r = stripeUserId)
                (\<lambda>r. r\<lparr>tu_approverEnabled := enabled\<rparr>)) (\<lambda>n.
     if n = 1 then gets_tx (getTenantUserByStripeUserId ctx stripeUserId) else return_tx None)"

text \<open>An ascending column that may be NULL sorts its NULLs last.\<close>

definition nulls_last :: "string option \<Rightarrow> bool \<times> string" where
  "nulls_last x = (case x of None \<Rightarrow> (True, []) | Some s \<Rightarrow> (False, s))"

definition listApprovers :: "txctx \<Rightarrow> db \<Rightarrow> TenantUser list" where
  "listApprovers ctx d = sort_key (\<lambda>u. (nulls_last (tu_displayName u), tu_id u))
     (filter (\<lambda>u. tu_tenantId u = cx_tenant ctx \<and> tu_approverEnabled u) (users d))"

definition listObservedTenantUsers :: "txctx \<Rightarrow> db \<Rightarrow> TenantUser list" where
  "listObservedTenantUsers ctx d = sort_key (\<lambda>u. (nulls_last (tu_displayName u), tu_stripeUserId u))
     (filter (\<lambda>u. tu_tenantId u = cx_tenant ctx) (users d))"

definition countEligibleDistinctApprovers :: "txctx \<Rightarrow> string \<Rightarrow> db \<Rightarrow> nat" where
  "countEligibleDistinctApprovers ctx requesterUserId d =
     length (filter (\<lambda>u. tu_tenantId u = cx_tenant ctx \<and> tu_approverEnabled u \<and> tu_id u \<noteq> requesterUserId) (users d))"

definition getInstallationContext :: "txctx \<Rightarrow> string \<Rightarrow> db \<Rightarrow> StripeInstallation option" where
  "getInstallationContext ctx installationId d =
     first_row (\<lambda>i. si_id i = installationId \<and> si_tenantId i = cx_tenant ctx) (installations d)"

definition listInstallations :: "txctx \<Rightarrow> db \<Rightarrow> StripeInstallation list" where
  "listInstallations ctx d =
     sort_key (\<lambda>i. (si_installedAt i, si_id i)) (filter (\<lambda>i. si_tenantId i = cx_tenant ctx) (installations d))"

definition getActiveApprovalPolicy :: "txctx \<Rightarrow> db \<Rightarrow> ApprovalPolicy option" where
  "getActiveApprovalPolicy ctx d =
     first_row (\<lambda>p. ap_tenantId p = cx_tenant ctx \<and> ap_active p) (policies d)"

record SettingsSnapshot =
  ss_installation :: StripeInstallation
  ss_activePolicy :: "ApprovalPolicy option"
  ss_approvers :: "TenantUser list"

definition getSettings :: "txctx \<Rightarrow> string \<Rightarrow> db \<Rightarrow> SettingsSnapshot option" where
  "getSettings ctx installationId d =
     map_option (\<lambda>i. \<lparr>ss_installation = i, ss_activePolicy = getActiveApprovalPolicy ctx d, ss_approvers = listApprovers ctx d\<rparr>)
       (getInstallationContext ctx installationId d)"

definition completeOnboarding :: "txctx \<Rightarrow> string \<Rightarrow> date \<Rightarrow> bool tx" where
  "completeOnboarding ctx installationId completedAt =
     bind_tx (update_installations ctx
        (\<lambda>i. si_id i = installationId \<and> si_tenantId i = cx_tenant ctx \<and> si_status i = I_active)
        (\<lambda>i. i\<lparr>si_onboardingCompletedAt := Some completedAt\<rparr>)) (\<lambda>n. return_tx (n = 1))"

definition createApprovalPolicy :: "txctx \<Rightarrow> string \<Rightarrow> ApprovalPolicy tx" where
  "createApprovalPolicy ctx createdBy =
     bind_tx (gets_tx (\<lambda>d. opt_max (map ap_version (filter (\<lambda>p. ap_tenantId p = cx_tenant ctx) (policies d))))) (\<lambda>latest.
     bind_tx (update_policies ctx (\<lambda>p. ap_tenantId p = cx_tenant ctx \<and> ap_active p)
                (\<lambda>p. p\<lparr>ap_active := False\<rparr>)) (\<lambda>_.
     insert_policy ctx \<lparr>ap_id = [], ap_tenantId = cx_tenant ctx,
       ap_version = (case latest of None \<Rightarrow> 0 | Some v \<Rightarrow> v) + 1, ap_active = True,
       ap_requiredApprovals = 1, ap_expiresAfterSeconds = 604800, ap_createdByStripeUserId = createdBy,
       ap_createdAt = cx_clock ctx\<rparr>))"

subsection \<open>Deauthorization\<close>

definition stale_where :: "RefundRequest \<Rightarrow> bool" where
  "stale_where r \<longleftrightarrow> rr_workflowStatus r \<in> {W_pending_approval, W_approved} \<and> rr_effectState r = E_not_started
     \<and> rr_paymentGuardReleasedAt r = None"

definition terminal_where :: "RefundRequest \<Rightarrow> bool" where
  "terminal_where r \<longleftrightarrow> rr_workflowStatus r = W_executing \<and> rr_effectState r \<in> {E_not_started, E_absence_proven}
     \<and> rr_paymentGuardReleasedAt r = None"

definition reconciliation_where :: "RefundRequest \<Rightarrow> bool" where
  "reconciliation_where r \<longleftrightarrow> rr_workflowStatus r = W_executing \<and> rr_effectState r \<in> {E_possible, E_identified}
     \<and> rr_paymentGuardReleasedAt r = None"

definition close_request :: "WorkflowStatus \<Rightarrow> date \<Rightarrow> RefundRequest \<Rightarrow> RefundRequest" where
  "close_request w t r = r\<lparr>rr_workflowStatus := w, rr_effectState := E_absence_proven,
     rr_terminalAt := Some t, rr_paymentGuardReleasedAt := Some t, rr_version := rr_version r + 1\<rparr>"

definition require_reconciliation :: "RefundRequest \<Rightarrow> RefundRequest" where
  "require_reconciliation r = r\<lparr>rr_workflowStatus := W_reconciliation_required, rr_version := rr_version r + 1\<rparr>"

text \<open>
  The three compare-and-set updates that freeze requests, used for deauthorization and for an
  external refund on a payment: \<open>scope\<close> is the part of the where clause that differs, \<open>e\<close> the
  error when a count differs from the rows locked at the beginning.
\<close>

definition settle_requests :: "txctx \<Rightarrow> (RefundRequest \<Rightarrow> bool) \<Rightarrow> date \<Rightarrow> string \<Rightarrow> (nat \<times> nat \<times> nat) tx" where
  "settle_requests ctx scope occurredAt e =
     bind_tx (gets_tx (\<lambda>d. filter (\<lambda>r. rr_tenantId r = cx_tenant ctx \<and> scope r) (requests d))) (\<lambda>lockedRequests.
     bind_tx (update_requests ctx (\<lambda>r. scope r \<and> stale_where r) (close_request W_stale occurredAt)) (\<lambda>stale.
     bind_tx (update_requests ctx (\<lambda>r. scope r \<and> terminal_where r) (close_request W_failed_terminal occurredAt)) (\<lambda>terminal.
     bind_tx (update_requests ctx (\<lambda>r. scope r \<and> reconciliation_where r) require_reconciliation) (\<lambda>reconciliation.
     if stale \<noteq> length (filter stale_where lockedRequests)
        \<or> terminal \<noteq> length (filter terminal_where lockedRequests)
        \<or> reconciliation \<noteq> length (filter reconciliation_where lockedRequests)
     then throw_tx (Error e)
     else return_tx (stale, terminal, reconciliation)))))"

definition settleRequestsForDeauthorization :: "txctx \<Rightarrow> date \<Rightarrow> unit tx" where
  "settleRequestsForDeauthorization ctx occurredAt =
     bind_tx (gets_tx (\<lambda>d. length (filter (\<lambda>t. tn_id t = cx_tenant ctx) (tenants d)))) (\<lambda>lockedTenant.
     if lockedTenant \<noteq> 1 then throw_tx (Error ''DEAUTHORIZATION_TENANT_LOCK_FAILED'')
     else bind_tx (settle_requests ctx (\<lambda>_. True) occurredAt ''DEAUTHORIZATION_REQUEST_COMPARE_AND_SET_FAILED'')
            (\<lambda>_. return_tx ()))"

definition deauthorizeInstallation :: "txctx \<Rightarrow> string \<Rightarrow> date \<Rightarrow> date \<Rightarrow> bool tx" where
  "deauthorizeInstallation ctx installationId deauthorizedAt purgeAt =
     (if purgeAt \<le> deauthorizedAt then throw_tx (RangeError ''Tenant purge must be scheduled after deauthorization'')
      else bind_tx (gets_tx (\<lambda>d. length (filter (\<lambda>i. si_id i = installationId \<and> si_tenantId i = cx_tenant ctx)
             (installations d)))) (\<lambda>locked.
        if locked \<noteq> 1 then return_tx False
        else bind_tx (update_installations ctx (\<lambda>i. si_id i = installationId \<and> si_tenantId i = cx_tenant ctx)
               (\<lambda>i. i\<lparr>si_status := I_deauthorized, si_deauthorizedAt := Some deauthorizedAt\<rparr>)) (\<lambda>n.
          if n \<noteq> 1 then throw_tx (Error ''DEAUTHORIZATION_INSTALLATION_COMPARE_AND_SET_FAILED'')
          else bind_tx (settleRequestsForDeauthorization ctx deauthorizedAt) (\<lambda>_.
            bind_tx (update_tenants ctx (\<lambda>t. tn_id t = cx_tenant ctx)
              (\<lambda>t. t\<lparr>tn_status := T_pending_deletion, tn_pendingDeleteAt := Some purgeAt\<rparr>)) (\<lambda>_.
            return_tx True)))))"

definition lifecycle_applies :: "StripeInstallation \<Rightarrow> string \<Rightarrow> date \<Rightarrow> bool" where
  "lifecycle_applies i stripeEventId stripeEventCreatedAt =
     (case si_lastLifecycleEventCreatedAt i of
        None \<Rightarrow> True
      | Some prior \<Rightarrow> stripeEventCreatedAt > prior
          \<or> prior = stripeEventCreatedAt
            \<and> (si_lastLifecycleEventId i = Some stripeEventId
               \<or> si_lastLifecycleEventType i = Some ''account.application.authorized''))"

definition applyWebhookDeauthorization :: "txctx \<Rightarrow> WebhookDeauthorizationInput \<Rightarrow> bool tx" where
  "applyWebhookDeauthorization ctx input =
     (if wd_purgeAt input \<le> wd_stripeEventCreatedAt input
      then throw_tx (RangeError ''Tenant purge must be scheduled after deauthorization'')
      else bind_tx (gets_tx (\<lambda>d. length (filter (\<lambda>i. si_id i = wd_installationId input
             \<and> si_tenantId i = cx_tenant ctx) (installations d)))) (\<lambda>locked.
        if locked \<noteq> 1 then return_tx False
        else bind_tx (gets_tx (getInstallationContext ctx (wd_installationId input))) (\<lambda>found.
          case found of None \<Rightarrow> return_tx False
          | Some installation \<Rightarrow>
            if si_environment installation = Env_live then return_tx False
            else if \<not> lifecycle_applies installation (wd_stripeEventId input) (wd_stripeEventCreatedAt input)
            then return_tx False
            else bind_tx (update_installations ctx (\<lambda>i. si_id i = si_id installation)
              (\<lambda>i. i\<lparr>si_status := I_deauthorized, si_deauthorizedAt := Some (wd_stripeEventCreatedAt input),
                 si_lastLifecycleEventId := Some (wd_stripeEventId input),
                 si_lastLifecycleEventType := Some ''account.application.deauthorized'',
                 si_lastLifecycleEventCreatedAt := Some (wd_stripeEventCreatedAt input)\<rparr>)) (\<lambda>_.
            bind_tx (settleRequestsForDeauthorization ctx (wd_stripeEventCreatedAt input)) (\<lambda>_.
            bind_tx (update_tenants ctx (\<lambda>t. tn_id t = cx_tenant ctx)
              (\<lambda>t. t\<lparr>tn_status := T_pending_deletion, tn_pendingDeleteAt := Some (wd_purgeAt input)\<rparr>)) (\<lambda>n.
            if n = 0 then throw_tx (DbError ''P2025'') else return_tx True))))))"

subsection \<open>Requests, decisions, attestations\<close>

definition createRefundRequest :: "txctx \<Rightarrow> RefundRequest \<Rightarrow> RefundRequest tx" where
  "createRefundRequest ctx data = insert_request ctx (data\<lparr>rr_tenantId := cx_tenant ctx\<rparr>)"

definition getRefundRequest :: "txctx \<Rightarrow> string \<Rightarrow> db \<Rightarrow> RefundRequest option" where
  "getRefundRequest ctx requestId d =
     first_row (\<lambda>r. rr_id r = requestId \<and> rr_tenantId r = cx_tenant ctx) (requests d)"

definition getRefundRequestDetail ::
  "txctx \<Rightarrow> string \<Rightarrow> db \<Rightarrow> (RefundRequest \<times> ApprovalDecisionRow list
     \<times> (RefundExecution \<times> RefundExecutionAttempt list) option) option" where
  "getRefundRequestDetail ctx requestId d =
     (case getRefundRequest ctx requestId d of None \<Rightarrow> None
      | Some r \<Rightarrow> Some (r,
          sort_key (\<lambda>x. (ad_decidedAt x, ad_id x))
            (filter (\<lambda>x. ad_requestId x = rr_id r \<and> ad_tenantId x = rr_tenantId r) (decision_rows d)),
          (case first_row (\<lambda>e. ex_requestId e = rr_id r \<and> ex_tenantId e = rr_tenantId r) (executions d) of
             None \<Rightarrow> None
           | Some e \<Rightarrow> Some (e, sort_key at_attemptNumber
               (filter (\<lambda>a. at_executionId a = ex_id e \<and> at_tenantId a = ex_tenantId e) (attempts d))))))"

text \<open>
  A page of the tenant's rows in descending order. With a cursor the page starts at its row, which
  \<open>skip: 1\<close> leaves out; a cursor that names no visible row gives an empty page.
\<close>

definition cursor_page ::
  "('r \<Rightarrow> 'k::linorder) \<Rightarrow> ('r \<Rightarrow> string) \<Rightarrow> ('r \<Rightarrow> bool) \<Rightarrow> string option \<Rightarrow> nat \<Rightarrow> 'r list \<Rightarrow> 'r list" where
  "cursor_page key ident p cursor limit rows =
     (let sorted' = rev (sort_key key (filter p rows))
      in take limit (case cursor of None \<Rightarrow> sorted'
         | Some c \<Rightarrow> (case first_row (\<lambda>r. ident r = c) rows of None \<Rightarrow> []
            | Some r \<Rightarrow> drop 1 (filter (\<lambda>x. key x \<le> key r) sorted'))))"

datatype RequestListScope = RS_requester | RS_awaiting_approval | RS_all

definition request_scope :: "RequestListScope \<Rightarrow> string \<Rightarrow> db \<Rightarrow> RefundRequest \<Rightarrow> bool" where
  "request_scope scope actor d r = (case scope of
     RS_requester \<Rightarrow> rr_requesterUserId r = actor
   | RS_awaiting_approval \<Rightarrow> rr_workflowStatus r = W_pending_approval \<and> rr_requesterUserId r \<noteq> actor
       \<and> \<not> (\<exists>x \<in> set (decision_rows d). ad_requestId x = rr_id r \<and> ad_tenantId x = rr_tenantId r \<and> ad_approverUserId x = actor)
   | RS_all \<Rightarrow> True)"

definition listRefundRequests ::
  "txctx \<Rightarrow> string \<Rightarrow> string option \<Rightarrow> int \<Rightarrow> RequestListScope \<Rightarrow> RefundRequest list tx" where
  "listRefundRequests ctx actorUserId cursor limit scope =
     (if \<not> safe_integer limit \<or> limit < 1 \<or> limit > 100
      then throw_tx (RangeError ''Request page size must be between 1 and 100'')
      else gets_tx (\<lambda>d. cursor_page (\<lambda>r. (rr_createdAt r, rr_id r)) rr_id (request_scope scope actorUserId d) cursor
        (nat limit) (filter (\<lambda>r. rr_tenantId r = cx_tenant ctx) (requests d))))"

definition getActiveRequestByPayment :: "txctx \<Rightarrow> StripeEnvironment \<Rightarrow> string \<Rightarrow> db \<Rightarrow> RefundRequest option" where
  "getActiveRequestByPayment ctx environment paymentKey d =
     first_row (\<lambda>r. rr_tenantId r = cx_tenant ctx \<and> rr_environment r = environment \<and> rr_paymentKey r = paymentKey
       \<and> rr_paymentGuardReleasedAt r = None) (requests d)"

definition repo_recordDecision :: "txctx \<Rightarrow> ApprovalDecisionRow \<Rightarrow> date \<Rightarrow> DecisionResult tx" where
  "repo_recordDecision ctx data now =
     bind_tx (insert_decision ctx (data\<lparr>ad_tenantId := cx_tenant ctx\<rparr>)) (\<lambda>dec.
     if ad_decision dec = D_reject then
       bind_tx (update_requests ctx
         (\<lambda>r. rr_id r = ad_requestId dec \<and> rr_tenantId r = cx_tenant ctx
            \<and> rr_workflowStatus r = W_pending_approval \<and> rr_effectState r = E_not_started)
         (\<lambda>r. r\<lparr>rr_workflowStatus := W_rejected, rr_terminalAt := Some now,
            rr_paymentGuardReleasedAt := Some now, rr_version := rr_version r + 1\<rparr>)) (\<lambda>n.
       return_tx \<lparr>dr_decision = dec, becameApproved = False, becameRejected = (n = 1)\<rparr>)
     else
       bind_tx (update_requests ctx
         (\<lambda>r. rr_id r = ad_requestId dec \<and> rr_tenantId r = cx_tenant ctx
            \<and> rr_workflowStatus r = W_pending_approval)
         (\<lambda>r. r\<lparr>rr_workflowStatus := W_approved, rr_approvedAt := Some now, rr_version := rr_version r + 1\<rparr>)) (\<lambda>n.
       return_tx \<lparr>dr_decision = dec, becameApproved = (n = 1), becameRejected = False\<rparr>))"

definition persistApprovalAttestation :: "txctx \<Rightarrow> ApprovalAttestation \<Rightarrow> ApprovalAttestation tx" where
  "persistApprovalAttestation ctx data = insert_attestation ctx (data\<lparr>aa_tenantId := cx_tenant ctx\<rparr>)"

definition getApprovalAttestation :: "txctx \<Rightarrow> string \<Rightarrow> db \<Rightarrow> ApprovalAttestation option" where
  "getApprovalAttestation ctx attestationId d =
     first_row (\<lambda>a. aa_id a = attestationId \<and> aa_tenantId a = cx_tenant ctx) (attestations d)"

definition getApprovalAttestationByNonce :: "txctx \<Rightarrow> string \<Rightarrow> db \<Rightarrow> ApprovalAttestation option" where
  "getApprovalAttestationByNonce ctx requestNonce d =
     first_row (\<lambda>a. aa_requestNonce a = requestNonce \<and> aa_tenantId a = cx_tenant ctx) (attestations d)"

definition cancelPendingRequest :: "txctx \<Rightarrow> string \<Rightarrow> string \<Rightarrow> date \<Rightarrow> bool tx" where
  "cancelPendingRequest ctx requestId requesterUserId now =
     bind_tx (update_requests ctx
       (\<lambda>r. rr_id r = requestId \<and> rr_tenantId r = cx_tenant ctx \<and> rr_requesterUserId r = requesterUserId
          \<and> rr_workflowStatus r = W_pending_approval \<and> rr_effectState r = E_not_started)
       (\<lambda>r. r\<lparr>rr_workflowStatus := W_canceled, rr_terminalAt := Some now,
          rr_paymentGuardReleasedAt := Some now, rr_version := rr_version r + 1\<rparr>)) (\<lambda>n. return_tx (n = 1))"

definition expirePendingRequests :: "txctx \<Rightarrow> date \<Rightarrow> int \<Rightarrow> nat tx" where
  "expirePendingRequests ctx now limit =
     (if \<not> safe_integer limit \<or> limit < 1 \<or> limit > 1000
      then throw_tx (RangeError ''Expiry batch limit must be between 1 and 1000'')
      else bind_tx (gets_tx (\<lambda>d. map rr_id (take (nat limit) (sort_key rr_expiresAt
             (filter (\<lambda>r. rr_tenantId r = cx_tenant ctx \<and> rr_workflowStatus r = W_pending_approval
                \<and> rr_effectState r = E_not_started \<and> rr_expiresAt r \<le> now) (requests d)))))) (\<lambda>ids.
        if ids = [] then return_tx 0
        else update_requests ctx
          (\<lambda>r. rr_tenantId r = cx_tenant ctx \<and> rr_id r \<in> set ids
             \<and> rr_workflowStatus r = W_pending_approval \<and> rr_effectState r = E_not_started)
          (\<lambda>r. r\<lparr>rr_workflowStatus := W_expired, rr_terminalAt := Some now,
             rr_paymentGuardReleasedAt := Some now, rr_version := rr_version r + 1\<rparr>)))"

subsection \<open>Execution\<close>

text \<open>The relation filters of the claim: an active tenant that is not live and an active non-live installation.\<close>

definition executable_scope :: "db \<Rightarrow> RefundRequest \<Rightarrow> bool" where
  "executable_scope d r \<longleftrightarrow>
     (\<exists>t \<in> set (tenants d). tn_id t = rr_tenantId r \<and> tn_status t = T_active \<and> \<not> tn_liveEnabled t)
     \<and> (\<exists>i \<in> set (installations d). si_id i = rr_installationId r \<and> si_tenantId i = rr_tenantId r
          \<and> si_environment i = rr_environment r \<and> si_status i = I_active \<and> non_live (si_environment i))"

definition claimExecution :: "txctx \<Rightarrow> string \<Rightarrow> date \<Rightarrow> RefundRequest option tx" where
  "claimExecution ctx requestId now =
     bind_tx (with_db (\<lambda>d. update_requests ctx
       (\<lambda>r. rr_id r = requestId \<and> rr_tenantId r = cx_tenant ctx \<and> rr_workflowStatus r = W_approved
          \<and> rr_effectState r = E_not_started \<and> rr_paymentGuardReleasedAt r = None
          \<and> non_live (rr_environment r) \<and> executable_scope d r)
       (\<lambda>r. r\<lparr>rr_workflowStatus := W_executing, rr_executionStartedAt := Some now,
          rr_version := rr_version r + 1\<rparr>))) (\<lambda>n.
     if n = 1 then gets_tx (getRefundRequest ctx requestId) else return_tx None)"

definition getExecutionWorkItem :: "txctx \<Rightarrow> string \<Rightarrow> ExecutionWorkItem option tx" where
  "getExecutionWorkItem ctx requestId =
     with_db (\<lambda>d. case getRefundRequest ctx requestId d of None \<Rightarrow> return_tx None
      | Some request \<Rightarrow>
        (case first_row (\<lambda>t. tn_id t = cx_tenant ctx) (tenants d) of
           None \<Rightarrow> throw_tx (Error ''EXECUTION_WORK_ITEM_TENANT_NOT_FOUND'')
         | Some tenant \<Rightarrow>
        (case getInstallationContext ctx (rr_installationId request) d of
           None \<Rightarrow> throw_tx (Error ''EXECUTION_WORK_ITEM_INSTALLATION_NOT_FOUND'')
         | Some installation \<Rightarrow>
        (case first_row (\<lambda>u. tu_id u = rr_requesterUserId request \<and> tu_tenantId u = cx_tenant ctx) (users d) of
           None \<Rightarrow> throw_tx (Error ''EXECUTION_WORK_ITEM_REQUESTER_NOT_FOUND'')
         | Some requester \<Rightarrow>
        (let execution = map_option (\<lambda>e. (e, sort_key at_attemptNumber
                 (filter (\<lambda>a. at_executionId a = ex_id e \<and> at_tenantId a = cx_tenant ctx) (attempts d))))
               (first_row (\<lambda>e. ex_requestId e = rr_id request \<and> ex_tenantId e = cx_tenant ctx) (executions d));
             item = (\<lambda>approval. \<lparr>wi_request = request, wi_tenant = tenant, wi_installation = installation,
               wi_execution = execution, wi_requester = requester, wi_approval = approval\<rparr>)
         in case sort_key (\<lambda>x. (ad_decidedAt x, ad_id x)) (filter (\<lambda>x. ad_decision x = D_approve
                 \<and> ad_requestId x = rr_id request \<and> ad_tenantId x = cx_tenant ctx) (decision_rows d)) of
            [] \<Rightarrow> return_tx (Some (item None))
          | dec # _ \<Rightarrow>
            (case first_row (\<lambda>u. tu_id u = ad_approverUserId dec \<and> tu_tenantId u = cx_tenant ctx) (users d) of
               None \<Rightarrow> throw_tx (Error ''EXECUTION_WORK_ITEM_APPROVER_NOT_FOUND'')
             | Some approver \<Rightarrow>
               return_tx (Some (item (Some (dec, approver,
                 (case ad_approvalAttestationId dec of None \<Rightarrow> None
                  | Some aid \<Rightarrow> first_row (\<lambda>a. aa_approverUserId a = ad_approverUserId dec \<and> aa_id a = aid
                      \<and> aa_requestId a = rr_id request \<and> aa_tenantId a = cx_tenant ctx) (attestations d)))))))))))) "

definition lockExecutionAuthorization :: "txctx \<Rightarrow> string \<Rightarrow> string \<Rightarrow> db \<Rightarrow> bool" where
  "lockExecutionAuthorization ctx requestId installationId d \<longleftrightarrow>
     length (filter (\<lambda>i. si_id i = installationId \<and> si_tenantId i = cx_tenant ctx) (installations d)) = 1
     \<and> length (filter (\<lambda>t. tn_id t = cx_tenant ctx) (tenants d)) = 1
     \<and> length (filter (\<lambda>r. rr_id r = requestId \<and> rr_tenantId r = cx_tenant ctx
          \<and> rr_installationId r = installationId) (requests d)) = 1"

definition claimExecutionWorkItem :: "txctx \<Rightarrow> string \<Rightarrow> date \<Rightarrow> ExecutionWorkItem option tx" where
  "claimExecutionWorkItem ctx requestId now =
     bind_tx (claimExecution ctx requestId now) (\<lambda>claimed.
     case claimed of None \<Rightarrow> return_tx None | Some _ \<Rightarrow> getExecutionWorkItem ctx requestId)"

definition resumeExecutionAfterAbsence :: "txctx \<Rightarrow> string \<Rightarrow> date \<Rightarrow> RefundRequest option tx" where
  "resumeExecutionAfterAbsence ctx requestId now =
     bind_tx (update_requests ctx
       (\<lambda>r. rr_id r = requestId \<and> rr_tenantId r = cx_tenant ctx
          \<and> rr_workflowStatus r = W_reconciliation_required \<and> rr_effectState r = E_absence_proven)
       (\<lambda>r. r\<lparr>rr_workflowStatus := W_executing, rr_executionStartedAt := Some now,
          rr_version := rr_version r + 1\<rparr>)) (\<lambda>n.
     if n = 1 then gets_tx (getRefundRequest ctx requestId) else return_tx None)"

definition markEffectPossible :: "txctx \<Rightarrow> string \<Rightarrow> bool tx" where
  "markEffectPossible ctx requestId =
     bind_tx (update_requests ctx
       (\<lambda>r. rr_id r = requestId \<and> rr_tenantId r = cx_tenant ctx \<and> rr_workflowStatus r = W_executing
          \<and> rr_effectState r \<in> {E_not_started, E_absence_proven})
       (\<lambda>r. r\<lparr>rr_effectState := E_possible, rr_version := rr_version r + 1\<rparr>)) (\<lambda>n. return_tx (n = 1))"

definition markReconciliationRequired :: "txctx \<Rightarrow> string \<Rightarrow> bool tx" where
  "markReconciliationRequired ctx requestId =
     bind_tx (update_requests ctx
       (\<lambda>r. rr_id r = requestId \<and> rr_tenantId r = cx_tenant ctx \<and> rr_workflowStatus r = W_executing
          \<and> rr_paymentGuardReleasedAt r = None)
       require_reconciliation) (\<lambda>n. return_tx (n = 1))"

definition markAbsenceProven :: "txctx \<Rightarrow> string \<Rightarrow> bool tx" where
  "markAbsenceProven ctx requestId =
     bind_tx (update_requests ctx
       (\<lambda>r. rr_id r = requestId \<and> rr_tenantId r = cx_tenant ctx
          \<and> rr_workflowStatus r = W_reconciliation_required \<and> rr_effectState r = E_possible)
       (\<lambda>r. r\<lparr>rr_effectState := E_absence_proven, rr_version := rr_version r + 1\<rparr>)) (\<lambda>n. return_tx (n = 1))"

definition markCertainAbsenceWhileExecuting :: "txctx \<Rightarrow> string \<Rightarrow> bool tx" where
  "markCertainAbsenceWhileExecuting ctx requestId =
     bind_tx (update_requests ctx
       (\<lambda>r. rr_id r = requestId \<and> rr_tenantId r = cx_tenant ctx \<and> rr_workflowStatus r = W_executing
          \<and> rr_effectState r = E_possible)
       (\<lambda>r. r\<lparr>rr_effectState := E_absence_proven, rr_version := rr_version r + 1\<rparr>)) (\<lambda>n. return_tx (n = 1))"

definition markTerminalFailureAfterAbsence :: "txctx \<Rightarrow> string \<Rightarrow> date \<Rightarrow> bool tx" where
  "markTerminalFailureAfterAbsence ctx requestId now =
     bind_tx (update_requests ctx
       (\<lambda>r. rr_id r = requestId \<and> rr_tenantId r = cx_tenant ctx \<and> rr_workflowStatus r = W_executing
          \<and> rr_effectState r \<in> {E_not_started, E_absence_proven})
       (close_request W_failed_terminal now)) (\<lambda>n. return_tx (n = 1))"

definition ensureExecution :: "txctx \<Rightarrow> string \<Rightarrow> string \<Rightarrow> bytes \<Rightarrow> int \<Rightarrow> string \<Rightarrow> RefundExecution tx" where
  "ensureExecution ctx requestId idempotencyKey hash amountMinor currency =
     with_db (\<lambda>d. case first_row (\<lambda>e. ex_requestId e = requestId \<and> ex_tenantId e = cx_tenant ctx) (executions d) of
        Some e \<Rightarrow> return_tx e
      | None \<Rightarrow> insert_execution ctx \<lparr>ex_id = [], ex_tenantId = cx_tenant ctx, ex_requestId = requestId,
          ex_idempotencyKey = idempotencyKey, ex_canonicalParametersHash = hash, ex_stripeRefundId = None,
          ex_stripeRefundStatus = None, ex_amountMinor = amountMinor, ex_currency = currency,
          ex_lastStripeEventId = None, ex_lastStripeEventCreatedAt = None, ex_lastStripeRequestId = None,
          ex_createdAt = cx_clock ctx, ex_reconciledAt = None\<rparr>)"

definition beginExecutionAttempt :: "txctx \<Rightarrow> string \<Rightarrow> int \<Rightarrow> date \<Rightarrow> RefundExecutionAttempt tx" where
  "beginExecutionAttempt ctx executionId attemptNumber startedAt =
     (if \<not> safe_integer attemptNumber \<or> attemptNumber < 1
      then throw_tx (RangeError ''Execution attempt number must be positive'')
      else insert_attempt ctx \<lparr>at_id = [], at_tenantId = cx_tenant ctx, at_executionId = executionId,
        at_attemptNumber = attemptNumber, at_state = X_started, at_normalizedErrorCode = None,
        at_stripeRequestId = None, at_startedAt = startedAt, at_finishedAt = None\<rparr>)"

definition finishExecutionAttempt :: "txctx \<Rightarrow> FinishExecutionAttemptInput \<Rightarrow> bool tx" where
  "finishExecutionAttempt ctx input =
     bind_tx (update_attempts ctx
       (\<lambda>a. at_id a = fi_attemptId input \<and> at_tenantId a = cx_tenant ctx \<and> at_state a = X_started)
       (\<lambda>a. a\<lparr>at_state := fi_state input,
          at_normalizedErrorCode := (case fi_normalizedErrorCode input of None \<Rightarrow> at_normalizedErrorCode a | x \<Rightarrow> x),
          at_stripeRequestId := (case fi_stripeRequestId input of None \<Rightarrow> at_stripeRequestId a | x \<Rightarrow> x),
          at_finishedAt := Some (fi_finishedAt input)\<rparr>)) (\<lambda>n. return_tx (n = 1))"

end
