(* ===== verification/Reconciliation_Repositories.thy ===== *)
theory Reconciliation_Repositories
  imports Tenant_Repositories
begin

text \<open>
  The second half of \<open>TenantRepositories\<close>: observations of refunds, correlation candidates,
  webhook receipts (with the row consistency check of \<open>connected-webhook.ts\<close>), external refunds,
  work lists and reconciliation checkpoints.
\<close>

subsection \<open>Linking a refund to its request\<close>

definition active_where :: "txctx \<Rightarrow> string \<Rightarrow> RefundRequest \<Rightarrow> bool" where
  "active_where ctx requestId r \<longleftrightarrow> rr_id r = requestId \<and> rr_tenantId r = cx_tenant ctx
     \<and> rr_workflowStatus r \<in> {W_executing, W_reconciliation_required}
     \<and> rr_effectState r \<in> {E_possible, E_identified}"

text \<open>The update of the execution row, guarded by the values read under lock.\<close>

definition linked_row :: "IdentifiedRefundInput \<Rightarrow> RefundExecution \<Rightarrow> RefundExecution" where
  "linked_row input x =
     x\<lparr>ex_stripeRefundId := Some (ii_stripeRefundId input),
       ex_stripeRefundStatus := ii_stripeRefundStatus input,
       ex_lastStripeRequestId := (case ii_stripeRequestId input of None \<Rightarrow> ex_lastStripeRequestId x | s \<Rightarrow> s),
       ex_lastStripeEventId := (case ii_stripeEventId input of None \<Rightarrow> ex_lastStripeEventId x | s \<Rightarrow> s),
       ex_lastStripeEventCreatedAt :=
         (case ii_stripeEventCreatedAt input of None \<Rightarrow> ex_lastStripeEventCreatedAt x | s \<Rightarrow> s),
       ex_reconciledAt := Some (ii_observedAt input)\<rparr>"

definition update_linked_execution :: "txctx \<Rightarrow> RefundExecution \<Rightarrow> IdentifiedRefundInput \<Rightarrow> nat tx" where
  "update_linked_execution ctx e input =
     update_executions ctx
       (\<lambda>x. ex_id x = ex_id e \<and> ex_tenantId x = cx_tenant ctx \<and> ex_requestId x = ii_requestId input
          \<and> ex_stripeRefundId x = ex_stripeRefundId e \<and> ex_stripeRefundStatus x = ex_stripeRefundStatus e
          \<and> ex_lastStripeEventCreatedAt x = ex_lastStripeEventCreatedAt e)
       (linked_row input)"

text \<open>A request in reconciliation whose resolution is preserved: the effect becomes identified, the status stays.\<close>

definition preserve_reconciliation :: "txctx \<Rightarrow> RefundRequest \<Rightarrow> IdentifiedRefundInput \<Rightarrow> bool tx" where
  "preserve_reconciliation ctx lockedRequest input =
     (let protect = bind_tx (update_requests ctx
            (\<lambda>r. rr_id r = ii_requestId input \<and> rr_tenantId r = cx_tenant ctx
               \<and> rr_workflowStatus r = W_reconciliation_required
               \<and> rr_effectState r \<in> {E_possible, E_identified} \<and> rr_paymentGuardReleasedAt r = None)
            (\<lambda>r. r\<lparr>rr_effectState := E_identified, rr_version := rr_version r + 1\<rparr>)) (\<lambda>n. return_tx (n = 1))
      in if rr_effectState lockedRequest = E_not_started \<or> rr_effectState lockedRequest = E_absence_proven then
           bind_tx (update_requests ctx
             (\<lambda>r. rr_id r = ii_requestId input \<and> rr_tenantId r = cx_tenant ctx
                \<and> rr_workflowStatus r = W_reconciliation_required
                \<and> rr_effectState r = rr_effectState lockedRequest \<and> rr_paymentGuardReleasedAt r = None)
             (\<lambda>r. r\<lparr>rr_effectState := E_possible, rr_version := rr_version r + 1\<rparr>)) (\<lambda>possible.
           if possible \<noteq> 1 then return_tx False else protect)
         else protect)"

text \<open>The last part of the operation: the request follows the status of the identified refund.\<close>

definition follow_refund_status :: "txctx \<Rightarrow> IdentifiedRefundInput \<Rightarrow> bool tx" where
  "follow_refund_status ctx input =
     (let where' = active_where ctx (ii_requestId input); observed = ii_observedAt input
      in bind_tx (case ii_stripeRefundStatus input of
          None \<Rightarrow> update_requests ctx where'
            (\<lambda>r. r\<lparr>rr_effectState := E_identified, rr_workflowStatus := W_reconciliation_required,
               rr_version := rr_version r + 1\<rparr>)
        | Some s \<Rightarrow>
            if s = R_pending \<or> s = R_requires_action then update_requests ctx where'
              (\<lambda>r. r\<lparr>rr_effectState := E_identified, rr_version := rr_version r + 1\<rparr>)
            else if s = R_succeeded then update_requests ctx where'
              (\<lambda>r. r\<lparr>rr_effectState := E_identified, rr_workflowStatus := W_succeeded,
                 rr_terminalAt := Some observed, rr_paymentGuardReleasedAt := Some observed,
                 rr_version := rr_version r + 1\<rparr>)
            else update_requests ctx where' (close_request W_failed_terminal observed))
        (\<lambda>n. return_tx (n = 1)))"

definition markRefundIdentified :: "txctx \<Rightarrow> IdentifiedRefundInput \<Rightarrow> bool tx" where
  "markRefundIdentified ctx input =
     bind_tx (gets_tx (\<lambda>d. [(r, e). r \<leftarrow> requests d, e \<leftarrow> executions d,
         ex_requestId e = rr_id r, ex_tenantId e = rr_tenantId r,
         rr_id r = ii_requestId input, rr_tenantId r = cx_tenant ctx])) (\<lambda>locked.
     case locked of
       [(lockedRequest, e)] \<Rightarrow>
         if ex_stripeRefundId e \<noteq> None \<and> ex_stripeRefundId e \<noteq> Some (ii_stripeRefundId input) then return_tx False
         else if \<not> shouldApplyRefundObservation (ex_stripeRefundStatus e) (ex_lastStripeEventCreatedAt e)
                   (ii_stripeRefundStatus input) (ii_stripeEventCreatedAt input) then return_tx True
         else bind_tx (update_linked_execution ctx e input) (\<lambda>n.
           if n \<noteq> 1 then return_tx False
           else if rr_workflowStatus lockedRequest = W_succeeded \<and> ex_stripeRefundStatus e = Some R_succeeded
                   \<and> ii_stripeRefundStatus input \<in> {Some R_failed, Some R_canceled} then
             bind_tx (update_requests ctx
               (\<lambda>r. rr_id r = ii_requestId input \<and> rr_tenantId r = cx_tenant ctx
                  \<and> rr_workflowStatus r = W_succeeded \<and> rr_effectState r = E_identified)
               (\<lambda>r. r\<lparr>rr_effectState := E_absence_proven, rr_workflowStatus := W_failed_terminal,
                  rr_version := rr_version r + 1\<rparr>)) (\<lambda>n. return_tx (n = 1))
           else if rr_workflowStatus lockedRequest \<noteq> W_executing
                   \<and> rr_workflowStatus lockedRequest \<noteq> W_reconciliation_required then return_tx True
           else if rr_workflowStatus lockedRequest = W_reconciliation_required \<and> ii_preserve input
             then preserve_reconciliation ctx lockedRequest input
           else follow_refund_status ctx input)
     | _ \<Rightarrow> return_tx False)"

subsection \<open>Correlation candidates\<close>

definition candidate_observed_at :: "RefundCorrelationCandidateInput \<Rightarrow> date" where
  "candidate_observed_at input = (case ci_stripeEventCreatedAt input of Some t \<Rightarrow> t
     | None \<Rightarrow> (case ci_scanWindowEnd input of Some t \<Rightarrow> t | None \<Rightarrow> ci_observedAt input))"

definition new_candidate :: "txctx \<Rightarrow> RefundCorrelationCandidateInput \<Rightarrow> RefundCorrelationCandidate" where
  "new_candidate ctx input =
     \<lparr>cc_id = [], cc_tenantId = cx_tenant ctx, cc_requestId = ci_requestId input,
      cc_installationId = ci_installationId input, cc_stripeRefundId = ci_stripeRefundId input,
      cc_paymentKey = ci_paymentKey input, cc_paymentIntentId = ci_paymentIntentId input,
      cc_chargeId = ci_chargeId input, cc_amountMinor = ci_amountMinor input, cc_currency = ci_currency input,
      cc_stripeRefundStatus = ci_stripeRefundStatus input, cc_stripeCreatedAt = ci_stripeCreatedAt input,
      cc_stripeStateObservedAt = candidate_observed_at input, cc_stripeEventId = ci_stripeEventId input,
      cc_stripeEventCreatedAt = ci_stripeEventCreatedAt input,
      cc_eventIdempotencyCorrelation = ci_eventIdempotencyCorrelation input,
      cc_lastSeenScanWindowEnd = ci_scanWindowEnd input, cc_state = CC_pending,
      cc_firstObservedAt = ci_observedAt input, cc_lastObservedAt = ci_observedAt input, cc_resolvedAt = None\<rparr>"

definition same_candidate_tuple :: "txctx \<Rightarrow> RefundCorrelationCandidate \<Rightarrow> RefundCorrelationCandidateInput \<Rightarrow> bool" where
  "same_candidate_tuple ctx c input \<longleftrightarrow> cc_tenantId c = cx_tenant ctx
     \<and> cc_installationId c = ci_installationId input \<and> cc_paymentKey c = ci_paymentKey input
     \<and> cc_paymentIntentId c = ci_paymentIntentId input \<and> cc_chargeId c = ci_chargeId input
     \<and> cc_amountMinor c = ci_amountMinor input \<and> cc_currency c = ci_currency input
     \<and> cc_stripeCreatedAt c = ci_stripeCreatedAt input"

definition merge_correlation ::
  "EventIdempotencyCorrelation \<Rightarrow> EventIdempotencyCorrelation \<Rightarrow> EventIdempotencyCorrelation" where
  "merge_correlation a b = (if a = EV_exact \<or> b = EV_exact then EV_exact
     else if a = EV_mismatch \<or> b = EV_mismatch then EV_mismatch else EV_absent)"

definition later_opt :: "date option \<Rightarrow> date option \<Rightarrow> date option" where
  "later_opt stored incoming = (case incoming of None \<Rightarrow> stored
     | Some i \<Rightarrow> (case stored of None \<Rightarrow> Some i | Some s \<Rightarrow> if i > s then Some i else Some s))"

definition merge_candidate ::
  "RefundCorrelationCandidateInput \<Rightarrow> RefundCorrelationCandidate \<Rightarrow> RefundCorrelationCandidate" where
  "merge_candidate input c =
     (let observed = candidate_observed_at input;
          newer = (observed \<ge> cc_stripeStateObservedAt c);
          preserveExactEvent = (cc_eventIdempotencyCorrelation c = EV_exact
             \<and> ci_eventIdempotencyCorrelation input \<noteq> EV_exact);
          replaceEvent = (ci_stripeEventId input \<noteq> None \<and> \<not> preserveExactEvent
             \<and> (ci_eventIdempotencyCorrelation input = EV_exact \<or> cc_stripeEventCreatedAt c = None
                \<or> (case (ci_stripeEventCreatedAt input, cc_stripeEventCreatedAt c) of
                     (Some i, Some s) \<Rightarrow> i \<ge> s | _ \<Rightarrow> False)))
      in c\<lparr>cc_stripeRefundStatus := (if newer then ci_stripeRefundStatus input else cc_stripeRefundStatus c),
           cc_stripeStateObservedAt := (if newer then observed else cc_stripeStateObservedAt c),
           cc_stripeEventId := (if replaceEvent then ci_stripeEventId input else cc_stripeEventId c),
           cc_stripeEventCreatedAt := (if replaceEvent then ci_stripeEventCreatedAt input else cc_stripeEventCreatedAt c),
           cc_eventIdempotencyCorrelation :=
             merge_correlation (cc_eventIdempotencyCorrelation c) (ci_eventIdempotencyCorrelation input),
           cc_lastSeenScanWindowEnd := later_opt (cc_lastSeenScanWindowEnd c) (ci_scanWindowEnd input),
           cc_lastObservedAt := (if ci_observedAt input > cc_lastObservedAt c then ci_observedAt input
              else cc_lastObservedAt c)\<rparr>)"

definition mark_candidates_conflict :: "txctx \<Rightarrow> string \<Rightarrow> nat tx" where
  "mark_candidates_conflict ctx requestId =
     update_candidates ctx (\<lambda>c. cc_tenantId c = cx_tenant ctx \<and> cc_requestId c = requestId \<and> cc_state c = CC_pending)
       (\<lambda>c. c\<lparr>cc_state := CC_conflict, cc_resolvedAt := None\<rparr>)"

definition recordRefundCorrelationCandidate ::
  "txctx \<Rightarrow> RefundCorrelationCandidateInput \<Rightarrow> (nat \<times> CorrelationCandidateState) tx" where
  "recordRefundCorrelationCandidate ctx input =
     bind_tx (gets_tx (\<lambda>d. length (filter (\<lambda>r. rr_id r = ci_requestId input \<and> rr_tenantId r = cx_tenant ctx)
        (requests d)))) (\<lambda>locked.
     if locked \<noteq> 1 then throw_tx (Error ''REFUND_CANDIDATE_REQUEST_NOT_FOUND'')
     else bind_tx (with_db (\<lambda>d.
        case first_row (\<lambda>c. cc_tenantId c = cx_tenant ctx \<and> cc_requestId c = ci_requestId input
               \<and> cc_stripeRefundId c = ci_stripeRefundId input) (candidates d) of
          Some c \<Rightarrow> return_tx c | None \<Rightarrow> insert_candidate ctx (new_candidate ctx input))) (\<lambda>candidate.
     if \<not> same_candidate_tuple ctx candidate input then throw_tx (Error ''REFUND_CANDIDATE_TUPLE_CONFLICT'')
     else bind_tx (update_candidates ctx (\<lambda>c. cc_id c = cc_id candidate) (merge_candidate input)) (\<lambda>_.
     bind_tx (gets_tx (\<lambda>d. length (filter (\<lambda>c. cc_tenantId c = cx_tenant ctx \<and> cc_requestId c = ci_requestId input)
        (candidates d)))) (\<lambda>candidateCount.
     (let updated = merge_candidate input candidate
      in if candidateCount > 1 then
           bind_tx (mark_candidates_conflict ctx (ci_requestId input)) (\<lambda>_.
           return_tx (candidateCount, if cc_state updated = CC_pending then CC_conflict else cc_state updated))
         else return_tx (candidateCount, cc_state updated))))))"

definition markRefundCorrelationCandidateLinked ::
  "txctx \<Rightarrow> string \<Rightarrow> string \<Rightarrow> CorrelationCandidateState \<Rightarrow> date \<Rightarrow> bool tx" where
  "markRefundCorrelationCandidateLinked ctx requestId refundId state resolvedAt =
     (let sourceStates = (if state = CC_exact_linked
            then [CC_pending, CC_conflict, CC_unique_linked, CC_exact_linked]
            else [CC_pending, CC_conflict, CC_unique_linked])
      in bind_tx (update_candidates ctx
           (\<lambda>c. cc_tenantId c = cx_tenant ctx \<and> cc_requestId c = requestId \<and> cc_stripeRefundId c = refundId
              \<and> cc_state c \<in> set sourceStates)
           (\<lambda>c. c\<lparr>cc_state := state, cc_resolvedAt := Some resolvedAt\<rparr>)) (\<lambda>n. return_tx (n = 1)))"

definition listRefundCorrelationCandidates :: "txctx \<Rightarrow> string \<Rightarrow> db \<Rightarrow> RefundCorrelationCandidate list" where
  "listRefundCorrelationCandidates ctx requestId d =
     sort_key (\<lambda>c. (cc_stripeCreatedAt c, cc_stripeRefundId c))
       (filter (\<lambda>c. cc_tenantId c = cx_tenant ctx \<and> cc_requestId c = requestId) (candidates d))"

text \<open>
  One iteration of the loop of \<open>resolveUniqueRefundCandidates\<close>: the result is what the iteration
  adds to \<open>resolved\<close> and \<open>conflicts\<close>.
\<close>

definition scan_covers :: "RefundRequest \<Rightarrow> date \<Rightarrow> date \<Rightarrow> bool" where
  "scan_covers r start end' = (case (rr_executionStartedAt r, rr_reconciliationSafeAfterAt r) of
     (Some started, Some safe) \<Rightarrow> started \<ge> start \<and> safe \<ge> started \<and> safe \<le> end' | _ \<Rightarrow> False)"

definition unresolved_external_conflict :: "txctx \<Rightarrow> string \<Rightarrow> RefundRequest \<Rightarrow> db \<Rightarrow> bool" where
  "unresolved_external_conflict ctx installationId request d \<longleftrightarrow>
     (\<exists>al \<in> set (alerts d). al_tenantId al = cx_tenant ctx \<and> al_installationId al = installationId
        \<and> al_environment al = rr_environment request \<and> al_paymentKey al = rr_paymentKey request
        \<and> al_reconciledAt al = None)"

definition resolve_absence :: "txctx \<Rightarrow> string \<Rightarrow> date \<Rightarrow> (nat \<times> nat) tx" where
  "resolve_absence ctx requestId resolvedAt =
     bind_tx (markAbsenceProven ctx requestId) (\<lambda>absenceProven.
     if \<not> absenceProven then throw_tx (Error ''REFUND_ABSENCE_COMPARE_AND_SET_FAILED'')
     else bind_tx (resumeExecutionAfterAbsence ctx requestId resolvedAt) (\<lambda>resumed.
       if resumed = None then throw_tx (Error ''REFUND_ABSENCE_RESUME_COMPARE_AND_SET_FAILED'')
       else return_tx (1, 0)))"

definition link_unique_candidate ::
  "txctx \<Rightarrow> string \<Rightarrow> RefundCorrelationCandidate \<Rightarrow> bool \<Rightarrow> date \<Rightarrow> (nat \<times> nat) tx" where
  "link_unique_candidate ctx requestId candidate conflict resolvedAt =
     bind_tx (markRefundIdentified ctx \<lparr>ii_requestId = requestId, ii_stripeRefundId = cc_stripeRefundId candidate,
         ii_stripeRefundStatus = cc_stripeRefundStatus candidate, ii_preserve = conflict,
         ii_stripeRequestId = None, ii_stripeEventId = cc_stripeEventId candidate,
         ii_stripeEventCreatedAt = (case cc_stripeEventId candidate of None \<Rightarrow> None
            | Some _ \<Rightarrow> Some (case cc_stripeEventCreatedAt candidate of Some t \<Rightarrow> t
                 | None \<Rightarrow> cc_stripeCreatedAt candidate)),
         ii_observedAt = resolvedAt\<rparr>) (\<lambda>identified.
     if \<not> identified then throw_tx (Error ''UNIQUE_REFUND_CANDIDATE_COMPARE_AND_SET_FAILED'')
     else bind_tx (markRefundCorrelationCandidateLinked ctx requestId (cc_stripeRefundId candidate)
            CC_unique_linked resolvedAt) (\<lambda>_. return_tx (if conflict then (0, 1) else (1, 0))))"

definition resolve_candidate ::
  "txctx \<Rightarrow> string \<Rightarrow> date \<Rightarrow> date \<Rightarrow> date \<Rightarrow> string \<Rightarrow> (nat \<times> nat) tx" where
  "resolve_candidate ctx installationId start end' resolvedAt requestId =
     with_db (\<lambda>d. let cs = listRefundCorrelationCandidates ctx requestId d
      in case getRefundRequestDetail ctx requestId d of
        Some (request, _, Some (execution, _)) \<Rightarrow>
          if ex_stripeRefundId execution \<noteq> None then return_tx (0, 0)
          else if \<not> scan_covers request start end' then return_tx (0, 0)
          else (let conflict = unresolved_external_conflict ctx installationId request d
           in case cs of
             [] \<Rightarrow> if conflict
                then bind_tx (markReconciliationRequired ctx requestId) (\<lambda>_. return_tx (0, 1))
                else resolve_absence ctx requestId resolvedAt
           | candidate # _ \<Rightarrow>
             bind_tx (lift_tx (decideRefundCandidate None (cc_stripeRefundId candidate)
                (cc_eventIdempotencyCorrelation candidate) (max 1 (int (length cs))) True True)) (\<lambda>dec.
             if dec = CD_conflict then
               bind_tx (mark_candidates_conflict ctx requestId) (\<lambda>_.
               bind_tx (markReconciliationRequired ctx requestId) (\<lambda>_. return_tx (0, 1)))
             else if dec \<noteq> CD_link_unique \<or> cc_lastSeenScanWindowEnd candidate = None
                     \<or> cc_state candidate = CC_conflict then
               bind_tx (markReconciliationRequired ctx requestId) (\<lambda>_. return_tx (0, 0))
             else link_unique_candidate ctx requestId candidate conflict resolvedAt))
      | _ \<Rightarrow> return_tx (0, 0))"

definition covered_ambiguity :: "txctx \<Rightarrow> string \<Rightarrow> date \<Rightarrow> date \<Rightarrow> RefundRequest \<Rightarrow> bool" where
  "covered_ambiguity ctx installationId start end' r \<longleftrightarrow> rr_tenantId r = cx_tenant ctx
     \<and> rr_installationId r = installationId \<and> rr_workflowStatus r = W_reconciliation_required
     \<and> rr_effectState r = E_possible \<and> rr_paymentGuardReleasedAt r = None \<and> scan_covers r start end'"

definition resolveUniqueRefundCandidates ::
  "txctx \<Rightarrow> string \<Rightarrow> date \<Rightarrow> date \<Rightarrow> date \<Rightarrow> (nat \<times> nat) tx" where
  "resolveUniqueRefundCandidates ctx installationId start end' resolvedAt =
     bind_tx (gets_tx (\<lambda>d. sort (remdups (
         map cc_requestId (filter (\<lambda>c. cc_tenantId c = cx_tenant ctx \<and> cc_installationId c = installationId
            \<and> cc_lastSeenScanWindowEnd c = Some end') (candidates d))
       @ map rr_id (filter (covered_ambiguity ctx installationId start end') (requests d)))))) (\<lambda>requestIds.
     bind_tx (mapM_tx (resolve_candidate ctx installationId start end' resolvedAt) requestIds) (\<lambda>counts.
     return_tx (sum_list (map fst counts), sum_list (map snd counts))))"

subsection \<open>Audit, mutation receipts and webhook receipts\<close>

definition appendAuditEvent :: "txctx \<Rightarrow> AuditEvent \<Rightarrow> AuditEvent tx" where
  "appendAuditEvent ctx data = insert_audit ctx (data\<lparr>ae_tenantId := cx_tenant ctx\<rparr>)"

definition in_period :: "date option \<Rightarrow> date option \<Rightarrow> date \<Rightarrow> bool" where
  "in_period from' to' t \<longleftrightarrow> (case from' of None \<Rightarrow> True | Some f \<Rightarrow> f \<le> t) \<and> (case to' of None \<Rightarrow> True | Some e \<Rightarrow> t \<le> e)"

definition listAuditEvents ::
  "txctx \<Rightarrow> date option \<Rightarrow> date option \<Rightarrow> string option \<Rightarrow> int \<Rightarrow> AuditEvent list tx" where
  "listAuditEvents ctx occurredFrom occurredTo cursor limit =
     (if \<not> safe_integer limit \<or> limit < 1 \<or> limit > 1000
      then throw_tx (RangeError ''Audit page size must be between 1 and 1000'')
      else gets_tx (\<lambda>d. cursor_page (\<lambda>e. (ae_occurredAt e, ae_id e)) ae_id
        (\<lambda>e. in_period occurredFrom occurredTo (ae_occurredAt e)) cursor (nat limit)
        (filter (\<lambda>e. ae_tenantId e = cx_tenant ctx) (audits d))))"

definition findMutationReceipt :: "txctx \<Rightarrow> string \<Rightarrow> db \<Rightarrow> ApiMutationReceipt option" where
  "findMutationReceipt ctx requestNonce d =
     first_row (\<lambda>m. mr_tenantId m = cx_tenant ctx \<and> mr_requestNonce m = requestNonce) (mutations d)"

definition createMutationReceipt :: "txctx \<Rightarrow> ApiMutationReceipt \<Rightarrow> ApiMutationReceipt tx" where
  "createMutationReceipt ctx data = insert_mutation ctx (data\<lparr>mr_tenantId := cx_tenant ctx\<rparr>)"

definition environmentForStoredWebhookEndpoint :: "WebhookEndpoint \<Rightarrow> StripeEnvironment" where
  "environmentForStoredWebhookEndpoint endpoint =
     (if endpoint = EP_account_test \<or> endpoint = EP_connected_test then Env_test else Env_sandbox)"

text \<open>The checks after the payload has been parsed by its schema.\<close>

definition assertNormalizedAccountWebhookRowConsistency ::
  "WebhookEndpoint \<Rightarrow> string \<Rightarrow> string option \<Rightarrow> date \<Rightarrow> NormalizedAccountWebhookPayload
   \<Rightarrow> err + NormalizedAccountWebhookPayload" where
  "assertNormalizedAccountWebhookRowConsistency endpoint eventType objectId stripeCreatedAt payload =
     (if environmentForStoredWebhookEndpoint endpoint \<noteq> np_environment payload
      then Inl (TypeError ''Webhook endpoint and normalized environment differ'')
      else if np_event_type payload \<noteq> eventType
      then Inl (TypeError ''Webhook event type and normalized payload differ'')
      else if Some (payload_object_id payload) \<noteq> objectId
      then Inl (TypeError ''Webhook object ID and normalized payload differ'')
      else if stripeCreatedAt \<noteq> np_event_created payload * 1000
      then Inl (TypeError ''Webhook creation time and normalized payload differ'')
      else Inr payload)"

definition insertWebhookReceipt :: "txctx \<Rightarrow> WebhookReceipt \<Rightarrow> (WebhookReceipt \<times> bool) tx" where
  "insertWebhookReceipt ctx data =
     (if wr_endpoint data \<notin> {EP_account_test, EP_account_sandbox} then throw_tx (TypeError ''ZodError'')
      else bind_tx (lift_tx (assertNormalizedAccountWebhookRowConsistency (wr_endpoint data) (wr_eventType data)
             (Some (wr_objectId data)) (wr_stripeCreatedAt data) (wr_normalizedPayload data))) (\<lambda>payload.
        bind_tx (insert_receipt_skip ctx (data\<lparr>wr_tenantId := cx_tenant ctx, wr_normalizedPayload := payload,
             wr_status := RC_received, wr_processingAttempts := 0, wr_processedAt := None,
             wr_lastErrorCode := None\<rparr>)) (\<lambda>inserted.
        bind_tx (gets_tx (\<lambda>d. first_row (\<lambda>x. wr_tenantId x = cx_tenant ctx
             \<and> wr_stripeAccountId x = wr_stripeAccountId data \<and> wr_stripeEventId x = wr_stripeEventId data)
             (receipts d))) (\<lambda>receipt.
        case receipt of None \<Rightarrow> throw_tx (Error ''Webhook receipt could not be read after insertion'')
        | Some x \<Rightarrow> return_tx (x, inserted = 1)))))"

definition getWebhookReceipt :: "txctx \<Rightarrow> string \<Rightarrow> db \<Rightarrow> WebhookReceipt option" where
  "getWebhookReceipt ctx receiptId d =
     first_row (\<lambda>x. wr_id x = receiptId \<and> wr_tenantId x = cx_tenant ctx) (receipts d)"

definition open_receipt :: "txctx \<Rightarrow> string \<Rightarrow> WebhookReceipt \<Rightarrow> bool" where
  "open_receipt ctx receiptId x \<longleftrightarrow> wr_id x = receiptId \<and> wr_tenantId x = cx_tenant ctx
     \<and> wr_status x \<in> {RC_received, RC_processing, RC_failed}"

definition markWebhookReceiptFailed :: "txctx \<Rightarrow> string \<Rightarrow> string \<Rightarrow> bool tx" where
  "markWebhookReceiptFailed ctx receiptId errorCode =
     bind_tx (update_receipts ctx (open_receipt ctx receiptId)
       (\<lambda>x. x\<lparr>wr_status := RC_failed, wr_processingAttempts := wr_processingAttempts x + 1,
          wr_processedAt := None, wr_lastErrorCode := Some (take 64 errorCode)\<rparr>)) (\<lambda>n. return_tx (n = 1))"

definition markWebhookReceiptProcessed :: "txctx \<Rightarrow> string \<Rightarrow> date \<Rightarrow> bool tx" where
  "markWebhookReceiptProcessed ctx receiptId processedAt =
     bind_tx (update_receipts ctx (open_receipt ctx receiptId)
       (\<lambda>x. x\<lparr>wr_status := RC_processed, wr_processedAt := Some processedAt, wr_lastErrorCode := None\<rparr>))
     (\<lambda>n. return_tx (n = 1))"

subsection \<open>External refunds\<close>

definition listExternalRefundAlerts ::
  "txctx \<Rightarrow> AlertStatus option \<Rightarrow> string option \<Rightarrow> int \<Rightarrow> ExternalRefundAlert list tx" where
  "listExternalRefundAlerts ctx status' cursor limit =
     (if \<not> safe_integer limit \<or> limit < 1 \<or> limit > 100
      then throw_tx (RangeError ''Alert page size must be between 1 and 100'')
      else gets_tx (\<lambda>d. cursor_page (\<lambda>a. (al_detectedAt a, al_id a)) al_id
        (\<lambda>a. status' = None \<or> status' = Some (al_status a)) cursor (nat limit)
        (filter (\<lambda>a. al_tenantId a = cx_tenant ctx) (alerts d))))"


datatype RequestTransition = RQ_none | RQ_stale | RQ_failed_terminal | RQ_reconciliation_required

definition payment_scope :: "string \<Rightarrow> StripeEnvironment \<Rightarrow> string \<Rightarrow> RefundRequest \<Rightarrow> bool" where
  "payment_scope installationId environment paymentKey r \<longleftrightarrow> rr_installationId r = installationId
     \<and> rr_environment r = environment \<and> rr_paymentKey r = paymentKey"

text \<open>
  The request an external refund overlaps: closed after an execution during which the refund was
  created; the latest start wins, then the smallest id.
\<close>

definition overlapped_request ::
  "txctx \<Rightarrow> string \<Rightarrow> StripeEnvironment \<Rightarrow> string \<Rightarrow> date \<Rightarrow> db \<Rightarrow> string option" where
  "overlapped_request ctx installationId environment paymentKey created d =
     (case sort_key (\<lambda>r. (- (case rr_executionStartedAt r of None \<Rightarrow> 0 | Some t \<Rightarrow> t), rr_id r))
        (filter (\<lambda>r. rr_tenantId r = cx_tenant ctx \<and> payment_scope installationId environment paymentKey r
           \<and> rr_workflowStatus r \<in> {W_succeeded, W_failed_terminal}
           \<and> (case (rr_executionStartedAt r, rr_terminalAt r) of
                (Some started, Some ended) \<Rightarrow> started \<le> created \<and> created \<le> ended | _ \<Rightarrow> False)) (requests d)) of
        [] \<Rightarrow> None | r # _ \<Rightarrow> Some (rr_id r))"

definition alert_agrees ::
  "txctx \<Rightarrow> ExternalRefundAlert \<Rightarrow> ExternalRefundObservationInput \<Rightarrow> StripeEnvironment \<Rightarrow> date \<Rightarrow> string option \<Rightarrow> bool" where
  "alert_agrees ctx a input environment created overlapped \<longleftrightarrow> al_tenantId a = cx_tenant ctx
     \<and> al_installationId a = eo_installationId input \<and> al_environment a = environment
     \<and> al_stripeRefundId a = eo_stripeRefundId input \<and> al_stripeRefundCreatedAt a = created
     \<and> al_paymentKey a = eo_paymentKey input \<and> al_amountMinor a = eo_amountMinor input
     \<and> al_currency a = eo_currency input \<and> al_classification a = eo_classification input
     \<and> (al_overlappedRequestId a = None \<or> al_overlappedRequestId a = overlapped)
     \<and> al_reconciledAt a = None"

definition observeExternalRefund ::
  "txctx \<Rightarrow> ExternalRefundObservationInput \<Rightarrow> (ExternalRefundAlert \<times> RequestTransition) tx" where
  "observeExternalRefund ctx input =
     (case (eo_stripeRefundCreatedAt input, eo_observedAt input) of
        (Some created, Some observed) \<Rightarrow>
          if created > observed
          then throw_tx (RangeError ''External refund creation time must not exceed observation time'')
          else bind_tx (gets_tx (\<lambda>d. first_row (\<lambda>i. si_id i = eo_installationId input
              \<and> si_tenantId i = cx_tenant ctx \<and> non_live (si_environment i)) (installations d))) (\<lambda>found.
          case found of None \<Rightarrow> throw_tx (Error ''EXTERNAL_REFUND_INSTALLATION_NOT_FOUND'')
          | Some installation \<Rightarrow>
            (let environment = si_environment installation
             in bind_tx (lift_tx (lock_payment_scope environment (eo_paymentKey input))) (\<lambda>_.
             bind_tx (gets_tx (overlapped_request ctx (eo_installationId input) environment
                 (eo_paymentKey input) created)) (\<lambda>overlapped.
             bind_tx (insert_alert_skip ctx \<lparr>al_id = [], al_tenantId = cx_tenant ctx,
                 al_installationId = eo_installationId input, al_environment = environment,
                 al_stripeRefundId = eo_stripeRefundId input, al_stripeRefundCreatedAt = created,
                 al_paymentKey = eo_paymentKey input, al_amountMinor = eo_amountMinor input,
                 al_currency = eo_currency input, al_classification = eo_classification input,
                 al_status = AL_open, al_detectedAt = observed, al_acknowledgedAt = None,
                 al_acknowledgedByUserId = None, al_overlappedRequestId = overlapped,
                 al_reconciledAt = None\<rparr>) (\<lambda>_.
             bind_tx (gets_tx (\<lambda>d. first_row (\<lambda>a. al_tenantId a = cx_tenant ctx
                 \<and> al_installationId a = eo_installationId input
                 \<and> al_stripeRefundId a = eo_stripeRefundId input) (alerts d))) (\<lambda>alert.
             case alert of None \<Rightarrow> throw_tx (Error ''EXTERNAL_REFUND_ALERT_CONFLICT'')
             | Some a \<Rightarrow>
               if \<not> alert_agrees ctx a input environment created overlapped
               then throw_tx (Error ''EXTERNAL_REFUND_ALERT_CONFLICT'')
               else bind_tx (settle_requests ctx
                   (payment_scope (eo_installationId input) environment (eo_paymentKey input)) observed
                   ''EXTERNAL_REFUND_REQUEST_COMPARE_AND_SET_FAILED'') (\<lambda>(stale, terminal, reconciliation).
                 return_tx (a, if reconciliation > 0 then RQ_reconciliation_required
                   else if terminal > 0 then RQ_failed_terminal
                   else if stale > 0 then RQ_stale else RQ_none))))))))
      | _ \<Rightarrow> throw_tx (RangeError ''External refund creation time must not exceed observation time''))"

definition acknowledgeExternalRefundAlert ::
  "txctx \<Rightarrow> string \<Rightarrow> string \<Rightarrow> date \<Rightarrow> ExternalRefundAlert option tx" where
  "acknowledgeExternalRefundAlert ctx alertId userId acknowledgedAt =
     bind_tx (update_alerts ctx (\<lambda>a. al_id a = alertId \<and> al_tenantId a = cx_tenant ctx \<and> al_status a = AL_open)
       (\<lambda>a. a\<lparr>al_status := AL_acknowledged, al_acknowledgedAt := Some acknowledgedAt,
          al_acknowledgedByUserId := Some userId\<rparr>)) (\<lambda>n.
     if n = 1 then gets_tx (\<lambda>d. first_row (\<lambda>a. al_id a = alertId \<and> al_tenantId a = cx_tenant ctx) (alerts d))
     else return_tx None)"

subsection \<open>Work lists\<close>

text \<open>The loop that fetches the work item of each candidate.\<close>

definition fetch_work :: "txctx \<Rightarrow> string \<Rightarrow> RefundRequest list \<Rightarrow> ExecutionWorkItem list tx" where
  "fetch_work ctx e rs = mapM_tx (\<lambda>r. bind_tx (getExecutionWorkItem ctx (rr_id r)) (\<lambda>item.
     case item of None \<Rightarrow> throw_tx (Error e) | Some w \<Rightarrow> return_tx w)) rs"

definition listExecutionWork :: "txctx \<Rightarrow> int \<Rightarrow> ExecutionWorkItem list tx" where
  "listExecutionWork ctx limit =
     (if \<not> safe_integer limit \<or> limit < 1 \<or> limit > 1000
      then throw_tx (RangeError ''Execution work limit must be between 1 and 1000'')
      else bind_tx (gets_tx (\<lambda>d. take (nat limit) (sort_key (\<lambda>r. (rr_createdAt r, rr_id r))
             (filter (\<lambda>r. rr_tenantId r = cx_tenant ctx
                \<and> rr_workflowStatus r \<in> {W_approved, W_executing, W_reconciliation_required}) (requests d)))))
        (fetch_work ctx ''EXECUTION_WORK_ITEM_DISAPPEARED''))"

text \<open>Ordering by a nullable date puts nulls last.\<close>

definition nulls_last :: "date option \<Rightarrow> bool \<times> date" where
  "nulls_last t = (case t of None \<Rightarrow> (True, 0) | Some x \<Rightarrow> (False, x))"

definition listApprovedExecutionWork :: "txctx \<Rightarrow> int \<Rightarrow> ExecutionWorkItem list tx" where
  "listApprovedExecutionWork ctx limit =
     (if \<not> safe_integer limit \<or> limit < 1 \<or> limit > 1000
      then throw_tx (RangeError ''Approved execution work limit must be between 1 and 1000'')
      else bind_tx (gets_tx (\<lambda>d. take (nat limit) (sort_key (\<lambda>r. (nulls_last (rr_approvedAt r), rr_id r))
             (filter (\<lambda>r. rr_tenantId r = cx_tenant ctx \<and> non_live (rr_environment r)
                \<and> rr_workflowStatus r = W_approved \<and> rr_effectState r = E_not_started
                \<and> rr_paymentGuardReleasedAt r = None) (requests d)))))
        (fetch_work ctx ''APPROVED_EXECUTION_WORK_ITEM_DISAPPEARED''))"

definition recovery_candidate :: "txctx \<Rightarrow> db \<Rightarrow> RefundRequest \<Rightarrow> bool" where
  "recovery_candidate ctx d r \<longleftrightarrow> rr_tenantId r = cx_tenant ctx \<and> non_live (rr_environment r)
     \<and> rr_paymentGuardReleasedAt r = None \<and> executable_scope d r
     \<and> (rr_workflowStatus r = W_approved \<and> rr_effectState r = E_not_started
        \<or> rr_workflowStatus r = W_executing \<and> rr_effectState r \<in> {E_not_started, E_possible, E_absence_proven})"

definition prepareExecutionRecoveryWork :: "txctx \<Rightarrow> int \<Rightarrow> ExecutionWorkItem list tx" where
  "prepareExecutionRecoveryWork ctx limit =
     (if \<not> safe_integer limit \<or> limit < 1 \<or> limit > 1000
      then throw_tx (RangeError ''Execution recovery limit must be between 1 and 1000'')
      else bind_tx (gets_tx (\<lambda>d. take (nat limit) (sort_key (\<lambda>r. (rr_createdAt r, rr_id r))
             (filter (recovery_candidate ctx d) (requests d))))) (\<lambda>found.
        (let lost = (\<lambda>r. rr_workflowStatus r = W_executing \<and> rr_effectState r = E_possible)
         in bind_tx (mapM_tx (\<lambda>r. markReconciliationRequired ctx (rr_id r)) (filter lost found)) (\<lambda>_.
            fetch_work ctx ''EXECUTION_RECOVERY_WORK_ITEM_DISAPPEARED'' (filter (\<lambda>r. \<not> lost r) found)))))"

definition reconciliation_target ::
  "txctx \<Rightarrow> string \<Rightarrow> string option \<Rightarrow> db \<Rightarrow> RefundRequest \<Rightarrow> (string \<times> string) list" where
  "reconciliation_target ctx installationId afterRequestId d r =
     (if rr_tenantId r = cx_tenant ctx \<and> rr_installationId r = installationId \<and> non_live (rr_environment r)
         \<and> rr_workflowStatus r \<in> {W_executing, W_reconciliation_required, W_succeeded}
         \<and> (case afterRequestId of None \<Rightarrow> True | Some a \<Rightarrow> rr_id r > a)
      then (case first_row (\<lambda>e. ex_requestId e = rr_id r \<and> ex_tenantId e = rr_tenantId r) (executions d) of
              None \<Rightarrow> []
            | Some e \<Rightarrow> (case ex_stripeRefundId e of None \<Rightarrow> []
                | Some refundId \<Rightarrow>
                    if ex_stripeRefundStatus e \<in> {None, Some R_pending, Some R_requires_action, Some R_succeeded}
                    then [(rr_id r, refundId)] else []))
      else [])"

definition listLinkedRefundReconciliationTargets ::
  "txctx \<Rightarrow> string \<Rightarrow> string option \<Rightarrow> int \<Rightarrow> (string \<times> string) list tx" where
  "listLinkedRefundReconciliationTargets ctx installationId afterRequestId limit =
     (if \<not> safe_integer limit \<or> limit < 1 \<or> limit > 1000
      then throw_tx (RangeError ''Linked Refund reconciliation limit must be between 1 and 1000'')
      else gets_tx (\<lambda>d. take (nat limit) (concat (map (reconciliation_target ctx installationId afterRequestId d)
             (sort_key rr_id (requests d))))))"

subsection \<open>Checkpoints\<close>

definition getReconciliationCheckpoint :: "txctx \<Rightarrow> string \<Rightarrow> db \<Rightarrow> ReconciliationCheckpoint option" where
  "getReconciliationCheckpoint ctx installationId d =
     first_row (\<lambda>c. ck_tenantId c = cx_tenant ctx \<and> ck_installationId c = installationId) (checkpoints d)"

definition beginReconciliationWindow :: "txctx \<Rightarrow> string \<Rightarrow> date \<Rightarrow> date \<Rightarrow> ReconciliationCheckpoint tx" where
  "beginReconciliationWindow ctx installationId initialCommittedThrough scanWindowEnd =
     with_db (\<lambda>d. case getReconciliationCheckpoint ctx installationId d of
        None \<Rightarrow> insert_checkpoint ctx \<lparr>ck_id = [], ck_tenantId = cx_tenant ctx, ck_installationId = installationId,
          ck_committedThrough = initialCommittedThrough, ck_scanWindowEnd = Some scanWindowEnd,
          ck_startingAfter = None, ck_pageInProgress = True\<rparr>
      | Some c \<Rightarrow>
          (let upd = (\<lambda>x. x\<lparr>ck_scanWindowEnd := Some scanWindowEnd, ck_startingAfter := None,
                 ck_pageInProgress := True\<rparr>)
           in bind_tx (update_checkpoints ctx (\<lambda>x. ck_installationId x = installationId) upd)
                (\<lambda>_. return_tx (upd c))))"

definition reread_checkpoint :: "txctx \<Rightarrow> string \<Rightarrow> ReconciliationCheckpoint tx" where
  "reread_checkpoint ctx installationId =
     bind_tx (gets_tx (getReconciliationCheckpoint ctx installationId)) (\<lambda>c.
     case c of None \<Rightarrow> throw_tx (Error ''Reconciliation checkpoint disappeared'') | Some x \<Rightarrow> return_tx x)"

definition saveReconciliationCursor :: "txctx \<Rightarrow> string \<Rightarrow> string \<Rightarrow> string option \<Rightarrow> ReconciliationCheckpoint tx" where
  "saveReconciliationCursor ctx installationId startingAfter expectedPreviousCursor =
     bind_tx (update_checkpoints ctx
       (\<lambda>c. ck_tenantId c = cx_tenant ctx \<and> ck_installationId c = installationId
          \<and> ck_startingAfter c = expectedPreviousCursor \<and> ck_pageInProgress c \<and> ck_scanWindowEnd c \<noteq> None)
       (\<lambda>c. c\<lparr>ck_startingAfter := Some startingAfter\<rparr>)) (\<lambda>n.
     if n \<noteq> 1 then throw_tx (Error ''Reconciliation cursor compare-and-set failed'')
     else reread_checkpoint ctx installationId)"

definition completeReconciliationWindow ::
  "txctx \<Rightarrow> string \<Rightarrow> date \<Rightarrow> string option \<Rightarrow> ReconciliationCheckpoint tx" where
  "completeReconciliationWindow ctx installationId expectedScanWindowEnd expectedLastCursor =
     bind_tx (update_checkpoints ctx
       (\<lambda>c. ck_tenantId c = cx_tenant ctx \<and> ck_installationId c = installationId
          \<and> ck_scanWindowEnd c = Some expectedScanWindowEnd \<and> ck_startingAfter c = expectedLastCursor
          \<and> ck_pageInProgress c)
       (\<lambda>c. c\<lparr>ck_committedThrough := expectedScanWindowEnd, ck_scanWindowEnd := None,
          ck_startingAfter := None, ck_pageInProgress := False\<rparr>)) (\<lambda>n.
     if n \<noteq> 1 then throw_tx (Error ''Reconciliation checkpoint completion compare-and-set failed'')
     else reread_checkpoint ctx installationId)"

end
