(* ===== verification/Repository_Contract.thy ===== *)
theory Repository_Contract
  imports Reconciliation_Repositories
begin

text \<open>
  The abstract specification of a refund request's life in the database, \<open>request_edge\<close>, and the
  contract of the repositories: a locale over a relation \<open>R\<close> between the database before and after
  a transaction. Its assumptions are the laws of the table statements: each statement stays
  within \<open>R\<close>, an update of requests provided it changes rows only along \<open>request_edge\<close>. Inside the
  locale every repository operation is shown to stay within \<open>R\<close>, once; the interpretations
  choose \<open>R\<close>.
\<close>

subsection \<open>The life of a request\<close>

definition bump :: "RefundRequest \<Rightarrow> RefundRequest" where
  "bump r = r\<lparr>rr_version := rr_version r + 1\<rparr>"

definition finish :: "WorkflowStatus \<Rightarrow> date \<Rightarrow> RefundRequest \<Rightarrow> RefundRequest" where
  "finish w t r = bump (r\<lparr>rr_workflowStatus := w, rr_terminalAt := Some t, rr_paymentGuardReleasedAt := Some t\<rparr>)"

definition attested_approval :: "db \<Rightarrow> RefundRequest \<Rightarrow> bool" where
  "attested_approval d r \<longleftrightarrow> (\<exists>x \<in> set (decision_rows d). ad_requestId x = rr_id r \<and> ad_tenantId x = rr_tenantId r
     \<and> ad_decision x = D_approve \<and> ad_approvalAttestationId x \<noteq> None \<and> ad_approverUserId x \<noteq> rr_requesterUserId r)"

inductive request_edge :: "db \<Rightarrow> RefundRequest \<Rightarrow> RefundRequest \<Rightarrow> bool" for d where
  approve: "\<lbrakk>rr_workflowStatus r = W_pending_approval; attested_approval d r\<rbrakk> \<Longrightarrow>
     request_edge d r (bump (r\<lparr>rr_workflowStatus := W_approved, rr_approvedAt := Some t\<rparr>))"
| close_pending: "\<lbrakk>rr_workflowStatus r = W_pending_approval; rr_effectState r = E_not_started;
     w \<in> {W_rejected, W_canceled, W_expired}\<rbrakk> \<Longrightarrow> request_edge d r (finish w t r)"
| stale: "\<lbrakk>rr_workflowStatus r \<in> {W_pending_approval, W_approved}; rr_effectState r = E_not_started\<rbrakk> \<Longrightarrow>
     request_edge d r (finish W_stale t (r\<lparr>rr_effectState := E_absence_proven\<rparr>))"
| claim: "\<lbrakk>rr_workflowStatus r = W_approved; rr_effectState r = E_not_started\<rbrakk> \<Longrightarrow>
     request_edge d r (bump (r\<lparr>rr_workflowStatus := W_executing, rr_executionStartedAt := Some t\<rparr>))"
| cross: "\<lbrakk>rr_workflowStatus r \<in> {W_executing, W_reconciliation_required};
     rr_effectState r \<in> {E_not_started, E_absence_proven}\<rbrakk> \<Longrightarrow>
     request_edge d r (bump (r\<lparr>rr_effectState := E_possible\<rparr>))"
| absent: "\<lbrakk>rr_workflowStatus r \<in> {W_executing, W_reconciliation_required}; rr_effectState r = E_possible\<rbrakk> \<Longrightarrow>
     request_edge d r (bump (r\<lparr>rr_effectState := E_absence_proven\<rparr>))"
| give_up: "\<lbrakk>rr_workflowStatus r = W_executing; rr_effectState r \<in> {E_not_started, E_absence_proven}\<rbrakk> \<Longrightarrow>
     request_edge d r (finish W_failed_terminal t (r\<lparr>rr_effectState := E_absence_proven\<rparr>))"
| reconcile: "\<lbrakk>rr_workflowStatus r = W_executing; rr_executionStartedAt r = Some s; s \<le> t;
     e = rr_effectState r \<or> rr_effectState r \<in> {E_possible, E_identified} \<and> e = E_identified\<rbrakk> \<Longrightarrow>
     request_edge d r (bump (r\<lparr>rr_workflowStatus := W_reconciliation_required, rr_effectState := e,
       rr_reconciliationSafeAfterAt := Some t\<rparr>))"
| resume: "\<lbrakk>rr_workflowStatus r = W_reconciliation_required; rr_effectState r = E_absence_proven\<rbrakk> \<Longrightarrow>
     request_edge d r (bump (r\<lparr>rr_workflowStatus := W_executing, rr_executionStartedAt := Some t\<rparr>))"
| identify: "\<lbrakk>rr_workflowStatus r \<in> {W_executing, W_reconciliation_required};
     rr_effectState r \<in> {E_possible, E_identified}\<rbrakk> \<Longrightarrow>
     request_edge d r (bump (r\<lparr>rr_effectState := E_identified\<rparr>))"
| succeed: "\<lbrakk>rr_workflowStatus r \<in> {W_executing, W_reconciliation_required};
     rr_effectState r \<in> {E_possible, E_identified}; linked_refund_status d r = Some R_succeeded\<rbrakk> \<Longrightarrow>
     request_edge d r (finish W_succeeded t (r\<lparr>rr_effectState := E_identified\<rparr>))"
| fail: "\<lbrakk>rr_workflowStatus r \<in> {W_executing, W_reconciliation_required};
     rr_effectState r \<in> {E_possible, E_identified}\<rbrakk> \<Longrightarrow>
     request_edge d r (finish W_failed_terminal t (r\<lparr>rr_effectState := E_absence_proven\<rparr>))"
| correct: "\<lbrakk>rr_workflowStatus r = W_succeeded; rr_effectState r = E_identified;
     linked_refund_status d r \<in> {Some R_failed, Some R_canceled}\<rbrakk> \<Longrightarrow>
     request_edge d r (bump (r\<lparr>rr_workflowStatus := W_failed_terminal, rr_effectState := E_absence_proven\<rparr>))"

text \<open>
  The invariant of a request row: the guard is released exactly when the request is closed, a
  closed request has its closing time, the effect state fits the status, an execution has a
  start time and a request in reconciliation a safe boundary after it.
\<close>

definition request_inv :: "RefundRequest \<Rightarrow> bool" where
  "request_inv r = (case rr_workflowStatus r of
     W_pending_approval \<Rightarrow> rr_paymentGuardReleasedAt r = None \<and> rr_terminalAt r = None \<and> rr_effectState r = E_not_started
   | W_approved \<Rightarrow> rr_paymentGuardReleasedAt r = None \<and> rr_terminalAt r = None \<and> rr_effectState r = E_not_started
       \<and> rr_approvedAt r \<noteq> None
   | W_executing \<Rightarrow> rr_paymentGuardReleasedAt r = None \<and> rr_terminalAt r = None
       \<and> rr_approvedAt r \<noteq> None \<and> rr_executionStartedAt r \<noteq> None
   | W_reconciliation_required \<Rightarrow> rr_paymentGuardReleasedAt r = None \<and> rr_terminalAt r = None \<and> rr_approvedAt r \<noteq> None
       \<and> (case (rr_executionStartedAt r, rr_reconciliationSafeAfterAt r) of
            (Some started, Some safe) \<Rightarrow> started \<le> safe | _ \<Rightarrow> False)
   | W_succeeded \<Rightarrow> rr_paymentGuardReleasedAt r \<noteq> None \<and> rr_terminalAt r \<noteq> None \<and> rr_effectState r = E_identified
       \<and> rr_approvedAt r \<noteq> None \<and> rr_executionStartedAt r \<noteq> None
   | W_failed_terminal \<Rightarrow> rr_paymentGuardReleasedAt r \<noteq> None \<and> rr_terminalAt r \<noteq> None
       \<and> rr_effectState r = E_absence_proven \<and> rr_approvedAt r \<noteq> None \<and> rr_executionStartedAt r \<noteq> None
   | W_stale \<Rightarrow> rr_paymentGuardReleasedAt r \<noteq> None \<and> rr_terminalAt r \<noteq> None \<and> rr_effectState r = E_absence_proven
   | _ \<Rightarrow> rr_paymentGuardReleasedAt r \<noteq> None \<and> rr_terminalAt r \<noteq> None \<and> rr_effectState r = E_not_started)"

lemma request_edge_inv: "request_edge d r r' \<Longrightarrow> request_inv r \<Longrightarrow> request_inv r'"
  by (induction rule: request_edge.induct)
    (auto simp: request_inv_def bump_def finish_def split: option.splits)

lemma request_inv_guard: "request_inv r \<Longrightarrow>
    (rr_paymentGuardReleasedAt r \<noteq> None \<longleftrightarrow> terminal_status (rr_workflowStatus r))
    \<and> (rr_terminalAt r \<noteq> None \<longleftrightarrow> terminal_status (rr_workflowStatus r))"
  by (cases "rr_workflowStatus r") (auto simp: request_inv_def)

text \<open>
  A where clause and data that change a row only along \<open>request_edge\<close>, whenever the triggers
  accept the change.
\<close>

definition request_op :: "(RefundRequest \<Rightarrow> bool) \<Rightarrow> (RefundRequest \<Rightarrow> RefundRequest) \<Rightarrow> bool" where
  "request_op p f \<longleftrightarrow> (\<forall>ctx d r r'. request_inv r \<and> p r \<and> request_update ctx d r (f r) = Inr r' \<longrightarrow> request_edge d r r')"

lemma request_op_weaken: "request_op p f \<Longrightarrow> (\<And>r. q r \<Longrightarrow> p r) \<Longrightarrow> request_op q f"
  by (auto simp: request_op_def)

text \<open>Outside the entry into reconciliation the accepted row is the data as written.\<close>

lemma request_op_plain:
  assumes "\<And>r. request_inv r \<Longrightarrow> p r \<Longrightarrow> rr_workflowStatus (f r) \<noteq> W_reconciliation_required
      \<or> rr_workflowStatus r = W_reconciliation_required"
    and "\<And>ctx d r. request_inv r \<Longrightarrow> p r \<Longrightarrow> request_update ctx d r (f r) = Inr (f r) \<Longrightarrow> request_edge d r (f r)"
  shows "request_op p f"
  unfolding request_op_def
proof (intro allI impI, elim conjE)
  fix ctx d and r r' :: RefundRequest
  assume i: "request_inv r" and p: "p r" and u: "request_update ctx d r (f r) = Inr r'"
  have "r' = stamped ctx r (f r)" using u unfolding request_update_Inr by blast
  also have "\<dots> = f r" using assms(1) [OF i p] by (auto simp: stamped_def)
  finally show "request_edge d r r'" using assms(2) [OF i p] u by simp
qed

lemma attested_approval_of_trigger:
  assumes "request_update ctx d r new = Inr r'" and "rr_workflowStatus r = W_pending_approval"
    and "rr_workflowStatus new = W_approved" and "rr_id new = rr_id r"
  shows "attested_approval d r"
proof -
  have r': "r' = stamped ctx r new"
    and t: "trg_validate_durable_decision_transition d r r' = Inr ()" and c: "request_checks r'"
    and s: "trg_preserve_request_snapshot r new = Inr ()"
    using assms(1) unfolding request_update_Inr by blast+
  have "\<exists>x \<in> set (request_decisions d r'). valid_decision d r' D_approve x"
    using trg_durable_approved [OF t] assms(2,3) r' c by (simp add: request_checks_def)
  moreover have "rr_tenantId new = rr_tenantId r" "rr_requesterUserId new = rr_requesterUserId r"
    using s by (simp_all add: trg_preserve_Inr same_snapshot_def)
  ultimately show ?thesis using assms(4)
    by (auto simp: r' request_decisions_def valid_decision_def attested_approval_def)
qed

lemma linked_status_of_trigger:
  assumes "request_update ctx d r new = Inr r'" and "rr_id new = rr_id r"
  shows "rr_workflowStatus new = W_succeeded \<Longrightarrow> rr_paymentGuardReleasedAt new \<noteq> None \<Longrightarrow>
      rr_paymentGuardReleasedAt r = None \<Longrightarrow> linked_refund_status d r = Some R_succeeded"
    and "rr_workflowStatus r = W_succeeded \<Longrightarrow> rr_workflowStatus new = W_failed_terminal \<Longrightarrow>
      linked_refund_status d r \<in> {Some R_failed, Some R_canceled}"
proof -
  have r': "r' = stamped ctx r new" and g: "trg_validate_guard_release d r r' = Inr ()"
    and w: "trg_validate_workflow_transition d r r' = Inr ()"
    and s: "trg_preserve_request_snapshot r new = Inr ()"
    using assms(1) unfolding request_update_Inr by blast+
  have l: "linked_refund_status d r' = linked_refund_status d r"
    using s assms(2) by (simp add: r' linked_refund_status_def trg_preserve_Inr same_snapshot_def)
  show "rr_workflowStatus new = W_succeeded \<Longrightarrow> rr_paymentGuardReleasedAt new \<noteq> None \<Longrightarrow>
      rr_paymentGuardReleasedAt r = None \<Longrightarrow> linked_refund_status d r = Some R_succeeded"
    using g l by (auto simp: trg_guard_Inr r')
  show "rr_workflowStatus r = W_succeeded \<Longrightarrow> rr_workflowStatus new = W_failed_terminal \<Longrightarrow>
      linked_refund_status d r \<in> {Some R_failed, Some R_canceled}"
    using w l by (auto simp: trg_workflow_Inr r')
qed

subsection \<open>The statements of the repositories follow the life of a request\<close>

lemma guard_open: "request_inv r \<Longrightarrow> \<not> terminal_status (rr_workflowStatus r) \<Longrightarrow> rr_paymentGuardReleasedAt r = None"
  using request_inv_guard [of r] by blast

lemma op_approve:
  "request_op (\<lambda>r. rr_workflowStatus r = W_pending_approval)
     (\<lambda>r. r\<lparr>rr_workflowStatus := W_approved, rr_approvedAt := Some t, rr_version := rr_version r + 1\<rparr>)"
proof (rule request_op_plain)
  fix ctx d and r :: RefundRequest
  let ?n = "r\<lparr>rr_workflowStatus := W_approved, rr_approvedAt := Some t, rr_version := rr_version r + 1\<rparr>"
  assume p: "rr_workflowStatus r = W_pending_approval" and u: "request_update ctx d r ?n = Inr ?n"
  have "attested_approval d r" using attested_approval_of_trigger [OF u p] by simp
  then show "request_edge d r ?n" using request_edge.approve [of r d t, OF p] by (simp add: bump_def)
qed simp

lemma op_close_pending:
  assumes "w \<in> {W_rejected, W_canceled, W_expired}"
  shows "request_op (\<lambda>r. rr_workflowStatus r = W_pending_approval \<and> rr_effectState r = E_not_started)
     (\<lambda>r. r\<lparr>rr_workflowStatus := w, rr_terminalAt := Some t, rr_paymentGuardReleasedAt := Some t,
        rr_version := rr_version r + 1\<rparr>)"
proof (rule request_op_plain)
  fix ctx d and r :: RefundRequest
  assume "rr_workflowStatus r = W_pending_approval \<and> rr_effectState r = E_not_started"
  then show "request_edge d r (r\<lparr>rr_workflowStatus := w, rr_terminalAt := Some t,
      rr_paymentGuardReleasedAt := Some t, rr_version := rr_version r + 1\<rparr>)"
    using request_edge.close_pending [of r w d t] assms by (simp add: finish_def bump_def)
qed (use assms in auto)

lemma op_stale: "request_op stale_where (close_request W_stale t)"
proof (rule request_op_plain)
  fix ctx d and r :: RefundRequest
  assume "stale_where r"
  then show "request_edge d r (close_request W_stale t r)"
    using request_edge.stale [of r d t] by (cases r) (simp add: stale_where_def close_request_def finish_def bump_def)
qed (simp add: close_request_def)

lemma op_claim:
  "request_op (\<lambda>r. rr_workflowStatus r = W_approved \<and> rr_effectState r = E_not_started)
     (\<lambda>r. r\<lparr>rr_workflowStatus := W_executing, rr_executionStartedAt := Some t, rr_version := rr_version r + 1\<rparr>)"
proof (rule request_op_plain)
  fix ctx d and r :: RefundRequest
  assume "rr_workflowStatus r = W_approved \<and> rr_effectState r = E_not_started"
  then show "request_edge d r (r\<lparr>rr_workflowStatus := W_executing, rr_executionStartedAt := Some t,
      rr_version := rr_version r + 1\<rparr>)"
    using request_edge.claim [of r d t] by (simp add: bump_def)
qed simp

lemma op_resume:
  "request_op (\<lambda>r. rr_workflowStatus r = W_reconciliation_required \<and> rr_effectState r = E_absence_proven)
     (\<lambda>r. r\<lparr>rr_workflowStatus := W_executing, rr_executionStartedAt := Some t, rr_version := rr_version r + 1\<rparr>)"
proof (rule request_op_plain)
  fix ctx d and r :: RefundRequest
  assume "rr_workflowStatus r = W_reconciliation_required \<and> rr_effectState r = E_absence_proven"
  then show "request_edge d r (r\<lparr>rr_workflowStatus := W_executing, rr_executionStartedAt := Some t,
      rr_version := rr_version r + 1\<rparr>)"
    using request_edge.resume [of r d t] by (simp add: bump_def)
qed simp

lemma op_cross:
  "request_op (\<lambda>r. rr_workflowStatus r \<in> {W_executing, W_reconciliation_required}
       \<and> rr_effectState r \<in> {E_not_started, E_absence_proven})
     (\<lambda>r. r\<lparr>rr_effectState := E_possible, rr_version := rr_version r + 1\<rparr>)"
proof (rule request_op_plain)
  fix ctx d and r :: RefundRequest
  assume "rr_workflowStatus r \<in> {W_executing, W_reconciliation_required}
       \<and> rr_effectState r \<in> {E_not_started, E_absence_proven}"
  then show "request_edge d r (r\<lparr>rr_effectState := E_possible, rr_version := rr_version r + 1\<rparr>)"
    using request_edge.cross [of r d] by (simp add: bump_def)
qed simp

lemma op_absent:
  "request_op (\<lambda>r. rr_workflowStatus r \<in> {W_executing, W_reconciliation_required} \<and> rr_effectState r = E_possible)
     (\<lambda>r. r\<lparr>rr_effectState := E_absence_proven, rr_version := rr_version r + 1\<rparr>)"
proof (rule request_op_plain)
  fix ctx d and r :: RefundRequest
  assume "rr_workflowStatus r \<in> {W_executing, W_reconciliation_required} \<and> rr_effectState r = E_possible"
  then show "request_edge d r (r\<lparr>rr_effectState := E_absence_proven, rr_version := rr_version r + 1\<rparr>)"
    using request_edge.absent [of r d] by (simp add: bump_def)
qed simp

lemma op_identify:
  "request_op (\<lambda>r. rr_workflowStatus r \<in> {W_executing, W_reconciliation_required}
       \<and> rr_effectState r \<in> {E_possible, E_identified})
     (\<lambda>r. r\<lparr>rr_effectState := E_identified, rr_version := rr_version r + 1\<rparr>)"
proof (rule request_op_plain)
  fix ctx d and r :: RefundRequest
  assume "rr_workflowStatus r \<in> {W_executing, W_reconciliation_required}
       \<and> rr_effectState r \<in> {E_possible, E_identified}"
  then show "request_edge d r (r\<lparr>rr_effectState := E_identified, rr_version := rr_version r + 1\<rparr>)"
    using request_edge.identify [of r d] by (simp add: bump_def)
qed simp

lemma op_fail:
  "request_op (\<lambda>r. rr_workflowStatus r = W_executing
       \<or> rr_workflowStatus r = W_reconciliation_required \<and> rr_effectState r \<in> {E_possible, E_identified})
     (close_request W_failed_terminal t)"
proof (rule request_op_plain)
  fix ctx d and r :: RefundRequest
  assume "rr_workflowStatus r = W_executing
       \<or> rr_workflowStatus r = W_reconciliation_required \<and> rr_effectState r \<in> {E_possible, E_identified}"
  then have "request_edge d r (finish W_failed_terminal t (r\<lparr>rr_effectState := E_absence_proven\<rparr>))"
    using request_edge.fail [of r d t] request_edge.give_up [of r d t] by (cases "rr_effectState r") auto
  then show "request_edge d r (close_request W_failed_terminal t r)"
    by (cases r) (simp add: close_request_def finish_def bump_def)
qed (simp add: close_request_def)

lemma op_reconcile:
  "request_op (\<lambda>r. rr_workflowStatus r = W_executing) require_reconciliation"
  unfolding request_op_def
proof (intro allI impI, elim conjE)
  fix ctx d and r r' :: RefundRequest
  assume i: "request_inv r" and p: "rr_workflowStatus r = W_executing"
    and u: "request_update ctx d r (require_reconciliation r) = Inr r'"
  from i p obtain s where s: "rr_executionStartedAt r = Some s"
    by (auto simp: request_inv_def split: option.splits)
  have r': "r' = stamped ctx r (require_reconciliation r)" using u unfolding request_update_Inr by blast
  then have "r' = bump (r\<lparr>rr_workflowStatus := W_reconciliation_required, rr_effectState := rr_effectState r,
       rr_reconciliationSafeAfterAt := Some (max (cx_clock ctx) s)\<rparr>)"
    using p s by (cases r) (simp add: stamped_def require_reconciliation_def greatest_clock_def bump_def)
  then show "request_edge d r r'"
    by (simp only:) (rule request_edge.reconcile [OF p s], auto)
qed

lemma op_uncertain:
  "request_op (\<lambda>r. rr_workflowStatus r \<in> {W_executing, W_reconciliation_required}
       \<and> rr_effectState r \<in> {E_possible, E_identified})
     (\<lambda>r. r\<lparr>rr_effectState := E_identified, rr_workflowStatus := W_reconciliation_required,
        rr_version := rr_version r + 1\<rparr>)"
  unfolding request_op_def
proof (intro allI impI, elim conjE)
  fix ctx d and r r' :: RefundRequest
  let ?n = "r\<lparr>rr_effectState := E_identified, rr_workflowStatus := W_reconciliation_required,
        rr_version := rr_version r + 1\<rparr>"
  assume i: "request_inv r" and p: "rr_workflowStatus r \<in> {W_executing, W_reconciliation_required}"
    and e: "rr_effectState r \<in> {E_possible, E_identified}" and u: "request_update ctx d r ?n = Inr r'"
  from i p obtain s where s: "rr_executionStartedAt r = Some s"
    by (auto simp: request_inv_def split: option.splits)
  have r': "r' = stamped ctx r ?n" using u unfolding request_update_Inr by blast
  show "request_edge d r r'"
  proof (cases "rr_workflowStatus r = W_executing")
    case True
    then have "r' = bump (r\<lparr>rr_workflowStatus := W_reconciliation_required, rr_effectState := E_identified,
       rr_reconciliationSafeAfterAt := Some (max (cx_clock ctx) s)\<rparr>)"
      using r' s by (cases r) (simp add: stamped_def greatest_clock_def bump_def)
    then show ?thesis using request_edge.reconcile [OF True s, of "max (cx_clock ctx) s" E_identified] e by auto
  next
    case False
    then have "r' = bump (r\<lparr>rr_effectState := E_identified\<rparr>)"
      using r' p by (cases r) (simp add: stamped_def bump_def)
    then show ?thesis using request_edge.identify [OF p e] by simp
  qed
qed

lemma op_succeed:
  "request_op (\<lambda>r. rr_workflowStatus r \<in> {W_executing, W_reconciliation_required}
       \<and> rr_effectState r \<in> {E_possible, E_identified})
     (\<lambda>r. r\<lparr>rr_effectState := E_identified, rr_workflowStatus := W_succeeded, rr_terminalAt := Some t,
        rr_paymentGuardReleasedAt := Some t, rr_version := rr_version r + 1\<rparr>)"
proof (rule request_op_plain)
  fix ctx d and r :: RefundRequest
  let ?n = "r\<lparr>rr_effectState := E_identified, rr_workflowStatus := W_succeeded, rr_terminalAt := Some t,
        rr_paymentGuardReleasedAt := Some t, rr_version := rr_version r + 1\<rparr>"
  assume i: "request_inv r" and p: "rr_workflowStatus r \<in> {W_executing, W_reconciliation_required}
       \<and> rr_effectState r \<in> {E_possible, E_identified}" and u: "request_update ctx d r ?n = Inr ?n"
  have "rr_paymentGuardReleasedAt r = None" using guard_open [OF i] p by auto
  then have "linked_refund_status d r = Some R_succeeded" using linked_status_of_trigger(1) [OF u] by simp
  then show "request_edge d r ?n" using request_edge.succeed [of r d t] p
    by (cases r) (auto simp: finish_def bump_def)
qed simp

lemma op_correct:
  "request_op (\<lambda>r. rr_workflowStatus r = W_succeeded \<and> rr_effectState r = E_identified)
     (\<lambda>r. r\<lparr>rr_effectState := E_absence_proven, rr_workflowStatus := W_failed_terminal,
        rr_version := rr_version r + 1\<rparr>)"
proof (rule request_op_plain)
  fix ctx d and r :: RefundRequest
  let ?n = "r\<lparr>rr_effectState := E_absence_proven, rr_workflowStatus := W_failed_terminal,
        rr_version := rr_version r + 1\<rparr>"
  assume p: "rr_workflowStatus r = W_succeeded \<and> rr_effectState r = E_identified"
    and u: "request_update ctx d r ?n = Inr ?n"
  have "linked_refund_status d r \<in> {Some R_failed, Some R_canceled}"
    using linked_status_of_trigger(2) [OF u] p by simp
  then show "request_edge d r ?n" using request_edge.correct [of r d] p by (cases r) (simp add: bump_def)
qed simp

lemmas request_ops = op_approve op_close_pending op_stale op_claim op_resume op_cross op_absent op_identify
  op_fail op_reconcile op_uncertain op_succeed op_correct

end
