(* ===== verification/Repository_Laws.thy ===== *)
theory Repository_Laws
  imports Repository_Contract
begin

text \<open>
  The locale \<open>ledger\<close>: the laws of the table statements for a relation \<open>R\<close> between database states,
  and, proved once from them, that every operation of \<open>TenantRepositories\<close> outside the
  reconciliation checkpoints stays within \<open>R\<close>. The locale \<open>repositories\<close> adds the checkpoints and
  concludes that every repository step stays within \<open>R\<close>.
\<close>

text \<open>The row a caller may insert as a new request.\<close>

definition new_request :: "RefundRequest \<Rightarrow> bool" where
  "new_request r \<longleftrightarrow> rr_workflowStatus r = W_pending_approval \<and> rr_effectState r = E_not_started
     \<and> rr_paymentGuardReleasedAt r = None \<and> rr_terminalAt r = None"

text \<open>A change of a webhook receipt leaves what identifies it.\<close>

definition receipt_key :: "WebhookReceipt \<Rightarrow> string \<times> string \<times> WebhookEndpoint \<times> string \<times> string" where
  "receipt_key x = (wr_id x, wr_tenantId x, wr_endpoint x, wr_stripeAccountId x, wr_stripeEventId x)"

definition receipt_op :: "(WebhookReceipt \<Rightarrow> WebhookReceipt) \<Rightarrow> bool" where
  "receipt_op f \<longleftrightarrow> (\<forall>x. receipt_key (f x) = receipt_key x)"

text \<open>
  One operation of \<open>TenantRepositories\<close> that commits, with any arguments, or an update of the users
  by the statement the web issues itself. A transaction of the web
  or the worker runs several of them in sequence with one context.
\<close>

inductive repository_step :: "txctx \<Rightarrow> db \<Rightarrow> db \<Rightarrow> bool" where
  step_observeTenantUser: "observeTenantUser ctx a1 a2 a3 a4 d = Inr (x, d') \<Longrightarrow> repository_step ctx d d'"
| step_setApproverEnabled: "setApproverEnabled ctx a1 a2 d = Inr (x, d') \<Longrightarrow> repository_step ctx d d'"
| step_setApproverEnabledByStripeUserId: "setApproverEnabledByStripeUserId ctx a1 a2 d = Inr (x, d') \<Longrightarrow> repository_step ctx d d'"
| step_completeOnboarding: "completeOnboarding ctx a1 a2 d = Inr (x, d') \<Longrightarrow> repository_step ctx d d'"
| step_createApprovalPolicy: "createApprovalPolicy ctx a1 d = Inr (x, d') \<Longrightarrow> repository_step ctx d d'"
| step_deauthorizeInstallation: "deauthorizeInstallation ctx a1 a2 a3 d = Inr (x, d') \<Longrightarrow> repository_step ctx d d'"
| step_applyWebhookDeauthorization: "applyWebhookDeauthorization ctx a1 d = Inr (x, d') \<Longrightarrow> repository_step ctx d d'"
| step_createRefundRequest: "new_request a1 \<Longrightarrow> createRefundRequest ctx a1 d = Inr (x, d') \<Longrightarrow> repository_step ctx d d'"
| step_repo_recordDecision: "repo_recordDecision ctx a1 a2 d = Inr (x, d') \<Longrightarrow> repository_step ctx d d'"
| step_persistApprovalAttestation: "persistApprovalAttestation ctx a1 d = Inr (x, d') \<Longrightarrow> repository_step ctx d d'"
| step_cancelPendingRequest: "cancelPendingRequest ctx a1 a2 a3 d = Inr (x, d') \<Longrightarrow> repository_step ctx d d'"
| step_expirePendingRequests: "expirePendingRequests ctx a1 a2 d = Inr (x, d') \<Longrightarrow> repository_step ctx d d'"
| step_claimExecution: "claimExecution ctx a1 a2 d = Inr (x, d') \<Longrightarrow> repository_step ctx d d'"
| step_claimExecutionWorkItem: "claimExecutionWorkItem ctx a1 a2 d = Inr (x, d') \<Longrightarrow> repository_step ctx d d'"
| step_resumeExecutionAfterAbsence: "resumeExecutionAfterAbsence ctx a1 a2 d = Inr (x, d') \<Longrightarrow> repository_step ctx d d'"
| step_markEffectPossible: "markEffectPossible ctx a1 d = Inr (x, d') \<Longrightarrow> repository_step ctx d d'"
| step_markReconciliationRequired: "markReconciliationRequired ctx a1 d = Inr (x, d') \<Longrightarrow> repository_step ctx d d'"
| step_markAbsenceProven: "markAbsenceProven ctx a1 d = Inr (x, d') \<Longrightarrow> repository_step ctx d d'"
| step_markCertainAbsenceWhileExecuting: "markCertainAbsenceWhileExecuting ctx a1 d = Inr (x, d') \<Longrightarrow> repository_step ctx d d'"
| step_markTerminalFailureAfterAbsence: "markTerminalFailureAfterAbsence ctx a1 a2 d = Inr (x, d') \<Longrightarrow> repository_step ctx d d'"
| step_ensureExecution: "ensureExecution ctx a1 a2 a3 a4 a5 d = Inr (x, d') \<Longrightarrow> repository_step ctx d d'"
| step_beginExecutionAttempt: "beginExecutionAttempt ctx a1 a2 a3 d = Inr (x, d') \<Longrightarrow> repository_step ctx d d'"
| step_finishExecutionAttempt: "finishExecutionAttempt ctx a1 d = Inr (x, d') \<Longrightarrow> repository_step ctx d d'"
| step_markRefundIdentified: "markRefundIdentified ctx a1 d = Inr (x, d') \<Longrightarrow> repository_step ctx d d'"
| step_recordRefundCorrelationCandidate: "recordRefundCorrelationCandidate ctx a1 d = Inr (x, d') \<Longrightarrow> repository_step ctx d d'"
| step_markRefundCorrelationCandidateLinked: "markRefundCorrelationCandidateLinked ctx a1 a2 a3 a4 d = Inr (x, d') \<Longrightarrow> repository_step ctx d d'"
| step_resolveUniqueRefundCandidates: "resolveUniqueRefundCandidates ctx a1 a2 a3 a4 d = Inr (x, d') \<Longrightarrow> repository_step ctx d d'"
| step_appendAuditEvent: "appendAuditEvent ctx a1 d = Inr (x, d') \<Longrightarrow> repository_step ctx d d'"
| step_createMutationReceipt: "createMutationReceipt ctx a1 d = Inr (x, d') \<Longrightarrow> repository_step ctx d d'"
| step_insertWebhookReceipt: "insertWebhookReceipt ctx a1 d = Inr (x, d') \<Longrightarrow> repository_step ctx d d'"
| step_markWebhookReceiptFailed: "markWebhookReceiptFailed ctx a1 a2 d = Inr (x, d') \<Longrightarrow> repository_step ctx d d'"
| step_markWebhookReceiptProcessed: "markWebhookReceiptProcessed ctx a1 a2 d = Inr (x, d') \<Longrightarrow> repository_step ctx d d'"
| step_observeExternalRefund: "observeExternalRefund ctx a1 d = Inr (x, d') \<Longrightarrow> repository_step ctx d d'"
| step_acknowledgeExternalRefundAlert: "acknowledgeExternalRefundAlert ctx a1 a2 a3 d = Inr (x, d') \<Longrightarrow> repository_step ctx d d'"
| step_listExecutionWork: "listExecutionWork ctx a1 d = Inr (x, d') \<Longrightarrow> repository_step ctx d d'"
| step_listApprovedExecutionWork: "listApprovedExecutionWork ctx a1 d = Inr (x, d') \<Longrightarrow> repository_step ctx d d'"
| step_prepareExecutionRecoveryWork: "prepareExecutionRecoveryWork ctx a1 d = Inr (x, d') \<Longrightarrow> repository_step ctx d d'"
| step_listLinkedRefundReconciliationTargets: "listLinkedRefundReconciliationTargets ctx a1 a2 a3 d = Inr (x, d') \<Longrightarrow> repository_step ctx d d'"
| step_beginReconciliationWindow: "beginReconciliationWindow ctx a1 a2 a3 d = Inr (x, d') \<Longrightarrow> repository_step ctx d d'"
| step_saveReconciliationCursor: "saveReconciliationCursor ctx a1 a2 a3 d = Inr (x, d') \<Longrightarrow> repository_step ctx d d'"
| step_completeReconciliationWindow: "completeReconciliationWindow ctx a1 a2 a3 d = Inr (x, d') \<Longrightarrow> repository_step ctx d d'"
| step_updateTenantUsers: "update_users ctx p1 f1 d = Inr (x, d') \<Longrightarrow> repository_step ctx d d'"
| step_getExecutionWorkItem: "getExecutionWorkItem ctx a1 d = Inr (x, d') \<Longrightarrow> repository_step ctx d d'"

locale ledger = evolution R for R :: "db \<Rightarrow> db \<Rightarrow> bool" +
  fixes ctx :: txctx
  assumes upd_requests: "request_op p f \<Longrightarrow> steps R (update_requests ctx p f)"
    and ins_request: "new_request r \<Longrightarrow> steps R (insert_request ctx r)"
    and upd_tenants: "steps R (update_tenants ctx pt ft)"
    and upd_installations: "steps R (update_installations ctx pi fi)"
    and upd_users: "steps R (update_users ctx pu fu)"
    and ins_user: "steps R (insert_user ctx u)"
    and upd_policies: "steps R (update_policies ctx pp fp)"
    and ins_policy: "steps R (insert_policy ctx po)"
    and ins_decision: "steps R (insert_decision ctx ad)"
    and ins_attestation: "steps R (insert_attestation ctx aa)"
    and ins_execution: "steps R (insert_execution ctx ex)"
    and upd_executions: "steps R (update_executions ctx pe fe)"
    and ins_attempt: "steps R (insert_attempt ctx at)"
    and upd_attempts: "steps R (update_attempts ctx pa fa)"
    and ins_candidate: "steps R (insert_candidate ctx cc)"
    and upd_candidates: "steps R (update_candidates ctx pc fc)"
    and ins_receipt: "steps R (insert_receipt_skip ctx wr)"
    and upd_receipts: "receipt_op fw \<Longrightarrow> steps R (update_receipts ctx pw fw)"
    and ins_alert: "steps R (insert_alert_skip ctx al)"
    and upd_alerts: "steps R (update_alerts ctx px fx)"
    and ins_audit: "steps R (insert_audit ctx ae)"
    and ins_mutation: "steps R (insert_mutation ctx mr)"
begin

lemma steps_with_db: "(\<And>d. steps R (f d)) \<Longrightarrow> steps R (with_db f)"
  by (auto simp: steps_def)

lemmas statements = upd_tenants upd_installations upd_users ins_user upd_policies ins_policy ins_decision
  ins_attestation ins_execution upd_executions ins_attempt upd_attempts ins_candidate upd_candidates
  ins_receipt upd_receipts ins_alert upd_alerts ins_audit ins_mutation

lemmas struct = steps_rules steps_with_db statements

lemma upd_by: "request_op q f \<Longrightarrow> (\<And>r. p r \<Longrightarrow> q r) \<Longrightarrow> steps R (update_requests ctx p f)"
  by (rule upd_requests, rule request_op_weaken)

lemma reads: "steps R (getExecutionWorkItem ctx i)"
  unfolding getExecutionWorkItem_def by (auto intro!: struct simp: Let_def split: list.splits)

lemma observeTenantUser_steps: "steps R (observeTenantUser ctx s n r t)"
  unfolding observeTenantUser_def Let_def by (intro struct)

lemma setApproverEnabled_steps: "steps R (setApproverEnabled ctx i b)"
  unfolding setApproverEnabled_def by (intro struct)

lemma setApproverEnabledByStripeUserId_steps: "steps R (setApproverEnabledByStripeUserId ctx i b)"
  unfolding setApproverEnabledByStripeUserId_def by (intro struct)

lemma completeOnboarding_steps: "steps R (completeOnboarding ctx i t)"
  unfolding completeOnboarding_def by (intro struct)

lemma createApprovalPolicy_steps: "steps R (createApprovalPolicy ctx s)"
  unfolding createApprovalPolicy_def by (intro struct)

lemma settle_requests_steps: "steps R (settle_requests ctx scope t e)"
  unfolding settle_requests_def
  by (intro struct upd_by [OF op_stale] upd_by [OF op_fail] upd_by [OF op_reconcile])
    (auto simp: terminal_where_def reconciliation_where_def)

lemma settleRequestsForDeauthorization_steps: "steps R (settleRequestsForDeauthorization ctx t)"
  unfolding settleRequestsForDeauthorization_def by (intro struct settle_requests_steps)

lemma deauthorizeInstallation_steps: "steps R (deauthorizeInstallation ctx i t u)"
  unfolding deauthorizeInstallation_def by (intro struct settleRequestsForDeauthorization_steps)

lemma applyWebhookDeauthorization_steps: "steps R (applyWebhookDeauthorization ctx i)"
  unfolding applyWebhookDeauthorization_def by (intro struct settleRequestsForDeauthorization_steps)

lemma createRefundRequest_steps: "new_request r \<Longrightarrow> steps R (createRefundRequest ctx r)"
  unfolding createRefundRequest_def by (rule ins_request) (simp add: new_request_def)

lemma repo_recordDecision_steps: "steps R (repo_recordDecision ctx r t)"
  unfolding repo_recordDecision_def
  by (intro struct upd_by [OF op_approve] upd_by [OF op_close_pending]) auto

lemma persistApprovalAttestation_steps: "steps R (persistApprovalAttestation ctx a)"
  unfolding persistApprovalAttestation_def by (intro struct)

lemma cancelPendingRequest_steps: "steps R (cancelPendingRequest ctx i u t)"
  unfolding cancelPendingRequest_def by (intro struct upd_by [OF op_close_pending]) auto

lemma expirePendingRequests_steps: "steps R (expirePendingRequests ctx t n)"
  unfolding expirePendingRequests_def by (intro struct upd_by [OF op_close_pending]) auto

lemma claimExecution_steps: "steps R (claimExecution ctx i t)"
  unfolding claimExecution_def by (intro struct upd_by [OF op_claim]) auto

lemma claimExecutionWorkItem_steps: "steps R (claimExecutionWorkItem ctx i t)"
  unfolding claimExecutionWorkItem_def by (intro struct claimExecution_steps reads)

lemma resumeExecutionAfterAbsence_steps: "steps R (resumeExecutionAfterAbsence ctx i t)"
  unfolding resumeExecutionAfterAbsence_def by (intro struct upd_by [OF op_resume]) auto

lemma markEffectPossible_steps: "steps R (markEffectPossible ctx i)"
  unfolding markEffectPossible_def by (intro struct upd_by [OF op_cross]) auto

lemma markReconciliationRequired_steps: "steps R (markReconciliationRequired ctx i)"
  unfolding markReconciliationRequired_def by (intro struct upd_by [OF op_reconcile]) auto

lemma markAbsenceProven_steps: "steps R (markAbsenceProven ctx i)"
  unfolding markAbsenceProven_def by (intro struct upd_by [OF op_absent]) auto

lemma markCertainAbsenceWhileExecuting_steps: "steps R (markCertainAbsenceWhileExecuting ctx i)"
  unfolding markCertainAbsenceWhileExecuting_def by (intro struct upd_by [OF op_absent]) auto

lemma markTerminalFailureAfterAbsence_steps: "steps R (markTerminalFailureAfterAbsence ctx i t)"
  unfolding markTerminalFailureAfterAbsence_def by (intro struct upd_by [OF op_fail]) auto

lemma ensureExecution_steps: "steps R (ensureExecution ctx i k h a c)"
  unfolding ensureExecution_def by (intro struct)

lemma beginExecutionAttempt_steps: "steps R (beginExecutionAttempt ctx i n t)"
  unfolding beginExecutionAttempt_def by (intro struct)

lemma finishExecutionAttempt_steps: "steps R (finishExecutionAttempt ctx i)"
  unfolding finishExecutionAttempt_def by (intro struct)

lemma preserve_reconciliation_steps: "steps R (preserve_reconciliation ctx r i)"
  unfolding preserve_reconciliation_def Let_def
  by (intro struct upd_by [OF op_identify] upd_by [OF op_cross]) auto

lemma follow_refund_status_steps: "steps R (follow_refund_status ctx i)"
  unfolding follow_refund_status_def Let_def
  by (intro struct upd_by [OF op_uncertain] upd_by [OF op_identify] upd_by [OF op_succeed] upd_by [OF op_fail])
    (auto simp: active_where_def)

lemma markRefundIdentified_steps: "steps R (markRefundIdentified ctx i)"
  unfolding markRefundIdentified_def update_linked_execution_def
  by (intro struct upd_by [OF op_correct] preserve_reconciliation_steps follow_refund_status_steps) auto

lemma recordRefundCorrelationCandidate_steps: "steps R (recordRefundCorrelationCandidate ctx i)"
  unfolding recordRefundCorrelationCandidate_def mark_candidates_conflict_def Let_def by (intro struct)

lemma markRefundCorrelationCandidateLinked_steps: "steps R (markRefundCorrelationCandidateLinked ctx i j s t)"
  unfolding markRefundCorrelationCandidateLinked_def Let_def by (intro struct)

lemma resolve_candidate_steps: "steps R (resolve_candidate ctx i s e t r)"
  unfolding resolve_candidate_def Let_def mark_candidates_conflict_def resolve_absence_def link_unique_candidate_def
  by (intro struct markReconciliationRequired_steps markAbsenceProven_steps resumeExecutionAfterAbsence_steps
      markRefundIdentified_steps markRefundCorrelationCandidateLinked_steps)

lemma resolveUniqueRefundCandidates_steps: "steps R (resolveUniqueRefundCandidates ctx i s e t)"
  unfolding resolveUniqueRefundCandidates_def by (intro struct resolve_candidate_steps)

lemma appendAuditEvent_steps: "steps R (appendAuditEvent ctx e)"
  unfolding appendAuditEvent_def by (intro struct)

lemma createMutationReceipt_steps: "steps R (createMutationReceipt ctx m)"
  unfolding createMutationReceipt_def by (intro struct)

lemma insertWebhookReceipt_steps: "steps R (insertWebhookReceipt ctx w)"
  unfolding insertWebhookReceipt_def by (intro struct)

lemma markWebhookReceiptFailed_steps: "steps R (markWebhookReceiptFailed ctx i c)"
  unfolding markWebhookReceiptFailed_def by (intro struct) (simp add: receipt_op_def receipt_key_def)

lemma markWebhookReceiptProcessed_steps: "steps R (markWebhookReceiptProcessed ctx i t)"
  unfolding markWebhookReceiptProcessed_def by (intro struct) (simp add: receipt_op_def receipt_key_def)

lemma observeExternalRefund_steps: "steps R (observeExternalRefund ctx i)"
  unfolding observeExternalRefund_def Let_def by (intro struct settle_requests_steps)

lemma acknowledgeExternalRefundAlert_steps: "steps R (acknowledgeExternalRefundAlert ctx i u t)"
  unfolding acknowledgeExternalRefundAlert_def by (intro struct)

lemma fetch_work_steps: "steps R (fetch_work ctx e rs)"
  unfolding fetch_work_def by (intro struct reads)

lemma listExecutionWork_steps: "steps R (listExecutionWork ctx n)"
  unfolding listExecutionWork_def by (intro struct fetch_work_steps)

lemma listApprovedExecutionWork_steps: "steps R (listApprovedExecutionWork ctx n)"
  unfolding listApprovedExecutionWork_def by (intro struct fetch_work_steps)

lemma prepareExecutionRecoveryWork_steps: "steps R (prepareExecutionRecoveryWork ctx n)"
  unfolding prepareExecutionRecoveryWork_def Let_def
  by (intro struct fetch_work_steps markReconciliationRequired_steps)

lemma listLinkedRefundReconciliationTargets_steps:
  "steps R (listLinkedRefundReconciliationTargets ctx i a n)"
  unfolding listLinkedRefundReconciliationTargets_def by (intro struct)

end

text \<open>The operations on the checkpoints of the reconciliation scan are added last.\<close>

locale repositories = ledger R ctx for R :: "db \<Rightarrow> db \<Rightarrow> bool" and ctx :: txctx +
  assumes ins_checkpoint: "steps R (insert_checkpoint ctx ck)"
    and upd_checkpoints: "steps R (update_checkpoints ctx pk fk)"
begin

lemmas checkpoint_struct = struct ins_checkpoint upd_checkpoints

lemma beginReconciliationWindow_steps: "steps R (beginReconciliationWindow ctx i s e)"
  unfolding beginReconciliationWindow_def Let_def by (intro checkpoint_struct)

lemma saveReconciliationCursor_steps: "steps R (saveReconciliationCursor ctx i s e)"
  unfolding saveReconciliationCursor_def reread_checkpoint_def by (intro checkpoint_struct)

lemma completeReconciliationWindow_steps: "steps R (completeReconciliationWindow ctx i e c)"
  unfolding completeReconciliationWindow_def reread_checkpoint_def by (intro checkpoint_struct)

lemmas operations = upd_users reads observeTenantUser_steps setApproverEnabled_steps setApproverEnabledByStripeUserId_steps completeOnboarding_steps createApprovalPolicy_steps deauthorizeInstallation_steps applyWebhookDeauthorization_steps createRefundRequest_steps repo_recordDecision_steps persistApprovalAttestation_steps cancelPendingRequest_steps expirePendingRequests_steps claimExecution_steps claimExecutionWorkItem_steps resumeExecutionAfterAbsence_steps markEffectPossible_steps markReconciliationRequired_steps markAbsenceProven_steps markCertainAbsenceWhileExecuting_steps markTerminalFailureAfterAbsence_steps ensureExecution_steps beginExecutionAttempt_steps finishExecutionAttempt_steps markRefundIdentified_steps recordRefundCorrelationCandidate_steps markRefundCorrelationCandidateLinked_steps resolveUniqueRefundCandidates_steps appendAuditEvent_steps createMutationReceipt_steps insertWebhookReceipt_steps markWebhookReceiptFailed_steps markWebhookReceiptProcessed_steps observeExternalRefund_steps acknowledgeExternalRefundAlert_steps listExecutionWork_steps listApprovedExecutionWork_steps prepareExecutionRecoveryWork_steps listLinkedRefundReconciliationTargets_steps beginReconciliationWindow_steps saveReconciliationCursor_steps completeReconciliationWindow_steps

text \<open>Every committed operation stays within the relation.\<close>

lemma repository_step_within: "repository_step ctx d d' \<Longrightarrow> R d d'"
  by (erule repository_step.cases) (auto dest: operations [THEN stepsD])

end

end
