(* ===== verification/Repository_Invariants.thy ===== *)
theory Repository_Invariants
  imports Repository_Laws
begin

text \<open>
  Two interpretations of the contract \<open>repositories\<close> on the model's own tables. The first keeps
  the database invariant \<open>db_inv\<close> and the history relation \<open>history\<close> (append-only tables, immutable
  financial snapshots, released guards and refund links); the second is tenant isolation.
\<close>

subsection \<open>Tables that only grow and evolve row by row\<close>

definition table_evolves :: "('r \<Rightarrow> 'r \<Rightarrow> bool) \<Rightarrow> 'r list \<Rightarrow> 'r list \<Rightarrow> bool" where
  "table_evolves P t t' \<longleftrightarrow> (\<exists>old new. t' = old @ new \<and> list_all2 P t old)"

lemma table_evolves_refl: "(\<And>r. P r r) \<Longrightarrow> table_evolves P t t"
  unfolding table_evolves_def by (metis append_Nil2 list_all2_refl)

lemma table_evolves_append: "(\<And>r. P r r) \<Longrightarrow> table_evolves P t (t @ n)"
  by (auto simp: table_evolves_def list_all2_refl)

lemma table_evolves_rows: "list_all2 P t t' \<Longrightarrow> table_evolves P t t'"
  unfolding table_evolves_def by (metis append_Nil2)

lemma table_evolves_trans:
  assumes "\<And>x y z. P x y \<Longrightarrow> P y z \<Longrightarrow> P x z" and "table_evolves P t u" and "table_evolves P u v"
  shows "table_evolves P t v"
proof -
  from assms(2,3) obtain o1 n1 o2 n2 where u: "u = o1 @ n1" "list_all2 P t o1"
    and v: "v = o2 @ n2" "list_all2 P (o1 @ n1) o2"
    by (auto simp: table_evolves_def)
  from v(2) obtain a b where ab: "o2 = a @ b" "list_all2 P o1 a"
    by (auto simp: list_all2_append1)
  then have "list_all2 P t a" using u(2) assms(1) by (blast intro: list_all2_trans)
  with v ab show ?thesis unfolding table_evolves_def by (metis append.assoc)
qed

subsection \<open>The database invariant\<close>

definition past_approval_row :: "RefundRequest \<Rightarrow> bool" where
  "past_approval_row r \<longleftrightarrow> rr_workflowStatus r \<in>
     {W_approved, W_executing, W_reconciliation_required, W_succeeded, W_failed_terminal}"

definition payment_of :: "RefundRequest \<Rightarrow> string \<times> StripeEnvironment \<times> string" where
  "payment_of r = (rr_tenantId r, rr_environment r, rr_paymentKey r)"

definition db_inv :: "db \<Rightarrow> bool" where
  "db_inv d \<longleftrightarrow> (\<forall>r \<in> set (requests d). request_inv r \<and> request_checks r
        \<and> (past_approval_row r \<longrightarrow> attested_approval d r))
     \<and> distinct (map rr_id (requests d))
     \<and> distinct (map payment_of (filter (\<lambda>r. rr_paymentGuardReleasedAt r = None) (requests d)))"

text \<open>What one edge keeps: identity, snapshot, a released guard, and closed requests but for the correction.\<close>

definition request_evolves :: "RefundRequest \<Rightarrow> RefundRequest \<Rightarrow> bool" where
  "request_evolves r r' \<longleftrightarrow> rr_id r' = rr_id r \<and> same_snapshot r' r \<and> rr_version r \<le> rr_version r'
     \<and> (rr_paymentGuardReleasedAt r \<noteq> None \<longrightarrow> rr_paymentGuardReleasedAt r' = rr_paymentGuardReleasedAt r)
     \<and> (rr_terminalAt r \<noteq> None \<and> terminal_status (rr_workflowStatus r) \<longrightarrow> rr_terminalAt r' = rr_terminalAt r)
     \<and> (terminal_status (rr_workflowStatus r) \<longrightarrow> rr_workflowStatus r' = rr_workflowStatus r
          \<or> rr_workflowStatus r = W_succeeded \<and> rr_workflowStatus r' = W_failed_terminal)"

lemma same_snapshot_refl [simp]: "same_snapshot r r"
  by (simp add: same_snapshot_def)

lemma same_snapshot_trans: "same_snapshot y x \<Longrightarrow> same_snapshot z y \<Longrightarrow> same_snapshot z x"
  by (simp add: same_snapshot_def)

lemma request_evolves_refl: "request_evolves r r"
  by (simp add: request_evolves_def)

lemma request_evolves_trans:
  assumes "request_evolves x y" and "request_evolves y z" shows "request_evolves x z"
proof -
  have "terminal_status (rr_workflowStatus y)" if "terminal_status (rr_workflowStatus x)"
    using assms(1) that by (auto simp: request_evolves_def)
  moreover have "same_snapshot z x" using assms same_snapshot_trans unfolding request_evolves_def by blast
  ultimately show ?thesis using assms unfolding request_evolves_def
    by (intro conjI) (simp, assumption, simp, simp, simp, metis WorkflowStatus.distinct)
qed

lemma request_edge_evolves: "request_edge d r r' \<Longrightarrow> request_inv r \<Longrightarrow> request_evolves r r'"
  by (induction rule: request_edge.induct)
    (auto simp: request_evolves_def same_snapshot_def bump_def finish_def request_inv_def)

lemma request_edge_past: "request_edge d r r' \<Longrightarrow> past_approval_row r' \<Longrightarrow> past_approval_row r \<or> attested_approval d r"
  by (induction rule: request_edge.induct) (auto simp: past_approval_row_def bump_def finish_def)

lemma attested_evolves:
  "request_evolves r r' \<Longrightarrow> attested_approval d r \<Longrightarrow> set (decision_rows d) \<subseteq> set (decision_rows d')
   \<Longrightarrow> attested_approval d' r'"
  by (auto simp: attested_approval_def request_evolves_def same_snapshot_def)

lemma request_update_checks: "request_update ctx d r n = Inr r' \<Longrightarrow> request_checks r'"
  unfolding request_update_Inr by blast

text \<open>An update of requests: every row stays or takes one edge.\<close>

lemma update_requests_rows:
  assumes "request_op p f" and "update_requests ctx p f d = Inr (n, d')" and "\<forall>r \<in> set (requests d). request_inv r"
  shows "d' = d\<lparr>requests := requests d'\<rparr>"
    and "list_all2 (\<lambda>r r'. r' = r \<or> request_edge d r r' \<and> request_checks r') (requests d) (requests d')"
proof -
  from assms(2) obtain rs where d': "d' = d\<lparr>requests := rs\<rparr>"
    and u: "update_own rr_tenantId ctx p (\<lambda>r. request_update ctx d r (f r)) (requests d) = Inr (n, rs)"
    by (auto simp: update_requests_def split: sum.splits)
  show "d' = d\<lparr>requests := requests d'\<rparr>" by (simp add: d')
  have "list_all2 (\<lambda>r r'. r' = r \<or> request_edge d r r' \<and> request_checks r') (requests d) rs"
    using update_own_rows [OF u] assms(1,3) unfolding request_op_def
    by (auto simp: list_all2_conv_all_nth request_update_checks)
  then show "list_all2 (\<lambda>r r'. r' = r \<or> request_edge d r r' \<and> request_checks r') (requests d) (requests d')" by (simp add: d')
qed

lemma open_payments_distinct:
  assumes "list_all2 (\<lambda>r r'. payment_of r' = payment_of r
      \<and> (rr_paymentGuardReleasedAt r' = None \<longrightarrow> rr_paymentGuardReleasedAt r = None)) rs rs'"
    and "distinct (map payment_of (filter (\<lambda>r. rr_paymentGuardReleasedAt r = None) rs))"
  shows "distinct (map payment_of (filter (\<lambda>r. rr_paymentGuardReleasedAt r = None) rs'))
    \<and> set (map payment_of (filter (\<lambda>r. rr_paymentGuardReleasedAt r = None) rs'))
      \<subseteq> set (map payment_of (filter (\<lambda>r. rr_paymentGuardReleasedAt r = None) rs))"
  using assms by (induction rule: list_all2_induct) (auto, blast+)

lemma edge_rows_evolve:
  assumes "list_all2 (\<lambda>r r'. r' = r \<or> request_edge d r r' \<and> request_checks r') rs rs'" and "\<forall>r \<in> set rs. request_inv r"
  shows "list_all2 request_evolves rs rs'"
  using assms request_edge_evolves request_evolves_refl by (auto simp: list_all2_conv_all_nth)

lemma evolves_payment: "request_evolves r r' \<Longrightarrow> payment_of r' = payment_of r
    \<and> (rr_paymentGuardReleasedAt r' = None \<longrightarrow> rr_paymentGuardReleasedAt r = None)"
  by (auto simp: request_evolves_def same_snapshot_def payment_of_def)

lemma db_inv_update:
  assumes inv: "db_inv d" and rows: "list_all2 (\<lambda>r r'. r' = r \<or> request_edge d r r' \<and> request_checks r') (requests d) rs"
  shows "db_inv (d\<lparr>requests := rs\<rparr>)"
proof -
  have i: "\<forall>r \<in> set (requests d). request_inv r" using inv by (simp add: db_inv_def)
  note ev = edge_rows_evolve [OF rows i]
  have att: "attested_approval (d\<lparr>requests := rs\<rparr>) r = attested_approval d r" for r
    by (simp add: attested_approval_def)
  have "request_inv r' \<and> request_checks r' \<and> (past_approval_row r' \<longrightarrow> attested_approval d r')" if "r' \<in> set rs" for r'
  proof -
    from that rows ev obtain r where r: "r \<in> set (requests d)" "r' = r \<or> request_edge d r r' \<and> request_checks r'"
        "request_evolves r r'"
      by (auto simp: list_all2_conv_all_nth in_set_conv_nth) metis
    have "request_inv r'" using r i request_edge_inv by blast
    moreover have "request_checks r'" using r inv by (auto simp: db_inv_def)
    moreover have "attested_approval d r" if "past_approval_row r'"
      using r(1,2) inv that request_edge_past [of d r r'] by (auto simp: db_inv_def)
    ultimately show ?thesis using attested_evolves [OF r(3), of d d] by blast
  qed
  moreover have "map rr_id rs = map rr_id (requests d)"
    using ev by (simp add: list_all2_conv_all_nth request_evolves_def list_eq_iff_nth_eq)
  moreover have "distinct (map payment_of (filter (\<lambda>r. rr_paymentGuardReleasedAt r = None) rs))"
    using open_payments_distinct [OF list_all2_mono [OF ev evolves_payment]] inv by (simp add: db_inv_def)
  ultimately show ?thesis using inv by (simp add: db_inv_def att)
qed

subsection \<open>History\<close>

definition execution_evolves :: "RefundExecution \<Rightarrow> RefundExecution \<Rightarrow> bool" where
  "execution_evolves e e' \<longleftrightarrow> ex_requestId e' = ex_requestId e \<and> ex_tenantId e' = ex_tenantId e
     \<and> ex_idempotencyKey e' = ex_idempotencyKey e \<and> ex_amountMinor e' = ex_amountMinor e
     \<and> ex_currency e' = ex_currency e
     \<and> (ex_stripeRefundId e \<noteq> None \<longrightarrow> ex_stripeRefundId e' = ex_stripeRefundId e)
     \<and> (ex_stripeRefundStatus e = Some R_failed \<longrightarrow> ex_stripeRefundStatus e' = Some R_failed)
     \<and> (ex_stripeRefundStatus e = Some R_canceled \<longrightarrow> ex_stripeRefundStatus e' \<in> {Some R_canceled, Some R_failed})
     \<and> (ex_stripeRefundStatus e = Some R_succeeded \<longrightarrow>
          ex_stripeRefundStatus e' \<in> {Some R_succeeded, Some R_canceled, Some R_failed})"

definition alert_evolves :: "ExternalRefundAlert \<Rightarrow> ExternalRefundAlert \<Rightarrow> bool" where
  "alert_evolves a a' \<longleftrightarrow> same_protection a' a
     \<and> (al_status a = AL_acknowledged \<longrightarrow> al_status a' = AL_acknowledged
          \<and> al_acknowledgedByUserId a' = al_acknowledgedByUserId a)"

definition history :: "db \<Rightarrow> db \<Rightarrow> bool" where
  "history d d' \<longleftrightarrow> prefix (decision_rows d) (decision_rows d') \<and> prefix (attestations d) (attestations d')
     \<and> prefix (audits d) (audits d') \<and> prefix (mutations d) (mutations d')
     \<and> table_evolves request_evolves (requests d) (requests d')
     \<and> table_evolves execution_evolves (executions d) (executions d')
     \<and> table_evolves alert_evolves (alerts d) (alerts d')"

lemma execution_evolves_refl: "execution_evolves e e"
  by (simp add: execution_evolves_def)

lemma execution_evolves_trans: "execution_evolves x y \<Longrightarrow> execution_evolves y z \<Longrightarrow> execution_evolves x z"
  by (simp add: execution_evolves_def) metis

lemma alert_evolves_refl: "alert_evolves a a"
  by (simp add: alert_evolves_def same_protection_def)

lemma alert_evolves_trans: "alert_evolves x y \<Longrightarrow> alert_evolves y z \<Longrightarrow> alert_evolves x z"
  by (simp add: alert_evolves_def same_protection_def)

lemmas evolves_refl = table_evolves_refl [where P = request_evolves, OF request_evolves_refl]
  table_evolves_refl [where P = execution_evolves, OF execution_evolves_refl]
  table_evolves_refl [where P = alert_evolves, OF alert_evolves_refl]

lemma history_refl: "history d d"
  by (simp add: history_def evolves_refl)

lemma history_trans: "history d e \<Longrightarrow> history e f \<Longrightarrow> history d f"
  unfolding history_def
  by (auto elim: prefix_order.trans intro: table_evolves_trans request_evolves_trans
      execution_evolves_trans alert_evolves_trans)

text \<open>A statement that leaves the tables of interest alone.\<close>

definition same_tables :: "db \<Rightarrow> db \<Rightarrow> bool" where
  "same_tables d d' \<longleftrightarrow> requests d' = requests d \<and> decision_rows d' = decision_rows d
     \<and> attestations d' = attestations d \<and> audits d' = audits d \<and> mutations d' = mutations d
     \<and> executions d' = executions d \<and> alerts d' = alerts d"

definition kept :: "db \<Rightarrow> db \<Rightarrow> bool" where
  "kept d d' \<longleftrightarrow> (db_inv d \<longrightarrow> db_inv d' \<and> history d d')"

lemma db_inv_same: "requests d' = requests d \<Longrightarrow> set (decision_rows d) \<subseteq> set (decision_rows d') \<Longrightarrow> db_inv d \<Longrightarrow> db_inv d'"
  unfolding db_inv_def using attested_evolves [OF request_evolves_refl, of d _ d'] by auto

lemma kept_same: "same_tables d d' \<Longrightarrow> kept d d'"
  by (auto simp: kept_def same_tables_def history_def evolves_refl intro: db_inv_same)

lemma kept_history:
  "requests d' = requests d \<Longrightarrow> prefix (decision_rows d) (decision_rows d') \<Longrightarrow> history d d' \<Longrightarrow> kept d d'"
  by (auto simp: kept_def prefix_def intro: db_inv_same)

lemma request_insert_Inr:
  assumes "request_insert ctx d r = Inr r'" and "new_request r"
  shows "r' = r \<and> request_checks r \<and> rr_tenantId r = cx_tenant ctx \<and> rr_id r \<notin> rr_id ` set (requests d)
    \<and> payment_of r \<notin> payment_of ` {x \<in> set (requests d). rr_paymentGuardReleasedAt x = None}"
  using assms
  by (auto simp: request_insert_def Let_def new_request_def payment_of_def split: if_splits)

lemma kept_insert_request:
  assumes "new_request r" and "insert_request ctx r d = Inr (x, d')"
  shows "kept d d'"
proof -
  from assms(2) obtain r' where r': "request_insert ctx d r = Inr r'" and d': "d' = d\<lparr>requests := requests d @ [r']\<rparr>"
    by (auto simp: insert_request_def split: sum.splits)
  note ins = request_insert_Inr [OF r' assms(1)]
  have "request_inv r" "\<not> past_approval_row r" "rr_paymentGuardReleasedAt r = None"
    using assms(1) by (auto simp: new_request_def request_inv_def past_approval_row_def)
  with ins have "db_inv d \<Longrightarrow> db_inv d'"
    by (auto simp: db_inv_def d' attested_approval_def)
  moreover have "history d d'"
    by (simp add: history_def d' evolves_refl table_evolves_append request_evolves_refl)
  ultimately show ?thesis by (simp add: kept_def)
qed

lemma kept_update_requests:
  assumes "request_op p f" and "update_requests ctx p f d = Inr (n, d')"
  shows "kept d d'"
proof -
  { assume inv: "db_inv d"
    then have i: "\<forall>r \<in> set (requests d). request_inv r" by (simp add: db_inv_def)
    note u = update_requests_rows [OF assms i]
    have "db_inv d'" using db_inv_update [OF inv u(2)] u(1) by simp
    moreover have "table_evolves request_evolves (requests d) (requests d')"
      by (rule table_evolves_rows) (rule edge_rows_evolve [OF u(2) i])
    then have "history d d'" by (subst u(1)) (simp add: history_def evolves_refl)
    ultimately have "db_inv d' \<and> history d d'" by simp }
  then show ?thesis by (simp add: kept_def)
qed

lemma kept_update_executions:
  assumes "update_executions ctx p f d = Inr (n, d')"
  shows "kept d d'"
proof -
  from assms obtain rs where d': "d' = d\<lparr>executions := rs\<rparr>"
    and u: "update_own ex_tenantId ctx p (\<lambda>r. bind_err (web_denied ctx) (\<lambda>_.
        bind_err (trg_preserve_first_refund_link r (f r)) (\<lambda>_.
        bind_err (raise_when (\<not> execution_checks (f r)) ''refund_executions check constraint'') (\<lambda>_. Inr (f r)))))
        (executions d) = Inr (n, rs)"
    by (auto simp: update_executions_def split: sum.splits if_splits)
  have "execution_evolves r (f r)" if "trg_preserve_first_refund_link r (f r) = Inr ()" for r
    using that by (auto simp: trg_preserve_first_refund_link_def execution_evolves_def)
  then have "list_all2 execution_evolves (executions d) rs"
    using update_own_rows [OF u] execution_evolves_refl by (auto elim!: list_all2_mono)
  then have "history d d'" by (simp add: history_def d' evolves_refl table_evolves_rows)
  then show ?thesis by (intro kept_history) (simp_all add: d')
qed

lemma kept_update_alerts:
  assumes "update_alerts ctx p f d = Inr (n, d')"
  shows "kept d d'"
proof -
  from assms obtain rs where d': "d' = d\<lparr>alerts := rs\<rparr>"
    and u: "update_own al_tenantId ctx p (\<lambda>r. bind_err (trg_preserve_external_refund_protection r (f r)) (\<lambda>_.
        bind_err (raise_when (\<not> alert_checks (f r)) ''external_refund_alerts check constraint'') (\<lambda>_. Inr (f r))))
        (alerts d) = Inr (n, rs)"
    by (auto simp: update_alerts_def split: sum.splits)
  have "alert_evolves r (f r)" if "trg_preserve_external_refund_protection r (f r) = Inr ()" for r
    using that by (auto simp: trg_preserve_external_refund_protection_def alert_evolves_def)
  then have "list_all2 alert_evolves (alerts d) rs"
    using update_own_rows [OF u] alert_evolves_refl by (auto elim!: list_all2_mono)
  then have "history d d'" by (simp add: history_def d' evolves_refl table_evolves_rows)
  then show ?thesis by (intro kept_history) (simp_all add: d')
qed

lemmas statement_defs = update_tenants_def update_installations_def update_users_def insert_user_def
  update_policies_def insert_policy_def insert_decision_def insert_attestation_def insert_execution_def
  insert_attempt_def update_attempts_def insert_candidate_def update_candidates_def insert_receipt_skip_def
  update_receipts_def insert_alert_skip_def insert_audit_def insert_mutation_def insert_checkpoint_def
  update_checkpoints_def

interpretation kept_db: repositories kept ctx
proof (unfold_locales, goal_cases)
  case (1 s)
  show ?case by (simp add: kept_def history_refl)
next
  case (2 s t u)
  then show ?case by (auto simp: kept_def intro: history_trans)
next
  case (3 p f)
  then show ?case by (intro stepsI) (rule kept_update_requests)
next
  case (4 r)
  then show ?case by (intro stepsI) (rule kept_insert_request)
next
  case (14 pe fe)
  show ?case by (intro stepsI) (rule kept_update_executions)
next
  case (22 px fx)
  show ?case by (intro stepsI) (rule kept_update_alerts)
next
  case (11 ad)
  show ?case by (intro stepsI, rule kept_history)
      (auto simp: insert_decision_def history_def evolves_refl Let_def split: sum.splits if_splits)
next
  case (12 aa)
  show ?case by (intro stepsI, rule kept_history)
      (auto simp: insert_attestation_def history_def evolves_refl Let_def split: sum.splits if_splits)
next
  case (13 ex)
  show ?case by (intro stepsI, rule kept_history)
      (auto simp: insert_execution_def history_def evolves_refl table_evolves_append execution_evolves_refl
        Let_def split: sum.splits if_splits)
next
  case (21 al)
  show ?case by (intro stepsI, rule kept_history)
      (auto simp: insert_alert_skip_def history_def evolves_refl table_evolves_append alert_evolves_refl
        Let_def split: sum.splits if_splits)
next
  case (23 ae)
  show ?case by (intro stepsI, rule kept_history)
      (auto simp: insert_audit_def history_def evolves_refl Let_def split: sum.splits if_splits)
next
  case (24 mr)
  show ?case by (intro stepsI, rule kept_history)
      (auto simp: insert_mutation_def history_def evolves_refl Let_def split: sum.splits if_splits)
qed (rule stepsI, rule kept_same, auto simp: statement_defs same_tables_def Let_def split: sum.splits if_splits)+

end
