(* ===== verification/Installations.thy ===== *)
theory Installations
  imports Db_Tables
begin

text \<open>
  \<open>packages/db/src/installations.ts\<close> and the security-definer functions it calls: finding the
  installation of a Stripe account and provisioning it. They run outside any tenant's row-level
  security.
\<close>

record ResolvedInstallation =
  rv_tenantId :: string
  rv_installationId :: string
  rv_status :: InstallationStatus

definition resolved_row :: "StripeInstallation \<Rightarrow> ResolvedInstallation" where
  "resolved_row i = \<lparr>rv_tenantId = si_tenantId i, rv_installationId = si_id i, rv_status = si_status i\<rparr>"

definition listActiveTenantIds :: "db \<Rightarrow> string list" where
  "listActiveTenantIds d = sort (map tn_id (filter (\<lambda>t. tn_status t = T_active) (tenants d)))"

definition resolveInstallation ::
  "string \<Rightarrow> StripeEnvironment \<Rightarrow> db \<Rightarrow> err + StripeInstallation option" where
  "resolveInstallation stripeAccountId environment d =
     (if \<not> prefixed_id ''acct_'' stripeAccountId then Inl (TypeError ''Invalid Stripe account ID'')
      else Inr (first_row (\<lambda>i. si_stripeAccountId i = stripeAccountId \<and> si_environment i = environment
        \<and> (\<exists>t \<in> set (tenants d). tn_id t = si_tenantId i \<and> tn_status t = T_active)) (installations d)))"

definition resolveWebhookInstallation ::
  "string \<Rightarrow> StripeEnvironment \<Rightarrow> db \<Rightarrow> err + StripeInstallation option" where
  "resolveWebhookInstallation stripeAccountId environment d =
     (if \<not> prefixed_id ''acct_'' stripeAccountId then Inl (TypeError ''Invalid Stripe account ID'')
      else Inr (first_row (\<lambda>i. si_stripeAccountId i = stripeAccountId \<and> si_environment i = environment
        \<and> non_live (si_environment i)) (installations d)))"

text \<open>Both provisioning functions reactivate the tenant and the installation under the tenant's lock.\<close>

definition reactivate :: "StripeInstallation \<Rightarrow> (StripeInstallation \<Rightarrow> StripeInstallation) \<Rightarrow> db \<Rightarrow> err + db" where
  "reactivate i f d =
     (if \<not> (\<exists>t \<in> set (tenants d). tn_id t = si_tenantId i) then Inl TransactionWriteConflict
      else let d' = d\<lparr>tenants := map (\<lambda>t. if tn_id t = si_tenantId i then t\<lparr>tn_status := T_active, tn_pendingDeleteAt := None\<rparr>
                 else t) (tenants d),
               installations := map (\<lambda>x. if si_id x = si_id i then f (x\<lparr>si_status := I_active, si_deauthorizedAt := None\<rparr>) else x)
                 (installations d)\<rparr>
      in if list_all installation_checks (installations d') then Inr d'
         else Inl (DbError ''stripe_installations check constraint''))"

text \<open>
  The loop of at most eight attempts: it runs again only when the installation could not be
  inserted under its new identifier.
\<close>

fun provision_attempts :: "txctx \<Rightarrow> string \<Rightarrow> StripeEnvironment \<Rightarrow> nat \<Rightarrow> StripeInstallation tx" where
  "provision_attempts ctx account environment 0 d = Inl TransactionWriteConflict"
| "provision_attempts ctx account environment (Suc n) d =
     (case first_row (\<lambda>i. si_stripeAccountId i = account \<and> si_environment i = environment) (installations d) of
        Some i \<Rightarrow>
          if si_status i = I_deauthorized \<and> si_lastLifecycleEventType i = Some ''account.application.deauthorized''
          then Inr (i, d)
          else map_sum id (\<lambda>d'. (i\<lparr>si_status := I_active, si_deauthorizedAt := None\<rparr>, d')) (reactivate i id d)
      | None \<Rightarrow>
          (let t = \<lparr>tn_id = fresh ctx d, tn_status = T_active, tn_liveEnabled = False, tn_pendingDeleteAt = None\<rparr>;
               d1 = d\<lparr>db_fresh := Suc (db_fresh d)\<rparr>;
               i = \<lparr>si_id = fresh ctx d1, si_tenantId = tn_id t, si_stripeAccountId = account, si_environment = environment,
                 si_status = I_active, si_onboardingCompletedAt = None, si_installedAt = cx_clock ctx,
                 si_deauthorizedAt = None, si_lastLifecycleEventId = None, si_lastLifecycleEventType = None,
                 si_lastLifecycleEventCreatedAt = None\<rparr>;
               d2 = d1\<lparr>db_fresh := Suc (db_fresh d1)\<rparr>
           in if \<exists>x \<in> set (tenants d). tn_id x = tn_id t then Inl (UniqueViolation ''tenants_pkey'')
              else if \<exists>x \<in> set (installations d). si_id x = si_id i
              then provision_attempts ctx account environment n d2
              else Inr (i, d2\<lparr>tenants := tenants d @ [t], installations := installations d @ [i]\<rparr>)))"

definition refunddesk_provision_installation :: "txctx \<Rightarrow> string \<Rightarrow> StripeEnvironment \<Rightarrow> StripeInstallation tx" where
  "refunddesk_provision_installation ctx account environment =
     (if environment = Env_live then throw_tx (DbError ''live installation provisioning is disabled for the pilot'')
      else if \<not> prefixed_id ''acct_'' account then throw_tx (DbError ''invalid Stripe account identifier'')
      else provision_attempts ctx account environment 8)"

definition provisionInstallation :: "txctx \<Rightarrow> string \<Rightarrow> StripeEnvironment \<Rightarrow> ResolvedInstallation tx" where
  "provisionInstallation ctx stripeAccountId environment =
     (if \<not> prefixed_id ''acct_'' stripeAccountId then throw_tx (TypeError ''Invalid Stripe account ID'')
      else bind_tx (refunddesk_provision_installation ctx stripeAccountId environment) (\<lambda>i. return_tx (resolved_row i)))"

definition provision_applies :: "StripeInstallation \<Rightarrow> string \<Rightarrow> date \<Rightarrow> bool" where
  "provision_applies i event createdAt = (case si_lastLifecycleEventCreatedAt i of
     None \<Rightarrow> True
   | Some t \<Rightarrow> createdAt > t \<or> createdAt = t \<and> si_lastLifecycleEventId i = Some event)"

text \<open>The loop of the webhook variant ends in its first round.\<close>

definition refunddesk_provision_webhook_installation ::
  "string \<Rightarrow> StripeEnvironment \<Rightarrow> string \<Rightarrow> date \<Rightarrow> (StripeInstallation \<times> bool) tx" where
  "refunddesk_provision_webhook_installation account environment event createdAt d =
     (if environment = Env_live then Inl (DbError ''live installation provisioning is disabled for the pilot'')
      else if \<not> prefixed_id ''acct_'' account \<or> \<not> prefixed_id ''evt_'' event then Inl (DbError ''invalid Stripe identifier'')
      else case first_row (\<lambda>i. si_stripeAccountId i = account \<and> si_environment i = environment) (installations d) of
        None \<Rightarrow> Inl (DbError ''webhook authorization requires existing installation context'')
      | Some i \<Rightarrow>
        if \<not> provision_applies i event createdAt then Inr ((i, False), d)
        else (let f = (\<lambda>x. x\<lparr>si_lastLifecycleEventId := Some event,
                si_lastLifecycleEventType := Some ''account.application.authorized'',
                si_lastLifecycleEventCreatedAt := Some createdAt\<rparr>)
              in map_sum id (\<lambda>d'. ((f (i\<lparr>si_status := I_active, si_deauthorizedAt := None\<rparr>), True), d')) (reactivate i f d)))"

definition provisionWebhookInstallation ::
  "string \<Rightarrow> StripeEnvironment \<Rightarrow> string \<Rightarrow> date \<Rightarrow> (ResolvedInstallation \<times> bool) tx" where
  "provisionWebhookInstallation stripeAccountId environment stripeEventId createdAt =
     (if \<not> prefixed_id ''acct_'' stripeAccountId then throw_tx (TypeError ''Invalid Stripe account ID'')
      else if \<not> prefixed_id ''evt_'' stripeEventId then throw_tx (TypeError ''Invalid Stripe event ID'')
      else bind_tx (refunddesk_provision_webhook_installation stripeAccountId environment stripeEventId createdAt)
        (\<lambda>(i, applied). return_tx (resolved_row i, applied)))"

text \<open>Provisioning touches tenants and installations only.\<close>

definition only_installations :: "db \<Rightarrow> db \<Rightarrow> bool" where
  "only_installations d d' \<longleftrightarrow>
     d' = d\<lparr>tenants := tenants d', installations := installations d', db_fresh := db_fresh d'\<rparr>"

lemma reactivate_only: "reactivate i f d = Inr d' \<Longrightarrow> only_installations d d'"
  by (auto simp: reactivate_def only_installations_def Let_def split: if_splits)

lemma provision_attempts_only: "provision_attempts ctx a e n d = Inr (x, d') \<Longrightarrow> only_installations d d'"
proof (induction n arbitrary: d)
  case (Suc n)
  show ?case
  proof (cases "first_row (\<lambda>i. si_stripeAccountId i = a \<and> si_environment i = e) (installations d)")
    case (Some i)
    with Suc.prems show ?thesis
      by (cases "reactivate i id d") (auto simp: only_installations_def dest: reactivate_only split: if_splits)
  next
    case None
    with Suc.prems show ?thesis
      by (auto simp: only_installations_def Let_def dest!: Suc.IH split: if_splits)
  qed
qed simp

lemma provision_only:
  "refunddesk_provision_installation ctx a e d = Inr (x, d') \<Longrightarrow> only_installations d d'"
  "refunddesk_provision_webhook_installation a e v c d = Inr (y, d') \<Longrightarrow> only_installations d d'"
  subgoal by (auto simp: refunddesk_provision_installation_def dest: provision_attempts_only split: if_splits)
  subgoal by (auto simp: refunddesk_provision_webhook_installation_def Let_def only_installations_def map_sum_def
        dest: reactivate_only split: if_splits option.splits sum.splits)
  done

end
