(* ===== verification/Repository_Theorems.thy ===== *)
theory Repository_Theorems
  imports Repository_Invariants Installations
begin

text \<open>
  Tenant isolation as a second interpretation of the repository contract, and the properties of
  the database the operations can reach.
\<close>

subsection \<open>Tenant isolation\<close>

definition foreign :: "('r \<Rightarrow> string) \<Rightarrow> txctx \<Rightarrow> 'r list \<Rightarrow> 'r list" where
  "foreign tn ctx rs = filter (\<lambda>r. tn r \<noteq> cx_tenant ctx) rs"

definition isolated :: "txctx \<Rightarrow> db \<Rightarrow> db \<Rightarrow> bool" where
  "isolated ctx d d' \<longleftrightarrow>
     foreign tn_id ctx (tenants d') = foreign tn_id ctx (tenants d)
     \<and> foreign si_tenantId ctx (installations d') = foreign si_tenantId ctx (installations d)
     \<and> foreign tu_tenantId ctx (users d') = foreign tu_tenantId ctx (users d)
     \<and> foreign ap_tenantId ctx (policies d') = foreign ap_tenantId ctx (policies d)
     \<and> foreign rr_tenantId ctx (requests d') = foreign rr_tenantId ctx (requests d)
     \<and> foreign ad_tenantId ctx (decision_rows d') = foreign ad_tenantId ctx (decision_rows d)
     \<and> foreign aa_tenantId ctx (attestations d') = foreign aa_tenantId ctx (attestations d)
     \<and> foreign ex_tenantId ctx (executions d') = foreign ex_tenantId ctx (executions d)
     \<and> foreign at_tenantId ctx (attempts d') = foreign at_tenantId ctx (attempts d)
     \<and> foreign cc_tenantId ctx (candidates d') = foreign cc_tenantId ctx (candidates d)
     \<and> foreign wr_tenantId ctx (receipts d') = foreign wr_tenantId ctx (receipts d)
     \<and> foreign al_tenantId ctx (alerts d') = foreign al_tenantId ctx (alerts d)
     \<and> foreign ae_tenantId ctx (audits d') = foreign ae_tenantId ctx (audits d)
     \<and> foreign mr_tenantId ctx (mutations d') = foreign mr_tenantId ctx (mutations d)
     \<and> foreign ck_tenantId ctx (checkpoints d') = foreign ck_tenantId ctx (checkpoints d)"

lemma foreign_update: "update_own tn ctx p f rs = Inr (n, rs') \<Longrightarrow> foreign tn ctx rs' = foreign tn ctx rs"
  unfolding foreign_def by (rule update_own_foreign)

lemma foreign_append: "tn r = cx_tenant ctx \<Longrightarrow> foreign tn ctx (rs @ [r]) = foreign tn ctx rs"
  by (simp add: foreign_def)

lemma isolated_insert_request:
  assumes "insert_request ctx r d = Inr (x, d')"
  shows "isolated ctx d d'"
proof -
  from assms obtain r' where "request_insert ctx d r = Inr r'" and d': "d' = d\<lparr>requests := requests d @ [r']\<rparr>"
    by (auto simp: insert_request_def split: sum.splits)
  then have "rr_tenantId r' = cx_tenant ctx"
    by (auto simp: request_insert_def Let_def split: if_splits)
  then show ?thesis by (simp add: d' isolated_def foreign_append)
qed

interpretation isolated_db: repositories "isolated ctx" ctx
proof (unfold_locales, goal_cases)
  case (4 r)
  show ?case by (rule stepsI) (rule isolated_insert_request)
next
  case (3 p f)
  show ?case by (rule stepsI)
    (auto simp: update_requests_def isolated_def foreign_update split: sum.splits)
next
  case (14 pe fe)
  show ?case by (rule stepsI)
    (auto simp: update_executions_def isolated_def foreign_update split: sum.splits if_splits)
next
  case (22 px fx)
  show ?case by (rule stepsI)
    (auto simp: update_alerts_def isolated_def foreign_update split: sum.splits)
qed (simp add: isolated_def, simp add: isolated_def,
    (rule stepsI, auto simp: statement_defs isolated_def foreign_update foreign_append Let_def
      split: sum.splits if_splits)+)

subsection \<open>Reachable databases\<close>

text \<open>
  The databases the operations produce from one without requests, in any order and with any
  transaction contexts: every tenant, the web role and the worker, any clock readings; and with
  installations provisioned or reactivated at any time.
\<close>

lemma provisioning_kept: "only_installations d d' \<Longrightarrow> kept d d'"
  by (rule kept_same, simp add: only_installations_def same_tables_def) (cases d; cases d'; simp)

inductive reachable :: "db \<Rightarrow> bool" where
  init: "requests d = [] \<Longrightarrow> reachable d"
| step: "reachable d \<Longrightarrow> repository_step ctx d d' \<Longrightarrow> reachable d'"
| provisioned: "reachable d \<Longrightarrow> only_installations d d' \<Longrightarrow> reachable d'"

lemma reachable_inv: "reachable d \<Longrightarrow> db_inv d"
proof (induction rule: reachable.induct)
  case (init d)
  then show ?case by (simp add: db_inv_def)
next
  case (step d ctx d')
  then show ?case using kept_db.repository_step_within [of ctx d d'] by (simp add: kept_def)
next
  case (provisioned d d')
  then show ?case using provisioning_kept [of d d'] by (simp add: kept_def)
qed

lemma operations_kept: "(\<lambda>a b. \<exists>ctx. repository_step ctx a b)\<^sup>*\<^sup>* d d' \<Longrightarrow> kept d d'"
proof (induction rule: rtranclp_induct)
  case base
  show ?case by (rule kept_db.refl_R)
next
  case (step b c)
  then obtain ctx where "kept b c" using kept_db.repository_step_within by blast
  with step.IH show ?case by (rule kept_db.trans_R)
qed

text \<open>A run used in the witnesses: create, attest, approve, claim.\<close>

definition sample_db :: db where
  "sample_db = empty_db\<lparr>
     tenants := [\<lparr>tn_id = ''t1'', tn_status = T_active, tn_liveEnabled = False, tn_pendingDeleteAt = None\<rparr>],
     installations := [\<lparr>si_id = ''i1'', si_tenantId = ''t1'', si_stripeAccountId = ''acct_1'', si_environment = Env_test,
       si_status = I_active, si_onboardingCompletedAt = None, si_installedAt = 100, si_deauthorizedAt = None,
       si_lastLifecycleEventId = None, si_lastLifecycleEventType = None, si_lastLifecycleEventCreatedAt = None\<rparr>],
     users := [\<lparr>tu_id = ''u1'', tu_tenantId = ''t1'', tu_stripeUserId = ''usr_1'', tu_displayName = None,
        tu_stripeRoles = ''[]'', tu_approverEnabled = False, tu_lastVerifiedAt = 100, tu_createdAt = 100\<rparr>,
       \<lparr>tu_id = ''u2'', tu_tenantId = ''t1'', tu_stripeUserId = ''usr_2'', tu_displayName = None,
        tu_stripeRoles = ''[]'', tu_approverEnabled = True, tu_lastVerifiedAt = 100, tu_createdAt = 100\<rparr>]\<rparr>"

definition sample_att_row :: ApprovalAttestation where
  "sample_att_row = \<lparr>aa_id = ''a1'', aa_tenantId = ''t1'', aa_installationId = ''i1'', aa_requestId = sample_uuid,
     aa_approverUserId = ''u2'', aa_requestNonce = ''n1'', aa_stripeAccountId = ''acct_1'', aa_environment = Env_test,
     aa_resourceType = ''payment_intent'', aa_resourceId = ''pi_1'', aa_requestVersion = 0,
     aa_signedEnvelopeHash = replicate 32 0, aa_authorizationSnapshotHash = replicate 32 0, aa_verifiedAt = 1500,
     aa_consumeBefore = 5000, aa_hmacKeyVersion = ''v1'', aa_hmac = replicate 32 0, aa_createdAt = 1600\<rparr>"

definition sample_dec_row :: ApprovalDecisionRow where
  "sample_dec_row = \<lparr>ad_id = ''uuid-0'', ad_tenantId = ''t1'', ad_requestId = sample_uuid, ad_approverUserId = ''u2'',
     ad_approvalAttestationId = Some ''a1'', ad_decision = D_approve, ad_rejection = None,
     ad_stripeRolesSnapshot = ''[]'', ad_decidedAt = 1800\<rparr>"

definition sample_approved_row :: RefundRequest where
  "sample_approved_row = sample_request\<lparr>rr_workflowStatus := W_approved, rr_approvedAt := Some 1800, rr_version := 1\<rparr>"

definition sample_db_created :: db where
  "sample_db_created = sample_db\<lparr>requests := [sample_request]\<rparr>"

definition sample_db_attested :: db where
  "sample_db_attested = sample_db_created\<lparr>attestations := [sample_att_row]\<rparr>"

definition sample_db_approved :: db where
  "sample_db_approved = sample_db_attested\<lparr>requests := [sample_approved_row], decision_rows := [sample_dec_row],
     db_fresh := 1\<rparr>"

lemma sample_create: "createRefundRequest (sample_ctx True) sample_request sample_db = Inr (sample_request, sample_db_created)"
  by code_simp

lemma sample_attest:
  "persistApprovalAttestation (sample_ctx True) sample_att_row sample_db_created = Inr (sample_att_row, sample_db_attested)"
  by code_simp

lemma sample_decide:
  "repo_recordDecision (sample_ctx True) sample_dec_row 1800 sample_db_attested
     = Inr (\<lparr>dr_decision = sample_dec_row, becameApproved = True, becameRejected = False\<rparr>, sample_db_approved)"
  by code_simp

lemma sample_reachable: "reachable sample_db_approved"
proof -
  have "reachable sample_db" by (rule reachable.init) (simp add: sample_db_def empty_db_def)
  moreover have "new_request sample_request" by (simp add: new_request_def sample_request_def)
  ultimately have "reachable sample_db_created"
    using step_createRefundRequest [OF _ sample_create] by (blast intro: reachable.step)
  then have "reachable sample_db_attested"
    using step_persistApprovalAttestation [OF sample_attest] by (blast intro: reachable.step)
  then show ?thesis using step_repo_recordDecision [OF sample_decide] by (blast intro: reachable.step)
qed

text \<open>
  C3: the request invariant of the whole repository layer. In every reachable database, each
  request satisfies its status's row of \<open>request_inv\<close>: a payment guard is released exactly when
  the request is closed, an effect has not started before execution, a failed or stale request
  has its absence proven, a succeeded one its refund identified, and reconciliation has a safe
  boundary after the start of the execution.
\<close>

theorem reachable_request_invariant:
  assumes "reachable d" and "r \<in> set (requests d)"
  shows "request_inv r
    \<and> (rr_paymentGuardReleasedAt r \<noteq> None \<longleftrightarrow> terminal_status (rr_workflowStatus r))"
proof -
  have "request_inv r" using reachable_inv [OF assms(1)] assms(2) by (simp add: db_inv_def)
  then show ?thesis using request_inv_guard by blast
qed

theorem reachable_request_invariant_witness:
  "request_inv sample_approved_row \<and> rr_paymentGuardReleasedAt sample_approved_row = None"
  using reachable_request_invariant [OF sample_reachable, of sample_approved_row]
  by (simp add: sample_db_approved_def sample_approved_row_def sample_request_def)

text \<open>
  C4: nothing is executed without an attested approval by someone else. In every reachable
  database a request that is approved, executing, in reconciliation, succeeded or failed has a
  durable approval decision of its own tenant that consumed an attestation and whose approver is
  not the requester.
\<close>

theorem executed_requests_are_attested:
  assumes "reachable d" and "r \<in> set (requests d)"
    and "rr_workflowStatus r \<in> {W_approved, W_executing, W_reconciliation_required, W_succeeded, W_failed_terminal}"
  shows "\<exists>x \<in> set (decision_rows d). ad_requestId x = rr_id r \<and> ad_tenantId x = rr_tenantId r
     \<and> ad_decision x = D_approve \<and> ad_approvalAttestationId x \<noteq> None \<and> ad_approverUserId x \<noteq> rr_requesterUserId r"
  using reachable_inv [OF assms(1)] assms(2,3)
  by (auto simp: db_inv_def past_approval_row_def attested_approval_def)

theorem executed_requests_are_attested_witness:
  "rr_workflowStatus sample_approved_row = W_approved
   \<and> (\<exists>x \<in> set (decision_rows sample_db_approved). ad_approverUserId x \<noteq> rr_requesterUserId sample_approved_row)"
  using executed_requests_are_attested [OF sample_reachable, of sample_approved_row]
  by (auto simp: sample_db_approved_def sample_approved_row_def)

text \<open>
  C5: at most one open request per payment. In every reachable database two requests of one
  tenant, environment and payment whose guards are both held are the same request.
\<close>

theorem one_open_request_per_payment:
  assumes "reachable d" and "r \<in> set (requests d)" and "r' \<in> set (requests d)"
    and "rr_paymentGuardReleasedAt r = None" and "rr_paymentGuardReleasedAt r' = None"
    and "rr_tenantId r = rr_tenantId r'" and "rr_environment r = rr_environment r'"
    and "rr_paymentKey r = rr_paymentKey r'"
  shows "r = r'"
proof -
  have "inj_on payment_of (set (filter (\<lambda>r. rr_paymentGuardReleasedAt r = None) (requests d)))"
    using reachable_inv [OF assms(1)] by (simp add: db_inv_def distinct_map)
  from inj_onD [OF this, of r r'] show ?thesis using assms(2-8) by (simp add: payment_of_def)
qed

theorem one_open_request_per_payment_witness:
  "sample_approved_row = sample_request\<lparr>rr_workflowStatus := W_approved, rr_approvedAt := Some 1800, rr_version := 1\<rparr>"
  by (rule one_open_request_per_payment [OF sample_reachable])
    (simp_all add: sample_db_approved_def sample_approved_row_def sample_request_def)

text \<open>
  C6: history is never rewritten. Along any sequence of operations from a database that satisfies
  the invariant: decisions, attestations, audit events and mutation receipts are only appended;
  each request keeps its identity and financial snapshot, a released guard its release, and a
  closed request its status but for the correction of a success into a failure; each execution
  keeps its idempotency key and its first refund link, and a failed refund stays failed; alerts
  keep their payment protection.
\<close>

theorem operations_keep_history:
  assumes "db_inv d" and "(\<lambda>a b. \<exists>ctx. repository_step ctx a b)\<^sup>*\<^sup>* d d'"
  shows "history d d'"
  using operations_kept [OF assms(2)] assms(1) by (simp add: kept_def)

theorem operations_keep_history_witness: "history sample_db_created sample_db_approved"
proof -
  have "reachable sample_db_created"
    using step_createRefundRequest [OF _ sample_create] reachable.init [of sample_db]
    by (auto intro: reachable.step simp: new_request_def sample_request_def sample_db_def empty_db_def)
  then have inv: "db_inv sample_db_created" by (rule reachable_inv)
  have "(\<lambda>a b. \<exists>ctx. repository_step ctx a b)\<^sup>*\<^sup>* sample_db_created sample_db_approved"
    using step_persistApprovalAttestation [OF sample_attest] step_repo_recordDecision [OF sample_decide]
    by (blast intro: rtranclp.rtrancl_into_rtrancl)
  then show ?thesis by (rule operations_keep_history [OF inv])
qed

text \<open>
  C7: tenant isolation. Whatever sequence of repository operations a transaction of one tenant
  runs, with whatever arguments, identifiers of other tenants included, the rows of all other
  tenants in all fifteen tables are unchanged.
\<close>

theorem operations_are_isolated:
  assumes "(repository_step ctx)\<^sup>*\<^sup>* d d'"
  shows "isolated ctx d d'"
  using assms
proof (induction rule: rtranclp_induct)
  case base
  show ?case by (rule isolated_db.refl_R)
next
  case (step b c)
  then show ?case using isolated_db.trans_R isolated_db.repository_step_within by blast
qed

theorem operations_are_isolated_witness: "isolated (sample_ctx True) sample_db_attested sample_db_approved"
  by (rule operations_are_isolated, rule r_into_rtranclp, rule step_repo_recordDecision [OF sample_decide])

end
