(* ===== verification/Repository_Outcomes.thy ===== *)
theory Repository_Outcomes
  imports Repository_Theorems
begin

text \<open>
  What single repository operations do on every branch: compare-and-set updates hit at most once,
  expiry is bounded and complete, freezing leaves no active request, an applied observation is
  never refused by the database, and an external refund freezes its payment for good.
\<close>

lemma list_all2_right: "list_all2 P xs ys \<Longrightarrow> y \<in> set ys \<Longrightarrow> \<exists>x \<in> set xs. P x y"
  by (induction rule: list_all2_induct) auto

subsection \<open>Compare-and-set updates\<close>

lemma update_requests_cases:
  assumes "update_requests ctx p f d = Inr (n, d')"
  shows "n = length (filter (\<lambda>r. rr_tenantId r = cx_tenant ctx \<and> p r) (requests d))"
    and "d' = d\<lparr>requests := requests d'\<rparr>"
    and "list_all2 (\<lambda>r r'. if rr_tenantId r = cx_tenant ctx \<and> p r then request_update ctx d r (f r) = Inr r' else r' = r)
      (requests d) (requests d')"
proof -
  from assms obtain rs where d': "d' = d\<lparr>requests := rs\<rparr>"
    and u: "update_own rr_tenantId ctx p (\<lambda>r. request_update ctx d r (f r)) (requests d) = Inr (n, rs)"
    by (auto simp: update_requests_def split: sum.splits)
  from u have n: "n = length (filter (\<lambda>r. rr_tenantId r = cx_tenant ctx \<and> p r) (requests d))"
    and l: "list_all2 (\<lambda>r r'. if rr_tenantId r = cx_tenant ctx \<and> p r
      then request_update ctx d r (f r) = Inr r' \<and> rr_tenantId r' = cx_tenant ctx else r' = r) (requests d) rs"
    by (simp_all add: update_own_Inr)
  show "n = length (filter (\<lambda>r. rr_tenantId r = cx_tenant ctx \<and> p r) (requests d))" by (rule n)
  show "d' = d\<lparr>requests := requests d'\<rparr>" by (simp add: d')
  show "list_all2 (\<lambda>r r'. if rr_tenantId r = cx_tenant ctx \<and> p r then request_update ctx d r (f r) = Inr r' else r' = r)
      (requests d) (requests d')"
    unfolding d' using l by (auto elim!: list_all2_mono split: if_splits)
qed

lemma update_requests_hit:
  assumes "update_requests ctx p f d = Inr (n, d')" and "n \<noteq> 0"
  obtains r where "r \<in> set (requests d)" and "rr_tenantId r = cx_tenant ctx" and "p r"
    and "stamped ctx r (f r) \<in> set (requests d')"
proof -
  from update_requests_cases(1) [OF assms(1)] assms(2)
  obtain r where r: "r \<in> set (requests d)" "rr_tenantId r = cx_tenant ctx" "p r"
    by (auto simp: filter_empty_conv)
  from r(1) obtain i where "i < length (requests d)" "requests d ! i = r" by (auto simp: in_set_conv_nth)
  with update_requests_cases(3) [OF assms(1)] r
  have "requests d' ! i = stamped ctx r (f r)" "i < length (requests d')"
    by (auto simp: list_all2_conv_all_nth request_update_Inr)
  then have "stamped ctx r (f r) \<in> set (requests d')" by (metis nth_mem)
  with r that show ?thesis by blast
qed

lemma update_requests_row:
  assumes "update_requests ctx p f d = Inr (n, d')" and "r' \<in> set (requests d')"
  obtains r where "r \<in> set (requests d)"
    and "if rr_tenantId r = cx_tenant ctx \<and> p r then request_update ctx d r (f r) = Inr r' else r' = r"
proof -
  from assms(2) obtain i where "i < length (requests d')" "requests d' ! i = r'" by (auto simp: in_set_conv_nth)
  moreover from this update_requests_cases(3) [OF assms(1)]
  have "requests d ! i \<in> set (requests d)" "if rr_tenantId (requests d ! i) = cx_tenant ctx \<and> p (requests d ! i)
      then request_update ctx d (requests d ! i) (f (requests d ! i)) = Inr (requests d' ! i)
      else requests d' ! i = requests d ! i"
    by (auto simp: list_all2_conv_all_nth)
  ultimately show ?thesis using that by blast
qed

lemma map_rows_id: "map_rows (\<lambda>r. if p r then g r else Inr r) rs = Inr rs" if "\<And>r. r \<in> set rs \<Longrightarrow> \<not> p r"
  using that by (induction rs) auto

lemma update_requests_miss:
  assumes "\<And>r. r \<in> set (requests d) \<Longrightarrow> rr_tenantId r = cx_tenant ctx \<Longrightarrow> \<not> p r"
  shows "update_requests ctx p f d = Inr (0, d)"
proof -
  have "update_own rr_tenantId ctx p (\<lambda>r. request_update ctx d r (f r)) (requests d) = Inr (0, requests d)"
    using assms unfolding update_own_Inr by (auto simp: filter_empty_conv list_all2_conv_all_nth)
  then show ?thesis by (simp add: update_requests_def)
qed

text \<open>An update that makes its own condition false does not hit again.\<close>

lemma update_requests_once:
  assumes "update_requests ctx p f d = Inr (n, d')" and "cx_tenant ctx' = cx_tenant ctx"
    and "\<And>r. p r \<Longrightarrow> \<not> q (stamped ctx r (f r))" and "\<And>r. q r \<Longrightarrow> p r"
  shows "update_requests ctx' q g d' = Inr (0, d')"
proof (rule update_requests_miss)
  fix r' assume r': "r' \<in> set (requests d')" "rr_tenantId r' = cx_tenant ctx'"
  from update_requests_row [OF assms(1) r'(1)] obtain r where r: "r \<in> set (requests d)"
    "if rr_tenantId r = cx_tenant ctx \<and> p r then request_update ctx d r (f r) = Inr r' else r' = r" by blast
  show "\<not> q r'"
  proof (cases "rr_tenantId r = cx_tenant ctx \<and> p r")
    case True
    with r(2) have "r' = stamped ctx r (f r)" by (simp add: request_update_Inr)
    then show ?thesis using True assms(3) by blast
  next
    case False
    with r(2) have "r' = r" by simp
    then show ?thesis using False r'(2) assms(2,4) by metis
  qed
qed

lemma claimExecution_hit:
  assumes "claimExecution ctx i now d = Inr (Some r, d')"
  shows "d' = d\<lparr>requests := requests d'\<rparr>"
    and "\<exists>q \<in> set (requests d). rr_id q = i \<and> rr_tenantId q = cx_tenant ctx \<and> rr_workflowStatus q = W_approved
       \<and> rr_effectState q = E_not_started \<and> executable_scope d q"
    and "\<exists>q \<in> set (requests d'). rr_id q = i \<and> rr_workflowStatus q = W_executing \<and> rr_executionStartedAt q = Some now"
    and "cx_tenant ctx' = cx_tenant ctx \<Longrightarrow> claimExecution ctx' i now' d' = Inr (None, d')"
proof -
  let ?p = "\<lambda>r. rr_id r = i \<and> rr_tenantId r = cx_tenant ctx \<and> rr_workflowStatus r = W_approved
     \<and> rr_effectState r = E_not_started \<and> rr_paymentGuardReleasedAt r = None
     \<and> non_live (rr_environment r) \<and> executable_scope d r"
  let ?f = "\<lambda>r. r\<lparr>rr_workflowStatus := W_executing, rr_executionStartedAt := Some now, rr_version := rr_version r + 1\<rparr>"
  from assms have u: "update_requests ctx ?p ?f d = Inr (1, d')"
    by (auto simp: claimExecution_def bind_tx_Inr split: if_splits)
  show d': "d' = d\<lparr>requests := requests d'\<rparr>" by (rule update_requests_cases(2) [OF u])
  from update_requests_hit [OF u] obtain q where q: "q \<in> set (requests d)" "?p q" "stamped ctx q (?f q) \<in> set (requests d')"
    by (metis one_neq_zero)
  then show "\<exists>q \<in> set (requests d). rr_id q = i \<and> rr_tenantId q = cx_tenant ctx \<and> rr_workflowStatus q = W_approved
       \<and> rr_effectState q = E_not_started \<and> executable_scope d q" by blast
  show "\<exists>q \<in> set (requests d'). rr_id q = i \<and> rr_workflowStatus q = W_executing \<and> rr_executionStartedAt q = Some now"
    using q(2) by (intro bexI [OF _ q(3)]) simp
  have scope: "executable_scope d' = executable_scope d" by (subst d') (simp add: executable_scope_def fun_eq_iff)
  assume t: "cx_tenant ctx' = cx_tenant ctx"
  have "update_requests ctx' (\<lambda>r. rr_id r = i \<and> rr_tenantId r = cx_tenant ctx' \<and> rr_workflowStatus r = W_approved
     \<and> rr_effectState r = E_not_started \<and> rr_paymentGuardReleasedAt r = None
     \<and> non_live (rr_environment r) \<and> executable_scope d' r) g d' = Inr (0, d')" for g
    by (rule update_requests_once [OF u t]) (auto simp: scope t)
  then show "claimExecution ctx' i now' d' = Inr (None, d')"
    by (simp add: claimExecution_def bind_tx_def)
qed

lemma markEffectPossible_hit:
  assumes "markEffectPossible ctx i d = Inr (True, d')"
  shows "d' = d\<lparr>requests := requests d'\<rparr>"
    and "\<exists>q \<in> set (requests d'). rr_id q = i \<and> rr_tenantId q = cx_tenant ctx \<and> rr_workflowStatus q = W_executing
       \<and> rr_effectState q = E_possible"
    and "cx_tenant ctx' = cx_tenant ctx \<Longrightarrow> markEffectPossible ctx' i d' = Inr (False, d')"
proof -
  let ?p = "\<lambda>r. rr_id r = i \<and> rr_tenantId r = cx_tenant ctx \<and> rr_workflowStatus r = W_executing
          \<and> rr_effectState r \<in> {E_not_started, E_absence_proven}"
  let ?f = "\<lambda>r. r\<lparr>rr_effectState := E_possible, rr_version := rr_version r + 1\<rparr>"
  from assms have u: "update_requests ctx ?p ?f d = Inr (1, d')"
    by (auto simp: markEffectPossible_def bind_tx_Inr)
  show "d' = d\<lparr>requests := requests d'\<rparr>" by (rule update_requests_cases(2) [OF u])
  from update_requests_hit [OF u] obtain q where q: "?p q" "stamped ctx q (?f q) \<in> set (requests d')"
    by (metis one_neq_zero)
  then show "\<exists>q \<in> set (requests d'). rr_id q = i \<and> rr_tenantId q = cx_tenant ctx \<and> rr_workflowStatus q = W_executing
       \<and> rr_effectState q = E_possible"
    by (intro bexI [OF _ q(2)]) simp
  assume t: "cx_tenant ctx' = cx_tenant ctx"
  have "update_requests ctx' (\<lambda>r. rr_id r = i \<and> rr_tenantId r = cx_tenant ctx' \<and> rr_workflowStatus r = W_executing
          \<and> rr_effectState r \<in> {E_not_started, E_absence_proven}) ?f d' = Inr (0, d')"
    by (rule update_requests_once [OF u t]) (auto simp: t)
  then show "markEffectPossible ctx' i d' = Inr (False, d')"
    by (simp add: markEffectPossible_def bind_tx_def)
qed


definition sample_db_executing :: db where
  "sample_db_executing = sample_db_approved\<lparr>requests := [sample_approved_row\<lparr>rr_workflowStatus := W_executing,
     rr_executionStartedAt := Some 1900, rr_version := 2\<rparr>]\<rparr>"

lemma sample_claim:
  "claimExecution (sample_ctx False) sample_uuid 1900 sample_db_approved
     = Inr (Some (sample_approved_row\<lparr>rr_workflowStatus := W_executing, rr_executionStartedAt := Some 1900,
         rr_version := 2\<rparr>), sample_db_executing)"
  by code_simp


subsection \<open>Payments protected by an external refund\<close>

definition active_status :: "WorkflowStatus \<Rightarrow> bool" where
  "active_status w \<longleftrightarrow> w \<in> {W_pending_approval, W_approved, W_executing}"

type_synonym payment_id = "string \<times> string \<times> StripeEnvironment \<times> string"

definition request_payment :: "RefundRequest \<Rightarrow> payment_id" where
  "request_payment r = (rr_tenantId r, rr_installationId r, rr_environment r, rr_paymentKey r)"

definition alert_payment :: "ExternalRefundAlert \<Rightarrow> payment_id" where
  "alert_payment a = (al_tenantId a, al_installationId a, al_environment a, al_paymentKey a)"

text \<open>An unreconciled alert on the payment and no request of it that could still be paid out.\<close>

definition frozen_payment :: "payment_id \<Rightarrow> db \<Rightarrow> bool" where
  "frozen_payment s d \<longleftrightarrow> (\<exists>a \<in> set (alerts d). alert_payment a = s \<and> al_reconciledAt a = None)
     \<and> (\<forall>r \<in> set (requests d). request_payment r = s \<longrightarrow> \<not> active_status (rr_workflowStatus r))"

definition stays_frozen :: "db \<Rightarrow> db \<Rightarrow> bool" where
  "stays_frozen d d' \<longleftrightarrow> (\<forall>s. frozen_payment s d \<longrightarrow> frozen_payment s d')"

lemma same_snapshot_payment: "same_snapshot r' r \<Longrightarrow> request_payment r' = request_payment r"
  by (simp add: same_snapshot_def request_payment_def)

lemma frozen_not_active:
  assumes "frozen_payment s d" and "trg_external_payment_protection d r = Inr ()" and "request_payment r = s"
  shows "\<not> active_status (rr_workflowStatus r)"
proof -
  have "blocking_alert d r"
    using assms(1,3) by (auto simp: frozen_payment_def blocking_alert_def alert_payment_def request_payment_def)
  then show ?thesis using assms(2) by (auto simp: trg_external_payment_protection_def active_status_def)
qed

lemma stamped_payment [simp]: "request_payment (stamped ctx r n) = request_payment n"
  by (simp add: request_payment_def stamped_def)

lemma stays_frozen_update:
  assumes "update_requests ctx p f d = Inr (n, d')"
  shows "stays_frozen d d'"
  unfolding stays_frozen_def
proof (intro allI impI)
  fix s assume f: "frozen_payment s d"
  have "\<not> active_status (rr_workflowStatus r')" if r': "r' \<in> set (requests d')" "request_payment r' = s" for r'
  proof -
    from update_requests_row [OF assms r'(1)] obtain r where r: "r \<in> set (requests d)"
      "if rr_tenantId r = cx_tenant ctx \<and> p r then request_update ctx d r (f r) = Inr r' else r' = r" by blast
    show ?thesis
    proof (cases "rr_tenantId r = cx_tenant ctx \<and> p r")
      case True
      with r(2) have "r' = stamped ctx r (f r)" "trg_external_payment_protection d (f r) = Inr ()"
        by (simp_all add: request_update_Inr)
      with r'(2) show ?thesis using frozen_not_active [OF f, of "f r"] by simp
    next
      case False
      with r r'(2) f show ?thesis by (auto simp: frozen_payment_def)
    qed
  qed
  moreover have "alerts d' = alerts d" by (subst update_requests_cases(2) [OF assms]) simp
  ultimately show "frozen_payment s d'" using f by (auto simp: frozen_payment_def)
qed

lemma stays_frozen_insert:
  assumes "insert_request ctx r d = Inr (x, d')"
  shows "stays_frozen d d'"
proof -
  from assms obtain r' where i: "request_insert ctx d r = Inr r'" and d': "d' = d\<lparr>requests := requests d @ [r']\<rparr>"
    by (auto simp: insert_request_def split: sum.splits)
  from i have "trg_external_payment_protection d r = Inr ()" "rr_workflowStatus r' = rr_workflowStatus r"
    "request_payment r' = request_payment r"
    by (auto simp: request_insert_def request_payment_def Let_def split: if_splits)
  then show ?thesis using frozen_not_active [of _ d r] unfolding stays_frozen_def d'
    by (auto simp: frozen_payment_def)
qed

lemma stays_frozen_alerts:
  assumes "update_alerts ctx p f d = Inr (n, d')"
  shows "stays_frozen d d'"
proof -
  from assms obtain rs where d': "d' = d\<lparr>alerts := rs\<rparr>"
    and u: "update_own al_tenantId ctx p (\<lambda>r. bind_err (trg_preserve_external_refund_protection r (f r)) (\<lambda>_.
           bind_err (raise_when (\<not> alert_checks (f r)) ''external_refund_alerts check constraint'')
             (\<lambda>_. Inr (f r)))) (alerts d) = Inr (n, rs)"
    by (auto simp: update_alerts_def split: sum.splits)
  have "list_all2 (\<lambda>a a'. same_protection a' a) (alerts d) rs"
    using update_own_rows [OF u]
    by (auto elim!: list_all2_mono simp: trg_preserve_external_refund_protection_def same_protection_def)
  then have "\<exists>a' \<in> set rs. alert_payment a' = alert_payment a \<and> al_reconciledAt a' = al_reconciledAt a"
    if "a \<in> set (alerts d)" for a
    using that by (induction rule: list_all2_induct) (auto simp: alert_payment_def same_protection_def)
  then show ?thesis unfolding stays_frozen_def d' frozen_payment_def by fastforce
qed

lemma stays_frozen_same:
  "requests d' = requests d \<Longrightarrow> set (alerts d) \<subseteq> set (alerts d') \<Longrightarrow> stays_frozen d d'"
  unfolding stays_frozen_def frozen_payment_def by (metis subsetD)

interpretation frozen_db: repositories stays_frozen ctx
proof (unfold_locales, goal_cases)
  case (3 p f)
  show ?case by (rule stepsI) (rule stays_frozen_update)
next
  case (4 r)
  show ?case by (rule stepsI) (rule stays_frozen_insert)
next
  case (22 px fx)
  show ?case by (rule stepsI) (rule stays_frozen_alerts)
qed (simp add: stays_frozen_def, simp add: stays_frozen_def,
    (rule stepsI, rule stays_frozen_same,
      (auto simp: statement_defs update_executions_def Let_def split: sum.splits if_splits)[1],
      (auto simp: statement_defs update_executions_def Let_def split: sum.splits if_splits)[1])+)

subsection \<open>Freezing the active requests\<close>

lemma filter_length_all2: "list_all2 (\<lambda>x y. P x \<longleftrightarrow> Q y) xs ys \<Longrightarrow> length (filter P xs) = length (filter Q ys)"
  by (induction rule: list_all2_induct) auto

lemma update_requests_inv:
  assumes "db_inv d" and "update_requests ctx p f d = Inr (n, d')" and "request_op p f"
  shows "db_inv d'"
  using stepsD [OF kept_db.upd_requests [OF assms(3)] assms(2)] assms(1) by (simp add: kept_def)

lemma settle_requests_steps3:
  assumes "settle_requests ctx scope t e d = Inr (c, d')"
  obtains d1 d2 n1 n2 n3 where
    "update_requests ctx (\<lambda>r. scope r \<and> stale_where r) (close_request W_stale t) d = Inr (n1, d1)"
    "update_requests ctx (\<lambda>r. scope r \<and> terminal_where r) (close_request W_failed_terminal t) d1 = Inr (n2, d2)"
    "update_requests ctx (\<lambda>r. scope r \<and> reconciliation_where r) require_reconciliation d2 = Inr (n3, d')"
  using assms by (auto simp: settle_requests_def bind_tx_Inr split: if_splits)

text \<open>After an update with a condition that its data falsify, no row of the tenant satisfies the condition.\<close>

lemma update_requests_clears:
  assumes "update_requests ctx p f d = Inr (n, d')" and "\<And>r. \<not> p (stamped ctx r (f r))"
    and "r' \<in> set (requests d')" and "rr_tenantId r' = cx_tenant ctx"
  shows "\<not> p r'"
proof -
  from update_requests_row [OF assms(1,3)] obtain r where
    "if rr_tenantId r = cx_tenant ctx \<and> p r then request_update ctx d r (f r) = Inr r' else r' = r" by blast
  then show ?thesis using assms(2,4) by (cases "rr_tenantId r = cx_tenant ctx \<and> p r") (auto simp: request_update_Inr)
qed

text \<open>An update whose data never satisfy a condition keeps it false.\<close>

lemma update_requests_keeps_false:
  assumes "update_requests ctx p f d = Inr (n, d')" and "\<And>r. \<not> q (stamped ctx r (f r))"
    and "\<And>r. r \<in> set (requests d) \<Longrightarrow> \<not> q r" and "r' \<in> set (requests d')"
  shows "\<not> q r'"
proof -
  from update_requests_row [OF assms(1,4)] obtain r where "r \<in> set (requests d)"
    "if rr_tenantId r = cx_tenant ctx \<and> p r then request_update ctx d r (f r) = Inr r' else r' = r" by blast
  then show ?thesis using assms(2,3) by (cases "rr_tenantId r = cx_tenant ctx \<and> p r") (auto simp: request_update_Inr)
qed

lemma settle_ops:
  "request_op (\<lambda>r. scope r \<and> stale_where r) (close_request W_stale t)"
  "request_op (\<lambda>r. scope r \<and> terminal_where r) (close_request W_failed_terminal t)"
  "request_op (\<lambda>r. scope r \<and> reconciliation_where r) require_reconciliation"
  by (rule request_op_weaken [OF op_stale], simp, rule request_op_weaken [OF op_fail], simp add: terminal_where_def,
      rule request_op_weaken [OF op_reconcile], simp add: reconciliation_where_def)

lemma settle_requests_frozen:
  assumes inv: "db_inv d" and run: "settle_requests ctx scope t e d = Inr (c, d')"
    and r: "r \<in> set (requests d')" "rr_tenantId r = cx_tenant ctx" "scope r"
  shows "\<not> active_status (rr_workflowStatus r)"
proof -
  from settle_requests_steps3 [OF run] obtain d1 d2 n1 n2 n3 where
    u1: "update_requests ctx (\<lambda>r. scope r \<and> stale_where r) (close_request W_stale t) d = Inr (n1, d1)" and
    u2: "update_requests ctx (\<lambda>r. scope r \<and> terminal_where r) (close_request W_failed_terminal t) d1 = Inr (n2, d2)" and
    u3: "update_requests ctx (\<lambda>r. scope r \<and> reconciliation_where r) require_reconciliation d2 = Inr (n3, d')" .
  note i1 = update_requests_inv [OF inv u1 settle_ops(1)]
  note i2 = update_requests_inv [OF i1 u2 settle_ops(2)]
  note i3 = update_requests_inv [OF i2 u3 settle_ops(3)]
  let ?waiting = "\<lambda>r. rr_tenantId r = cx_tenant ctx \<and> scope r \<and> rr_workflowStatus r \<in> {W_pending_approval, W_approved}"
  let ?safe = "\<lambda>r. rr_tenantId r = cx_tenant ctx \<and> scope r \<and> terminal_where r"
  have w1: "\<not> ?waiting r" if "r \<in> set (requests d1)" for r
  proof
    assume w: "?waiting r"
    have "request_inv r" using i1 that by (simp add: db_inv_def)
    with w have "stale_where r" by (auto simp: request_inv_def stale_where_def)
    with update_requests_clears [OF u1 _ that] w show False by (auto simp: stale_where_def close_request_def)
  qed
  have w2: "\<not> ?waiting r" if "r \<in> set (requests d2)" for r
    by (rule update_requests_keeps_false [OF u2 _ w1 that]) (auto simp: close_request_def)
  have w3: "\<not> ?waiting r" if "r \<in> set (requests d')" for r
    by (rule update_requests_keeps_false [OF u3 _ w2 that]) (auto simp: require_reconciliation_def)
  have s2: "\<not> ?safe r" if "r \<in> set (requests d2)" for r
    using update_requests_clears [OF u2 _ that] by (auto simp: terminal_where_def close_request_def)
  have s3: "\<not> ?safe r" if "r \<in> set (requests d')" for r
    by (rule update_requests_keeps_false [OF u3 _ s2 that]) (auto simp: terminal_where_def require_reconciliation_def)
  have a3: "\<not> (scope r \<and> reconciliation_where r)"
    by (rule update_requests_clears [OF u3 _ r(1,2)]) (auto simp: reconciliation_where_def require_reconciliation_def)
  have "request_inv r" using i3 r(1) by (simp add: db_inv_def)
  then have "terminal_where r \<or> reconciliation_where r" if "rr_workflowStatus r = W_executing"
    using that by (cases "rr_effectState r") (auto simp: request_inv_def terminal_where_def reconciliation_where_def)
  then show ?thesis using w3 [OF r(1)] s3 [OF r(1)] a3 r(2,3) by (auto simp: active_status_def)
qed

lemma update_requests_tables:
  assumes "update_requests ctx p f d = Inr (n, d')"
  shows "alerts d' = alerts d" "tenants d' = tenants d" "installations d' = installations d"
    "executions d' = executions d" "attempts d' = attempts d"
  by (subst update_requests_cases(2) [OF assms], simp)+

lemma settle_requests_alerts: "settle_requests ctx scope t e d = Inr (c, d') \<Longrightarrow> alerts d' = alerts d"
  by (erule settle_requests_steps3) (simp add: update_requests_tables(1))

lemma observeExternalRefund_frozen:
  assumes inv: "db_inv d" and run: "observeExternalRefund ctx input d = Inr ((a, tr), d')"
  shows "frozen_payment (alert_payment a) d' \<and> al_stripeRefundId a = eo_stripeRefundId input
    \<and> al_paymentKey a = eo_paymentKey input \<and> al_tenantId a = cx_tenant ctx"
proof -
  from run obtain al d1 env observed e c created ov where
    ins: "insert_alert_skip ctx al d = Inr ((), d1)" and
    a: "first_row (\<lambda>a. al_tenantId a = cx_tenant ctx \<and> al_installationId a = eo_installationId input
        \<and> al_stripeRefundId a = eo_stripeRefundId input) (alerts d1) = Some a" and
    ag: "alert_agrees ctx a input env created ov" and
    settle: "settle_requests ctx (payment_scope (eo_installationId input) env (eo_paymentKey input)) observed e d1 = Inr (c, d')"
    by (auto simp: observeExternalRefund_def bind_tx_Inr Let_def split: option.splits if_splits prod.splits)
  have i1: "db_inv d1" using stepsD [OF kept_db.ins_alert ins] inv by (simp add: kept_def)
  have "a \<in> set (alerts d')" using first_row_Some [OF a] settle_requests_alerts [OF settle] by simp
  moreover have "\<not> active_status (rr_workflowStatus r)"
    if "r \<in> set (requests d')" "request_payment r = alert_payment a" for r
    using settle_requests_frozen [OF i1 settle that(1)] that(2) ag
    by (auto simp: request_payment_def alert_payment_def alert_agrees_def payment_scope_def)
  ultimately show ?thesis using ag by (auto simp: frozen_payment_def alert_agrees_def)
qed

text \<open>
  C30: an external refund freezes its payment for good. Once \<open>observeExternalRefund\<close> has committed
  on a reachable database, no request of that payment is pending, approved or executing, and none
  ever is again, whatever operations any session runs afterwards: new requests for the payment
  are refused and open ones can no longer be approved, claimed or resumed.
\<close>

theorem external_refund_freezes_payment:
  assumes "reachable d" and "observeExternalRefund ctx input d = Inr ((a, tr), d')"
    and "(\<lambda>x y. \<exists>c. repository_step c x y)\<^sup>*\<^sup>* d' d''"
    and "r \<in> set (requests d'')" and "rr_tenantId r = cx_tenant ctx" and "rr_installationId r = al_installationId a"
    and "rr_environment r = al_environment a" and "rr_paymentKey r = eo_paymentKey input"
  shows "rr_workflowStatus r \<notin> {W_pending_approval, W_approved, W_executing}"
proof -
  note fr = observeExternalRefund_frozen [OF reachable_inv [OF assms(1)] assms(2)]
  from assms(3) have "stays_frozen d' d''"
  proof (induction rule: rtranclp_induct)
    case (step y z)
    then obtain c where "stays_frozen y z" using frozen_db.repository_step_within by blast
    with step.IH show ?case by (rule frozen_db.trans_R)
  qed (rule frozen_db.refl_R)
  with fr have "frozen_payment (alert_payment a) d''" unfolding stays_frozen_def by blast
  moreover have "request_payment r = alert_payment a"
    using assms(5-8) fr by (simp add: request_payment_def alert_payment_def)
  ultimately show ?thesis using assms(4) by (auto simp: frozen_payment_def active_status_def)
qed

definition sample_observation :: ExternalRefundObservationInput where
  "sample_observation = \<lparr>eo_installationId = ''i1'', eo_stripeRefundId = ''re_9'', eo_stripeRefundCreatedAt = Some 1850,
     eo_paymentKey = ''pi_1'', eo_amountMinor = 500, eo_currency = ''eur'', eo_classification = AC_external,
     eo_observedAt = Some 1950\<rparr>"

definition sample_alert :: ExternalRefundAlert where
  "sample_alert = \<lparr>al_id = ''uuid-1'', al_tenantId = ''t1'', al_installationId = ''i1'', al_environment = Env_test,
     al_stripeRefundId = ''re_9'', al_stripeRefundCreatedAt = 1850, al_paymentKey = ''pi_1'', al_amountMinor = 500,
     al_currency = ''eur'', al_classification = AC_external, al_status = AL_open, al_detectedAt = 1950,
     al_acknowledgedAt = None, al_acknowledgedByUserId = None, al_overlappedRequestId = None, al_reconciledAt = None\<rparr>"

definition sample_stale_row :: RefundRequest where
  "sample_stale_row = sample_approved_row\<lparr>rr_workflowStatus := W_stale, rr_effectState := E_absence_proven,
     rr_terminalAt := Some 1950, rr_paymentGuardReleasedAt := Some 1950, rr_version := 2\<rparr>"

definition sample_db_frozen :: db where
  "sample_db_frozen = sample_db_approved\<lparr>requests := [sample_stale_row], alerts := [sample_alert], db_fresh := 2\<rparr>"

lemma sample_observe:
  "observeExternalRefund (sample_ctx False) sample_observation sample_db_approved
     = Inr ((sample_alert, RQ_stale), sample_db_frozen)"
  by code_simp

theorem external_refund_freezes_payment_witness:
  "rr_workflowStatus sample_stale_row \<notin> {W_pending_approval, W_approved, W_executing}"
  by (rule external_refund_freezes_payment [OF sample_reachable sample_observe rtranclp.rtrancl_refl])
    (simp_all add: sample_db_frozen_def sample_stale_row_def sample_approved_row_def sample_request_def
      sample_ctx_def sample_alert_def sample_observation_def)

subsection \<open>Expiry\<close>

definition due :: "txctx \<Rightarrow> date \<Rightarrow> RefundRequest \<Rightarrow> bool" where
  "due ctx now r \<longleftrightarrow> rr_tenantId r = cx_tenant ctx \<and> rr_workflowStatus r = W_pending_approval
     \<and> rr_effectState r = E_not_started \<and> rr_expiresAt r \<le> now"

definition expired_row :: "date \<Rightarrow> RefundRequest \<Rightarrow> RefundRequest" where
  "expired_row now r = r\<lparr>rr_workflowStatus := W_expired, rr_terminalAt := Some now,
     rr_paymentGuardReleasedAt := Some now, rr_version := rr_version r + 1\<rparr>"

definition expiry_batch :: "txctx \<Rightarrow> date \<Rightarrow> int \<Rightarrow> db \<Rightarrow> RefundRequest list" where
  "expiry_batch ctx now limit d = take (nat limit) (sort_key rr_expiresAt (filter (due ctx now) (requests d)))"

lemma expiry_batch_facts:
  assumes "distinct (map rr_id (requests d))"
  shows "set (expiry_batch ctx now limit d) \<subseteq> {r \<in> set (requests d). due ctx now r}"
    and "distinct (expiry_batch ctx now limit d)"
    and "length (expiry_batch ctx now limit d) = min (nat limit) (length (filter (due ctx now) (requests d)))"
    and "r \<in> set (requests d) \<Longrightarrow>
      rr_id r \<in> rr_id ` set (expiry_batch ctx now limit d) \<longleftrightarrow> r \<in> set (expiry_batch ctx now limit d)"
proof -
  show sub: "set (expiry_batch ctx now limit d) \<subseteq> {r \<in> set (requests d). due ctx now r}"
    unfolding expiry_batch_def using set_take_subset by fastforce
  have "distinct (requests d)" using assms by (simp add: distinct_map)
  then show "distinct (expiry_batch ctx now limit d)" by (simp add: expiry_batch_def)
  show "length (expiry_batch ctx now limit d) = min (nat limit) (length (filter (due ctx now) (requests d)))"
    by (simp add: expiry_batch_def min.commute)
  show "r \<in> set (requests d) \<Longrightarrow>
      rr_id r \<in> rr_id ` set (expiry_batch ctx now limit d) \<longleftrightarrow> r \<in> set (expiry_batch ctx now limit d)"
    using assms sub by (auto simp: distinct_map dest: inj_onD)
qed

lemma expirePendingRequests_update:
  assumes "distinct (map rr_id (requests d))" and "expirePendingRequests ctx now limit d = Inr (n, d')"
  shows "1 \<le> limit" and "n = length (expiry_batch ctx now limit d)"
    and "list_all2 (\<lambda>r r'. r' = (if r \<in> set (expiry_batch ctx now limit d) then expired_row now r else r))
      (requests d) (requests d')"
proof -
  let ?b = "expiry_batch ctx now limit d" and ?ids = "map rr_id (expiry_batch ctx now limit d)"
  let ?p = "\<lambda>r. rr_tenantId r = cx_tenant ctx \<and> rr_id r \<in> set ?ids
             \<and> rr_workflowStatus r = W_pending_approval \<and> rr_effectState r = E_not_started"
  note facts = expiry_batch_facts [OF assms(1), where ctx = ctx and now = now and limit = limit]
  show "1 \<le> limit" using assms(2) by (auto simp: expirePendingRequests_def split: if_splits)
  have run: "(if ?ids = [] then return_tx 0 else update_requests ctx ?p (expired_row now)) d = Inr (n, d')"
    using assms(2) unfolding expirePendingRequests_def expiry_batch_def due_def expired_row_def
    by (auto simp: bind_tx_Inr split: if_splits)
  have key: "rr_tenantId r = cx_tenant ctx \<and> ?p r \<longleftrightarrow> r \<in> set ?b" if "r \<in> set (requests d)" for r
    using facts(1) facts(4) [OF that] by (auto simp: due_def)
  have u: "update_requests ctx ?p (expired_row now) d = Inr (n, d')"
  proof (cases "?ids = []")
    case True
    then show ?thesis using run by (simp add: update_requests_miss)
  qed (use run in simp)
  have "n = length (filter (\<lambda>r. r \<in> set ?b) (requests d))"
    unfolding update_requests_cases(1) [OF u] by (rule arg_cong [where f = length], rule filter_cong [OF refl], rule key)
  also have "\<dots> = card (set ?b)"
  proof -
    have "distinct (requests d)" using assms(1) by (simp add: distinct_map)
    then have "length (filter (\<lambda>r. r \<in> set ?b) (requests d)) = card {r \<in> set (requests d). r \<in> set ?b}"
      by (metis distinct_card distinct_filter set_filter)
    also have "{r \<in> set (requests d). r \<in> set ?b} = set ?b" using facts(1) by auto
    finally show ?thesis .
  qed
  finally show "n = length ?b" using facts(2) by (simp add: distinct_card)
  have st: "stamped ctx r (expired_row now r) = expired_row now r" for r
    by (simp add: stamped_def expired_row_def)
  show "list_all2 (\<lambda>r r'. r' = (if r \<in> set ?b then expired_row now r else r)) (requests d) (requests d')"
    using update_requests_cases(3) [OF u] key
    by (auto simp: list_all2_conv_all_nth request_update_Inr st split: if_splits)
qed

lemma expirePendingRequests_result:
  assumes di: "distinct (map rr_id (requests d))" and run: "expirePendingRequests ctx now limit d = Inr (n, d')"
  shows "int n \<le> limit"
    and "list_all2 (\<lambda>r r'. r' = r \<or> due ctx now r \<and> r' = expired_row now r) (requests d) (requests d')"
    and "int n < limit \<Longrightarrow> r' \<in> set (requests d') \<Longrightarrow> \<not> due ctx now r'"
    and "d' = d\<lparr>requests := requests d'\<rparr>"
proof -
  note u = expirePendingRequests_update [OF di run]
  note facts = expiry_batch_facts [OF di, where ctx = ctx and now = now and limit = limit]
  show "int n \<le> limit" using u(1,2) facts(3) by simp
  show "list_all2 (\<lambda>r r'. r' = r \<or> due ctx now r \<and> r' = expired_row now r) (requests d) (requests d')"
    using u(3) facts(1) by (auto simp: list_all2_conv_all_nth)
  show "d' = d\<lparr>requests := requests d'\<rparr>"
    using run update_requests_cases(2) by (auto simp: expirePendingRequests_def bind_tx_Inr split: if_splits)
  assume short: "int n < limit" and mem: "r' \<in> set (requests d')"
  have "nat limit > length (filter (due ctx now) (requests d))" using short u(2) facts(3) by simp
  then have all: "set (expiry_batch ctx now limit d) = {r \<in> set (requests d). due ctx now r}"
    by (simp add: expiry_batch_def)
  from mem u(3) obtain r where "r \<in> set (requests d)"
    "r' = (if r \<in> set (expiry_batch ctx now limit d) then expired_row now r else r)"
    by (blast dest: list_all2_right)
  with all show "\<not> due ctx now r'" by (auto simp: due_def expired_row_def split: if_splits)
qed

text \<open>
  a batch of expiry closes only requests of the tenant that are pending and due, at most as
  many as the limit, and reports their number; every other request is untouched; and a batch
  shorter than the limit means that no due request is left.
\<close>

lemma expirePendingRequests_batch:
  assumes "db_inv d" and "expirePendingRequests ctx now limit d = Inr (n, d')"
  shows "int n \<le> limit
    \<and> list_all2 (\<lambda>r r'. r' = r \<or> due ctx now r \<and> r' = expired_row now r) (requests d) (requests d')
    \<and> (int n < limit \<longrightarrow> (\<forall>r' \<in> set (requests d'). \<not> due ctx now r'))"
  using expirePendingRequests_result [OF _ assms(2)] assms(1) by (auto simp: db_inv_def)

definition sample_expired :: RefundRequest where
  "sample_expired = expired_row 9000000 sample_request"

lemma sample_expire:
  "expirePendingRequests (sample_ctx False) 9000000 10 sample_db_created
     = Inr (1, sample_db_created\<lparr>requests := [sample_expired]\<rparr>)"
  by code_simp

lemma sample_created_inv: "db_inv sample_db_created"
proof -
  have "reachable sample_db_created"
    using step_createRefundRequest [OF _ sample_create] reachable.init [of sample_db]
    by (auto intro: reachable.step simp: new_request_def sample_request_def sample_db_def empty_db_def)
  then show ?thesis by (rule reachable_inv)
qed

subsection \<open>Observations of a linked refund\<close>

lemma linked_row_accepted:
  assumes "shouldApplyRefundObservation (ex_stripeRefundStatus e) (ex_lastStripeEventCreatedAt e)
      (ii_stripeRefundStatus input) (ii_stripeEventCreatedAt input)"
    and "ex_stripeRefundId e \<in> {None, Some (ii_stripeRefundId input)}"
  shows "trg_preserve_first_refund_link e (linked_row input e) = Inr ()"
  using assms
  by (auto simp: trg_preserve_first_refund_link_def linked_row_def shouldApplyRefundObservation_def
      split: option.splits if_splits)

lemma markRefundIdentified_locked:
  assumes "[(r, e). r \<leftarrow> requests d, e \<leftarrow> executions d, ex_requestId e = rr_id r, ex_tenantId e = rr_tenantId r,
     rr_id r = ii_requestId input, rr_tenantId r = cx_tenant ctx] = [(r, e)]"
  shows "ex_stripeRefundId e \<notin> {None, Some (ii_stripeRefundId input)} \<Longrightarrow> markRefundIdentified ctx input d = Inr (False, d)"
    and "ex_stripeRefundId e \<in> {None, Some (ii_stripeRefundId input)} \<Longrightarrow>
      \<not> shouldApplyRefundObservation (ex_stripeRefundStatus e) (ex_lastStripeEventCreatedAt e)
        (ii_stripeRefundStatus input) (ii_stripeEventCreatedAt input) \<Longrightarrow> markRefundIdentified ctx input d = Inr (True, d)"
  unfolding markRefundIdentified_def by (auto simp: bind_tx_def assms split: if_splits)

text \<open>
  Observations of a linked refund converge. For a request with its execution, an observation
  of another refund is refused and changes nothing; a stale one (an older event, or a status the
  stored one outranks) is acknowledged and changes nothing; and one that is applied is never
  refused by the trigger that protects the first link, so the decision in the code and the rule in
  the database agree.
\<close>

lemma observations_converge:
  assumes "[(r, e). r \<leftarrow> requests d, e \<leftarrow> executions d, ex_requestId e = rr_id r, ex_tenantId e = rr_tenantId r,
     rr_id r = ii_requestId input, rr_tenantId r = cx_tenant ctx] = [(r, e)]"
  shows "if ex_stripeRefundId e \<notin> {None, Some (ii_stripeRefundId input)}
      then markRefundIdentified ctx input d = Inr (False, d)
      else if \<not> shouldApplyRefundObservation (ex_stripeRefundStatus e) (ex_lastStripeEventCreatedAt e)
          (ii_stripeRefundStatus input) (ii_stripeEventCreatedAt input)
      then markRefundIdentified ctx input d = Inr (True, d)
      else trg_preserve_first_refund_link e (linked_row input e) = Inr ()"
  using markRefundIdentified_locked [OF assms] linked_row_accepted [of e input] by simp

end
