(* ===== verification/Tenant_Transaction.thy ===== *)
theory Tenant_Transaction
  imports Db_Tables Complex_Main
begin

text \<open>
  \<open>packages/db/src/tenant-transaction.ts\<close>: the serializable transaction with its tenant setting
  and bounded retries. An attempt that the database aborts with a serialization conflict leaves
  the database as it was and is repeated; any other error is rethrown. The delay between attempts
  is a rational function of the random value; waiting itself has no effect on the database.
\<close>

definition assertTenantId :: "string \<Rightarrow> err + unit" where
  "assertTenantId tenantId = (if \<not> uuid_nocase tenantId then Inl (TypeError ''tenantId must be a UUID'') else Inr ())"

definition isRetryableTransactionError :: "err \<Rightarrow> bool" where
  "isRetryableTransactionError e \<longleftrightarrow> e = TransactionWriteConflict"

definition boundedBase :: "int \<Rightarrow> int" where
  "boundedBase failedAttempt = min (10 * 2 ^ nat (failedAttempt - 1)) 250"

definition transactionRetryDelayMilliseconds :: "int \<Rightarrow> rat \<Rightarrow> err + int" where
  "transactionRetryDelayMilliseconds failedAttempt randomValue =
     (if failedAttempt < 1 \<or> failedAttempt > 10
      then Inl (RangeError ''failedAttempt must be between 1 and 10'')
      else if randomValue < 0 \<or> randomValue \<ge> 1
      then Inl (RangeError ''randomValue must be between 0 (inclusive) and 1 (exclusive)'')
      else Inr (boundedBase failedAttempt + \<lfloor>of_int (boundedBase failedAttempt) * randomValue\<rfloor>))"

text \<open>The loop over attempts: the first attempt that does not conflict decides.\<close>

function run_attempts :: "(nat \<Rightarrow> bool) \<Rightarrow> int \<Rightarrow> 'a tx \<Rightarrow> int \<Rightarrow> 'a tx" where
  "run_attempts conflict maxAttempts operation attempt d =
     (if attempt > maxAttempts then Inl (TransactionRetryExhausted maxAttempts)
      else (case (if conflict (nat attempt) then Inl TransactionWriteConflict else operation d) of
          Inr r \<Rightarrow> Inr r
        | Inl e \<Rightarrow> if \<not> isRetryableTransactionError e then Inl e
            else run_attempts conflict maxAttempts operation (attempt + 1) d))"
  by pat_completeness auto
termination
  by (relation "measure (\<lambda>(_, m, _, a, _). nat (m + 1 - a))") auto

declare run_attempts.simps [simp del]

definition tenant_transaction :: "int \<Rightarrow> txctx \<Rightarrow> string \<Rightarrow> (txctx \<Rightarrow> 'a tx) \<Rightarrow> 'a tx" where
  "tenant_transaction maxAttempts ctx tenantId operation =
     bind_tx (lift_tx (assertTenantId tenantId)) (\<lambda>_.
     if maxAttempts < 1 \<or> maxAttempts > 10 then throw_tx (RangeError ''maxAttempts must be between 1 and 10'')
     else run_attempts (cx_conflict ctx) maxAttempts (operation (ctx\<lparr>cx_tenant := tenantId\<rparr>)) 1)"

text \<open>Every caller of the worker uses the default of three attempts.\<close>

definition withTenantTransaction :: "txctx \<Rightarrow> string \<Rightarrow> (txctx \<Rightarrow> 'a tx) \<Rightarrow> 'a tx" where
  "withTenantTransaction = tenant_transaction 3"

subsection \<open>Lemmas\<close>

lemma run_attempts_Inr: "run_attempts c m op a d = Inr r \<Longrightarrow> op d = Inr r"
  by (induction c m op a d rule: run_attempts.induct)
    (subst (asm) run_attempts.simps, auto split: if_splits sum.splits)

lemma run_attempts_commit:
  assumes "op d = Inr r" and "a \<le> k" and "k \<le> m" and "0 \<le> a" and "\<not> c (nat k)"
  shows "run_attempts c m op a d = Inr r"
  using assms
proof (induction c m op a d rule: run_attempts.induct)
  case (1 c m op a d)
  show ?case
  proof (cases "c (nat a)")
    case True
    with 1(6) have "a \<noteq> k" by auto
    with 1(3) have "a + 1 \<le> k" by simp
    with True 1 have "run_attempts c m op (a + 1) d = Inr r"
      by (auto simp: isRetryableTransactionError_def)
    with True 1 show ?thesis by (subst run_attempts.simps) (auto simp: isRetryableTransactionError_def)
  next
    case False
    with 1 show ?thesis by (subst run_attempts.simps) auto
  qed
qed

lemma run_attempts_exhausted:
  assumes "\<And>k. a \<le> k \<Longrightarrow> k \<le> m \<Longrightarrow> c (nat k)"
  shows "run_attempts c m op a d = Inl (TransactionRetryExhausted m)"
  using assms
proof (induction c m op a d rule: run_attempts.induct)
  case (1 c m op a d)
  then show ?case by (subst run_attempts.simps) (auto simp: isRetryableTransactionError_def)
qed

lemma tenant_transaction_Inr:
  "tenant_transaction m ctx t op d = Inr r \<Longrightarrow> uuid_nocase t \<and> op (ctx\<lparr>cx_tenant := t\<rparr>) d = Inr r"
  by (cases r) (auto simp: tenant_transaction_def bind_tx_Inr assertTenantId_def dest!: run_attempts_Inr
      split: if_splits)

lemma withTenantTransaction_Inr:
  "withTenantTransaction ctx t op d = Inr r \<Longrightarrow> uuid_nocase t \<and> op (ctx\<lparr>cx_tenant := t\<rparr>) d = Inr r"
  by (simp add: withTenantTransaction_def tenant_transaction_Inr)

lemma withTenantTransaction_calm:
  assumes "uuid_nocase t" and "\<not> cx_conflict ctx 1" and "op (ctx\<lparr>cx_tenant := t\<rparr>) d = Inr r"
  shows "withTenantTransaction ctx t op d = Inr r"
proof -
  have "run_attempts (cx_conflict ctx) 3 (op (ctx\<lparr>cx_tenant := t\<rparr>)) 1 d = Inr r"
    by (rule run_attempts_commit [where k = 1]) (use assms in auto)
  with assms(1) show ?thesis
    by (simp add: withTenantTransaction_def tenant_transaction_def assertTenantId_def lift_tx_def bind_tx_def)
qed

lemma steps_withTenantTransaction:
  assumes "steps R (op (ctx\<lparr>cx_tenant := t\<rparr>))"
  shows "steps R (withTenantTransaction ctx t op)"
  using assms by (auto intro!: stepsI dest!: withTenantTransaction_Inr dest: stepsD)

lemma boundedBase_bounds: "1 \<le> n \<Longrightarrow> 10 \<le> boundedBase n \<and> boundedBase n \<le> 250"
  using one_le_power [of "2 :: int" "nat (n - 1)"] by (auto simp: boundedBase_def)

lemma tenant_transaction_run:
  "uuid_nocase t \<Longrightarrow> 1 \<le> m \<Longrightarrow> m \<le> 10 \<Longrightarrow>
     tenant_transaction m ctx t op d = run_attempts (cx_conflict ctx) m (op (ctx\<lparr>cx_tenant := t\<rparr>)) 1 d"
  by (simp add: tenant_transaction_def assertTenantId_def lift_tx_def bind_tx_def)

text \<open>
  C31: retries are transparent and bounded. If the operation, run once under the tenant's setting
  on the database the transaction started from, commits and some attempt up to the last one does
  not conflict, the transaction commits exactly that; if all attempts conflict, it fails with the
  exhaustion error; whenever it commits, it commits what one run of the operation commits.
\<close>

theorem tenant_transaction_retries:
  assumes "uuid_nocase t" and "1 \<le> m" and "m \<le> 10"
  shows "(case op (ctx\<lparr>cx_tenant := t\<rparr>) d of
       Inr r \<Rightarrow> tenant_transaction m ctx t op d =
         (if \<forall>k \<in> {1..m}. cx_conflict ctx (nat k) then Inl (TransactionRetryExhausted m) else Inr r)
     | Inl _ \<Rightarrow> \<exists>e. tenant_transaction m ctx t op d = Inl e)"
proof (cases "op (ctx\<lparr>cx_tenant := t\<rparr>) d")
  case (Inl e)
  then have "tenant_transaction m ctx t op d \<noteq> Inr r" for r using tenant_transaction_Inr by fastforce
  with Inl show ?thesis by (cases "tenant_transaction m ctx t op d") auto
next
  case (Inr r)
  show ?thesis
  proof (cases "\<forall>k \<in> {1..m}. cx_conflict ctx (nat k)")
    case True
    then have "run_attempts (cx_conflict ctx) m (op (ctx\<lparr>cx_tenant := t\<rparr>)) 1 d = Inl (TransactionRetryExhausted m)"
      by (intro run_attempts_exhausted) auto
    with Inr True assms show ?thesis by (simp add: tenant_transaction_run)
  next
    case False
    then obtain k where "1 \<le> k" "k \<le> m" "\<not> cx_conflict ctx (nat k)" by auto
    then have "run_attempts (cx_conflict ctx) m (op (ctx\<lparr>cx_tenant := t\<rparr>)) 1 d = Inr r"
      using Inr by (intro run_attempts_commit [where k = k]) auto
    with Inr False assms show ?thesis by (simp add: tenant_transaction_run)
  qed
qed

theorem tenant_transaction_retries_witness:
  "tenant_transaction 3 ((sample_ctx False)\<lparr>cx_conflict := (\<lambda>n. n < 3)\<rparr>) sample_uuid (\<lambda>c. return_tx (cx_tenant c)) empty_db
     = Inr (sample_uuid, empty_db)"
  using tenant_transaction_retries [OF uuid_strict_nocase [OF sample_uuid_strict], where m = 3 and
      op = "\<lambda>c. return_tx (cx_tenant c)" and ctx = "(sample_ctx False)\<lparr>cx_conflict := (\<lambda>n. n < 3)\<rparr>" and d = empty_db]
  by (auto split: if_splits dest: bspec [where x = 3])

text \<open>
  the wait after a failed attempt is defined for every attempt the loop can make and lies
  between 10 and 499 milliseconds, at most doubled by the random part.
\<close>

lemma retry_delay_bounds:
  assumes "1 \<le> n" and "n \<le> 10" and "0 \<le> x" and "x < 1"
  shows "\<exists>ms. transactionRetryDelayMilliseconds n x = Inr ms \<and> boundedBase n \<le> ms \<and> ms < 2 * boundedBase n
     \<and> 10 \<le> ms \<and> ms \<le> 499"
proof -
  let ?b = "of_int (boundedBase n) :: rat"
  have b: "10 \<le> boundedBase n" "boundedBase n \<le> 250" using boundedBase_bounds [OF assms(1)] by auto
  then have "?b * x < ?b" "0 \<le> ?b * x" using assms(3,4) by auto
  then have "0 \<le> \<lfloor>?b * x\<rfloor>" "\<lfloor>?b * x\<rfloor> < boundedBase n" by (auto simp: floor_less_iff)
  then have "\<exists>ms. ms = boundedBase n + \<lfloor>?b * x\<rfloor> \<and> boundedBase n \<le> ms \<and> ms < 2 * boundedBase n \<and> 10 \<le> ms \<and> ms \<le> 499"
    using b by (intro exI conjI) (rule refl, linarith+)
  then show ?thesis using assms by (auto simp: transactionRetryDelayMilliseconds_def)
qed

end
