(* ===== verification/Worker_Store.thy ===== *)
theory Worker_Store
  imports Reconciliation_Repositories Tenant_Transaction Installations
begin

text \<open>
  \<open>apps/worker/src/db-store.ts\<close> with the record types of \<open>ports.ts\<close>: the validation of an approval
  attestation against the request it authorised, and the units of work of \<open>PrismaWorkerStore\<close>,
  each one tenant transaction over the repositories. \<open>ws_hmac\<close> and \<open>ws_sha256\<close> are the functions of
  Node's crypto module. Random identifiers and the process clock are arguments.
\<close>

subsection \<open>Records\<close>

record WorkerInstallation =
  in_tenantId :: string
  in_installationId :: string
  in_stripeAccountId :: string
  in_environment :: StripeEnvironment
  in_active :: bool
  in_tenantLiveEnabled :: bool

record RefundExecutionRecord =
  re_tenantId :: string
  re_requestId :: string
  re_installation :: WorkerInstallation
  re_resourceType :: AttestationResourceType
  re_resourceId :: string
  re_paymentKey :: string
  re_paymentIntentId :: "string option"
  re_chargeId :: string
  re_amountMinor :: int
  re_currency :: string
  re_reason :: RefundReason
  re_effectState :: EffectState
  re_linkedRefundId :: "string option"

record PersistApprovalAttestationInput =
  pa_signedEnvelopeHash :: bytes
  pa_requestNonce :: string
  pa_stripeAccountId :: string
  pa_environment :: StripeEnvironment
  pa_resourceType :: AttestationResourceType
  pa_resourceId :: string
  pa_requestId :: string
  pa_expectedRequestVersion :: int
  pa_approverStripeUserId :: string
  pa_requesterStripeUserId :: string
  pa_amountMinor :: int
  pa_currency :: string
  pa_reason :: RefundReason
  pa_verifiedAt :: date

datatype EffectBoundaryDecision =
    B_execute string string  \<comment> \<open>attempt id, idempotency key\<close>
  | B_already_identified string
  | B_reconciliation_required
  | B_not_executable

record PersistEffectBoundaryInput =
  pb_tenantId :: string
  pb_requestId :: string
  pb_idempotencyKey :: string
  pb_at :: date

record RecordIdentifiedInput =
  ri_tenantId :: string
  ri_requestId :: string
  ri_attemptId :: string
  ri_idempotencyKey :: string
  ri_refundId :: string
  ri_refundStatus :: "StripeRefundStatus option"
  ri_stripeRequestId :: "string option"
  ri_responseMatchesRequest :: bool
  ri_at :: date

record AttemptFailureInput =
  af_tenantId :: string
  af_requestId :: string
  af_attemptId :: string
  af_errorCode :: string
  af_at :: date

record RefundObservation =
  ro_refundId :: string
  ro_paymentIntentId :: "string option"
  ro_chargeId :: "string option"
  ro_amountMinor :: int
  ro_currency :: string
  ro_status :: "StripeRefundStatus option"
  ro_created :: int
  ro_metadataRequestId :: "string option"
  ro_metadataProof :: "string option"

record WebhookSource =
  sr_receiptId :: string
  sr_stripeEventId :: string
  sr_stripeAccountId :: string
  sr_eventIdempotencyKey :: "string option"
  sr_eventType :: string
  sr_eventCreated :: int

datatype RefundObservationSource = S_webhook WebhookSource | S_scan date  \<comment> \<open>scanWindowEnd\<close>

record ObserveRefundInput =
  ob_tenantId :: string
  ob_installationId :: string
  ob_environment :: StripeEnvironment
  ob_refund :: RefundObservation
  ob_source :: RefundObservationSource
  ob_observedAt :: date

record ObserveLinkedRefundInput =
  ol_tenantId :: string
  ol_installationId :: string
  ol_environment :: StripeEnvironment
  ol_requestId :: string
  ol_expectedRefundId :: string
  ol_refund :: RefundObservation
  ol_scanWindowEnd :: "date option"  \<comment> \<open>\<open>None\<close> is an invalid \<open>Date\<close>\<close>
  ol_observedAt :: "date option"

record InstallationLifecycleInput =
  il_tenantId :: string
  il_installationId :: string
  il_receiptId :: string
  il_stripeEventId :: string
  il_stripeAccountId :: string
  il_environment :: StripeEnvironment
  il_eventType :: string
  il_eventCreated :: int
  il_eventIdempotencyKey :: "string option"
  il_applicationId :: string
  il_processedAt :: date

record CommitCheckpointInput =
  cm_tenantId :: string
  cm_installationId :: string
  cm_previousWindowEnd :: "date option"
  cm_windowStart :: date
  cm_windowEnd :: date
  cm_pageCount :: int
  cm_refundCount :: int
  cm_completedAt :: date

record PrismaWorkerStore =
  ws_hmac :: "bytes \<Rightarrow> bytes \<Rightarrow> bytes"
  ws_sha256 :: "bytes \<Rightarrow> bytes"
  ws_proofs :: RefundProofKeyring
  ws_approvalAttestations :: ApprovalAttestationKeyring

subsection \<open>Hashes\<close>

definition json_opt :: "string option \<Rightarrow> json_item" where
  "json_opt x = (case x of None \<Rightarrow> JNull | Some s \<Rightarrow> JStr s)"

definition canonicalExecutionHash :: "PrismaWorkerStore \<Rightarrow> ExecutionWorkItem \<Rightarrow> err + bytes" where
  "canonicalExecutionHash st item =
     (let r = wi_request item
      in bind_err (normalizeCurrency (rr_currency r)) (\<lambda>currency.
      Inr (ws_sha256 st (utf8 (json_array
        [JStr (rr_tenantId r), JStr (rr_id r), JStr (si_stripeAccountId (wi_installation item)),
         JStr (env_name (rr_environment r)), JStr (rr_paymentKey r), json_opt (rr_paymentIntentId r),
         json_opt (rr_chargeId r), JStr (show_int (rr_amountMinor r)), JStr currency,
         JStr (reason_name (rr_reason r))])))))"

definition approvalAuthorizationSnapshotHash :: "PrismaWorkerStore \<Rightarrow> ApprovalAttestationPayload \<Rightarrow> bytes" where
  "approvalAuthorizationSnapshotHash st p =
     ws_sha256 st (utf8 (json_array
       [JStr (aap_tenantId p), JStr (aap_installationId p), JStr (aap_stripeAccountId p),
        JStr (env_name (aap_environment p)), JStr (resource_type_name (aap_resourceType p)),
        JStr (aap_resourceId p), JStr (aap_requestId p), JInt (aap_requestVersion p),
        JStr (aap_approverUserId p), JStr (aap_requesterUserId p), JStr (aap_approverStripeUserId p),
        JStr (aap_requesterStripeUserId p), JStr (aap_paymentKey p), json_opt (aap_paymentIntentId p),
        JStr (aap_chargeId p), JStr (show_int (aap_amountMinor p)), JStr (aap_currency p),
        JStr (reason_name (aap_reason p)), JInt (aap_policyVersion p), JInt (aap_requiredApprovals p),
        JStr (aap_expiresAt p)]))"

subsection \<open>The request revision an attestation is compatible with\<close>

definition resolvedRevisionCost :: "RefundExecutionAttempt \<Rightarrow> int option" where
  "resolvedRevisionCost a = (case at_state a of
     X_retryable_failure \<Rightarrow> Some 2 | X_ambiguous_failure \<Rightarrow> Some 4 | X_started \<Rightarrow> Some 4 | _ \<Rightarrow> None)"

text \<open>The loop that adds the costs and gives up at the first attempt without one.\<close>

fun revision_cost :: "int \<Rightarrow> RefundExecutionAttempt list \<Rightarrow> int option" where
  "revision_cost acc [] = Some acc"
| "revision_cost acc (a # as) =
     (case resolvedRevisionCost a of None \<Rightarrow> None | Some c \<Rightarrow> revision_cost (acc + c) as)"

definition attempts_in_order :: "RefundRequest \<Rightarrow> RefundExecution \<Rightarrow> RefundExecutionAttempt list \<Rightarrow> bool" where
  "attempts_in_order r e as \<longleftrightarrow>
     list_all (\<lambda>(index, a). at_executionId a = ex_id e \<and> at_tenantId a = rr_tenantId r
       \<and> at_attemptNumber a = int index + 1 \<and> at_state a \<noteq> X_completed \<and> at_state a \<noteq> X_terminal_failure)
     (enumerate 0 as)"

definition approvalAttestationRequestVersionIsCompatible :: "ExecutionWorkItem \<Rightarrow> int \<Rightarrow> bool" where
  "approvalAttestationRequestVersionIsCompatible item attested =
     (let r = wi_request item; status' = rr_workflowStatus r; effect = rr_effectState r;
          delta = rr_version r - attested
      in if \<not> safe_integer attested \<or> attested < 0 \<or> \<not> safe_integer (rr_version r) \<or> rr_version r \<le> attested
         then False
         else (case wi_execution item of
             None \<Rightarrow> status' = W_approved \<and> effect = E_not_started \<and> delta = 1
                \<or> status' = W_executing \<and> effect = E_not_started \<and> delta = 2
           | Some (e, attempts') \<Rightarrow>
               if ex_requestId e \<noteq> rr_id r \<or> ex_tenantId e \<noteq> rr_tenantId r \<or> ex_stripeRefundId e \<noteq> None
                  \<or> attempts' = [] then False
               else if \<not> attempts_in_order r e attempts' then False
               else if status' = W_executing \<and> effect = E_absence_proven
                 then revision_cost 2 attempts' = Some delta
               else (case revision_cost 0 (butlast attempts') of None \<Rightarrow> False
                 | Some prior \<Rightarrow>
                     (let latest = at_state (last attempts')
                      in if status' = W_executing \<and> effect = E_possible \<and> latest = X_started
                           then delta = 3 + prior
                         else if status' = W_reconciliation_required \<and> effect = E_possible
                              \<and> (latest = X_started \<or> latest = X_ambiguous_failure) then delta = 4 + prior
                         else if status' = W_reconciliation_required \<and> effect = E_absence_proven
                              \<and> (latest = X_started \<or> latest = X_ambiguous_failure) then delta = 5 + prior
                         else False))))"

text \<open>The resource an attestation names: the payment intent, or the charge where there is none.\<close>

definition request_resource :: "RefundRequest \<Rightarrow> string \<Rightarrow> AttestationResourceType \<times> string" where
  "request_resource r charge = (case rr_paymentIntentId r of
     None \<Rightarrow> (RT_charge, charge) | Some i \<Rightarrow> (RT_payment_intent, i))"

definition approvalPayloadFromExecutionItem :: "ExecutionWorkItem \<Rightarrow> err + ApprovalAttestationPayload option" where
  "approvalPayloadFromExecutionItem item =
     (let r = wi_request item; requester = wi_requester item; installation = wi_installation item
      in case wi_approval item of None \<Rightarrow> Inr None
       | Some (_, _, None) \<Rightarrow> Inr None
       | Some (dec, approver, Some a) \<Rightarrow>
         (case rr_chargeId r of None \<Rightarrow> Inr None
          | Some charge \<Rightarrow>
            if ad_decision dec \<noteq> D_approve \<or> ad_approvalAttestationId dec \<noteq> Some (aa_id a)
               \<or> aa_requestId a \<noteq> rr_id r \<or> aa_tenantId a \<noteq> rr_tenantId r
               \<or> aa_installationId a \<noteq> rr_installationId r \<or> aa_approverUserId a \<noteq> ad_approverUserId dec
               \<or> aa_stripeAccountId a \<noteq> si_stripeAccountId installation
               \<or> aa_environment a \<noteq> rr_environment r \<or> rr_environment r = Env_live
               \<or> rr_requiredApprovals r \<noteq> 1 \<or> \<not> tu_approverEnabled approver
               \<or> tu_id approver = tu_id requester \<or> tu_stripeUserId approver = tu_stripeUserId requester
               \<or> \<not> approvalAttestationRequestVersionIsCompatible item (aa_requestVersion a)
               \<or> ad_decidedAt dec < aa_verifiedAt a \<or> ad_decidedAt dec \<ge> aa_consumeBefore a
            then Inr None
            else (let (resourceType, resourceId) = request_resource r charge
             in if aa_resourceType a \<noteq> resource_type_name resourceType \<or> aa_resourceId a \<noteq> resourceId
                then Inr None
                else bind_err (normalizeCurrency (rr_currency r)) (\<lambda>currency.
                  Inr (Some \<lparr>aap_canonicalRequestHash = aa_signedEnvelopeHash a,
                    aap_requestNonce = aa_requestNonce a, aap_tenantId = rr_tenantId r,
                    aap_installationId = rr_installationId r,
                    aap_stripeAccountId = si_stripeAccountId installation,
                    aap_environment = rr_environment r, aap_resourceType = resourceType,
                    aap_resourceId = resourceId, aap_requestId = rr_id r,
                    aap_requestVersion = aa_requestVersion a, aap_approverUserId = ad_approverUserId dec,
                    aap_requesterUserId = rr_requesterUserId r,
                    aap_approverStripeUserId = tu_stripeUserId approver,
                    aap_requesterStripeUserId = tu_stripeUserId requester,
                    aap_paymentKey = rr_paymentKey r, aap_paymentIntentId = rr_paymentIntentId r,
                    aap_chargeId = charge, aap_amountMinor = rr_amountMinor r, aap_currency = currency,
                    aap_reason = rr_reason r, aap_policyVersion = rr_policyVersion r,
                    aap_requiredApprovals = rr_requiredApprovals r,
                    aap_expiresAt = toISOString (rr_expiresAt r),
                    aap_verifiedAt = toISOString (aa_verifiedAt a),
                    aap_consumeBefore = toISOString (aa_consumeBefore a)\<rparr>)))))"

definition approvalAttestationIsValid :: "PrismaWorkerStore \<Rightarrow> ExecutionWorkItem \<Rightarrow> err + bool" where
  "approvalAttestationIsValid st item =
     bind_err (approvalPayloadFromExecutionItem item) (\<lambda>payload.
     case (payload, wi_approval item) of
       (Some p, Some (_, _, Some a)) \<Rightarrow>
         if aa_authorizationSnapshotHash a \<noteq> approvalAuthorizationSnapshotHash st p then Inr False
         else (case verify_attestation (ws_hmac st) (ws_approvalAttestations st) p
                 (format_token (aa_hmacKeyVersion a) (aa_hmac a)) of
               Inl _ \<Rightarrow> Inr False | Inr b \<Rightarrow> Inr b)
     | _ \<Rightarrow> Inr False)"

subsection \<open>Guards\<close>

definition hasActivePilotExecutionContext :: "ExecutionWorkItem \<Rightarrow> bool" where
  "hasActivePilotExecutionContext item \<longleftrightarrow>
     tn_status (wi_tenant item) = T_active \<and> si_status (wi_installation item) = I_active
     \<and> \<not> tn_liveEnabled (wi_tenant item)
     \<and> (rr_environment (wi_request item) = Env_test \<or> rr_environment (wi_request item) = Env_sandbox)
     \<and> si_environment (wi_installation item) = rr_environment (wi_request item)"

definition has_status :: "WorkflowStatus \<Rightarrow> ExecutionWorkItem option \<Rightarrow> bool" where
  "has_status w item = (case item of None \<Rightarrow> False | Some i \<Rightarrow> rr_workflowStatus (wi_request i) = w)"

definition requireExecutionReconciliation :: "txctx \<Rightarrow> string \<Rightarrow> unit tx" where
  "requireExecutionReconciliation ctx requestId =
     bind_tx (markReconciliationRequired ctx requestId) (\<lambda>marked.
     if marked then return_tx ()
     else bind_tx (getExecutionWorkItem ctx requestId) (\<lambda>current.
       if \<not> has_status W_reconciliation_required current
       then throw_tx (Error ''EXECUTION_RECOVERY_RECONCILIATION_COMPARE_AND_SET_FAILED'') else return_tx ()))"

subsection \<open>Persisting an approval attestation\<close>

definition store_invalid :: "string \<Rightarrow> err" where
  "store_invalid reason = ApprovalAttestationStoreError ''invalid'' reason"

definition approver_or_request :: "TenantUser option \<Rightarrow> TenantUser option \<Rightarrow> err" where
  "approver_or_request approver requester =
     store_invalid (if approver = None \<or> requester = None \<or> (case approver of None \<Rightarrow> False | Some u \<Rightarrow> \<not> tu_approverEnabled u)
       then ''approver_not_eligible'' else ''request_not_approvable'')"

text \<open>
  The single guard of lines 510 to 536, in two parts because the comparison of the currencies in
  its middle may throw: the disjuncts before it and those after it.
\<close>

definition attestation_guard_before ::
  "PersistApprovalAttestationInput \<Rightarrow> RefundRequest \<Rightarrow> Tenant \<Rightarrow> StripeInstallation \<Rightarrow> bool" where
  "attestation_guard_before input request tenant installation \<longleftrightarrow>
     tn_status tenant \<noteq> T_active \<or> tn_liveEnabled tenant \<or> si_status installation \<noteq> I_active
     \<or> si_id installation \<noteq> rr_installationId request
     \<or> si_environment installation \<noteq> pa_environment input
     \<or> si_stripeAccountId installation \<noteq> pa_stripeAccountId input
     \<or> rr_environment request \<noteq> pa_environment input
     \<or> rr_version request \<noteq> pa_expectedRequestVersion input
     \<or> rr_amountMinor request \<noteq> pa_amountMinor input"

definition attestation_guard_after ::
  "PersistApprovalAttestationInput \<Rightarrow> RefundRequest \<Rightarrow> TenantUser \<Rightarrow> TenantUser \<Rightarrow> ApprovalPolicy \<Rightarrow> bool" where
  "attestation_guard_after input request requester approver policy \<longleftrightarrow>
     rr_reason request \<noteq> pa_reason input
     \<or> tu_stripeUserId requester \<noteq> pa_requesterStripeUserId input
     \<or> tu_stripeUserId approver \<noteq> pa_approverStripeUserId input
     \<or> \<not> tu_approverEnabled approver \<or> tu_id approver = tu_id requester
     \<or> tu_stripeUserId approver = tu_stripeUserId requester
     \<or> rr_chargeId request = None \<or> rr_paymentGuardReleasedAt request \<noteq> None
     \<or> rr_effectState request \<noteq> E_not_started \<or> rr_requiredApprovals request \<noteq> 1
     \<or> ap_requiredApprovals policy \<noteq> rr_requiredApprovals request"

definition APPROVAL_ATTESTATION_LIFETIME_MILLISECONDS :: int where
  "APPROVAL_ATTESTATION_LIFETIME_MILLISECONDS = 5 * 60 * 1000"

definition attestation_payload ::
  "txctx \<Rightarrow> PersistApprovalAttestationInput \<Rightarrow> string \<Rightarrow> RefundRequest \<Rightarrow> TenantUser \<Rightarrow> TenantUser
   \<Rightarrow> string \<Rightarrow> string \<Rightarrow> date \<Rightarrow> ApprovalAttestationPayload" where
  "attestation_payload ctx input installationId request requester approver charge currency consumeBefore =
     \<lparr>aap_canonicalRequestHash = pa_signedEnvelopeHash input, aap_requestNonce = pa_requestNonce input,
      aap_tenantId = cx_tenant ctx, aap_installationId = installationId,
      aap_stripeAccountId = pa_stripeAccountId input, aap_environment = pa_environment input,
      aap_resourceType = fst (request_resource request charge),
      aap_resourceId = snd (request_resource request charge), aap_requestId = rr_id request,
      aap_requestVersion = rr_version request, aap_approverUserId = tu_id approver,
      aap_requesterUserId = tu_id requester, aap_approverStripeUserId = tu_stripeUserId approver,
      aap_requesterStripeUserId = tu_stripeUserId requester, aap_paymentKey = rr_paymentKey request,
      aap_paymentIntentId = rr_paymentIntentId request, aap_chargeId = charge,
      aap_amountMinor = rr_amountMinor request, aap_currency = currency, aap_reason = rr_reason request,
      aap_policyVersion = rr_policyVersion request, aap_requiredApprovals = rr_requiredApprovals request,
      aap_expiresAt = toISOString (rr_expiresAt request), aap_verifiedAt = toISOString (pa_verifiedAt input),
      aap_consumeBefore = toISOString consumeBefore\<rparr>"

text \<open>Signing and insertion, lines 571 to 624: the token is split at its first dot.\<close>

definition sign_and_persist ::
  "PrismaWorkerStore \<Rightarrow> txctx \<Rightarrow> PersistApprovalAttestationInput \<Rightarrow> string \<Rightarrow> string
   \<Rightarrow> ApprovalAttestationPayload \<Rightarrow> date \<Rightarrow> (string \<times> bytes) tx" where
  "sign_and_persist st ctx input installationId randomUUID payload consumeBefore =
     bind_tx (lift_tx (sign_attestation (ws_hmac st) (ws_approvalAttestations st) payload)) (\<lambda>token.
     (let version' = takeWhile (\<lambda>c. c \<noteq> CHR ''.'') token
      in bind_tx (persistApprovalAttestation ctx
        \<lparr>aa_id = randomUUID, aa_tenantId = [], aa_installationId = installationId,
         aa_requestId = aap_requestId payload, aa_approverUserId = aap_approverUserId payload,
         aa_requestNonce = pa_requestNonce input, aa_stripeAccountId = pa_stripeAccountId input,
         aa_environment = pa_environment input,
         aa_resourceType = resource_type_name (aap_resourceType payload),
         aa_resourceId = aap_resourceId payload, aa_requestVersion = aap_requestVersion payload,
         aa_signedEnvelopeHash = pa_signedEnvelopeHash input,
         aa_authorizationSnapshotHash = approvalAuthorizationSnapshotHash st payload,
         aa_verifiedAt = pa_verifiedAt input, aa_consumeBefore = consumeBefore,
         aa_hmacKeyVersion = version', aa_hmac = b64_decode (drop (length version' + 1) token),
         aa_createdAt = pa_verifiedAt input\<rparr>) (\<lambda>persisted.
      return_tx (aa_id persisted, aa_signedEnvelopeHash persisted))))"

text \<open>What follows the guard: the resource, the time window, the signature.\<close>

definition attest_request ::
  "PrismaWorkerStore \<Rightarrow> txctx \<Rightarrow> PersistApprovalAttestationInput \<Rightarrow> string \<Rightarrow> string
   \<Rightarrow> RefundRequest \<Rightarrow> TenantUser \<Rightarrow> TenantUser \<Rightarrow> (string \<times> bytes) tx" where
  "attest_request st ctx input installationId randomUUID request requester approver =
     (case rr_chargeId request of None \<Rightarrow> throw_tx (approver_or_request (Some approver) (Some requester))
      | Some charge \<Rightarrow>
        if request_resource request charge \<noteq> (pa_resourceType input, pa_resourceId input)
        then throw_tx (store_invalid ''resource_mismatch'')
        else if rr_workflowStatus request \<noteq> W_pending_approval \<or> pa_verifiedAt input < rr_createdAt request
             \<or> pa_verifiedAt input \<ge> rr_expiresAt request
        then throw_tx (store_invalid ''request_not_pending_approval'')
        else (let consumeBefore = min (pa_verifiedAt input + APPROVAL_ATTESTATION_LIFETIME_MILLISECONDS)
                    (rr_expiresAt request)
          in if consumeBefore \<le> pa_verifiedAt input then throw_tx (store_invalid ''attestation_window_empty'')
             else bind_tx (lift_tx (normalizeCurrency (rr_currency request))) (\<lambda>currency.
               sign_and_persist st ctx input installationId randomUUID
                 (attestation_payload ctx input installationId request requester approver charge currency
                   consumeBefore) consumeBefore)))"

definition attestation_unit_of_work ::
  "PrismaWorkerStore \<Rightarrow> PersistApprovalAttestationInput \<Rightarrow> string \<Rightarrow> string \<Rightarrow> txctx \<Rightarrow> (string \<times> bytes) tx" where
  "attestation_unit_of_work st input installationId randomUUID ctx =
     with_db (\<lambda>d. case getRefundRequest ctx (pa_requestId input) d of
        None \<Rightarrow> throw_tx (store_invalid ''request_not_found'')
      | Some request \<Rightarrow>
        (let tenant = first_row (\<lambda>t. tn_id t = cx_tenant ctx) (tenants d);
             installation = first_row (\<lambda>i. si_id i = installationId \<and> si_tenantId i = cx_tenant ctx) (installations d);
             requester = first_row (\<lambda>u. tu_id u = rr_requesterUserId request \<and> tu_tenantId u = cx_tenant ctx) (users d);
             approver = first_row (\<lambda>u. tu_stripeUserId u = pa_approverStripeUserId input
                \<and> tu_tenantId u = cx_tenant ctx) (users d);
             policy = first_row (\<lambda>p. ap_tenantId p = cx_tenant ctx \<and> ap_version p = rr_policyVersion request) (policies d);
             refuse = throw_tx (approver_or_request approver requester)
         in case getApprovalAttestationByNonce ctx (pa_requestNonce input) d of
             Some existing \<Rightarrow>
               if aa_signedEnvelopeHash existing \<noteq> pa_signedEnvelopeHash input
               then throw_tx (ApprovalAttestationStoreError ''conflict'' [])
               else return_tx (aa_id existing, aa_signedEnvelopeHash existing)
           | None \<Rightarrow>
             (case (tenant, installation, requester, approver, policy) of
                (Some t, Some i, Some q, Some a, Some p) \<Rightarrow>
                  if attestation_guard_before input request t i then refuse
                  else bind_tx (lift_tx (normalizeCurrency (rr_currency request))) (\<lambda>requested.
                    bind_tx (lift_tx (normalizeCurrency (pa_currency input))) (\<lambda>signed.
                    if requested \<noteq> signed \<or> attestation_guard_after input request q a p then refuse
                    else attest_request st ctx input installationId randomUUID request q a))
              | _ \<Rightarrow> refuse)))"

subsection \<open>Loading an execution\<close>

definition worker_installation :: "ExecutionWorkItem \<Rightarrow> bool \<Rightarrow> WorkerInstallation" where
  "worker_installation item active =
     \<lparr>in_tenantId = rr_tenantId (wi_request item), in_installationId = rr_installationId (wi_request item),
      in_stripeAccountId = si_stripeAccountId (wi_installation item),
      in_environment = rr_environment (wi_request item), in_active = active,
      in_tenantLiveEnabled = tn_liveEnabled (wi_tenant item)\<rparr>"

definition execution_record :: "ExecutionWorkItem \<Rightarrow> string \<Rightarrow> RefundExecutionRecord" where
  "execution_record item charge =
     (let r = wi_request item
      in \<lparr>re_tenantId = rr_tenantId r, re_requestId = rr_id r,
          re_installation = worker_installation item (si_status (wi_installation item) = I_active),
          re_resourceType = fst (request_resource r charge), re_resourceId = snd (request_resource r charge),
          re_paymentKey = rr_paymentKey r, re_paymentIntentId = rr_paymentIntentId r, re_chargeId = charge,
          re_amountMinor = rr_amountMinor r, re_currency = rr_currency r, re_reason = rr_reason r,
          re_effectState = rr_effectState r,
          re_linkedRefundId = (case wi_execution item of None \<Rightarrow> None | Some (e, _) \<Rightarrow> ex_stripeRefundId e)\<rparr>)"

definition lost_execution :: "ExecutionWorkItem \<Rightarrow> string \<Rightarrow> bool" where
  "lost_execution item expectedIdempotencyKey \<longleftrightarrow>
     rr_effectState (wi_request item) = E_possible
     \<or> rr_effectState (wi_request item) = E_absence_proven \<and> wi_execution item = None
     \<or> (case wi_execution item of None \<Rightarrow> False | Some (e, _) \<Rightarrow> ex_idempotencyKey e \<noteq> expectedIdempotencyKey)"

text \<open>The last part of the unit of work, after the claim: lines 671 to 716.\<close>

definition load_claimed :: "PrismaWorkerStore \<Rightarrow> txctx \<Rightarrow> ExecutionWorkItem option \<Rightarrow> RefundExecutionRecord option tx" where
  "load_claimed st ctx found =
     (case found of None \<Rightarrow> return_tx None
      | Some item \<Rightarrow>
        if \<not> hasActivePilotExecutionContext item then return_tx None
        else bind_tx (lift_tx (approvalAttestationIsValid st item)) (\<lambda>valid.
          case rr_chargeId (wi_request item) of None \<Rightarrow> return_tx None
          | Some charge \<Rightarrow>
            if \<not> valid \<or> rr_workflowStatus (wi_request item) \<noteq> W_executing
               \<or> rr_effectState (wi_request item) \<notin> {E_not_started, E_possible, E_absence_proven}
            then return_tx None
            else bind_tx (lift_tx (refundIdempotencyKey (rr_id (wi_request item)))) (\<lambda>expected.
              if lost_execution item expected
              then bind_tx (requireExecutionReconciliation ctx (rr_id (wi_request item))) (\<lambda>_. return_tx None)
              else return_tx (Some (execution_record item charge)))))"

definition load_unit_of_work :: "PrismaWorkerStore \<Rightarrow> string \<Rightarrow> date \<Rightarrow> txctx \<Rightarrow> RefundExecutionRecord option tx" where
  "load_unit_of_work st requestId now ctx =
     bind_tx (getExecutionWorkItem ctx requestId) (\<lambda>first.
     case first of None \<Rightarrow> return_tx None
     | Some item0 \<Rightarrow>
       if \<not> hasActivePilotExecutionContext item0 then return_tx None
       else bind_tx (gets_tx (lockExecutionAuthorization ctx (rr_id (wi_request item0))
              (rr_installationId (wi_request item0)))) (\<lambda>authorizationLocked.
         if \<not> authorizationLocked then return_tx None
         else bind_tx (getExecutionWorkItem ctx requestId) (\<lambda>second.
           case second of None \<Rightarrow> return_tx None
           | Some item \<Rightarrow>
             if \<not> hasActivePilotExecutionContext item then return_tx None
             else bind_tx (lift_tx (approvalAttestationIsValid st item)) (\<lambda>valid.
               if \<not> valid then
                 bind_tx (when_tx (rr_effectState (wi_request item) = E_possible)
                   (requireExecutionReconciliation ctx (rr_id (wi_request item)))) (\<lambda>_. return_tx None)
               else if rr_workflowStatus (wi_request item) = W_approved
                    \<and> rr_effectState (wi_request item) = E_not_started
                 then bind_tx (claimExecutionWorkItem ctx requestId now) (load_claimed st ctx)
               else load_claimed st ctx (Some item)))))"

definition loadRefundExecution ::
  "PrismaWorkerStore \<Rightarrow> txctx \<Rightarrow> string \<Rightarrow> string \<Rightarrow> date \<Rightarrow> RefundExecutionRecord option tx" where
  "loadRefundExecution st ctx tenantId requestId now =
     withTenantTransaction ctx tenantId (load_unit_of_work st requestId now)"

subsection \<open>The effect boundary\<close>

definition stopped_at_boundary :: "ExecutionWorkItem option \<Rightarrow> EffectBoundaryDecision" where
  "stopped_at_boundary item =
     (if has_status W_reconciliation_required item then B_reconciliation_required else B_not_executable)"

text \<open>Lines 774 to 819: the execution row, the compare-and-set to \<open>possible\<close>, the attempt row.\<close>

definition cross_boundary ::
  "PrismaWorkerStore \<Rightarrow> txctx \<Rightarrow> PersistEffectBoundaryInput \<Rightarrow> ExecutionWorkItem \<Rightarrow> EffectBoundaryDecision tx" where
  "cross_boundary st ctx input item =
     (let r = wi_request item
      in bind_tx (lift_tx (canonicalExecutionHash st item)) (\<lambda>parametersHash.
      bind_tx (ensureExecution ctx (rr_id r) (pb_idempotencyKey input) parametersHash (rr_amountMinor r)
        (rr_currency r)) (\<lambda>execution.
      bind_tx (lift_tx (if ex_idempotencyKey execution \<noteq> pb_idempotencyKey input
             \<or> ex_amountMinor execution \<noteq> rr_amountMinor r then Inr False
           else bind_err (normalizeCurrency (ex_currency execution)) (\<lambda>c1.
             bind_err (normalizeCurrency (rr_currency r)) (\<lambda>c2.
             Inr (c1 = c2 \<and> ex_canonicalParametersHash execution = parametersHash))))) (\<lambda>agrees.
      if \<not> agrees then throw_tx (Error ''EXECUTION_IDEMPOTENCY_CONFLICT'')
      else bind_tx (markEffectPossible ctx (rr_id r)) (\<lambda>marked.
        if \<not> marked then throw_tx (Error ''EFFECT_BOUNDARY_COMPARE_AND_SET_FAILED'')
        else bind_tx (gets_tx (\<lambda>d. opt_max (map at_attemptNumber (filter (\<lambda>a. at_tenantId a = pb_tenantId input
                 \<and> at_executionId a = ex_id execution) (attempts d))))) (\<lambda>maximum.
          bind_tx (beginExecutionAttempt ctx (ex_id execution)
            ((case maximum of None \<Rightarrow> 0 | Some n \<Rightarrow> n) + 1) (pb_at input)) (\<lambda>attempt.
          return_tx (B_execute (at_id attempt) (ex_idempotencyKey execution)))))))))"

definition boundary_locked ::
  "PrismaWorkerStore \<Rightarrow> txctx \<Rightarrow> PersistEffectBoundaryInput \<Rightarrow> ExecutionWorkItem \<Rightarrow> EffectBoundaryDecision tx" where
  "boundary_locked st ctx input item =
     (let r = wi_request item; effect = rr_effectState r
      in bind_tx (lift_tx (approvalAttestationIsValid st item)) (\<lambda>valid.
      if \<not> valid then
        (if effect = E_possible
         then bind_tx (requireExecutionReconciliation ctx (rr_id r)) (\<lambda>_. return_tx B_reconciliation_required)
         else return_tx B_not_executable)
      else (case (case wi_execution item of None \<Rightarrow> None | Some (e, _) \<Rightarrow> ex_stripeRefundId e) of
          Some refundId \<Rightarrow> return_tx (B_already_identified refundId)
        | None \<Rightarrow>
          if lost_execution item (pb_idempotencyKey input)
          then bind_tx (requireExecutionReconciliation ctx (rr_id r)) (\<lambda>_. return_tx B_reconciliation_required)
          else if effect \<noteq> E_not_started \<and> effect \<noteq> E_absence_proven then return_tx B_not_executable
          else cross_boundary st ctx input item)))"

definition boundary_unit_of_work ::
  "PrismaWorkerStore \<Rightarrow> PersistEffectBoundaryInput \<Rightarrow> txctx \<Rightarrow> EffectBoundaryDecision tx" where
  "boundary_unit_of_work st input ctx =
     bind_tx (getExecutionWorkItem ctx (pb_requestId input)) (\<lambda>first.
     case first of None \<Rightarrow> return_tx (stopped_at_boundary None)
     | Some item0 \<Rightarrow>
       if rr_workflowStatus (wi_request item0) \<noteq> W_executing then return_tx (stopped_at_boundary first)
       else if \<not> hasActivePilotExecutionContext item0 \<or> rr_paymentGuardReleasedAt (wi_request item0) \<noteq> None
         then return_tx B_not_executable
       else bind_tx (gets_tx (lockExecutionAuthorization ctx (rr_id (wi_request item0))
              (rr_installationId (wi_request item0)))) (\<lambda>authorizationLocked.
         if \<not> authorizationLocked then return_tx B_not_executable
         else bind_tx (getExecutionWorkItem ctx (pb_requestId input)) (\<lambda>second.
           case second of None \<Rightarrow> return_tx (stopped_at_boundary None)
           | Some item \<Rightarrow>
             if rr_workflowStatus (wi_request item) \<noteq> W_executing \<or> \<not> hasActivePilotExecutionContext item
                \<or> rr_paymentGuardReleasedAt (wi_request item) \<noteq> None
             then return_tx (stopped_at_boundary second)
             else boundary_locked st ctx input item)))"

definition persistEffectBoundary ::
  "PrismaWorkerStore \<Rightarrow> txctx \<Rightarrow> PersistEffectBoundaryInput \<Rightarrow> EffectBoundaryDecision tx" where
  "persistEffectBoundary st ctx input =
     withTenantTransaction ctx (pb_tenantId input) (boundary_unit_of_work st input)"

subsection \<open>Recording the outcome of an attempt\<close>

text \<open>The loop that raises an alert for every candidate other than the linked refund.\<close>

definition alert_conflicts :: "txctx \<Rightarrow> string \<Rightarrow> string \<Rightarrow> string \<Rightarrow> date \<Rightarrow> unit tx" where
  "alert_conflicts ctx installationId requestId refundId observedAt =
     bind_tx (gets_tx (listRefundCorrelationCandidates ctx requestId)) (\<lambda>found.
     bind_tx (mapM_tx (\<lambda>c. bind_tx (lift_tx (normalizeCurrency (cc_currency c))) (\<lambda>currency.
        observeExternalRefund ctx \<lparr>eo_installationId = installationId,
          eo_stripeRefundId = cc_stripeRefundId c, eo_stripeRefundCreatedAt = Some (cc_stripeCreatedAt c),
          eo_paymentKey = cc_paymentKey c, eo_amountMinor = cc_amountMinor c, eo_currency = currency,
          eo_classification = AC_proof_replay, eo_observedAt = Some observedAt\<rparr>))
       (filter (\<lambda>c. cc_stripeRefundId c \<noteq> refundId) found)) (\<lambda>_. return_tx ()))"

definition recordIdentifiedRefund :: "txctx \<Rightarrow> RecordIdentifiedInput \<Rightarrow> unit tx" where
  "recordIdentifiedRefund ctx0 input =
     withTenantTransaction ctx0 (ri_tenantId input) (\<lambda>ctx.
     bind_tx (getExecutionWorkItem ctx (ri_requestId input)) (\<lambda>found.
     case found of None \<Rightarrow> throw_tx (Error ''EXECUTION_NOT_FOUND'')
     | Some item \<Rightarrow>
       (case wi_execution item of None \<Rightarrow> throw_tx (Error ''EXECUTION_NOT_FOUND'')
        | Some (execution, _) \<Rightarrow>
          if ex_idempotencyKey execution \<noteq> ri_idempotencyKey input
          then throw_tx (Error ''EXECUTION_IDEMPOTENCY_CONFLICT'')
          else bind_tx (markRefundIdentified ctx \<lparr>ii_requestId = ri_requestId input,
              ii_stripeRefundId = ri_refundId input,
              ii_stripeRefundStatus = (if ri_responseMatchesRequest input then ri_refundStatus input else None),
              ii_preserve = True, ii_stripeRequestId = ri_stripeRequestId input, ii_stripeEventId = None,
              ii_stripeEventCreatedAt = None, ii_observedAt = ri_at input\<rparr>) (\<lambda>identified.
            if \<not> identified then throw_tx (Error ''REFUND_IDENTITY_COMPARE_AND_SET_FAILED'')
            else bind_tx (markRefundCorrelationCandidateLinked ctx (ri_requestId input) (ri_refundId input)
                CC_exact_linked (ri_at input)) (\<lambda>_.
              bind_tx (alert_conflicts ctx (rr_installationId (wi_request item)) (ri_requestId input)
                (ri_refundId input) (ri_at input)) (\<lambda>_.
              bind_tx (finishExecutionAttempt ctx \<lparr>fi_attemptId = ri_attemptId input, fi_state = X_completed,
                 fi_normalizedErrorCode = None, fi_stripeRequestId = ri_stripeRequestId input,
                 fi_finishedAt = ri_at input\<rparr>) (\<lambda>finished.
              if \<not> finished then throw_tx (Error ''EXECUTION_ATTEMPT_COMPARE_AND_SET_FAILED'')
              else return_tx ())))))))"

definition finish_failed :: "txctx \<Rightarrow> AttemptFailureInput \<Rightarrow> ExecutionAttemptState \<Rightarrow> bool tx" where
  "finish_failed ctx input state =
     finishExecutionAttempt ctx \<lparr>fi_attemptId = af_attemptId input, fi_state = state,
       fi_normalizedErrorCode = Some (af_errorCode input), fi_stripeRequestId = None,
       fi_finishedAt = af_at input\<rparr>"

definition recordRetryableAttemptFailure :: "txctx \<Rightarrow> AttemptFailureInput \<Rightarrow> unit tx" where
  "recordRetryableAttemptFailure ctx0 input =
     withTenantTransaction ctx0 (af_tenantId input) (\<lambda>ctx.
     bind_tx (finish_failed ctx input X_retryable_failure) (\<lambda>finished.
     bind_tx (markCertainAbsenceWhileExecuting ctx (af_requestId input)) (\<lambda>absence.
     if \<not> finished \<or> \<not> absence then throw_tx (Error ''RETRYABLE_FAILURE_COMPARE_AND_SET_FAILED'')
     else return_tx ())))"

definition recordAmbiguousAttemptFailure :: "txctx \<Rightarrow> AttemptFailureInput \<Rightarrow> unit tx" where
  "recordAmbiguousAttemptFailure ctx0 input =
     withTenantTransaction ctx0 (af_tenantId input) (\<lambda>ctx.
     bind_tx (finish_failed ctx input X_ambiguous_failure) (\<lambda>finished.
     bind_tx (markReconciliationRequired ctx (af_requestId input)) (\<lambda>reconciliation.
     if \<not> finished \<or> \<not> reconciliation then throw_tx (Error ''AMBIGUOUS_FAILURE_COMPARE_AND_SET_FAILED'')
     else return_tx ())))"

definition recordTerminalAttemptWithoutEffect :: "txctx \<Rightarrow> AttemptFailureInput \<Rightarrow> unit tx" where
  "recordTerminalAttemptWithoutEffect ctx0 input =
     withTenantTransaction ctx0 (af_tenantId input) (\<lambda>ctx.
     bind_tx (finish_failed ctx input X_terminal_failure) (\<lambda>finished.
     bind_tx (markCertainAbsenceWhileExecuting ctx (af_requestId input)) (\<lambda>absence.
     bind_tx (markTerminalFailureAfterAbsence ctx (af_requestId input) (af_at input)) (\<lambda>terminal'.
     if \<not> finished \<or> \<not> absence \<or> \<not> terminal' then throw_tx (Error ''TERMINAL_FAILURE_COMPARE_AND_SET_FAILED'')
     else return_tx ()))))"

text \<open>The inputs without an attempt: tenant, request and time (the error code is not persisted).\<close>

definition recordTerminalWithoutEffect :: "txctx \<Rightarrow> string \<Rightarrow> string \<Rightarrow> date \<Rightarrow> unit tx" where
  "recordTerminalWithoutEffect ctx0 tenantId requestId at' =
     withTenantTransaction ctx0 tenantId (\<lambda>ctx.
     bind_tx (markTerminalFailureAfterAbsence ctx requestId at') (\<lambda>terminal'.
     if terminal' then return_tx ()
     else bind_tx (getExecutionWorkItem ctx requestId) (\<lambda>current.
       if \<not> has_status W_failed_terminal current
       then throw_tx (Error ''TERMINAL_PREFLIGHT_COMPARE_AND_SET_FAILED'') else return_tx ())))"

definition recordReconciliationRequired :: "txctx \<Rightarrow> string \<Rightarrow> string \<Rightarrow> unit tx" where
  "recordReconciliationRequired ctx0 tenantId requestId =
     withTenantTransaction ctx0 tenantId (\<lambda>ctx.
     bind_tx (markReconciliationRequired ctx requestId) (\<lambda>marked.
     if marked then return_tx ()
     else bind_tx (getExecutionWorkItem ctx requestId) (\<lambda>current.
       if \<not> has_status W_reconciliation_required current
       then throw_tx (Error ''RECONCILIATION_COMPARE_AND_SET_FAILED'') else return_tx ())))"

end
