(* ===== verification/Worker_Observations.thy ===== *)
theory Worker_Observations
  imports Worker_Store
begin

text \<open>
  The units of work of \<open>db-store.ts\<close> that take in what Stripe reports: webhook receipts, refund
  observations from webhooks and scans, installation lifecycle events, linked refund refreshes and
  reconciliation checkpoints. JSON values already parsed by their schemas are records; the
  comparison of canonical JSON texts is equality of the records.
\<close>

definition paymentKeyOf :: "RefundObservation \<Rightarrow> err + string" where
  "paymentKeyOf refund = (case ro_paymentIntentId refund of Some i \<Rightarrow> Inr i
     | None \<Rightarrow> (case ro_chargeId refund of Some c \<Rightarrow> Inr c
        | None \<Rightarrow> Inl (Error ''REFUND_OBSERVATION_PAYMENT_MISSING'')))"

definition authoritativeObservedRefundStatus ::
  "RefundObservation \<Rightarrow> RefundObservationSource \<Rightarrow> StripeRefundStatus option" where
  "authoritativeObservedRefundStatus refund source = (case source of
     S_webhook w \<Rightarrow> if sr_eventType w = ''refund.failed'' then Some R_failed else ro_status refund
   | S_scan _ \<Rightarrow> ro_status refund)"

definition shouldApplyLinkedRefundObservation ::
  "StripeRefundStatus option \<Rightarrow> date option \<Rightarrow> RefundObservation \<Rightarrow> RefundObservationSource \<Rightarrow> bool" where
  "shouldApplyLinkedRefundObservation currentStatus lastStripeEventCreatedAt refund source =
     (case source of S_scan _ \<Rightarrow> currentStatus \<noteq> ro_status refund
      | S_webhook w \<Rightarrow>
        (case lastStripeEventCreatedAt of None \<Rightarrow> True
         | Some previous \<Rightarrow>
           (let incoming = sr_eventCreated w * 1000;
                incomingStatus = (if sr_eventType w = ''refund.failed'' then Some R_failed else ro_status refund)
            in if incoming > previous then True
               else if incoming < previous then False
               else if incomingStatus = Some R_failed then currentStatus \<noteq> Some R_failed
               else if incomingStatus = Some R_canceled
                 then currentStatus \<noteq> Some R_failed \<and> currentStatus \<noteq> Some R_canceled
               else False)))"

text \<open>The pattern of a UUID in the database, in any case; a UUID column compares case-insensitively.\<close>

definition DATABASE_UUID_PATTERN :: "string \<Rightarrow> bool" where
  "DATABASE_UUID_PATTERN s \<longleftrightarrow> list_match (replicate 8 hex_lower @ [(=) CHR ''-''] @ replicate 4 hex_lower
     @ [(=) CHR ''-''] @ replicate 4 hex_lower @ [(=) CHR ''-''] @ replicate 4 hex_lower @ [(=) CHR ''-'']
     @ replicate 12 hex_lower) (map ascii_lower_char s)"

definition storedWebhookEndpoint_parse :: "WebhookEndpoint \<Rightarrow> err + WebhookEndpoint" where
  "storedWebhookEndpoint_parse e = (if e = EP_connected_live then Inl (TypeError ''ZodError'') else Inr e)"

subsection \<open>Webhook receipts\<close>

definition store_markWebhookReceiptFailed :: "txctx \<Rightarrow> string \<Rightarrow> string \<Rightarrow> string \<Rightarrow> unit tx" where
  "store_markWebhookReceiptFailed ctx0 tenantId receiptId errorCode =
     withTenantTransaction ctx0 tenantId (\<lambda>ctx.
     bind_tx (gets_tx (getWebhookReceipt ctx receiptId)) (\<lambda>receipt.
     if (case receipt of None \<Rightarrow> False | Some x \<Rightarrow> wr_status x = RC_processed) then return_tx ()
     else bind_tx (markWebhookReceiptFailed ctx receiptId errorCode) (\<lambda>marked.
       if \<not> marked then throw_tx (Error ''WEBHOOK_RECEIPT_FAILURE_COMPARE_AND_SET_FAILED'') else return_tx ())))"

text \<open>
  The check of a stored receipt against the job that claims to carry it, shared by both kinds of
  event. The result is False when the receipt has been processed already.
\<close>

definition receipt_matches_job ::
  "txctx \<Rightarrow> string \<Rightarrow> string \<Rightarrow> string \<Rightarrow> string \<Rightarrow> StripeEnvironment \<Rightarrow> NormalizedAccountWebhookPayload \<Rightarrow> bool tx" where
  "receipt_matches_job ctx receiptId installationId stripeEventId stripeAccountId environment expectedPayload =
     bind_tx (gets_tx (getWebhookReceipt ctx receiptId)) (\<lambda>found.
     case found of None \<Rightarrow> throw_tx (Error ''WEBHOOK_RECEIPT_NOT_FOUND'')
     | Some receipt \<Rightarrow>
       if wr_status receipt = RC_processed then return_tx False
       else bind_tx (lift_tx (storedWebhookEndpoint_parse (wr_endpoint receipt))) (\<lambda>endpoint.
         bind_tx (lift_tx (assertNormalizedAccountWebhookRowConsistency endpoint (wr_eventType receipt)
            (Some (wr_objectId receipt)) (wr_stripeCreatedAt receipt) (wr_normalizedPayload receipt)))
         (\<lambda>storedPayload.
         if wr_installationId receipt \<noteq> installationId
            \<or> environmentForStoredWebhookEndpoint endpoint \<noteq> environment
            \<or> wr_stripeEventId receipt \<noteq> stripeEventId \<or> wr_stripeAccountId receipt \<noteq> stripeAccountId
            \<or> storedPayload \<noteq> expectedPayload
         then throw_tx (Error ''WEBHOOK_RECEIPT_JOB_MISMATCH'') else return_tx True)))"

definition finish_receipt :: "txctx \<Rightarrow> string \<Rightarrow> date \<Rightarrow> unit tx" where
  "finish_receipt ctx receiptId processedAt =
     bind_tx (markWebhookReceiptProcessed ctx receiptId processedAt) (\<lambda>marked.
     if \<not> marked then throw_tx (Error ''WEBHOOK_RECEIPT_PROCESS_COMPARE_AND_SET_FAILED'') else return_tx ())"

text \<open>An audit event of the worker; the actor snapshot has its default, the empty object.\<close>

definition audit ::
  "txctx \<Rightarrow> string \<Rightarrow> string \<Rightarrow> string \<Rightarrow> string \<Rightarrow> json \<Rightarrow> string \<Rightarrow> date \<Rightarrow> unit tx" where
  "audit ctx actorType action entityType entityId payload randomUUID occurredAt =
     bind_tx (appendAuditEvent ctx \<lparr>ae_id = [], ae_tenantId = [], ae_actorType = actorType, ae_actorId = None, ae_actorSnapshot = JsObj [],
       ae_action = action, ae_entityType = entityType, ae_entityId = entityId, ae_payload = payload,
       ae_correlationRequestId = randomUUID, ae_occurredAt = occurredAt\<rparr>) (\<lambda>_. return_tx ())"

subsection \<open>Installation lifecycle\<close>

definition TENANT_PURGE_DELAY_MILLISECONDS :: int where
  "TENANT_PURGE_DELAY_MILLISECONDS = 29 * 24 * 60 * 60 * 1000"

definition lifecycle_payload :: "InstallationLifecycleInput \<Rightarrow> NormalizedAccountWebhookPayload" where
  "lifecycle_payload input = \<lparr>np_environment = il_environment input, np_event_created = il_eventCreated input,
     np_event_idempotency_key = il_eventIdempotencyKey input, np_event_type = il_eventType input,
     np_body = InstallationBody (il_applicationId input)\<rparr>"

definition tenant_live :: "txctx \<Rightarrow> db \<Rightarrow> bool" where
  "tenant_live ctx d = (case first_row (\<lambda>t. tn_id t = cx_tenant ctx) (tenants d) of
     None \<Rightarrow> False | Some t \<Rightarrow> tn_liveEnabled t)"

definition apply_lifecycle :: "txctx \<Rightarrow> InstallationLifecycleInput \<Rightarrow> StripeInstallation \<Rightarrow> bool tx" where
  "apply_lifecycle ctx input installation =
     (if il_eventType input = ''account.application.deauthorized'' then
        applyWebhookDeauthorization ctx \<lparr>wd_installationId = il_installationId input,
          wd_stripeEventId = il_stripeEventId input, wd_stripeEventCreatedAt = il_eventCreated input * 1000,
          wd_purgeAt = il_eventCreated input * 1000 + TENANT_PURGE_DELAY_MILLISECONDS\<rparr>
      else return_tx (si_lastLifecycleEventId installation = Some (il_stripeEventId input)
             \<and> si_lastLifecycleEventType installation = Some (il_eventType input)))"

definition processInstallationLifecycle :: "txctx \<Rightarrow> InstallationLifecycleInput \<Rightarrow> string \<Rightarrow> unit tx" where
  "processInstallationLifecycle ctx0 input randomUUID =
     withTenantTransaction ctx0 (il_tenantId input) (\<lambda>ctx.
     bind_tx (receipt_matches_job ctx (il_receiptId input) (il_installationId input) (il_stripeEventId input)
       (il_stripeAccountId input) (il_environment input) (lifecycle_payload input)) (\<lambda>open.
     if \<not> open then return_tx ()
     else with_db (\<lambda>d. case getInstallationContext ctx (il_installationId input) d of
         None \<Rightarrow> throw_tx (Error ''WEBHOOK_LIFECYCLE_INSTALLATION_MISMATCH'')
       | Some installation \<Rightarrow>
         if si_stripeAccountId installation \<noteq> il_stripeAccountId input
            \<or> si_environment installation \<noteq> il_environment input \<or> tenant_live ctx d
         then throw_tx (Error ''WEBHOOK_LIFECYCLE_INSTALLATION_MISMATCH'')
         else bind_tx (apply_lifecycle ctx input installation) (\<lambda>applied.
           bind_tx (finish_receipt ctx (il_receiptId input) (il_processedAt input)) (\<lambda>_.
           audit ctx ''webhook'' (if il_eventType input = ''account.application.authorized''
               then ''installation.authorized'' else ''installation.deauthorized'')
             ''stripe_installation'' (il_installationId input)
             (JsObj [(''applied'', JsBool applied),
               (''environment'', JsStr (env_name (il_environment input))),
               (''stripe_event_id'', JsStr (il_stripeEventId input))])
             randomUUID (il_processedAt input))))))"

subsection \<open>Observing a refund\<close>

definition observed_payload :: "ObserveRefundInput \<Rightarrow> WebhookSource \<Rightarrow> NormalizedAccountWebhookPayload" where
  "observed_payload input w =
     (let refund = ob_refund input
      in \<lparr>np_environment = ob_environment input, np_event_created = sr_eventCreated w,
          np_event_idempotency_key = sr_eventIdempotencyKey w, np_event_type = sr_eventType w,
          np_body = RefundBody \<lparr>nr_refund_id = ro_refundId refund,
            nr_payment_intent_id = ro_paymentIntentId refund, nr_charge_id = ro_chargeId refund,
            nr_amount_minor = show_int (ro_amountMinor refund), nr_currency = ro_currency refund,
            nr_status = ro_status refund, nr_created = ro_created refund,
            nr_metadata_request_id = ro_metadataRequestId refund,
            nr_metadata_proof = ro_metadataProof refund\<rparr>\<rparr>)"

text \<open>\<open>&&\<close> and \<open>||\<close> short-circuit, so the currencies are normalised, and may throw, only when the fields before agree.\<close>

definition tuple_matches ::
  "ObserveRefundInput \<Rightarrow> string \<Rightarrow> RefundRequest \<Rightarrow> err + bool" where
  "tuple_matches input paymentKey request =
     (let refund = ob_refund input
      in if rr_installationId request \<noteq> ob_installationId input \<or> rr_environment request \<noteq> ob_environment input
            \<or> rr_paymentKey request \<noteq> paymentKey \<or> rr_amountMinor request \<noteq> ro_amountMinor refund
         then Inr False
         else bind_err (normalizeCurrency (rr_currency request)) (\<lambda>c1.
           bind_err (normalizeCurrency (ro_currency refund)) (\<lambda>c2.
           Inr (c1 = c2
             \<and> (rr_paymentIntentId request = None \<or> rr_paymentIntentId request = ro_paymentIntentId refund)
             \<and> (rr_chargeId request = None \<or> rr_chargeId request = ro_chargeId refund)))))"

definition proof_valid ::
  "PrismaWorkerStore \<Rightarrow> ObserveRefundInput \<Rightarrow> string \<Rightarrow> bool \<Rightarrow> RefundRequest \<Rightarrow> err + bool" where
  "proof_valid st input stripeAccountId tupleMatches request =
     (case ro_metadataProof (ob_refund input) of None \<Rightarrow> Inr False
      | Some token \<Rightarrow>
        if \<not> tupleMatches then Inr False
        else verify (ws_hmac st) (ws_proofs st)
          \<lparr>rp_tenantId = ob_tenantId input, rp_stripeAccountId = stripeAccountId, rp_requestId = rr_id request,
           rp_paymentKey = rr_paymentKey request, rp_amountMinor = rr_amountMinor request,
           rp_currency = rr_currency request, rp_environment = rr_environment request\<rparr> token)"

text \<open>What lines 1173 to 1250 compute from the observation and the request it names.\<close>

record ObservationFacts =
  fa_request :: "(RefundRequest \<times> RefundExecution option) option"
  fa_paymentKey :: string
  fa_status :: "StripeRefundStatus option"
  fa_proven :: bool  \<comment> \<open>tupleMatches and proofValid\<close>
  fa_class :: RefundEvidenceClassification
  fa_correlation :: EventIdempotencyCorrelation

definition observed_request :: "txctx \<Rightarrow> RefundObservation \<Rightarrow> db \<Rightarrow> (RefundRequest \<times> RefundExecution option) option" where
  "observed_request ctx refund d = (case ro_metadataRequestId refund of None \<Rightarrow> None
     | Some i \<Rightarrow> if \<not> DATABASE_UUID_PATTERN i then None
        else map_option (\<lambda>(r, _, e). (r, map_option fst e)) (getRefundRequestDetail ctx (map ascii_lower_char i) d))"

definition fact_execution :: "(RefundRequest \<times> RefundExecution option) option \<Rightarrow> RefundExecution option" where
  "fact_execution request = (case request of None \<Rightarrow> None | Some (_, e) \<Rightarrow> e)"

definition classify_observation ::
  "ObserveRefundInput \<Rightarrow> (RefundRequest \<times> RefundExecution option) option \<Rightarrow> bool \<Rightarrow> RefundEvidenceClassification" where
  "classify_observation input request proofValid' =
     (let refund = ob_refund input
      in if ro_metadataRequestId refund \<noteq> None \<and> request = None then C_tampered
         else classifyRefundEvidence \<lparr>candidateRefundId = ro_refundId refund,
           metadataRequestId = ro_metadataRequestId refund, metadataProof = ro_metadataProof refund,
           expectedRequestId = (case request of None \<Rightarrow> [] | Some (r, _) \<Rightarrow> rr_id r), proofValid = proofValid',
           linkedRefundId = (case fact_execution request of None \<Rightarrow> None | Some e \<Rightarrow> ex_stripeRefundId e)\<rparr>)"

definition event_correlation :: "RefundObservationSource \<Rightarrow> RefundExecution option \<Rightarrow> EventIdempotencyCorrelation" where
  "event_correlation source execution = (case source of S_scan _ \<Rightarrow> EV_absent
     | S_webhook w \<Rightarrow> (case sr_eventIdempotencyKey w of None \<Rightarrow> EV_absent
        | Some k \<Rightarrow> (case execution of None \<Rightarrow> EV_mismatch
           | Some e \<Rightarrow> if k = ex_idempotencyKey e then EV_exact else EV_mismatch)))"

definition observation_facts ::
  "PrismaWorkerStore \<Rightarrow> txctx \<Rightarrow> ObserveRefundInput \<Rightarrow> string \<Rightarrow> db \<Rightarrow> err + ObservationFacts" where
  "observation_facts st ctx input stripeAccountId d =
     bind_err (paymentKeyOf (ob_refund input)) (\<lambda>paymentKey.
     (let request = observed_request ctx (ob_refund input) d
      in bind_err (case request of None \<Rightarrow> Inr False | Some (r, _) \<Rightarrow> tuple_matches input paymentKey r) (\<lambda>tupleMatches.
      bind_err (case request of None \<Rightarrow> Inr False
         | Some (r, _) \<Rightarrow> proof_valid st input stripeAccountId tupleMatches r) (\<lambda>proofValid'.
      Inr \<lparr>fa_request = request, fa_paymentKey = paymentKey,
           fa_status = authoritativeObservedRefundStatus (ob_refund input) (ob_source input),
           fa_proven = proofValid', fa_class = classify_observation input request proofValid',
           fa_correlation = event_correlation (ob_source input) (fact_execution request)\<rparr>))))"

definition already_linked :: "ObserveRefundInput \<Rightarrow> ObservationFacts \<Rightarrow> bool" where
  "already_linked input facts \<longleftrightarrow> fa_class facts \<in> {C_workflow_candidate, C_workflow_refund}
     \<and> (case fact_execution (fa_request facts) of None \<Rightarrow> False
        | Some e \<Rightarrow> ex_stripeRefundId e = Some (ro_refundId (ob_refund input)))"

definition known_observation_already_handled :: "ObserveRefundInput \<Rightarrow> ObservationFacts \<Rightarrow> bool" where
  "known_observation_already_handled input facts \<longleftrightarrow> already_linked input facts
     \<and> (case fact_execution (fa_request facts) of None \<Rightarrow> False
        | Some e \<Rightarrow> \<not> shouldApplyLinkedRefundObservation (ex_stripeRefundStatus e) (ex_lastStripeEventCreatedAt e)
             (ob_refund input) (ob_source input))"

definition event_id :: "RefundObservationSource \<Rightarrow> string option" where
  "event_id source = (case source of S_webhook w \<Rightarrow> Some (sr_stripeEventId w) | S_scan _ \<Rightarrow> None)"

definition event_created_at :: "RefundObservationSource \<Rightarrow> date option" where
  "event_created_at source = (case source of S_webhook w \<Rightarrow> Some (sr_eventCreated w * 1000) | S_scan _ \<Rightarrow> None)"

text \<open>Lines 1251 to 1274: the correlation candidate; without one the count is 0 and the state absent.\<close>

definition persist_candidate ::
  "txctx \<Rightarrow> ObserveRefundInput \<Rightarrow> ObservationFacts \<Rightarrow> (nat \<times> CorrelationCandidateState option) tx" where
  "persist_candidate ctx input facts =
     (case fa_request facts of
        Some (r, Some _) \<Rightarrow>
          if fa_proven facts \<and> fa_class facts \<in> {C_workflow_candidate, C_workflow_refund, C_proof_replay} then
            bind_tx (lift_tx (normalizeCurrency (ro_currency (ob_refund input)))) (\<lambda>currency.
            bind_tx (recordRefundCorrelationCandidate ctx \<lparr>ci_requestId = rr_id r,
               ci_installationId = ob_installationId input, ci_stripeRefundId = ro_refundId (ob_refund input),
               ci_paymentKey = fa_paymentKey facts, ci_paymentIntentId = ro_paymentIntentId (ob_refund input),
               ci_chargeId = ro_chargeId (ob_refund input), ci_amountMinor = ro_amountMinor (ob_refund input),
               ci_currency = currency, ci_stripeRefundStatus = fa_status facts,
               ci_stripeCreatedAt = ro_created (ob_refund input) * 1000,
               ci_stripeEventId = event_id (ob_source input),
               ci_stripeEventCreatedAt = event_created_at (ob_source input),
               ci_eventIdempotencyCorrelation = fa_correlation facts,
               ci_scanWindowEnd = (case ob_source input of S_scan t \<Rightarrow> Some t | S_webhook _ \<Rightarrow> None),
               ci_observedAt = ob_observedAt input\<rparr>) (\<lambda>(candidateCount, state).
            return_tx (candidateCount, Some state)))
          else return_tx (0, None)
      | _ \<Rightarrow> return_tx (0, None))"

definition identify_observed :: "txctx \<Rightarrow> ObserveRefundInput \<Rightarrow> ObservationFacts \<Rightarrow> string \<Rightarrow> unit tx" where
  "identify_observed ctx input facts requestId =
     bind_tx (markRefundIdentified ctx \<lparr>ii_requestId = requestId,
        ii_stripeRefundId = ro_refundId (ob_refund input), ii_stripeRefundStatus = fa_status facts,
        ii_preserve = True, ii_stripeRequestId = None, ii_stripeEventId = event_id (ob_source input),
        ii_stripeEventCreatedAt = event_created_at (ob_source input), ii_observedAt = ob_observedAt input\<rparr>) (\<lambda>identified.
     if \<not> identified then throw_tx (Error ''OBSERVED_REFUND_COMPARE_AND_SET_FAILED'') else return_tx ())"

text \<open>An unlinked candidate, lines 1283 to 1338: link it on exact evidence, else reconcile.\<close>

definition link_candidate ::
  "txctx \<Rightarrow> ObserveRefundInput \<Rightarrow> ObservationFacts \<Rightarrow> string \<Rightarrow> nat \<Rightarrow> RefundEvidenceClassification tx" where
  "link_candidate ctx input facts requestId candidateCount =
     (let refundId = ro_refundId (ob_refund input)
      in bind_tx (lift_tx (decideRefundCandidate None refundId (fa_correlation facts)
           (max 1 (int candidateCount)) False False)) (\<lambda>candidateDecision.
      if candidateDecision = CD_link_exact then
        bind_tx (identify_observed ctx input facts requestId) (\<lambda>_.
        bind_tx (markRefundCorrelationCandidateLinked ctx requestId refundId CC_exact_linked
          (ob_observedAt input)) (\<lambda>_.
        bind_tx (alert_conflicts ctx (ob_installationId input) requestId refundId (ob_observedAt input)) (\<lambda>_.
        return_tx C_workflow_refund)))
      else bind_tx (markReconciliationRequired ctx requestId) (\<lambda>_.
        return_tx (if candidateDecision = CD_conflict \<and> fa_correlation facts = EV_mismatch then C_tampered
          else if candidateDecision = CD_conflict then C_proof_replay else fa_class facts))))"

text \<open>A linked refund, lines 1339 to 1379: its candidate is marked and a newer status applied.\<close>

definition refresh_linked ::
  "txctx \<Rightarrow> ObserveRefundInput \<Rightarrow> ObservationFacts \<Rightarrow> string \<Rightarrow> CorrelationCandidateState option \<Rightarrow> RefundEvidenceClassification tx" where
  "refresh_linked ctx input facts requestId candidateState =
     (case candidateState of None \<Rightarrow> throw_tx (Error ''OBSERVED_REFUND_CANDIDATE_MISSING'')
      | Some state \<Rightarrow>
        bind_tx (markRefundCorrelationCandidateLinked ctx requestId (ro_refundId (ob_refund input))
           (if state = CC_unique_linked \<and> fa_correlation facts \<noteq> EV_exact then CC_unique_linked else CC_exact_linked)
           (ob_observedAt input)) (\<lambda>linked.
        if \<not> linked then throw_tx (Error ''OBSERVED_REFUND_CANDIDATE_COMPARE_AND_SET_FAILED'')
        else bind_tx (if known_observation_already_handled input facts then return_tx ()
            else identify_observed ctx input facts requestId) (\<lambda>_.
          return_tx (fa_class facts))))"

definition apply_observation ::
  "txctx \<Rightarrow> ObserveRefundInput \<Rightarrow> ObservationFacts \<Rightarrow> nat \<Rightarrow> CorrelationCandidateState option \<Rightarrow> RefundEvidenceClassification tx" where
  "apply_observation ctx input facts candidateCount candidateState =
     (case fa_request facts of
        Some (r, Some e) \<Rightarrow>
          if fa_class facts = C_workflow_candidate \<and> ex_stripeRefundId e = None
             \<and> rr_workflowStatus r \<in> {W_executing, W_reconciliation_required}
             \<and> \<not> known_observation_already_handled input facts
          then link_candidate ctx input facts (rr_id r) candidateCount
          else if already_linked input facts then refresh_linked ctx input facts (rr_id r) candidateState
          else return_tx (fa_class facts)
      | _ \<Rightarrow> return_tx (fa_class facts))"

definition alert_class :: "RefundEvidenceClassification \<Rightarrow> AlertClassification option" where
  "alert_class c = (case c of C_external \<Rightarrow> Some AC_external | C_tampered \<Rightarrow> Some AC_tampered
     | C_proof_replay \<Rightarrow> Some AC_proof_replay | _ \<Rightarrow> None)"

definition raise_alert :: "txctx \<Rightarrow> ObserveRefundInput \<Rightarrow> ObservationFacts \<Rightarrow> RefundEvidenceClassification \<Rightarrow> unit tx" where
  "raise_alert ctx input facts final =
     (case alert_class final of None \<Rightarrow> return_tx ()
      | Some alert \<Rightarrow>
        if known_observation_already_handled input facts then return_tx ()
        else bind_tx (lift_tx (normalizeCurrency (ro_currency (ob_refund input)))) (\<lambda>currency.
          bind_tx (observeExternalRefund ctx \<lparr>eo_installationId = ob_installationId input,
            eo_stripeRefundId = ro_refundId (ob_refund input),
            eo_stripeRefundCreatedAt = Some (ro_created (ob_refund input) * 1000),
            eo_paymentKey = fa_paymentKey facts, eo_amountMinor = ro_amountMinor (ob_refund input),
            eo_currency = currency, eo_classification = alert, eo_observedAt = Some (ob_observedAt input)\<rparr>)
          (\<lambda>_. return_tx ())))"

definition class_name :: "RefundEvidenceClassification \<Rightarrow> string" where
  "class_name c = (case c of C_external \<Rightarrow> ''external'' | C_tampered \<Rightarrow> ''tampered''
     | C_workflow_candidate \<Rightarrow> ''workflow_candidate'' | C_workflow_refund \<Rightarrow> ''workflow_refund''
     | C_proof_replay \<Rightarrow> ''proof_replay'')"

definition observe_installation :: "txctx \<Rightarrow> ObserveRefundInput \<Rightarrow> StripeInstallation tx" where
  "observe_installation ctx input =
     with_db (\<lambda>d. case getInstallationContext ctx (ob_installationId input) d of
        None \<Rightarrow> throw_tx (Error ''REFUND_OBSERVATION_INSTALLATION_MISMATCH'')
      | Some installation \<Rightarrow>
        if si_environment installation \<noteq> ob_environment input \<or> si_status installation \<noteq> I_active
           \<or> \<not> (\<exists>t \<in> set (tenants d). tn_id t = cx_tenant ctx \<and> tn_status t = T_active) \<or> tenant_live ctx d
        then throw_tx (Error ''REFUND_OBSERVATION_INSTALLATION_MISMATCH'') else return_tx installation)"

definition observe_unit_of_work :: "PrismaWorkerStore \<Rightarrow> ObserveRefundInput \<Rightarrow> string \<Rightarrow> txctx \<Rightarrow> unit tx" where
  "observe_unit_of_work st input randomUUID ctx =
     (if ob_environment input = Env_live then throw_tx (Error ''REFUND_OBSERVATION_INSTALLATION_MISMATCH'')
      else bind_tx (case ob_source input of S_scan _ \<Rightarrow> return_tx True
          | S_webhook w \<Rightarrow> receipt_matches_job ctx (sr_receiptId w) (ob_installationId input) (sr_stripeEventId w)
              (sr_stripeAccountId w) (ob_environment input) (observed_payload input w)) (\<lambda>open.
        if \<not> open then return_tx ()
        else bind_tx (observe_installation ctx input) (\<lambda>installation.
          bind_tx (with_db (\<lambda>d. lift_tx (observation_facts st ctx input (si_stripeAccountId installation) d))) (\<lambda>facts.
          bind_tx (persist_candidate ctx input facts) (\<lambda>(candidateCount, candidateState).
          bind_tx (apply_observation ctx input facts candidateCount candidateState) (\<lambda>final.
          bind_tx (raise_alert ctx input facts final) (\<lambda>_.
          bind_tx (case ob_source input of S_scan _ \<Rightarrow> return_tx ()
             | S_webhook w \<Rightarrow> finish_receipt ctx (sr_receiptId w) (ob_observedAt input)) (\<lambda>_.
          audit ctx ''worker'' ''refund.observed'' ''stripe_refund'' (ro_refundId (ob_refund input))
            (JsObj [(''source'', JsStr (case ob_source input of S_webhook _ \<Rightarrow> ''webhook'' | S_scan _ \<Rightarrow> ''scan'')),
               (''classification'', JsStr (class_name final)),
               (''event_idempotency_key_present'', JsBool (case ob_source input of
                  S_webhook w \<Rightarrow> sr_eventIdempotencyKey w \<noteq> None | S_scan _ \<Rightarrow> False))])
            randomUUID (ob_observedAt input)))))))))"

definition observeRefund :: "PrismaWorkerStore \<Rightarrow> txctx \<Rightarrow> ObserveRefundInput \<Rightarrow> string \<Rightarrow> unit tx" where
  "observeRefund st ctx input randomUUID =
     withTenantTransaction ctx (ob_tenantId input) (observe_unit_of_work st input randomUUID)"

subsection \<open>Linked refunds and checkpoints\<close>

definition store_listLinkedTargets ::
  "txctx \<Rightarrow> string \<Rightarrow> string \<Rightarrow> string option \<Rightarrow> int \<Rightarrow> (string \<times> string) list tx" where
  "store_listLinkedTargets ctx0 tenantId installationId afterRequestId limit =
     withTenantTransaction ctx0 tenantId (\<lambda>ctx.
     with_db (\<lambda>d. case getInstallationContext ctx installationId d of
        None \<Rightarrow> throw_tx (Error ''LINKED_REFUND_RECONCILIATION_INSTALLATION_MISMATCH'')
      | Some installation \<Rightarrow>
        if si_status installation \<noteq> I_active \<or> si_environment installation = Env_live
           \<or> \<not> (\<exists>t \<in> set (tenants d). tn_id t = cx_tenant ctx \<and> tn_status t = T_active) \<or> tenant_live ctx d
        then throw_tx (Error ''LINKED_REFUND_RECONCILIATION_INSTALLATION_MISMATCH'')
        else listLinkedRefundReconciliationTargets ctx installationId afterRequestId limit))"

definition linked_tuple_matches ::
  "RefundObservation \<Rightarrow> string \<Rightarrow> RefundRequest \<Rightarrow> RefundExecution \<Rightarrow> err + bool" where
  "linked_tuple_matches refund paymentKey r e =
     (if rr_paymentKey r \<noteq> paymentKey \<or> rr_amountMinor r \<noteq> ro_amountMinor refund then Inr False
      else bind_err (normalizeCurrency (rr_currency r)) (\<lambda>c1.
        bind_err (normalizeCurrency (ro_currency refund)) (\<lambda>c2.
        if c1 \<noteq> c2 \<or> ex_amountMinor e \<noteq> rr_amountMinor r then Inr False
        else bind_err (normalizeCurrency (ex_currency e)) (\<lambda>c3.
          Inr (c3 = c1 \<and> (rr_paymentIntentId r = None \<or> rr_paymentIntentId r = ro_paymentIntentId refund)
            \<and> (rr_chargeId r = None \<or> rr_chargeId r = ro_chargeId refund))))))"

definition refund_status_name :: "StripeRefundStatus \<Rightarrow> string" where
  "refund_status_name s = (case s of R_pending \<Rightarrow> ''pending'' | R_requires_action \<Rightarrow> ''requires_action''
     | R_succeeded \<Rightarrow> ''succeeded'' | R_failed \<Rightarrow> ''failed'' | R_canceled \<Rightarrow> ''canceled'')"

text \<open>The update of a request whose linked refund was read directly, lines 1512 to 1539.\<close>

definition converge_linked ::
  "txctx \<Rightarrow> ObserveLinkedRefundInput \<Rightarrow> string \<Rightarrow> date \<Rightarrow> date \<Rightarrow> string \<Rightarrow> unit tx" where
  "converge_linked ctx input requestId scanWindowEnd observedAt randomUUID =
     (let status' = ro_status (ol_refund input)
      in bind_tx (markRefundIdentified ctx \<lparr>ii_requestId = requestId,
          ii_stripeRefundId = ol_expectedRefundId input, ii_stripeRefundStatus = status',
          ii_preserve = (status' \<notin> {Some R_succeeded, Some R_failed, Some R_canceled}),
          ii_stripeRequestId = None, ii_stripeEventId = None, ii_stripeEventCreatedAt = None,
          ii_observedAt = observedAt\<rparr>) (\<lambda>identified.
      if \<not> identified then throw_tx (Error ''LINKED_REFUND_RECONCILIATION_COMPARE_AND_SET_FAILED'')
      else audit ctx ''worker'' ''refund.linked_status_refreshed'' ''stripe_refund'' (ol_expectedRefundId input)
        (JsObj [(''source'', JsStr ''linked_scan''),
           (''scan_window_end'', JsStr (toISOString scanWindowEnd)),
           (''stripe_refund_status'', case status' of None \<Rightarrow> JsNull | Some s \<Rightarrow> JsStr (refund_status_name s))])
        randomUUID observedAt))"

definition observe_linked_unit_of_work ::
  "ObserveLinkedRefundInput \<Rightarrow> date \<Rightarrow> date \<Rightarrow> string \<Rightarrow> txctx \<Rightarrow> unit tx" where
  "observe_linked_unit_of_work input scanWindowEnd observedAt randomUUID ctx =
     bind_tx (gets_tx (lockExecutionAuthorization ctx (ol_requestId input) (ol_installationId input))) (\<lambda>authorizationLocked.
     if \<not> authorizationLocked then throw_tx (Error ''LINKED_REFUND_RECONCILIATION_REQUEST_NOT_FOUND'')
     else bind_tx (getExecutionWorkItem ctx (ol_requestId input)) (\<lambda>found.
       let mismatch = throw_tx (Error ''LINKED_REFUND_RECONCILIATION_REQUEST_MISMATCH'')
       in case found of None \<Rightarrow> mismatch
       | Some item \<Rightarrow>
         (case wi_execution item of None \<Rightarrow> mismatch
          | Some (e, _) \<Rightarrow>
            if \<not> hasActivePilotExecutionContext item
               \<or> rr_installationId (wi_request item) \<noteq> ol_installationId input
               \<or> rr_environment (wi_request item) \<noteq> ol_environment input
               \<or> ex_stripeRefundId e \<noteq> Some (ol_expectedRefundId input) then mismatch
            else bind_tx (lift_tx (paymentKeyOf (ol_refund input))) (\<lambda>paymentKey.
              bind_tx (lift_tx (linked_tuple_matches (ol_refund input) paymentKey (wi_request item) e)) (\<lambda>matches.
              if \<not> matches then throw_tx (Error ''LINKED_REFUND_RECONCILIATION_TUPLE_MISMATCH'')
              else converge_linked ctx input (rr_id (wi_request item)) scanWindowEnd observedAt randomUUID)))))"

definition observeLinkedRefund :: "txctx \<Rightarrow> ObserveLinkedRefundInput \<Rightarrow> string \<Rightarrow> unit tx" where
  "observeLinkedRefund ctx0 input randomUUID =
     withTenantTransaction ctx0 (ol_tenantId input) (\<lambda>ctx.
     case (ol_scanWindowEnd input, ol_observedAt input) of
       (Some scanWindowEnd, Some observedAt) \<Rightarrow>
         if observedAt < scanWindowEnd \<or> \<not> prefixed_id ''re_'' (ol_expectedRefundId input)
            \<or> ro_refundId (ol_refund input) \<noteq> ol_expectedRefundId input
         then throw_tx (Error ''LINKED_REFUND_RECONCILIATION_INPUT_MISMATCH'')
         else observe_linked_unit_of_work input scanWindowEnd observedAt randomUUID ctx
     | _ \<Rightarrow> throw_tx (Error ''LINKED_REFUND_RECONCILIATION_INPUT_MISMATCH''))"

definition loadReconciliationCheckpoint :: "txctx \<Rightarrow> string \<Rightarrow> string \<Rightarrow> date option tx" where
  "loadReconciliationCheckpoint ctx0 tenantId installationId =
     withTenantTransaction ctx0 tenantId (\<lambda>ctx.
     bind_tx (gets_tx (getReconciliationCheckpoint ctx installationId)) (\<lambda>checkpoint.
     return_tx (map_option ck_committedThrough checkpoint)))"

definition commit_unit_of_work :: "CommitCheckpointInput \<Rightarrow> txctx \<Rightarrow> unit tx" where
  "commit_unit_of_work input ctx =
     bind_tx (gets_tx (getReconciliationCheckpoint ctx (cm_installationId input))) (\<lambda>current.
     if map_option ck_committedThrough current \<noteq> cm_previousWindowEnd input
     then throw_tx (Error ''RECONCILIATION_CHECKPOINT_COMPARE_AND_SET_FAILED'')
     else bind_tx (beginReconciliationWindow ctx (cm_installationId input)
         (case cm_previousWindowEnd input of Some t \<Rightarrow> t | None \<Rightarrow> cm_windowStart input) (cm_windowEnd input)) (\<lambda>_.
       bind_tx (completeReconciliationWindow ctx (cm_installationId input) (cm_windowEnd input) None) (\<lambda>_.
       bind_tx (resolveUniqueRefundCandidates ctx (cm_installationId input) (cm_windowStart input)
         (cm_windowEnd input) (cm_completedAt input)) (\<lambda>_. return_tx ()))))"

definition commitReconciliationCheckpoint :: "txctx \<Rightarrow> CommitCheckpointInput \<Rightarrow> unit tx" where
  "commitReconciliationCheckpoint ctx0 input =
     withTenantTransaction ctx0 (cm_tenantId input) (commit_unit_of_work input)"

end
