(* ===== verification/Worker_Process.thy ===== *)
theory Worker_Process
  imports Worker_Observations
begin

text \<open>
  The worker's job handlers as processes. A process interleaves transactions, calls to Stripe and
  readings of the clock; what the rest of the system commits in between, what Stripe answers,
  which transactions conflict and where the process crashes are parameters, indexed by the number
  of actions performed so far, so that a statement for all parameters covers every schedule. A
  transaction that has committed stays committed when a later action fails.
\<close>

subsection \<open>Stripe values\<close>

record NormalizedPayment =
  py_paymentKey :: string
  py_paymentIntentId :: "string option"
  py_chargeId :: string
  py_amountCaptured :: int
  py_amountRefunded :: int
  py_currency :: string
  py_captured :: bool
  py_paid :: bool
  py_disputed :: bool
  py_paymentMethodType :: "string option"
  py_hasConnectSemantics :: bool

record CreateRefundInput =
  cr_installation :: WorkerInstallation
  cr_paymentIntentId :: "string option"
  cr_chargeId :: "string option"
  cr_amountMinor :: int
  cr_reason :: RefundReason
  cr_requestId :: string  \<comment> \<open>metadata.refunddesk\_request\_id\<close>
  cr_proof :: string  \<comment> \<open>metadata.refunddesk\_proof\<close>
  cr_idempotencyKey :: string

record NormalizedRefund =
  nf_id :: string
  nf_paymentIntentId :: "string option"
  nf_chargeId :: "string option"
  nf_amountMinor :: int
  nf_currency :: string
  nf_status :: "StripeRefundStatus option"
  nf_created :: int
  nf_metadataRequestId :: "string option"
  nf_metadataProof :: "string option"
  nf_requestId :: "string option"

text \<open>A thrown value as the worker reads it: the properties that are strings, and the integral status code.\<close>

record ThrownValue =
  th_type :: "string option"
  th_code :: "string option"
  th_name :: "string option"
  th_statusCode :: "int option"

subsection \<open>Failures of Stripe calls\<close>

definition kindOf :: "ThrownValue \<Rightarrow> RefundFailureKind" where
  "kindOf e =
     (if th_type e = Some ''StripeRateLimitError'' \<or> th_code e = Some ''rate_limit'' then F_rate_limit
      else if th_type e = Some ''StripeAuthenticationError'' then F_authentication
      else if th_type e = Some ''StripePermissionError'' then F_permission
      else if th_type e = Some ''StripeInvalidRequestError'' then F_invalid_request
      else if th_type e = Some ''StripeIdempotencyError'' then F_idempotency
      else if th_type e = Some ''StripeAPIError'' then F_api_error
      else if th_type e = Some ''StripeConnectionError'' then F_network
      else if th_name e = Some ''AbortError'' \<or> th_code e = Some ''ETIMEDOUT''
           \<or> th_code e = Some ''UND_ERR_CONNECT_TIMEOUT'' then F_timeout
      else if th_code e \<in> {Some ''ECONNRESET'', Some ''ECONNREFUSED'', Some ''EPIPE'', Some ''ENETUNREACH''}
        then F_network
      else if th_statusCode e = Some 404 then F_not_found
      else if th_statusCode e = Some 409 then F_conflict
      else F_unknown)"

definition kind_upper :: "RefundFailureKind \<Rightarrow> string" where
  "kind_upper k = (case k of F_network \<Rightarrow> ''NETWORK'' | F_timeout \<Rightarrow> ''TIMEOUT'' | F_rate_limit \<Rightarrow> ''RATE_LIMIT''
     | F_api_error \<Rightarrow> ''API_ERROR'' | F_authentication \<Rightarrow> ''AUTHENTICATION'' | F_permission \<Rightarrow> ''PERMISSION''
     | F_invalid_request \<Rightarrow> ''INVALID_REQUEST'' | F_idempotency \<Rightarrow> ''IDEMPOTENCY'' | F_not_found \<Rightarrow> ''NOT_FOUND''
     | F_conflict \<Rightarrow> ''CONFLICT'' | F_unknown \<Rightarrow> ''UNKNOWN'')"

definition secret_prefixed :: "string \<Rightarrow> bool" where
  "secret_prefixed s \<longleftrightarrow> list_ex (\<lambda>p. take (length p) s = p)
     [''sk_test_'', ''sk_live_'', ''rk_test_'', ''rk_live_'', ''whsec_'', ''absec_'']"

definition safe_code_pattern :: "string \<Rightarrow> bool" where
  "safe_code_pattern s \<longleftrightarrow> 1 \<le> length s \<and> length s \<le> 64
     \<and> list_all (\<lambda>c. alnum c \<or> c = CHR ''_'' \<or> c = CHR ''.'' \<or> c = CHR ''-'') s"

definition safeCode :: "RefundFailureKind \<Rightarrow> ThrownValue \<Rightarrow> string" where
  "safeCode kind e = (case th_code e of
     Some supplied \<Rightarrow> if safe_code_pattern supplied \<and> \<not> secret_prefixed supplied then supplied
       else ''STRIPE_'' @ kind_upper kind
   | None \<Rightarrow> ''STRIPE_'' @ kind_upper kind)"

definition normalizeStripeFailure :: "ThrownValue \<Rightarrow> bool \<Rightarrow> string \<times> ClassifiedRefundFailure" where
  "normalizeStripeFailure e crossed =
     (safeCode (kindOf e) e,
      classifyRefundFailure \<lparr>fs_kind = kindOf e, httpStatus = th_statusCode e, effectBoundaryCrossed = crossed\<rparr>)"

subsection \<open>Processes\<close>

record world =
  wl_db :: db
  wl_time :: nat
  wl_refund_calls :: "CreateRefundInput list"  \<comment> \<open>newest first\<close>
  wl_jobs :: "(string \<times> string) list"  \<comment> \<open>execution jobs enqueued, newest first\<close>

record WorkerDependencies =
  de_store :: PrismaWorkerStore
  de_session :: "nat \<Rightarrow> txctx"
  de_others :: "nat \<Rightarrow> db \<Rightarrow> db"
  de_clock :: "nat \<Rightarrow> date"
  de_random :: "nat \<Rightarrow> string"
  de_uuid :: "string \<Rightarrow> bool"  \<comment> \<open>the \<open>uuid\<close> schema of zod\<close>
  de_crash :: "nat \<Rightarrow> err option"  \<comment> \<open>the crash hooks\<close>
  de_retrievePayment :: "nat \<Rightarrow> WorkerInstallation \<Rightarrow> AttestationResourceType \<Rightarrow> string \<Rightarrow> ThrownValue + NormalizedPayment"
  de_createRefund :: "nat \<Rightarrow> CreateRefundInput \<Rightarrow> ThrownValue + NormalizedRefund"
  de_retrieveRefund :: "nat \<Rightarrow> WorkerInstallation \<Rightarrow> string \<Rightarrow> ThrownValue + NormalizedRefund"
  de_listRefunds :: "nat \<Rightarrow> WorkerInstallation \<Rightarrow> int \<Rightarrow> int \<Rightarrow> string option \<Rightarrow> ThrownValue + (NormalizedRefund list \<times> bool)"
  de_enqueue :: "nat \<Rightarrow> string \<Rightarrow> string \<Rightarrow> err + string option"

type_synonym 'a act = "world \<Rightarrow> (err + 'a) \<times> world"

definition return_act :: "'a \<Rightarrow> 'a act" where
  "return_act x w = (Inr x, w)"

definition throw_act :: "err \<Rightarrow> 'a act" where
  "throw_act e w = (Inl e, w)"

definition bind_act :: "'a act \<Rightarrow> ('a \<Rightarrow> 'b act) \<Rightarrow> 'b act" where
  "bind_act m f w = (case m w of (Inl e, w') \<Rightarrow> (Inl e, w') | (Inr x, w') \<Rightarrow> f x w')"

definition lift_act :: "err + 'a \<Rightarrow> 'a act" where
  "lift_act r w = (r, w)"

text \<open>\<open>try\<close>: the outcome of an action as a value.\<close>

definition try_act :: "'a act \<Rightarrow> (err + 'a) act" where
  "try_act m w = (case m w of (r, w') \<Rightarrow> (Inr r, w'))"

definition tick :: "world \<Rightarrow> world" where
  "tick w = w\<lparr>wl_time := Suc (wl_time w)\<rparr>"

text \<open>A transaction: the rest of the system moves first, then the transaction commits or is rolled back.\<close>

definition tx_act :: "WorkerDependencies \<Rightarrow> (txctx \<Rightarrow> 'a tx) \<Rightarrow> 'a act" where
  "tx_act de operation w =
     (let d = de_others de (wl_time w) (wl_db w)
      in case operation (de_session de (wl_time w)) d of
           Inl e \<Rightarrow> (Inl e, (tick w)\<lparr>wl_db := d\<rparr>)
         | Inr (x, d') \<Rightarrow> (Inr x, (tick w)\<lparr>wl_db := d'\<rparr>))"

definition now_act :: "WorkerDependencies \<Rightarrow> date act" where
  "now_act de w = (Inr (de_clock de (wl_time w)), tick w)"

definition random_act :: "WorkerDependencies \<Rightarrow> string act" where
  "random_act de w = (Inr (de_random de (wl_time w)), tick w)"

definition stripe_act :: "(nat \<Rightarrow> ThrownValue + 'a) \<Rightarrow> (ThrownValue + 'a) act" where
  "stripe_act call w = (Inr (call (wl_time w)), tick w)"

definition createRefund_act :: "WorkerDependencies \<Rightarrow> CreateRefundInput \<Rightarrow> (ThrownValue + NormalizedRefund) act" where
  "createRefund_act de input w =
     (Inr (de_createRefund de (wl_time w) input), (tick w)\<lparr>wl_refund_calls := input # wl_refund_calls w\<rparr>)"

definition crash_hook :: "WorkerDependencies \<Rightarrow> nat \<Rightarrow> unit act" where
  "crash_hook de n w = (case de_crash de n of None \<Rightarrow> (Inr (), w) | Some e \<Rightarrow> (Inl e, w))"

end
