(* ===== verification/Refund_Execution.thy ===== *)
theory Refund_Execution
  imports Worker_Process
begin

text \<open>
  \<open>apps/worker/src/refund-execution.ts\<close> and \<open>safety.ts\<close>: the job that executes an approved refund.
  The four crash hooks are numbered in the order the handler reaches them. Logging is omitted.
\<close>

definition assertPilotConfiguration :: "bool \<Rightarrow> err + unit" where
  "assertPilotConfiguration liveEnabled = (if liveEnabled then Inl LiveModeRejected else Inr ())"

definition assertPilotInstallation :: "WorkerInstallation \<Rightarrow> err + unit" where
  "assertPilotInstallation installation =
     (if \<not> in_active installation then Inl (Error ''INSTALLATION_INACTIVE'')
      else if in_environment installation = Env_live \<or> in_tenantLiveEnabled installation then Inl LiveModeRejected
      else Inr ())"

definition paymentIdentityMatches :: "RefundExecutionRecord \<Rightarrow> NormalizedPayment \<Rightarrow> bool" where
  "paymentIdentityMatches record payment =
     (if py_paymentKey payment \<noteq> re_paymentKey record \<or> py_chargeId payment \<noteq> re_chargeId record then False
      else re_paymentIntentId record = None \<or> py_paymentIntentId payment = re_paymentIntentId record)"

definition refundResponseMatches :: "RefundExecutionRecord \<Rightarrow> NormalizedRefund \<Rightarrow> err + bool" where
  "refundResponseMatches record refund =
     (if (if re_resourceType record = RT_payment_intent then nf_paymentIntentId refund = Some (re_resourceId record)
          else nf_chargeId refund = Some (re_resourceId record))
         \<and> nf_amountMinor refund = re_amountMinor record
      then bind_err (normalizeCurrency (nf_currency refund)) (\<lambda>c1.
        bind_err (normalizeCurrency (re_currency record)) (\<lambda>c2. Inr (c1 = c2)))
      else Inr False)"

definition markPreflightFailure :: "WorkerDependencies \<Rightarrow> RefundExecutionRecord \<Rightarrow> bool \<Rightarrow> unit act" where
  "markPreflightFailure de record ambiguous' =
     bind_act (now_act de) (\<lambda>at'.
     if ambiguous' \<or> re_effectState record = E_possible
     then tx_act de (\<lambda>ctx. recordReconciliationRequired ctx (re_tenantId record) (re_requestId record))
     else tx_act de (\<lambda>ctx. recordTerminalWithoutEffect ctx (re_tenantId record) (re_requestId record) at'))"

definition eligibility_input :: "RefundExecutionRecord \<Rightarrow> NormalizedPayment \<Rightarrow> PaymentEligibilityInput" where
  "eligibility_input record payment = \<lparr>pe_paymentKey = py_paymentKey payment,
     amountCaptured = py_amountCaptured payment, amountRefunded = py_amountRefunded payment,
     pe_currency = py_currency payment, paid = py_paid payment, captured = py_captured payment,
     disputed = py_disputed payment, paymentMethodType = py_paymentMethodType payment,
     hasConnectSemantics = py_hasConnectSemantics payment,
     requestedAmountMinor = Some (re_amountMinor record), requestedCurrency = Some (re_currency record)\<rparr>"

definition proof_payload :: "RefundExecutionRecord \<Rightarrow> RefundProofPayload" where
  "proof_payload record = \<lparr>rp_tenantId = re_tenantId record,
     rp_stripeAccountId = in_stripeAccountId (re_installation record), rp_requestId = re_requestId record,
     rp_paymentKey = re_paymentKey record, rp_amountMinor = re_amountMinor record,
     rp_currency = re_currency record, rp_environment = in_environment (re_installation record)\<rparr>"

definition refund_call :: "RefundExecutionRecord \<Rightarrow> string \<Rightarrow> string \<Rightarrow> CreateRefundInput" where
  "refund_call record proof_token key = \<lparr>cr_installation = re_installation record,
     cr_paymentIntentId = (if re_resourceType record = RT_payment_intent then Some (re_resourceId record) else None),
     cr_chargeId = (if re_resourceType record = RT_payment_intent then None else Some (re_resourceId record)),
     cr_amountMinor = re_amountMinor record, cr_reason = re_reason record, cr_requestId = re_requestId record,
     cr_proof = proof_token, cr_idempotencyKey = key\<rparr>"

text \<open>The outcome of the Stripe call: lines 221 to 283.\<close>

definition record_failure :: "WorkerDependencies \<Rightarrow> RefundExecutionRecord \<Rightarrow> string \<Rightarrow> ThrownValue \<Rightarrow> unit act" where
  "record_failure de record attemptId e =
     (let (code, failure) = normalizeStripeFailure e True
      in bind_act (now_act de) (\<lambda>at'.
      let input = \<lparr>af_tenantId = re_tenantId record, af_requestId = re_requestId record,
            af_attemptId = attemptId, af_errorCode = code, af_at = at'\<rparr>
      in if classification failure = ambiguous
         then tx_act de (\<lambda>ctx. recordAmbiguousAttemptFailure ctx input)
         else if classification failure = terminal
         then tx_act de (\<lambda>ctx. recordTerminalAttemptWithoutEffect ctx input)
         else bind_act (tx_act de (\<lambda>ctx. recordRetryableAttemptFailure ctx input)) (\<lambda>_.
           throw_act (RetryableWorkerError code))))"

definition record_success ::
  "WorkerDependencies \<Rightarrow> RefundExecutionRecord \<Rightarrow> string \<Rightarrow> string \<Rightarrow> NormalizedRefund \<Rightarrow> unit act" where
  "record_success de record attemptId key refund =
     bind_act (crash_hook de 2) (\<lambda>_.
     bind_act (lift_act (refundResponseMatches record refund)) (\<lambda>matches.
     bind_act (now_act de) (\<lambda>at'.
     bind_act (tx_act de (\<lambda>ctx. recordIdentifiedRefund ctx \<lparr>ri_tenantId = re_tenantId record,
        ri_requestId = re_requestId record, ri_attemptId = attemptId, ri_idempotencyKey = key,
        ri_refundId = nf_id refund, ri_refundStatus = nf_status refund,
        ri_stripeRequestId = nf_requestId refund, ri_responseMatchesRequest = matches, ri_at = at'\<rparr>)) (\<lambda>_.
     crash_hook de 3))))"

definition perform_refund :: "WorkerDependencies \<Rightarrow> RefundExecutionRecord \<Rightarrow> string \<Rightarrow> string \<Rightarrow> unit act" where
  "perform_refund de record attemptId key =
     bind_act (crash_hook de 1) (\<lambda>_.
     bind_act (lift_act (sign (ws_hmac (de_store de)) (ws_proofs (de_store de)) (proof_payload record))) (\<lambda>proof_token.
     bind_act (createRefund_act de (refund_call record proof_token key)) (\<lambda>answer.
     case answer of Inl e \<Rightarrow> record_failure de record attemptId e
     | Inr refund \<Rightarrow> record_success de record attemptId key refund)))"

definition cross_and_perform :: "WorkerDependencies \<Rightarrow> RefundExecutionRecord \<Rightarrow> string \<Rightarrow> unit act" where
  "cross_and_perform de record key =
     bind_act (crash_hook de 0) (\<lambda>_.
     bind_act (now_act de) (\<lambda>at'.
     bind_act (tx_act de (\<lambda>ctx. persistEffectBoundary (de_store de) ctx \<lparr>pb_tenantId = re_tenantId record,
        pb_requestId = re_requestId record, pb_idempotencyKey = key, pb_at = at'\<rparr>)) (\<lambda>boundary.
     case boundary of
       B_execute attemptId boundaryKey \<Rightarrow>
         if boundaryKey \<noteq> key then throw_act (Error ''IDEMPOTENCY_KEY_INVARIANT_VIOLATION'')
         else perform_refund de record attemptId key
     | _ \<Rightarrow> return_act ())))"

definition revalidate_and_execute :: "WorkerDependencies \<Rightarrow> RefundExecutionRecord \<Rightarrow> string \<Rightarrow> unit act" where
  "revalidate_and_execute de record key =
     bind_act (stripe_act (\<lambda>n. de_retrievePayment de n (re_installation record) (re_resourceType record)
        (re_resourceId record))) (\<lambda>answer.
     case answer of
       Inl e \<Rightarrow>
         (let (code, failure) = normalizeStripeFailure e (re_effectState record = E_possible
                \<or> re_effectState record = E_identified)
          in if classification failure = retryable then throw_act (RetryableWorkerError code)
             else markPreflightFailure de record (classification failure = ambiguous))
     | Inr payment \<Rightarrow>
         if \<not> paymentIdentityMatches record payment
         then markPreflightFailure de record (re_effectState record = E_possible)
         else bind_act (lift_act (evaluatePaymentEligibility (eligibility_input record payment))) (\<lambda>eligibility.
           case eligibility of Ineligible _ \<Rightarrow> markPreflightFailure de record (re_effectState record = E_possible)
           | Eligible _ _ _ \<Rightarrow> cross_and_perform de record key))"

definition handleRefundExecutionJob :: "WorkerDependencies \<Rightarrow> string \<Rightarrow> string \<Rightarrow> unit act" where
  "handleRefundExecutionJob de tenant_id request_id =
     (if \<not> de_uuid de tenant_id \<or> \<not> de_uuid de request_id then throw_act (TypeError ''ZodError'')
      else bind_act (now_act de) (\<lambda>now.
        bind_act (tx_act de (\<lambda>ctx. loadRefundExecution (de_store de) ctx tenant_id request_id now)) (\<lambda>found.
        case found of None \<Rightarrow> return_act ()
        | Some record \<Rightarrow>
          bind_act (lift_act (assertPilotInstallation (re_installation record))) (\<lambda>_.
          bind_act (lift_act (refundIdempotencyKey (re_requestId record))) (\<lambda>key.
          revalidate_and_execute de record key)))))"

end
