(* ===== verification/Worker_Jobs.thy ===== *)
theory Worker_Jobs
  imports Worker_Process
begin

text \<open>
  The other jobs of the worker: recovery of approved executions (\<open>execution-recovery.ts\<close>),
  expiry (\<open>expiration.ts\<close>), the reconciliation scan (\<open>reconciliation-scanner.ts\<close>), webhook jobs
  (\<open>webhook-processing.ts\<close>, \<open>webhook-recovery.ts\<close>) and the operations of \<open>db-store.ts\<close> that span several
  transactions. The loops are bounded by the source's own limits: pages, batches, lists.
\<close>

definition read_act :: "WorkerDependencies \<Rightarrow> (db \<Rightarrow> 'a) \<Rightarrow> 'a act" where
  "read_act de f = tx_act de (\<lambda>_. gets_tx f)"

subsection \<open>Global reads through security-definer functions\<close>

record ScannableWorkerInstallation =
  sc_installation :: WorkerInstallation
  sc_installedAt :: date

definition listScannableInstallations :: "db \<Rightarrow> ScannableWorkerInstallation list" where
  "listScannableInstallations d =
     concat (map (\<lambda>i. map (\<lambda>t. \<lparr>sc_installation = \<lparr>in_tenantId = si_tenantId i, in_installationId = si_id i,
            in_stripeAccountId = si_stripeAccountId i, in_environment = si_environment i,
            in_active = (tn_status t = T_active \<and> si_status i = I_active),
            in_tenantLiveEnabled = tn_liveEnabled t\<rparr>, sc_installedAt = si_installedAt i\<rparr>)
          (filter (\<lambda>t. tn_id t = si_tenantId i \<and> tn_status t = T_active) (tenants d)))
        (sort_key (\<lambda>i. (si_tenantId i, si_id i)) (filter (\<lambda>i. si_status i = I_active \<and> non_live (si_environment i))
          (installations d))))"

subsection \<open>Attestations\<close>

definition store_persistApprovalAttestation ::
  "WorkerDependencies \<Rightarrow> PersistApprovalAttestationInput \<Rightarrow> (string \<times> bytes) act" where
  "store_persistApprovalAttestation de input =
     bind_act (read_act de (resolveInstallation (pa_stripeAccountId input) (pa_environment input))) (\<lambda>resolved.
     bind_act (lift_act resolved) (\<lambda>found.
     case found of None \<Rightarrow> throw_act (store_invalid ''installation_not_active'')
     | Some installation \<Rightarrow>
       if si_status installation \<noteq> I_active then throw_act (store_invalid ''installation_not_active'')
       else (let operation = bind_act (random_act de) (\<lambda>randomUUID.
               tx_act de (\<lambda>ctx. withTenantTransaction ctx (si_tenantId installation)
                 (attestation_unit_of_work (de_store de) input (si_id installation) randomUUID)))
         in bind_act (try_act operation) (\<lambda>outcome.
            case outcome of Inr r \<Rightarrow> return_act r
            | Inl (UniqueViolation _) \<Rightarrow> operation
            | Inl e \<Rightarrow> throw_act e))))"

subsection \<open>Execution recovery\<close>

record ApprovedRefundExecution =
  ax_tenantId :: string
  ax_requestId :: string
  ax_installation :: WorkerInstallation

definition execution_cannot_be_recovered :: "ExecutionWorkItem \<Rightarrow> string \<Rightarrow> bool" where
  "execution_cannot_be_recovered item expected \<longleftrightarrow>
     rr_workflowStatus (wi_request item) = W_executing \<and> rr_effectState (wi_request item) = E_absence_proven
       \<and> wi_execution item = None
     \<or> (case wi_execution item of None \<Rightarrow> False
        | Some (e, _) \<Rightarrow> ex_stripeRefundId e \<noteq> None \<or> ex_idempotencyKey e \<noteq> expected)"

fun recover_items ::
  "WorkerDependencies \<Rightarrow> string \<Rightarrow> ExecutionWorkItem list \<Rightarrow> ApprovedRefundExecution list \<Rightarrow> ApprovedRefundExecution list act" where
  "recover_items de tenantId [] acc = return_act acc"
| "recover_items de tenantId (item # items) acc =
     bind_act (lift_act (refundIdempotencyKey (rr_id (wi_request item)))) (\<lambda>expected.
     if execution_cannot_be_recovered item expected then
       bind_act (if rr_workflowStatus (wi_request item) = W_executing
          then tx_act de (\<lambda>ctx. withTenantTransaction ctx tenantId (\<lambda>ctx.
            requireExecutionReconciliation ctx (rr_id (wi_request item))))
          else return_act ()) (\<lambda>_. recover_items de tenantId items acc)
     else recover_items de tenantId items (acc @ [\<lparr>ax_tenantId = rr_tenantId (wi_request item),
        ax_requestId = rr_id (wi_request item),
        ax_installation = worker_installation item (tn_status (wi_tenant item) = T_active
           \<and> si_status (wi_installation item) = I_active)\<rparr>]))"

fun recover_tenants ::
  "WorkerDependencies \<Rightarrow> int \<Rightarrow> string list \<Rightarrow> ApprovedRefundExecution list \<Rightarrow> ApprovedRefundExecution list act" where
  "recover_tenants de limit [] acc = return_act acc"
| "recover_tenants de limit (tenantId # tenantIds) acc =
     (let remaining = limit - int (length acc)
      in if remaining \<le> 0 then return_act acc
         else bind_act (tx_act de (\<lambda>ctx. withTenantTransaction ctx tenantId (\<lambda>ctx.
             prepareExecutionRecoveryWork ctx (min remaining 100)))) (\<lambda>work.
           bind_act (recover_items de tenantId work acc) (recover_tenants de limit tenantIds)))"

definition listApprovedRefundExecutions :: "WorkerDependencies \<Rightarrow> int \<Rightarrow> ApprovedRefundExecution list act" where
  "listApprovedRefundExecutions de limit =
     (if \<not> safe_integer limit \<or> limit < 1 \<or> limit > 1000
      then throw_act (RangeError ''Approved recovery limit must be between 1 and 1000'')
      else bind_act (read_act de listActiveTenantIds) (\<lambda>tenantIds. recover_tenants de limit tenantIds []))"

definition rejected_candidate :: "ApprovedRefundExecution \<Rightarrow> bool" where
  "rejected_candidate c \<longleftrightarrow> in_tenantId (ax_installation c) \<noteq> ax_tenantId c \<or> \<not> in_active (ax_installation c)
     \<or> in_environment (ax_installation c) = Env_live \<or> in_tenantLiveEnabled (ax_installation c)"

definition enqueue_act :: "WorkerDependencies \<Rightarrow> string \<Rightarrow> string \<Rightarrow> string option act" where
  "enqueue_act de tenantId requestId w =
     (de_enqueue de (wl_time w) tenantId requestId, (tick w)\<lparr>wl_jobs := (tenantId, requestId) # wl_jobs w\<rparr>)"

text \<open>The loop over the candidates; the result is the counts the handler logs: enqueued, duplicate, skipped.\<close>

fun enqueue_candidates ::
  "WorkerDependencies \<Rightarrow> ApprovedRefundExecution list \<Rightarrow> nat \<times> nat \<times> nat \<Rightarrow> (nat \<times> nat \<times> nat) act" where
  "enqueue_candidates de [] counts = return_act counts"
| "enqueue_candidates de (c # cs) (enqueued, duplicates, skipped) =
     (if rejected_candidate c then enqueue_candidates de cs (enqueued, duplicates, Suc skipped)
      else if \<not> de_uuid de (ax_tenantId c) \<or> \<not> de_uuid de (ax_requestId c) then throw_act (TypeError ''ZodError'')
      else bind_act (enqueue_act de (ax_tenantId c) (ax_requestId c)) (\<lambda>queuedId.
        if queuedId = None then enqueue_candidates de cs (enqueued, Suc duplicates, skipped)
        else enqueue_candidates de cs (Suc enqueued, duplicates, skipped)))"

definition handleApprovedExecutionRecoveryJob :: "WorkerDependencies \<Rightarrow> string \<Rightarrow> (nat \<times> nat \<times> nat) act" where
  "handleApprovedExecutionRecoveryJob de scope =
     (if scope \<noteq> ''approved'' then throw_act (TypeError ''ZodError'')
      else bind_act (listApprovedRefundExecutions de 500) (\<lambda>cs. enqueue_candidates de cs (0, 0, 0)))"

subsection \<open>Expiry\<close>

fun expire_tenants :: "WorkerDependencies \<Rightarrow> date \<Rightarrow> int \<Rightarrow> string list \<Rightarrow> int \<Rightarrow> int act" where
  "expire_tenants de now limit [] expired = return_act expired"
| "expire_tenants de now limit (tenantId # tenantIds) expired =
     (if limit - expired \<le> 0 then return_act expired
      else bind_act (tx_act de (\<lambda>ctx. withTenantTransaction ctx tenantId (\<lambda>ctx.
          expirePendingRequests ctx now (limit - expired)))) (\<lambda>n.
        expire_tenants de now limit tenantIds (expired + int n)))"

definition expireDueRequests :: "WorkerDependencies \<Rightarrow> date \<Rightarrow> int \<Rightarrow> int act" where
  "expireDueRequests de now limit =
     bind_act (read_act de listActiveTenantIds) (\<lambda>tenantIds. expire_tenants de now limit tenantIds 0)"

text \<open>The batches of one job; the result is the number expired and whether a short batch ended the loop.\<close>

fun expire_batches :: "WorkerDependencies \<Rightarrow> date \<Rightarrow> nat \<Rightarrow> int \<Rightarrow> (int \<times> bool) act" where
  "expire_batches de now 0 expiredCount = return_act (expiredCount, False)"
| "expire_batches de now (Suc batches) expiredCount =
     bind_act (expireDueRequests de now 500) (\<lambda>count.
     if count < 500 then return_act (expiredCount + count, True)
     else expire_batches de now batches (expiredCount + count))"

definition handleExpirationJob :: "WorkerDependencies \<Rightarrow> string \<Rightarrow> (int \<times> bool) act" where
  "handleExpirationJob de scope =
     (if scope \<noteq> ''due'' then throw_act (TypeError ''ZodError'')
      else bind_act (now_act de) (\<lambda>now. expire_batches de now 100 0))"

subsection \<open>Webhook jobs\<close>

record ProcessWebhookJob =
  pj_tenant_id :: string
  pj_installation_id :: string
  pj_receipt_id :: string
  pj_stripe_event_id :: string
  pj_stripe_account_id :: string
  pj_payload :: NormalizedAccountWebhookPayload

definition bounded :: "nat \<Rightarrow> nat \<Rightarrow> string \<Rightarrow> bool" where
  "bounded lo hi s \<longleftrightarrow> lo \<le> length s \<and> length s \<le> hi"

definition opt_ok :: "('a \<Rightarrow> bool) \<Rightarrow> 'a option \<Rightarrow> bool" where
  "opt_ok p x = (case x of None \<Rightarrow> True | Some y \<Rightarrow> p y)"

definition normalizedWebhookRefundSchema :: "NormalizedWebhookRefund \<Rightarrow> bool" where
  "normalizedWebhookRefundSchema r \<longleftrightarrow>
     prefixed_id ''re_'' (nr_refund_id r) \<and> bounded 0 255 (nr_refund_id r)
     \<and> opt_ok (\<lambda>s. prefixed_id ''pi_'' s \<and> bounded 0 255 s) (nr_payment_intent_id r)
     \<and> opt_ok (\<lambda>s. prefixed_id ''ch_'' s \<and> bounded 0 255 s) (nr_charge_id r)
     \<and> (case nr_amount_minor r of [] \<Rightarrow> False | c # cs \<Rightarrow> in_range CHR ''1'' CHR ''9'' c \<and> list_all digit cs)
     \<and> bounded 0 32 (nr_amount_minor r) \<and> currency_pattern (nr_currency r) \<and> nr_created r \<ge> 0
     \<and> opt_ok (bounded 1 255) (nr_metadata_request_id r) \<and> opt_ok (bounded 1 255) (nr_metadata_proof r)
     \<and> (nr_payment_intent_id r \<noteq> None \<or> nr_charge_id r \<noteq> None)"

text \<open>\<open>/^[a-z]+\_[A-Za-z0-9]+$/\<close>: the first underscore ends the prefix.\<close>

definition stripe_object_id :: "string \<Rightarrow> bool" where
  "stripe_object_id s \<longleftrightarrow>
     (let prefix' = takeWhile lower_alpha s; rest = dropWhile lower_alpha s
      in prefix' \<noteq> [] \<and> rest \<noteq> [] \<and> hd rest = CHR ''_'' \<and> tl rest \<noteq> [] \<and> list_all alnum (tl rest)
         \<and> bounded 0 255 s)"

definition normalizedAccountWebhookPayloadSchema :: "NormalizedAccountWebhookPayload \<Rightarrow> bool" where
  "normalizedAccountWebhookPayloadSchema p \<longleftrightarrow> non_live (np_environment p) \<and> np_event_created p \<ge> 0
     \<and> opt_ok (bounded 1 255) (np_event_idempotency_key p)
     \<and> (case np_body p of
          RefundBody r \<Rightarrow> np_event_type p \<in> {''refund.created'', ''refund.updated'', ''refund.failed''}
            \<and> normalizedWebhookRefundSchema r
        | InstallationBody a \<Rightarrow> np_event_type p \<in> {''account.application.authorized'', ''account.application.deauthorized''}
            \<and> stripe_object_id a)"

definition processWebhookJobSchema :: "WorkerDependencies \<Rightarrow> ProcessWebhookJob \<Rightarrow> bool" where
  "processWebhookJobSchema de job \<longleftrightarrow> de_uuid de (pj_tenant_id job) \<and> de_uuid de (pj_installation_id job)
     \<and> de_uuid de (pj_receipt_id job)
     \<and> prefixed_id ''evt_'' (pj_stripe_event_id job) \<and> bounded 0 255 (pj_stripe_event_id job)
     \<and> prefixed_id ''acct_'' (pj_stripe_account_id job) \<and> bounded 0 255 (pj_stripe_account_id job)
     \<and> normalizedAccountWebhookPayloadSchema (pj_payload job)"

definition refundObservationFromJob :: "NormalizedWebhookRefund \<Rightarrow> RefundObservation" where
  "refundObservationFromJob r = \<lparr>ro_refundId = nr_refund_id r, ro_paymentIntentId = nr_payment_intent_id r,
     ro_chargeId = nr_charge_id r, ro_amountMinor = int (read_nat 0 (nr_amount_minor r)),
     ro_currency = nr_currency r, ro_status = nr_status r, ro_created = nr_created r,
     ro_metadataRequestId = nr_metadata_request_id r, ro_metadataProof = nr_metadata_proof r\<rparr>"

definition process_webhook :: "WorkerDependencies \<Rightarrow> ProcessWebhookJob \<Rightarrow> unit act" where
  "process_webhook de job =
     (let p = pj_payload job
      in bind_act (now_act de) (\<lambda>now.
      bind_act (random_act de) (\<lambda>randomUUID.
      case np_body p of
        RefundBody r \<Rightarrow> tx_act de (\<lambda>ctx. observeRefund (de_store de) ctx
          \<lparr>ob_tenantId = pj_tenant_id job, ob_installationId = pj_installation_id job,
           ob_environment = np_environment p, ob_refund = refundObservationFromJob r,
           ob_source = S_webhook \<lparr>sr_receiptId = pj_receipt_id job, sr_stripeEventId = pj_stripe_event_id job,
             sr_stripeAccountId = pj_stripe_account_id job,
             sr_eventIdempotencyKey = np_event_idempotency_key p, sr_eventType = np_event_type p,
             sr_eventCreated = np_event_created p\<rparr>,
           ob_observedAt = now\<rparr> randomUUID)
      | InstallationBody applicationId \<Rightarrow> tx_act de (\<lambda>ctx. processInstallationLifecycle ctx
          \<lparr>il_tenantId = pj_tenant_id job, il_installationId = pj_installation_id job,
           il_receiptId = pj_receipt_id job, il_stripeEventId = pj_stripe_event_id job,
           il_stripeAccountId = pj_stripe_account_id job, il_environment = np_environment p,
           il_eventType = np_event_type p, il_eventCreated = np_event_created p,
           il_eventIdempotencyKey = np_event_idempotency_key p, il_applicationId = applicationId,
           il_processedAt = now\<rparr> randomUUID))))"

definition handleWebhookJob :: "WorkerDependencies \<Rightarrow> ProcessWebhookJob \<Rightarrow> unit act" where
  "handleWebhookJob de job =
     (if \<not> processWebhookJobSchema de job then throw_act (Error ''WEBHOOK_JOB_INVALID'')
      else bind_act (try_act (process_webhook de job)) (\<lambda>outcome.
        case outcome of Inr _ \<Rightarrow> return_act ()
        | Inl _ \<Rightarrow> bind_act (try_act (tx_act de (\<lambda>ctx. store_markWebhookReceiptFailed ctx (pj_tenant_id job)
              (pj_receipt_id job) ''WEBHOOK_PROCESSING_FAILED''))) (\<lambda>_.
            throw_act (Error ''WEBHOOK_PROCESSING_FAILED''))))"

definition recoverable_receipt :: "db \<Rightarrow> WebhookReceipt \<Rightarrow> bool" where
  "recoverable_receipt d x \<longleftrightarrow> wr_endpoint x \<noteq> EP_connected_live \<and> wr_status x \<in> {RC_received, RC_failed}
     \<and> (\<exists>i \<in> set (installations d). si_id i = wr_installationId x \<and> si_tenantId i = wr_tenantId x
          \<and> si_stripeAccountId i = wr_stripeAccountId x
          \<and> endpoint_environment (wr_endpoint x) = Some (si_environment i)
          \<and> (\<exists>t \<in> set (tenants d). tn_id t = wr_tenantId x
               \<and> (take 20 (wr_eventType x) = ''account.application.''
                  \<or> tn_status t = T_active \<and> \<not> tn_liveEnabled t \<and> si_status i = I_active)))"

definition receipt_job :: "WebhookReceipt \<Rightarrow> err + ProcessWebhookJob" where
  "receipt_job x =
     bind_err (storedWebhookEndpoint_parse (wr_endpoint x)) (\<lambda>endpoint.
     bind_err (if \<not> prefixed_id ''evt_'' (wr_stripeEventId x) then Inl (TypeError ''Invalid Stripe event ID'') else Inr ()) (\<lambda>_.
     bind_err (if \<not> prefixed_id ''acct_'' (wr_stripeAccountId x) then Inl (TypeError ''Invalid Stripe account ID'') else Inr ()) (\<lambda>_.
     bind_err (assertNormalizedAccountWebhookRowConsistency endpoint (wr_eventType x) (Some (wr_objectId x))
       (wr_stripeCreatedAt x) (wr_normalizedPayload x)) (\<lambda>payload.
     Inr \<lparr>pj_tenant_id = wr_tenantId x, pj_installation_id = wr_installationId x, pj_receipt_id = wr_id x,
          pj_stripe_event_id = wr_stripeEventId x, pj_stripe_account_id = wr_stripeAccountId x,
          pj_payload = payload\<rparr>))))"

fun traverse_err :: "('a \<Rightarrow> err + 'b) \<Rightarrow> 'a list \<Rightarrow> err + 'b list" where
  "traverse_err f [] = Inr []"
| "traverse_err f (x # xs) = bind_err (f x) (\<lambda>y. bind_err (traverse_err f xs) (\<lambda>ys. Inr (y # ys)))"

text \<open>All rows are checked by \<open>listRecoverableWebhookReceipts\<close> before the first is parsed as a job.\<close>

definition listRecoverableWebhookJobs :: "WorkerDependencies \<Rightarrow> int \<Rightarrow> db \<Rightarrow> err + ProcessWebhookJob list" where
  "listRecoverableWebhookJobs de limit d =
     (if \<not> safe_integer limit \<or> limit < 1 \<or> limit > 1000
      then Inl (RangeError ''Webhook recovery limit must be between 1 and 1000'')
      else bind_err (traverse_err receipt_job (take (nat limit) (sort_key (\<lambda>x. (wr_receivedAt x, wr_id x))
             (filter (recoverable_receipt d) (receipts d))))) (\<lambda>jobs.
        if list_all (processWebhookJobSchema de) jobs then Inr jobs else Inl (TypeError ''ZodError'')))"

type_synonym webhook_queue = "nat \<Rightarrow> ProcessWebhookJob \<Rightarrow> err + string option"

fun enqueue_webhooks :: "webhook_queue \<Rightarrow> ProcessWebhookJob list \<Rightarrow> nat \<Rightarrow> nat act" where
  "enqueue_webhooks queue [] enqueued = return_act enqueued"
| "enqueue_webhooks queue (job # jobs) enqueued =
     bind_act (\<lambda>w. (Inr (queue (wl_time w) job), tick w)) (\<lambda>answer.
     case answer of Inl _ \<Rightarrow> throw_act (Error ''WEBHOOK_RECOVERY_ENQUEUE_FAILED'')
     | Inr jobId \<Rightarrow> enqueue_webhooks queue jobs (if jobId \<noteq> None then Suc enqueued else enqueued))"

definition handleWebhookRecoveryJob :: "WorkerDependencies \<Rightarrow> webhook_queue \<Rightarrow> string \<Rightarrow> nat act" where
  "handleWebhookRecoveryJob de queue scope =
     (if scope \<noteq> ''recoverable'' then throw_act (Error ''WEBHOOK_RECOVERY_JOB_INVALID'')
      else bind_act (read_act de (listRecoverableWebhookJobs de 500)) (\<lambda>listed.
        case listed of Inl _ \<Rightarrow> throw_act (Error ''WEBHOOK_RECOVERY_READ_FAILED'')
        | Inr jobs \<Rightarrow> enqueue_webhooks queue jobs 0))"

end
