(* ===== verification/Reconciliation_Scanner.thy ===== *)
theory Reconciliation_Scanner
  imports Worker_Jobs
begin

text \<open>
  \<open>apps/worker/src/reconciliation-scanner.ts\<close>: the job that reads refunds back from Stripe. Its two
  loops over pages stop at the source's limits of ten thousand pages; the model counts the pages
  that are left.
\<close>

definition isPilotScannableInstallation :: "WorkerInstallation \<Rightarrow> bool" where
  "isPilotScannableInstallation i \<longleftrightarrow> in_active i \<and> in_environment i \<noteq> Env_live \<and> \<not> in_tenantLiveEnabled i"

definition observationFromStripe :: "NormalizedRefund \<Rightarrow> RefundObservation" where
  "observationFromStripe r = \<lparr>ro_refundId = nf_id r, ro_paymentIntentId = nf_paymentIntentId r,
     ro_chargeId = nf_chargeId r, ro_amountMinor = nf_amountMinor r, ro_currency = nf_currency r,
     ro_status = nf_status r, ro_created = nf_created r, ro_metadataRequestId = nf_metadataRequestId r,
     ro_metadataProof = nf_metadataProof r\<rparr>"

definition stripeTimestamp :: "date \<Rightarrow> int" where
  "stripeTimestamp t = max 0 (t div 1000)"

definition OVERLAP_MILLISECONDS :: int where
  "OVERLAP_MILLISECONDS = 60 * 60 * 1000"

definition LINKED_REFUND_PAGE_SIZE :: nat where
  "LINKED_REFUND_PAGE_SIZE = 100"

definition MAX_PAGES_PER_INSTALLATION :: nat where
  "MAX_PAGES_PER_INSTALLATION = 10000"

definition MAX_LINKED_REFUND_PAGES_PER_INSTALLATION :: nat where
  "MAX_LINKED_REFUND_PAGES_PER_INSTALLATION = 10000"

subsection \<open>Linked refunds\<close>

text \<open>The body of the \<open>try\<close> block for one target.\<close>

definition refresh_target ::
  "WorkerDependencies \<Rightarrow> WorkerInstallation \<Rightarrow> date \<Rightarrow> string \<Rightarrow> string \<Rightarrow> unit act" where
  "refresh_target de installation scanWindowEnd requestId refundId =
     bind_act (stripe_act (\<lambda>n. de_retrieveRefund de n installation refundId)) (\<lambda>answer.
     case answer of Inl _ \<Rightarrow> throw_act (Error ''STRIPE'')
     | Inr refund \<Rightarrow>
       if nf_id refund \<noteq> refundId then throw_act (Error ''LINKED_REFUND_ID_MISMATCH'')
       else bind_act (now_act de) (\<lambda>now.
         bind_act (random_act de) (\<lambda>randomUUID.
         tx_act de (\<lambda>ctx. observeLinkedRefund ctx \<lparr>ol_tenantId = in_tenantId installation,
           ol_installationId = in_installationId installation, ol_environment = in_environment installation,
           ol_requestId = requestId, ol_expectedRefundId = refundId, ol_refund = observationFromStripe refund,
           ol_scanWindowEnd = Some scanWindowEnd, ol_observedAt = Some now\<rparr> randomUUID))))"

fun refresh_targets ::
  "WorkerDependencies \<Rightarrow> WorkerInstallation \<Rightarrow> date \<Rightarrow> string option \<Rightarrow> (string \<times> string) list \<Rightarrow> nat \<Rightarrow> nat act" where
  "refresh_targets de installation scanWindowEnd previous [] failed = return_act failed"
| "refresh_targets de installation scanWindowEnd previous ((requestId, refundId) # targets) failed =
     (if (case previous of None \<Rightarrow> False | Some p \<Rightarrow> requestId \<le> p)
      then throw_act (Error ''LINKED_REFUND_SCAN_CURSOR_DID_NOT_ADVANCE'')
      else bind_act (try_act (refresh_target de installation scanWindowEnd requestId refundId)) (\<lambda>outcome.
        refresh_targets de installation scanWindowEnd (Some requestId) targets
          (case outcome of Inl _ \<Rightarrow> Suc failed | Inr _ \<Rightarrow> failed)))"

fun refresh_pages ::
  "WorkerDependencies \<Rightarrow> WorkerInstallation \<Rightarrow> date \<Rightarrow> nat \<Rightarrow> string option \<Rightarrow> nat \<Rightarrow> nat act" where
  "refresh_pages de installation scanWindowEnd 0 afterRequestId failed =
     throw_act (Error ''LINKED_REFUND_SCAN_PAGE_LIMIT_EXCEEDED'')"
| "refresh_pages de installation scanWindowEnd (Suc pages) afterRequestId failed =
     bind_act (tx_act de (\<lambda>ctx. store_listLinkedTargets ctx (in_tenantId installation)
        (in_installationId installation) afterRequestId (int LINKED_REFUND_PAGE_SIZE))) (\<lambda>targets.
     if length targets > LINKED_REFUND_PAGE_SIZE then throw_act (Error ''LINKED_REFUND_SCAN_PAGE_SIZE_EXCEEDED'')
     else bind_act (refresh_targets de installation scanWindowEnd afterRequestId targets failed) (\<lambda>failed'.
       if length targets < LINKED_REFUND_PAGE_SIZE then return_act failed'
       else if targets = [] \<or> Some (fst (last targets)) = afterRequestId
         then throw_act (Error ''LINKED_REFUND_SCAN_CURSOR_DID_NOT_ADVANCE'')
       else refresh_pages de installation scanWindowEnd pages (Some (fst (last targets))) failed'))"

definition refreshLinkedRefunds :: "WorkerDependencies \<Rightarrow> WorkerInstallation \<Rightarrow> date \<Rightarrow> nat act" where
  "refreshLinkedRefunds de installation scanWindowEnd =
     refresh_pages de installation scanWindowEnd MAX_LINKED_REFUND_PAGES_PER_INSTALLATION None 0"

subsection \<open>Scanning an installation\<close>

fun observe_page :: "WorkerDependencies \<Rightarrow> WorkerInstallation \<Rightarrow> date \<Rightarrow> NormalizedRefund list \<Rightarrow> unit act" where
  "observe_page de installation windowEnd [] = return_act ()"
| "observe_page de installation windowEnd (refund # refunds) =
     bind_act (now_act de) (\<lambda>now.
     bind_act (random_act de) (\<lambda>randomUUID.
     bind_act (tx_act de (\<lambda>ctx. observeRefund (de_store de) ctx \<lparr>ob_tenantId = in_tenantId installation,
       ob_installationId = in_installationId installation, ob_environment = in_environment installation,
       ob_refund = observationFromStripe refund, ob_source = S_scan windowEnd, ob_observedAt = now\<rparr> randomUUID)) (\<lambda>_.
     observe_page de installation windowEnd refunds)))"

text \<open>The result of the loop is the number of pages and of refunds.\<close>

fun scan_pages ::
  "WorkerDependencies \<Rightarrow> WorkerInstallation \<Rightarrow> date \<Rightarrow> date \<Rightarrow> nat \<Rightarrow> string option \<Rightarrow> nat \<times> nat \<Rightarrow> (nat \<times> nat) act" where
  "scan_pages de installation windowStart windowEnd 0 startingAfter counts =
     throw_act (Error ''REFUND_SCAN_PAGE_LIMIT_EXCEEDED'')"
| "scan_pages de installation windowStart windowEnd (Suc left) startingAfter (pages, refunds) =
     bind_act (stripe_act (\<lambda>n. de_listRefunds de n installation (stripeTimestamp windowStart)
        (stripeTimestamp windowEnd) startingAfter)) (\<lambda>answer.
     case answer of Inl _ \<Rightarrow> throw_act (Error ''STRIPE'')
     | Inr (page, hasMore) \<Rightarrow>
       bind_act (observe_page de installation windowEnd page) (\<lambda>_.
       if \<not> hasMore then return_act (Suc pages, refunds + length page)
       else if page = [] then throw_act (Error ''REFUND_SCAN_EMPTY_PAGE_WITH_MORE'')
       else if Some (nf_id (last page)) = startingAfter then throw_act (Error ''REFUND_SCAN_CURSOR_DID_NOT_ADVANCE'')
       else scan_pages de installation windowStart windowEnd left (Some (nf_id (last page)))
         (Suc pages, refunds + length page)))"

definition scan_window :: "date option \<Rightarrow> date \<Rightarrow> date \<Rightarrow> date option \<times> date" where
  "scan_window checkpoint installedAt windowEnd =
     (let previousWindowEnd = map_option (\<lambda>t. min t windowEnd) checkpoint
      in (previousWindowEnd,
          (case previousWindowEnd of Some t \<Rightarrow> t | None \<Rightarrow> min installedAt windowEnd) - OVERLAP_MILLISECONDS))"

definition scanInstallation :: "WorkerDependencies \<Rightarrow> ScannableWorkerInstallation \<Rightarrow> date \<Rightarrow> unit act" where
  "scanInstallation de scannable windowEnd =
     (let installation = sc_installation scannable
      in bind_act (tx_act de (\<lambda>ctx. loadReconciliationCheckpoint ctx (in_tenantId installation)
           (in_installationId installation))) (\<lambda>checkpoint.
      let (previousWindowEnd, windowStart) = scan_window checkpoint (sc_installedAt scannable) windowEnd
      in bind_act (scan_pages de installation windowStart windowEnd MAX_PAGES_PER_INSTALLATION None (0, 0))
           (\<lambda>(pageCount, refundCount).
         bind_act (now_act de) (\<lambda>now.
         tx_act de (\<lambda>ctx. commitReconciliationCheckpoint ctx \<lparr>cm_tenantId = in_tenantId installation,
           cm_installationId = in_installationId installation, cm_previousWindowEnd = previousWindowEnd,
           cm_windowStart = windowStart, cm_windowEnd = windowEnd, cm_pageCount = int pageCount,
           cm_refundCount = int refundCount, cm_completedAt = now\<rparr>)))))"

fun scan_installations ::
  "WorkerDependencies \<Rightarrow> date \<Rightarrow> ScannableWorkerInstallation list \<Rightarrow> nat \<Rightarrow> nat act" where
  "scan_installations de windowEnd [] failures = return_act failures"
| "scan_installations de windowEnd (s # ss) failures =
     (if \<not> isPilotScannableInstallation (sc_installation s) then scan_installations de windowEnd ss failures
      else bind_act (try_act (refreshLinkedRefunds de (sc_installation s) windowEnd)) (\<lambda>linked.
        bind_act (try_act (scanInstallation de s windowEnd)) (\<lambda>scanned.
        scan_installations de windowEnd ss (failures
          + (case linked of Inr n \<Rightarrow> n | Inl _ \<Rightarrow> 1) + (case scanned of Inr _ \<Rightarrow> 0 | Inl _ \<Rightarrow> 1)))))"

definition handleReconciliationScanJob :: "WorkerDependencies \<Rightarrow> string \<Rightarrow> unit act" where
  "handleReconciliationScanJob de scope =
     (if scope \<noteq> ''all'' then throw_act (TypeError ''ZodError'')
      else bind_act (now_act de) (\<lambda>windowEnd.
        bind_act (read_act de listScannableInstallations) (\<lambda>installations'.
        bind_act (scan_installations de windowEnd installations' 0) (\<lambda>failureCount.
        if failureCount > 0 then throw_act (Error ''REFUND_SCAN_PARTIAL_FAILURE'') else return_act ()))))"

end
