(* ===== verification/Worker_Contract.thy ===== *)
theory Worker_Contract
  imports Repository_Theorems Refund_Execution Reconciliation_Scanner
begin

text \<open>
  The worker as a client of the repositories. The locale \<open>repository_client\<close> is the interface: a
  reflexive and transitive relation that every repository operation of the transaction keeps. All
  units of work of the store are proved once from it; the interpretations give that they are runs
  of repository operations, that they keep the invariant and the history, and that they are
  isolated to their tenant.
\<close>

locale repository_client = evolution R for R :: "db \<Rightarrow> db \<Rightarrow> bool" +
  fixes ctx :: txctx
  assumes operation: "repository_step ctx d d' \<Longrightarrow> R d d'"
begin

lemma steps_db: "(\<And>d. steps R (f d)) \<Longrightarrow> steps R (with_db f)"
  by (auto simp: steps_def)

lemma steps_source: "(\<And>w. steps R (f w)) \<Longrightarrow> (\<And>t. steps R (g t)) \<Longrightarrow>
    steps R (case s of S_webhook w \<Rightarrow> f w | S_scan t \<Rightarrow> g t)"
  by (cases s) auto

text \<open>The operations the store calls, each one step.\<close>

lemma ops:
  "steps R (getExecutionWorkItem ctx a1)"
  "steps R (markReconciliationRequired ctx a1)"
  "steps R (claimExecutionWorkItem ctx a1 a2)"
  "steps R (ensureExecution ctx a1 b2 a3 a4 b5)"
  "steps R (markEffectPossible ctx a1)"
  "steps R (beginExecutionAttempt ctx a1 n2 a2)"
  "steps R (finishExecutionAttempt ctx f1)"
  "steps R (markRefundIdentified ctx i1)"
  "steps R (markRefundCorrelationCandidateLinked ctx a1 b1 s1 a2)"
  "steps R (observeExternalRefund ctx e1)"
  "steps R (markCertainAbsenceWhileExecuting ctx a1)"
  "steps R (markTerminalFailureAfterAbsence ctx a1 a2)"
  "steps R (persistApprovalAttestation ctx p1)"
  "steps R (markWebhookReceiptFailed ctx a1 b1)"
  "steps R (markWebhookReceiptProcessed ctx a1 a2)"
  "steps R (appendAuditEvent ctx u1)"
  "steps R (applyWebhookDeauthorization ctx w1)"
  "steps R (recordRefundCorrelationCandidate ctx c1)"
  "steps R (listLinkedRefundReconciliationTargets ctx a1 o1 n2)"
  "steps R (beginReconciliationWindow ctx a1 a2 d2)"
  "steps R (completeReconciliationWindow ctx a1 a2 o1)"
  "steps R (resolveUniqueRefundCandidates ctx a1 a2 d2 d3)"
  "steps R (prepareExecutionRecoveryWork ctx n2)"
  "steps R (expirePendingRequests ctx a2 n2)"
  by (rule stepsI, rule operation, (rule repository_step.intros, assumption)+)+

lemmas client_rules = steps_rules steps_db steps_source ops

lemma requireExecutionReconciliation_steps: "steps R (requireExecutionReconciliation ctx i)"
  unfolding requireExecutionReconciliation_def by (intro client_rules)

lemma attestation_unit_of_work_steps: "steps R (attestation_unit_of_work st input i u ctx)"
  unfolding attestation_unit_of_work_def attest_request_def sign_and_persist_def Let_def by (intro client_rules)

lemma load_unit_of_work_steps: "steps R (load_unit_of_work st i now ctx)"
  unfolding load_unit_of_work_def load_claimed_def
  by (intro client_rules requireExecutionReconciliation_steps)

lemma boundary_unit_of_work_steps: "steps R (boundary_unit_of_work st input ctx)"
  unfolding boundary_unit_of_work_def boundary_locked_def cross_boundary_def Let_def
  by (intro client_rules requireExecutionReconciliation_steps)

lemma alert_conflicts_steps: "steps R (alert_conflicts ctx i r f t)"
  unfolding alert_conflicts_def by (intro client_rules)

lemma observe_unit_of_work_steps: "steps R (observe_unit_of_work st input u ctx)"
  unfolding observe_unit_of_work_def receipt_matches_job_def observe_installation_def persist_candidate_def
    apply_observation_def link_candidate_def refresh_linked_def identify_observed_def raise_alert_def
    finish_receipt_def audit_def Let_def
  by (intro client_rules alert_conflicts_steps)

lemma lifecycle_steps:
  "steps R (bind_tx (receipt_matches_job ctx r i e a n p) (\<lambda>open.
     if \<not> open then return_tx () else with_db (\<lambda>d. case getInstallationContext ctx i d of
         None \<Rightarrow> throw_tx e'
       | Some installation \<Rightarrow> if b installation d then throw_tx e' else
          bind_tx (apply_lifecycle ctx input installation) (\<lambda>applied.
           bind_tx (finish_receipt ctx r t) (\<lambda>_. audit ctx x1 x2 x3 x4 (x5 applied) x6 t)))))"
  unfolding receipt_matches_job_def apply_lifecycle_def finish_receipt_def audit_def by (intro client_rules)

lemma observe_linked_unit_of_work_steps: "steps R (observe_linked_unit_of_work input s t u ctx)"
  unfolding observe_linked_unit_of_work_def converge_linked_def audit_def Let_def by (intro client_rules)

lemma commit_unit_of_work_steps: "steps R (commit_unit_of_work input ctx)"
  unfolding commit_unit_of_work_def by (intro client_rules)

end

text \<open>
  A store operation opens its own transaction with its own tenant, so a relation that every
  transaction context keeps is kept by it.
\<close>

locale system_relation = evolution R for R :: "db \<Rightarrow> db \<Rightarrow> bool" +
  assumes any_operation: "repository_step ctx d d' \<Longrightarrow> R d d'"

sublocale system_relation \<subseteq> tenant: repository_client R "ctx\<lparr>cx_tenant := t\<rparr>" for ctx t
  by unfold_locales (rule any_operation)

context system_relation
begin

lemmas tenant_rules = steps_withTenantTransaction tenant.client_rules tenant.requireExecutionReconciliation_steps
  tenant.alert_conflicts_steps

lemma loadRefundExecution_steps: "steps R (loadRefundExecution st ctx t i now)"
  unfolding loadRefundExecution_def by (intro tenant_rules tenant.load_unit_of_work_steps)

lemma persistEffectBoundary_steps: "steps R (persistEffectBoundary st ctx input)"
  unfolding persistEffectBoundary_def by (intro tenant_rules tenant.boundary_unit_of_work_steps)

lemma recordIdentifiedRefund_steps: "steps R (recordIdentifiedRefund ctx input)"
  unfolding recordIdentifiedRefund_def by (intro tenant_rules)

lemma attempt_failure_steps:
  "steps R (recordRetryableAttemptFailure ctx input)" "steps R (recordAmbiguousAttemptFailure ctx input)"
  "steps R (recordTerminalAttemptWithoutEffect ctx input)" "steps R (recordTerminalWithoutEffect ctx t i a)"
  "steps R (recordReconciliationRequired ctx t i)"
  unfolding recordRetryableAttemptFailure_def recordAmbiguousAttemptFailure_def finish_failed_def
    recordTerminalAttemptWithoutEffect_def recordTerminalWithoutEffect_def recordReconciliationRequired_def
  by (intro tenant_rules)+

lemma store_attestation_steps:
  "steps R (withTenantTransaction ctx t (attestation_unit_of_work st input i u))"
  by (intro tenant_rules tenant.attestation_unit_of_work_steps)

lemma receipt_failed_steps: "steps R (store_markWebhookReceiptFailed ctx t i e)"
  unfolding store_markWebhookReceiptFailed_def by (intro tenant_rules)

lemma processInstallationLifecycle_steps: "steps R (processInstallationLifecycle ctx input u)"
  unfolding processInstallationLifecycle_def by (intro tenant_rules tenant.lifecycle_steps)

lemma observeRefund_steps: "steps R (observeRefund st ctx input u)"
  unfolding observeRefund_def by (intro tenant_rules tenant.observe_unit_of_work_steps)

lemma listLinkedTargets_steps: "steps R (store_listLinkedTargets ctx t i a n)"
  unfolding store_listLinkedTargets_def by (intro tenant_rules)

lemma observeLinkedRefund_steps: "steps R (observeLinkedRefund ctx input u)"
  unfolding observeLinkedRefund_def by (intro tenant_rules tenant.observe_linked_unit_of_work_steps)

lemma checkpoint_steps:
  "steps R (loadReconciliationCheckpoint ctx t i)" "steps R (commitReconciliationCheckpoint ctx input)"
  unfolding loadReconciliationCheckpoint_def commitReconciliationCheckpoint_def
  by (intro tenant_rules tenant.commit_unit_of_work_steps)+

lemmas store_operations = loadRefundExecution_steps persistEffectBoundary_steps recordIdentifiedRefund_steps
  attempt_failure_steps store_attestation_steps receipt_failed_steps processInstallationLifecycle_steps
  observeRefund_steps listLinkedTargets_steps observeLinkedRefund_steps checkpoint_steps

end

end
