(* ===== verification/Worker_Runs.thy ===== *)
theory Worker_Runs
  imports Worker_Contract
begin

text \<open>
  Runs of the worker's jobs. The locale \<open>worker_process\<close> adds to the relation of the repositories
  the environment: what other processes do between two actions stays within the relation too.
  Every handler then stays within it, whatever Stripe answers and wherever the job fails, and the
  databases the worker leaves are reachable.
\<close>

definition acts :: "(db \<Rightarrow> db \<Rightarrow> bool) \<Rightarrow> 'a act \<Rightarrow> bool" where
  "acts R m \<longleftrightarrow> (\<forall>w. R (wl_db w) (wl_db (snd (m w))))"

lemma actsI: "(\<And>w. R (wl_db w) (wl_db (snd (m w)))) \<Longrightarrow> acts R m"
  by (simp add: acts_def)

lemma actsD: "acts R m \<Longrightarrow> m w = (r, w') \<Longrightarrow> R (wl_db w) (wl_db w')"
  unfolding acts_def by (metis snd_conv)

lemma tick_db [simp]: "wl_db (tick w) = wl_db w"
  by (simp add: tick_def)

locale worker_process = system_relation R for R :: "db \<Rightarrow> db \<Rightarrow> bool" +
  fixes de :: WorkerDependencies
  assumes others: "R d (de_others de n d)"
begin

lemma acts_pure:
  "acts R (return_act x)" "acts R (throw_act e)" "acts R (lift_act r)" "acts R (now_act de)"
  "acts R (random_act de)" "acts R (stripe_act call)" "acts R (createRefund_act de input)" "acts R (enqueue_act de t i)"
  by (auto intro!: actsI simp: return_act_def throw_act_def lift_act_def now_act_def random_act_def stripe_act_def
      createRefund_act_def enqueue_act_def refl_R)

lemma acts_crash: "acts R (crash_hook de n)"
  by (auto intro!: actsI simp: crash_hook_def refl_R split: option.splits)

lemma acts_bind:
  assumes "acts R m" and "\<And>x. acts R (f x)"
  shows "acts R (bind_act m f)"
proof (rule actsI)
  fix w
  obtain r w' where m: "m w = (r, w')" by fastforce
  have "R (wl_db w) (wl_db w')" using actsD [OF assms(1) m] .
  moreover have "R (wl_db w') (wl_db (snd (f x w')))" for x using assms(2) by (simp add: acts_def)
  ultimately show "R (wl_db w) (wl_db (snd (bind_act m f w)))"
    by (auto simp: bind_act_def m intro: trans_R split: sum.splits)
qed

lemma acts_try: "acts R m \<Longrightarrow> acts R (try_act m)"
  by (rule actsI) (auto simp: try_act_def dest: actsD split: prod.splits)

lemma acts_if: "(b \<Longrightarrow> acts R m) \<Longrightarrow> (\<not> b \<Longrightarrow> acts R n) \<Longrightarrow> acts R (if b then m else n)"
  by simp

lemma acts_let: "(\<And>x. x = a \<Longrightarrow> acts R (f x)) \<Longrightarrow> acts R (Let a f)"
  by simp

lemma acts_option:
  "acts R m \<Longrightarrow> (\<And>y. acts R (f y)) \<Longrightarrow> acts R (case x of None \<Rightarrow> m | Some y \<Rightarrow> f y)"
  by (cases x) auto

lemma acts_sum:
  "(\<And>x. acts R (f x)) \<Longrightarrow> (\<And>y. acts R (g y)) \<Longrightarrow> acts R (case s of Inl x \<Rightarrow> f x | Inr y \<Rightarrow> g y)"
  by (cases s) auto

lemma acts_prod: "(\<And>x y. acts R (f x y)) \<Longrightarrow> acts R (case p of (x, y) \<Rightarrow> f x y)"
  by (cases p) auto

lemma acts_tx:
  assumes "\<And>ctx. steps R (operation ctx)"
  shows "acts R (tx_act de operation)"
proof (rule actsI)
  fix w :: world
  let ?d = "de_others de (wl_time w) (wl_db w)"
  show "R (wl_db w) (wl_db (snd (tx_act de operation w)))"
    using others [of "wl_db w" "wl_time w"] stepsD [OF assms, of "de_session de (wl_time w)" ?d]
    by (auto simp: tx_act_def Let_def intro: trans_R split: sum.splits)
qed

lemma acts_read: "acts R (read_act de f)"
  unfolding read_act_def by (intro acts_tx steps_gets)

lemmas act_rules = acts_pure acts_crash acts_bind acts_try acts_if acts_let acts_option acts_sum acts_prod
  acts_read acts_tx store_operations

lemma perform_refund_acts: "acts R (perform_refund de record a k)"
  unfolding perform_refund_def record_failure_def record_success_def by (auto intro!: act_rules)

lemma handleRefundExecutionJob_acts: "acts R (handleRefundExecutionJob de t i)"
  unfolding handleRefundExecutionJob_def revalidate_and_execute_def cross_and_perform_def markPreflightFailure_def
  by (auto intro!: act_rules perform_refund_acts split: EffectBoundaryDecision.split PaymentEligibility.split)

lemma persistApprovalAttestation_acts: "acts R (store_persistApprovalAttestation de input)"
  unfolding store_persistApprovalAttestation_def by (auto intro!: act_rules split: err.split)

lemma recover_items_acts: "acts R (recover_items de t items acc)"
  by (induction items arbitrary: acc) (auto intro!: act_rules tenant_rules)

lemma recover_tenants_acts: "acts R (recover_tenants de limit ts acc)"
  by (induction ts arbitrary: acc) (auto intro!: act_rules tenant_rules recover_items_acts simp: Let_def)

lemma enqueue_candidates_acts: "acts R (enqueue_candidates de cs counts)"
proof (induction cs arbitrary: counts)
  case (Cons c cs)
  then show ?case by (cases counts) (auto intro!: act_rules)
qed (auto intro!: act_rules)

lemma handleApprovedExecutionRecoveryJob_acts: "acts R (handleApprovedExecutionRecoveryJob de scope)"
  unfolding handleApprovedExecutionRecoveryJob_def listApprovedRefundExecutions_def
  by (auto intro!: act_rules recover_tenants_acts enqueue_candidates_acts)

lemma expire_tenants_acts: "acts R (expire_tenants de now limit ts n)"
  by (induction ts arbitrary: n) (auto intro!: act_rules tenant_rules)

lemma expire_batches_acts: "acts R (expire_batches de now k n)"
  by (induction k arbitrary: n) (auto intro!: act_rules expire_tenants_acts simp: expireDueRequests_def)

lemma handleExpirationJob_acts: "acts R (handleExpirationJob de scope)"
  unfolding handleExpirationJob_def by (auto intro!: act_rules expire_batches_acts)

lemma handleWebhookJob_acts: "acts R (handleWebhookJob de job)"
  unfolding handleWebhookJob_def process_webhook_def
  by (auto intro!: act_rules simp: Let_def split: WebhookBody.split)

lemma enqueue_webhooks_acts: "acts R (enqueue_webhooks queue jobs n)"
proof (induction jobs arbitrary: n)
  case (Cons job jobs)
  have "acts R (\<lambda>w. (Inr (queue (wl_time w) job), tick w))" by (rule actsI) (simp add: refl_R)
  with Cons show ?case by (auto intro!: act_rules)
qed (auto intro!: act_rules)

lemma handleWebhookRecoveryJob_acts: "acts R (handleWebhookRecoveryJob de queue scope)"
  unfolding handleWebhookRecoveryJob_def by (auto intro!: act_rules enqueue_webhooks_acts)

lemma refresh_targets_acts: "acts R (refresh_targets de i t p ts n)"
proof (induction ts arbitrary: p n)
  case (Cons x ts)
  then show ?case by (cases x) (auto intro!: act_rules simp: refresh_target_def)
qed (auto intro!: act_rules)

lemma refresh_pages_acts: "acts R (refresh_pages de i t k a n)"
  by (induction k arbitrary: a n) (auto intro!: act_rules refresh_targets_acts)

lemma observe_page_acts: "acts R (observe_page de i t rs)"
  by (induction rs) (auto intro!: act_rules)

lemma scan_pages_acts: "acts R (scan_pages de i s t k a c)"
proof (induction k arbitrary: a c)
  case (Suc k)
  then show ?case by (cases c) (auto intro!: act_rules observe_page_acts)
qed (auto intro!: act_rules)

lemma scan_installations_acts: "acts R (scan_installations de t ss n)"
  by (induction ss arbitrary: n)
    (auto intro!: act_rules refresh_pages_acts scan_pages_acts simp: refreshLinkedRefunds_def scanInstallation_def)

lemma handleReconciliationScanJob_acts: "acts R (handleReconciliationScanJob de scope)"
  unfolding handleReconciliationScanJob_def by (auto intro!: act_rules scan_installations_acts)

end

subsection \<open>Reachable runs\<close>

definition system_run :: "db \<Rightarrow> db \<Rightarrow> bool" where
  "system_run = (\<lambda>a b. (\<exists>ctx. repository_step ctx a b) \<or> only_installations a b)\<^sup>*\<^sup>*"

text \<open>The rest of the system runs repository operations and provisions installations, in any order.\<close>

definition system_environment :: "WorkerDependencies \<Rightarrow> bool" where
  "system_environment de \<longleftrightarrow> (\<forall>n d. system_run d (de_others de n d))"

interpretation worker_run: worker_process "\<lambda>d d'. system_environment de \<longrightarrow> system_run d d'" de
  by unfold_locales (auto simp: system_run_def system_environment_def)

lemma reachable_run: "system_run d d' \<Longrightarrow> reachable d \<Longrightarrow> reachable d'"
  unfolding system_run_def by (induction rule: rtranclp_induct) (auto intro: reachable.step reachable.provisioned)

lemma system_run_kept: "system_run d d' \<Longrightarrow> kept d d'"
  unfolding system_run_def
proof (induction rule: rtranclp_induct)
  case base
  show ?case by (rule kept_db.refl_R)
next
  case (step b c)
  then have "kept b c" using kept_db.repository_step_within provisioning_kept by blast
  with step.IH show ?case by (rule kept_db.trans_R)
qed

lemma reachable_act:
  "acts (\<lambda>d d'. system_environment de \<longrightarrow> system_run d d') m \<Longrightarrow> system_environment de \<Longrightarrow> reachable (wl_db w) \<Longrightarrow>
     reachable (wl_db (snd (m w)))"
  by (auto simp: acts_def intro: reachable_run)

end
