(* ===== verification/Worker_Samples.thy ===== *)
theory Worker_Samples
  imports Repository_Outcomes Worker_Runs
begin

text \<open>
  A scenario used by the witnesses about the worker: one tenant, an installation, a requester and
  an approver, a request that is created, attested, approved, claimed and carried over the effect
  boundary. The HMAC and the hash of this store are constant, which is enough to run the code.
\<close>

definition wid :: "char \<Rightarrow> string" where
  "wid c = ''00000000-0000-4000-8000-00000000000'' @ [c]"

definition worker_session :: txctx where
  "worker_session = \<lparr>cx_tenant = [], cx_web = False, cx_clock = 2000,
     cx_uuid = (\<lambda>n. ''00000000-0000-4000-8000-0000000001'' @ show_nat (10 + n)), cx_conflict = (\<lambda>_. False)\<rparr>"

definition worker_store :: PrismaWorkerStore where
  "worker_store = \<lparr>ws_hmac = (\<lambda>_ _. replicate 32 0), ws_sha256 = (\<lambda>_. replicate 32 0),
     ws_proofs = sample_keyring, ws_approvalAttestations = sample_attestation_keyring\<rparr>"

definition worker_request :: RefundRequest where
  "worker_request = sample_request\<lparr>rr_tenantId := wid CHR ''a'', rr_installationId := wid CHR ''b'',
     rr_requesterUserId := wid CHR ''c''\<rparr>"

definition worker_db :: db where
  "worker_db = empty_db\<lparr>
     tenants := [\<lparr>tn_id = wid CHR ''a'', tn_status = T_active, tn_liveEnabled = False, tn_pendingDeleteAt = None\<rparr>],
     installations := [\<lparr>si_id = wid CHR ''b'', si_tenantId = wid CHR ''a'', si_stripeAccountId = ''acct_1'', si_environment = Env_test,
       si_status = I_active, si_onboardingCompletedAt = None, si_installedAt = 100, si_deauthorizedAt = None,
       si_lastLifecycleEventId = None, si_lastLifecycleEventType = None, si_lastLifecycleEventCreatedAt = None\<rparr>],
     users := [\<lparr>tu_id = wid CHR ''c'', tu_tenantId = wid CHR ''a'', tu_stripeUserId = ''usr_1'', tu_displayName = None,
        tu_stripeRoles = ''[]'', tu_approverEnabled = False, tu_lastVerifiedAt = 100, tu_createdAt = 100\<rparr>,
       \<lparr>tu_id = wid CHR ''d'', tu_tenantId = wid CHR ''a'', tu_stripeUserId = ''usr_2'', tu_displayName = None,
        tu_stripeRoles = ''[]'', tu_approverEnabled = True, tu_lastVerifiedAt = 100, tu_createdAt = 100\<rparr>],
     policies := [\<lparr>ap_id = wid CHR ''9'', ap_tenantId = wid CHR ''a'', ap_version = 1, ap_active = True,
       ap_requiredApprovals = 1, ap_expiresAfterSeconds = 3600, ap_createdByStripeUserId = ''usr_2'', ap_createdAt = 100\<rparr>]\<rparr>"

definition worker_attestation :: ApprovalAttestation where
  "worker_attestation = \<lparr>aa_id = wid CHR ''f'', aa_tenantId = wid CHR ''a'', aa_installationId = wid CHR ''b'',
     aa_requestId = sample_uuid, aa_approverUserId = wid CHR ''d'', aa_requestNonce = wid CHR ''e'',
     aa_stripeAccountId = ''acct_1'', aa_environment = Env_test, aa_resourceType = ''payment_intent'',
     aa_resourceId = ''pi_1'', aa_requestVersion = 0, aa_signedEnvelopeHash = replicate 32 7,
     aa_authorizationSnapshotHash = replicate 32 0, aa_verifiedAt = 1500, aa_consumeBefore = 9000,
     aa_hmacKeyVersion = ''v1'', aa_hmac = replicate 32 0, aa_createdAt = 1500\<rparr>"

definition worker_decision :: ApprovalDecisionRow where
  "worker_decision = \<lparr>ad_id = ''00000000-0000-4000-8000-000000000110'', ad_tenantId = wid CHR ''a'', ad_requestId = sample_uuid,
     ad_approverUserId = wid CHR ''d'', ad_approvalAttestationId = Some (wid CHR ''f''), ad_decision = D_approve,
     ad_rejection = None, ad_stripeRolesSnapshot = ''[]'', ad_decidedAt = 1800\<rparr>"

definition tenant_session :: "bool \<Rightarrow> txctx" where
  "tenant_session web = worker_session\<lparr>cx_tenant := wid CHR ''a'', cx_web := web\<rparr>"

definition worker_db_created :: db where
  "worker_db_created = worker_db\<lparr>requests := [worker_request]\<rparr>"

definition worker_db_attested :: db where
  "worker_db_attested = worker_db_created\<lparr>attestations := [worker_attestation]\<rparr>"

definition worker_approved :: RefundRequest where
  "worker_approved = worker_request\<lparr>rr_workflowStatus := W_approved, rr_approvedAt := Some 1800, rr_version := 1\<rparr>"

definition worker_db_approved :: db where
  "worker_db_approved = worker_db_attested\<lparr>requests := [worker_approved], decision_rows := [worker_decision],
     db_fresh := 1\<rparr>"

definition worker_executing :: RefundRequest where
  "worker_executing = worker_approved\<lparr>rr_workflowStatus := W_executing, rr_executionStartedAt := Some 1900, rr_version := 2\<rparr>"

definition worker_db_executing :: db where
  "worker_db_executing = worker_db_approved\<lparr>requests := [worker_executing]\<rparr>"

definition worker_item :: "RefundRequest \<Rightarrow> ExecutionWorkItem" where
  "worker_item r = \<lparr>wi_request = r, wi_tenant = hd (tenants worker_db), wi_installation = hd (installations worker_db),
     wi_execution = None, wi_requester = hd (users worker_db),
     wi_approval = Some (worker_decision, last (users worker_db), Some worker_attestation)\<rparr>"

lemma worker_create:
  "createRefundRequest (tenant_session True) worker_request worker_db = Inr (worker_request, worker_db_created)"
  by code_simp

lemma worker_persist:
  "persistApprovalAttestation (tenant_session False) worker_attestation worker_db_created
     = Inr (worker_attestation, worker_db_attested)"
  by code_simp

lemma worker_decide:
  "repo_recordDecision (tenant_session True) worker_decision 1800 worker_db_attested
     = Inr (\<lparr>dr_decision = worker_decision, becameApproved = True, becameRejected = False\<rparr>, worker_db_approved)"
  by code_simp

lemma worker_claim:
  "claimExecution (tenant_session False) sample_uuid 1900 worker_db_approved
     = Inr (Some worker_executing, worker_db_executing)"
  by code_simp

lemma worker_items:
  "getExecutionWorkItem (tenant_session False) sample_uuid worker_db_approved
     = Inr (Some (worker_item worker_approved), worker_db_approved)"
  "getExecutionWorkItem (tenant_session False) sample_uuid worker_db_executing
     = Inr (Some (worker_item worker_executing), worker_db_executing)"
  by code_simp+

lemma wid_strict: "hex_lower c \<Longrightarrow> uuid_strict (wid c)" and wid_length: "length (wid c) = 36"
  by (simp_all add: wid_def uuid_strict_def uuid_classes_def list_match_def hex_lower_def digit_def
      in_range_def numeral_nat)

definition worker_payload :: ApprovalAttestationPayload where
  "worker_payload = sample_attestation\<lparr>
     aap_requestNonce := wid CHR ''e'', aap_tenantId := wid CHR ''a'', aap_installationId := wid CHR ''b'',
     aap_requestId := sample_uuid, aap_approverUserId := wid CHR ''d'', aap_requesterUserId := wid CHR ''c'',
     aap_approverStripeUserId := ''usr_2'', aap_requesterStripeUserId := ''usr_1'',
     aap_expiresAt := ''1970-01-01T00:00:09.000Z'', aap_verifiedAt := ''1970-01-01T00:00:01.500Z'',
     aap_consumeBefore := ''1970-01-01T00:00:09.000Z''\<rparr>"

lemma worker_instants:
  "toISOString 9000 = ''1970-01-01T00:00:09.000Z''" "toISOString 1500 = ''1970-01-01T00:00:01.500Z''"
  "parseCanonicalInstant ''1970-01-01T00:00:09.000Z'' = Inr 9000"
  "parseCanonicalInstant ''1970-01-01T00:00:01.500Z'' = Inr 1500"
  by code_simp+

lemma worker_texts:
  "normalizeCurrency ''eur'' = Inr ''eur''" "assertPositiveMinorAmount 500 = Inr ()"
  "prefixed_id ''acct_'' ''acct_1''" "prefixed_id ''usr_'' ''usr_1''" "prefixed_id ''usr_'' ''usr_2''"
  "prefixed_id ''pi_'' ''pi_1''" "prefixed_id ''ch_'' ''ch_1''"
  "hex_lower CHR ''a''" "hex_lower CHR ''b''" "hex_lower CHR ''c''" "hex_lower CHR ''d''" "hex_lower CHR ''e''"
  by code_simp+

lemma worker_identifiers: "identifiers_ok worker_payload"
  by (simp add: identifiers_ok_def worker_payload_def sample_attestation_def boundedMatch_def wid_strict wid_length
      worker_texts sample_uuid_strict safe_integer_def) (simp add: wid_def sample_uuid_def)

lemma worker_canonical: "\<exists>s. canonicalPayload worker_payload = Inr s"
  by (simp add: canonicalPayload_def worker_identifiers)
    (simp add: worker_payload_def sample_attestation_def worker_instants worker_texts safe_integer_def)

lemma worker_payload_of_item:
  assumes "r \<in> {worker_approved, worker_executing}"
  shows "approvalPayloadFromExecutionItem (worker_item r) = Inr (Some worker_payload)"
  using assms
  by (auto simp: approvalPayloadFromExecutionItem_def worker_item_def worker_approved_def worker_executing_def
      worker_request_def sample_request_def worker_decision_def worker_attestation_def worker_db_def
      approvalAttestationRequestVersionIsCompatible_def safe_integer_def request_resource_def resource_type_name_def
      worker_texts worker_instants worker_payload_def sample_attestation_def wid_def)

lemma worker_item_valid:
  assumes "r \<in> {worker_approved, worker_executing}"
  shows "approvalAttestationIsValid worker_store (worker_item r) = Inr True"
proof -
  obtain s where "canonicalPayload worker_payload = Inr s" using worker_canonical by blast
  then have "verify_attestation (ws_hmac worker_store) (ws_approvalAttestations worker_store) worker_payload
      (format_token ''v1'' (replicate 32 0)) = Inr True"
    by (subst verify_attestation_True) (auto simp: worker_store_def attestation_digest_def sample_attestation_keyring_def
        version_pattern_9_def version_pattern_def in_range_def)
  then show ?thesis
    by (simp add: approvalAttestationIsValid_def worker_payload_of_item [OF assms])
      (simp add: worker_item_def worker_attestation_def approvalAuthorizationSnapshotHash_def worker_store_def)
qed

lemma worker_reachable: "reachable worker_db_approved"
proof -
  have "reachable worker_db" by (rule reachable.init) (simp add: worker_db_def empty_db_def)
  moreover have "new_request worker_request"
    by (simp add: new_request_def worker_request_def sample_request_def)
  ultimately have "reachable worker_db_created"
    using step_createRefundRequest [OF _ worker_create] by (blast intro: reachable.step)
  then have "reachable worker_db_attested"
    using step_persistApprovalAttestation [OF worker_persist] by (blast intro: reachable.step)
  then show ?thesis using step_repo_recordDecision [OF worker_decide] by (blast intro: reachable.step)
qed

definition worker_record :: RefundExecutionRecord where
  "worker_record = execution_record (worker_item worker_executing) ''ch_1''"

definition worker_key :: string where
  "worker_key = ''refunddesk:refund-request:'' @ sample_uuid @ '':v1''"

lemma worker_key: "refundIdempotencyKey sample_uuid = Inr worker_key"
  by (simp add: refundIdempotencyKey_def sample_uuid_strict worker_key_def)

lemma worker_tenant: "uuid_nocase (wid CHR ''a'')"
  by (rule uuid_strict_nocase [OF wid_strict]) (simp add: worker_texts)

lemma worker_lock:
  "d \<in> {worker_db_approved, worker_db_executing}
     \<Longrightarrow> lockExecutionAuthorization (tenant_session False) sample_uuid (wid CHR ''b'') d"
  by (auto simp: lockExecutionAuthorization_def worker_db_approved_def worker_db_executing_def worker_db_attested_def
      worker_db_created_def worker_db_def worker_approved_def worker_executing_def worker_request_def sample_request_def
      tenant_session_def)

lemma worker_context: "hasActivePilotExecutionContext (worker_item worker_approved)"
  "hasActivePilotExecutionContext (worker_item worker_executing)"
  by (auto simp: hasActivePilotExecutionContext_def worker_item_def worker_db_def worker_approved_def worker_executing_def
      worker_request_def sample_request_def)

lemma worker_rows:
  "wi_request (worker_item r) = r" "wi_execution (worker_item r) = None"
  "rr_id worker_approved = sample_uuid" "rr_id worker_executing = sample_uuid"
  "rr_installationId worker_approved = wid CHR ''b''" "rr_installationId worker_executing = wid CHR ''b''"
  "rr_workflowStatus worker_approved = W_approved" "rr_workflowStatus worker_executing = W_executing"
  "rr_effectState worker_approved = E_not_started" "rr_effectState worker_executing = E_not_started"
  "rr_chargeId worker_executing = Some ''ch_1''" "rr_paymentGuardReleasedAt worker_executing = None"
  by (simp_all add: worker_item_def worker_approved_def worker_executing_def worker_request_def sample_request_def)

lemmas worker_run = bind_tx_def return_tx_def lift_tx_def gets_tx_def when_tx_def worker_items worker_item_valid
  worker_context worker_rows worker_lock worker_key lost_execution_def

lemma worker_load_unit: "load_unit_of_work worker_store sample_uuid 1900 (tenant_session False) worker_db_approved
     = Inr (Some worker_record, worker_db_executing)"
  by (simp add: load_unit_of_work_def load_claimed_def claimExecutionWorkItem_def worker_claim worker_run worker_record_def)

lemma worker_session_tenant: "worker_session\<lparr>cx_tenant := wid CHR ''a''\<rparr> = tenant_session False"
  by (simp add: tenant_session_def worker_session_def)

lemma worker_load:
  "loadRefundExecution worker_store worker_session (wid CHR ''a'') sample_uuid 1900 worker_db_approved
     = Inr (Some worker_record, worker_db_executing)"
  unfolding loadRefundExecution_def
  by (rule withTenantTransaction_calm) (simp_all add: worker_tenant worker_session_tenant worker_load_unit, simp add: worker_session_def)

definition worker_boundary_input :: PersistEffectBoundaryInput where
  "worker_boundary_input = \<lparr>pb_tenantId = wid CHR ''a'', pb_requestId = sample_uuid, pb_idempotencyKey = worker_key, pb_at = 1950\<rparr>"

definition worker_attempt :: string where
  "worker_attempt = ''00000000-0000-4000-8000-000000000112''"

definition worker_crossed :: RefundRequest where
  "worker_crossed = worker_executing\<lparr>rr_effectState := E_possible, rr_version := 3\<rparr>"

definition worker_db_crossed :: db where
  "worker_db_crossed = worker_db_executing\<lparr>requests := [worker_crossed],
     executions := [\<lparr>ex_id = ''00000000-0000-4000-8000-000000000111'', ex_tenantId = wid CHR ''a'',
       ex_requestId = sample_uuid, ex_idempotencyKey = worker_key, ex_canonicalParametersHash = replicate 32 0,
       ex_stripeRefundId = None, ex_stripeRefundStatus = None, ex_amountMinor = 500, ex_currency = ''eur'',
       ex_lastStripeEventId = None, ex_lastStripeEventCreatedAt = None, ex_lastStripeRequestId = None,
       ex_createdAt = 2000, ex_reconciledAt = None\<rparr>],
     attempts := [\<lparr>at_id = worker_attempt, at_tenantId = wid CHR ''a'',
       at_executionId = ''00000000-0000-4000-8000-000000000111'', at_attemptNumber = 1, at_state = X_started,
       at_normalizedErrorCode = None, at_stripeRequestId = None, at_startedAt = 1950, at_finishedAt = None\<rparr>],
     db_fresh := 3\<rparr>"

lemma worker_hash: "canonicalExecutionHash worker_store (worker_item worker_executing) = Inr (replicate 32 0)"
  by (simp add: canonicalExecutionHash_def worker_rows worker_executing_def worker_approved_def worker_request_def
      sample_request_def worker_texts worker_store_def)

lemma worker_ensure:
  "ensureExecution (tenant_session False) sample_uuid worker_key (replicate 32 0) 500 ''eur'' worker_db_executing
     = Inr (hd (executions worker_db_crossed),
         worker_db_executing\<lparr>executions := executions worker_db_crossed, db_fresh := 2\<rparr>)"
  by code_simp

lemma worker_mark:
  "markEffectPossible (tenant_session False) sample_uuid
       (worker_db_executing\<lparr>executions := executions worker_db_crossed, db_fresh := 2\<rparr>)
     = Inr (True, worker_db_crossed\<lparr>attempts := [], db_fresh := 2\<rparr>)"
  by code_simp

lemma worker_begin:
  "beginExecutionAttempt (tenant_session False) (ex_id (hd (executions worker_db_crossed))) 1 1950
       (worker_db_crossed\<lparr>attempts := [], db_fresh := 2\<rparr>)
     = Inr (hd (attempts worker_db_crossed), worker_db_crossed)"
  by code_simp

lemma worker_cross:
  "cross_boundary worker_store (tenant_session False) worker_boundary_input (worker_item worker_executing)
       worker_db_executing = Inr (B_execute worker_attempt worker_key, worker_db_crossed)"
proof -
  let ?e = "hd (executions worker_db_crossed)"
  have e: "ex_idempotencyKey ?e = worker_key" "ex_amountMinor ?e = 500" "ex_currency ?e = ''eur''"
    "ex_canonicalParametersHash ?e = replicate 32 0" "at_id (hd (attempts worker_db_crossed)) = worker_attempt"
    by (simp_all add: worker_db_crossed_def)
  have r: "rr_amountMinor worker_executing = 500" "rr_currency worker_executing = ''eur''"
    by (simp_all add: worker_executing_def worker_approved_def worker_request_def sample_request_def)
  have i: "pb_idempotencyKey worker_boundary_input = worker_key" "pb_at worker_boundary_input = 1950"
    by (simp_all add: worker_boundary_input_def)
  show ?thesis
    by (simp add: cross_boundary_def worker_run worker_hash worker_ensure worker_mark e r i worker_texts opt_max_def
        worker_begin)
qed

lemma worker_boundary:
  "persistEffectBoundary worker_store worker_session worker_boundary_input worker_db_executing
     = Inr (B_execute worker_attempt worker_key, worker_db_crossed)"
proof -
  have i: "pb_idempotencyKey worker_boundary_input = worker_key" "pb_requestId worker_boundary_input = sample_uuid"
    "pb_tenantId worker_boundary_input = wid CHR ''a''"
    by (simp_all add: worker_boundary_input_def)
  have "boundary_unit_of_work worker_store worker_boundary_input (tenant_session False) worker_db_executing
      = Inr (B_execute worker_attempt worker_key, worker_db_crossed)"
    by (simp add: boundary_unit_of_work_def boundary_locked_def worker_run worker_cross i)
  then show ?thesis unfolding persistEffectBoundary_def i
    by (intro withTenantTransaction_calm) (simp_all add: worker_tenant worker_session_tenant, simp add: worker_session_def)
qed

end
