(* ===== verification/Worker_Boundary.thy ===== *)
theory Worker_Boundary
  imports Worker_Samples
begin

text \<open>
  The effect boundary and the refund call: what must hold before the worker asks Stripe for a
  refund, shown for every schedule of the rest of the system.
\<close>

subsection \<open>Reads\<close>

lemma getExecutionWorkItem_read:
  assumes "getExecutionWorkItem ctx i d = Inr (x, d')"
  shows "d' = d"
  using assms by (auto simp: getExecutionWorkItem_def Let_def split: option.splits list.splits)

lemma getExecutionWorkItem_Some:
  assumes "getExecutionWorkItem ctx i d = Inr (Some item, d')"
  shows "wi_request item \<in> set (requests d)" and "rr_id (wi_request item) = i"
    and "rr_tenantId (wi_request item) = cx_tenant ctx"
    and "map_option fst (wi_execution item)
      = first_row (\<lambda>e. ex_requestId e = i \<and> ex_tenantId e = cx_tenant ctx) (executions d)"
proof -
  from assms have r: "getRefundRequest ctx i d = Some (wi_request item)"
    by (auto simp: getExecutionWorkItem_def Let_def split: option.splits list.splits)
  then show "wi_request item \<in> set (requests d)" "rr_id (wi_request item) = i"
    "rr_tenantId (wi_request item) = cx_tenant ctx"
    by (auto simp: getRefundRequest_def dest: first_row_Some)
  then show "map_option fst (wi_execution item)
      = first_row (\<lambda>e. ex_requestId e = i \<and> ex_tenantId e = cx_tenant ctx) (executions d)"
    using assms by (auto simp: getExecutionWorkItem_def Let_def option.map_comp comp_def option.map_ident
        split: option.splits list.splits)
qed

lemma withTenantTransaction_Some:
  "withTenantTransaction ctx t op d = Inr (x, d') \<Longrightarrow> op (ctx\<lparr>cx_tenant := t\<rparr>) d = Inr (x, d')"
  using withTenantTransaction_Inr by blast

subsection \<open>The boundary\<close>

lemma ensureExecution_Inr:
  assumes "ensureExecution ctx i k h a c d = Inr (e, d')"
  shows "e \<in> set (executions d')" and "requests d' = requests d" and "attempts d' = attempts d"
    and "first_row (\<lambda>e. ex_requestId e = i \<and> ex_tenantId e = cx_tenant ctx) (executions d) = Some e
       \<or> ex_stripeRefundId e = None"
  using assms
  by (auto simp: ensureExecution_def insert_execution_def Let_def dest: first_row_Some
      split: option.splits sum.splits if_splits)

lemma beginExecutionAttempt_Inr:
  assumes "beginExecutionAttempt ctx e n t d = Inr (a, d')"
  shows "a \<in> set (attempts d')" and "at_state a = X_started" and "at_executionId a = e"
    and "requests d' = requests d" and "executions d' = executions d"
  using assms by (auto simp: beginExecutionAttempt_def insert_attempt_def Let_def split: if_splits)

lemma cross_boundary_execute:
  assumes "cross_boundary st ctx input item d = Inr (B_execute attemptId key, d')"
  obtains e a where "key = pb_idempotencyKey input" "e \<in> set (executions d')" "ex_idempotencyKey e = key"
    "ex_stripeRefundId e = None
      \<or> first_row (\<lambda>e. ex_requestId e = rr_id (wi_request item) \<and> ex_tenantId e = cx_tenant ctx) (executions d) = Some e"
    "a \<in> set (attempts d')" "at_id a = attemptId" "at_state a = X_started" "at_executionId a = ex_id e"
    "\<exists>q \<in> set (requests d'). rr_id q = rr_id (wi_request item) \<and> rr_tenantId q = cx_tenant ctx
       \<and> rr_workflowStatus q = W_executing \<and> rr_effectState q = E_possible"
proof -
  from assms obtain h e d1 d2 n a where
    e: "ensureExecution ctx (rr_id (wi_request item)) (pb_idempotencyKey input) h (rr_amountMinor (wi_request item))
        (rr_currency (wi_request item)) d = Inr (e, d1)" and
    key: "ex_idempotencyKey e = pb_idempotencyKey input" "key = ex_idempotencyKey e" and
    m: "markEffectPossible ctx (rr_id (wi_request item)) d1 = Inr (True, d2)" and
    a: "beginExecutionAttempt ctx (ex_id e) n (pb_at input) d2 = Inr (a, d')" "attemptId = at_id a"
    by (auto simp: cross_boundary_def Let_def bind_tx_Inr split: if_splits)
  note e' = ensureExecution_Inr [OF e] and a' = beginExecutionAttempt_Inr [OF a(1)]
  have "executions d2 = executions d1" by (subst markEffectPossible_hit(1) [OF m]) simp
  then show thesis
    using that [of e a] key e' a' a(2) markEffectPossible_hit(2) [OF m] by auto
qed

lemma boundary_unit_execute:
  assumes "boundary_unit_of_work st input ctx d = Inr (B_execute attemptId key, d')"
  obtains item where "getExecutionWorkItem ctx (pb_requestId input) d = Inr (Some item, d)"
    "rr_workflowStatus (wi_request item) = W_executing" "hasActivePilotExecutionContext item"
    "rr_paymentGuardReleasedAt (wi_request item) = None"
    "boundary_locked st ctx input item d = Inr (B_execute attemptId key, d')"
proof -
  from assms obtain x where x: "getExecutionWorkItem ctx (pb_requestId input) d = Inr (x, d)"
    by (auto simp: boundary_unit_of_work_def bind_tx_Inr dest: getExecutionWorkItem_read)
  show thesis
  proof (cases x)
    case None
    with assms x show thesis by (simp add: boundary_unit_of_work_def stopped_at_boundary_def split: if_splits)
  next
    case (Some item)
    with assms x show thesis
      by (auto simp: boundary_unit_of_work_def stopped_at_boundary_def intro: that split: if_splits)
  qed
qed

text \<open>
  C8: nothing crosses the effect boundary without authority. If \<open>persistEffectBoundary\<close> answers
  execute, then on the database it ran on the request belongs to the tenant, is executing with its
  guard held and with no effect started or with the last one proven absent, tenant and installation
  are active and not live, the stored approval attestation of the request verifies under the
  worker's keyring and no refund is linked; and what it commits is the effect marked possible, the
  execution row under the given idempotency key and a started attempt with the returned id.
\<close>

theorem effect_boundary_authority:
  assumes "persistEffectBoundary st ctx input d = Inr (B_execute attemptId key, d')"
  shows "\<exists>item. getExecutionWorkItem (ctx\<lparr>cx_tenant := pb_tenantId input\<rparr>) (pb_requestId input) d = Inr (Some item, d)
      \<and> rr_workflowStatus (wi_request item) = W_executing \<and> rr_paymentGuardReleasedAt (wi_request item) = None
      \<and> rr_effectState (wi_request item) \<in> {E_not_started, E_absence_proven}
      \<and> hasActivePilotExecutionContext item \<and> approvalAttestationIsValid st item = Inr True
      \<and> (\<forall>e as. wi_execution item = Some (e, as) \<longrightarrow> ex_stripeRefundId e = None \<and> ex_idempotencyKey e = key)
      \<and> key = pb_idempotencyKey input
      \<and> (\<exists>q \<in> set (requests d'). rr_id q = pb_requestId input \<and> rr_tenantId q = pb_tenantId input
           \<and> rr_workflowStatus q = W_executing \<and> rr_effectState q = E_possible)
      \<and> (\<exists>e \<in> set (executions d'). \<exists>a \<in> set (attempts d'). ex_idempotencyKey e = key \<and> ex_stripeRefundId e = None
           \<and> at_id a = attemptId \<and> at_state a = X_started \<and> at_executionId a = ex_id e)"
proof -
  let ?c = "ctx\<lparr>cx_tenant := pb_tenantId input\<rparr>"
  have "boundary_unit_of_work st input ?c d = Inr (B_execute attemptId key, d')"
    using assms unfolding persistEffectBoundary_def by (rule withTenantTransaction_Some)
  then obtain item where item: "getExecutionWorkItem ?c (pb_requestId input) d = Inr (Some item, d)"
    and st: "rr_workflowStatus (wi_request item) = W_executing" "hasActivePilotExecutionContext item"
      "rr_paymentGuardReleasedAt (wi_request item) = None"
    and lo: "boundary_locked st ?c input item d = Inr (B_execute attemptId key, d')"
    by (rule boundary_unit_execute)
  from lo have v: "approvalAttestationIsValid st item = Inr True"
    and un: "(case wi_execution item of None \<Rightarrow> None | Some (e, _) \<Rightarrow> ex_stripeRefundId e) = None"
    and le: "\<not> lost_execution item (pb_idempotencyKey input)"
    and ef: "rr_effectState (wi_request item) \<in> {E_not_started, E_absence_proven}"
    and cr: "cross_boundary st ?c input item d = Inr (B_execute attemptId key, d')"
    by (auto simp: boundary_locked_def Let_def bind_tx_Inr split: option.splits if_splits)
  note g = getExecutionWorkItem_Some [OF item]
  from cross_boundary_execute [OF cr] obtain e a where x: "key = pb_idempotencyKey input" "e \<in> set (executions d')"
    "ex_idempotencyKey e = key"
    "ex_stripeRefundId e = None \<or> first_row (\<lambda>e. ex_requestId e = rr_id (wi_request item)
       \<and> ex_tenantId e = cx_tenant ?c) (executions d) = Some e"
    "a \<in> set (attempts d')" "at_id a = attemptId" "at_state a = X_started" "at_executionId a = ex_id e"
    "\<exists>q \<in> set (requests d'). rr_id q = rr_id (wi_request item) \<and> rr_tenantId q = cx_tenant ?c
       \<and> rr_workflowStatus q = W_executing \<and> rr_effectState q = E_possible" .
  have "map_option fst (wi_execution item) = Some e \<Longrightarrow> ex_stripeRefundId e = None"
    using un by (auto split: option.splits)
  then have "ex_stripeRefundId e = None" using x(4) g(2,4) by auto
  moreover have "\<forall>e as. wi_execution item = Some (e, as) \<longrightarrow> ex_stripeRefundId e = None \<and> ex_idempotencyKey e = key"
    using un le x(1) by (auto simp: lost_execution_def)
  ultimately show ?thesis using item st v ef x g(2) by (intro exI [of _ item]) auto
qed

theorem effect_boundary_authority_witness:
  "rr_workflowStatus worker_executing = W_executing \<and> approvalAttestationIsValid worker_store (worker_item worker_executing) = Inr True
   \<and> (\<exists>q \<in> set (requests worker_db_crossed). rr_id q = sample_uuid \<and> rr_effectState q = E_possible)"
  using effect_boundary_authority [OF worker_boundary]
  by (auto simp: worker_boundary_input_def worker_session_tenant worker_items worker_rows)

end
