(* ===== verification/Refund_Authority.thy ===== *)
theory Refund_Authority
  imports Worker_Boundary
begin

text \<open>
  What a refund call of the worker rests on: the execution job asks Stripe for a refund at most
  once, and only for a request whose stored approval was verified twice, with the effect recorded
  as possible before the call.
\<close>

subsection \<open>Actions that make no refund call\<close>

definition quiet :: "'a act \<Rightarrow> bool" where
  "quiet m \<longleftrightarrow> (\<forall>w. wl_refund_calls (snd (m w)) = wl_refund_calls w)"

lemma quietI: "(\<And>w. wl_refund_calls (snd (m w)) = wl_refund_calls w) \<Longrightarrow> quiet m"
  by (simp add: quiet_def)

lemma quietD: "quiet m \<Longrightarrow> m w = (r, w') \<Longrightarrow> wl_refund_calls w' = wl_refund_calls w"
  unfolding quiet_def by (metis snd_conv)

lemma quiet_pure:
  "quiet (return_act x)" "quiet (throw_act e)" "quiet (lift_act r)" "quiet (now_act de)"
  "quiet (stripe_act call)" "quiet (crash_hook de n)" "quiet (tx_act de operation)"
  by (auto intro!: quietI simp: return_act_def throw_act_def lift_act_def now_act_def stripe_act_def crash_hook_def
      tx_act_def tick_def Let_def split: option.splits sum.splits)

lemma quiet_bind: "quiet m \<Longrightarrow> (\<And>x. quiet (f x)) \<Longrightarrow> quiet (bind_act m f)"
  by (rule quietI) (auto simp: bind_act_def split: prod.splits sum.splits dest: quietD intro: quietD [OF _ surjective_pairing, THEN trans])

lemmas quiet_rules = quiet_pure quiet_bind

lemma quiet_record_failure: "quiet (record_failure de record a e)"
  by (auto simp: record_failure_def Let_def split: prod.splits intro!: quiet_rules)

lemma quiet_record_success: "quiet (record_success de record a k refund)"
  by (auto simp: record_success_def intro!: quiet_rules)

lemma quiet_markPreflightFailure: "quiet (markPreflightFailure de record b)"
  by (auto simp: markPreflightFailure_def intro!: quiet_rules)

text \<open>A sequence that makes a call makes it after its quiet beginning.\<close>

definition loud :: "'a act \<Rightarrow> world \<Rightarrow> bool" where
  "loud m w \<longleftrightarrow> wl_refund_calls (snd (m w)) \<noteq> wl_refund_calls w"

lemma quiet_not_loud: "quiet m \<Longrightarrow> \<not> loud m w"
  by (simp add: quiet_def loud_def)

lemma loud_bind:
  assumes "loud (bind_act m f) w" and "quiet m"
  obtains x w1 where "m w = (Inr x, w1)" "loud (f x) w1" "wl_refund_calls w1 = wl_refund_calls w"
    "snd (bind_act m f w) = snd (f x w1)"
proof -
  obtain r w1 where m: "m w = (r, w1)" by fastforce
  note c = quietD [OF assms(2) m]
  show thesis
  proof (cases r)
    case (Inl e)
    with assms(1) m c show thesis by (simp add: loud_def bind_act_def)
  next
    case (Inr x)
    with assms(1) m c show thesis by (intro that [of x w1]) (simp_all add: loud_def bind_act_def)
  qed
qed

subsection \<open>Inversion of the actions of the handler\<close>

lemma tx_act_Inr:
  "tx_act de op w = (Inr x, w1) \<Longrightarrow>
     op (de_session de (wl_time w)) (de_others de (wl_time w) (wl_db w)) = Inr (x, wl_db w1)"
  by (auto simp: tx_act_def Let_def split: sum.splits)

lemma pure_db:
  "now_act de w = (Inr t, w1) \<Longrightarrow> wl_db w1 = wl_db w"
  "stripe_act call w = (Inr answer, w1) \<Longrightarrow> wl_db w1 = wl_db w"
  "crash_hook de n w = (Inr u, w1) \<Longrightarrow> wl_db w1 = wl_db w"
  "lift_act r w = (Inr y, w1) \<Longrightarrow> wl_db w1 = wl_db w"
  by (auto simp: now_act_def stripe_act_def crash_hook_def lift_act_def split: option.splits)

lemma lift_act_Inr: "lift_act r w = (Inr y, w1) \<Longrightarrow> r = Inr y"
  by (simp add: lift_act_def)

lemma createRefund_calls:
  "createRefund_act de input w = (answer, w1) \<Longrightarrow> wl_refund_calls w1 = input # wl_refund_calls w"
  by (auto simp: createRefund_act_def)

lemma perform_refund_loud:
  assumes "loud (perform_refund de record a k) w"
  shows "\<exists>token. sign (ws_hmac (de_store de)) (ws_proofs (de_store de)) (proof_payload record) = Inr token
     \<and> wl_refund_calls (snd (perform_refund de record a k w)) = refund_call record token k # wl_refund_calls w"
proof -
  let ?call = "\<lambda>token. bind_act (createRefund_act de (refund_call record token k)) (\<lambda>answer.
     case answer of Inl e \<Rightarrow> record_failure de record a e | Inr refund \<Rightarrow> record_success de record a k refund)"
  from assms obtain u w1 where 1: "crash_hook de 1 w = (Inr u, w1)"
    "loud (bind_act (lift_act (sign (ws_hmac (de_store de)) (ws_proofs (de_store de)) (proof_payload record))) ?call) w1"
    "wl_refund_calls w1 = wl_refund_calls w"
    "snd (perform_refund de record a k w)
       = snd (bind_act (lift_act (sign (ws_hmac (de_store de)) (ws_proofs (de_store de)) (proof_payload record))) ?call w1)"
    unfolding perform_refund_def by (rule loud_bind) (rule quiet_rules)
  from 1(2) obtain token w2 where 2:
    "lift_act (sign (ws_hmac (de_store de)) (ws_proofs (de_store de)) (proof_payload record)) w1 = (Inr token, w2)"
    "wl_refund_calls w2 = wl_refund_calls w1" "snd (perform_refund de record a k w) = snd (?call token w2)"
    unfolding 1(4) by (rule loud_bind) (rule quiet_rules)
  obtain answer w3 where 3: "createRefund_act de (refund_call record token k) w2 = (Inr answer, w3)"
    by (simp add: createRefund_act_def)
  have "wl_refund_calls (snd (?call token w2)) = wl_refund_calls w3"
    using quiet_record_failure quiet_record_success
    by (auto simp: bind_act_def 3 quiet_def split: sum.splits)
  then show ?thesis using 1(3) 2 createRefund_calls [OF 3] lift_act_Inr [OF 2(1)] by auto
qed

lemma load_claimed_Some:
  assumes "load_claimed st ctx found d = Inr (Some record, d')"
  shows "\<exists>item charge. found = Some item \<and> d' = d \<and> hasActivePilotExecutionContext item
     \<and> approvalAttestationIsValid st item = Inr True \<and> rr_workflowStatus (wi_request item) = W_executing
     \<and> rr_chargeId (wi_request item) = Some charge \<and> record = execution_record item charge"
  using assms
  by (cases found) (auto simp: load_claimed_def bind_tx_Inr split: if_splits option.splits)

text \<open>The record an execution starts from belongs to a request that executes under a valid attestation.\<close>

lemma load_unit_of_work_Some:
  assumes "load_unit_of_work st i now ctx d = Inr (Some record, d')"
  shows "\<exists>item charge. getExecutionWorkItem ctx i d' = Inr (Some item, d') \<and> hasActivePilotExecutionContext item
     \<and> approvalAttestationIsValid st item = Inr True \<and> rr_workflowStatus (wi_request item) = W_executing
     \<and> rr_chargeId (wi_request item) = Some charge \<and> record = execution_record item charge"
proof -
  from assms obtain x where x: "getExecutionWorkItem ctx i d = Inr (x, d)"
    by (auto simp: load_unit_of_work_def bind_tx_Inr dest: getExecutionWorkItem_read)
  with assms obtain item where item: "getExecutionWorkItem ctx i d = Inr (Some item, d)"
    and c: "bind_tx (claimExecutionWorkItem ctx i now) (load_claimed st ctx) d = Inr (Some record, d')
      \<or> load_claimed st ctx (Some item) d = Inr (Some record, d')"
    by (cases x) (auto simp: load_unit_of_work_def bind_tx_Inr when_tx_def split: if_splits)
  from c show ?thesis
  proof
    assume "bind_tx (claimExecutionWorkItem ctx i now) (load_claimed st ctx) d = Inr (Some record, d')"
    then obtain found d1 where f: "claimExecutionWorkItem ctx i now d = Inr (found, d1)"
      and l: "load_claimed st ctx found d1 = Inr (Some record, d')"
      by (auto simp: bind_tx_Inr)
    note L = load_claimed_Some [OF l]
    then have "getExecutionWorkItem ctx i d1 = Inr (found, d1)"
      using f by (auto simp: claimExecutionWorkItem_def bind_tx_Inr dest: getExecutionWorkItem_read split: option.splits)
    with L show ?thesis by auto
  next
    assume "load_claimed st ctx (Some item) d = Inr (Some record, d')"
    from load_claimed_Some [OF this] item show ?thesis by auto
  qed
qed

lemma cross_and_perform_loud:
  assumes "loud (cross_and_perform de record k) w"
  shows "\<exists>ctx n t0 d1 a token. persistEffectBoundary (de_store de) ctx \<lparr>pb_tenantId = re_tenantId record,
        pb_requestId = re_requestId record, pb_idempotencyKey = k, pb_at = t0\<rparr> (de_others de n (wl_db w))
      = Inr (B_execute a k, d1)
     \<and> sign (ws_hmac (de_store de)) (ws_proofs (de_store de)) (proof_payload record) = Inr token
     \<and> wl_refund_calls (snd (cross_and_perform de record k w)) = refund_call record token k # wl_refund_calls w
     \<and> (system_environment de \<longrightarrow> system_run d1 (wl_db (snd (cross_and_perform de record k w))))"
proof -
  let ?decide = "\<lambda>boundary. case boundary of
       B_execute attemptId boundaryKey \<Rightarrow>
         if boundaryKey \<noteq> k then throw_act (Error ''IDEMPOTENCY_KEY_INVARIANT_VIOLATION'')
         else perform_refund de record attemptId k
     | _ \<Rightarrow> return_act ()"
  let ?cross = "\<lambda>t0. tx_act de (\<lambda>ctx. persistEffectBoundary (de_store de) ctx \<lparr>pb_tenantId = re_tenantId record,
        pb_requestId = re_requestId record, pb_idempotencyKey = k, pb_at = t0\<rparr>)"
  let ?final = "snd (cross_and_perform de record k w)"
  from assms obtain u w1 where 1: "crash_hook de 0 w = (Inr u, w1)"
    "loud (bind_act (now_act de) (\<lambda>t0. bind_act (?cross t0) ?decide)) w1" "wl_refund_calls w1 = wl_refund_calls w"
    "?final = snd (bind_act (now_act de) (\<lambda>t0. bind_act (?cross t0) ?decide) w1)"
    unfolding cross_and_perform_def by (rule loud_bind) (rule quiet_rules)
  from 1(2) obtain t0 w2 where 2: "now_act de w1 = (Inr t0, w2)" "loud (bind_act (?cross t0) ?decide) w2"
    "wl_refund_calls w2 = wl_refund_calls w1" "?final = snd (bind_act (?cross t0) ?decide w2)"
    unfolding 1(4) by (rule loud_bind) (rule quiet_rules)
  from 2(2) obtain b w3 where 3: "?cross t0 w2 = (Inr b, w3)" "loud (?decide b) w3"
    "wl_refund_calls w3 = wl_refund_calls w2" "?final = snd (?decide b w3)"
    unfolding 2(4) by (rule loud_bind) (rule quiet_rules)
  from 3(2) obtain a where b: "b = B_execute a k" and p: "loud (perform_refund de record a k) w3"
    by (cases b) (auto simp: quiet_not_loud quiet_rules split: if_splits)
  have e: "?final = snd (perform_refund de record a k w3)" using 3(4) b by simp
  have db: "wl_db w2 = wl_db w" using pure_db(3) [OF 1(1)] pure_db(1) [OF 2(1)] by simp
  have "system_environment de \<longrightarrow> system_run (wl_db w3) (wl_db ?final)"
    using worker_run.perform_refund_acts unfolding e acts_def by blast
  moreover note tx_act_Inr [OF 3(1), unfolded db b]
  moreover from perform_refund_loud [OF p] obtain token where
    "sign (ws_hmac (de_store de)) (ws_proofs (de_store de)) (proof_payload record) = Inr token"
    "wl_refund_calls ?final = refund_call record token k # wl_refund_calls w"
    unfolding e using 1(3) 2(3) 3(3) by auto
  ultimately show ?thesis by blast
qed


lemma revalidate_loud:
  assumes "loud (revalidate_and_execute de record k) w"
  shows "\<exists>w1. wl_db w1 = wl_db w \<and> wl_refund_calls w1 = wl_refund_calls w \<and> loud (cross_and_perform de record k) w1
     \<and> snd (revalidate_and_execute de record k w) = snd (cross_and_perform de record k w1)"
proof -
  obtain answer w1 where 1: "stripe_act (\<lambda>n. de_retrievePayment de n (re_installation record) (re_resourceType record)
      (re_resourceId record)) w = (Inr answer, w1)" "wl_db w1 = wl_db w" "wl_refund_calls w1 = wl_refund_calls w"
    by (simp add: stripe_act_def tick_def)
  show ?thesis
  proof (cases answer)
    case (Inl e)
    with assms 1 show ?thesis
      by (auto simp: revalidate_and_execute_def loud_def bind_act_def Let_def throw_act_def
          quiet_markPreflightFailure [unfolded quiet_def] split: prod.splits if_splits)
  next
    case (Inr payment)
    with assms 1 show ?thesis
      by (auto simp: revalidate_and_execute_def loud_def bind_act_def lift_act_def
          quiet_markPreflightFailure [unfolded quiet_def] split: if_splits sum.splits prod.splits PaymentEligibility.splits)
  qed
qed

lemma run_snapshot:
  assumes "system_run d d'" and "reachable d" and "r \<in> set (requests d)" and "r' \<in> set (requests d')"
    and "rr_id r' = rr_id r"
  shows "same_snapshot r' r"
proof -
  have "kept d d'" using assms(1) by (rule system_run_kept)
  then have h: "history d d'" and inv: "db_inv d'" using reachable_inv [OF assms(2)] by (simp_all add: kept_def)
  from h obtain old new where t: "requests d' = old @ new" "list_all2 request_evolves (requests d) old"
    by (auto simp: history_def table_evolves_def)
  from assms(3) t(2) obtain q where q: "q \<in> set old" "request_evolves r q"
    by (metis in_set_conv_nth list_all2_conv_all_nth)
  have "inj_on rr_id (set (requests d'))" using inv by (simp add: db_inv_def distinct_map)
  moreover have "rr_id q = rr_id r'" using q(2) assms(5) by (simp add: request_evolves_def)
  ultimately have "q = r'" using q(1) assms(4) t(1) by (simp add: inj_on_def)
  then show ?thesis using q(2) by (simp add: request_evolves_def)
qed

subsection \<open>The refund call\<close>

definition call_matches :: "CreateRefundInput \<Rightarrow> RefundRequest \<Rightarrow> bool" where
  "call_matches c r \<longleftrightarrow> cr_requestId c = rr_id r \<and> cr_amountMinor c = rr_amountMinor r \<and> cr_reason c = rr_reason r
     \<and> cr_paymentIntentId c = rr_paymentIntentId r
     \<and> cr_chargeId c = (if rr_paymentIntentId r = None then rr_chargeId r else None)
     \<and> in_tenantId (cr_installation c) = rr_tenantId r \<and> in_installationId (cr_installation c) = rr_installationId r
     \<and> in_environment (cr_installation c) = rr_environment r"

definition call_proof :: "CreateRefundInput \<Rightarrow> RefundRequest \<Rightarrow> RefundProofPayload" where
  "call_proof c r = \<lparr>rp_tenantId = rr_tenantId r, rp_stripeAccountId = in_stripeAccountId (cr_installation c),
     rp_requestId = rr_id r, rp_paymentKey = rr_paymentKey r, rp_amountMinor = rr_amountMinor r,
     rp_currency = rr_currency r, rp_environment = rr_environment r\<rparr>"

lemma record_matches:
  assumes "rr_chargeId (wi_request item) = Some charge"
  shows "call_matches (refund_call (execution_record item charge) token k) (wi_request item)"
    and "proof_payload (execution_record item charge)
      = call_proof (refund_call (execution_record item charge) token k) (wi_request item)"
  using assms
  by (auto simp: call_matches_def call_proof_def refund_call_def execution_record_def worker_installation_def
      proof_payload_def request_resource_def Let_def split: option.splits)

lemma same_snapshot_call:
  assumes "same_snapshot r' r" and "rr_id r' = rr_id r"
  shows "call_matches c r \<longleftrightarrow> call_matches c r'" and "call_proof c r = call_proof c r'"
  using assms by (simp_all add: call_matches_def call_proof_def same_snapshot_def)

lemma handleRefundExecutionJob_loud:
  assumes "loud (handleRefundExecutionJob de t i) w"
  shows "\<exists>ctx now n record k w1. loadRefundExecution (de_store de) ctx t i now (de_others de n (wl_db w))
        = Inr (Some record, wl_db w1)
     \<and> assertPilotInstallation (re_installation record) = Inr () \<and> refundIdempotencyKey (re_requestId record) = Inr k
     \<and> wl_refund_calls w1 = wl_refund_calls w \<and> loud (cross_and_perform de record k) w1
     \<and> snd (handleRefundExecutionJob de t i w) = snd (cross_and_perform de record k w1)"
proof -
  let ?exec = "\<lambda>record k. revalidate_and_execute de record k"
  let ?go = "\<lambda>record. bind_act (lift_act (assertPilotInstallation (re_installation record))) (\<lambda>_.
     bind_act (lift_act (refundIdempotencyKey (re_requestId record))) (?exec record))"
  let ?found = "\<lambda>found. case found of None \<Rightarrow> return_act () | Some record \<Rightarrow> ?go record"
  let ?load = "\<lambda>now. tx_act de (\<lambda>ctx. loadRefundExecution (de_store de) ctx t i now)"
  let ?final = "snd (handleRefundExecutionJob de t i w)"
  have h: "handleRefundExecutionJob de t i = bind_act (now_act de) (\<lambda>now. bind_act (?load now) ?found)"
    using assms by (auto simp: handleRefundExecutionJob_def quiet_not_loud quiet_rules split: if_splits)
  from assms obtain now w1 where 1: "now_act de w = (Inr now, w1)" "loud (bind_act (?load now) ?found) w1"
    "wl_refund_calls w1 = wl_refund_calls w" "?final = snd (bind_act (?load now) ?found w1)"
    unfolding h by (rule loud_bind) (rule quiet_rules)
  from 1(2) obtain found w2 where 2: "?load now w1 = (Inr found, w2)" "loud (?found found) w2"
    "wl_refund_calls w2 = wl_refund_calls w1" "?final = snd (?found found w2)"
    unfolding 1(4) by (rule loud_bind) (rule quiet_rules)
  from 2(2) obtain rec where f: "found = Some rec"
    by (cases found) (auto simp: quiet_not_loud quiet_rules)
  from 2(2,4) f have 3: "loud (?go rec) w2" "?final = snd (?go rec w2)" by simp_all
  then have 4: "assertPilotInstallation (re_installation rec) = Inr ()"
    "loud (bind_act (lift_act (refundIdempotencyKey (re_requestId rec))) (?exec rec)) w2"
    "?final = snd (bind_act (lift_act (refundIdempotencyKey (re_requestId rec))) (?exec rec) w2)"
    by (auto simp: loud_def bind_act_def lift_act_def split: sum.splits)
  then obtain k where 5: "refundIdempotencyKey (re_requestId rec) = Inr k" "loud (?exec rec k) w2"
    "?final = snd (?exec rec k w2)"
    by (auto simp: loud_def bind_act_def lift_act_def split: sum.splits)
  from revalidate_loud [OF 5(2)] obtain w3 where "wl_db w3 = wl_db w2" "wl_refund_calls w3 = wl_refund_calls w2"
    "loud (cross_and_perform de rec k) w3" "?final = snd (cross_and_perform de rec k w3)"
    using 5(3) by auto
  moreover from tx_act_Inr [OF 2(1)] have "loadRefundExecution (de_store de) (de_session de (wl_time w1)) t i now
      (de_others de (wl_time w1) (wl_db w)) = Inr (Some rec, wl_db w2)"
    using pure_db(1) [OF 1(1)] f by simp
  ultimately show ?thesis using 4(1) 5(1) 1(3) 2(3) by metis
qed

lemma loaded_item:
  assumes "loadRefundExecution st ctx t i now d = Inr (Some record', d')"
  obtains item charge where "getExecutionWorkItem (ctx\<lparr>cx_tenant := t\<rparr>) i d' = Inr (Some item, d')"
    "rr_chargeId (wi_request item) = Some charge" "record' = execution_record item charge"
    "wi_request item \<in> set (requests d')" "rr_id (wi_request item) = i"
    "re_tenantId record' = t" "re_requestId record' = i"
proof -
  from load_unit_of_work_Some [OF withTenantTransaction_Some [OF assms [unfolded loadRefundExecution_def]]]
  obtain item charge where item: "getExecutionWorkItem (ctx\<lparr>cx_tenant := t\<rparr>) i d' = Inr (Some item, d')"
    and rest: "rr_chargeId (wi_request item) = Some charge" "record' = execution_record item charge" by blast
  from getExecutionWorkItem_Some [OF item] item rest show thesis
    by (intro that [of item charge]) (simp_all add: execution_record_def Let_def)
qed

lemma boundary_item:
  assumes "persistEffectBoundary st ctx input d = Inr (B_execute a k, d')"
  obtains item where "getExecutionWorkItem (ctx\<lparr>cx_tenant := pb_tenantId input\<rparr>) (pb_requestId input) d = Inr (Some item, d)"
    "rr_workflowStatus (wi_request item) = W_executing" "approvalAttestationIsValid st item = Inr True"
    "wi_request item \<in> set (requests d)" "rr_id (wi_request item) = pb_requestId input"
proof -
  from boundary_unit_execute [OF withTenantTransaction_Some [OF assms [unfolded persistEffectBoundary_def]]]
  obtain item where item: "getExecutionWorkItem (ctx\<lparr>cx_tenant := pb_tenantId input\<rparr>) (pb_requestId input) d = Inr (Some item, d)"
    "rr_workflowStatus (wi_request item) = W_executing"
    and lo: "boundary_locked st (ctx\<lparr>cx_tenant := pb_tenantId input\<rparr>) input item d = Inr (B_execute a k, d')" by metis
  from lo have "approvalAttestationIsValid st item = Inr True"
    by (auto simp: boundary_locked_def Let_def bind_tx_Inr split: option.splits if_splits)
  with item getExecutionWorkItem_Some [OF item(1)] show thesis by (intro that [of item]) simp_all
qed

lemma loaded_reachable:
  assumes "system_environment de" and "reachable d"
    and "loadRefundExecution st ctx t i now (de_others de n d) = Inr (x, d')"
  shows "reachable d'"
proof -
  have "reachable (de_others de n d)" using assms(1,2) by (auto simp: system_environment_def intro: reachable_run)
  moreover have "system_run (de_others de n d) d'"
    using stepsD [OF worker_run.loadRefundExecution_steps assms(3)] assms(1) by blast
  ultimately show ?thesis by (rule reachable_run [rotated])
qed

text \<open>
  C9: no refund without authority. If a run of the execution job calls Stripe, then it does so once,
  and there was a reachable database on which the effect boundary of the job's request was crossed
  under the idempotency key of the call. On that database the request was executing with no effect
  under way and its stored approval verified under the worker's keyring; the call asks for exactly
  the amount, reason and payment of that request, of an active installation that is not live, under
  the request's own key, and carries a proof signed for that request. The crossing was committed
  before the call and the rest of the run starts from it. This holds for every behaviour of Stripe,
  every crash and every interleaving with other processes.
\<close>

theorem refund_call_authorised:
  assumes "system_environment de" and "reachable (wl_db w)"
    and "handleRefundExecutionJob de t i w = (r, w')" and "wl_refund_calls w' \<noteq> wl_refund_calls w"
  shows "\<exists>c ctx at' d0 item a d1. wl_refund_calls w' = c # wl_refund_calls w \<and> reachable d0
     \<and> getExecutionWorkItem (ctx\<lparr>cx_tenant := t\<rparr>) i d0 = Inr (Some item, d0)
     \<and> rr_workflowStatus (wi_request item) = W_executing \<and> approvalAttestationIsValid (de_store de) item = Inr True
     \<and> call_matches c (wi_request item) \<and> refundIdempotencyKey i = Inr (cr_idempotencyKey c)
     \<and> sign (ws_hmac (de_store de)) (ws_proofs (de_store de)) (call_proof c (wi_request item)) = Inr (cr_proof c)
     \<and> assertPilotInstallation (cr_installation c) = Inr ()
     \<and> persistEffectBoundary (de_store de) ctx \<lparr>pb_tenantId = t, pb_requestId = i,
          pb_idempotencyKey = cr_idempotencyKey c, pb_at = at'\<rparr> d0 = Inr (B_execute a (cr_idempotencyKey c), d1)
     \<and> system_run d1 (wl_db w')"
proof -
  let ?st = "de_store de"
  have w': "w' = snd (handleRefundExecutionJob de t i w)" using assms(3) by simp
  have "loud (handleRefundExecutionJob de t i) w" using assms(3,4) by (simp add: loud_def)
  then obtain lctx now n rec k w1 where
    load: "loadRefundExecution ?st lctx t i now (de_others de n (wl_db w)) = Inr (Some rec, wl_db w1)"
    and pilot: "assertPilotInstallation (re_installation rec) = Inr ()"
    and key: "refundIdempotencyKey (re_requestId rec) = Inr k"
    and quiet: "wl_refund_calls w1 = wl_refund_calls w" and l: "loud (cross_and_perform de rec k) w1"
    and e: "snd (handleRefundExecutionJob de t i w) = snd (cross_and_perform de rec k w1)"
    using handleRefundExecutionJob_loud by blast
  from loaded_item [OF load] obtain li charge where charge: "rr_chargeId (wi_request li) = Some charge"
    and rec: "rec = execution_record li charge" and L: "wi_request li \<in> set (requests (wl_db w1))" "rr_id (wi_request li) = i"
    and ids: "re_tenantId rec = t" "re_requestId rec = i" .
  from cross_and_perform_loud [OF l] obtain ctx m t0 d1 a token where
    b: "persistEffectBoundary ?st ctx \<lparr>pb_tenantId = t, pb_requestId = i, pb_idempotencyKey = k, pb_at = t0\<rparr>
        (de_others de m (wl_db w1)) = Inr (B_execute a k, d1)"
    and tok: "sign (ws_hmac ?st) (ws_proofs ?st) (proof_payload rec) = Inr token"
    and calls: "wl_refund_calls w' = refund_call rec token k # wl_refund_calls w"
    and run: "system_run d1 (wl_db w')"
    using assms(1) quiet unfolding ids w' e by auto
  let ?d0 = "de_others de m (wl_db w1)" and ?c = "refund_call rec token k"
  from boundary_item [OF b] obtain item where item:
    "getExecutionWorkItem (ctx\<lparr>cx_tenant := t\<rparr>) i ?d0 = Inr (Some item, ?d0)"
    "rr_workflowStatus (wi_request item) = W_executing" "approvalAttestationIsValid ?st item = Inr True"
    and B: "wi_request item \<in> set (requests ?d0)" "rr_id (wi_request item) = i" by auto
  have r1: "reachable (wl_db w1)" by (rule loaded_reachable [OF assms(1,2) load])
  have run0: "system_run (wl_db w1) ?d0" using assms(1) by (simp add: system_environment_def)
  have same: "same_snapshot (wi_request item) (wi_request li)" "rr_id (wi_request item) = rr_id (wi_request li)"
    using run_snapshot [OF run0 r1 L(1) B(1)] L(2) B(2) by simp_all
  have "call_matches ?c (wi_request item)" "proof_payload rec = call_proof ?c (wi_request item)"
    using record_matches [OF charge] same_snapshot_call [OF same] unfolding rec by auto
  then show ?thesis
    using calls reachable_run [OF run0 r1] item b run tok key pilot ids
    by (intro exI [of _ ?c] exI [of _ ctx] exI [of _ t0] exI [of _ ?d0] exI [of _ item] exI [of _ a] exI [of _ d1])
      (simp add: refund_call_def)
qed

definition worker_payment :: NormalizedPayment where
  "worker_payment = \<lparr>py_paymentKey = ''pi_1'', py_paymentIntentId = Some ''pi_1'', py_chargeId = ''ch_1'',
     py_amountCaptured = 900, py_amountRefunded = 0, py_currency = ''eur'', py_captured = True, py_paid = True,
     py_disputed = False, py_paymentMethodType = Some ''card'', py_hasConnectSemantics = False\<rparr>"

definition worker_deps :: WorkerDependencies where
  "worker_deps = \<lparr>de_store = worker_store, de_session = (\<lambda>_. worker_session), de_others = (\<lambda>_ d. d),
     de_clock = (\<lambda>n. if n = 0 then 1900 else 1950), de_random = (\<lambda>_. wid CHR ''7''), de_uuid = uuid_strict,
     de_crash = (\<lambda>_. None),
     de_retrievePayment = (\<lambda>_ _ _ _. Inr worker_payment),
     de_createRefund = (\<lambda>_ _. Inl \<lparr>th_type = None, th_code = Some ''ECONNRESET'', th_name = None, th_statusCode = None\<rparr>),
     de_retrieveRefund = (\<lambda>_ _ _. Inl \<lparr>th_type = None, th_code = None, th_name = None, th_statusCode = None\<rparr>),
     de_listRefunds = (\<lambda>_ _ _ _ _. Inr ([], False)), de_enqueue = (\<lambda>_ _ _. Inr None)\<rparr>"

definition worker_world :: "db \<Rightarrow> world" where
  "worker_world d = \<lparr>wl_db = d, wl_time = 0, wl_refund_calls = [], wl_jobs = []\<rparr>"

lemma worker_deps_store: "de_store worker_deps = worker_store"
  by (simp add: worker_deps_def)

lemma worker_deps_calm: "system_environment worker_deps"
  by (simp add: system_environment_def system_run_def worker_deps_def)

lemma worker_eligible:
  "\<exists>a b c. evaluatePaymentEligibility (eligibility_input worker_record worker_payment) = Inr (Eligible a b c)"
  by (rule exI, rule exI, rule exI) code_simp

lemma worker_signs:
  "\<exists>token. sign (ws_hmac worker_store) (ws_proofs worker_store) (proof_payload worker_record) = Inr token"
  by (rule exI) code_simp

lemma worker_record_checks:
  "assertPilotInstallation (re_installation worker_record) = Inr ()" "re_requestId worker_record = sample_uuid"
  "re_tenantId worker_record = wid CHR ''a''" "paymentIdentityMatches worker_record worker_payment"
  by code_simp+

lemma worker_call: "loud (handleRefundExecutionJob worker_deps (wid CHR ''a'') sample_uuid) (worker_world worker_db_approved)"
proof -
  obtain x y z where e: "evaluatePaymentEligibility (eligibility_input worker_record worker_payment) = Inr (Eligible x y z)"
    using worker_eligible by blast
  obtain token where tok: "sign (ws_hmac worker_store) (ws_proofs worker_store) (proof_payload worker_record) = Inr token"
    using worker_signs by blast
  let ?w = "\<lparr>wl_db = worker_db_crossed, wl_time = Suc (Suc (Suc (Suc (Suc 0)))), wl_refund_calls = [], wl_jobs = []\<rparr>"
  have p: "loud (perform_refund worker_deps worker_record worker_attempt worker_key) ?w"
    using quiet_record_failure [of worker_deps worker_record worker_attempt]
    by (simp add: loud_def perform_refund_def bind_act_def crash_hook_def lift_act_def createRefund_act_def tick_def
        worker_deps_def tok quiet_def)
  have "handleRefundExecutionJob worker_deps (wid CHR ''a'') sample_uuid (worker_world worker_db_approved)
      = perform_refund worker_deps worker_record worker_attempt worker_key ?w"
    using worker_boundary
    by (simp add: handleRefundExecutionJob_def worker_deps_def worker_world_def sample_uuid_strict wid_strict worker_texts
        bind_act_def now_act_def tick_def tx_act_def worker_load lift_act_def worker_record_checks worker_key
        revalidate_and_execute_def stripe_act_def e cross_and_perform_def crash_hook_def worker_boundary_input_def)
  with p show ?thesis by (simp add: loud_def worker_world_def)
qed

theorem refund_call_authorised_witness:
  "\<exists>c d0 item. reachable d0 \<and> wi_request item \<in> set (requests d0) \<and> call_matches c (wi_request item)
     \<and> approvalAttestationIsValid worker_store item = Inr True
     \<and> wl_refund_calls (snd (handleRefundExecutionJob worker_deps (wid CHR ''a'') sample_uuid (worker_world worker_db_approved))) = [c]"
proof -
  obtain r w' where h: "handleRefundExecutionJob worker_deps (wid CHR ''a'') sample_uuid (worker_world worker_db_approved) = (r, w')"
    by fastforce
  have "wl_refund_calls w' \<noteq> wl_refund_calls (worker_world worker_db_approved)" using worker_call h by (simp add: loud_def)
  moreover have "reachable (wl_db (worker_world worker_db_approved))" by (simp add: worker_world_def worker_reachable)
  ultimately show ?thesis
    using refund_call_authorised [OF worker_deps_calm _ h] getExecutionWorkItem_Some(1) h
    by (simp add: worker_world_def) (metis worker_deps_store)
qed

end
