(* ===== verification/Worker_Theorems.thy ===== *)
theory Worker_Theorems
  imports Refund_Authority
begin

text \<open>
  Properties of the worker's jobs beside the refund call: reachability, the revision an approval
  stays valid for, the error codes that are stored.
\<close>



subsection \<open>Error codes\<close>

text \<open>
  the code stored for a failed Stripe call is safe. Whatever the thrown value carries, the
  code consists of 1 to 64 letters, digits, underscores, dots and dashes, and it does not begin
  like an API key or a webhook secret.
\<close>

lemma safeCode_safe:
  "safe_code_pattern (safeCode kind e) \<and> \<not> secret_prefixed (safeCode kind e) \<and> length (safeCode kind e) \<le> 64"
proof -
  have "safe_code_pattern (''STRIPE_'' @ kind_upper kind) \<and> \<not> secret_prefixed (''STRIPE_'' @ kind_upper kind)"
    by (cases kind) (simp_all add: safe_code_pattern_def secret_prefixed_def kind_upper_def alnum_def in_range_def
        lower_alpha_def digit_def)
  then show ?thesis by (auto simp: safeCode_def safe_code_pattern_def split: option.splits if_splits)
qed

subsection \<open>The revision of an attested request\<close>

text \<open>
  The life of an attested request: status, effect, states of its attempts once there is an
  execution, and the number of revisions since the attestation. Each transition is one revision.
\<close>

inductive attested_life ::
  "WorkflowStatus \<Rightarrow> EffectState \<Rightarrow> ExecutionAttemptState list option \<Rightarrow> int \<Rightarrow> bool" where
  approved: "attested_life W_approved E_not_started None 1"
| claimed: "attested_life W_approved E_not_started None n \<Longrightarrow> attested_life W_executing E_not_started None (n + 1)"
| first_attempt: "attested_life W_executing E_not_started None n \<Longrightarrow>
    attested_life W_executing E_possible (Some [X_started]) (n + 1)"
| next_attempt: "attested_life W_executing E_absence_proven (Some xs) n \<Longrightarrow>
    attested_life W_executing E_possible (Some (xs @ [X_started])) (n + 1)"
| retryable_failure: "attested_life W_executing E_possible (Some (xs @ [X_started])) n \<Longrightarrow>
    attested_life W_executing E_absence_proven (Some (xs @ [X_retryable_failure])) (n + 1)"
| ambiguous_failure: "attested_life W_executing E_possible (Some (xs @ [X_started])) n \<Longrightarrow>
    attested_life W_reconciliation_required E_possible (Some (xs @ [X_ambiguous_failure])) (n + 1)"
| orphaned: "attested_life W_executing E_possible (Some (xs @ [X_started])) n \<Longrightarrow>
    attested_life W_reconciliation_required E_possible (Some (xs @ [X_started])) (n + 1)"
| absence: "attested_life W_reconciliation_required E_possible (Some xs) n \<Longrightarrow>
    attested_life W_reconciliation_required E_absence_proven (Some xs) (n + 1)"
| resumed: "attested_life W_reconciliation_required E_absence_proven (Some xs) n \<Longrightarrow>
    attested_life W_executing E_absence_proven (Some xs) (n + 1)"

definition state_cost :: "ExecutionAttemptState \<Rightarrow> int option" where
  "state_cost x = (case x of X_retryable_failure \<Rightarrow> Some 2 | X_ambiguous_failure \<Rightarrow> Some 4 | X_started \<Rightarrow> Some 4 | _ \<Rightarrow> None)"

text \<open>What the code computes, on the states of the attempts only.\<close>

fun states_cost :: "ExecutionAttemptState list \<Rightarrow> int option" where
  "states_cost [] = Some 0"
| "states_cost (x # xs) = (case (state_cost x, states_cost xs) of (Some a, Some b) \<Rightarrow> Some (a + b) | _ \<Rightarrow> None)"

definition life_formula ::
  "WorkflowStatus \<Rightarrow> EffectState \<Rightarrow> ExecutionAttemptState list option \<Rightarrow> int \<Rightarrow> bool" where
  "life_formula w e attempts' n = (case attempts' of
     None \<Rightarrow> w = W_approved \<and> e = E_not_started \<and> n = 1 \<or> w = W_executing \<and> e = E_not_started \<and> n = 2
   | Some xs \<Rightarrow> xs \<noteq> [] \<and>
       (if w = W_executing \<and> e = E_absence_proven then map_option ((+) 2) (states_cost xs) = Some n
        else (case states_cost (butlast xs) of None \<Rightarrow> False
          | Some prior \<Rightarrow> w = W_executing \<and> e = E_possible \<and> last xs = X_started \<and> n = 3 + prior
              \<or> last xs \<in> {X_started, X_ambiguous_failure} \<and> w = W_reconciliation_required
                \<and> (e = E_possible \<and> n = 4 + prior \<or> e = E_absence_proven \<and> n = 5 + prior))))"

lemma states_cost_append:
  "states_cost (xs @ [x]) = (case (states_cost xs, state_cost x) of (Some a, Some b) \<Rightarrow> Some (a + b) | _ \<Rightarrow> None)"
  by (induction xs) (auto split: option.splits)

lemma states_cost_last:
  "xs \<noteq> [] \<Longrightarrow> states_cost xs = (case (states_cost (butlast xs), state_cost (last xs)) of
     (Some a, Some b) \<Rightarrow> Some (a + b) | _ \<Rightarrow> None)"
  using states_cost_append [of "butlast xs" "last xs"] by simp

lemma life_formula_of_life: "attested_life w e a n \<Longrightarrow> life_formula w e a n"
proof (induction rule: attested_life.induct)
  case (resumed xs n)
  then show ?case
    by (cases "xs = []") (auto simp: life_formula_def states_cost_last state_cost_def split: option.splits)
qed (auto simp: life_formula_def states_cost_append state_cost_def split: option.splits if_splits)

lemma attested_life_cost:
  "states_cost xs = Some c \<Longrightarrow> attested_life W_executing E_possible (Some (xs @ [X_started])) (3 + c)
     \<and> (xs \<noteq> [] \<longrightarrow> attested_life W_executing E_absence_proven (Some xs) (2 + c))"
proof (induction xs arbitrary: c rule: rev_induct)
  case Nil
  then show ?case using attested_life.first_attempt [OF attested_life.claimed [OF attested_life.approved]] by simp
next
  case (snoc x xs)
  from snoc.prems obtain a b where c: "states_cost xs = Some a" "state_cost x = Some b" "c = a + b"
    by (auto simp: states_cost_append split: option.splits)
  have s: "attested_life W_executing E_possible (Some (xs @ [X_started])) (3 + a)" using snoc.IH c(1) by blast
  have r: "attested_life W_executing E_absence_proven (Some (xs @ [x])) (2 + c)"
  proof (cases x)
    case X_retryable_failure
    then show ?thesis using attested_life.retryable_failure [OF s] c by (simp add: state_cost_def)
  next
    case X_ambiguous_failure
    then show ?thesis
      using attested_life.resumed [OF attested_life.absence [OF attested_life.ambiguous_failure [OF s]]] c
      by (simp add: state_cost_def)
  next
    case X_started
    then show ?thesis
      using attested_life.resumed [OF attested_life.absence [OF attested_life.orphaned [OF s]]] c
      by (simp add: state_cost_def)
  qed (use c(2) in \<open>simp_all add: state_cost_def\<close>)
  then show ?case using attested_life.next_attempt [OF r] by (simp add: add.commute add.left_commute)
qed

lemma life_of_life_formula:
  assumes "life_formula w e a n"
  shows "attested_life w e a n"
proof (cases a)
  case None
  then show ?thesis using assms attested_life.approved attested_life.claimed [OF attested_life.approved]
    by (auto simp: life_formula_def)
next
  case (Some xs)
  show ?thesis
  proof (cases "w = W_executing \<and> e = E_absence_proven")
    case True
    then show ?thesis using assms Some attested_life_cost [of xs] by (auto simp: life_formula_def)
  next
    case False
    with assms Some obtain c where c: "states_cost (butlast xs) = Some c" and xs: "xs \<noteq> []"
      and f: "w = W_executing \<and> e = E_possible \<and> last xs = X_started \<and> n = 3 + c
        \<or> last xs \<in> {X_started, X_ambiguous_failure} \<and> w = W_reconciliation_required
          \<and> (e = E_possible \<and> n = 4 + c \<or> e = E_absence_proven \<and> n = 5 + c)"
      by (auto simp: life_formula_def split: option.splits)
    have s: "attested_life W_executing E_possible (Some (butlast xs @ [X_started])) (3 + c)"
      using attested_life_cost [OF c] by blast
    have a: "Some xs = Some (butlast xs @ [last xs])" using xs by simp
    show ?thesis
      using f s attested_life.orphaned [OF s] attested_life.ambiguous_failure [OF s]
        attested_life.absence [OF attested_life.orphaned [OF s]]
        attested_life.absence [OF attested_life.ambiguous_failure [OF s]]
      unfolding Some a by (auto simp: add.commute add.left_commute)
  qed
qed

lemma life_formula_iff: "life_formula w e a n \<longleftrightarrow> attested_life w e a n"
  using life_formula_of_life life_of_life_formula by blast

lemma resolved_cost: "resolvedRevisionCost a = state_cost (at_state a)"
  by (simp add: resolvedRevisionCost_def state_cost_def)

lemma revision_cost_states: "revision_cost acc as = map_option ((+) acc) (states_cost (map at_state as))"
  by (induction as arbitrary: acc) (auto simp: resolved_cost split: option.splits)

lemma attested_life_states:
  "attested_life w e a n \<Longrightarrow> 1 \<le> n \<and> (\<forall>xs. a = Some xs \<longrightarrow> xs \<noteq> [] \<and> set xs \<subseteq> {X_started, X_retryable_failure, X_ambiguous_failure})"
  by (induction rule: attested_life.induct) auto

definition attempts_numbered :: "RefundRequest \<Rightarrow> RefundExecution \<Rightarrow> RefundExecutionAttempt list \<Rightarrow> bool" where
  "attempts_numbered r e as \<longleftrightarrow> (\<forall>k < length as. at_executionId (as ! k) = ex_id e
     \<and> at_tenantId (as ! k) = rr_tenantId r \<and> at_attemptNumber (as ! k) = int k + 1)"

lemma attempts_in_order_iff:
  "attempts_in_order r e as \<longleftrightarrow> attempts_numbered r e as
     \<and> set (map at_state as) \<inter> {X_completed, X_terminal_failure} = {}"
proof -
  have "set (map at_state as) \<inter> {X_completed, X_terminal_failure} = {} \<longleftrightarrow>
      (\<forall>k < length as. at_state (as ! k) \<noteq> X_completed \<and> at_state (as ! k) \<noteq> X_terminal_failure)"
    by (metis (no_types, lifting) disjoint_insert(2) in_set_conv_nth inf_bot_right length_map nth_map)
  then show ?thesis
    unfolding attempts_in_order_def attempts_numbered_def by (auto simp: list_all_length nth_enumerate_eq)
qed

text \<open>
  The revision check of an attestation is exactly the life of an attested request. A stored
  request is compatible with the revision its approval was attested at if and only if its status,
  its effect, its numbered attempts and the number of revisions since are what some sequence of
  approval, claim, attempts, failures, reconciliation and resumption produces, one revision each;
  any further update of the row breaks the compatibility.
\<close>

lemma attestation_revision_is_lifecycle:
  "approvalAttestationRequestVersionIsCompatible item attested \<longleftrightarrow>
     safe_integer attested \<and> 0 \<le> attested \<and> safe_integer (rr_version (wi_request item))
     \<and> (case wi_execution item of
          None \<Rightarrow> attested_life (rr_workflowStatus (wi_request item)) (rr_effectState (wi_request item)) None
            (rr_version (wi_request item) - attested)
        | Some (e, as) \<Rightarrow> ex_requestId e = rr_id (wi_request item) \<and> ex_tenantId e = rr_tenantId (wi_request item)
            \<and> ex_stripeRefundId e = None \<and> attempts_numbered (wi_request item) e as
            \<and> attested_life (rr_workflowStatus (wi_request item)) (rr_effectState (wi_request item))
                (Some (map at_state as)) (rr_version (wi_request item) - attested))"
proof -
  let ?r = "wi_request item" and ?n = "rr_version (wi_request item) - attested"
  let ?w = "rr_workflowStatus (wi_request item)" and ?e = "rr_effectState (wi_request item)"
  have pos: "attested_life ?w ?e a ?n \<Longrightarrow> attested < rr_version ?r" for a
    using attested_life_states [of ?w ?e a ?n] by auto
  show ?thesis
  proof (cases "wi_execution item")
    case None
    then show ?thesis using pos [of None] unfolding life_formula_iff [symmetric]
      by (auto simp: approvalAttestationRequestVersionIsCompatible_def Let_def life_formula_def)
  next
    case (Some ea)
    then obtain e as where ea: "wi_execution item = Some (e, as)" by (cases ea) auto
    let ?a = "Some (map at_state as)"
    have code: "(if ?w = W_executing \<and> ?e = E_absence_proven then revision_cost 2 as = Some ?n
        else (case revision_cost 0 (butlast as) of None \<Rightarrow> False | Some prior \<Rightarrow>
          (let latest = at_state (last as) in
           if ?w = W_executing \<and> ?e = E_possible \<and> latest = X_started then ?n = 3 + prior
           else if ?w = W_reconciliation_required \<and> ?e = E_possible
             \<and> (latest = X_started \<or> latest = X_ambiguous_failure) then ?n = 4 + prior
           else if ?w = W_reconciliation_required \<and> ?e = E_absence_proven
             \<and> (latest = X_started \<or> latest = X_ambiguous_failure) then ?n = 5 + prior
           else False))) \<longleftrightarrow> life_formula ?w ?e ?a ?n" if "as \<noteq> []"
      using that by (auto simp: life_formula_def revision_cost_states map_butlast last_map Let_def
          split: option.splits)
    have st: "attested_life ?w ?e ?a ?n \<Longrightarrow> as \<noteq> [] \<and> set (map at_state as) \<inter> {X_completed, X_terminal_failure} = {}"
      using attested_life_states [of ?w ?e ?a ?n] by auto
    show ?thesis
    proof (cases "as = [] \<or> \<not> attempts_in_order ?r e as")
      case True
      then show ?thesis using st by (auto simp: approvalAttestationRequestVersionIsCompatible_def Let_def ea attempts_in_order_iff)
    next
      case False
      then have ord: "as \<noteq> []" "attempts_in_order ?r e as" "attempts_numbered ?r e as"
        by (simp_all add: attempts_in_order_iff)
      show ?thesis using pos [of ?a] unfolding approvalAttestationRequestVersionIsCompatible_def Let_def ea
        by (simp add: ord code [OF ord(1), unfolded Let_def] life_formula_iff) auto
    qed
  qed
qed

end
