(* ===== verification/Attestation_Roundtrip.thy ===== *)
theory Attestation_Roundtrip
  imports Worker_Samples
begin

text \<open>
  From the approval endpoint to the execution: the attestation the store signs and persists is one
  the execution accepts later, as long as the request, the people and the installation are the
  ones that were signed for.
\<close>

definition approved_item ::
  "PersistApprovalAttestationInput \<Rightarrow> RefundRequest \<Rightarrow> ApprovalAttestation \<Rightarrow> ExecutionWorkItem \<Rightarrow> bool" where
  "approved_item input r a item \<longleftrightarrow>
     (\<exists>dec approver. wi_approval item = Some (dec, approver, Some a) \<and> ad_decision dec = D_approve
          \<and> ad_approvalAttestationId dec = Some (aa_id a) \<and> ad_approverUserId dec = aa_approverUserId a
          \<and> aa_verifiedAt a \<le> ad_decidedAt dec \<and> ad_decidedAt dec < aa_consumeBefore a
          \<and> tu_id approver = aa_approverUserId a \<and> tu_stripeUserId approver = pa_approverStripeUserId input
          \<and> tu_approverEnabled approver)
     \<and> rr_id (wi_request item) = rr_id r \<and> same_snapshot (wi_request item) r
     \<and> tu_id (wi_requester item) = rr_requesterUserId r
     \<and> tu_stripeUserId (wi_requester item) = pa_requesterStripeUserId input
     \<and> si_stripeAccountId (wi_installation item) = pa_stripeAccountId input
     \<and> approvalAttestationRequestVersionIsCompatible item (rr_version r)"

lemma format_token_parts:
  assumes "version_pattern_9 v"
  shows "takeWhile (\<lambda>c. c \<noteq> CHR ''.'') (format_token v d) = v" and "drop (Suc (length v)) (format_token v d) = b64_encode d"
proof -
  have "CHR ''.'' \<notin> set v" using assms attestation_token.no_dot by blast
  then show "takeWhile (\<lambda>c. c \<noteq> CHR ''.'') (format_token v d) = v"
    by (auto simp: format_token_def takeWhile_append)
qed (simp add: format_token_def)

text \<open>The row that is stored carries the key version and the digest of the signed payload.\<close>

lemma sign_and_persist_Inr:
  assumes key: "newApprovalAttestationKeyring keys = Inr (ws_approvalAttestations st)"
    and run: "sign_and_persist st ctx input inst u p until' d = Inr ((aid, h), d')"
  obtains a k g where "attestations d' = attestations d @ [a]" "aa_id a = aid"
    "attestation_digest (ws_hmac st) p k = Inr g" "aa_hmac a = g"
    "version_pattern_9 (aa_hmacKeyVersion a)" "ak_verificationKeys (ws_approvalAttestations st) (aa_hmacKeyVersion a) = Some k"
    "a = \<lparr>aa_id = u, aa_tenantId = cx_tenant ctx, aa_installationId = inst, aa_requestId = aap_requestId p,
       aa_approverUserId = aap_approverUserId p, aa_requestNonce = pa_requestNonce input,
       aa_stripeAccountId = pa_stripeAccountId input, aa_environment = pa_environment input,
       aa_resourceType = resource_type_name (aap_resourceType p), aa_resourceId = aap_resourceId p,
       aa_requestVersion = aap_requestVersion p, aa_signedEnvelopeHash = pa_signedEnvelopeHash input,
       aa_authorizationSnapshotHash = approvalAuthorizationSnapshotHash st p, aa_verifiedAt = pa_verifiedAt input,
       aa_consumeBefore = until', aa_hmacKeyVersion = aa_hmacKeyVersion a, aa_hmac = aa_hmac a,
       aa_createdAt = pa_verifiedAt input\<rparr>"
proof -
  let ?kr = "ws_approvalAttestations st"
  note kr = newApprovalAttestationKeyring_Inr [OF key]
  from run obtain g where g: "attestation_digest (ws_hmac st) p (vs_key (ak_active ?kr)) = Inr g"
    by (auto simp: sign_and_persist_def bind_tx_Inr sign_attestation_def split: sum.splits)
  then have "sign_attestation (ws_hmac st) ?kr p = Inr (format_token (vs_version (ak_active ?kr)) g)"
    by (simp add: sign_attestation_def)
  with run g show thesis
    by (intro that [of "last (attestations d')" "vs_key (ak_active ?kr)" g])
      (auto simp: sign_and_persist_def bind_tx_Inr format_token_parts [OF kr(1)] kr persistApprovalAttestation_def
        insert_attestation_def Let_def split: if_splits)
qed

text \<open>What the unit of work has checked when it signs.\<close>

lemma attestation_unit_Inr:
  assumes run: "attestation_unit_of_work st input inst u ctx d = Inr (x, d')"
    and fresh: "getApprovalAttestationByNonce ctx (pa_requestNonce input) d = None"
  obtains r q ap charge currency where "getRefundRequest ctx (pa_requestId input) d = Some r"
    "rr_installationId r = inst" "rr_environment r = pa_environment input" "rr_requiredApprovals r = 1"
    "tu_id q = rr_requesterUserId r" "tu_stripeUserId q = pa_requesterStripeUserId input"
    "tu_stripeUserId ap = pa_approverStripeUserId input" "tu_id ap \<noteq> tu_id q" "tu_stripeUserId ap \<noteq> tu_stripeUserId q"
    "rr_chargeId r = Some charge" "normalizeCurrency (rr_currency r) = Inr currency"
    "pa_verifiedAt input < rr_expiresAt r"
    "sign_and_persist st ctx input inst u
       (attestation_payload ctx input inst r q ap charge currency
          (min (pa_verifiedAt input + APPROVAL_ATTESTATION_LIFETIME_MILLISECONDS) (rr_expiresAt r)))
       (min (pa_verifiedAt input + APPROVAL_ATTESTATION_LIFETIME_MILLISECONDS) (rr_expiresAt r)) d = Inr (x, d')"
proof -
  from run fresh obtain r where r: "getRefundRequest ctx (pa_requestId input) d = Some r"
    by (auto simp: attestation_unit_of_work_def split: option.splits)
  obtain t i q ap pol where rows:
    "first_row (\<lambda>t. tn_id t = cx_tenant ctx) (tenants d) = Some t"
    "first_row (\<lambda>i. si_id i = inst \<and> si_tenantId i = cx_tenant ctx) (installations d) = Some i"
    "first_row (\<lambda>u. tu_id u = rr_requesterUserId r \<and> tu_tenantId u = cx_tenant ctx) (users d) = Some q"
    "first_row (\<lambda>u. tu_stripeUserId u = pa_approverStripeUserId input \<and> tu_tenantId u = cx_tenant ctx) (users d) = Some ap"
    "first_row (\<lambda>p. ap_tenantId p = cx_tenant ctx \<and> ap_version p = rr_policyVersion r) (policies d) = Some pol"
    using run fresh r by (auto simp: attestation_unit_of_work_def Let_def split: option.splits)
  with run fresh r have b: "\<not> attestation_guard_before input r t i" and a: "\<not> attestation_guard_after input r q ap pol"
    and at: "attest_request st ctx input inst u r q ap d = Inr (x, d')"
    by (auto simp: attestation_unit_of_work_def Let_def bind_tx_Inr split: if_splits)
  from at obtain charge currency where c: "rr_chargeId r = Some charge" "normalizeCurrency (rr_currency r) = Inr currency"
    "pa_verifiedAt input < rr_expiresAt r"
    "sign_and_persist st ctx input inst u
       (attestation_payload ctx input inst r q ap charge currency
          (min (pa_verifiedAt input + APPROVAL_ATTESTATION_LIFETIME_MILLISECONDS) (rr_expiresAt r)))
       (min (pa_verifiedAt input + APPROVAL_ATTESTATION_LIFETIME_MILLISECONDS) (rr_expiresAt r)) d = Inr (x, d')"
    by (auto simp: attest_request_def Let_def bind_tx_Inr split: option.splits if_splits)
  have i: "si_id i = inst" and q: "tu_id q = rr_requesterUserId r"
    using first_row_Some [OF rows(2)] first_row_Some [OF rows(3)] by simp_all
  have "rr_installationId r = inst" "rr_environment r = pa_environment input"
    using b i by (simp_all add: attestation_guard_before_def)
  moreover have "rr_requiredApprovals r = 1" "tu_stripeUserId q = pa_requesterStripeUserId input"
    "tu_stripeUserId ap = pa_approverStripeUserId input" "tu_id ap \<noteq> tu_id q" "tu_stripeUserId ap \<noteq> tu_stripeUserId q"
    using a by (simp_all add: attestation_guard_after_def)
  ultimately show thesis by (rule that [OF r _ _ _ q _ _ _ _ c])
qed

lemma payload_of_approved_item:
  assumes item: "approved_item input r a item"
    and r: "rr_tenantId r = cx_tenant ctx" "rr_installationId r = inst" "rr_environment r = pa_environment input"
      "rr_requiredApprovals r = 1" "rr_chargeId r = Some charge" "normalizeCurrency (rr_currency r) = Inr currency"
    and p: "tu_id q = rr_requesterUserId r" "tu_stripeUserId q = pa_requesterStripeUserId input"
      "tu_stripeUserId ap = pa_approverStripeUserId input" "tu_id ap \<noteq> tu_id q" "tu_stripeUserId ap \<noteq> tu_stripeUserId q"
    and a: "aa_tenantId a = cx_tenant ctx" "aa_installationId a = inst" "aa_requestId a = rr_id r" "aa_approverUserId a = tu_id ap"
      "aa_stripeAccountId a = pa_stripeAccountId input" "aa_environment a = pa_environment input"
      "aa_resourceType a = resource_type_name (fst (request_resource r charge))"
      "aa_resourceId a = snd (request_resource r charge)" "aa_requestVersion a = rr_version r"
      "aa_signedEnvelopeHash a = pa_signedEnvelopeHash input" "aa_requestNonce a = pa_requestNonce input"
      "aa_verifiedAt a = pa_verifiedAt input" "aa_consumeBefore a = until'"
    and live: "pa_environment input \<noteq> Env_live"
  shows "approvalPayloadFromExecutionItem item
    = Inr (Some (attestation_payload ctx input inst r q ap charge currency until'))"
proof -
  from item obtain dec approver where ap: "wi_approval item = Some (dec, approver, Some a)"
    unfolding approved_item_def by blast
  have res: "request_resource (wi_request item) charge = request_resource r charge"
    using item by (simp add: approved_item_def same_snapshot_def request_resource_def)
  obtain ty i where ty: "request_resource r charge = (ty, i)" by fastforce
  show ?thesis
    using item r p a live
    by (simp add: approvalPayloadFromExecutionItem_def approved_item_def ap Let_def res ty same_snapshot_def
        attestation_payload_def)
qed

text \<open>The stored row and the payload that later work items of the request give back.\<close>

lemma attested_row:
  assumes key: "newApprovalAttestationKeyring keys = Inr (ws_approvalAttestations st)"
    and run: "attestation_unit_of_work st input inst u ctx d = Inr ((aid, h), d')"
    and fresh: "getApprovalAttestationByNonce ctx (pa_requestNonce input) d = None"
  obtains r a p k g where "getRefundRequest ctx (pa_requestId input) d = Some r" "attestations d' = attestations d @ [a]"
    "aa_id a = aid" "attestation_digest (ws_hmac st) p k = Inr g" "aa_hmac a = g" "version_pattern_9 (aa_hmacKeyVersion a)"
    "ak_verificationKeys (ws_approvalAttestations st) (aa_hmacKeyVersion a) = Some k"
    "aa_authorizationSnapshotHash a = approvalAuthorizationSnapshotHash st p" "aa_verifiedAt a = pa_verifiedAt input"
    "aa_consumeBefore a = min (pa_verifiedAt input + APPROVAL_ATTESTATION_LIFETIME_MILLISECONDS) (rr_expiresAt r)"
    "\<forall>item. approved_item input r a item \<longrightarrow> approvalPayloadFromExecutionItem item = Inr (Some p)"
proof -
  from attestation_unit_Inr [OF run fresh] obtain r q ap charge currency where
    r: "getRefundRequest ctx (pa_requestId input) d = Some r" "rr_installationId r = inst"
      "rr_environment r = pa_environment input" "rr_requiredApprovals r = 1"
    and p: "tu_id q = rr_requesterUserId r" "tu_stripeUserId q = pa_requesterStripeUserId input"
      "tu_stripeUserId ap = pa_approverStripeUserId input" "tu_id ap \<noteq> tu_id q" "tu_stripeUserId ap \<noteq> tu_stripeUserId q"
    and c: "rr_chargeId r = Some charge" "normalizeCurrency (rr_currency r) = Inr currency"
      "pa_verifiedAt input < rr_expiresAt r"
    and sp: "sign_and_persist st ctx input inst u
       (attestation_payload ctx input inst r q ap charge currency
          (min (pa_verifiedAt input + APPROVAL_ATTESTATION_LIFETIME_MILLISECONDS) (rr_expiresAt r)))
       (min (pa_verifiedAt input + APPROVAL_ATTESTATION_LIFETIME_MILLISECONDS) (rr_expiresAt r)) d = Inr ((aid, h), d')"
    by metis
  let ?until = "min (pa_verifiedAt input + APPROVAL_ATTESTATION_LIFETIME_MILLISECONDS) (rr_expiresAt r)"
  let ?p = "attestation_payload ctx input inst r q ap charge currency ?until"
  from sign_and_persist_Inr [OF key sp] obtain a k g where
    a: "attestations d' = attestations d @ [a]" "aa_id a = aid" "attestation_digest (ws_hmac st) ?p k = Inr g"
      "aa_hmac a = g" "version_pattern_9 (aa_hmacKeyVersion a)"
      "ak_verificationKeys (ws_approvalAttestations st) (aa_hmacKeyVersion a) = Some k"
    and row: "a = \<lparr>aa_id = u, aa_tenantId = cx_tenant ctx, aa_installationId = inst, aa_requestId = aap_requestId ?p,
       aa_approverUserId = aap_approverUserId ?p, aa_requestNonce = pa_requestNonce input,
       aa_stripeAccountId = pa_stripeAccountId input, aa_environment = pa_environment input,
       aa_resourceType = resource_type_name (aap_resourceType ?p), aa_resourceId = aap_resourceId ?p,
       aa_requestVersion = aap_requestVersion ?p, aa_signedEnvelopeHash = pa_signedEnvelopeHash input,
       aa_authorizationSnapshotHash = approvalAuthorizationSnapshotHash st ?p, aa_verifiedAt = pa_verifiedAt input,
       aa_consumeBefore = ?until, aa_hmacKeyVersion = aa_hmacKeyVersion a, aa_hmac = aa_hmac a,
       aa_createdAt = pa_verifiedAt input\<rparr>" .
  have t: "rr_tenantId r = cx_tenant ctx" using r(1) by (auto simp: getRefundRequest_def dest: first_row_Some)
  from a(3) have "identifiers_ok ?p"
    by (auto simp: attestation_digest_def canonicalPayload_def split: sum.splits if_splits)
  then have live: "pa_environment input \<noteq> Env_live" by (simp add: identifiers_ok_def attestation_payload_def)
  have "approvalPayloadFromExecutionItem item = Inr (Some ?p)" if item: "approved_item input r a item" for item
    by (rule payload_of_approved_item [OF item t r(2-4) c(1,2) p])
      (subst row, simp add: attestation_payload_def, (rule live)?)+
  moreover have "aa_authorizationSnapshotHash a = approvalAuthorizationSnapshotHash st ?p"
    "aa_verifiedAt a = pa_verifiedAt input" "aa_consumeBefore a = ?until" by (subst row, simp)+
  ultimately show thesis by (intro that [OF r(1) a]) blast+
qed

text \<open>
  C34: what the approval endpoint signs, the execution accepts. When the store persists a new
  attestation, it appends one row, good for at most five minutes and not beyond the expiry of the
  request, and whenever the work item of an execution shows that request with its snapshot intact,
  a decision that consumed this row in its window, the people and the account that were signed for,
  the approver still enabled, and a revision the lifecycle explains, then the stored attestation is
  valid for it.
\<close>

theorem attestation_round_trip:
  assumes "\<And>k m. length (ws_hmac st k m) = 32"
    and "newApprovalAttestationKeyring keys = Inr (ws_approvalAttestations st)"
    and "attestation_unit_of_work st input inst u ctx d = Inr ((aid, h), d')"
    and "getApprovalAttestationByNonce ctx (pa_requestNonce input) d = None"
  shows "\<exists>r a. getRefundRequest ctx (pa_requestId input) d = Some r \<and> attestations d' = attestations d @ [a]
    \<and> aa_id a = aid \<and> aa_consumeBefore a \<le> rr_expiresAt r \<and> aa_consumeBefore a - aa_verifiedAt a \<le> 300000
    \<and> (\<forall>item. approved_item input r a item \<longrightarrow> approvalAttestationIsValid st item = Inr True)"
proof -
  obtain r a p k g where
    row: "getRefundRequest ctx (pa_requestId input) d = Some r" "attestations d' = attestations d @ [a]" "aa_id a = aid"
    and sig: "attestation_digest (ws_hmac st) p k = Inr g" "aa_hmac a = g" "version_pattern_9 (aa_hmacKeyVersion a)"
      "ak_verificationKeys (ws_approvalAttestations st) (aa_hmacKeyVersion a) = Some k"
    and hash: "aa_authorizationSnapshotHash a = approvalAuthorizationSnapshotHash st p"
    and window: "aa_verifiedAt a = pa_verifiedAt input"
      "aa_consumeBefore a = min (pa_verifiedAt input + APPROVAL_ATTESTATION_LIFETIME_MILLISECONDS) (rr_expiresAt r)"
    and payload: "\<forall>item. approved_item input r a item \<longrightarrow> approvalPayloadFromExecutionItem item = Inr (Some p)"
    by (rule attested_row [OF assms(2-4)])
  have "verify_attestation (ws_hmac st) (ws_approvalAttestations st) p (format_token (aa_hmacKeyVersion a) (aa_hmac a)) = Inr True"
    using sig by (subst verify_attestation_True [OF assms(1)]) blast
  then have "approvalAttestationIsValid st item = Inr True" if item: "approved_item input r a item" for item
    using item payload hash by (auto simp: approvalAttestationIsValid_def approved_item_def)
  then show ?thesis using row window
    by (intro exI [of _ r] exI [of _ a]) (simp add: APPROVAL_ATTESTATION_LIFETIME_MILLISECONDS_def min_def)
qed

definition approval_input :: PersistApprovalAttestationInput where
  "approval_input = \<lparr>pa_signedEnvelopeHash = replicate 32 7, pa_requestNonce = wid CHR ''e'', pa_stripeAccountId = ''acct_1'',
     pa_environment = Env_test, pa_resourceType = RT_payment_intent, pa_resourceId = ''pi_1'', pa_requestId = sample_uuid,
     pa_expectedRequestVersion = 0, pa_approverStripeUserId = ''usr_2'', pa_requesterStripeUserId = ''usr_1'',
     pa_amountMinor = 500, pa_currency = ''eur'', pa_reason = duplicate, pa_verifiedAt = 1500\<rparr>"

lemma approval_signed:
  "attestation_payload (tenant_session False) approval_input (wid CHR ''b'') worker_request (hd (users worker_db))
     (last (users worker_db)) ''ch_1'' ''eur'' 9000 = worker_payload"
  "sign_attestation (ws_hmac worker_store) (ws_approvalAttestations worker_store) worker_payload
     = Inr (format_token ''v1'' (replicate 32 0))"
proof -
  show "attestation_payload (tenant_session False) approval_input (wid CHR ''b'') worker_request (hd (users worker_db))
     (last (users worker_db)) ''ch_1'' ''eur'' 9000 = worker_payload"
    by (simp add: attestation_payload_def approval_input_def worker_request_def sample_request_def worker_db_def
        tenant_session_def worker_instants worker_payload_def sample_attestation_def request_resource_def)
  obtain s where "canonicalPayload worker_payload = Inr s" using worker_canonical by blast
  then show "sign_attestation (ws_hmac worker_store) (ws_approvalAttestations worker_store) worker_payload
     = Inr (format_token ''v1'' (replicate 32 0))"
    by (simp add: sign_attestation_def attestation_digest_def worker_store_def sample_attestation_keyring_def)
qed

lemma approval_persisted:
  "sign_and_persist worker_store (tenant_session False) approval_input (wid CHR ''b'') (wid CHR ''f'') worker_payload 9000
     worker_db_created = Inr ((wid CHR ''f'', replicate 32 7), worker_db_attested)"
proof -
  have v: "version_pattern_9 ''v1''" by (simp add: version_pattern_9_def version_pattern_def in_range_def)
  have p: "\<lparr>aa_id = wid CHR ''f'', aa_tenantId = [], aa_installationId = wid CHR ''b'', aa_requestId = aap_requestId worker_payload,
       aa_approverUserId = aap_approverUserId worker_payload, aa_requestNonce = pa_requestNonce approval_input,
       aa_stripeAccountId = pa_stripeAccountId approval_input, aa_environment = pa_environment approval_input,
       aa_resourceType = resource_type_name (aap_resourceType worker_payload), aa_resourceId = aap_resourceId worker_payload,
       aa_requestVersion = aap_requestVersion worker_payload, aa_signedEnvelopeHash = pa_signedEnvelopeHash approval_input,
       aa_authorizationSnapshotHash = approvalAuthorizationSnapshotHash worker_store worker_payload,
       aa_verifiedAt = pa_verifiedAt approval_input, aa_consumeBefore = 9000, aa_hmacKeyVersion = ''v1'',
       aa_hmac = replicate 32 0, aa_createdAt = pa_verifiedAt approval_input\<rparr> = worker_attestation\<lparr>aa_tenantId := []\<rparr>"
    by (simp add: worker_payload_def sample_attestation_def approval_input_def worker_attestation_def worker_store_def
        approvalAuthorizationSnapshotHash_def resource_type_name_def)
  have "persistApprovalAttestation (tenant_session False) (worker_attestation\<lparr>aa_tenantId := []\<rparr>) worker_db_created
      = Inr (worker_attestation, worker_db_attested)"
    using worker_persist by (simp add: persistApprovalAttestation_def)
  then show ?thesis
    using format_token_parts [OF v, of "replicate 32 0"]
    by (simp add: sign_and_persist_def approval_signed bind_tx_def lift_tx_def return_tx_def Let_def p worker_attestation_def)
qed

lemma approval_rows:
  "getRefundRequest (tenant_session False) sample_uuid worker_db_created = Some worker_request"
  "getApprovalAttestationByNonce (tenant_session False) (wid CHR ''e'') worker_db_created = None"
  by (simp_all add: getRefundRequest_def getApprovalAttestationByNonce_def worker_db_created_def worker_request_def
      sample_request_def tenant_session_def worker_db_def empty_db_def first_row_def)

lemma approval_run:
  "attestation_unit_of_work worker_store approval_input (wid CHR ''b'') (wid CHR ''f'') (tenant_session False) worker_db_created
     = Inr ((wid CHR ''f'', replicate 32 7), worker_db_attested)"
proof -
  have i: "pa_requestId approval_input = sample_uuid" "pa_requestNonce approval_input = wid CHR ''e''"
    by (simp_all add: approval_input_def)
  have u: "hd (users worker_db) = \<lparr>tu_id = wid CHR ''c'', tu_tenantId = wid CHR ''a'', tu_stripeUserId = ''usr_1'', tu_displayName = None,
        tu_stripeRoles = ''[]'', tu_approverEnabled = False, tu_lastVerifiedAt = 100, tu_createdAt = 100\<rparr>"
    "last (users worker_db) = \<lparr>tu_id = wid CHR ''d'', tu_tenantId = wid CHR ''a'', tu_stripeUserId = ''usr_2'', tu_displayName = None,
        tu_stripeRoles = ''[]'', tu_approverEnabled = True, tu_lastVerifiedAt = 100, tu_createdAt = 100\<rparr>"
    by (simp_all add: worker_db_def)
  have a: "attest_request worker_store (tenant_session False) approval_input (wid CHR ''b'') (wid CHR ''f'') worker_request
      (hd (users worker_db)) (last (users worker_db)) worker_db_created = Inr ((wid CHR ''f'', replicate 32 7), worker_db_attested)"
    using approval_persisted approval_signed(1)
    by (simp add: attest_request_def worker_request_def sample_request_def request_resource_def approval_input_def
        APPROVAL_ATTESTATION_LIFETIME_MILLISECONDS_def bind_tx_def lift_tx_def worker_texts)
  have r: "rr_requesterUserId worker_request = wid CHR ''c''" "rr_policyVersion worker_request = 1"
    "rr_currency worker_request = ''eur''" "pa_currency approval_input = ''eur''" "wid CHR ''d'' \<noteq> wid CHR ''c''"
    by (simp_all add: worker_request_def sample_request_def approval_input_def wid_def)
  have rows: "first_row (\<lambda>t. tn_id t = wid CHR ''a'') (tenants worker_db_created) = Some (hd (tenants worker_db))"
    "first_row (\<lambda>i. si_id i = wid CHR ''b'' \<and> si_tenantId i = wid CHR ''a'') (installations worker_db_created) = Some (hd (installations worker_db))"
    "first_row (\<lambda>u. tu_id u = wid CHR ''c'' \<and> tu_tenantId u = wid CHR ''a'') (users worker_db_created) = Some (hd (users worker_db))"
    "first_row (\<lambda>u. tu_stripeUserId u = ''usr_2'' \<and> tu_tenantId u = wid CHR ''a'') (users worker_db_created) = Some (last (users worker_db))"
    "first_row (\<lambda>p. ap_tenantId p = wid CHR ''a'' \<and> ap_version p = 1) (policies worker_db_created) = Some (hd (policies worker_db))"
    by (simp_all add: worker_db_created_def worker_db_def first_row_def)
  have g: "\<not> attestation_guard_before approval_input worker_request (hd (tenants worker_db)) (hd (installations worker_db))"
    "\<not> attestation_guard_after approval_input worker_request (hd (users worker_db)) (last (users worker_db)) (hd (policies worker_db))"
    by (simp_all add: attestation_guard_before_def attestation_guard_after_def approval_input_def worker_request_def
        sample_request_def worker_db_def wid_def)
  have t: "cx_tenant (tenant_session False) = wid CHR ''a''" "pa_approverStripeUserId approval_input = ''usr_2''"
    by (simp_all add: tenant_session_def approval_input_def)
  show ?thesis
    by (simp add: attestation_unit_of_work_def with_db_apply Let_def i approval_rows t r rows g a bind_tx_def lift_tx_def worker_texts)
qed

lemma approval_item: "approved_item approval_input worker_request worker_attestation (worker_item worker_executing)"
  by (simp add: approved_item_def worker_item_def worker_decision_def worker_attestation_def approval_input_def worker_db_def
      worker_executing_def worker_approved_def worker_request_def sample_request_def same_snapshot_def
      approvalAttestationRequestVersionIsCompatible_def safe_integer_def)

theorem attestation_round_trip_witness:
  "attestations worker_db_attested = attestations worker_db_created @ [worker_attestation]
   \<and> approvalAttestationIsValid worker_store (worker_item worker_executing) = Inr True"
proof -
  have h: "length (ws_hmac worker_store k m) = 32" for k m by (simp add: worker_store_def)
  have key: "newApprovalAttestationKeyring sample_attestation_keys = Inr (ws_approvalAttestations worker_store)"
    using sample_attestation_keyring_new by (simp add: worker_store_def)
  have "getApprovalAttestationByNonce (tenant_session False) (pa_requestNonce approval_input) worker_db_created = None"
    using approval_rows(2) by (simp add: approval_input_def)
  moreover have "pa_requestId approval_input = sample_uuid" by (simp add: approval_input_def)
  ultimately show ?thesis
    using attestation_round_trip [OF h key approval_run] approval_rows(1) approval_item
    by (auto simp: worker_db_attested_def worker_db_created_def worker_db_def empty_db_def)
qed

end
