(* ===== verification/Worker_Batches.thy ===== *)
theory Worker_Batches
  imports Refund_Authority
begin

text \<open>
  The expiry job, which works in batches over all active tenants: how much one run expires and what
  it leaves.
\<close>

subsection \<open>Expiry\<close>

definition due_now :: "string \<Rightarrow> date \<Rightarrow> RefundRequest \<Rightarrow> bool" where
  "due_now t now r \<longleftrightarrow> rr_tenantId r = t \<and> rr_workflowStatus r = W_pending_approval \<and> rr_effectState r = E_not_started
     \<and> rr_expiresAt r \<le> now"

definition undisturbed :: "WorkerDependencies \<Rightarrow> bool" where
  "undisturbed de \<longleftrightarrow> (\<forall>n d. de_others de n d = d)"

text \<open>What a part of the job does to the database: it only expires due requests.\<close>

definition expires :: "date \<Rightarrow> db \<Rightarrow> db \<Rightarrow> bool" where
  "expires now d d' \<longleftrightarrow> tenants d' = tenants d \<and> map rr_id (requests d') = map rr_id (requests d)
     \<and> (\<forall>t. (\<forall>r \<in> set (requests d). \<not> due_now t now r) \<longrightarrow> (\<forall>r \<in> set (requests d'). \<not> due_now t now r))"

lemma expires_refl: "expires now d d"
  by (simp add: expires_def)

lemma expires_trans: "expires now d e \<Longrightarrow> expires now e f \<Longrightarrow> expires now d f"
  unfolding expires_def by (elim conjE) (intro conjI allI impI, simp, simp, blast)

lemma expire_one_tenant:
  assumes "distinct (map rr_id (requests d))"
    and "withTenantTransaction ctx t (\<lambda>ctx. expirePendingRequests ctx now limit) d = Inr (n, d')"
  shows "int n \<le> limit" and "expires now d d'" and "int n < limit \<Longrightarrow> \<forall>r \<in> set (requests d'). \<not> due_now t now r"
proof -
  have run: "expirePendingRequests (ctx\<lparr>cx_tenant := t\<rparr>) now limit d = Inr (n, d')"
    using withTenantTransaction_Inr [OF assms(2)] by simp
  note x = expirePendingRequests_result [OF assms(1) run]
  have due: "due (ctx\<lparr>cx_tenant := t\<rparr>) now r \<longleftrightarrow> due_now t now r" for r by (simp add: due_def due_now_def)
  show "int n \<le> limit" by (rule x(1))
  show "int n < limit \<Longrightarrow> \<forall>r \<in> set (requests d'). \<not> due_now t now r" using x(3) due by blast
  have row: "rr_id r' = rr_id r \<and> (\<forall>s. due_now s now r' \<longrightarrow> due_now s now r)"
    if "r' = r \<or> P \<and> r' = expired_row now r" for r r' P
    using that by (elim disjE conjE) (simp_all add: due_now_def expired_row_def)
  have rows: "list_all2 (\<lambda>r r'. rr_id r' = rr_id r \<and> (\<forall>s. due_now s now r' \<longrightarrow> due_now s now r))
      (requests d) (requests d')"
    using x(2) by (rule list_all2_mono) (rule row)
  have "map rr_id (requests d') = map rr_id (requests d)"
    using rows by (simp add: list_eq_iff_nth_eq list_all2_conv_all_nth)
  moreover have "\<not> due_now s now r'" if "\<forall>r \<in> set (requests d). \<not> due_now s now r" and "r' \<in> set (requests d')" for s r'
    using that list_all2_right [OF rows] by blast
  moreover have "tenants d' = tenants d" using arg_cong [OF x(4), of tenants] by simp
  ultimately show "expires now d d'" by (simp add: expires_def)
qed

lemma expire_tenants_result:
  assumes "undisturbed de" and "expire_tenants de now limit ts k w = (Inr m, w')"
    and "distinct (map rr_id (requests (wl_db w)))" and "k \<le> limit"
  shows "k \<le> m \<and> m \<le> limit \<and> expires now (wl_db w) (wl_db w')
    \<and> (m < limit \<longrightarrow> (\<forall>t \<in> set ts. \<forall>r \<in> set (requests (wl_db w')). \<not> due_now t now r))"
  using assms(2-4)
proof (induction ts arbitrary: k w)
  case Nil
  then show ?case by (auto simp: return_act_def expires_refl)
next
  case (Cons t ts)
  show ?case
  proof (cases "limit - k \<le> 0")
    case True
    with Cons.prems show ?thesis by (auto simp: return_act_def expires_refl)
  next
    case False
    let ?tx = "tx_act de (\<lambda>ctx. withTenantTransaction ctx t (\<lambda>ctx. expirePendingRequests ctx now (limit - k)))"
    from Cons.prems(1) False obtain n w1 where tx: "?tx w = (Inr n, w1)"
      and rest: "expire_tenants de now limit ts (k + int n) w1 = (Inr m, w')"
      by (auto simp: bind_act_def split: prod.splits sum.splits)
    from tx assms(1) have run: "withTenantTransaction (de_session de (wl_time w)) t
        (\<lambda>ctx. expirePendingRequests ctx now (limit - k)) (wl_db w) = Inr (n, wl_db w1)"
      by (auto simp: tx_act_def undisturbed_def Let_def split: sum.splits)
    note one = expire_one_tenant [OF Cons.prems(2) run]
    have "distinct (map rr_id (requests (wl_db w1)))" using one(2) Cons.prems(2) by (simp add: expires_def)
    from Cons.IH [OF rest this] one(1) have ih: "k + int n \<le> m \<and> m \<le> limit \<and> expires now (wl_db w1) (wl_db w')
      \<and> (m < limit \<longrightarrow> (\<forall>t \<in> set ts. \<forall>r \<in> set (requests (wl_db w')). \<not> due_now t now r))" by simp
    moreover have "m < limit \<Longrightarrow> \<forall>r \<in> set (requests (wl_db w')). \<not> due_now t now r"
      using ih one(3) by (simp add: expires_def)
    ultimately show ?thesis using expires_trans [OF one(2)] by auto
  qed
qed

definition cleared :: "date \<Rightarrow> db \<Rightarrow> bool" where
  "cleared now d \<longleftrightarrow> (\<forall>t \<in> set (tenants d). \<forall>r \<in> set (requests d). tn_status t = T_active \<longrightarrow> \<not> due_now (tn_id t) now r)"

lemma expireDueRequests_result:
  assumes "undisturbed de" and "expireDueRequests de now limit w = (Inr m, w')"
    and "distinct (map rr_id (requests (wl_db w)))" and "0 \<le> limit"
  shows "0 \<le> m \<and> m \<le> limit \<and> expires now (wl_db w) (wl_db w') \<and> (m < limit \<longrightarrow> cleared now (wl_db w'))"
proof -
  from assms(1,2) have "expire_tenants de now limit (listActiveTenantIds (wl_db w)) 0 ((tick w)\<lparr>wl_db := wl_db w\<rparr>) = (Inr m, w')"
    by (simp add: expireDueRequests_def read_act_def bind_act_def tx_act_def gets_tx_def undisturbed_def Let_def)
  from expire_tenants_result [OF assms(1) this] assms(3,4)
  have x: "0 \<le> m \<and> m \<le> limit \<and> expires now (wl_db w) (wl_db w')
    \<and> (m < limit \<longrightarrow> (\<forall>t \<in> set (listActiveTenantIds (wl_db w)). \<forall>r \<in> set (requests (wl_db w')). \<not> due_now t now r))"
    by simp
  then show ?thesis by (auto simp: cleared_def listActiveTenantIds_def expires_def)
qed

lemma expire_batches_result:
  assumes "undisturbed de" and "expire_batches de now b k w = (Inr (m, finished), w')"
    and "distinct (map rr_id (requests (wl_db w)))"
  shows "k \<le> m \<and> m \<le> k + 500 * int b \<and> expires now (wl_db w) (wl_db w') \<and> (finished \<longrightarrow> cleared now (wl_db w'))
    \<and> (\<not> finished \<longrightarrow> m = k + 500 * int b)"
  using assms(2,3)
proof (induction b arbitrary: k w)
  case 0
  then show ?case by (auto simp: return_act_def expires_refl)
next
  case (Suc b)
  from Suc.prems(1) obtain c w1 where one: "expireDueRequests de now 500 w = (Inr c, w1)"
    and rest: "(if c < 500 then return_act (k + c, True) else expire_batches de now b (k + c)) w1 = (Inr (m, finished), w')"
    by (auto simp: bind_act_def split: prod.splits sum.splits)
  note x = expireDueRequests_result [OF assms(1) one Suc.prems(2), simplified]
  have d: "distinct (map rr_id (requests (wl_db w1)))" using x Suc.prems(2) by (simp add: expires_def)
  show ?case
  proof (cases "c < 500")
    case True
    with rest x show ?thesis by (auto simp: return_act_def)
  next
    case False
    with rest have "expire_batches de now b (k + c) w1 = (Inr (m, finished), w')" by simp
    note ih = Suc.IH [OF this d]
    then have "expires now (wl_db w) (wl_db w')" using x expires_trans by blast
    then show ?thesis using ih x False by (simp add: algebra_simps)
  qed
qed

text \<open>
  C25: the expiry job is bounded and complete. A run that ends has expired at most fifty thousand
  requests, exactly that many when it stopped at its limit of batches; and when it stopped at a
  short batch and no other process interfered, no pending request of an active tenant is left
  whose expiry is not after the time the job began.
\<close>

theorem expiration_job_clears_due_requests:
  assumes "reachable (wl_db w)" and "undisturbed de"
    and "handleExpirationJob de ''due'' w = (Inr (n, finished), w')"
  shows "0 \<le> n \<and> n \<le> 50000 \<and> (\<not> finished \<longrightarrow> n = 50000)
    \<and> (finished \<longrightarrow> (\<forall>t \<in> set (tenants (wl_db w')). \<forall>r \<in> set (requests (wl_db w')).
         tn_status t = T_active \<and> rr_tenantId r = tn_id t \<and> rr_workflowStatus r = W_pending_approval
         \<and> rr_effectState r = E_not_started \<longrightarrow> de_clock de (wl_time w) < rr_expiresAt r))"
proof -
  have "distinct (map rr_id (requests (wl_db w)))" using reachable_inv [OF assms(1)] by (simp add: db_inv_def)
  moreover have "expire_batches de (de_clock de (wl_time w)) 100 0 (tick w) = (Inr (n, finished), w')"
    using assms(3) by (simp add: handleExpirationJob_def bind_act_def now_act_def)
  ultimately show ?thesis
    using expire_batches_result [OF assms(2), of "de_clock de (wl_time w)" 100 0 "tick w"]
    by (auto simp: cleared_def due_now_def not_le)
qed

definition worker_late :: WorkerDependencies where
  "worker_late = worker_deps\<lparr>de_clock := (\<lambda>_. 9500)\<rparr>"

definition worker_db_expired :: db where
  "worker_db_expired = worker_db_created\<lparr>requests := [expired_row 9500 worker_request]\<rparr>"

lemma expiry_tx:
  "expirePendingRequests (tenant_session False) 9500 500 worker_db_created = Inr (1, worker_db_expired)"
proof -
  have "requests worker_db_created = [worker_request]" by (simp add: worker_db_created_def)
  then have "expirePendingRequests (tenant_session False) 9500 500 worker_db_created
      = expirePendingRequests (tenant_session False) 9500 10 worker_db_created"
    by (simp add: expirePendingRequests_def safe_integer_def bind_tx_def gets_tx_def)
  also have "\<dots> = Inr (1, worker_db_expired)" by code_simp
  finally show ?thesis .
qed

lemma expiry_transaction:
  "withTenantTransaction worker_session (wid CHR ''a'') (\<lambda>ctx. expirePendingRequests ctx 9500 500) worker_db_created
     = Inr (1, worker_db_expired)"
  by (rule withTenantTransaction_calm)
    (simp_all add: worker_tenant worker_session_tenant expiry_tx, simp add: worker_session_def)

lemma expiry_run:
  "handleExpirationJob worker_late ''due'' (worker_world worker_db_created)
     = (Inr (1, True), \<lparr>wl_db = worker_db_expired, wl_time = Suc (Suc (Suc 0)), wl_refund_calls = [], wl_jobs = []\<rparr>)"
proof -
  have t: "listActiveTenantIds worker_db_created = [wid CHR ''a'']"
    by (simp add: listActiveTenantIds_def worker_db_created_def worker_db_def)
  have "expire_batches worker_late 9500 (Suc b) 0 (tick (worker_world worker_db_created))
      = (Inr (1, True), \<lparr>wl_db = worker_db_expired, wl_time = Suc (Suc (Suc 0)), wl_refund_calls = [], wl_jobs = []\<rparr>)" for b
    by (simp add: bind_act_def expireDueRequests_def read_act_def tx_act_def gets_tx_def tick_def return_act_def
        worker_late_def worker_deps_def worker_world_def t expiry_transaction)
  from this [of 99] show ?thesis
    by (simp add: handleExpirationJob_def bind_act_def now_act_def worker_late_def)
qed

theorem expiration_job_clears_due_requests_witness:
  "filter (\<lambda>r. rr_tenantId r = wid CHR ''a'' \<and> rr_workflowStatus r = W_pending_approval
     \<and> rr_effectState r = E_not_started \<and> rr_expiresAt r \<le> 9500) (requests worker_db_expired) = []"
proof -
  have "reachable worker_db_created"
    using step_createRefundRequest [OF _ worker_create] reachable.init [of worker_db]
    by (auto intro: reachable.step simp: new_request_def worker_request_def sample_request_def worker_db_def empty_db_def)
  then have "reachable (wl_db (worker_world worker_db_created))" by (simp add: worker_world_def)
  moreover have "undisturbed worker_late" by (simp add: undisturbed_def worker_late_def worker_deps_def)
  ultimately show ?thesis
    using expiration_job_clears_due_requests [OF _ _ expiry_run]
    by (simp add: filter_empty_conv not_le [symmetric] worker_late_def worker_db_expired_def worker_db_created_def worker_db_def worker_world_def)
qed

end
