(* ===== verification/Worker_Idempotence.thy ===== *)
theory Worker_Idempotence
  imports Worker_Batches
begin

text \<open>
  Work that is delivered more than once: webhook jobs, whose receipt is closed in the transaction
  that applies the event, and reconciliation windows, whose checkpoint is compared and set.
\<close>

subsection \<open>Webhook jobs\<close>

definition receipt_processed :: "string \<Rightarrow> string \<Rightarrow> db \<Rightarrow> bool" where
  "receipt_processed tenantId receiptId d \<longleftrightarrow>
     (case first_row (\<lambda>x. wr_id x = receiptId \<and> wr_tenantId x = tenantId) (receipts d) of
        None \<Rightarrow> False | Some x \<Rightarrow> wr_status x = RC_processed)"

lemma receipt_processed_get:
  "receipt_processed (cx_tenant ctx) i d \<longleftrightarrow> (\<exists>x. getWebhookReceipt ctx i d = Some x \<and> wr_status x = RC_processed)"
  by (auto simp: receipt_processed_def getWebhookReceipt_def split: option.splits)

lemma list_all2_left: "list_all2 P xs ys \<Longrightarrow> x \<in> set xs \<Longrightarrow> \<exists>y \<in> set ys. P x y"
  by (induction rule: list_all2_induct) auto

lemma finish_receipt_processed:
  assumes "finish_receipt ctx i t d = Inr ((), d')"
  shows "receipt_processed (cx_tenant ctx) i d'"
proof -
  let ?p = "\<lambda>x. wr_tenantId x = cx_tenant ctx \<and> open_receipt ctx i x"
  let ?f = "\<lambda>x. x\<lparr>wr_status := RC_processed, wr_processedAt := Some t, wr_lastErrorCode := None\<rparr>"
  from assms have one: "length (filter ?p (receipts d)) = 1"
    and rows: "list_all2 (\<lambda>x x'. if ?p x then x' = ?f x else x' = x) (receipts d) (receipts d')"
    by (auto simp: finish_receipt_def markWebhookReceiptProcessed_def bind_tx_Inr update_receipts_def update_own_Inr
        bind_err_Inr split: sum.splits if_splits elim!: list_all2_mono)
  have step: "(wr_tenantId x' = cx_tenant ctx \<and> wr_id x' = i \<longleftrightarrow> wr_tenantId x = cx_tenant ctx \<and> wr_id x = i)
      \<and> (wr_tenantId x' = cx_tenant ctx \<and> wr_id x' = i \<longrightarrow> wr_status x' = RC_processed)"
    if "if ?p x then x' = ?f x else x' = x" for x x'
    using that by (cases "?p x"; cases "wr_status x") (simp_all add: open_receipt_def)
  from one obtain x where x: "x \<in> set (receipts d)" "?p x"
    by (metis (mono_tags, lifting) filter_empty_conv length_0_conv zero_neq_one)
  then obtain x' where "x' \<in> set (receipts d')" and "if ?p x then x' = ?f x else x' = x"
    using list_all2_left [OF rows] by blast
  with x(2) have "\<exists>x' \<in> set (receipts d'). wr_tenantId x' = cx_tenant ctx \<and> wr_id x' = i"
    by (intro bexI [of _ x']) (simp_all add: open_receipt_def)
  moreover have "wr_status x' = RC_processed"
    if "x' \<in> set (receipts d')" and "wr_tenantId x' = cx_tenant ctx \<and> wr_id x' = i" for x'
    using list_all2_right [OF rows that(1)] step that(2) by blast
  ultimately show ?thesis
    by (auto simp: receipt_processed_def first_row_None split: option.splits dest: first_row_Some)
qed

lemma audit_receipts:
  "audit ctx a b c e p u t d = Inr ((), d') \<Longrightarrow> receipt_processed k i d' \<longleftrightarrow> receipt_processed k i d"
  by (auto simp: receipt_processed_def audit_def appendAuditEvent_def insert_audit_def bind_tx_Inr Let_def split: if_splits)

text \<open>Both kinds of event start by checking the receipt and do nothing more when it is closed.\<close>

lemma guarded_by_receipt:
  assumes "bind_tx (receipt_matches_job ctx i j e a n p) (\<lambda>open'. if \<not> open' then return_tx () else m) d = Inr ((), d')"
    and "\<And>d d'. m d = Inr ((), d') \<Longrightarrow> receipt_processed (cx_tenant ctx) i d'"
  shows "receipt_processed (cx_tenant ctx) i d'"
proof -
  from assms(1) obtain open' d1 where r: "receipt_matches_job ctx i j e a n p d = Inr (open', d1)"
    and rest: "(if \<not> open' then return_tx () else m) d1 = Inr ((), d')" by (auto simp: bind_tx_Inr)
  show ?thesis
  proof (cases open')
    case True
    with rest assms(2) show ?thesis by simp
  next
    case False
    with r rest show ?thesis
      by (auto simp: receipt_matches_job_def bind_tx_Inr receipt_processed_get split: option.splits if_splits)
  qed
qed

lemma closed_receipt:
  "receipt_processed (cx_tenant ctx) i d \<Longrightarrow>
     bind_tx (receipt_matches_job ctx i j e a n p) (\<lambda>open'. if \<not> open' then return_tx () else m) d = Inr ((), d)"
  by (auto simp: receipt_matches_job_def receipt_processed_get bind_tx_def gets_tx_def return_tx_def)

lemma lifecycle_receipt:
  assumes "processInstallationLifecycle ctx input u d = Inr ((), d')"
  shows "uuid_nocase (il_tenantId input) \<and> receipt_processed (il_tenantId input) (il_receiptId input) d'"
proof -
  note run = withTenantTransaction_Inr [OF assms [unfolded processInstallationLifecycle_def]]
  have "receipt_processed (cx_tenant (ctx\<lparr>cx_tenant := il_tenantId input\<rparr>)) (il_receiptId input) d'"
    by (rule guarded_by_receipt [OF run [THEN conjunct2]])
      (auto simp: bind_tx_Inr audit_receipts dest!: finish_receipt_processed split: option.splits if_splits)
  with run show ?thesis by simp
qed

lemma observation_receipt:
  assumes "observeRefund st ctx input u d = Inr ((), d')" and "ob_source input = S_webhook src"
  shows "uuid_nocase (ob_tenantId input) \<and> receipt_processed (ob_tenantId input) (sr_receiptId src) d'"
proof -
  note run = withTenantTransaction_Inr [OF assms(1) [unfolded observeRefund_def]]
  then have unit: "observe_unit_of_work st input u (ctx\<lparr>cx_tenant := ob_tenantId input\<rparr>) d = Inr ((), d')" by blast
  then have "ob_environment input \<noteq> Env_live" by (auto simp: observe_unit_of_work_def)
  note work = unit [unfolded observe_unit_of_work_def if_not_P [OF this] assms(2) RefundObservationSource.case]
  have "receipt_processed (cx_tenant (ctx\<lparr>cx_tenant := ob_tenantId input\<rparr>)) (sr_receiptId src) d'"
    by (rule guarded_by_receipt [OF work])
      (auto simp: bind_tx_Inr audit_receipts dest!: finish_receipt_processed)
  with run show ?thesis by simp
qed

lemma process_webhook_receipt:
  assumes "process_webhook de job w = (Inr (), w')"
  shows "uuid_nocase (pj_tenant_id job) \<and> receipt_processed (pj_tenant_id job) (pj_receipt_id job) (wl_db w')"
proof (cases "np_body (pj_payload job)")
  case (RefundBody r)
  with assms show ?thesis
    by (auto simp: process_webhook_def Let_def bind_act_def now_act_def random_act_def tx_act_def
        split: sum.splits dest!: observation_receipt)
next
  case (InstallationBody a)
  with assms show ?thesis
    by (auto simp: process_webhook_def Let_def bind_act_def now_act_def random_act_def tx_act_def
        split: sum.splits dest!: lifecycle_receipt)
qed

text \<open>A run on a closed receipt.\<close>

lemma observation_closed:
  assumes "ob_source input = S_webhook src" and "receipt_processed (cx_tenant ctx) (sr_receiptId src) d"
    and "ob_environment input \<noteq> Env_live"
  shows "observe_unit_of_work st input u ctx d = Inr ((), d)"
  unfolding observe_unit_of_work_def assms(1) RefundObservationSource.case if_not_P [OF assms(3)]
  using assms(2) by (rule closed_receipt)

lemma process_webhook_closed:
  assumes "receipt_processed (pj_tenant_id job) (pj_receipt_id job) (wl_db w)" and "undisturbed de"
    and "np_environment (pj_payload job) \<noteq> Env_live" and "process_webhook de job w = (r, w')"
  shows "wl_db w' = wl_db w"
    and "uuid_nocase (pj_tenant_id job) \<Longrightarrow> (\<And>n. \<not> cx_conflict (de_session de n) 1) \<Longrightarrow> r = Inr ()"
proof -
  have "\<exists>op. process_webhook de job w
        = tx_act de (\<lambda>ctx. withTenantTransaction ctx (pj_tenant_id job) op) (tick (tick w))
      \<and> (\<forall>ctx. op (ctx\<lparr>cx_tenant := pj_tenant_id job\<rparr>) (wl_db w) = Inr ((), wl_db w))"
  proof (cases "np_body (pj_payload job)")
    case (RefundBody x)
    with assms(1,3) show ?thesis
      by (simp add: process_webhook_def Let_def bind_act_def now_act_def random_act_def observeRefund_def tick_def)
        (rule exI, rule conjI [OF refl], intro allI observation_closed, simp, simp, simp)
  next
    case (InstallationBody a)
    with assms(1,3) show ?thesis
      by (auto simp: process_webhook_def Let_def bind_act_def now_act_def random_act_def tick_def
          processInstallationLifecycle_def intro!: exI closed_receipt)
  qed
  then obtain op where run: "process_webhook de job w
        = tx_act de (\<lambda>ctx. withTenantTransaction ctx (pj_tenant_id job) op) (tick (tick w))"
    and op: "\<And>ctx. op (ctx\<lparr>cx_tenant := pj_tenant_id job\<rparr>) (wl_db w) = Inr ((), wl_db w)" by blast
  let ?s = "de_session de (wl_time (tick (tick w)))"
  show "wl_db w' = wl_db w"
  proof (cases "withTenantTransaction ?s (pj_tenant_id job) op (wl_db w)")
    case (Inl e)
    with assms(2,4) run show ?thesis by (auto simp: tx_act_def undisturbed_def Let_def)
  next
    case (Inr b)
    with withTenantTransaction_Inr [OF Inr] op [of ?s] have "b = ((), wl_db w)" by simp
    with Inr assms(2,4) run show ?thesis by (auto simp: tx_act_def undisturbed_def Let_def)
  qed
  assume "uuid_nocase (pj_tenant_id job)" and "\<And>n. \<not> cx_conflict (de_session de n) 1"
  then have "withTenantTransaction ?s (pj_tenant_id job) op (wl_db w) = Inr ((), wl_db w)"
    using op by (intro withTenantTransaction_calm)
  with assms(2,4) run show "r = Inr ()" by (auto simp: tx_act_def undisturbed_def Let_def)
qed

lemma failing_closed_receipt:
  assumes "undisturbed de" and "receipt_processed t i (wl_db w)"
  shows "wl_db (snd (tx_act de (\<lambda>ctx. store_markWebhookReceiptFailed ctx t i c) w)) = wl_db w"
proof (cases "store_markWebhookReceiptFailed (de_session de (wl_time w)) t i c (wl_db w)")
  case (Inl e)
  with assms(1) show ?thesis by (simp add: tx_act_def undisturbed_def)
next
  case (Inr b)
  from withTenantTransaction_Inr [OF Inr [unfolded store_markWebhookReceiptFailed_def]] assms(2)
  have "b = ((), wl_db w)"
    using receipt_processed_get [of "(de_session de (wl_time w))\<lparr>cx_tenant := t\<rparr>" i "wl_db w"]
    by (auto simp: bind_tx_def gets_tx_def return_tx_def)
  with Inr assms(1) show ?thesis by (simp add: tx_act_def undisturbed_def)
qed

text \<open>
  C23: webhook jobs are idempotent. A job that ends without error has its receipt processed. When
  the same job is delivered again it leaves the database as it is, whatever the outcome, and
  succeeds when its transaction meets no conflict.
\<close>

theorem webhook_job_idempotent:
  assumes "handleWebhookJob de job w = (Inr (), w')"
  shows "receipt_processed (pj_tenant_id job) (pj_receipt_id job) (wl_db w')
    \<and> (\<forall>de2 w2. undisturbed de2 \<and> wl_db w2 = wl_db w' \<longrightarrow>
         wl_db (snd (handleWebhookJob de2 job w2)) = wl_db w2
         \<and> (de_uuid de2 = de_uuid de \<and> (\<forall>n. \<not> cx_conflict (de_session de2 n) 1) \<longrightarrow>
              fst (handleWebhookJob de2 job w2) = Inr ()))"
proof -
  from assms have schema: "processWebhookJobSchema de job" and "process_webhook de job w = (Inr (), w')"
    by (auto simp: handleWebhookJob_def bind_act_def try_act_def return_act_def throw_act_def
        split: prod.splits sum.splits if_splits)
  note ended = process_webhook_receipt [OF this(2)]
  have live: "np_environment (pj_payload job) \<noteq> Env_live"
    using schema by (auto simp: processWebhookJobSchema_def normalizedAccountWebhookPayloadSchema_def non_live_def)
  have "wl_db (snd (handleWebhookJob de2 job w2)) = wl_db w2
      \<and> (de_uuid de2 = de_uuid de \<and> (\<forall>n. \<not> cx_conflict (de_session de2 n) 1) \<longrightarrow>
           fst (handleWebhookJob de2 job w2) = Inr ())"
    if calm: "undisturbed de2" and db: "wl_db w2 = wl_db w'" for de2 w2
  proof -
    obtain r w3 where run: "process_webhook de2 job w2 = (r, w3)" by fastforce
    note again = process_webhook_closed [OF _ calm live run]
    have closed: "receipt_processed (pj_tenant_id job) (pj_receipt_id job) (wl_db w2)" using ended db by simp
    have fails: "wl_db w4 = wl_db w2" if "tx_act de2 (\<lambda>ctx. store_markWebhookReceiptFailed ctx (pj_tenant_id job)
        (pj_receipt_id job) c) w3 = (x, w4)" for c x w4
      using failing_closed_receipt [OF calm, of "pj_tenant_id job" "pj_receipt_id job" w3 c] that
        again(1) [OF closed] closed by simp
    have "de_uuid de2 = de_uuid de \<Longrightarrow> processWebhookJobSchema de2 job"
      using schema by (simp add: processWebhookJobSchema_def)
    then show ?thesis using again(1) [OF closed] again(2) [OF closed] ended fails
      by (auto simp: handleWebhookJob_def bind_act_def try_act_def return_act_def throw_act_def run
          split: prod.splits sum.splits)
  qed
  with ended show ?thesis by blast
qed

definition worker_event :: NormalizedAccountWebhookPayload where
  "worker_event = \<lparr>np_environment = Env_test, np_event_created = 1, np_event_idempotency_key = None,
     np_event_type = ''account.application.authorized'', np_body = InstallationBody ''ca_1''\<rparr>"

definition worker_job :: ProcessWebhookJob where
  "worker_job = \<lparr>pj_tenant_id = wid CHR ''a'', pj_installation_id = wid CHR ''b'', pj_receipt_id = wid CHR ''8'',
     pj_stripe_event_id = ''evt_1'', pj_stripe_account_id = ''acct_1'', pj_payload = worker_event\<rparr>"

definition worker_receipt :: WebhookReceipt where
  "worker_receipt = \<lparr>wr_id = wid CHR ''8'', wr_tenantId = wid CHR ''a'', wr_installationId = wid CHR ''b'',
     wr_endpoint = EP_connected_test, wr_stripeEventId = ''evt_1'', wr_stripeAccountId = ''acct_1'',
     wr_eventType = ''account.application.authorized'', wr_objectId = ''ca_1'', wr_normalizedPayload = worker_event,
     wr_stripeCreatedAt = 1000, wr_receivedAt = 1200, wr_status = RC_received, wr_processingAttempts = 0,
     wr_processedAt = None, wr_lastErrorCode = None\<rparr>"

definition worker_db_received :: db where
  "worker_db_received = worker_db\<lparr>receipts := [worker_receipt]\<rparr>"

lemma worker_webhook: "fst (handleWebhookJob worker_deps worker_job (worker_world worker_db_received)) = Inr ()"
  by code_simp

theorem webhook_job_idempotent_witness:
  "receipt_processed (wid CHR ''a'') (wid CHR ''8'')
     (wl_db (snd (handleWebhookJob worker_deps worker_job (worker_world worker_db_received))))"
proof -
  obtain w' where "handleWebhookJob worker_deps worker_job (worker_world worker_db_received) = (Inr (), w')"
    using worker_webhook by (metis prod.collapse)
  from webhook_job_idempotent [OF this] this show ?thesis by (simp add: worker_job_def)
qed

subsection \<open>Checkpoints\<close>

interpretation same_checkpoints: ledger "\<lambda>d d'. checkpoints d' = checkpoints d" ctx
  by unfold_locales (simp, simp, (rule stepsI, auto simp: statement_defs update_requests_def insert_request_def
      update_executions_def update_alerts_def Let_def split: sum.splits if_splits)+)

definition own_checkpoint :: "txctx \<Rightarrow> string \<Rightarrow> ReconciliationCheckpoint \<Rightarrow> bool" where
  "own_checkpoint ctx i c \<longleftrightarrow> ck_tenantId c = cx_tenant ctx \<and> ck_installationId c = i"

text \<open>The rows of the installation during its window; all other rows are as before.\<close>

definition open_window :: "txctx \<Rightarrow> string \<Rightarrow> date \<Rightarrow> db \<Rightarrow> db \<Rightarrow> bool" where
  "open_window ctx i e d d' \<longleftrightarrow>
     (\<forall>c \<in> set (checkpoints d'). own_checkpoint ctx i c \<longrightarrow>
        ck_scanWindowEnd c = Some e \<and> ck_startingAfter c = None \<and> ck_pageInProgress c)
     \<and> filter (\<lambda>c. \<not> own_checkpoint ctx i c) (checkpoints d') = filter (\<lambda>c. \<not> own_checkpoint ctx i c) (checkpoints d)"

lemma update_checkpoints_rows:
  assumes "update_checkpoints ctx p f d = Inr (n, d')"
  shows "n = length (filter (\<lambda>c. ck_tenantId c = cx_tenant ctx \<and> p c) (checkpoints d))"
    and "list_all2 (\<lambda>c c'. c' = (if ck_tenantId c = cx_tenant ctx \<and> p c then f c else c)) (checkpoints d) (checkpoints d')"
  using assms by (auto simp: update_checkpoints_def update_own_Inr bind_err_Inr split: sum.splits if_splits
      elim!: list_all2_mono)

lemma map_list_all2: "list_all2 (\<lambda>x y. y = f x) xs ys \<longleftrightarrow> ys = map f xs"
  by (auto simp: list_all2_conv_all_nth list_eq_iff_nth_eq)

lemma filter_map_same: "(\<And>x. x \<in> set xs \<Longrightarrow> q (f x) = q x) \<Longrightarrow> (\<And>x. q x \<Longrightarrow> f x = x) \<Longrightarrow> filter q (map f xs) = filter q xs"
  by (induction xs) auto

lemma beginReconciliationWindow_opens:
  assumes "beginReconciliationWindow ctx i s e d = Inr (c, d')"
  shows "open_window ctx i e d d'"
proof (cases "getReconciliationCheckpoint ctx i d")
  case None
  then have "\<forall>r \<in> set (checkpoints d). \<not> own_checkpoint ctx i r"
    by (simp add: getReconciliationCheckpoint_def first_row_None own_checkpoint_def)
  moreover from None assms have "\<exists>c. own_checkpoint ctx i c \<and> ck_scanWindowEnd c = Some e \<and> ck_startingAfter c = None
      \<and> ck_pageInProgress c \<and> checkpoints d' = checkpoints d @ [c]"
    by (auto simp: beginReconciliationWindow_def insert_checkpoint_def own_checkpoint_def Let_def split: if_splits)
  ultimately show ?thesis by (auto simp: open_window_def)
next
  case (Some c0)
  let ?f = "\<lambda>x. x\<lparr>ck_scanWindowEnd := Some e, ck_startingAfter := None, ck_pageInProgress := True\<rparr>"
  from Some assms obtain n where "update_checkpoints ctx (\<lambda>x. ck_installationId x = i) ?f d = Inr (n, d')"
    by (auto simp: beginReconciliationWindow_def Let_def bind_tx_Inr)
  from update_checkpoints_rows(2) [OF this]
  have rows: "checkpoints d' = map (\<lambda>c. if own_checkpoint ctx i c then ?f c else c) (checkpoints d)"
    by (simp add: map_list_all2 own_checkpoint_def)
  have own: "own_checkpoint ctx i (if own_checkpoint ctx i c then ?f c else c) = own_checkpoint ctx i c" for c
    by (simp add: own_checkpoint_def)
  show ?thesis unfolding open_window_def rows
    by (intro conjI filter_map_same) (auto simp: own)
qed

lemma completeReconciliationWindow_closes:
  assumes "completeReconciliationWindow ctx i e None d = Inr (c, d')" and "open_window ctx i e d0 d"
  shows "\<exists>c. getReconciliationCheckpoint ctx i d' = Some c \<and> ck_committedThrough c = e \<and> \<not> ck_pageInProgress c"
    and "filter (\<lambda>c. \<not> own_checkpoint ctx i c) (checkpoints d') = filter (\<lambda>c. \<not> own_checkpoint ctx i c) (checkpoints d0)"
proof -
  let ?p = "\<lambda>c. ck_tenantId c = cx_tenant ctx \<and> ck_installationId c = i
          \<and> ck_scanWindowEnd c = Some e \<and> ck_startingAfter c = None \<and> ck_pageInProgress c"
  let ?f = "\<lambda>c. c\<lparr>ck_committedThrough := e, ck_scanWindowEnd := None, ck_startingAfter := None, ck_pageInProgress := False\<rparr>"
  from assms(1) have u: "update_checkpoints ctx ?p ?f d = Inr (1, d')"
    by (auto simp: completeReconciliationWindow_def reread_checkpoint_def bind_tx_Inr split: if_splits option.splits)
  have hit: "?p c \<longleftrightarrow> own_checkpoint ctx i c" if "c \<in> set (checkpoints d)" for c
    using assms(2) that by (auto simp: open_window_def own_checkpoint_def)
  have rows: "checkpoints d' = map (\<lambda>c. if own_checkpoint ctx i c then ?f c else c) (checkpoints d)"
    using update_checkpoints_rows(2) [OF u] hit by (auto simp: map_list_all2)
  have "filter (\<lambda>c. ck_tenantId c = cx_tenant ctx \<and> ?p c) (checkpoints d) \<noteq> []"
    using update_checkpoints_rows(1) [OF u] by (metis list.size(3) zero_neq_one)
  then obtain c where c: "c \<in> set (checkpoints d)" "own_checkpoint ctx i c"
    unfolding filter_empty_conv using hit by blast
  have own: "own_checkpoint ctx i (if own_checkpoint ctx i c then ?f c else c) = own_checkpoint ctx i c" for c
    by (simp add: own_checkpoint_def)
  have "(if own_checkpoint ctx i c then ?f c else c) \<in> set (checkpoints d')"
    unfolding rows set_map using c(1) by (rule imageI)
  with c(2) own have "first_row (own_checkpoint ctx i) (checkpoints d') \<noteq> None" unfolding first_row_None by blast
  then obtain c' where c': "first_row (own_checkpoint ctx i) (checkpoints d') = Some c'" by blast
  with rows own have "ck_committedThrough c' = e \<and> \<not> ck_pageInProgress c'" by (auto dest!: first_row_Some)
  with c' show "\<exists>c. getReconciliationCheckpoint ctx i d' = Some c \<and> ck_committedThrough c = e \<and> \<not> ck_pageInProgress c"
    by (simp add: getReconciliationCheckpoint_def own_checkpoint_def [abs_def])
  have "filter (\<lambda>c. \<not> own_checkpoint ctx i c) (checkpoints d') = filter (\<lambda>c. \<not> own_checkpoint ctx i c) (checkpoints d)"
    unfolding rows by (rule filter_map_same) (auto simp: own)
  with assms(2) show "filter (\<lambda>c. \<not> own_checkpoint ctx i c) (checkpoints d') = filter (\<lambda>c. \<not> own_checkpoint ctx i c) (checkpoints d0)"
    by (simp add: open_window_def)
qed

text \<open>
  C24: reconciliation windows are committed by compare and set. A commit succeeds only when the
  stored checkpoint is the one its scan started from; it leaves the end of the window as the
  checkpoint of that installation and every other checkpoint as it was; and a commit of the same
  window against that checkpoint fails, so that of two scans from one checkpoint only one counts.
\<close>

theorem checkpoint_compare_and_set:
  assumes "commitReconciliationCheckpoint ctx input d = Inr ((), d')"
  defines "own \<equiv> ctx\<lparr>cx_tenant := cm_tenantId input\<rparr>"
  shows "map_option ck_committedThrough (getReconciliationCheckpoint own (cm_installationId input) d) = cm_previousWindowEnd input
    \<and> map_option ck_committedThrough (getReconciliationCheckpoint own (cm_installationId input) d') = Some (cm_windowEnd input)
    \<and> filter (\<lambda>c. \<not> own_checkpoint own (cm_installationId input) c) (checkpoints d')
        = filter (\<lambda>c. \<not> own_checkpoint own (cm_installationId input) c) (checkpoints d)
    \<and> (\<forall>ctx2 d2 x. checkpoints d2 = checkpoints d' \<and> cm_previousWindowEnd input \<noteq> Some (cm_windowEnd input) \<longrightarrow>
         commitReconciliationCheckpoint ctx2 input d2 \<noteq> Inr x)"
proof -
  note unit = withTenantTransaction_Inr [OF assms(1) [unfolded commitReconciliationCheckpoint_def], THEN conjunct2,
      folded own_def, unfolded commit_unit_of_work_def]
  from unit have before: "map_option ck_committedThrough (getReconciliationCheckpoint own (cm_installationId input) d)
      = cm_previousWindowEnd input"
    by (auto simp: bind_tx_Inr split: if_splits)
  from unit obtain s c1 d1 c2 d2 x d3 where b: "beginReconciliationWindow own (cm_installationId input) s (cm_windowEnd input) d = Inr (c1, d1)"
    and c: "completeReconciliationWindow own (cm_installationId input) (cm_windowEnd input) None d1 = Inr (c2, d2)"
    and r: "resolveUniqueRefundCandidates own (cm_installationId input) (cm_windowStart input)
         (cm_windowEnd input) (cm_completedAt input) d2 = Inr (x, d')"
    by (auto simp: bind_tx_Inr split: if_splits)
  have same: "checkpoints d' = checkpoints d2" using r same_checkpoints.resolveUniqueRefundCandidates_steps by (rule stepsD [rotated])
  note closed = completeReconciliationWindow_closes [OF c beginReconciliationWindow_opens [OF b]]
  have after: "map_option ck_committedThrough (getReconciliationCheckpoint own (cm_installationId input) e)
      = Some (cm_windowEnd input)" if "checkpoints e = checkpoints d'" for e
    using closed(1) same that by (auto simp: getReconciliationCheckpoint_def)
  have "commitReconciliationCheckpoint ctx2 input e \<noteq> Inr y"
    if "checkpoints e = checkpoints d'" "cm_previousWindowEnd input \<noteq> Some (cm_windowEnd input)" for ctx2 e y
  proof
    assume "commitReconciliationCheckpoint ctx2 input e = Inr y"
    from withTenantTransaction_Inr [OF this [unfolded commitReconciliationCheckpoint_def]]
    have "map_option ck_committedThrough (getReconciliationCheckpoint (ctx2\<lparr>cx_tenant := cm_tenantId input\<rparr>)
        (cm_installationId input) e) = cm_previousWindowEnd input"
      by (cases y) (auto simp: commit_unit_of_work_def bind_tx_Inr split: if_splits)
    with after [OF that(1)] that(2) show False by (auto simp: getReconciliationCheckpoint_def own_def)
  qed
  with before after [OF refl] closed(2) same show ?thesis by simp
qed

definition worker_window :: CommitCheckpointInput where
  "worker_window = \<lparr>cm_tenantId = wid CHR ''a'', cm_installationId = wid CHR ''b'', cm_previousWindowEnd = None,
     cm_windowStart = 0, cm_windowEnd = 5000, cm_pageCount = 1, cm_refundCount = 0, cm_completedAt = 5001\<rparr>"

lemma worker_commit: "\<exists>d'. commitReconciliationCheckpoint worker_session worker_window worker_db = Inr ((), d')"
proof -
  have "\<exists>d'. commit_unit_of_work worker_window (tenant_session False) worker_db = Inr ((), d')"
    by (rule exI) code_simp
  then obtain d' where "commit_unit_of_work worker_window (tenant_session False) worker_db = Inr ((), d')" ..
  then have "withTenantTransaction worker_session (wid CHR ''a'') (commit_unit_of_work worker_window) worker_db = Inr ((), d')"
    by (intro withTenantTransaction_calm) (simp_all add: worker_tenant worker_session_tenant, simp add: worker_session_def)
  then show ?thesis by (auto simp: commitReconciliationCheckpoint_def worker_window_def)
qed

theorem checkpoint_compare_and_set_witness:
  "\<exists>d'. commitReconciliationCheckpoint worker_session worker_window worker_db = Inr ((), d')
     \<and> (\<forall>x. commitReconciliationCheckpoint worker_session worker_window d' \<noteq> Inr x)"
proof -
  obtain d' where run: "commitReconciliationCheckpoint worker_session worker_window worker_db = Inr ((), d')"
    using worker_commit ..
  from checkpoint_compare_and_set [OF run] have "\<forall>x. commitReconciliationCheckpoint worker_session worker_window d' \<noteq> Inr x"
    by (simp add: worker_window_def)
  with run show ?thesis by blast
qed

end
