(* ===== verification/Gcra.thy ===== *)
theory Gcra
  imports Prelude
begin

text \<open>
  The contract of a rate limiter that works by the generic cell rate algorithm. A state carries a
  theoretical arrival time (\<open>level\<close>) and a clock; a request is admitted or refused. The laws are
  what one request promises, and the bound on the requests admitted over a run is proved once
  from them. The durable limiter of the signed API and the gate at the edge are its instances.
\<close>

text \<open>Division rounded up, \<open>Math.ceil(a / b)\<close> and SQL \<open>CEIL\<close>.\<close>

definition ceil_div :: "int \<Rightarrow> int \<Rightarrow> int" where
  "ceil_div a b = - ((- a) div b)"

text \<open>The number of requests admitted along a run, and the state after it.\<close>

fun admissions :: "('i \<Rightarrow> 's \<Rightarrow> bool \<times> 's) \<Rightarrow> 'i list \<Rightarrow> 's \<Rightarrow> nat \<times> 's" where
  "admissions step [] s = (0, s)"
| "admissions step (i # is) s =
     (let (ok, s1) = step i s; (n, s') = admissions step is s1 in ((if ok then Suc n else n), s'))"

locale gcra =
  fixes step :: "'i \<Rightarrow> 's \<Rightarrow> bool \<times> 's"
    and inv :: "'s \<Rightarrow> bool"
    and level :: "'s \<Rightarrow> int"
    and clock :: "'s \<Rightarrow> int"
    and burst :: int
    and interval :: int
  assumes interval_pos: "0 < interval"
    and burst_nonneg: "0 \<le> burst"
    and keeps_inv: "inv s \<Longrightarrow> inv (snd (step i s))"
    and level_bound: "inv s \<Longrightarrow> level s \<le> clock s + burst * interval"
    and clock_mono: "inv s \<Longrightarrow> clock s \<le> clock (snd (step i s))"
    and admitted: "inv s \<Longrightarrow> fst (step i s) \<Longrightarrow>
      max (level s) (clock (snd (step i s))) + interval \<le> level (snd (step i s))"
    and refused: "inv s \<Longrightarrow> \<not> fst (step i s) \<Longrightarrow>
      max (level s) (clock (snd (step i s))) \<le> max (level (snd (step i s))) (clock (snd (step i s)))"
begin

lemma admissions_level:
  assumes "inv s" and "admissions step is s = (n, s')"
  shows "inv s' \<and> max (level s) (clock s) + int n * interval \<le> max (level s') (clock s') \<and> clock s \<le> clock s'"
  using assms
proof (induction "is" arbitrary: s n)
  case Nil
  then show ?case by simp
next
  case (Cons i "is")
  obtain ok s1 where st: "step i s = (ok, s1)" by fastforce
  obtain m where rest: "admissions step is s1 = (m, s')" and n: "n = (if ok then Suc m else m)"
    using Cons.prems(2) st by (auto split: prod.splits)
  note ih = Cons.IH [OF _ rest]
  have "inv s1" and "clock s \<le> clock s1" using keeps_inv [of s i] clock_mono [of s i] Cons.prems(1) st by simp_all
  moreover have "max (level s) (clock s) + (if ok then interval else 0) \<le> max (level s1) (clock s1)"
    using admitted [of s i] refused [of s i] Cons.prems(1) st \<open>clock s \<le> clock s1\<close> by auto
  ultimately show ?case using ih n by (auto simp: algebra_simps split: if_splits)
qed

text \<open>At most a burst, and one more for every interval that passes.\<close>

theorem admissions_bound:
  assumes "inv s" and "admissions step is s = (n, s')"
  shows "int n \<le> burst + (clock s' - clock s) div interval"
proof -
  note l = admissions_level [OF assms]
  have "int n * interval \<le> (clock s' - clock s) + burst * interval"
    using l level_bound [of s'] burst_nonneg interval_pos mult_nonneg_nonneg [of burst interval] by linarith
  then have "(int n - burst) * interval \<le> clock s' - clock s" by (simp add: algebra_simps)
  then have "int n - burst \<le> (clock s' - clock s) div interval"
    using interval_pos zdiv_mono1 [of "(int n - burst) * interval" "clock s' - clock s" interval] by simp
  then show ?thesis by simp
qed

end

end
