(* ===== verification/Rate_Limits.thy ===== *)
theory Rate_Limits
  imports Gcra Domain_Types Encoding "HOL-Library.Product_Lexorder"
begin

text \<open>
  The durable rate limit of the signed API: \<open>packages/db/src/rate-limits.ts\<close> and the function
  \<open>refunddesk_consume_signed_request_rate_limit\<close> it calls. Times are in microseconds, as
  TIMESTAMPTZ(6) keeps them; the digest of the scope text is a parameter. The transactions of
  different requests are serial, so no row is skipped as locked.
\<close>

datatype SignedRequestRateLimitClass = RL_mutation | RL_read

record SignedRequestRateLimitScope =
  rs_accountId :: string
  rs_environment :: StripeEnvironment
  rs_requestClass :: SignedRequestRateLimitClass

record RateLimitBucket =
  bk_scope_key :: bytes
  bk_theoretical_arrival_at :: int
  bk_last_seen_at :: int

definition class_text :: "SignedRequestRateLimitClass \<Rightarrow> string" where
  "class_text c = (case c of RL_mutation \<Rightarrow> ''mutation'' | RL_read \<Rightarrow> ''read'')"

definition burst_capacity :: "SignedRequestRateLimitClass \<Rightarrow> int" where
  "burst_capacity c = (case c of RL_mutation \<Rightarrow> 30 | RL_read \<Rightarrow> 60)"

definition token_interval :: "SignedRequestRateLimitClass \<Rightarrow> int" where
  "token_interval c = (case c of RL_mutation \<Rightarrow> 2000000 | RL_read \<Rightarrow> 1000000)"

definition scope_text :: "SignedRequestRateLimitScope \<Rightarrow> string" where
  "scope_text sc = rs_accountId sc @ '':'' @ env_name (rs_environment sc) @ '':'' @ class_text (rs_requestClass sc)"

text \<open>A decision: None when the request is allowed, else the seconds to wait.\<close>

type_synonym rate_decision = "int option"

definition find_bucket :: "bytes \<Rightarrow> RateLimitBucket list \<Rightarrow> RateLimitBucket option" where
  "find_bucket k bs = first_row (\<lambda>b. bk_scope_key b = k) bs"

definition update_bucket :: "bytes \<Rightarrow> int \<Rightarrow> int \<Rightarrow> RateLimitBucket list \<Rightarrow> RateLimitBucket list" where
  "update_bucket k tat seen bs = map (\<lambda>b. if bk_scope_key b = k
     then b\<lparr>bk_theoretical_arrival_at := tat, bk_last_seen_at := seen\<rparr> else b) bs"

definition stale_bucket :: "int \<Rightarrow> RateLimitBucket \<Rightarrow> bool" where
  "stale_bucket observed_at b \<longleftrightarrow> bk_last_seen_at b \<le> observed_at - 600000000 \<and> bk_theoretical_arrival_at b \<le> observed_at"

definition evict_stale :: "int \<Rightarrow> RateLimitBucket list \<Rightarrow> RateLimitBucket list" where
  "evict_stale observed_at bs =
     (let stale = take 256 (sort_key (\<lambda>b. (bk_last_seen_at b, map uint (bk_scope_key b))) (filter (stale_bucket observed_at) bs))
      in filter (\<lambda>b. bk_scope_key b \<notin> set (map bk_scope_key stale)) bs)"

definition consume_bucket ::
  "SignedRequestRateLimitClass \<Rightarrow> int \<Rightarrow> RateLimitBucket \<Rightarrow> RateLimitBucket list \<Rightarrow> err + rate_decision \<times> RateLimitBucket list" where
  "consume_bucket c observed_at b bs =
     (let bucket_tat = bk_theoretical_arrival_at b;
          effective_now = max observed_at (bk_last_seen_at b);
          eligibility_at = bucket_tat - (burst_capacity c - 1) * token_interval c
      in if effective_now \<ge> eligibility_at
         then Inr (None, update_bucket (bk_scope_key b) (max bucket_tat effective_now + token_interval c) effective_now bs)
         else (let retry_seconds = ceil_div (eligibility_at - effective_now) 1000000
               in if retry_seconds < 1 \<or> retry_seconds > 2147483647
                  then Inl (DbError ''invalid signed request rate-limit retry interval'')
                  else Inr (Some retry_seconds, update_bucket (bk_scope_key b) bucket_tat effective_now bs)))"

definition refunddesk_consume_signed_request_rate_limit ::
  "(bytes \<Rightarrow> bytes) \<Rightarrow> SignedRequestRateLimitScope \<Rightarrow> int \<Rightarrow> RateLimitBucket list
     \<Rightarrow> err + rate_decision \<times> RateLimitBucket list" where
  "refunddesk_consume_signed_request_rate_limit sha256 sc observed_at bs =
     (if length (rs_accountId sc) > 255 \<or> \<not> prefixed_id ''acct_'' (rs_accountId sc)
         \<or> rs_environment sc \<notin> {Env_test, Env_sandbox}
      then Inl (DbError ''invalid signed request rate-limit scope'')
      else (let c = rs_requestClass sc; k = sha256 (utf8 (scope_text sc))
            in case find_bucket k bs of
                 Some b \<Rightarrow> consume_bucket c observed_at b bs
               | None \<Rightarrow>
                 (let kept = evict_stale observed_at bs
                  in if length kept \<ge> 256 then Inl (DbError ''signed request rate-limit scope capacity exceeded'')
                     else Inr (None, kept @ [\<lparr>bk_scope_key = k,
                       bk_theoretical_arrival_at = observed_at + token_interval c, bk_last_seen_at = observed_at\<rparr>]))))"

definition assertScope :: "SignedRequestRateLimitScope \<Rightarrow> err + unit" where
  "assertScope sc =
     (if \<not> prefixed_id ''acct_'' (rs_accountId sc) \<or> length (rs_accountId sc) > 255
      then Inl (TypeError ''Invalid signed request rate-limit account'')
      else if rs_environment sc \<noteq> Env_sandbox \<and> rs_environment sc \<noteq> Env_test
      then Inl (TypeError ''Invalid signed request rate-limit environment'') else Inr ())"

definition consumeSignedRequestRateLimit ::
  "(bytes \<Rightarrow> bytes) \<Rightarrow> SignedRequestRateLimitScope \<Rightarrow> int \<Rightarrow> (RateLimitBucket list, err, rate_decision) txn" where
  "consumeSignedRequestRateLimit sha256 sc now =
     bind_tx (lift_tx (assertScope sc)) (\<lambda>_.
     bind_tx (refunddesk_consume_signed_request_rate_limit sha256 sc now) (\<lambda>row.
     case row of None \<Rightarrow> return_tx None
     | Some retry_after_seconds \<Rightarrow>
       if safe_integer retry_after_seconds \<and> retry_after_seconds > 0 then return_tx (Some retry_after_seconds)
       else throw_tx (Error ''Signed request rate limiter returned an invalid decision'')))"

subsection \<open>The buckets\<close>

definition buckets_ok :: "RateLimitBucket list \<times> int \<Rightarrow> bool" where
  "buckets_ok s \<longleftrightarrow> distinct (map bk_scope_key (fst s)) \<and> length (fst s) \<le> 256
     \<and> (\<forall>b \<in> set (fst s). bk_last_seen_at b \<le> snd s \<and> bk_last_seen_at b < bk_theoretical_arrival_at b
          \<and> bk_theoretical_arrival_at b \<le> snd s + 60000000)"

text \<open>The arrival time of a scope; a scope without a bucket counts from now.\<close>

definition scope_level :: "bytes \<Rightarrow> RateLimitBucket list \<times> int \<Rightarrow> int" where
  "scope_level k s = (case find_bucket k (fst s) of None \<Rightarrow> snd s | Some b \<Rightarrow> bk_theoretical_arrival_at b)"

text \<open>One request at the time after a delay, and whether it was one of the given scope that was allowed.\<close>

definition limited_step ::
  "(bytes \<Rightarrow> bytes) \<Rightarrow> SignedRequestRateLimitScope \<Rightarrow> SignedRequestRateLimitScope \<times> nat
     \<Rightarrow> RateLimitBucket list \<times> int \<Rightarrow> bool \<times> RateLimitBucket list \<times> int" where
  "limited_step sha256 sc i s =
     (let now = snd s + int (snd i)
      in case consumeSignedRequestRateLimit sha256 (fst i) now (fst s) of
           Inl e \<Rightarrow> (False, fst s, now)
         | Inr (r, bs) \<Rightarrow> (r = None \<and> fst i = sc, bs, now))"

subsection \<open>Lemmas\<close>

lemma limits [simp]:
  "0 < token_interval c" "0 \<le> burst_capacity c" "burst_capacity c * token_interval c = 60000000"
  by (cases c; simp add: token_interval_def burst_capacity_def)+

lemma find_bucket_key: "find_bucket k bs = Some b \<Longrightarrow> b \<in> set bs \<and> bk_scope_key b = k"
  unfolding find_bucket_def by (rule first_row_Some)

lemma find_bucket_update:
  "find_bucket k' (update_bucket k t s bs) =
     (if k' = k then map_option (\<lambda>b. b\<lparr>bk_theoretical_arrival_at := t, bk_last_seen_at := s\<rparr>) (find_bucket k bs)
      else find_bucket k' bs)"
  by (induction bs) (auto simp: find_bucket_def first_row_def update_bucket_def)

lemma find_bucket_append: "find_bucket k (bs @ [b]) = (case find_bucket k bs of None \<Rightarrow> if bk_scope_key b = k then Some b else None | r \<Rightarrow> r)"
  by (induction bs) (auto simp: find_bucket_def first_row_def split: option.splits)

lemma evict_stale_subset: "set (evict_stale now bs) \<subseteq> set bs" "length (evict_stale now bs) \<le> length bs"
  "distinct (map bk_scope_key bs) \<Longrightarrow> distinct (map bk_scope_key (evict_stale now bs))"
  by (auto simp: evict_stale_def Let_def distinct_map_filter)

text \<open>A bucket is evicted only when its arrival time has passed.\<close>

lemma find_bucket_evict:
  assumes "distinct (map bk_scope_key bs)"
  shows "find_bucket k (evict_stale now bs) = find_bucket k bs
    \<or> find_bucket k (evict_stale now bs) = None \<and> (\<exists>b. find_bucket k bs = Some b \<and> bk_theoretical_arrival_at b \<le> now)"
proof (cases "find_bucket k bs")
  case None
  then have "find_bucket k (evict_stale now bs) = None"
    using evict_stale_subset(1) [of now bs] unfolding find_bucket_def first_row_None by blast
  with None show ?thesis by simp
next
  case (Some b)
  note b = find_bucket_key [OF Some]
  let ?stale = "set (map bk_scope_key (take 256 (sort_key (\<lambda>b. (bk_last_seen_at b, map uint (bk_scope_key b)))
     (filter (stale_bucket now) bs))))"
  have unique: "c = b" if "c \<in> set bs" "bk_scope_key c = k" for c
    using assms b that by (auto simp: distinct_map inj_on_def)
  show ?thesis
  proof (cases "k \<in> ?stale")
    case True
    then have "stale_bucket now b" using unique by (auto dest!: in_set_takeD)
    moreover have "find_bucket k (evict_stale now bs) = None"
      using True by (auto simp: find_bucket_def first_row_None evict_stale_def Let_def)
    ultimately show ?thesis using Some by (auto simp: stale_bucket_def)
  next
    case False
    have "b \<in> set (evict_stale now bs)" using b False by (auto simp: evict_stale_def Let_def)
    then have "find_bucket k (evict_stale now bs) \<noteq> None" using b by (auto simp: find_bucket_def first_row_None)
    then obtain c where c: "find_bucket k (evict_stale now bs) = Some c" by blast
    then have "c = b" using find_bucket_key [OF c] evict_stale_subset(1) [of now bs] unique by blast
    with c Some show ?thesis by simp
  qed
qed

lemma consume_cases [consumes 3]:
  assumes "buckets_ok (bs, t0)" and "t0 \<le> now"
    and "consumeSignedRequestRateLimit sha256 sc now bs = Inr (r, bs')"
  defines "k \<equiv> sha256 (utf8 (scope_text sc))" and "i \<equiv> token_interval (rs_requestClass sc)"
  obtains (spend) b where "find_bucket k bs = Some b" and "r = None"
      and "bk_theoretical_arrival_at b \<le> now + 60000000 - i"
      and "bs' = update_bucket k (max (bk_theoretical_arrival_at b) now + i) now bs"
    | (refuse) b t where "find_bucket k bs = Some b" and "r = Some t"
      and "bs' = update_bucket k (bk_theoretical_arrival_at b) now bs" and "now < bk_theoretical_arrival_at b"
    | (open') "find_bucket k bs = None" and "r = None" and "length (evict_stale now bs) < 256"
      and "bs' = evict_stale now bs @ [\<lparr>bk_scope_key = k, bk_theoretical_arrival_at = now + i, bk_last_seen_at = now\<rparr>]"
proof -
  from assms(3) obtain row bs1 where row: "refunddesk_consume_signed_request_rate_limit sha256 sc now bs = Inr (row, bs1)"
    and "(case row of None \<Rightarrow> return_tx None | Some t \<Rightarrow> if safe_integer t \<and> t > 0 then return_tx (Some t)
       else throw_tx (Error ''Signed request rate limiter returned an invalid decision'')) bs1 = Inr (r, bs')"
    by (auto simp: consumeSignedRequestRateLimit_def bind_tx_Inr)
  then have fn: "refunddesk_consume_signed_request_rate_limit sha256 sc now bs = Inr (r, bs')"
    by (cases row) (auto split: if_splits)
  show thesis
  proof (cases "find_bucket k bs")
    case None
    with fn that(3) show thesis
      by (auto simp: refunddesk_consume_signed_request_rate_limit_def Let_def k_def i_def split: if_splits)
  next
    case (Some b)
    note b = find_bucket_key [OF Some]
    have now: "max now (bk_last_seen_at b) = now" using assms(1,2) b by (force simp: buckets_ok_def)
    let ?e = "bk_theoretical_arrival_at b - (burst_capacity (rs_requestClass sc) - 1) * i"
    have e: "?e = bk_theoretical_arrival_at b - 60000000 + i"
      using limits(3) [of "rs_requestClass sc"] by (simp add: i_def algebra_simps)
    have "consume_bucket (rs_requestClass sc) now b bs = Inr (r, bs')"
      using fn Some by (auto simp: refunddesk_consume_signed_request_rate_limit_def Let_def k_def split: if_splits)
    then have c: "if ?e \<le> now then r = None \<and> bs' = update_bucket k (max (bk_theoretical_arrival_at b) now + i) now bs
        else (\<exists>t. r = Some t) \<and> bs' = update_bucket k (bk_theoretical_arrival_at b) now bs"
      using b by (auto simp: consume_bucket_def Let_def now i_def split: if_splits)
    show thesis
    proof (cases "?e \<le> now")
      case True
      with c e show thesis by (intro that(1) [OF Some]) auto
    next
      case False
      moreover have "0 < i" "i \<le> 60000000" by (cases "rs_requestClass sc"; simp add: i_def token_interval_def)+
      ultimately have "now < bk_theoretical_arrival_at b" using e by linarith
      with False c show thesis by (auto intro: that(2) [OF Some])
    qed
  qed
qed

lemma buckets_ok_later: "buckets_ok (bs, t0) \<Longrightarrow> t0 \<le> now \<Longrightarrow> buckets_ok (bs, now)"
  unfolding buckets_ok_def fst_conv snd_conv by (meson add_right_mono order_trans)

lemma update_bucket_ok:
  assumes "buckets_ok (bs, t0)" and "t0 \<le> now" and "now < t" and "t \<le> now + 60000000"
  shows "buckets_ok (update_bucket k t now bs, now)"
proof -
  note ok = buckets_ok_later [OF assms(1,2)]
  have "map bk_scope_key (update_bucket k t now bs) = map bk_scope_key bs" and "length (update_bucket k t now bs) = length bs"
    by (simp_all add: update_bucket_def)
  moreover have "bk_last_seen_at b \<le> now \<and> bk_last_seen_at b < bk_theoretical_arrival_at b \<and> bk_theoretical_arrival_at b \<le> now + 60000000"
    if b: "b \<in> set (update_bucket k t now bs)" for b
  proof -
    from b obtain c where "c \<in> set bs" and
      "b = (if bk_scope_key c = k then c\<lparr>bk_theoretical_arrival_at := t, bk_last_seen_at := now\<rparr> else c)"
      by (auto simp: update_bucket_def)
    then show ?thesis using ok assms(3,4) by (auto simp: buckets_ok_def)
  qed
  ultimately show ?thesis using ok by (simp add: buckets_ok_def)
qed

lemma open_bucket_ok:
  assumes "buckets_ok (bs, t0)" and "t0 \<le> now" and "find_bucket k bs = None" and "length (evict_stale now bs) < 256"
    and "0 < i" and "i \<le> 60000000"
  shows "buckets_ok (evict_stale now bs @ [\<lparr>bk_scope_key = k, bk_theoretical_arrival_at = now + i, bk_last_seen_at = now\<rparr>], now)"
proof -
  have "k \<notin> set (map bk_scope_key (evict_stale now bs))"
    using assms(3) evict_stale_subset(1) [of now bs] by (auto simp: find_bucket_def first_row_None)
  moreover have "buckets_ok (bs, now)" by (rule buckets_ok_later [OF assms(1,2)])
  ultimately show ?thesis using evict_stale_subset [where now = now and bs = bs] assms(4-6) by (auto simp: buckets_ok_def)
qed

lemma limited_step_ok:
  assumes "buckets_ok s"
  shows "buckets_ok (snd (limited_step sha256 sc i s))"
    and "snd s \<le> snd (snd (limited_step sha256 sc i s))"
proof -
  obtain bs t0 where s: "s = (bs, t0)" by fastforce
  let ?now = "t0 + int (snd i)"
  have i: "0 < token_interval c" "token_interval c \<le> 60000000" for c by (cases c; simp add: token_interval_def)+
  show "snd s \<le> snd (snd (limited_step sha256 sc i s))"
    by (auto simp: s limited_step_def Let_def split: sum.splits)
  show "buckets_ok (snd (limited_step sha256 sc i s))"
  proof (cases "consumeSignedRequestRateLimit sha256 (fst i) ?now bs")
    case (Inl e)
    then show ?thesis using buckets_ok_later assms by (auto simp: s limited_step_def Let_def)
  next
    case (Inr x)
    obtain r bs' where x: "x = (r, bs')" by fastforce
    have le: "t0 \<le> ?now" by simp
    from assms [unfolded s] le Inr [unfolded x] have "buckets_ok (bs', ?now)"
    proof (cases rule: consume_cases)
      case (spend b)
      then show ?thesis using assms i [of "rs_requestClass (fst i)"] unfolding s
        by (simp only:) (rule update_bucket_ok [OF _ le], simp, linarith, linarith)
    next
      case (refuse b t)
      have "bk_theoretical_arrival_at b \<le> ?now + 60000000"
        using assms find_bucket_key [OF refuse(1)] by (force simp: s buckets_ok_def)
      with refuse show ?thesis using assms unfolding s by (simp only:) (rule update_bucket_ok [OF _ le])
    next
      case open'
      then show ?thesis using assms i by (auto simp: s intro!: open_bucket_ok)
    qed
    with Inr x show ?thesis by (auto simp: s limited_step_def Let_def)
  qed
qed

lemma scope_level_same:
  "find_bucket k bs' = find_bucket k bs \<Longrightarrow> t0 \<le> now \<Longrightarrow>
     max (scope_level k (bs, t0)) now \<le> max (scope_level k (bs', now)) now"
  by (auto simp: scope_level_def split: option.split)

lemma scope_level_Some: "find_bucket k bs = Some b \<Longrightarrow> scope_level k (bs, t) = bk_theoretical_arrival_at b"
  and scope_level_None: "find_bucket k bs = None \<Longrightarrow> scope_level k (bs, t) = t"
  by (simp_all add: scope_level_def)

lemma scope_level_step:
  fixes sha256 sc
  defines "k \<equiv> sha256 (utf8 (scope_text sc))" and "c \<equiv> rs_requestClass sc"
  assumes "buckets_ok s" and "limited_step sha256 sc i s = (ok, s')"
  shows "ok \<Longrightarrow> max (scope_level k s) (snd s') + token_interval c \<le> scope_level k s'"
    and "max (scope_level k s) (snd s') \<le> max (scope_level k s') (snd s')"
proof -
  obtain bs t0 where s: "s = (bs, t0)" by fastforce
  let ?now = "t0 + int (snd i)"
  have le: "t0 \<le> ?now" by simp
  have dist: "distinct (map bk_scope_key bs)" using assms(3) by (simp add: s buckets_ok_def)
  have "(ok \<longrightarrow> max (scope_level k s) (snd s') + token_interval c \<le> scope_level k s')
    \<and> max (scope_level k s) (snd s') \<le> max (scope_level k s') (snd s')"
  proof (cases "consumeSignedRequestRateLimit sha256 (fst i) ?now bs")
    case (Inl e)
    with assms(4) show ?thesis
      by (auto simp: s limited_step_def Let_def scope_level_def split: option.splits)
  next
    case (Inr x)
    obtain r bs' where x: "x = (r, bs')" by fastforce
    with Inr assms(4) have ok: "ok \<longleftrightarrow> r = None \<and> fst i = sc" and s': "s' = (bs', ?now)"
      by (auto simp: s limited_step_def Let_def)
    obtain j where j: "token_interval (rs_requestClass (fst i)) = j" "0 < j" using limits(1) by blast
    from assms(3) [unfolded s] le Inr [unfolded x] show ?thesis
    proof (cases rule: consume_cases)
      case (spend b)
      let ?k = "sha256 (utf8 (scope_text (fst i)))"
      show ?thesis
      proof (cases "k = ?k")
        case True
        have "find_bucket k bs' = Some (b\<lparr>bk_theoretical_arrival_at := max (bk_theoretical_arrival_at b) ?now
            + token_interval (rs_requestClass (fst i)), bk_last_seen_at := ?now\<rparr>)"
          using spend(1) by (simp add: spend(4) find_bucket_update True)
        from scope_level_Some [OF this] scope_level_Some [of k bs b] spend(1) True show ?thesis
          using j(2) by (auto simp: ok s s' c_def j(1))
      next
        case False
        then have "fst i \<noteq> sc" by (auto simp: k_def)
        with False show ?thesis using scope_level_same [OF _ le, of k bs' bs] spend(4)
          by (simp add: ok s s' find_bucket_update)
      qed
    next
      case (refuse b t)
      have "scope_level k (bs', ?now) = scope_level k (bs, ?now)"
        using refuse(1,3) by (auto simp: scope_level_def find_bucket_update split: option.split)
      then show ?thesis using scope_level_same [OF refl le, of k bs] refuse(2) by (simp add: ok s s')
    next
      case open'
      let ?k = "sha256 (utf8 (scope_text (fst i)))"
      show ?thesis
      proof (cases "k = ?k")
        case True
        have "find_bucket k (evict_stale ?now bs) = None" using find_bucket_evict [OF dist, of k ?now] open'(1) True by auto
        then have "scope_level k (bs', ?now) = ?now + token_interval (rs_requestClass (fst i))"
          using open'(4) True by (simp add: scope_level_def find_bucket_append)
        moreover have "scope_level k (bs, t0) = t0" using open'(1) True by (simp add: scope_level_None)
        ultimately show ?thesis using j(2) by (auto simp: ok s s' c_def j(1))
      next
        case False
        then have "fst i \<noteq> sc" by (auto simp: k_def)
        have "find_bucket k bs' = find_bucket k (evict_stale ?now bs)"
          using open'(4) False by (auto simp: find_bucket_append split: option.split)
        then consider "find_bucket k bs' = find_bucket k bs"
          | b where "find_bucket k bs' = None" "find_bucket k bs = Some b" "bk_theoretical_arrival_at b \<le> ?now"
          using find_bucket_evict [OF dist, of k ?now] by auto
        then have "max (scope_level k (bs, t0)) ?now \<le> max (scope_level k (bs', ?now)) ?now"
          by cases (rule scope_level_same [OF _ le], assumption, simp add: scope_level_Some scope_level_None)
        with \<open>fst i \<noteq> sc\<close> show ?thesis by (simp add: ok s s')
      qed
    qed
  qed
  then show "ok \<Longrightarrow> max (scope_level k s) (snd s') + token_interval c \<le> scope_level k s'"
    and "max (scope_level k s) (snd s') \<le> max (scope_level k s') (snd s')" by blast+
qed

interpretation durable: gcra "limited_step sha256 sc" buckets_ok "scope_level (sha256 (utf8 (scope_text sc)))" snd
  "burst_capacity (rs_requestClass sc)" "token_interval (rs_requestClass sc)" for sha256 sc
proof (unfold_locales, goal_cases)
  case (4 s)
  then show ?case by (auto simp: scope_level_def buckets_ok_def dest: find_bucket_key split: option.splits)
next
  case (6 s i)
  then show ?case using scope_level_step(1) [of s sha256 sc i] by (metis prod.collapse)
next
  case (7 s i)
  then show ?case using scope_level_step(2) [of s sha256 sc i] by (metis prod.collapse)
qed (simp_all add: limited_step_ok)

text \<open>
  C27: the durable rate limit of the signed API. Over any sequence of requests of any accounts,
  with the time between them chosen freely, at most thirty mutations (sixty reads) of one account
  and environment are admitted at once and one more for every two seconds (one second) that pass;
  the table never holds more than 256 scopes, and evicting idle ones grants nothing.
\<close>

theorem rate_limit_bound:
  assumes "admissions (limited_step sha256 sc) requests ([], start) = (n, buckets, now)"
  shows "int n \<le> burst_capacity (rs_requestClass sc) + (now - start) div token_interval (rs_requestClass sc)
    \<and> length buckets \<le> 256"
proof -
  have ok: "buckets_ok ([], start)" by (simp add: buckets_ok_def)
  show ?thesis using durable.admissions_bound [OF ok assms] durable.admissions_level [OF ok assms]
    by (simp add: buckets_ok_def)
qed

definition sample_scope :: SignedRequestRateLimitScope where
  "sample_scope = \<lparr>rs_accountId = ''acct_1'', rs_environment = Env_test, rs_requestClass = RL_mutation\<rparr>"

theorem rate_limit_bound_witness:
  "fst (admissions (limited_step (\<lambda>b. b) sample_scope) (replicate 3 (sample_scope, 0)) ([], 0)) = 3
   \<and> int (fst (admissions (limited_step (\<lambda>b. b) sample_scope) (replicate 3 (sample_scope, 0)) ([], 0))) \<le> 30"
proof -
  have run: "fst (admissions (limited_step (\<lambda>b. b) sample_scope) (replicate 3 (sample_scope, 0)) ([], 0)) = 3
    \<and> snd (snd (admissions (limited_step (\<lambda>b. b) sample_scope) (replicate 3 (sample_scope, 0)) ([], 0))) = 0"
    by code_simp
  obtain n b t where eq: "admissions (limited_step (\<lambda>b. b) sample_scope) (replicate 3 (sample_scope, 0)) ([], 0) = (n, b, t)"
    by (metis prod_cases3)
  from rate_limit_bound [OF this] run show ?thesis
    by (simp add: eq sample_scope_def burst_capacity_def token_interval_def)
qed

end
