(* ===== verification/Edge_Admission.thy ===== *)
theory Edge_Admission
  imports Gcra Domain_Types Encoding
begin

text \<open>
  \<open>apps/platform/src/server/edge-admission.ts\<close>: the gate in front of the web endpoints. The gate
  is a mutable object: its maps hold references to source objects, and the lease of an admitted
  request keeps a reference to the source it was charged to. The model keeps these objects in a
  store, \<open>eg_objects\<close> and \<open>eg_leases\<close>, and a reference is a position in it. The HMAC, the test
  \<open>isIP\<close> of \<open>node:net\<close> and the readings of the clock are parameters; a reading that is not finite is
  None, and times are milliseconds after \<open>Math.trunc\<close>. The class of a request is one of the three,
  so \<open>PolicyUnavailable\<close> is not returned, and nothing in the body raises, so neither is
  \<open>InternalFailure\<close>.
\<close>

datatype EdgeAdmissionClass = account_webhook | audit_download | signed_api

datatype EdgeAdmissionDeniedReason =
    ClockUnavailable | ConcurrencyLimited | EdgeNotTrusted | GlobalRateLimited | InternalFailure | OriginTokenForwarded
  | PolicyUnavailable | SourceCapacityExceeded | SourceInvalid | SourceRateLimited | WebhookSourceForbidden

text \<open>A decision: the reference of the lease, or the reason, the HTTP status and the seconds to wait.\<close>

datatype EdgeAdmissionDecision = EdgeAllowed nat | EdgeDenied EdgeAdmissionDeniedReason nat "int option"

record EdgeAdmissionRatePolicy =
  er_burst :: int
  er_intervalMs :: int

record EdgeAdmissionClassPolicy =
  ec_concurrency :: int
  ec_global :: EdgeAdmissionRatePolicy
  ec_source :: EdgeAdmissionRatePolicy

record EdgeAdmissionRatePolicyOverride =
  eo_burst :: "int option"
  eo_intervalMs :: "int option"

record EdgeAdmissionClassPolicyOverride =
  eo_concurrency :: "int option"
  eo_global :: "EdgeAdmissionRatePolicyOverride option"
  eo_source :: "EdgeAdmissionRatePolicyOverride option"

definition EDGE_SOURCE_SCOPE_CAPACITIES :: "EdgeAdmissionClass \<Rightarrow> nat" where
  "EDGE_SOURCE_SCOPE_CAPACITIES c = (case c of account_webhook \<Rightarrow> 64 | audit_download \<Rightarrow> 64 | signed_api \<Rightarrow> 1920)"

definition STRIPE_WEBHOOK_IPV4_ADDRESSES :: "string list" where
  "STRIPE_WEBHOOK_IPV4_ADDRESSES =
     [''3.18.12.63'', ''3.130.192.231'', ''13.235.14.237'', ''13.235.122.149'', ''18.211.135.69'', ''35.154.171.200'',
      ''52.15.183.38'', ''54.88.130.119'', ''54.88.130.237'', ''54.187.174.169'', ''54.187.205.235'', ''54.187.216.72'',
      ''35.157.207.129'', ''3.69.109.8'', ''3.120.168.93'']"

definition rate :: "int \<Rightarrow> int \<Rightarrow> EdgeAdmissionRatePolicy" where
  "rate b i = \<lparr>er_burst = b, er_intervalMs = i\<rparr>"

definition DEFAULT_POLICIES :: "EdgeAdmissionClass \<Rightarrow> EdgeAdmissionClassPolicy" where
  "DEFAULT_POLICIES c = (case c of
     account_webhook \<Rightarrow> \<lparr>ec_concurrency = 8, ec_global = rate 80 200, ec_source = rate 40 500\<rparr>
   | audit_download \<Rightarrow> \<lparr>ec_concurrency = 2, ec_global = rate 20 2000, ec_source = rate 5 10000\<rparr>
   | signed_api \<Rightarrow> \<lparr>ec_concurrency = 16, ec_global = rate 200 100, ec_source = rate 100 250\<rparr>)"

definition class_name_of :: "EdgeAdmissionClass \<Rightarrow> string" where
  "class_name_of c = (case c of account_webhook \<Rightarrow> ''account_webhook'' | audit_download \<Rightarrow> ''audit_download''
     | signed_api \<Rightarrow> ''signed_api'')"

definition assertPositiveInteger :: "int \<Rightarrow> string \<Rightarrow> int \<Rightarrow> err + unit" where
  "assertPositiveInteger value label maximum =
     (if \<not> safe_integer value \<or> value \<le> 0 \<or> value > maximum
      then Inl (Error (label @ '' must be a bounded positive integer'')) else Inr ())"

definition or_default :: "'a option \<Rightarrow> 'a \<Rightarrow> 'a" where
  "or_default x y = (case x of Some v \<Rightarrow> v | None \<Rightarrow> y)"

definition merge_rate :: "EdgeAdmissionRatePolicyOverride option \<Rightarrow> EdgeAdmissionRatePolicy \<Rightarrow> EdgeAdmissionRatePolicy" where
  "merge_rate override base =
     \<lparr>er_burst = or_default (Option.bind override eo_burst) (er_burst base),
      er_intervalMs = or_default (Option.bind override eo_intervalMs) (er_intervalMs base)\<rparr>"

definition mergePolicy ::
  "EdgeAdmissionClass \<Rightarrow> EdgeAdmissionClassPolicyOverride option \<Rightarrow> err + EdgeAdmissionClassPolicy" where
  "mergePolicy requestClass override =
     (let base = DEFAULT_POLICIES requestClass;
          policy = \<lparr>ec_concurrency = or_default (Option.bind override eo_concurrency) (ec_concurrency base),
            ec_global = merge_rate (Option.bind override eo_global) (ec_global base),
            ec_source = merge_rate (Option.bind override eo_source) (ec_source base)\<rparr>;
          n = class_name_of requestClass
      in bind_err (assertPositiveInteger (ec_concurrency policy) (n @ ''.concurrency'') 100000) (\<lambda>_.
         bind_err (assertPositiveInteger (er_burst (ec_global policy)) (n @ ''.global.burst'') 1000000) (\<lambda>_.
         bind_err (assertPositiveInteger (er_intervalMs (ec_global policy)) (n @ ''.global.intervalMs'') 3600000) (\<lambda>_.
         bind_err (assertPositiveInteger (er_burst (ec_source policy)) (n @ ''.source.burst'') 1000000) (\<lambda>_.
         bind_err (assertPositiveInteger (er_intervalMs (ec_source policy)) (n @ ''.source.intervalMs'') 3600000) (\<lambda>_.
         Inr policy))))))"

text \<open>A preview: the seconds to wait, or the next arrival time.\<close>

definition previewGcra :: "int \<Rightarrow> EdgeAdmissionRatePolicy \<Rightarrow> int \<Rightarrow> int + int" where
  "previewGcra tatMs policy nowMs =
     (let toleranceMs = (er_burst policy - 1) * er_intervalMs policy;
          earliestAllowedMs = tatMs - toleranceMs
      in if nowMs < earliestAllowedMs then Inl (max 1 (ceil_div (earliestAllowedMs - nowMs) 1000))
         else Inr (max tatMs nowMs + er_intervalMs policy))"

subsection \<open>The source of a request\<close>

fun split_on :: "char \<Rightarrow> string \<Rightarrow> string list" where
  "split_on c [] = [[]]"
| "split_on c (x # xs) = (if x = c then [] # split_on c xs
     else case split_on c xs of [] \<Rightarrow> [[x]] | p # ps \<Rightarrow> (x # p) # ps)"

fun split_on_pair :: "char \<Rightarrow> string \<Rightarrow> string list" where
  "split_on_pair c [] = [[]]"
| "split_on_pair c [x] = [[x]]"
| "split_on_pair c (x # y # xs) = (if x = c \<and> y = c then [] # split_on_pair c xs
     else case split_on_pair c (y # xs) of [] \<Rightarrow> [[x]] | p # ps \<Rightarrow> (x # p) # ps)"

text \<open>\<open>Number(octet)\<close> passes the tests only for the decimal text of a number up to 255.\<close>

definition ipv4_octet :: "string \<Rightarrow> nat option" where
  "ipv4_octet s = (let v = read_nat 0 s in if list_all digit s \<and> v \<le> 255 \<and> show_nat v = s then Some v else None)"

definition parseIpv4Bytes :: "string \<Rightarrow> nat list option" where
  "parseIpv4Bytes address =
     (let octets = split_on CHR ''.'' address
      in if length octets \<noteq> 4 then None else those (map ipv4_octet octets))"

definition hex_digit_any :: "char \<Rightarrow> bool" where
  "hex_digit_any c \<longleftrightarrow> digit c \<or> in_range CHR ''a'' CHR ''f'' c \<or> in_range CHR ''A'' CHR ''F'' c"

definition hex_group :: "string \<Rightarrow> nat" where
  "hex_group s = foldl (\<lambda>n c. 16 * n + hex_value (ascii_lower_char c)) 0 s"

fun parseIpv6Groups :: "string list \<Rightarrow> nat list option" where
  "parseIpv6Groups [] = Some []"
| "parseIpv6Groups (token # tokens) =
     (if CHR ''.'' \<in> set token then
        (if tokens \<noteq> [] then None
         else case parseIpv4Bytes token of
           Some [a, b, c, d] \<Rightarrow> Some [256 * a + b, 256 * c + d] | _ \<Rightarrow> None)
      else if \<not> (1 \<le> length token \<and> length token \<le> 4 \<and> list_all hex_digit_any token) then None
      else map_option (\<lambda>groups. hex_group token # groups) (parseIpv6Groups tokens))"

definition parseIpv6Bytes :: "string \<Rightarrow> nat list option" where
  "parseIpv6Bytes address =
     (if CHR ''%'' \<in> set address then None
      else let halves = split_on_pair CHR '':'' address
      in if length halves > 2 then None
      else let tokens = (\<lambda>h. if h = [] then [] else split_on CHR '':'' h);
               compressed = (length halves = 2)
      in case (parseIpv6Groups (tokens (hd halves)), parseIpv6Groups (if compressed then tokens (halves ! 1) else [])) of
        (Some left, Some right) \<Rightarrow>
          (let specified = length left + length right
           in if \<not> compressed \<and> specified \<noteq> 8 \<or> compressed \<and> specified \<ge> 8 then None
              else let groups = (if compressed then left @ replicate (8 - specified) 0 @ right else left)
              in if length groups \<noteq> 8 then None
                 else Some (concat (map (\<lambda>g. [g div 256, g mod 256]) groups)))
      | _ \<Rightarrow> None)"

type_synonym headers = "string \<Rightarrow> string option"

record EdgeConfig =
  cf_hmac :: "bytes \<Rightarrow> bytes \<Rightarrow> bytes"
  cf_isIP :: "string \<Rightarrow> nat"
  cf_key :: bytes
  cf_policies :: "EdgeAdmissionClass \<Rightarrow> EdgeAdmissionClassPolicy"
  cf_requireTrustedEdge :: bool

record ParsedSource =
  ps_allowlistAddress :: "string option"
  ps_scopeBytes :: bytes

definition join_dots :: "nat list \<Rightarrow> string" where
  "join_dots ns = concat (case map show_nat ns of [] \<Rightarrow> [] | x # xs \<Rightarrow> x # map (\<lambda>y. ''.'' @ y) xs)"

definition parse_address :: "EdgeConfig \<Rightarrow> string \<Rightarrow> ParsedSource option" where
  "parse_address cf address =
     (if cf_isIP cf address = 4 then map_option (\<lambda>bs. \<lparr>ps_allowlistAddress = Some (join_dots bs),
          ps_scopeBytes = [4, 32] @ map of_nat bs\<rparr>) (parseIpv4Bytes address)
      else if cf_isIP cf address = 6 then map_option (\<lambda>bs. \<lparr>ps_allowlistAddress = None,
          ps_scopeBytes = [6, 64] @ map of_nat (take 8 bs)\<rparr>) (parseIpv6Bytes address)
      else None)"

definition parseSource :: "EdgeConfig \<Rightarrow> headers \<Rightarrow> ParsedSource option" where
  "parseSource cf h =
     (if \<not> cf_requireTrustedEdge cf then Some \<lparr>ps_allowlistAddress = None, ps_scopeBytes = utf8 ''local''\<rparr>
      else if h ''x-refunddesk-edge-verified'' \<noteq> Some ''cloudfront-v1'' then None
      else case h ''x-refunddesk-viewer-chain'' of
        None \<Rightarrow> None
      | Some chain \<Rightarrow>
        if chain = [] \<or> length (utf8 chain) > 2048 then None
        else let elements = map js_trim (split_on CHR '','' chain)
        in if elements = [] \<or> length elements > 32 \<or> list_ex (\<lambda>e. e = [] \<or> cf_isIP cf e = 0) elements then None
           else parse_address cf (last elements))"

subsection \<open>The gate\<close>

record SourceState =
  so_activeLeases :: int
  so_tatMs :: int
  so_lastSeenMs :: int

record EdgeLease =
  le_class :: EdgeAdmissionClass
  le_source :: nat
  le_released :: bool

record EdgeGate =
  eg_concurrency :: "EdgeAdmissionClass \<Rightarrow> int"
  eg_global :: "EdgeAdmissionClass \<Rightarrow> int"
  eg_overflow :: "EdgeAdmissionClass \<Rightarrow> int"
  eg_sources :: "EdgeAdmissionClass \<Rightarrow> (string \<times> nat) list"
  eg_lastClockMs :: int
  eg_lastSweepMs :: "EdgeAdmissionClass \<Rightarrow> int option"  \<comment> \<open>None: minus infinity\<close>
  eg_objects :: "SourceState list"
  eg_leases :: "EdgeLease list"

definition new_gate :: EdgeGate where
  "new_gate = \<lparr>eg_concurrency = (\<lambda>_. 0), eg_global = (\<lambda>_. 0), eg_overflow = (\<lambda>_. 0), eg_sources = (\<lambda>_. []),
     eg_lastClockMs = 0, eg_lastSweepMs = (\<lambda>_. None), eg_objects = [], eg_leases = []\<rparr>"

text \<open>The constructor: the checks of the options and the immutable part of the gate.\<close>

definition newMemoryEdgeAdmissionGate ::
  "bool \<Rightarrow> (bytes \<Rightarrow> bytes \<Rightarrow> bytes) \<Rightarrow> (string \<Rightarrow> nat) \<Rightarrow> bytes option \<Rightarrow> bytes
     \<Rightarrow> (EdgeAdmissionClass \<Rightarrow> EdgeAdmissionClassPolicyOverride option) \<Rightarrow> bool \<Rightarrow> err + EdgeConfig \<times> EdgeGate" where
  "newMemoryEdgeAdmissionGate production hmac isIP key randomKey policies requireTrustedEdge =
     (if production \<and> \<not> requireTrustedEdge
      then Inl (Error ''Production edge admission requires the trusted CloudFront contract'')
      else let k = or_default key randomKey
      in if length k < 32 then Inl (Error ''The edge admission HMAC key must contain at least 32 bytes'')
      else bind_err (mergePolicy account_webhook (policies account_webhook)) (\<lambda>webhook.
        bind_err (mergePolicy audit_download (policies audit_download)) (\<lambda>audit.
        bind_err (mergePolicy signed_api (policies signed_api)) (\<lambda>api.
        Inr (\<lparr>cf_hmac = hmac, cf_isIP = isIP, cf_key = k,
          cf_policies = (\<lambda>c. case c of account_webhook \<Rightarrow> webhook | audit_download \<Rightarrow> audit | signed_api \<Rightarrow> api),
          cf_requireTrustedEdge = requireTrustedEdge\<rparr>, new_gate)))))"

definition SWEEP_INTERVAL_MS :: int where
  "SWEEP_INTERVAL_MS = 60 * 1000"

definition SOURCE_IDLE_MS :: int where
  "SOURCE_IDLE_MS = 5 * 60 * 1000"

definition idle_source :: "int \<Rightarrow> SourceState \<Rightarrow> bool" where
  "idle_source nowMs s \<longleftrightarrow> so_activeLeases s = 0 \<and> nowMs - so_lastSeenMs s \<ge> SOURCE_IDLE_MS \<and> so_tatMs s \<le> nowMs"

definition sweep :: "EdgeAdmissionClass \<Rightarrow> int \<Rightarrow> EdgeGate \<Rightarrow> EdgeGate" where
  "sweep c nowMs g =
     (if (case eg_lastSweepMs g c of None \<Rightarrow> False | Some t \<Rightarrow> nowMs - t < SWEEP_INTERVAL_MS) then g
      else g\<lparr>eg_sources := (eg_sources g)(c := filter (\<lambda>(k, r). \<not> idle_source nowMs (eg_objects g ! r)) (eg_sources g c)),
             eg_lastSweepMs := (eg_lastSweepMs g)(c := Some nowMs)\<rparr>)"

definition gate_now :: "int option \<Rightarrow> EdgeGate \<Rightarrow> int option \<times> EdgeGate" where
  "gate_now observed g = (case observed of None \<Rightarrow> (None, g)
     | Some t \<Rightarrow> if t < 0 then (None, g)
        else (Some (max (eg_lastClockMs g) t), g\<lparr>eg_lastClockMs := max (eg_lastClockMs g) t\<rparr>))"

definition sourceKey :: "EdgeConfig \<Rightarrow> EdgeAdmissionClass \<Rightarrow> bytes \<Rightarrow> string" where
  "sourceKey cf c scopeBytes =
     b64_encode (cf_hmac cf (cf_key cf) (utf8 ''refunddesk-edge-source-v1'' @ [0] @ utf8 (class_name_of c) @ [0] @ scopeBytes))"

definition capacityRetryAfterSeconds :: "EdgeAdmissionClass \<Rightarrow> int \<Rightarrow> EdgeGate \<Rightarrow> int" where
  "capacityRetryAfterSeconds c nowMs g = (case eg_lastSweepMs g c of None \<Rightarrow> 1
     | Some t \<Rightarrow> max 1 (ceil_div (t + SWEEP_INTERVAL_MS - nowMs) 1000))"

definition charge_object :: "nat \<Rightarrow> (SourceState \<Rightarrow> SourceState) \<Rightarrow> EdgeGate \<Rightarrow> EdgeGate" where
  "charge_object r f g = g\<lparr>eg_objects := (eg_objects g)[r := f (eg_objects g ! r)]\<rparr>"

text \<open>An admitted request: the source is seen, the shared bucket is charged and a lease is taken.\<close>

definition admit :: "EdgeAdmissionClass \<Rightarrow> nat \<Rightarrow> int \<Rightarrow> int \<Rightarrow> EdgeGate \<Rightarrow> EdgeAdmissionDecision \<times> EdgeGate" where
  "admit c r globalTat nowMs g =
     (EdgeAllowed (length (eg_leases g)),
      (charge_object r (\<lambda>s. s\<lparr>so_lastSeenMs := nowMs, so_activeLeases := so_activeLeases s + 1\<rparr>) g)
        \<lparr>eg_global := (eg_global g)(c := globalTat), eg_concurrency := (eg_concurrency g)(c := eg_concurrency g c + 1),
         eg_leases := eg_leases g @ [\<lparr>le_class = c, le_source = r, le_released = False\<rparr>]\<rparr>)"

text \<open>The shared limits, after the source has been previewed; \<open>known\<close> is the reference of a tracked source.\<close>

definition acquire_shared ::
  "EdgeConfig \<Rightarrow> EdgeAdmissionClass \<Rightarrow> string \<Rightarrow> nat option \<Rightarrow> int \<Rightarrow> int \<Rightarrow> EdgeGate \<Rightarrow> EdgeAdmissionDecision \<times> EdgeGate" where
  "acquire_shared cf c key known sourceTat nowMs g =
     (let policy = cf_policies cf c
      in case previewGcra (eg_global g c) (ec_global policy) nowMs of
        Inl retry \<Rightarrow> (EdgeDenied GlobalRateLimited 429 (Some retry), g)
      | Inr globalTat \<Rightarrow>
        if eg_concurrency g c \<ge> ec_concurrency policy then (EdgeDenied ConcurrencyLimited 429 (Some 1), g)
        else case known of
          Some r \<Rightarrow> admit c r globalTat nowMs g
        | None \<Rightarrow> admit c (length (eg_objects g)) globalTat nowMs
            (g\<lparr>eg_objects := eg_objects g @ [\<lparr>so_activeLeases = 0, so_tatMs = sourceTat, so_lastSeenMs = nowMs\<rparr>],
               eg_sources := (eg_sources g)(c := eg_sources g c @ [(key, length (eg_objects g))])\<rparr>))"

definition acquire_source ::
  "EdgeConfig \<Rightarrow> EdgeAdmissionClass \<Rightarrow> string \<Rightarrow> int \<Rightarrow> EdgeGate \<Rightarrow> EdgeAdmissionDecision \<times> EdgeGate" where
  "acquire_source cf c key nowMs g =
     (let policy = cf_policies cf c
      in case map_of (eg_sources g c) key of
        None \<Rightarrow>
          if length (eg_sources g c) \<ge> EDGE_SOURCE_SCOPE_CAPACITIES c then
            (case previewGcra (eg_overflow g c) (ec_global policy) nowMs of
               Inl retry \<Rightarrow> (EdgeDenied SourceCapacityExceeded 429 (Some (max (capacityRetryAfterSeconds c nowMs g) retry)), g)
             | Inr t \<Rightarrow> (EdgeDenied SourceCapacityExceeded 429 (Some (max (capacityRetryAfterSeconds c nowMs g) 1)),
                 g\<lparr>eg_overflow := (eg_overflow g)(c := t)\<rparr>))
          else (case previewGcra 0 (ec_source policy) nowMs of
            Inl retry \<Rightarrow> (EdgeDenied SourceRateLimited 429 (Some retry), g)
          | Inr t \<Rightarrow> acquire_shared cf c key None t nowMs g)
      | Some r \<Rightarrow>
          (case previewGcra (so_tatMs (eg_objects g ! r)) (ec_source policy) nowMs of
            Inl retry \<Rightarrow> (EdgeDenied SourceRateLimited 429 (Some retry), g)
          | Inr t \<Rightarrow> acquire_shared cf c key (Some r) t nowMs (charge_object r (\<lambda>s. s\<lparr>so_tatMs := t\<rparr>) g)))"

definition webhook_forbidden :: "EdgeConfig \<Rightarrow> EdgeAdmissionClass \<Rightarrow> ParsedSource \<Rightarrow> bool" where
  "webhook_forbidden cf c source \<longleftrightarrow> c = account_webhook \<and> cf_requireTrustedEdge cf
     \<and> (case ps_allowlistAddress source of None \<Rightarrow> True | Some a \<Rightarrow> a \<notin> set STRIPE_WEBHOOK_IPV4_ADDRESSES)"

definition acquire ::
  "EdgeConfig \<Rightarrow> headers \<Rightarrow> EdgeAdmissionClass \<Rightarrow> int option \<Rightarrow> EdgeGate \<Rightarrow> EdgeAdmissionDecision \<times> EdgeGate" where
  "acquire cf h c observed g =
     (if cf_requireTrustedEdge cf \<and> h ''x-refunddesk-origin-token'' \<noteq> None then (EdgeDenied OriginTokenForwarded 503 None, g)
      else if cf_requireTrustedEdge cf \<and> h ''x-refunddesk-edge-verified'' \<noteq> Some ''cloudfront-v1''
      then (EdgeDenied EdgeNotTrusted 503 None, g)
      else case parseSource cf h of
        None \<Rightarrow> (EdgeDenied SourceInvalid 503 None, g)
      | Some source \<Rightarrow>
        if webhook_forbidden cf c source then (EdgeDenied WebhookSourceForbidden 403 None, g)
        else case gate_now observed g of
          (None, g1) \<Rightarrow> (EdgeDenied ClockUnavailable 503 None, g1)
        | (Some nowMs, g1) \<Rightarrow> acquire_source cf c (sourceKey cf c (ps_scopeBytes source)) nowMs (sweep c nowMs g1))"

definition release :: "nat \<Rightarrow> EdgeGate \<Rightarrow> EdgeGate" where
  "release n g =
     (if n \<ge> length (eg_leases g) \<or> le_released (eg_leases g ! n) then g
      else let l = eg_leases g ! n
      in (charge_object (le_source l) (\<lambda>s. s\<lparr>so_activeLeases := max 0 (so_activeLeases s - 1)\<rparr>) g)
           \<lparr>eg_concurrency := (eg_concurrency g)(le_class l := max 0 (eg_concurrency g (le_class l) - 1)),
            eg_leases := (eg_leases g)[n := l\<lparr>le_released := True\<rparr>]\<rparr>)"

end
