(* ===== verification/Edge_Theorems.thy ===== *)
theory Edge_Theorems
  imports Edge_Admission
begin

text \<open>
  The edge gate over all sequences of requests and releases: its store stays consistent, its
  limits hold, and the shared bucket and every source bucket are instances of the contract
  \<open>gcra\<close>.
\<close>

datatype GateEvent = Acquire headers EdgeAdmissionClass "int option" | Release nat

definition gate_event :: "EdgeConfig \<Rightarrow> GateEvent \<Rightarrow> EdgeGate \<Rightarrow> EdgeGate" where
  "gate_event cf e g = (case e of Acquire h c t \<Rightarrow> snd (acquire cf h c t g) | Release n \<Rightarrow> release n g)"

inductive gate_reachable :: "EdgeConfig \<Rightarrow> EdgeGate \<Rightarrow> bool" for cf where
  new: "gate_reachable cf new_gate"
| event: "gate_reachable cf g \<Longrightarrow> gate_reachable cf (gate_event cf e g)"

definition positive_rate :: "EdgeAdmissionRatePolicy \<Rightarrow> bool" where
  "positive_rate p \<longleftrightarrow> 0 < er_burst p \<and> 0 < er_intervalMs p"

definition config_ok :: "EdgeConfig \<Rightarrow> bool" where
  "config_ok cf \<longleftrightarrow> (\<forall>c. 0 < ec_concurrency (cf_policies cf c) \<and> positive_rate (ec_global (cf_policies cf c))
     \<and> positive_rate (ec_source (cf_policies cf c)))"

subsection \<open>The invariant\<close>

definition open_count :: "(EdgeLease \<Rightarrow> bool) \<Rightarrow> EdgeLease list \<Rightarrow> int" where
  "open_count p ls = int (length (filter (\<lambda>l. \<not> le_released l \<and> p l) ls))"

text \<open>References: keys are unique, an object has one key, and an open lease's source is tracked.\<close>

definition refs_ok :: "(EdgeAdmissionClass \<Rightarrow> (string \<times> nat) list) \<Rightarrow> nat \<Rightarrow> EdgeLease list \<Rightarrow> bool" where
  "refs_ok S n ls \<longleftrightarrow>
     (\<forall>c. distinct (map fst (S c)) \<and> length (S c) \<le> EDGE_SOURCE_SCOPE_CAPACITIES c)
     \<and> (\<forall>c k r. (k, r) \<in> set (S c) \<longrightarrow> r < n)
     \<and> (\<forall>c k r c' k'. (k, r) \<in> set (S c) \<longrightarrow> (k', r) \<in> set (S c') \<longrightarrow> c' = c \<and> k' = k)
     \<and> (\<forall>l \<in> set ls. le_source l < n \<and> (\<not> le_released l \<longrightarrow> (\<exists>k. (k, le_source l) \<in> set (S (le_class l)))))"

text \<open>Counters: what the gate counts is what is open.\<close>

definition counts_ok :: "EdgeConfig \<Rightarrow> (EdgeAdmissionClass \<Rightarrow> int) \<Rightarrow> SourceState list \<Rightarrow> EdgeLease list \<Rightarrow> bool" where
  "counts_ok cf conc objs ls \<longleftrightarrow>
     (\<forall>c. conc c = open_count (\<lambda>l. le_class l = c) ls) \<and> (\<forall>c. conc c \<le> ec_concurrency (cf_policies cf c))
     \<and> (\<forall>r < length objs. so_activeLeases (objs ! r) = open_count (\<lambda>l. le_source l = r) ls)"

text \<open>Arrival times are at most a burst ahead of the clock.\<close>

definition within_burst :: "EdgeAdmissionRatePolicy \<Rightarrow> int \<Rightarrow> int \<Rightarrow> bool" where
  "within_burst p tat now \<longleftrightarrow> tat \<le> now + er_burst p * er_intervalMs p"

definition levels_ok :: "EdgeConfig \<Rightarrow> int \<Rightarrow> (EdgeAdmissionClass \<Rightarrow> int) \<Rightarrow> (EdgeAdmissionClass \<Rightarrow> (string \<times> nat) list)
     \<Rightarrow> SourceState list \<Rightarrow> bool" where
  "levels_ok cf now glob S objs \<longleftrightarrow> 0 \<le> now
     \<and> (\<forall>c. within_burst (ec_global (cf_policies cf c)) (glob c) now)
     \<and> (\<forall>c k r. (k, r) \<in> set (S c) \<longrightarrow> within_burst (ec_source (cf_policies cf c)) (so_tatMs (objs ! r)) now)"

definition gate_ok :: "EdgeConfig \<Rightarrow> EdgeGate \<Rightarrow> bool" where
  "gate_ok cf g \<longleftrightarrow> refs_ok (eg_sources g) (length (eg_objects g)) (eg_leases g)
     \<and> counts_ok cf (eg_concurrency g) (eg_objects g) (eg_leases g)
     \<and> levels_ok cf (eg_lastClockMs g) (eg_global g) (eg_sources g) (eg_objects g)"

subsection \<open>Previews\<close>

lemma preview_admits:
  assumes "positive_rate p" and "previewGcra tat p now = Inr t"
  shows "t = max tat now + er_intervalMs p" and "within_burst p t now"
proof -
  from assms(2) show t: "t = max tat now + er_intervalMs p" by (simp add: previewGcra_def Let_def split: if_splits)
  have "tat \<le> now + (er_burst p - 1) * er_intervalMs p"
    using assms(2) by (simp add: previewGcra_def Let_def split: if_splits)
  moreover have "0 \<le> (er_burst p - 1) * er_intervalMs p" using assms(1) by (simp add: positive_rate_def)
  ultimately show "within_burst p t now" unfolding t within_burst_def by (auto simp: algebra_simps)
qed

lemma within_burst_later: "within_burst p t a \<Longrightarrow> a \<le> b \<Longrightarrow> within_burst p t b"
  by (simp add: within_burst_def)

subsection \<open>What each part of a request keeps\<close>

lemma gate_ok_clock: "gate_ok cf g \<Longrightarrow> eg_lastClockMs g \<le> t \<Longrightarrow> gate_ok cf (g\<lparr>eg_lastClockMs := t\<rparr>)"
  by (simp add: gate_ok_def levels_ok_def) (meson within_burst_later)

lemma gate_now_ok:
  assumes "gate_now observed g = (r, g')" and "gate_ok cf g"
  shows "gate_ok cf g'" and "r = Some now \<Longrightarrow> eg_lastClockMs g' = now"
    and "eg_lastClockMs g \<le> eg_lastClockMs g'" and "g' = g\<lparr>eg_lastClockMs := eg_lastClockMs g'\<rparr>"
proof -
  show now: "g' = g\<lparr>eg_lastClockMs := eg_lastClockMs g'\<rparr>" and le: "eg_lastClockMs g \<le> eg_lastClockMs g'"
    and "r = Some now \<Longrightarrow> eg_lastClockMs g' = now"
    using assms(1) by (auto simp: gate_now_def split: option.splits if_splits)
  from le now assms(2) show "gate_ok cf g'"
    by (metis gate_ok_clock)
qed

lemma refs_okD:
  assumes "refs_ok S n ls"
  shows "distinct (map fst (S c))" and "length (S c) \<le> EDGE_SOURCE_SCOPE_CAPACITIES c"
    and "(k, r) \<in> set (S c) \<Longrightarrow> r < n"
    and "(k, r) \<in> set (S c) \<Longrightarrow> (k', r) \<in> set (S c') \<Longrightarrow> c' = c \<and> k' = k"
    and "l \<in> set ls \<Longrightarrow> le_source l < n"
    and "l \<in> set ls \<Longrightarrow> \<not> le_released l \<Longrightarrow> \<exists>k. (k, le_source l) \<in> set (S (le_class l))"
  using assms unfolding refs_ok_def by simp_all

lemma refs_okI:
  assumes "\<And>c. distinct (map fst (S c))" and "\<And>c. length (S c) \<le> EDGE_SOURCE_SCOPE_CAPACITIES c"
    and "\<And>c k r. (k, r) \<in> set (S c) \<Longrightarrow> r < n"
    and "\<And>c k r c' k'. (k, r) \<in> set (S c) \<Longrightarrow> (k', r) \<in> set (S c') \<Longrightarrow> c' = c \<and> k' = k"
    and "\<And>l. l \<in> set ls \<Longrightarrow> le_source l < n"
    and "\<And>l. l \<in> set ls \<Longrightarrow> \<not> le_released l \<Longrightarrow> \<exists>k. (k, le_source l) \<in> set (S (le_class l))"
  shows "refs_ok S n ls"
  using assms unfolding refs_ok_def by simp

lemma refs_ok_filter:
  assumes "refs_ok S n ls" and "\<And>l. l \<in> set ls \<Longrightarrow> \<not> le_released l \<Longrightarrow> le_class l = c \<Longrightarrow> q (le_source l)"
  shows "refs_ok (S(c := filter (\<lambda>(k, r). q r) (S c))) n ls"
proof -
  let ?S = "S(c := filter (\<lambda>(k, r). q r) (S c))"
  have sub: "set (?S d) \<subseteq> set (S d)" for d by auto
  note old = refs_okD [OF assms(1)]
  show ?thesis
  proof (rule refs_okI)
    show "distinct (map fst (?S d))" for d using old(1) by (simp add: distinct_map_filter)
    show "length (?S d) \<le> EDGE_SOURCE_SCOPE_CAPACITIES d" for d
      using old(2) [of d] by (cases "d = c") (simp_all add: order_trans [OF length_filter_le])
    show "r < n" if "(k, r) \<in> set (?S d)" for d k r using that sub old(3) by blast
    show "d' = d \<and> k' = k" if "(k, r) \<in> set (?S d)" "(k', r) \<in> set (?S d')" for d k r d' k'
      using that sub old(4) by blast
    show "le_source l < n" if "l \<in> set ls" for l using that by (rule old(5))
    show "\<exists>k. (k, le_source l) \<in> set (?S (le_class l))" if "l \<in> set ls" "\<not> le_released l" for l
      using old(6) [OF that] assms(2) [OF that] by auto
  qed
qed

lemma open_count_pos: "l \<in> set ls \<Longrightarrow> \<not> le_released l \<Longrightarrow> p l \<Longrightarrow> 0 < open_count p ls"
  unfolding open_count_def by (induction ls) auto

lemma sweep_ok:
  assumes "gate_ok cf g"
  shows "gate_ok cf (sweep c now g)"
proof -
  have "\<not> idle_source now (eg_objects g ! le_source l)" if "l \<in> set (eg_leases g)" "\<not> le_released l" for l
  proof -
    have "0 < open_count (\<lambda>x. le_source x = le_source l) (eg_leases g)" using that by (intro open_count_pos [of l]) auto
    moreover have "le_source l < length (eg_objects g)" using assms that by (auto simp: gate_ok_def refs_ok_def)
    ultimately show ?thesis using assms by (auto simp: gate_ok_def counts_ok_def idle_source_def)
  qed
  then have "refs_ok ((eg_sources g)(c := filter (\<lambda>(k, r). \<not> idle_source now (eg_objects g ! r)) (eg_sources g c)))
      (length (eg_objects g)) (eg_leases g)"
    using assms by (intro refs_ok_filter) (auto simp: gate_ok_def)
  moreover have "levels_ok cf (eg_lastClockMs g) (eg_global g)
      ((eg_sources g)(c := filter (\<lambda>(k, r). \<not> idle_source now (eg_objects g ! r)) (eg_sources g c))) (eg_objects g)"
    using assms by (auto simp: gate_ok_def levels_ok_def)
  ultimately show ?thesis using assms by (simp add: sweep_def gate_ok_def)
qed

text \<open>A tracked source is charged: only its arrival time changes.\<close>

lemma charge_ok:
  assumes "gate_ok cf g" and "(k, r) \<in> set (eg_sources g c)"
    and "within_burst (ec_source (cf_policies cf c)) t (eg_lastClockMs g)"
  shows "gate_ok cf (charge_object r (\<lambda>s. s\<lparr>so_tatMs := t\<rparr>) g)"
proof -
  let ?o = "(eg_objects g)[r := (eg_objects g ! r)\<lparr>so_tatMs := t\<rparr>]"
  note refs = refs_okD [OF assms(1) [unfolded gate_ok_def, THEN conjunct1]]
  have r: "r < length (eg_objects g)" using assms(2) by (rule refs(3))
  have "counts_ok cf (eg_concurrency g) ?o (eg_leases g)"
    using assms(1) r by (auto simp: gate_ok_def counts_ok_def nth_list_update)
  moreover have "within_burst (ec_source (cf_policies cf c')) (so_tatMs (?o ! r')) (eg_lastClockMs g)"
    if "(k', r') \<in> set (eg_sources g c')" for c' k' r'
  proof (cases "r' = r")
    case True
    then have "c' = c" using refs(4) [OF assms(2), of k' c'] that by simp
    with True assms(3) r show ?thesis by simp
  next
    case False
    with assms(1) that show ?thesis by (simp add: gate_ok_def levels_ok_def)
  qed
  ultimately show ?thesis using assms(1) by (simp add: charge_object_def gate_ok_def levels_ok_def)
qed

text \<open>A new source is tracked under a key that was free.\<close>

lemma new_source_ok:
  assumes "gate_ok cf g" and "map_of (eg_sources g c) key = None"
    and "length (eg_sources g c) < EDGE_SOURCE_SCOPE_CAPACITIES c"
    and "within_burst (ec_source (cf_policies cf c)) t (eg_lastClockMs g)"
  shows "gate_ok cf (g\<lparr>eg_objects := eg_objects g @ [\<lparr>so_activeLeases = 0, so_tatMs = t, so_lastSeenMs = now\<rparr>],
     eg_sources := (eg_sources g)(c := eg_sources g c @ [(key, length (eg_objects g))])\<rparr>)"
proof -
  let ?S = "(eg_sources g)(c := eg_sources g c @ [(key, length (eg_objects g))])"
  let ?n = "length (eg_objects g)"
  note refs = refs_okD [OF assms(1) [unfolded gate_ok_def, THEN conjunct1]]
  have key: "key \<notin> fst ` set (eg_sources g c)" using assms(2) by (simp add: map_of_eq_None_iff)
  have new: "(k, r) \<in> set (?S d) \<Longrightarrow> (k, r) \<in> set (eg_sources g d) \<and> r < ?n \<or> d = c \<and> k = key \<and> r = ?n" for k r d
    using refs(3) by (auto split: if_splits)
  have "refs_ok ?S (Suc ?n) (eg_leases g)"
  proof (rule refs_okI)
    show "distinct (map fst (?S d))" for d using refs(1) [of d] key by auto
    show "length (?S d) \<le> EDGE_SOURCE_SCOPE_CAPACITIES d" for d using refs(2) [of d] assms(3) by auto
    show "r < Suc ?n" if "(k, r) \<in> set (?S d)" for d k r using new [OF that] by auto
    show "d' = d \<and> k' = k" if "(k, r) \<in> set (?S d)" "(k', r) \<in> set (?S d')" for d k r d' k'
      using new [OF that(1)] new [OF that(2)] refs(4) [of k r d k' d'] by auto
    show "le_source l < Suc ?n" if "l \<in> set (eg_leases g)" for l using refs(5) [OF that] by simp
    show "\<exists>k. (k, le_source l) \<in> set (?S (le_class l))" if "l \<in> set (eg_leases g)" "\<not> le_released l" for l
      using refs(6) [OF that] by auto
  qed
  moreover have "le_source l \<noteq> ?n" if "l \<in> set (eg_leases g)" for l using refs(5) [OF that] by simp
  then have "open_count (\<lambda>l. le_source l = ?n) (eg_leases g) = 0"
    by (simp add: open_count_def filter_empty_conv)
  then have "counts_ok cf (eg_concurrency g) (eg_objects g @ [\<lparr>so_activeLeases = 0, so_tatMs = t, so_lastSeenMs = now\<rparr>]) (eg_leases g)"
    using assms(1) by (auto simp: gate_ok_def counts_ok_def nth_append less_Suc_eq)
  moreover have "within_burst (ec_source (cf_policies cf d))
      (so_tatMs ((eg_objects g @ [\<lparr>so_activeLeases = 0, so_tatMs = t, so_lastSeenMs = now\<rparr>]) ! r)) (eg_lastClockMs g)"
    if "(k, r) \<in> set (?S d)" for d k r
    using new [OF that] assms(1,4) by (auto simp: gate_ok_def levels_ok_def nth_append)
  ultimately show ?thesis using assms(1) by (simp add: gate_ok_def levels_ok_def)
qed

lemma open_count_snoc:
  "open_count p (ls @ [l]) = open_count p ls + (if \<not> le_released l \<and> p l then 1 else 0)"
  by (simp add: open_count_def)

lemma admit_ok:
  assumes "gate_ok cf g" and "(k, r) \<in> set (eg_sources g c)" and "eg_concurrency g c < ec_concurrency (cf_policies cf c)"
    and "within_burst (ec_global (cf_policies cf c)) t (eg_lastClockMs g)"
  shows "gate_ok cf (snd (admit c r t now g))"
proof -
  note refs = refs_okD [OF assms(1) [unfolded gate_ok_def, THEN conjunct1]]
  have r: "r < length (eg_objects g)" using assms(2) by (rule refs(3))
  have "refs_ok (eg_sources g) (length (eg_objects g)) (eg_leases g @ [\<lparr>le_class = c, le_source = r, le_released = False\<rparr>])"
    by (rule refs_okI) (use refs r assms(2) in \<open>auto\<close>)
  moreover have "counts_ok cf ((eg_concurrency g)(c := eg_concurrency g c + 1))
      ((eg_objects g)[r := (eg_objects g ! r)\<lparr>so_lastSeenMs := now, so_activeLeases := so_activeLeases (eg_objects g ! r) + 1\<rparr>])
      (eg_leases g @ [\<lparr>le_class = c, le_source = r, le_released = False\<rparr>])"
    using assms(1,3) r by (auto simp: gate_ok_def counts_ok_def open_count_snoc nth_list_update)
  moreover have "levels_ok cf (eg_lastClockMs g) ((eg_global g)(c := t)) (eg_sources g)
      ((eg_objects g)[r := (eg_objects g ! r)\<lparr>so_lastSeenMs := now, so_activeLeases := so_activeLeases (eg_objects g ! r) + 1\<rparr>])"
    using assms(1,4) r by (auto simp: gate_ok_def levels_ok_def nth_list_update)
  ultimately show ?thesis by (simp add: admit_def charge_object_def gate_ok_def)
qed

lemma open_count_release:
  assumes "n < length ls" and "\<not> le_released (ls ! n)" and "\<And>l b. p (l\<lparr>le_released := b\<rparr>) = p l"
  shows "open_count p (ls[n := (ls ! n)\<lparr>le_released := True\<rparr>]) = open_count p ls - (if p (ls ! n) then 1 else 0)"
  using assms
proof (induction ls arbitrary: n)
  case (Cons l ls)
  show ?case
  proof (cases n)
    case 0
    with Cons.prems show ?thesis by (simp add: open_count_def)
  next
    case (Suc m)
    have "open_count p (ls[m := (ls ! m)\<lparr>le_released := True\<rparr>]) = open_count p ls - (if p (ls ! m) then 1 else 0)"
      by (rule Cons.IH) (use Cons.prems Suc in simp_all)
    with Suc show ?thesis by (auto simp: open_count_def)
  qed
qed simp

lemma release_ok:
  assumes "gate_ok cf g" and "config_ok cf"
  shows "gate_ok cf (release n g)"
proof (cases "n \<ge> length (eg_leases g) \<or> le_released (eg_leases g ! n)")
  case True
  with assms show ?thesis by (simp add: release_def)
next
  case False
  let ?l = "eg_leases g ! n"
  let ?ls = "(eg_leases g)[n := ?l\<lparr>le_released := True\<rparr>]"
  note refs = refs_okD [OF assms(1) [unfolded gate_ok_def, THEN conjunct1]]
  have l: "?l \<in> set (eg_leases g)" "\<not> le_released ?l" "n < length (eg_leases g)" using False by auto
  have r: "le_source ?l < length (eg_objects g)" using l(1) by (rule refs(5))
  have pos: "0 < open_count (\<lambda>x. le_class x = le_class ?l) (eg_leases g)"
    "0 < open_count (\<lambda>x. le_source x = le_source ?l) (eg_leases g)" 
    by (rule open_count_pos [OF l(1,2)], simp)+
  have in_ls: "x \<in> set (eg_leases g) \<or> x = ?l\<lparr>le_released := True\<rparr>" if "x \<in> set ?ls" for x
    using set_update_subset_insert that by fastforce
  have "refs_ok (eg_sources g) (length (eg_objects g)) ?ls"
  proof (rule refs_okI [OF refs(1,2,3,4)])
    fix x
    assume x: "x \<in> set ?ls"
    show "le_source x < length (eg_objects g)" using in_ls [OF x] refs(5) r by auto
    show "\<exists>k. (k, le_source x) \<in> set (eg_sources g (le_class x))" if "\<not> le_released x"
      using in_ls [OF x] refs(6) that by auto
  qed
  moreover have counts: "open_count (\<lambda>x. le_class x = c) ?ls = open_count (\<lambda>x. le_class x = c) (eg_leases g) - (if le_class ?l = c then 1 else 0)"
    "open_count (\<lambda>x. le_source x = s) ?ls = open_count (\<lambda>x. le_source x = s) (eg_leases g) - (if le_source ?l = s then 1 else 0)" for c s
    using l by (subst open_count_release; simp)+
  have used: "eg_concurrency g c = open_count (\<lambda>l. le_class l = c) (eg_leases g)"
    "open_count (\<lambda>l. le_class l = c) (eg_leases g) \<le> ec_concurrency (cf_policies cf c)" for c
    using assms(1) unfolding gate_ok_def counts_ok_def by (simp, metis)
  have source_used: "s < length (eg_objects g) \<Longrightarrow> so_activeLeases (eg_objects g ! s) = open_count (\<lambda>l. le_source l = s) (eg_leases g)" for s
    using assms(1) unfolding gate_ok_def counts_ok_def by simp
  have "counts_ok cf ((eg_concurrency g)(le_class ?l := max 0 (eg_concurrency g (le_class ?l) - 1)))
      ((eg_objects g)[le_source ?l := (eg_objects g ! le_source ?l)\<lparr>so_activeLeases := max 0 (so_activeLeases (eg_objects g ! le_source ?l) - 1)\<rparr>]) ?ls"
    using r pos order_trans [OF _ used(2), of "_ - 1"] unfolding counts_ok_def counts
    by (auto simp: nth_list_update used source_used)
  moreover have "levels_ok cf (eg_lastClockMs g) (eg_global g) (eg_sources g)
      ((eg_objects g)[le_source ?l := (eg_objects g ! le_source ?l)\<lparr>so_activeLeases := max 0 (so_activeLeases (eg_objects g ! le_source ?l) - 1)\<rparr>])"
    using assms(1) r by (auto simp: gate_ok_def levels_ok_def nth_list_update)
  ultimately show ?thesis using False by (simp add: release_def Let_def charge_object_def gate_ok_def)
qed

subsection \<open>What a request does to the arrival times\<close>

definition tat_of :: "EdgeGate \<Rightarrow> EdgeAdmissionClass \<Rightarrow> string \<Rightarrow> int" where
  "tat_of g c k = (case map_of (eg_sources g c) k of None \<Rightarrow> 0 | Some r \<Rightarrow> so_tatMs (eg_objects g ! r))"

lemma tat_of_charge:
  assumes "gate_ok cf g" and "map_of (eg_sources g c) key = Some r"
  shows "tat_of (charge_object r (\<lambda>s. s\<lparr>so_tatMs := t\<rparr>) g) c' k' = (if c' = c \<and> k' = key then t else tat_of g c' k')"
proof -
  note refs = refs_okD [OF assms(1) [unfolded gate_ok_def, THEN conjunct1]]
  have in_r: "(key, r) \<in> set (eg_sources g c)" using assms(2) by (rule map_of_SomeD)
  then have len: "r < length (eg_objects g)" by (rule refs(3))
  show ?thesis
  proof (cases "c' = c \<and> k' = key")
    case True
    with assms(2) len show ?thesis by (simp add: tat_of_def charge_object_def)
  next
    case False
    have "r' \<noteq> r" if "map_of (eg_sources g c') k' = Some r'" for r'
      using refs(4) [OF in_r, of k' c'] map_of_SomeD [OF that] False by blast
    then have "tat_of (charge_object r (\<lambda>s. s\<lparr>so_tatMs := t\<rparr>) g) c' k' = tat_of g c' k'"
      by (auto simp: tat_of_def charge_object_def split: option.split)
    with False show ?thesis by metis
  qed
qed

lemma tat_of_admit: "tat_of (snd (admit c r t now g)) c' k' = tat_of g c' k'"
proof -
  have "so_tatMs ((eg_objects g)[r := (eg_objects g ! r)\<lparr>so_lastSeenMs := now, so_activeLeases := a\<rparr>] ! r') = so_tatMs (eg_objects g ! r')" for r' a
    by (cases "r' = r \<and> r < length (eg_objects g)") (auto simp: nth_list_update list_update_beyond)
  then show ?thesis by (simp add: tat_of_def admit_def charge_object_def split: option.split)
qed

lemma tat_of_new:
  assumes "gate_ok cf g" and "map_of (eg_sources g c) key = None"
  shows "tat_of (g\<lparr>eg_objects := eg_objects g @ [\<lparr>so_activeLeases = 0, so_tatMs = t, so_lastSeenMs = now\<rparr>],
     eg_sources := (eg_sources g)(c := eg_sources g c @ [(key, length (eg_objects g))])\<rparr>) c' k'
     = (if c' = c \<and> k' = key then t else tat_of g c' k')"
proof -
  note refs = refs_okD [OF assms(1) [unfolded gate_ok_def, THEN conjunct1]]
  have "map_of (eg_sources g c') k' = Some r \<Longrightarrow> r < length (eg_objects g)" for r using refs(3) map_of_SomeD by fast
  then show ?thesis using assms(2)
    by (auto simp: tat_of_def nth_append map_add_def split: option.splits)
qed

lemma map_of_filter_refs:
  "distinct (map fst xs) \<Longrightarrow> map_of (filter (\<lambda>(k, r). q r) xs) k = (case map_of xs k of Some r \<Rightarrow> if q r then Some r else None | None \<Rightarrow> None)"
proof (induction xs)
  case (Cons x xs)
  have "map_of xs (fst x) = None" using Cons.prems by (auto simp: map_of_eq_None_iff)
  with Cons show ?case by (cases x) (auto split: option.splits)
qed simp

text \<open>A swept source loses only an arrival time that has passed.\<close>

lemma tat_of_sweep:
  assumes "gate_ok cf g"
  shows "tat_of (sweep c now g) c' k' = tat_of g c' k' \<or> tat_of (sweep c now g) c' k' = 0 \<and> tat_of g c' k' \<le> now"
proof -
  have "distinct (map fst (eg_sources g c))" using assms by (simp add: gate_ok_def refs_ok_def)
  then show ?thesis
    by (auto simp: sweep_def tat_of_def map_of_filter_refs idle_source_def split: option.splits)
qed

definition allowed :: "EdgeAdmissionDecision \<Rightarrow> bool" where
  "allowed d \<longleftrightarrow> (case d of EdgeAllowed _ \<Rightarrow> True | EdgeDenied _ _ _ \<Rightarrow> False)"

lemma allowed_simps [simp]: "allowed (EdgeAllowed n)" "\<not> allowed (EdgeDenied a b s)"
  by (simp_all add: allowed_def)

text \<open>
  What a request of a class and a source does: the clock stays, the invariant is kept, the shared
  bucket is charged exactly when the request is admitted, and the bucket of the source at least then.
\<close>

definition request_effect ::
  "EdgeConfig \<Rightarrow> EdgeAdmissionClass \<Rightarrow> string \<Rightarrow> int \<Rightarrow> EdgeGate \<Rightarrow> bool \<Rightarrow> EdgeGate \<Rightarrow> bool" where
  "request_effect cf c key now g ok g' \<longleftrightarrow>
     gate_ok cf g' \<and> eg_lastClockMs g' = eg_lastClockMs g
     \<and> eg_global g' = (eg_global g)(c := if ok then max (eg_global g c) now + er_intervalMs (ec_global (cf_policies cf c)) else eg_global g c)
     \<and> (\<forall>c' k'. c' = c \<and> k' = key \<or> tat_of g' c' k' = tat_of g c' k')
     \<and> (let t = max (tat_of g c key) now + er_intervalMs (ec_source (cf_policies cf c))
        in tat_of g' c key = t \<or> \<not> ok \<and> tat_of g' c key = tat_of g c key)"

lemma admit_effect:
  assumes "gate_ok cf g" and "(k, r) \<in> set (eg_sources g c)" and "eg_concurrency g c < ec_concurrency (cf_policies cf c)"
    and "config_ok cf" and "eg_lastClockMs g = now"
    and "previewGcra (eg_global g c) (ec_global (cf_policies cf c)) now = Inr t"
  shows "gate_ok cf (snd (admit c r t now g))" and "eg_lastClockMs (snd (admit c r t now g)) = eg_lastClockMs g"
    and "eg_global (snd (admit c r t now g)) = (eg_global g)(c := max (eg_global g c) now + er_intervalMs (ec_global (cf_policies cf c)))"
    and "allowed (fst (admit c r t now g))"
proof -
  have "positive_rate (ec_global (cf_policies cf c))" using assms(4) by (simp add: config_ok_def)
  note p = preview_admits [OF this assms(6)]
  show "gate_ok cf (snd (admit c r t now g))" using assms(1-3,5) p(2) by (auto intro!: admit_ok)
  show "eg_lastClockMs (snd (admit c r t now g)) = eg_lastClockMs g"
    "eg_global (snd (admit c r t now g)) = (eg_global g)(c := max (eg_global g c) now + er_intervalMs (ec_global (cf_policies cf c)))"
    "allowed (fst (admit c r t now g))"
    by (simp_all add: admit_def charge_object_def p(1))
qed

lemma acquire_known_effect:
  assumes "config_ok cf" and "gate_ok cf g" and "eg_lastClockMs g = now" and "map_of (eg_sources g c) key = Some r"
    and "previewGcra (so_tatMs (eg_objects g ! r)) (ec_source (cf_policies cf c)) now = Inr t"
    and "acquire_shared cf c key (Some r) t now (charge_object r (\<lambda>s. s\<lparr>so_tatMs := t\<rparr>) g) = (d, g')"
  shows "request_effect cf c key now g (allowed d) g'"
proof -
  let ?g = "charge_object r (\<lambda>s. s\<lparr>so_tatMs := t\<rparr>) g"
  have "positive_rate (ec_source (cf_policies cf c))" using assms(1) by (simp add: config_ok_def)
  note p = preview_admits [OF this assms(5)]
  have in_r: "(key, r) \<in> set (eg_sources g c)" using assms(4) by (rule map_of_SomeD)
  have ok: "gate_ok cf ?g" using assms(2) in_r p(2) assms(3) by (auto intro!: charge_ok)
  have same: "eg_sources ?g = eg_sources g" "eg_global ?g = eg_global g" "eg_lastClockMs ?g = now" "eg_concurrency ?g = eg_concurrency g"
    using assms(3) by (simp_all add: charge_object_def)
  have tats: "tat_of ?g c' k' = (if c' = c \<and> k' = key then max (tat_of g c key) now + er_intervalMs (ec_source (cf_policies cf c)) else tat_of g c' k')" for c' k'
    using tat_of_charge [OF assms(2,4)] assms(4) by (simp add: p(1) tat_of_def)
  show ?thesis
  proof (cases "previewGcra (eg_global g c) (ec_global (cf_policies cf c)) now")
    case (Inl s)
    with assms(3,6) ok show ?thesis by (auto simp: acquire_shared_def Let_def request_effect_def tats same split: if_splits)
  next
    case (Inr gt)
    show ?thesis
    proof (cases "eg_concurrency g c < ec_concurrency (cf_policies cf c)")
      case False
      with Inr assms(3,6) ok show ?thesis by (auto simp: acquire_shared_def Let_def request_effect_def tats same split: if_splits)
    next
      case True
      have adm: "admit c r gt now ?g = (d, g')" using assms(6) Inr True by (simp add: acquire_shared_def Let_def same)
      note e = admit_effect [OF ok _ _ assms(1) same(3), of key r c gt, unfolded same adm fst_conv snd_conv, OF in_r True Inr]
      show ?thesis using e tat_of_admit [of c r gt now ?g, unfolded adm snd_conv] assms(3)
        by (auto simp: request_effect_def tats split: if_splits)
    qed
  qed
qed

lemma acquire_new_effect:
  assumes "config_ok cf" and "gate_ok cf g" and "eg_lastClockMs g = now" and "map_of (eg_sources g c) key = None"
    and "length (eg_sources g c) < EDGE_SOURCE_SCOPE_CAPACITIES c"
    and "previewGcra 0 (ec_source (cf_policies cf c)) now = Inr t"
    and "acquire_shared cf c key None t now g = (d, g')"
  shows "request_effect cf c key now g (allowed d) g'"
proof -
  let ?g = "g\<lparr>eg_objects := eg_objects g @ [\<lparr>so_activeLeases = 0, so_tatMs = t, so_lastSeenMs = now\<rparr>],
     eg_sources := (eg_sources g)(c := eg_sources g c @ [(key, length (eg_objects g))])\<rparr>"
  have "positive_rate (ec_source (cf_policies cf c))" using assms(1) by (simp add: config_ok_def)
  note p = preview_admits [OF this assms(6)]
  have ok: "gate_ok cf ?g" using assms(2-5) p(2) by (intro new_source_ok) auto
  have tats: "tat_of ?g c' k' = (if c' = c \<and> k' = key then max (tat_of g c key) now + er_intervalMs (ec_source (cf_policies cf c)) else tat_of g c' k')" for c' k'
    using tat_of_new [OF assms(2,4)] assms(4) by (simp add: p(1) tat_of_def)
  show ?thesis
  proof (cases "previewGcra (eg_global g c) (ec_global (cf_policies cf c)) now")
    case (Inl s)
    with assms(2,7) show ?thesis by (auto simp: acquire_shared_def Let_def request_effect_def)
  next
    case (Inr gt)
    show ?thesis
    proof (cases "eg_concurrency g c < ec_concurrency (cf_policies cf c)")
      case False
      with Inr assms(2,7) show ?thesis by (auto simp: acquire_shared_def Let_def request_effect_def)
    next
      case True
      have adm: "admit c (length (eg_objects g)) gt now ?g = (d, g')" using assms(7) Inr True by (simp add: acquire_shared_def Let_def)
      have "(key, length (eg_objects g)) \<in> set (eg_sources ?g c)" by simp
      note e = admit_effect [OF ok this _ assms(1), of now gt, unfolded adm fst_conv snd_conv]
      have "eg_concurrency ?g c < ec_concurrency (cf_policies cf c)" "eg_lastClockMs ?g = now"
        "previewGcra (eg_global ?g c) (ec_global (cf_policies cf c)) now = Inr gt" using True Inr assms(3) by simp_all
      note e = e [OF this]
      show ?thesis using e tat_of_admit [of c "length (eg_objects g)" gt now ?g, unfolded adm snd_conv]
        by (auto simp: request_effect_def tats split: if_splits)
    qed
  qed
qed

lemma request_effect_denied: "gate_ok cf g \<Longrightarrow> request_effect cf c key now g False g"
  by (simp add: request_effect_def)

lemma acquire_source_effect:
  assumes "config_ok cf" and "gate_ok cf g" and "eg_lastClockMs g = now" and "acquire_source cf c key now g = (d, g')"
  shows "request_effect cf c key now g (allowed d) g'"
proof (cases "map_of (eg_sources g c) key")
  case None
  show ?thesis
  proof (cases "length (eg_sources g c) < EDGE_SOURCE_SCOPE_CAPACITIES c")
    case True
    then show ?thesis
      using None assms acquire_new_effect [OF assms(1-3) None True] request_effect_denied [OF assms(2)]
      by (auto simp: acquire_source_def Let_def split: sum.splits)
  next
    case False
    have "request_effect cf c key now g False (g\<lparr>eg_overflow := v\<rparr>)" for v
      using assms(2) by (simp add: request_effect_def gate_ok_def tat_of_def split: option.split)
    with False None assms(4) show ?thesis using request_effect_denied [OF assms(2)]
      by (auto simp: acquire_source_def Let_def split: sum.splits)
  qed
next
  case (Some r)
  with assms show ?thesis using acquire_known_effect [OF assms(1-3) Some] request_effect_denied [OF assms(2)]
    by (auto simp: acquire_source_def Let_def split: sum.splits)
qed

subsection \<open>Runs of the gate\<close>

definition gate_admitted :: "EdgeConfig \<Rightarrow> GateEvent \<Rightarrow> EdgeGate \<Rightarrow> bool" where
  "gate_admitted cf e g \<longleftrightarrow> (case e of Acquire h c t \<Rightarrow> allowed (fst (acquire cf h c t g)) | Release _ \<Rightarrow> False)"

text \<open>The class and the bucket of a request.\<close>

definition request_of :: "EdgeConfig \<Rightarrow> GateEvent \<Rightarrow> (EdgeAdmissionClass \<times> string) option" where
  "request_of cf e = (case e of
     Acquire h c t \<Rightarrow> map_option (\<lambda>s. (c, sourceKey cf c (ps_scopeBytes s))) (parseSource cf h)
   | Release _ \<Rightarrow> None)"

text \<open>An event, with whether it admitted a request that is counted.\<close>

definition gate_step ::
  "EdgeConfig \<Rightarrow> (EdgeAdmissionClass \<times> string \<Rightarrow> bool) \<Rightarrow> GateEvent \<Rightarrow> EdgeGate \<Rightarrow> bool \<times> EdgeGate" where
  "gate_step cf counted e g =
     (gate_admitted cf e g \<and> (case request_of cf e of Some r \<Rightarrow> counted r | None \<Rightarrow> False), gate_event cf e g)"

text \<open>The laws of one event: the clock, the shared buckets and the source buckets.\<close>

definition event_effect :: "EdgeConfig \<Rightarrow> EdgeGate \<Rightarrow> (EdgeAdmissionClass \<times> string) option \<Rightarrow> EdgeGate \<Rightarrow> bool" where
  "event_effect cf g r g' \<longleftrightarrow> gate_ok cf g' \<and> eg_lastClockMs g \<le> eg_lastClockMs g'
     \<and> (\<forall>c. eg_global g' c = (if c \<in> fst ` set_option r
          then max (eg_global g c) (eg_lastClockMs g') + er_intervalMs (ec_global (cf_policies cf c)) else eg_global g c))
     \<and> (\<forall>c k. max (tat_of g c k) (eg_lastClockMs g') \<le> max (tat_of g' c k) (eg_lastClockMs g'))
     \<and> (\<forall>c k. r = Some (c, k) \<longrightarrow>
          tat_of g' c k = max (tat_of g c k) (eg_lastClockMs g') + er_intervalMs (ec_source (cf_policies cf c)))"

lemma event_effect_same:
  "gate_ok cf g' \<Longrightarrow> eg_lastClockMs g \<le> eg_lastClockMs g' \<Longrightarrow> eg_global g' = eg_global g \<Longrightarrow> tat_of g' = tat_of g \<Longrightarrow>
     event_effect cf g None g'"
  by (simp add: event_effect_def)

lemma event_effect_request:
  assumes "request_effect cf c key (eg_lastClockMs g1) g1 ok g'" and "config_ok cf" and "0 \<le> eg_lastClockMs g1"
    and "eg_lastClockMs g \<le> eg_lastClockMs g1" and "eg_global g1 = eg_global g"
    and "\<And>c' k'. tat_of g1 c' k' = tat_of g c' k' \<or> tat_of g1 c' k' = 0 \<and> tat_of g c' k' \<le> eg_lastClockMs g1"
  shows "event_effect cf g (if ok then Some (c, key) else None) g'"
proof -
  let ?now = "eg_lastClockMs g1"
  note eff = assms(1) [unfolded request_effect_def Let_def]
  have now: "eg_lastClockMs g' = ?now" using eff by simp
  have I: "0 < er_intervalMs (ec_source (cf_policies cf c))" using assms(2) by (simp add: config_ok_def positive_rate_def)
  have swept: "max (tat_of g1 c' k') ?now = max (tat_of g c' k') ?now" for c' k' using assms(3) assms(6) [of c' k'] by auto
  have here: "tat_of g' c key = max (tat_of g c key) ?now + er_intervalMs (ec_source (cf_policies cf c))
      \<or> \<not> ok \<and> tat_of g' c key = tat_of g1 c key"
    using eff unfolding swept by blast
  have "max (tat_of g c' k') ?now \<le> max (tat_of g' c' k') ?now" for c' k'
  proof (cases "c' = c \<and> k' = key")
    case True
    with here I swept [of c key] show ?thesis by auto
  next
    case False
    then have "tat_of g' c' k' = tat_of g1 c' k'" using eff by blast
    with swept [of c' k'] show ?thesis by simp
  qed
  then show ?thesis using eff here assms(4,5) by (auto simp: event_effect_def now)
qed

lemma acquire_effect:
  assumes "config_ok cf" and "gate_ok cf g"
  shows "event_effect cf g (if gate_admitted cf (Acquire h c t) g then request_of cf (Acquire h c t) else None)
     (gate_event cf (Acquire h c t) g)"
proof -
  obtain d g' where run: "acquire cf h c t g = (d, g')" by fastforce
  have same: "event_effect cf g None g" using assms(2) by (intro event_effect_same) simp_all
  have goal: "event_effect cf g (if allowed d then request_of cf (Acquire h c t) else None) g'"
  proof (cases "parseSource cf h")
    case None
    with run same show ?thesis by (auto simp: acquire_def split: if_splits)
  next
    case (Some source)
    let ?key = "sourceKey cf c (ps_scopeBytes source)"
    obtain o' g1 where now: "gate_now t g = (o', g1)" by fastforce
    note n = gate_now_ok [OF now assms(2)]
    have fields: "eg_global g1 = eg_global g" "tat_of g1 = tat_of g"
      by (subst n(4), simp add: tat_of_def fun_eq_iff split: option.split)+
    consider "g' = g" "\<not> allowed d" | "o' = None" "g' = g1" "\<not> allowed d"
      | now where "o' = Some now" "acquire_source cf c ?key now (sweep c now g1) = (d, g')"
      using run Some now by (cases o') (auto simp: acquire_def split: if_splits)
    then show ?thesis
    proof cases
      case 1
      with same show ?thesis by simp
    next
      case 2
      with n fields show ?thesis by (simp add: event_effect_same)
    next
      case (3 now)
      have clock: "eg_lastClockMs (sweep c now g1) = now" "eg_global (sweep c now g1) = eg_global g"
        using n(2) [OF 3(1)] fields(1) by (simp_all add: sweep_def)
      have ok: "gate_ok cf (sweep c now g1)" by (rule sweep_ok [OF n(1)])
      from acquire_source_effect [OF assms(1) ok clock(1) 3(2)]
      have "request_effect cf c ?key (eg_lastClockMs (sweep c now g1)) (sweep c now g1) (allowed d) g'"
        by (simp add: clock)
      from event_effect_request [OF this assms(1), of g]
      have "event_effect cf g (if allowed d then Some (c, ?key) else None) g'"
        using ok n(3) n(2) [OF 3(1)] tat_of_sweep [OF n(1), of c now] unfolding clock fields
        by (simp add: gate_ok_def levels_ok_def clock)
      then show ?thesis by (auto simp: request_of_def Some split: if_splits)
    qed
  qed
  then show ?thesis by (simp add: gate_admitted_def gate_event_def run)
qed

lemma tat_of_release: "tat_of (release n g) = tat_of g"
proof -
  have "so_tatMs ((eg_objects g)[r := (eg_objects g ! r)\<lparr>so_activeLeases := a\<rparr>] ! r') = so_tatMs (eg_objects g ! r')" for r r' a
    by (cases "r' = r \<and> r < length (eg_objects g)") (auto simp: nth_list_update list_update_beyond)
  then show ?thesis by (simp add: tat_of_def release_def Let_def charge_object_def fun_eq_iff split: option.split)
qed

lemma gate_event_effect:
  assumes "config_ok cf" and "gate_ok cf g"
  shows "event_effect cf g (if gate_admitted cf e g then request_of cf e else None) (gate_event cf e g)"
proof (cases e)
  case (Acquire h c t)
  then show ?thesis by (simp only: acquire_effect [OF assms])
next
  case (Release n)
  have "eg_lastClockMs (release n g) = eg_lastClockMs g" "eg_global (release n g) = eg_global g"
    by (simp_all add: release_def Let_def charge_object_def)
  with release_ok [OF assms(2,1)] show ?thesis
    by (simp add: Release gate_event_def gate_admitted_def event_effect_same tat_of_release)
qed

lemma new_gate_ok: "config_ok cf \<Longrightarrow> gate_ok cf new_gate"
  by (auto simp: gate_ok_def new_gate_def refs_ok_def counts_ok_def levels_ok_def open_count_def within_burst_def
      config_ok_def positive_rate_def less_imp_le)

lemma gate_reachable_ok: "gate_reachable cf g \<Longrightarrow> config_ok cf \<Longrightarrow> gate_ok cf g"
  by (induction rule: gate_reachable.induct) (use gate_event_effect new_gate_ok in \<open>auto simp: event_effect_def\<close>)

text \<open>The two kinds of bucket are instances of the contract.\<close>

definition gate_inv :: "EdgeConfig \<Rightarrow> EdgeGate \<Rightarrow> bool" where
  "gate_inv cf g \<longleftrightarrow> config_ok cf \<and> gate_ok cf g"

lemma gate_step_effect:
  assumes "gate_inv cf g"
  shows "event_effect cf g (if gate_admitted cf e g then request_of cf e else None) (snd (gate_step cf counted e g))"
  using assms gate_event_effect by (simp add: gate_inv_def gate_step_def)

lemma tat_of_bound:
  assumes "gate_inv cf g"
  shows "tat_of g c k \<le> eg_lastClockMs g + er_burst (ec_source (cf_policies cf c)) * er_intervalMs (ec_source (cf_policies cf c))"
proof (cases "map_of (eg_sources g c) k")
  case None
  then have "tat_of g c k = 0" by (simp add: tat_of_def)
  moreover have "0 \<le> eg_lastClockMs g" using assms by (simp add: gate_inv_def gate_ok_def levels_ok_def)
  moreover have "0 \<le> er_burst (ec_source (cf_policies cf c)) * er_intervalMs (ec_source (cf_policies cf c))"
    using assms by (intro mult_nonneg_nonneg) (auto simp: gate_inv_def config_ok_def positive_rate_def less_imp_le)
  ultimately show ?thesis by linarith
next
  case (Some r)
  with assms show ?thesis
    by (auto simp: tat_of_def gate_inv_def gate_ok_def levels_ok_def within_burst_def dest: map_of_SomeD)
qed

text \<open>The configurations for which the contract is stated: those the constructor accepts.\<close>

typedef accepted_config = "{cf. config_ok cf}"
  morphisms config_of Accepted
proof
  show "\<lparr>cf_hmac = (\<lambda>_ _. []), cf_isIP = (\<lambda>_. 0), cf_key = [], cf_policies = DEFAULT_POLICIES, cf_requireTrustedEdge = True\<rparr> \<in> {cf. config_ok cf}"
    by (auto simp: config_ok_def DEFAULT_POLICIES_def rate_def positive_rate_def split: EdgeAdmissionClass.split)
qed

lemma config_of_ok: "config_ok (config_of a)"
  using config_of by simp

lemma gate_rates:
  "0 < er_intervalMs (ec_global (cf_policies (config_of a) c))" "0 \<le> er_burst (ec_global (cf_policies (config_of a) c))"
  "0 < er_intervalMs (ec_source (cf_policies (config_of a) c))" "0 \<le> er_burst (ec_source (cf_policies (config_of a) c))"
  using config_of_ok [of a] by (simp_all add: config_ok_def positive_rate_def less_imp_le)

lemma gate_step_inv:
  assumes "gate_inv cf g"
  shows "gate_inv cf (snd (gate_step cf counted e g))" and "eg_lastClockMs g \<le> eg_lastClockMs (snd (gate_step cf counted e g))"
  using gate_step_effect [OF assms, of e counted] assms by (simp_all add: gate_inv_def event_effect_def)

lemma gate_step_levels:
  assumes "gate_inv cf g" and "gate_step cf counted e g = (ok, g')"
  shows "eg_global g c \<le> eg_global g' c" and "max (tat_of g c k) (eg_lastClockMs g') \<le> max (tat_of g' c k) (eg_lastClockMs g')"
    and "ok \<Longrightarrow> \<exists>c k. counted (c, k)
      \<and> eg_global g' c = max (eg_global g c) (eg_lastClockMs g') + er_intervalMs (ec_global (cf_policies cf c))
      \<and> tat_of g' c k = max (tat_of g c k) (eg_lastClockMs g') + er_intervalMs (ec_source (cf_policies cf c))"
proof -
  have eff: "event_effect cf g (if gate_admitted cf e g then request_of cf e else None) g'"
    using gate_step_effect [OF assms(1), of e counted] by (simp add: assms(2))
  have "0 < er_intervalMs (ec_global (cf_policies cf c))" using assms(1) by (simp add: gate_inv_def config_ok_def positive_rate_def)
  then show "eg_global g c \<le> eg_global g' c" using eff unfolding event_effect_def by (smt (verit) max_def)
  show "max (tat_of g c k) (eg_lastClockMs g') \<le> max (tat_of g' c k) (eg_lastClockMs g')" using eff by (simp add: event_effect_def)
  assume ok
  then obtain c k where r: "request_of cf e = Some (c, k)" "counted (c, k)" "gate_admitted cf e g"
    using assms(2) by (auto simp: gate_step_def split: option.splits)
  with eff show "\<exists>c k. counted (c, k)
      \<and> eg_global g' c = max (eg_global g c) (eg_lastClockMs g') + er_intervalMs (ec_global (cf_policies cf c))
      \<and> tat_of g' c k = max (tat_of g c k) (eg_lastClockMs g') + er_intervalMs (ec_source (cf_policies cf c))"
    unfolding event_effect_def by (intro exI [of _ c] exI [of _ k]) simp
qed

interpretation shared_bucket: gcra "gate_step (config_of a) (\<lambda>r. fst r = c)" "gate_inv (config_of a)" "\<lambda>g. eg_global g c"
  eg_lastClockMs "er_burst (ec_global (cf_policies (config_of a) c))" "er_intervalMs (ec_global (cf_policies (config_of a) c))" for a c
proof (unfold_locales, goal_cases)
  case (4 s)
  then show ?case by (simp add: gate_inv_def gate_ok_def levels_ok_def within_burst_def)
next
  case (6 s i)
  then show ?case using gate_step_levels(3) [OF 6(1) prod.collapse [symmetric]] by fastforce
next
  case (7 s i)
  then show ?case using gate_step_levels(1) [OF 7(1) prod.collapse [symmetric], of c] by (simp add: max.coboundedI1)
qed (simp_all add: gate_rates gate_step_inv)

interpretation source_bucket: gcra "gate_step (config_of a) (\<lambda>r. r = ck)" "gate_inv (config_of a)" "\<lambda>g. tat_of g (fst ck) (snd ck)"
  eg_lastClockMs "er_burst (ec_source (cf_policies (config_of a) (fst ck)))"
  "er_intervalMs (ec_source (cf_policies (config_of a) (fst ck)))" for a ck
proof (unfold_locales, goal_cases)
  case (4 s)
  then show ?case by (rule tat_of_bound)
next
  case (6 s i)
  then show ?case using gate_step_levels(3) [OF 6(1) prod.collapse [symmetric]] by fastforce
next
  case (7 s i)
  then show ?case using gate_step_levels(2) [OF 7(1) prod.collapse [symmetric], of "fst ck" "snd ck"] by simp
qed (simp_all add: gate_rates gate_step_inv)

lemma admissions_state: "snd (admissions (gate_step cf counted) es g) = fold (gate_event cf) es g"
  by (induction es arbitrary: g) (simp_all add: gate_step_def split_beta)

subsection \<open>What the constructor accepts\<close>

lemma mergePolicy_positive:
  assumes "mergePolicy c override = Inr p"
  shows "0 < ec_concurrency p \<and> positive_rate (ec_global p) \<and> positive_rate (ec_source p)"
  using assms by (auto simp: mergePolicy_def Let_def bind_err_Inr assertPositiveInteger_def positive_rate_def split: if_splits)

lemma constructor_ok:
  assumes "newMemoryEdgeAdmissionGate production hmac isIP key rnd policies trusted = Inr (cf, g)"
  shows "config_ok cf" and "g = new_gate"
proof -
  from assms obtain w a s where "mergePolicy account_webhook (policies account_webhook) = Inr w"
    "mergePolicy audit_download (policies audit_download) = Inr a" "mergePolicy signed_api (policies signed_api) = Inr s"
    "cf_policies cf = (\<lambda>c. case c of account_webhook \<Rightarrow> w | audit_download \<Rightarrow> a | signed_api \<Rightarrow> s)" and g: "g = new_gate"
    by (auto simp: newMemoryEdgeAdmissionGate_def Let_def bind_err_Inr split: if_splits)
  then show "config_ok cf" by (auto simp: config_ok_def dest!: mergePolicy_positive split: EdgeAdmissionClass.split)
  show "g = new_gate" by (rule g)
qed

subsection \<open>Properties\<close>

text \<open>
  C28: the gate at the edge, after any requests and any releases, in any order, with a clock that
  may jump or fail. What it counts as concurrent is exactly the leases that were handed out and not
  given back, never more than the class allows; every source with an open lease is still tracked
  under its one key; no class tracks more sources than its capacity; and a lease given back twice
  frees nothing the second time.
\<close>

theorem edge_gate_invariant:
  assumes "newMemoryEdgeAdmissionGate production hmac isIP key randomKey policies requireTrustedEdge = Inr (cf, g0)"
    and "gate_reachable cf g"
  shows "eg_concurrency g c = int (length (filter (\<lambda>l. \<not> le_released l \<and> le_class l = c) (eg_leases g)))
    \<and> eg_concurrency g c \<le> ec_concurrency (cf_policies cf c)
    \<and> length (eg_sources g c) \<le> EDGE_SOURCE_SCOPE_CAPACITIES c \<and> distinct (map fst (eg_sources g c))
    \<and> (\<forall>l \<in> set (eg_leases g). le_released l \<or> (\<exists>!k. (k, le_source l) \<in> set (eg_sources g (le_class l))))
    \<and> release n (release n g) = release n g"
proof -
  have ok: "gate_ok cf g" using assms constructor_ok(1) gate_reachable_ok by blast
  note refs = refs_okD [OF ok [unfolded gate_ok_def, THEN conjunct1]]
  have "le_released l \<or> (\<exists>!k. (k, le_source l) \<in> set (eg_sources g (le_class l)))" if "l \<in> set (eg_leases g)" for l
    using refs(4,6) that by blast
  moreover have "release n (release n g) = release n g" by (simp add: release_def Let_def charge_object_def)
  moreover have "counts_ok cf (eg_concurrency g) (eg_objects g) (eg_leases g)" using ok by (simp add: gate_ok_def)
  then have "eg_concurrency g c = open_count (\<lambda>l. le_class l = c) (eg_leases g)"
    and "eg_concurrency g c \<le> ec_concurrency (cf_policies cf c)" unfolding counts_ok_def by blast+
  ultimately show ?thesis using refs(1,2) unfolding open_count_def by blast
qed

definition open_gate :: EdgeConfig where
  "open_gate = \<lparr>cf_hmac = (\<lambda>_ _. []), cf_isIP = (\<lambda>_. 4), cf_key = replicate 32 0,
     cf_policies = DEFAULT_POLICIES, cf_requireTrustedEdge = False\<rparr>"

lemma open_gate_built:
  "newMemoryEdgeAdmissionGate False (\<lambda>_ _. []) (\<lambda>_. 4) None (replicate 32 0) (\<lambda>_. None) False = Inr (open_gate, new_gate)"
  by (simp add: newMemoryEdgeAdmissionGate_def mergePolicy_def Let_def or_default_def merge_rate_def DEFAULT_POLICIES_def
      rate_def assertPositiveInteger_def safe_integer_def open_gate_def fun_eq_iff split: EdgeAdmissionClass.split)

definition three_downloads :: "GateEvent list" where
  "three_downloads = replicate 3 (Acquire (\<lambda>_. None) audit_download (Some 5))"

theorem edge_gate_invariant_witness:
  "gate_reachable open_gate (fold (gate_event open_gate) three_downloads new_gate)
   \<and> eg_concurrency (fold (gate_event open_gate) three_downloads new_gate) audit_download = 2
   \<and> length (filter (\<lambda>l. \<not> le_released l \<and> le_class l = audit_download)
        (eg_leases (fold (gate_event open_gate) three_downloads new_gate))) = 2"
proof -
  have reach: "gate_reachable open_gate g \<Longrightarrow> gate_reachable open_gate (fold (gate_event open_gate) es g)" for es g
    by (induction es arbitrary: g) (simp_all add: gate_reachable.event)
  have two: "eg_concurrency (fold (gate_event open_gate) three_downloads new_gate) audit_download = 2" by code_simp
  from edge_gate_invariant [OF open_gate_built reach [OF gate_reachable.new], of three_downloads audit_download] two
  show ?thesis using reach [OF gate_reachable.new, of three_downloads] by simp
qed

text \<open>
  C29: the rates of the edge gate. From any state it can be in, over any further events, the
  requests of a class that are admitted are at most the burst of its shared bucket and one more for
  every interval of gate time; and the requests of one source of the class at most the burst of a
  source bucket and one more for every interval, although buckets are dropped and created again.
\<close>

theorem edge_rate_bound:
  assumes "newMemoryEdgeAdmissionGate production hmac isIP key randomKey policies requireTrustedEdge = Inr (cf, g0)"
    and "gate_reachable cf g"
  shows "int (fst (admissions (gate_step cf (\<lambda>r. fst r = c)) events g)) \<le> er_burst (ec_global (cf_policies cf c))
      + (eg_lastClockMs (fold (gate_event cf) events g) - eg_lastClockMs g) div er_intervalMs (ec_global (cf_policies cf c))
    \<and> int (fst (admissions (gate_step cf (\<lambda>r. r = (c, k))) events g)) \<le> er_burst (ec_source (cf_policies cf c))
      + (eg_lastClockMs (fold (gate_event cf) events g) - eg_lastClockMs g) div er_intervalMs (ec_source (cf_policies cf c))"
proof -
  have "config_ok cf" using assms(1) by (rule constructor_ok)
  moreover from this obtain a where a: "cf = config_of a" by (metis Accepted_inverse mem_Collect_eq)
  moreover have "gate_inv cf g" using assms(2) calculation(1) gate_reachable_ok by (simp add: gate_inv_def)
  ultimately show ?thesis
    using shared_bucket.admissions_bound [of a g c events, OF _ prod.collapse [symmetric]]
      source_bucket.admissions_bound [of a g "(c, k)" events, OF _ prod.collapse [symmetric]]
    by (simp add: admissions_state)
qed

theorem edge_rate_bound_witness:
  "fst (admissions (gate_step open_gate (\<lambda>r. fst r = audit_download)) three_downloads new_gate) = 2
   \<and> int (fst (admissions (gate_step open_gate (\<lambda>r. fst r = audit_download)) three_downloads new_gate)) \<le> 20 + 5 div 2000"
proof -
  have two: "fst (admissions (gate_step open_gate (\<lambda>r. fst r = audit_download)) three_downloads new_gate) = 2" by code_simp
  have clock: "eg_lastClockMs (fold (gate_event open_gate) three_downloads new_gate) = 5" by code_simp
  from edge_rate_bound [OF open_gate_built gate_reachable.new, of audit_download three_downloads] two clock
  show ?thesis by (simp add: open_gate_def DEFAULT_POLICIES_def rate_def new_gate_def)
qed

end
