(* ===== verification/Field_Encryption.thy ===== *)
theory Field_Encryption
  imports Refund_Proof Approval_Attestation
begin

text \<open>
  \<open>packages/domain/src/encryption.ts\<close>: the keyring that encrypts the texts people write. AES-256-GCM
  of Node's crypto is a pair of parameters: \<open>gm_encrypt\<close> (key, nonce, additional data, plaintext) gives
  the ciphertext and the tag, \<open>gm_decrypt\<close> (key, nonce, additional data, tag, ciphertext) the plaintext
  or a failure; \<open>gcm_inverse\<close> and \<open>gcm_authentic\<close> say what its standard promises. The nonce of
  \<open>randomBytes\<close> is an argument. Texts are over the first 256 code points; bytes that encode no such
  text decode to question marks.
\<close>

subsection \<open>Decoding UTF-8\<close>

fun utf8_decode :: "bytes \<Rightarrow> string" where
  "utf8_decode [] = []"
| "utf8_decode [b] = [if unat b < 128 then char_of (unat b) else CHR ''?'']"
| "utf8_decode (b # c # bs) =
     (if unat b < 128 then char_of (unat b) # utf8_decode (c # bs)
      else if unat b \<in> {194, 195} \<and> unat c div 64 = 2 then char_of (64 * (unat b - 192) + unat c mod 64) # utf8_decode bs
      else CHR ''?'' # utf8_decode (c # bs))"

lemma utf8_decode_char: "utf8_decode (utf8_char c @ bs) = c # utf8_decode bs"
proof -
  define n where "n = (of_char c :: nat)"
  have n: "n < 256" "char_of n = c" by (simp_all add: n_def of_char_less)
  show ?thesis
  proof (cases "n < 128")
    case True
    then have "utf8_char c = [of_nat n]" by (simp add: utf8_char_def Let_def n_def)
    with True n show ?thesis by (cases bs) (simp_all add: unat_byte)
  next
    case False
    then have two: "utf8_char c = [of_nat (192 + n div 64), of_nat (128 + n mod 64)]"
      by (simp add: utf8_char_def Let_def n_def)
    have b: "n div 64 \<in> {2, 3}" "n mod 64 < 64" using False n by auto
    then have lt: "192 + n div 64 < 256" "128 + n mod 64 < 256" by auto
    have u: "unat (of_nat (192 + n div 64) :: byte) = 192 + n div 64" "unat (of_nat (128 + n mod 64) :: byte) = 128 + n mod 64"
      by (rule unat_byte [OF lt(1)], rule unat_byte [OF lt(2)])
    have "64 * (n div 64) + (128 + n mod 64) mod 64 = n" by (simp add: mod_add_left_eq [of 128 64, simplified, symmetric])
    then show ?thesis using b u n by (auto simp: two simp del: of_nat_add)
  qed
qed

lemma utf8_decode_utf8 [simp]: "utf8_decode (utf8 s) = s"
  by (induction s) (simp_all add: utf8_def utf8_decode_char)

subsection \<open>The keyring\<close>

record AesGcm =
  gm_encrypt :: "bytes \<Rightarrow> bytes \<Rightarrow> bytes \<Rightarrow> bytes \<Rightarrow> bytes \<times> bytes"
  gm_decrypt :: "bytes \<Rightarrow> bytes \<Rightarrow> bytes \<Rightarrow> bytes \<Rightarrow> bytes \<Rightarrow> bytes option"

definition gcm_inverse :: "AesGcm \<Rightarrow> bool" where
  "gcm_inverse gm \<longleftrightarrow> (\<forall>k n a p. length k = 32 \<longrightarrow> length n = 12 \<longrightarrow>
     gm_decrypt gm k n a (snd (gm_encrypt gm k n a p)) (fst (gm_encrypt gm k n a p)) = Some p)"

definition gcm_authentic :: "AesGcm \<Rightarrow> bool" where
  "gcm_authentic gm \<longleftrightarrow> (\<forall>k n a t c p. gm_decrypt gm k n a t c = Some p \<longrightarrow> length t = 16 \<longrightarrow> gm_encrypt gm k n a p = (c, t))"

record FieldEncryptionKeys =
  fk_active :: VersionedSecret
  fk_decryptOnly :: "(string \<times> bytes) list"

record EncryptedField =
  ef_algorithm :: string
  ef_keyVersion :: string
  ef_nonce :: string
  ef_ciphertext :: string
  ef_authenticationTag :: string

record FieldContext =
  fc_tenantId :: string
  fc_table :: string
  fc_entityId :: string
  fc_field :: string

definition validateFieldKey :: "VersionedSecret \<Rightarrow> err + unit" where
  "validateFieldKey secret =
     (if \<not> version_pattern (vs_version secret) \<or> length (vs_key secret) \<noteq> 32
      then Inl (DomainError INVALID_ENCRYPTION_KEY) else Inr ())"

definition context_fields :: "FieldContext \<Rightarrow> string list" where
  "context_fields c = [fc_tenantId c, fc_table c, fc_entityId c, fc_field c]"

definition aad :: "FieldContext \<Rightarrow> err + bytes" where
  "aad context =
     (if list_ex (\<lambda>s. length s = 0) (context_fields context) then Inl (DomainError INVALID_ENCRYPTION_KEY)
      else Inr (utf8 (json_array (map JStr (context_fields context)))))"

record FieldEncryptionKeyring =
  fe_active :: VersionedSecret
  fe_decryptionKeys :: "string \<rightharpoonup> bytes"

definition newFieldEncryptionKeyring :: "FieldEncryptionKeys \<Rightarrow> err + FieldEncryptionKeyring" where
  "newFieldEncryptionKeyring keys =
     bind_err (validateFieldKey (fk_active keys)) (\<lambda>_.
     bind_err (add_verification_keys validateFieldKey (DomainError INVALID_ENCRYPTION_KEY)
         (vs_version (fk_active keys)) (fk_decryptOnly keys)
         [vs_version (fk_active keys) \<mapsto> vs_key (fk_active keys)]) (\<lambda>decryptionKeys.
     Inr \<lparr>fe_active = fk_active keys, fe_decryptionKeys = decryptionKeys\<rparr>))"

definition encrypt :: "AesGcm \<Rightarrow> FieldEncryptionKeyring \<Rightarrow> bytes \<Rightarrow> string \<Rightarrow> FieldContext \<Rightarrow> err + EncryptedField" where
  "encrypt gm kr nonce plaintext context =
     bind_err (aad context) (\<lambda>a.
       let ct = gm_encrypt gm (vs_key (fe_active kr)) nonce a (utf8 plaintext)
       in Inr \<lparr>ef_algorithm = ''aes-256-gcm'', ef_keyVersion = vs_version (fe_active kr), ef_nonce = b64_encode nonce,
            ef_ciphertext = b64_encode (fst ct), ef_authenticationTag = b64_encode (snd ct)\<rparr>)"

definition decrypt :: "AesGcm \<Rightarrow> FieldEncryptionKeyring \<Rightarrow> EncryptedField \<Rightarrow> FieldContext \<Rightarrow> err + string" where
  "decrypt gm kr encrypted context =
     (if ef_algorithm encrypted \<noteq> ''aes-256-gcm'' then Inl (DomainError INVALID_ENCRYPTION_KEY)
      else case fe_decryptionKeys kr (ef_keyVersion encrypted) of
        None \<Rightarrow> Inl (DomainError INVALID_ENCRYPTION_KEY)
      | Some key \<Rightarrow>
        (case aad context of Inl e \<Rightarrow> Inl (DomainError INVALID_ENCRYPTION_KEY)
         | Inr a \<Rightarrow>
           (case gm_decrypt gm key (b64_decode (ef_nonce encrypted)) a (b64_decode (ef_authenticationTag encrypted))
                (b64_decode (ef_ciphertext encrypted)) of
              None \<Rightarrow> Inl (DomainError INVALID_ENCRYPTION_KEY)
            | Some p \<Rightarrow> Inr (utf8_decode p))))"

subsection \<open>Lemmas\<close>

lemma newFieldEncryptionKeyring_Inr:
  assumes "newFieldEncryptionKeyring keys = Inr kr"
  shows "fe_active kr = fk_active keys" and "length (vs_key (fe_active kr)) = 32"
    and "fe_decryptionKeys kr = [vs_version (fk_active keys) \<mapsto> vs_key (fk_active keys)] ++ map_of (rev (fk_decryptOnly keys))"
    and "fe_decryptionKeys kr (vs_version (fe_active kr)) = Some (vs_key (fe_active kr))"
  using assms
  by (auto simp: newFieldEncryptionKeyring_def validateFieldKey_def
      dest: add_verification_keys_active add_verification_keys_Inr split: if_splits)

lemma aad_inject: "aad c = Inr a \<Longrightarrow> aad c' = Inr a \<Longrightarrow> c = c'"
  by (auto simp: aad_def context_fields_def json_array_inject intro!: FieldContext.equality split: if_splits)

lemma decrypt_encrypt:
  assumes "gcm_inverse gm" and "length (vs_key (fe_active kr)) = 32" and "length nonce = 12"
    and "encrypt gm kr nonce plaintext context = Inr f"
    and "fe_decryptionKeys kr' (vs_version (fe_active kr)) = Some (vs_key (fe_active kr))"
  shows "decrypt gm kr' f context = Inr plaintext"
proof -
  from assms(4) obtain a where a: "aad context = Inr a"
    and f: "f = \<lparr>ef_algorithm = ''aes-256-gcm'', ef_keyVersion = vs_version (fe_active kr), ef_nonce = b64_encode nonce,
        ef_ciphertext = b64_encode (fst (gm_encrypt gm (vs_key (fe_active kr)) nonce a (utf8 plaintext))),
        ef_authenticationTag = b64_encode (snd (gm_encrypt gm (vs_key (fe_active kr)) nonce a (utf8 plaintext)))\<rparr>"
    by (auto simp: encrypt_def Let_def)
  show ?thesis using assms(1-3,5) a by (simp add: decrypt_def f gcm_inverse_def)
qed

text \<open>
  C35: an encrypted text is read back and bound to its place. With an accepted keyring, a fresh
  12-byte nonce and a context without empty parts, encryption succeeds and the same keyring
  decrypts the field, in that context, to the same text; and if a keyring that holds the key
  decrypts the field in another context, GCM has been forged: the same ciphertext and tag come
  from different additional data.
\<close>

theorem field_round_trip:
  assumes "gcm_inverse gm" and "gcm_authentic gm" and "newFieldEncryptionKeyring keys = Inr kr" and "length nonce = 12"
    and "list_all (\<lambda>s. s \<noteq> []) (context_fields context)"
    and "\<And>k n a p. length (snd (gm_encrypt gm k n a p)) = 16"
  shows "\<exists>f. encrypt gm kr nonce plaintext context = Inr f \<and> decrypt gm kr f context = Inr plaintext
    \<and> (\<forall>context' t. context' \<noteq> context \<and> decrypt gm kr f context' = Inr t \<longrightarrow>
         (\<exists>a a' p. aad context = Inr a \<and> aad context' = Inr a' \<and> a' \<noteq> a
            \<and> gm_encrypt gm (vs_key (fe_active kr)) nonce a' p = gm_encrypt gm (vs_key (fe_active kr)) nonce a (utf8 plaintext)))"
proof -
  note kr = newFieldEncryptionKeyring_Inr [OF assms(3)]
  obtain a where a: "aad context = Inr a" using assms(5) by (auto simp: aad_def list_ex_iff list_all_iff)
  let ?e = "gm_encrypt gm (vs_key (fe_active kr)) nonce a (utf8 plaintext)"
  define f where "f = \<lparr>ef_algorithm = ''aes-256-gcm'', ef_keyVersion = vs_version (fe_active kr), ef_nonce = b64_encode nonce,
        ef_ciphertext = b64_encode (fst ?e), ef_authenticationTag = b64_encode (snd ?e)\<rparr>"
  have enc: "encrypt gm kr nonce plaintext context = Inr f" by (simp add: encrypt_def a Let_def f_def)
  have "\<exists>a a' p. aad context = Inr a \<and> aad context' = Inr a' \<and> a' \<noteq> a
      \<and> gm_encrypt gm (vs_key (fe_active kr)) nonce a' p = gm_encrypt gm (vs_key (fe_active kr)) nonce a (utf8 plaintext)"
    if "context' \<noteq> context" "decrypt gm kr f context' = Inr t" for context' t
  proof -
    from that(2) kr(4) obtain a' p where a': "aad context' = Inr a'"
      and p: "gm_decrypt gm (vs_key (fe_active kr)) nonce a' (snd ?e) (fst ?e) = Some p"
      by (auto simp: decrypt_def f_def split: sum.splits option.splits)
    have "gm_encrypt gm (vs_key (fe_active kr)) nonce a' p = ?e"
      using assms(2) p assms(6) by (auto simp: gcm_authentic_def)
    moreover have "a' \<noteq> a" using a a' aad_inject that(1) by blast
    ultimately show ?thesis using a a' by blast
  qed
  with enc decrypt_encrypt [OF assms(1) kr(2) assms(4) enc kr(4)] show ?thesis by blast
qed

text \<open>A cipher with the two laws, for the witnesses: the tag is a padded length of the additional data.\<close>

definition sample_gcm :: AesGcm where
  "sample_gcm = \<lparr>gm_encrypt = (\<lambda>k n a p. (p, replicate 16 (of_nat (length a)))),
     gm_decrypt = (\<lambda>k n a t c. if t = replicate 16 (of_nat (length a)) then Some c else None)\<rparr>"

lemma sample_gcm_laws: "gcm_inverse sample_gcm" "gcm_authentic sample_gcm" "length (snd (gm_encrypt sample_gcm k n a p)) = 16"
  by (auto simp: gcm_inverse_def gcm_authentic_def sample_gcm_def split: if_splits)

definition sample_field_keys :: FieldEncryptionKeys where
  "sample_field_keys = \<lparr>fk_active = \<lparr>vs_version = ''v1'', vs_key = replicate 32 1\<rparr>, fk_decryptOnly = []\<rparr>"

definition sample_field_keyring :: FieldEncryptionKeyring where
  "sample_field_keyring = \<lparr>fe_active = \<lparr>vs_version = ''v1'', vs_key = replicate 32 1\<rparr>, fe_decryptionKeys = [''v1'' \<mapsto> replicate 32 1]\<rparr>"

lemma sample_field_keyring_built: "newFieldEncryptionKeyring sample_field_keys = Inr sample_field_keyring"
  by (simp add: newFieldEncryptionKeyring_def sample_field_keys_def validateFieldKey_def sample_field_keyring_def) code_simp

definition sample_field_context :: FieldContext where
  "sample_field_context = \<lparr>fc_tenantId = ''t1'', fc_table = ''refund_requests'', fc_entityId = ''r1'', fc_field = ''justification''\<rparr>"

theorem field_round_trip_witness:
  "\<exists>f. encrypt sample_gcm sample_field_keyring (replicate 12 0) ''damaged goods'' sample_field_context = Inr f
     \<and> decrypt sample_gcm sample_field_keyring f sample_field_context = Inr ''damaged goods''"
  using field_round_trip [OF sample_gcm_laws(1,2) sample_field_keyring_built, of "replicate 12 0" sample_field_context "''damaged goods''"]
    sample_gcm_laws(3)
  by (auto simp: context_fields_def sample_field_context_def)

end
