(* ===== verification/Key_Rotation.thy ===== *)
theory Key_Rotation
  imports Field_Encryption
begin

text \<open>
  \<open>packages/config/src/key-rotation.ts\<close>, \<open>check-key-rotation-transition.ts\<close>,
  \<open>apps/worker/src/application-keyrings.ts\<close> and \<open>apps/platform/src/server/field-keyring.ts\<close>: the states
  of a key rotation, the transitions a release may make, and the keyrings each state builds. The
  locale \<open>key_family\<close> is what the three families of keys have in common.
\<close>

datatype ApplicationKeyRotationState = KR_legacy | KR_staged | KR_active | KR_rollback | KR_retired

datatype ApplicationKeyVersion = KV1 | KV2

record ApplicationKeyRotationSet =
  rs_approvalAttestation :: ApplicationKeyRotationState
  rs_field :: ApplicationKeyRotationState
  rs_proof :: ApplicationKeyRotationState

record ApplicationKeyMaterialState =
  ms_activeVersion :: ApplicationKeyVersion
  ms_rotationState :: ApplicationKeyRotationState
  ms_v1Present :: bool
  ms_v2Present :: bool

definition APPLICATION_KEY_ROTATION_STATES :: "(string \<times> ApplicationKeyRotationState) list" where
  "APPLICATION_KEY_ROTATION_STATES = [(''legacy'', KR_legacy), (''staged'', KR_staged), (''active'', KR_active),
     (''rollback'', KR_rollback), (''retired'', KR_retired)]"

definition applicationKeyMaterialStateIsValid :: "ApplicationKeyMaterialState \<Rightarrow> bool" where
  "applicationKeyMaterialStateIsValid s = (case ms_rotationState s of
     KR_legacy \<Rightarrow> ms_activeVersion s = KV1 \<and> ms_v1Present s \<and> \<not> ms_v2Present s
   | KR_staged \<Rightarrow> ms_activeVersion s = KV1 \<and> ms_v1Present s \<and> ms_v2Present s
   | KR_rollback \<Rightarrow> ms_activeVersion s = KV1 \<and> ms_v1Present s \<and> ms_v2Present s
   | KR_active \<Rightarrow> ms_activeVersion s = KV2 \<and> ms_v1Present s \<and> ms_v2Present s
   | KR_retired \<Rightarrow> ms_activeVersion s = KV2 \<and> \<not> ms_v1Present s \<and> ms_v2Present s)"

definition ALLOWED_INITIAL_STATES :: "ApplicationKeyRotationState list" where
  "ALLOWED_INITIAL_STATES = [KR_legacy, KR_staged]"

definition ALLOWED_TRANSITIONS :: "ApplicationKeyRotationState \<Rightarrow> ApplicationKeyRotationState list" where
  "ALLOWED_TRANSITIONS s = (case s of KR_legacy \<Rightarrow> [KR_legacy, KR_staged] | KR_staged \<Rightarrow> [KR_legacy, KR_staged, KR_active]
     | KR_active \<Rightarrow> [KR_active, KR_rollback] | KR_rollback \<Rightarrow> [KR_active, KR_rollback] | KR_retired \<Rightarrow> [KR_retired])"

definition assert_family :: "ApplicationKeyRotationState option \<Rightarrow> ApplicationKeyRotationState \<Rightarrow> err + unit" where
  "assert_family previous target =
     (if target = KR_retired \<and> previous \<noteq> Some KR_retired then Inl (Error ''APPLICATION_KEY_RETIREMENT_EVIDENCE_UNAVAILABLE'')
      else if target \<notin> set (case previous of None \<Rightarrow> ALLOWED_INITIAL_STATES | Some p \<Rightarrow> ALLOWED_TRANSITIONS p)
      then Inl (Error ''APPLICATION_KEY_ROTATION_TRANSITION_INVALID'') else Inr ())"

definition assertApplicationKeyRotationTransition ::
  "ApplicationKeyRotationSet option \<Rightarrow> ApplicationKeyRotationSet \<Rightarrow> err + unit" where
  "assertApplicationKeyRotationTransition previous target =
     bind_err (assert_family (map_option rs_field previous) (rs_field target)) (\<lambda>_.
     bind_err (assert_family (map_option rs_proof previous) (rs_proof target)) (\<lambda>_.
     assert_family (map_option rs_approvalAttestation previous) (rs_approvalAttestation target)))"

subsection \<open>The check of a release\<close>

definition LEGACY_KEY_ROTATION_ADOPTION_REVISIONS :: "string list" where
  "LEGACY_KEY_ROTATION_ADOPTION_REVISIONS = [''42a1e4e65cf6e9144261a077c6956e77b368fffc'']"

definition REVISION_PATTERN :: "string \<Rightarrow> bool" where
  "REVISION_PATTERN s \<longleftrightarrow> length s = 40 \<and> list_all (\<lambda>c. digit c \<or> in_range CHR ''a'' CHR ''f'' c) s"

definition parseState :: "string option \<Rightarrow> err + ApplicationKeyRotationState" where
  "parseState value = (case Option.bind value (map_of APPLICATION_KEY_ROTATION_STATES) of
     None \<Rightarrow> Inl (Error ''APPLICATION_KEY_ROTATION_TRANSITION_INPUT_INVALID'') | Some s \<Rightarrow> Inr s)"

definition parseSet :: "string option \<Rightarrow> string option \<Rightarrow> string option \<Rightarrow> err + ApplicationKeyRotationSet" where
  "parseSet field prf approvalAttestation =
     bind_err (parseState approvalAttestation) (\<lambda>a. bind_err (parseState field) (\<lambda>f. bind_err (parseState prf) (\<lambda>p.
       Inr \<lparr>rs_approvalAttestation = a, rs_field = f, rs_proof = p\<rparr>)))"

definition nth_option :: "'a list \<Rightarrow> nat \<Rightarrow> 'a option" where
  "nth_option xs i = (if i < length xs then Some (xs ! i) else None)"

definition checkApplicationKeyRotationReleaseTransition :: "string list \<Rightarrow> err + unit" where
  "checkApplicationKeyRotationReleaseTransition arguments =
     (case (nth_option arguments 0, nth_option arguments 1, nth_option arguments 5, nth_option arguments 6, nth_option arguments 7) of
        (Some activeRevision, Some recordedRevision, Some targetField, Some targetProof, Some targetApprovalAttestation) \<Rightarrow>
          if length arguments > 8 then Inl (Error ''APPLICATION_KEY_ROTATION_TRANSITION_INPUT_INVALID'')
          else (let hasActiveRevision = (activeRevision \<noteq> ''none''); hasRecordedRevision = (recordedRevision \<noteq> ''none'')
            in if hasActiveRevision \<and> \<not> REVISION_PATTERN activeRevision
                 \<or> hasRecordedRevision \<and> (\<not> hasActiveRevision \<or> \<not> REVISION_PATTERN recordedRevision
                     \<or> activeRevision \<noteq> recordedRevision)
               then Inl (Error ''APPLICATION_KEY_ROTATION_REVISION_MISMATCH'')
               else if hasActiveRevision \<and> \<not> hasRecordedRevision
                 \<and> activeRevision \<notin> set LEGACY_KEY_ROTATION_ADOPTION_REVISIONS
               then Inl (Error ''APPLICATION_KEY_ROTATION_STATE_MISSING'')
               else bind_err
                 (if hasRecordedRevision then map_sum id Some (parseSet (nth_option arguments 2) (nth_option arguments 3) (nth_option arguments 4))
                  else if nth_option arguments 2 \<noteq> Some ''none'' \<or> nth_option arguments 3 \<noteq> Some ''none''
                    \<or> nth_option arguments 4 \<noteq> Some ''none''
                  then Inl (Error ''APPLICATION_KEY_ROTATION_TRANSITION_INPUT_INVALID'') else Inr None) (\<lambda>previous.
               bind_err (parseSet (Some targetField) (Some targetProof) (Some targetApprovalAttestation)) (\<lambda>target.
               assertApplicationKeyRotationTransition previous target)))
      | _ \<Rightarrow> Inl (Error ''APPLICATION_KEY_ROTATION_TRANSITION_INPUT_INVALID''))"

subsection \<open>The keyrings of a state\<close>

text \<open>The configured keys of one family.\<close>

record KeyMaterial =
  km_activeVersion :: ApplicationKeyVersion
  km_rotationState :: ApplicationKeyRotationState
  km_v1 :: "bytes option"
  km_v2 :: "bytes option"

definition requiredApplicationKey :: "bytes option \<Rightarrow> string \<Rightarrow> err + bytes" where
  "requiredApplicationKey key code = (case key of None \<Rightarrow> Inl (Error code) | Some k \<Rightarrow> Inr k)"

text \<open>The active key and the others, as the three functions choose them.\<close>

definition rotation_keys :: "string \<Rightarrow> KeyMaterial \<Rightarrow> err + VersionedSecret \<times> (string \<times> bytes) list" where
  "rotation_keys code m =
     (if \<not> applicationKeyMaterialStateIsValid \<lparr>ms_activeVersion = km_activeVersion m, ms_rotationState = km_rotationState m,
          ms_v1Present = (km_v1 m \<noteq> None), ms_v2Present = (km_v2 m \<noteq> None)\<rparr> then Inl (Error code)
      else if km_rotationState m = KR_legacy then
        bind_err (requiredApplicationKey (km_v1 m) code) (\<lambda>k1. Inr (\<lparr>vs_version = ''v1'', vs_key = k1\<rparr>, []))
      else if km_rotationState m = KR_staged \<or> km_rotationState m = KR_rollback then
        bind_err (requiredApplicationKey (km_v1 m) code) (\<lambda>k1. bind_err (requiredApplicationKey (km_v2 m) code) (\<lambda>k2.
          Inr (\<lparr>vs_version = ''v1'', vs_key = k1\<rparr>, [(''v2'', k2)])))
      else if km_rotationState m = KR_active then
        bind_err (requiredApplicationKey (km_v2 m) code) (\<lambda>k2. bind_err (requiredApplicationKey (km_v1 m) code) (\<lambda>k1.
          Inr (\<lparr>vs_version = ''v2'', vs_key = k2\<rparr>, [(''v1'', k1)])))
      else bind_err (requiredApplicationKey (km_v2 m) code) (\<lambda>k2. Inr (\<lparr>vs_version = ''v2'', vs_key = k2\<rparr>, [])))"

definition createFieldEncryptionKeyring :: "KeyMaterial \<Rightarrow> err + FieldEncryptionKeyring" where
  "createFieldEncryptionKeyring m =
     bind_err (rotation_keys ''FIELD_ENCRYPTION_KEY_ROTATION_STATE_INVALID'' m) (\<lambda>(active, others).
       newFieldEncryptionKeyring \<lparr>fk_active = active, fk_decryptOnly = others\<rparr>)"

definition createRefundProofKeyring :: "KeyMaterial \<Rightarrow> err + RefundProofKeyring" where
  "createRefundProofKeyring m =
     bind_err (rotation_keys ''PROOF_HMAC_KEY_ROTATION_STATE_INVALID'' m) (\<lambda>(active, others).
       newRefundProofKeyring \<lparr>rk_active = active, rk_verificationOnly = others\<rparr>)"

definition createApprovalAttestationKeyring :: "KeyMaterial \<Rightarrow> err + ApprovalAttestationKeyring" where
  "createApprovalAttestationKeyring m =
     bind_err (rotation_keys ''APPROVAL_ATTESTATION_KEY_ROTATION_STATE_INVALID'' m) (\<lambda>(active, others).
       newApprovalAttestationKeyring \<lparr>aak_active = active, aak_verificationOnly = others\<rparr>)"

subsection \<open>What a family of keys promises\<close>

text \<open>The keys of a material stay what they are when the state changes.\<close>

definition same_keys :: "KeyMaterial \<Rightarrow> KeyMaterial \<Rightarrow> bool" where
  "same_keys m m' \<longleftrightarrow> (\<forall>k k'. km_v1 m = Some k \<and> km_v1 m' = Some k' \<longrightarrow> k = k')
     \<and> (\<forall>k k'. km_v2 m = Some k \<and> km_v2 m' = Some k' \<longrightarrow> k = k')"

definition rotation_step :: "ApplicationKeyRotationState \<Rightarrow> ApplicationKeyRotationState \<Rightarrow> bool" where
  "rotation_step s t \<longleftrightarrow> assert_family (Some s) t = Inr ()"

lemma rotation_steps:
  assumes "rotation_step\<^sup>*\<^sup>* s t"
  shows "s = KR_active \<or> s = KR_rollback \<Longrightarrow> t \<in> {KR_active, KR_rollback}"
    and "s = KR_legacy \<or> s = KR_staged \<Longrightarrow> t \<noteq> KR_retired" and "s = KR_retired \<Longrightarrow> t = KR_retired"
  using assms
  by (induction rule: rtranclp_induct)
    (auto simp: rotation_step_def assert_family_def ALLOWED_TRANSITIONS_def
      split: if_splits ApplicationKeyRotationState.splits)

lemma rotation_keys_Inr:
  assumes "rotation_keys code m = Inr (active, others)"
  shows "case km_rotationState m of
      KR_legacy \<Rightarrow> (\<exists>k1. km_v1 m = Some k1 \<and> active = \<lparr>vs_version = ''v1'', vs_key = k1\<rparr> \<and> others = [])
    | KR_staged \<Rightarrow> (\<exists>k1 k2. km_v1 m = Some k1 \<and> km_v2 m = Some k2 \<and> active = \<lparr>vs_version = ''v1'', vs_key = k1\<rparr> \<and> others = [(''v2'', k2)])
    | KR_rollback \<Rightarrow> (\<exists>k1 k2. km_v1 m = Some k1 \<and> km_v2 m = Some k2 \<and> active = \<lparr>vs_version = ''v1'', vs_key = k1\<rparr> \<and> others = [(''v2'', k2)])
    | KR_active \<Rightarrow> (\<exists>k1 k2. km_v1 m = Some k1 \<and> km_v2 m = Some k2 \<and> active = \<lparr>vs_version = ''v2'', vs_key = k2\<rparr> \<and> others = [(''v1'', k1)])
    | KR_retired \<Rightarrow> (\<exists>k2. km_v2 m = Some k2 \<and> active = \<lparr>vs_version = ''v2'', vs_key = k2\<rparr> \<and> others = [])"
  using assms
  by (auto simp: rotation_keys_def requiredApplicationKey_def applicationKeyMaterialStateIsValid_def
      split: if_splits option.splits ApplicationKeyRotationState.splits)

locale key_family =
  fixes create :: "KeyMaterial \<Rightarrow> err + 'kr"
    and active :: "'kr \<Rightarrow> VersionedSecret"
    and known :: "'kr \<Rightarrow> (string \<rightharpoonup> bytes)"
    and code :: string
  assumes created: "create m = Inr kr \<Longrightarrow> \<exists>others. rotation_keys code m = Inr (active kr, others)
      \<and> known kr = [vs_version (active kr) \<mapsto> vs_key (active kr)] ++ map_of (rev others)"
begin

lemma active_known:
  assumes "create m = Inr kr"
  shows "known kr (vs_version (active kr)) = Some (vs_key (active kr))"
proof -
  from created [OF assms] obtain others where "rotation_keys code m = Inr (active kr, others)"
    and "known kr = [vs_version (active kr) \<mapsto> vs_key (active kr)] ++ map_of (rev others)" by blast
  with rotation_keys_Inr [of code m] show ?thesis
    by (auto simp: map_add_def split: ApplicationKeyRotationState.splits)
qed

text \<open>What the active key of a state produced stays readable in every state a release can reach.\<close>

theorem readable_later:
  assumes "create m = Inr kr" and "create m' = Inr kr'" and "same_keys m m'"
    and "rotation_step\<^sup>*\<^sup>* (km_rotationState m) (km_rotationState m')"
  shows "known kr' (vs_version (active kr)) = Some (vs_key (active kr))"
proof -
  from created [OF assms(1)] obtain os where a: "rotation_keys code m = Inr (active kr, os)" by blast
  from created [OF assms(2)] obtain os' where a': "rotation_keys code m' = Inr (active kr', os')"
    and k: "known kr' = [vs_version (active kr') \<mapsto> vs_key (active kr')] ++ map_of (rev os')" by blast
  show ?thesis
    using rotation_keys_Inr [OF a] rotation_keys_Inr [OF a'] rotation_steps [OF assms(4)] assms(3)
    by (auto simp: k same_keys_def map_add_def split: ApplicationKeyRotationState.splits)
qed

end

lemma bind_rotation_keys:
  "bind_err (rotation_keys code m) (\<lambda>(a, os). f a os) = Inr kr \<longleftrightarrow> (\<exists>a os. rotation_keys code m = Inr (a, os) \<and> f a os = Inr kr)"
  by auto

interpretation field_keys: key_family createFieldEncryptionKeyring fe_active fe_decryptionKeys
  "''FIELD_ENCRYPTION_KEY_ROTATION_STATE_INVALID''"
proof
  fix m kr
  assume "createFieldEncryptionKeyring m = Inr kr"
  then obtain a os where *: "rotation_keys ''FIELD_ENCRYPTION_KEY_ROTATION_STATE_INVALID'' m = Inr (a, os)"
    "newFieldEncryptionKeyring \<lparr>fk_active = a, fk_decryptOnly = os\<rparr> = Inr kr"
    by (auto simp: createFieldEncryptionKeyring_def bind_rotation_keys)
  note k = newFieldEncryptionKeyring_Inr [OF *(2), simplified]
  from * k show "\<exists>others. rotation_keys ''FIELD_ENCRYPTION_KEY_ROTATION_STATE_INVALID'' m = Inr (fe_active kr, others)
      \<and> fe_decryptionKeys kr = [vs_version (fe_active kr) \<mapsto> vs_key (fe_active kr)] ++ map_of (rev others)" by auto
qed

lemma newRefundProofKeyring_keys:
  "newRefundProofKeyring \<lparr>rk_active = a, rk_verificationOnly = os\<rparr> = Inr kr \<Longrightarrow>
     kr_active kr = a \<and> kr_verificationKeys kr = [vs_version a \<mapsto> vs_key a] ++ map_of (rev os)"
  by (auto simp: newRefundProofKeyring_def dest!: add_verification_keys_Inr split: sum.splits)

lemma newApprovalAttestationKeyring_keys:
  "newApprovalAttestationKeyring \<lparr>aak_active = a, aak_verificationOnly = os\<rparr> = Inr kr \<Longrightarrow>
     ak_active kr = a \<and> ak_verificationKeys kr = [vs_version a \<mapsto> vs_key a] ++ map_of (rev os)"
  by (auto simp: newApprovalAttestationKeyring_def dest!: add_verification_keys_Inr split: sum.splits)

interpretation proof_keys: key_family createRefundProofKeyring kr_active kr_verificationKeys
  "''PROOF_HMAC_KEY_ROTATION_STATE_INVALID''"
  by unfold_locales (auto simp: createRefundProofKeyring_def bind_rotation_keys dest!: newRefundProofKeyring_keys)

interpretation attestation_keys: key_family createApprovalAttestationKeyring ak_active ak_verificationKeys
  "''APPROVAL_ATTESTATION_KEY_ROTATION_STATE_INVALID''"
  by unfold_locales (auto simp: createApprovalAttestationKeyring_def bind_rotation_keys dest!: newApprovalAttestationKeyring_keys)

text \<open>The keys of the three families at one release, and the releases that may follow.\<close>

record ReleaseKeys =
  re_field :: KeyMaterial
  re_proof :: KeyMaterial
  re_attestation :: KeyMaterial

definition release_states :: "ReleaseKeys \<Rightarrow> ApplicationKeyRotationSet" where
  "release_states r = \<lparr>rs_approvalAttestation = km_rotationState (re_attestation r), rs_field = km_rotationState (re_field r),
     rs_proof = km_rotationState (re_proof r)\<rparr>"

definition releases_follow :: "ApplicationKeyRotationSet \<Rightarrow> ApplicationKeyRotationSet \<Rightarrow> bool" where
  "releases_follow p t \<longleftrightarrow> assertApplicationKeyRotationTransition (Some p) t = Inr ()"

lemma releases_follow_steps:
  assumes "releases_follow\<^sup>*\<^sup>* p t"
  shows "rotation_step\<^sup>*\<^sup>* (rs_field p) (rs_field t)" and "rotation_step\<^sup>*\<^sup>* (rs_proof p) (rs_proof t)"
    and "rotation_step\<^sup>*\<^sup>* (rs_approvalAttestation p) (rs_approvalAttestation t)"
  using assms
  by (induction rule: rtranclp_induct)
    (auto simp: releases_follow_def assertApplicationKeyRotationTransition_def rotation_step_def
      intro: rtranclp.rtrancl_into_rtrancl)

text \<open>
  C36: key rotation loses nothing. Through any sequence of releases the transition check accepts,
  with the keys themselves unchanged, what an earlier release produced is still accepted by a
  later one: a field it encrypted is decrypted to the same text, a refund proof it signed
  verifies, and an approval attestation it signed verifies; rolling back after the new key has
  been active included.
\<close>

theorem rotation_keeps_readable:
  assumes "releases_follow\<^sup>*\<^sup>* (release_states r) (release_states r')"
    and "same_keys (re_field r) (re_field r')" and "same_keys (re_proof r) (re_proof r')"
    and "same_keys (re_attestation r) (re_attestation r')"
    and "createFieldEncryptionKeyring (re_field r) = Inr f" and "createFieldEncryptionKeyring (re_field r') = Inr f'"
    and "createRefundProofKeyring (re_proof r) = Inr p" and "createRefundProofKeyring (re_proof r') = Inr p'"
    and "createApprovalAttestationKeyring (re_attestation r) = Inr a" and "createApprovalAttestationKeyring (re_attestation r') = Inr a'"
    and "gcm_inverse gm" and "\<And>k m. length (hmac k m) = 32"
  shows "(length nonce = 12 \<and> encrypt gm f nonce text context = Inr field \<longrightarrow> decrypt gm f' field context = Inr text)
    \<and> (sign hmac p payload = Inr token \<longrightarrow> verify hmac p' payload token = Inr True)
    \<and> (sign_attestation hmac a attested = Inr token' \<longrightarrow> verify_attestation hmac a' attested token' = Inr True)"
proof -
  note st = releases_follow_steps [OF assms(1), unfolded release_states_def ApplicationKeyRotationSet.simps]
  note kf = field_keys.readable_later [OF assms(5,6,2) st(1)]
  note kp = proof_keys.readable_later [OF assms(7,8,3) st(2)]
  note ka = attestation_keys.readable_later [OF assms(9,10,4) st(3)]
  from assms(5) obtain fk where "newFieldEncryptionKeyring fk = Inr f"
    by (auto simp: createFieldEncryptionKeyring_def bind_rotation_keys)
  then have "length (vs_key (fe_active f)) = 32" by (rule newFieldEncryptionKeyring_Inr)
  then have "length nonce = 12 \<and> encrypt gm f nonce text context = Inr field \<longrightarrow> decrypt gm f' field context = Inr text"
    using decrypt_encrypt [OF assms(11) _ _ _ kf] by blast
  moreover have "sign hmac p payload = Inr token \<longrightarrow> verify hmac p' payload token = Inr True"
  proof
    assume "sign hmac p payload = Inr token"
    then obtain d where d: "proof_digest hmac payload (vs_key (kr_active p)) = Inr d" "token = format_token (vs_version (kr_active p)) d"
      by (auto simp: sign_def split: sum.splits)
    then have "length d = 32" by (auto simp: proof_digest_def assms(12) split: sum.splits)
    moreover from assms(7) obtain pk where "newRefundProofKeyring pk = Inr p"
      by (auto simp: createRefundProofKeyring_def bind_rotation_keys)
    then have "version_pattern (vs_version (kr_active p))" by (rule newRefundProofKeyring_Inr)
    ultimately show "verify hmac p' payload token = Inr True" using d kp by (simp add: verify_def proof_token.parse_format)
  qed
  moreover have "sign_attestation hmac a attested = Inr token' \<longrightarrow> verify_attestation hmac a' attested token' = Inr True"
  proof -
    from assms(9) obtain ak where "newApprovalAttestationKeyring ak = Inr a"
      by (auto simp: createApprovalAttestationKeyring_def bind_rotation_keys)
    from newApprovalAttestationKeyring_Inr(1) [OF this] ka show ?thesis
      unfolding verify_attestation_True [of hmac, OF assms(12)] by (auto simp: sign_attestation_def split: sum.splits)
  qed
  ultimately show ?thesis by blast
qed

definition sample_material :: "ApplicationKeyVersion \<Rightarrow> ApplicationKeyRotationState \<Rightarrow> KeyMaterial" where
  "sample_material v s = \<lparr>km_activeVersion = v, km_rotationState = s, km_v1 = Some (replicate 32 1), km_v2 = Some (replicate 32 2)\<rparr>"

definition sample_release :: "ApplicationKeyVersion \<Rightarrow> ApplicationKeyRotationState \<Rightarrow> ReleaseKeys" where
  "sample_release v s = \<lparr>re_field = sample_material v s, re_proof = sample_material v s, re_attestation = sample_material v s\<rparr>"

lemma sample_created:
  "\<not> isl (createFieldEncryptionKeyring (sample_material KV1 KR_staged))" "\<not> isl (createFieldEncryptionKeyring (sample_material KV2 KR_active))"
  "\<not> isl (createRefundProofKeyring (sample_material KV1 KR_staged))" "\<not> isl (createRefundProofKeyring (sample_material KV2 KR_active))"
  "\<not> isl (createApprovalAttestationKeyring (sample_material KV1 KR_staged))" "\<not> isl (createApprovalAttestationKeyring (sample_material KV2 KR_active))"
  by code_simp+

lemma not_isl_Inr: "\<not> isl x \<Longrightarrow> \<exists>y. x = Inr y"
  by (cases x) auto

theorem rotation_keeps_readable_witness:
  "\<exists>f f' field. createFieldEncryptionKeyring (sample_material KV1 KR_staged) = Inr f
     \<and> createFieldEncryptionKeyring (sample_material KV2 KR_active) = Inr f'
     \<and> encrypt sample_gcm f (replicate 12 0) ''damaged goods'' sample_field_context = Inr field
     \<and> decrypt sample_gcm f' field sample_field_context = Inr ''damaged goods''"
proof -
  from sample_created [THEN not_isl_Inr] obtain f f' p p' a a' where created:
    "createFieldEncryptionKeyring (re_field (sample_release KV1 KR_staged)) = Inr f"
    "createFieldEncryptionKeyring (re_field (sample_release KV2 KR_active)) = Inr f'"
    "createRefundProofKeyring (re_proof (sample_release KV1 KR_staged)) = Inr p"
    "createRefundProofKeyring (re_proof (sample_release KV2 KR_active)) = Inr p'"
    "createApprovalAttestationKeyring (re_attestation (sample_release KV1 KR_staged)) = Inr a"
    "createApprovalAttestationKeyring (re_attestation (sample_release KV2 KR_active)) = Inr a'"
    by (auto simp: sample_release_def)
  have "releases_follow (release_states (sample_release KV1 KR_staged)) (release_states (sample_release KV2 KR_active))"
    by code_simp
  then have follow: "releases_follow\<^sup>*\<^sup>* (release_states (sample_release KV1 KR_staged)) (release_states (sample_release KV2 KR_active))"
    by (rule r_into_rtranclp)
  have same: "same_keys (re_field (sample_release v s)) (re_field (sample_release v' s'))"
    "same_keys (re_proof (sample_release v s)) (re_proof (sample_release v' s'))"
    "same_keys (re_attestation (sample_release v s)) (re_attestation (sample_release v' s'))" for v s v' s'
    by (simp_all add: same_keys_def sample_release_def sample_material_def)
  obtain field where enc: "encrypt sample_gcm f (replicate 12 0) ''damaged goods'' sample_field_context = Inr field"
    by (simp add: encrypt_def aad_def context_fields_def sample_field_context_def Let_def)
  have "decrypt sample_gcm f' field sample_field_context = Inr ''damaged goods''"
    using rotation_keeps_readable [OF follow same created sample_gcm_laws(1) truncate_hmac_length,
        of "replicate 12 0" "''damaged goods''" sample_field_context field] enc by simp
  with created enc show ?thesis by (auto simp: sample_release_def)
qed

end
