(* ===== verification/Pilot_Api.thy ===== *)
theory Pilot_Api
  imports Installations Worker_Process Field_Encryption
begin

text \<open>
  The vocabulary of the web API: \<open>apps/platform/src/server/pilot-ports.ts\<close>, \<open>pilot-errors.ts\<close>,
  \<open>pilot-access-policy.ts\<close>, \<open>pilot-account-admission.ts\<close>, \<open>pilot-audit-token.ts\<close> and the operations of
  \<open>packages/contracts/src/operations.ts\<close> with the commands their schemas produce. A payment as the
  reader returns it has the fields of \<open>NormalizedPayment\<close>, and a resource type is that of an
  attestation. An error of the API carries its code, its HTTP status and its message.
\<close>

subsection \<open>Operations and commands\<close>

datatype PilotOperation =
    OP_context_sync | OP_payment_eligibility | OP_refund_request_create | OP_refund_request_list | OP_refund_request_get
  | OP_refund_request_decide | OP_refund_request_cancel | OP_external_alert_list | OP_external_alert_acknowledge
  | OP_settings_get | OP_settings_update | OP_audit_export

definition operationSchemas :: "(string \<times> PilotOperation) list" where
  "operationSchemas = [(''context.sync'', OP_context_sync), (''payment.eligibility'', OP_payment_eligibility),
     (''refund_request.create'', OP_refund_request_create), (''refund_request.list'', OP_refund_request_list),
     (''refund_request.get'', OP_refund_request_get), (''refund_request.decide'', OP_refund_request_decide),
     (''refund_request.cancel'', OP_refund_request_cancel), (''external_alert.list'', OP_external_alert_list),
     (''external_alert.acknowledge'', OP_external_alert_acknowledge), (''settings.get'', OP_settings_get),
     (''settings.update'', OP_settings_update), (''audit.export'', OP_audit_export)]"

definition isPilotOperation :: "string \<Rightarrow> bool" where
  "isPilotOperation operation \<longleftrightarrow> map_of operationSchemas operation \<noteq> None"

fun operation_name :: "PilotOperation \<Rightarrow> string" where
  "operation_name OP_context_sync = ''context.sync''"
| "operation_name OP_payment_eligibility = ''payment.eligibility''"
| "operation_name OP_refund_request_create = ''refund_request.create''"
| "operation_name OP_refund_request_list = ''refund_request.list''"
| "operation_name OP_refund_request_get = ''refund_request.get''"
| "operation_name OP_refund_request_decide = ''refund_request.decide''"
| "operation_name OP_refund_request_cancel = ''refund_request.cancel''"
| "operation_name OP_external_alert_list = ''external_alert.list''"
| "operation_name OP_external_alert_acknowledge = ''external_alert.acknowledge''"
| "operation_name OP_settings_get = ''settings.get''"
| "operation_name OP_settings_update = ''settings.update''"
| "operation_name OP_audit_export = ''audit.export''"

lemma map_of_operation_name [simp]: "map_of operationSchemas (operation_name op) = Some op"
  by (cases op) (simp_all add: operationSchemas_def)

lemma operation_name_inject [simp]: "operation_name a = operation_name b \<longleftrightarrow> a = b"
  by (metis map_of_operation_name option.inject)

record ApprovalSnapshot =
  sn_amount_minor :: string
  sn_currency :: string
  sn_reason :: RefundReason
  sn_requester_user_id :: string

datatype PilotListScope = LS_awaiting_my_approval | LS_my_requests | LS_all_activity

text \<open>The commands, one constructor per operation, as their schemas parse them.\<close>

datatype PilotCommand =
    ContextSync "string option"  \<comment> \<open>display name\<close>
  | PaymentEligibility'
  | RefundRequestCreate string string RefundReason string  \<comment> \<open>amount, currency, reason, justification\<close>
  | RefundRequestList PilotListScope int "string option"  \<comment> \<open>scope, limit, cursor\<close>
  | RefundRequestGet string
  | RefundRequestApprove string int ApprovalSnapshot  \<comment> \<open>request, expected version, snapshot\<close>
  | RefundRequestReject string string  \<comment> \<open>request, justification\<close>
  | RefundRequestCancel string
  | ExternalAlertList int "string option"
  | ExternalAlertAcknowledge string
  | SettingsGet
  | SettingsUpdate "string list" int bool  \<comment> \<open>approvers, expiration days, onboarding completed\<close>
  | AuditExport string  \<comment> \<open>format\<close>

definition operation_of :: "PilotCommand \<Rightarrow> PilotOperation" where
  "operation_of c = (case c of ContextSync _ \<Rightarrow> OP_context_sync | PaymentEligibility' \<Rightarrow> OP_payment_eligibility
     | RefundRequestCreate _ _ _ _ \<Rightarrow> OP_refund_request_create | RefundRequestList _ _ _ \<Rightarrow> OP_refund_request_list
     | RefundRequestGet _ \<Rightarrow> OP_refund_request_get | RefundRequestApprove _ _ _ \<Rightarrow> OP_refund_request_decide
     | RefundRequestReject _ _ \<Rightarrow> OP_refund_request_decide | RefundRequestCancel _ \<Rightarrow> OP_refund_request_cancel
     | ExternalAlertList _ _ \<Rightarrow> OP_external_alert_list | ExternalAlertAcknowledge _ \<Rightarrow> OP_external_alert_acknowledge
     | SettingsGet \<Rightarrow> OP_settings_get | SettingsUpdate _ _ _ \<Rightarrow> OP_settings_update | AuditExport _ \<Rightarrow> OP_audit_export)"

subsection \<open>Ports\<close>

record PilotSignedIdentity =
  id_accountId :: string
  id_environment :: StripeEnvironment
  id_roles :: "StripeRoleIdentity list"
  id_rolesAsserted :: bool
  id_userId :: string

record PilotActor =
  ac_id :: string
  ac_approverEnabled :: bool
  ac_stripeUserId :: string

record PilotTenantContext =
  pc_actor :: PilotActor
  pc_environment :: StripeEnvironment
  pc_installationId :: string
  pc_installationStatus :: InstallationStatus
  pc_stripeAccountId :: string
  pc_tenantId :: string
  pc_tenantStatus :: TenantStatus

record PilotPaymentResource =
  rs_id :: string
  rs_type :: AttestationResourceType

record PilotRequestRecord =
  pq_amount_minor :: string
  pq_can_cancel :: bool
  pq_can_decide :: bool
  pq_created_at :: string
  pq_currency :: string
  pq_expires_at :: string
  pq_id :: string
  pq_is_requester :: bool
  pq_justification :: "string option"
  pq_reason :: RefundReason
  pq_requester_user_id :: string
  pq_resource_id :: string
  pq_resource_type :: AttestationResourceType
  pq_status :: WorkflowStatus
  pq_version :: int
  pq_charge_id :: string
  pq_payment_intent_id :: "string option"

record PilotActiveRequest =
  pv_can_cancel :: bool
  pv_id :: string
  pv_status :: WorkflowStatus

record PilotExternalAlert =
  px_acknowledged :: bool
  px_amount_minor :: string
  px_classification :: AlertClassification
  px_currency :: string
  px_detected_at :: string
  px_id :: string
  px_refund_id :: string

record PilotObservedUser =
  po_stripe_user_id :: string
  po_display_name :: "string option"
  po_approver_enabled :: bool
  po_last_seen_at :: string

record PilotSettings =
  pt_approver_user_ids :: "string list"
  pt_expiration_days :: int
  pt_onboarding_completed :: bool
  pt_observed_users :: "PilotObservedUser list"

text \<open>A page: the items and the cursor of the next page.\<close>

type_synonym 'a PilotPage = "'a list \<times> string option"

record PilotStoredResponse =
  sr_body :: "(string \<times> json) list"
  sr_status :: int

record PilotMutationReceipt =
  mt_actorId :: string
  mt_canonicalRequestHash :: bytes
  mt_operation :: PilotOperation
  mt_response :: PilotStoredResponse

record PilotMutationMetadata =
  md_actorId :: string
  md_approvalAttestationId :: "string option"
  md_assertedStripeRoles :: "StripeRoleIdentity list option"
  md_canonicalRequestHash :: bytes
  md_operation :: PilotOperation
  md_requestNonce :: string
  md_responseRequestId :: string

datatype PilotMutation =
    MU_context_sync
  | MU_create int string string NormalizedPayment RefundReason PilotPaymentResource
      \<comment> \<open>amount, currency, justification, payment, reason, resource\<close>
  | MU_approve string PilotPaymentResource
  | MU_reject string string PilotPaymentResource  \<comment> \<open>justification, request, resource\<close>
  | MU_cancel string PilotPaymentResource
  | MU_acknowledge string
  | MU_settings "string list" int bool
  | MU_audit_export string

subsection \<open>Errors\<close>

definition asSafePilotError :: "err \<Rightarrow> err" where
  "asSafePilotError e = (case e of PilotApiError c s m \<Rightarrow> e
     | _ \<Rightarrow> PilotApiError ''INTERNAL_ERROR'' 500 ''RefundDesk could not complete the request.'')"

subsection \<open>Access and admission\<close>

definition actionForOperation :: "PilotOperation \<Rightarrow> AccessAction" where
  "actionForOperation op = (case op of
     OP_refund_request_create \<Rightarrow> A_create_refund_request | OP_refund_request_decide \<Rightarrow> A_decide_refund_request
   | OP_refund_request_cancel \<Rightarrow> A_cancel_refund_request | OP_settings_update \<Rightarrow> A_settings
   | OP_audit_export \<Rightarrow> A_audit_export | _ \<Rightarrow> A_read)"

definition throwAccessDenial :: "AccessDenialCode \<Rightarrow> err" where
  "throwAccessDenial code = (case code of
     ADMIN_REQUIRED \<Rightarrow> PilotApiError ''ADMIN_REQUIRED'' 403 ''A signed Stripe Administrator role is required.''
   | EXPLICIT_APPROVER_REQUIRED \<Rightarrow> PilotApiError ''APPROVER_REQUIRED'' 403 ''This action requires an explicitly enabled approver.''
   | INSTALLATION_INACTIVE \<Rightarrow> PilotApiError ''INSTALLATION_INACTIVE'' 403 ''The Stripe installation is not active.''
   | PILOT_LIVE_DISABLED \<Rightarrow> PilotApiError ''LIVE_MODE_DISABLED'' 403 ''RefundDesk pilot operations are disabled in live mode.''
   | TENANT_INACTIVE \<Rightarrow> PilotApiError ''INSTALLATION_INACTIVE'' 403 ''The RefundDesk tenant is not active.'')"

definition assertAllowed :: "PilotTenantContext \<Rightarrow> PilotOperation \<Rightarrow> StripeRoleIdentity list \<Rightarrow> err + unit" where
  "assertAllowed context operation roles =
     (case authorize \<lparr>ac_action = actionForOperation operation, ac_environment = pc_environment context,
         tenantStatus = pc_tenantStatus context, installationStatus = pc_installationStatus context,
         globalLiveEnabled = False, tenantLiveEnabled = False, signedStripeRoles = roles,
         explicitApprover = ac_approverEnabled (pc_actor context)\<rparr> of
        Allowed \<Rightarrow> Inr () | Denied code \<Rightarrow> Inl (throwAccessDenial code))"

definition admission_key :: "string \<Rightarrow> StripeEnvironment \<Rightarrow> string" where
  "admission_key accountId environment = env_name environment @ '':'' @ accountId"

definition isAdmitted :: "(string \<times> StripeEnvironment) list \<Rightarrow> string \<Rightarrow> StripeEnvironment \<Rightarrow> bool" where
  "isAdmitted accounts accountId environment \<longleftrightarrow>
     admission_key accountId environment \<in> set (map (\<lambda>(a, e). admission_key a e) accounts)"

lemma admission_key_inject [simp]: "admission_key a e = admission_key b f \<longleftrightarrow> a = b \<and> e = f"
  by (cases e; cases f) (auto simp: admission_key_def env_name_def)

lemma isAdmitted_iff: "isAdmitted accounts a e \<longleftrightarrow> (a, e) \<in> set accounts"
  by (force simp: isAdmitted_def)

subsection \<open>Audit tokens\<close>

record PilotAuditTokenPayload =
  tk_actor_id :: string
  tk_environment :: StripeEnvironment
  tk_expires_at :: string
  tk_installation_id :: string
  tk_nonce :: string
  tk_tenant_id :: string

definition audit_payload_json :: "PilotAuditTokenPayload \<Rightarrow> json" where
  "audit_payload_json p = JsObj [(''actor_id'', JsStr (tk_actor_id p)), (''environment'', JsStr (env_name (tk_environment p))),
     (''expires_at'', JsStr (tk_expires_at p)), (''installation_id'', JsStr (tk_installation_id p)),
     (''tenant_id'', JsStr (tk_tenant_id p)), (''nonce'', JsStr (tk_nonce p))]"

definition token_signature :: "(bytes \<Rightarrow> bytes \<Rightarrow> bytes) \<Rightarrow> string \<Rightarrow> bytes \<Rightarrow> bytes" where
  "token_signature hmac payloadSegment key = hmac key (utf8 (''v1.'' @ payloadSegment))"

definition createPilotAuditToken ::
  "(bytes \<Rightarrow> bytes \<Rightarrow> bytes) \<Rightarrow> (string \<Rightarrow> string \<Rightarrow> bool) \<Rightarrow> PilotAuditTokenPayload \<Rightarrow> bytes \<Rightarrow> string" where
  "createPilotAuditToken hmac le payload key =
     (let payloadSegment = b64_encode (utf8 (canonicalJson le (audit_payload_json payload)))
      in ''v1.'' @ payloadSegment @ ''.'' @ b64_encode (token_signature hmac payloadSegment key))"

end
