(* ===== verification/Pilot_Repository.thy ===== *)
theory Pilot_Repository
  imports Pilot_Api Worker_Jobs
begin

text \<open>
  \<open>apps/platform/src/server/pilot-prisma-repository.ts\<close>: the database side of the web API. A method
  is an action of a process: its transactions are interleaved with the rest of the system, as the
  worker's are. What a method draws, readings of the clock, identifiers and nonces, is drawn
  before its transaction; the reading for the expiry of a receipt is a second one. JSON documents
  are stored and read back as they are, so \<open>prismaJson\<close> and \<open>canonicalFromPrisma\<close> are the identity on
  them. A tenant row that an installation refers to always exists by its foreign key; the error
  of a missing one is Prisma's.
\<close>

definition RECEIPT_RETENTION_MILLISECONDS :: int where
  "RECEIPT_RETENTION_MILLISECONDS = 365 * 24 * 60 * 60 * 1000"

definition AUDIT_LINK_LIFETIME_MILLISECONDS :: int where
  "AUDIT_LINK_LIFETIME_MILLISECONDS = 5 * 60 * 1000"

text \<open>The options of the repository and its parameters; \<open>po_origin\<close> is the origin of \<open>appBaseUrl\<close>.\<close>

record PilotPrismaRepository =
  pr_origin :: string
  pr_auditSigningKey :: bytes
  pr_fieldKeyring :: FieldEncryptionKeyring
  pr_gcm :: AesGcm
  pr_hmac :: "bytes \<Rightarrow> bytes \<Rightarrow> bytes"
  pr_collate :: "string \<Rightarrow> string \<Rightarrow> bool"
  pr_process :: WorkerDependencies
  pr_randomBytes :: "nat \<Rightarrow> bytes"

record MutationDraws =
  dw_now :: date
  dw_later :: date
  dw_uuid :: string
  dw_nonce :: bytes

definition draw :: "PilotPrismaRepository \<Rightarrow> MutationDraws act" where
  "draw repo =
     bind_act (now_act (pr_process repo)) (\<lambda>now. bind_act (now_act (pr_process repo)) (\<lambda>later.
     bind_act (random_act (pr_process repo)) (\<lambda>uuid.
     (\<lambda>w. (Inr \<lparr>dw_now = now, dw_later = later, dw_uuid = uuid, dw_nonce = pr_randomBytes repo (wl_time w)\<rparr>, tick w)))))"

definition hashesEqual :: "bytes \<Rightarrow> bytes \<Rightarrow> bool" where
  "hashesEqual left right \<longleftrightarrow> length left = length right \<and> left = right"

subsection \<open>Receipts\<close>

definition storedResponse :: "int \<Rightarrow> json \<Rightarrow> err + PilotStoredResponse" where
  "storedResponse status' body = (case body of
     JsObj ps \<Rightarrow> Inr \<lparr>sr_body = ps, sr_status = status'\<rparr>
   | _ \<Rightarrow> Inl (PilotApiError ''INTERNAL_ERROR'' 500 ''A stored API response is invalid.''))"

definition receiptFromDatabase :: "ApiMutationReceipt \<Rightarrow> err + PilotMutationReceipt" where
  "receiptFromDatabase receipt = (case map_of operationSchemas (mr_operation receipt) of
     None \<Rightarrow> Inl (PilotApiError ''INTERNAL_ERROR'' 500 ''A stored mutation receipt is invalid.'')
   | Some operation \<Rightarrow> bind_err (storedResponse (mr_responseStatus receipt) (mr_responseBody receipt)) (\<lambda>response.
       Inr \<lparr>mt_actorId = mr_actorId receipt, mt_canonicalRequestHash = mr_canonicalRequestHash receipt,
         mt_operation = operation, mt_response = response\<rparr>))"

definition idempotency_conflict :: err where
  "idempotency_conflict = PilotApiError ''IDEMPOTENCY_CONFLICT'' 409 ''The request nonce was already used for a different mutation.''"

definition assertReceiptMatches :: "PilotMutationReceipt \<Rightarrow> PilotMutationMetadata \<Rightarrow> err + unit" where
  "assertReceiptMatches receipt metadata =
     (if mt_actorId receipt \<noteq> md_actorId metadata \<or> mt_operation receipt \<noteq> md_operation metadata
         \<or> \<not> hashesEqual (mt_canonicalRequestHash receipt) (md_canonicalRequestHash metadata)
      then Inl idempotency_conflict else Inr ())"

definition response :: "(string \<times> json) list \<Rightarrow> PilotStoredResponse" where
  "response body = \<lparr>sr_body = body, sr_status = 200\<rparr>"

text \<open>The row of a receipt for a response.\<close>

definition receipt_row :: "txctx \<Rightarrow> PilotMutationMetadata \<Rightarrow> date \<Rightarrow> PilotStoredResponse \<Rightarrow> ApiMutationReceipt" where
  "receipt_row ctx metadata now r = \<lparr>mr_id = [], mr_tenantId = cx_tenant ctx, mr_requestNonce = md_requestNonce metadata,
     mr_actorId = md_actorId metadata, mr_operation = operation_name (md_operation metadata),
     mr_canonicalRequestHash = md_canonicalRequestHash metadata, mr_responseStatus = sr_status r,
     mr_responseBody = JsObj (sr_body r), mr_createdAt = cx_clock ctx, mr_expiresAt = now + RECEIPT_RETENTION_MILLISECONDS\<rparr>"

subsection \<open>Context\<close>

definition installation_tenant :: "txctx \<Rightarrow> string \<Rightarrow> (StripeInstallation \<times> Tenant) option tx" where
  "installation_tenant ctx installationId =
     with_db (\<lambda>d. case getInstallationContext ctx installationId d of None \<Rightarrow> return_tx None
       | Some i \<Rightarrow> (case first_row (\<lambda>t. tn_id t = si_tenantId i) (tenants d) of
            None \<Rightarrow> throw_tx (DbError ''Inconsistent query result'') | Some t \<Rightarrow> return_tx (Some (i, t))))"

definition assertCurrentInstallation :: "(StripeInstallation \<times> Tenant) option \<Rightarrow> PilotTenantContext \<Rightarrow> err + unit" where
  "assertCurrentInstallation found context = (case found of
     None \<Rightarrow> Inl (PilotApiError ''ACCOUNT_ENVIRONMENT_MISMATCH'' 403 ''The installation binding changed during the request.'')
   | Some (i, t) \<Rightarrow>
       if si_stripeAccountId i \<noteq> pc_stripeAccountId context \<or> si_environment i \<noteq> pc_environment context
       then Inl (PilotApiError ''ACCOUNT_ENVIRONMENT_MISMATCH'' 403 ''The installation binding changed during the request.'')
       else if si_status i \<noteq> I_active \<or> tn_status t \<noteq> T_active
       then Inl (PilotApiError ''INSTALLATION_INACTIVE'' 403 ''The Stripe installation is not active.'')
       else Inr ())"

definition role_json :: "StripeRoleIdentity \<Rightarrow> json" where
  "role_json r = JsObj ((case role_id r of None \<Rightarrow> [] | Some i \<Rightarrow> [(''id'', JsStr i)])
     @ [(''type'', JsStr (case role_type r of builtIn \<Rightarrow> ''builtIn'' | custom \<Rightarrow> ''custom'')), (''name'', JsStr (role_name r))])"

definition pilotStripeRolesJson :: "StripeRoleIdentity list \<Rightarrow> json" where
  "pilotStripeRolesJson roles = JsArr (map role_json roles)"

definition pilotAssertedStripeRolesSnapshot :: "StripeRoleIdentity list option \<Rightarrow> json" where
  "pilotAssertedStripeRolesSnapshot roles = (case roles of None \<Rightarrow> JsArr [] | Some rs \<Rightarrow> pilotStripeRolesJson rs)"

definition pilotAuditActorSnapshot :: "StripeRoleIdentity list option \<Rightarrow> json" where
  "pilotAuditActorSnapshot roles =
     JsObj [(''roles_asserted'', JsBool (roles \<noteq> None)), (''stripe_roles'', pilotAssertedStripeRolesSnapshot roles)]"

text \<open>The audit event of a mutation.\<close>

definition pilot_audit ::
  "txctx \<Rightarrow> PilotMutationMetadata \<Rightarrow> string \<Rightarrow> string \<Rightarrow> string \<Rightarrow> string \<Rightarrow> (string \<times> json) list \<Rightarrow> AuditEvent tx" where
  "pilot_audit ctx metadata action actorId entityType entityId payload =
     appendAuditEvent ctx \<lparr>ae_id = [], ae_tenantId = cx_tenant ctx, ae_actorType = ''stripe_user'', ae_actorId = Some actorId,
       ae_actorSnapshot = pilotAuditActorSnapshot (md_assertedStripeRoles metadata), ae_action = action,
       ae_entityType = entityType, ae_entityId = entityId, ae_payload = JsObj payload,
       ae_correlationRequestId = md_requestNonce metadata, ae_occurredAt = cx_clock ctx\<rparr>"

definition roles_asserted :: "PilotMutationMetadata \<Rightarrow> string \<times> json" where
  "roles_asserted metadata = (''roles_asserted'', JsBool (md_assertedStripeRoles metadata \<noteq> None))"

text \<open>The transaction of \<open>resolveContext\<close>.\<close>

definition context_unit ::
  "PilotSignedIdentity \<Rightarrow> string option \<Rightarrow> string \<Rightarrow> date \<Rightarrow> txctx \<Rightarrow> PilotTenantContext option tx" where
  "context_unit identity displayName installationId now ctx =
     bind_tx (installation_tenant ctx installationId) (\<lambda>installation.
     bind_tx (observeTenantUser ctx (id_userId identity) (map_option Some displayName)
         (if id_rolesAsserted identity then Some (stringify (pilotStripeRolesJson (id_roles identity))) else None) now) (\<lambda>actor.
     return_tx (map_option (\<lambda>(i, t). \<lparr>pc_actor = \<lparr>ac_id = tu_id actor, ac_approverEnabled = tu_approverEnabled actor,
         ac_stripeUserId = tu_stripeUserId actor\<rparr>, pc_environment = id_environment identity, pc_installationId = si_id i,
         pc_installationStatus = si_status i, pc_stripeAccountId = si_stripeAccountId i, pc_tenantId = si_tenantId i,
         pc_tenantStatus = tn_status t\<rparr>) installation)))"

definition resolveContext ::
  "PilotPrismaRepository \<Rightarrow> PilotSignedIdentity \<Rightarrow> bool \<Rightarrow> string option \<Rightarrow> PilotTenantContext option act" where
  "resolveContext repo identity allowProvision displayName =
     bind_act (read_act (pr_process repo) (resolveInstallation (id_accountId identity) (id_environment identity))) (\<lambda>found.
     bind_act (lift_act found) (\<lambda>installation.
     bind_act (case installation of
         Some i \<Rightarrow> return_act (Some (resolved_row i))
       | None \<Rightarrow> if allowProvision then bind_act (tx_act (pr_process repo)
             (\<lambda>ctx. provisionInstallation ctx (id_accountId identity) (id_environment identity))) (\<lambda>r. return_act (Some r))
           else return_act None) (\<lambda>resolved.
     case resolved of None \<Rightarrow> return_act None
     | Some r \<Rightarrow> bind_act (now_act (pr_process repo)) (\<lambda>now.
         tx_act (pr_process repo) (\<lambda>ctx. withTenantTransaction ctx (rv_tenantId r)
           (context_unit identity displayName (rv_installationId r) now))))))"

definition pilot_findMutationReceipt :: "PilotPrismaRepository \<Rightarrow> PilotTenantContext \<Rightarrow> string \<Rightarrow> PilotMutationReceipt option act" where
  "pilot_findMutationReceipt repo context requestNonce =
     tx_act (pr_process repo) (\<lambda>ctx. withTenantTransaction ctx (pc_tenantId context) (\<lambda>c.
       bind_tx (gets_tx (findMutationReceipt c requestNonce)) (\<lambda>receipt.
       case receipt of None \<Rightarrow> return_tx None | Some r \<Rightarrow> bind_tx (lift_tx (receiptFromDatabase r)) (\<lambda>m. return_tx (Some m)))))"

subsection \<open>Mutations\<close>

definition synchronizeContext :: "PilotTenantContext \<Rightarrow> txctx \<Rightarrow> PilotStoredResponse tx" where
  "synchronizeContext context ctx =
     bind_tx (installation_tenant ctx (pc_installationId context)) (\<lambda>found.
     bind_tx (gets_tx (getSettings ctx (pc_installationId context))) (\<lambda>settings.
     case (found, settings) of
       (Some (i, t), Some s) \<Rightarrow> return_tx (response [(''approvals_required'', JsNum 1),
         (''current_user_is_approver'', JsBool (list_ex (\<lambda>u. tu_id u = ac_id (pc_actor context)) (ss_approvers s))),
         (''installation_active'', JsBool (si_status (ss_installation s) = I_active \<and> tn_status t = T_active)),
         (''onboarding_completed'', JsBool (si_onboardingCompletedAt (ss_installation s) \<noteq> None))])
     | _ \<Rightarrow> throw_tx (PilotApiError ''INSTALLATION_NOT_FOUND'' 404 ''The Stripe installation was not found.'')))"

definition encrypted_columns :: "EncryptedField \<Rightarrow> EncryptedColumns" where
  "encrypted_columns e = \<lparr>enc_ciphertext = b64_decode (ef_ciphertext e), enc_nonce = b64_decode (ef_nonce e),
     enc_authTag = b64_decode (ef_authenticationTag e), enc_keyVersion = ef_keyVersion e\<rparr>"

definition justification_context :: "string \<Rightarrow> string \<Rightarrow> FieldContext" where
  "justification_context tenantId requestId =
     \<lparr>fc_tenantId = tenantId, fc_table = ''refund_requests'', fc_entityId = requestId, fc_field = ''justification''\<rparr>"

definition rejection_context :: "string \<Rightarrow> string \<Rightarrow> FieldContext" where
  "rejection_context tenantId decisionId =
     \<lparr>fc_tenantId = tenantId, fc_table = ''approval_decisions'', fc_entityId = decisionId, fc_field = ''rejection''\<rparr>"

text \<open>The row of a new request; the columns not given have their defaults.\<close>

definition new_request_row ::
  "txctx \<Rightarrow> PilotTenantContext \<Rightarrow> MutationDraws \<Rightarrow> ApprovalPolicy \<Rightarrow> EncryptedField \<Rightarrow> int \<Rightarrow> string \<Rightarrow> NormalizedPayment
     \<Rightarrow> RefundReason \<Rightarrow> RefundRequest" where
  "new_request_row ctx context dw policy encrypted amountMinor currency payment reason =
     \<lparr>rr_id = dw_uuid dw, rr_tenantId = cx_tenant ctx, rr_installationId = pc_installationId context,
      rr_environment = pc_environment context, rr_paymentKey = py_paymentKey payment,
      rr_paymentIntentId = py_paymentIntentId payment, rr_chargeId = Some (py_chargeId payment), rr_amountMinor = amountMinor,
      rr_currency = currency, rr_reason = reason, rr_justification = encrypted_columns encrypted,
      rr_requesterUserId = ac_id (pc_actor context), rr_policyVersion = ap_version policy,
      rr_requiredApprovals = ap_requiredApprovals policy, rr_workflowStatus = W_pending_approval,
      rr_effectState = E_not_started, rr_version = 0, rr_paymentGuardReleasedAt = None, rr_createdAt = cx_clock ctx,
      rr_expiresAt = dw_now dw + ap_expiresAfterSeconds policy * 1000, rr_approvedAt = None, rr_executionStartedAt = None,
      rr_reconciliationSafeAfterAt = None, rr_terminalAt = None\<rparr>"

definition status_name :: "WorkflowStatus \<Rightarrow> string" where
  "status_name s = (case s of W_pending_approval \<Rightarrow> ''pending_approval'' | W_approved \<Rightarrow> ''approved'' | W_executing \<Rightarrow> ''executing''
     | W_reconciliation_required \<Rightarrow> ''reconciliation_required'' | W_succeeded \<Rightarrow> ''succeeded''
     | W_failed_terminal \<Rightarrow> ''failed_terminal'' | W_rejected \<Rightarrow> ''rejected'' | W_canceled \<Rightarrow> ''canceled''
     | W_expired \<Rightarrow> ''expired'' | W_stale \<Rightarrow> ''stale'')"

definition pilot_createRefundRequest ::
  "PilotPrismaRepository \<Rightarrow> PilotTenantContext \<Rightarrow> PilotMutationMetadata \<Rightarrow> MutationDraws \<Rightarrow> int \<Rightarrow> string \<Rightarrow> string
     \<Rightarrow> NormalizedPayment \<Rightarrow> RefundReason \<Rightarrow> txctx \<Rightarrow> PilotStoredResponse tx" where
  "pilot_createRefundRequest repo context metadata dw amountMinor currency justification payment reason ctx =
     bind_tx (gets_tx (getActiveApprovalPolicy ctx)) (\<lambda>found.
     bind_tx (gets_tx (getActiveRequestByPayment ctx (pc_environment context) (py_paymentKey payment))) (\<lambda>activeRequest.
     bind_tx (gets_tx (countEligibleDistinctApprovers ctx (ac_id (pc_actor context)))) (\<lambda>distinctApprovers.
     case found of
       None \<Rightarrow> throw_tx (PilotApiError ''INSTALLATION_INACTIVE'' 403 ''Complete the one-approver pilot setup before creating requests.'')
     | Some policy \<Rightarrow>
       if ap_requiredApprovals policy \<noteq> 1 \<or> ap_expiresAfterSeconds policy \<noteq> 604800
       then throw_tx (PilotApiError ''INSTALLATION_INACTIVE'' 403 ''Complete the one-approver pilot setup before creating requests.'')
       else if distinctApprovers < 1
       then throw_tx (PilotApiError ''NO_DISTINCT_APPROVER'' 422 ''A different explicit approver is required for this requester.'')
       else if activeRequest \<noteq> None
       then throw_tx (PilotApiError ''WORKFLOW_CONFLICT'' 409 ''A non-terminal refund request already exists for this payment.'')
       else
         bind_tx (lift_tx (encrypt (pr_gcm repo) (pr_fieldKeyring repo) (dw_nonce dw) justification
             (justification_context (pc_tenantId context) (dw_uuid dw)))) (\<lambda>encrypted.
         bind_tx (createRefundRequest ctx (new_request_row ctx context dw policy encrypted amountMinor currency payment reason)) (\<lambda>request.
         bind_tx (pilot_audit ctx metadata ''refund_request.created'' (ac_stripeUserId (pc_actor context)) ''refund_request'' (rr_id request)
             [(''amount_minor'', JsStr (show_int amountMinor)), (''currency'', JsStr currency),
              (''payment_key'', JsStr (py_paymentKey payment)), roles_asserted metadata]) (\<lambda>_.
         return_tx (response [(''request_id'', JsStr (rr_id request)), (''status'', JsStr (status_name (rr_workflowStatus request)))])))))))"

definition requestMatchesMutationResource :: "RefundRequest \<Rightarrow> PilotPaymentResource \<Rightarrow> bool" where
  "requestMatchesMutationResource detail resource \<longleftrightarrow>
     (if rs_type resource = RT_charge then rr_chargeId detail = Some (rs_id resource) else rr_paymentIntentId detail = Some (rs_id resource))"

definition tenant_user :: "PilotTenantContext \<Rightarrow> db \<Rightarrow> TenantUser option" where
  "tenant_user context d =
     first_row (\<lambda>u. tu_id u = ac_id (pc_actor context) \<and> tu_tenantId u = pc_tenantId context) (users d)"

definition approver_required :: err where
  "approver_required = PilotApiError ''APPROVER_REQUIRED'' 403 ''This action requires an explicitly enabled approver.''"

definition decision_name :: "ApprovalDecisionKind \<Rightarrow> string" where
  "decision_name k = (case k of D_approve \<Rightarrow> ''approve'' | D_reject \<Rightarrow> ''reject'')"

text \<open>The part of a decision after its guards; \<open>rejection\<close> is the encrypted justification of a rejection.\<close>

definition record_pilot_decision ::
  "PilotMutationMetadata \<Rightarrow> MutationDraws \<Rightarrow> TenantUser \<Rightarrow> ApprovalDecisionKind \<Rightarrow> EncryptedField option \<Rightarrow> string
     \<Rightarrow> txctx \<Rightarrow> PilotStoredResponse tx" where
  "record_pilot_decision metadata dw actor kind rejection requestId ctx =
     (if kind = D_approve \<and> md_approvalAttestationId metadata = None
      then throw_tx (PilotApiError ''APPROVAL_ATTESTATION_REQUIRED'' 503 ''The approval could not be independently attested.'')
      else bind_tx (repo_recordDecision ctx
        \<lparr>ad_id = dw_uuid dw, ad_tenantId = cx_tenant ctx, ad_requestId = requestId, ad_approverUserId = tu_id actor,
         ad_approvalAttestationId = (if kind = D_approve then md_approvalAttestationId metadata else None),
         ad_decision = kind, ad_rejection = map_option encrypted_columns rejection,
         ad_stripeRolesSnapshot = stringify (pilotAssertedStripeRolesSnapshot (md_assertedStripeRoles metadata)),
         ad_decidedAt = cx_clock ctx\<rparr> (dw_now dw)) (\<lambda>result.
        if \<not> (if kind = D_approve then becameApproved result else becameRejected result)
        then throw_tx (PilotApiError ''WORKFLOW_CONFLICT'' 409 ''The request was already decided.'')
        else bind_tx (pilot_audit ctx metadata (''refund_request.'' @ decision_name kind @ ''d'') (tu_stripeUserId actor)
            ''refund_request'' requestId [(''decision'', JsStr (decision_name kind)), roles_asserted metadata]) (\<lambda>_.
          return_tx (response [(''request_id'', JsStr requestId),
            (''status'', JsStr (if kind = D_approve then ''approved'' else ''rejected''))]))))"

definition pilot_decideRefundRequest ::
  "PilotPrismaRepository \<Rightarrow> PilotTenantContext \<Rightarrow> PilotMutationMetadata \<Rightarrow> MutationDraws \<Rightarrow> ApprovalDecisionKind \<Rightarrow> string
     \<Rightarrow> string \<Rightarrow> PilotPaymentResource \<Rightarrow> txctx \<Rightarrow> PilotStoredResponse tx" where
  "pilot_decideRefundRequest repo context metadata dw kind justification requestId resource ctx =
     with_db (\<lambda>d. case getRefundRequest ctx requestId d of
       None \<Rightarrow> throw_tx (PilotApiError ''REQUEST_NOT_FOUND'' 404 ''The refund request was not found.'')
     | Some request \<Rightarrow> (case tenant_user context d of
         None \<Rightarrow> throw_tx approver_required
       | Some actor \<Rightarrow>
         if \<not> tu_approverEnabled actor then throw_tx approver_required
         else if rr_requesterUserId request = tu_id actor
         then throw_tx (PilotApiError ''SELF_APPROVAL'' 403 ''A requester cannot approve or reject their own request.'')
         else if rr_workflowStatus request \<noteq> W_pending_approval \<or> \<not> requestMatchesMutationResource request resource
         then throw_tx (PilotApiError ''WORKFLOW_CONFLICT'' 409 ''The pending request no longer matches this decision.'')
         else bind_tx (if kind = D_reject
             then bind_tx (lift_tx (encrypt (pr_gcm repo) (pr_fieldKeyring repo) (dw_nonce dw) justification
               (rejection_context (pc_tenantId context) (dw_uuid dw)))) (\<lambda>e. return_tx (Some e))
             else return_tx None) (\<lambda>rejection.
           record_pilot_decision metadata dw actor kind rejection requestId ctx)))"

definition pilot_cancelRefundRequest ::
  "PilotTenantContext \<Rightarrow> PilotMutationMetadata \<Rightarrow> MutationDraws \<Rightarrow> string \<Rightarrow> PilotPaymentResource \<Rightarrow> txctx \<Rightarrow> PilotStoredResponse tx" where
  "pilot_cancelRefundRequest context metadata dw requestId resource ctx =
     bind_tx (gets_tx (getRefundRequest ctx requestId)) (\<lambda>found.
     case found of
       None \<Rightarrow> throw_tx (PilotApiError ''REQUEST_NOT_FOUND'' 404 ''The refund request was not found.'')
     | Some request \<Rightarrow>
       if rr_requesterUserId request \<noteq> ac_id (pc_actor context) \<or> \<not> requestMatchesMutationResource request resource
       then throw_tx (PilotApiError ''UNAUTHORIZED'' 403 ''Only the requester can cancel this payment request.'')
       else bind_tx (cancelPendingRequest ctx requestId (ac_id (pc_actor context)) (dw_now dw)) (\<lambda>canceled.
         if \<not> canceled then throw_tx (PilotApiError ''WORKFLOW_CONFLICT'' 409 ''Only a pending request can be canceled.'')
         else bind_tx (pilot_audit ctx metadata ''refund_request.canceled'' (ac_stripeUserId (pc_actor context)) ''refund_request'' requestId
             [roles_asserted metadata]) (\<lambda>_.
           return_tx (response [(''request_id'', JsStr requestId), (''status'', JsStr ''canceled'')]))))"

definition acknowledgeAlert ::
  "PilotTenantContext \<Rightarrow> PilotMutationMetadata \<Rightarrow> MutationDraws \<Rightarrow> string \<Rightarrow> txctx \<Rightarrow> PilotStoredResponse tx" where
  "acknowledgeAlert context metadata dw alertId ctx =
     bind_tx (gets_tx (tenant_user context)) (\<lambda>found.
     case found of None \<Rightarrow> throw_tx approver_required
     | Some actor \<Rightarrow>
       if \<not> tu_approverEnabled actor then throw_tx approver_required
       else bind_tx (acknowledgeExternalRefundAlert ctx alertId (tu_id actor) (dw_now dw)) (\<lambda>acknowledged.
         case acknowledged of
           None \<Rightarrow> throw_tx (PilotApiError ''WORKFLOW_CONFLICT'' 409 ''The external refund alert is missing or already acknowledged.'')
         | Some alert \<Rightarrow> bind_tx (pilot_audit ctx metadata ''external_refund_alert.acknowledged'' (tu_stripeUserId actor)
               ''external_refund_alert'' (al_id alert)
               [roles_asserted metadata, (''stripe_refund_id'', JsStr (al_stripeRefundId alert))]) (\<lambda>_.
             return_tx (response [(''acknowledged'', JsBool True), (''alert_id'', JsStr (al_id alert))]))))"

text \<open>The body of a settings response, the same for reading and for changing them.\<close>

definition settings_body :: "string list \<Rightarrow> bool \<Rightarrow> (string \<times> json) list" where
  "settings_body approvers onboarded = [(''approver_user_ids'', JsArr (map JsStr approvers)), (''expiration_days'', JsNum 7),
     (''onboarding_completed'', JsBool onboarded)]"

definition updateSettings ::
  "PilotTenantContext \<Rightarrow> PilotMutationMetadata \<Rightarrow> MutationDraws \<Rightarrow> string list \<Rightarrow> int \<Rightarrow> bool \<Rightarrow> txctx \<Rightarrow> PilotStoredResponse tx" where
  "updateSettings context metadata dw approverUserIds expirationDays onboardingCompleted ctx =
     bind_tx (gets_tx (\<lambda>d. filter (\<lambda>u. tu_stripeUserId u \<in> set approverUserIds \<and> tu_tenantId u = pc_tenantId context) (users d))) (\<lambda>found.
     if length found \<noteq> length approverUserIds
     then throw_tx (PilotApiError ''NO_DISTINCT_APPROVER'' 422 ''Every approver must open RefundDesk once before activation.'')
     else bind_tx (update_users ctx (\<lambda>u. tu_approverEnabled u \<and> tu_tenantId u = pc_tenantId context)
         (\<lambda>u. u\<lparr>tu_approverEnabled := False\<rparr>)) (\<lambda>_.
     bind_tx (update_users ctx (\<lambda>u. tu_id u \<in> set (map tu_id found) \<and> tu_tenantId u = pc_tenantId context)
         (\<lambda>u. u\<lparr>tu_approverEnabled := True\<rparr>)) (\<lambda>_.
     bind_tx (createApprovalPolicy ctx (ac_stripeUserId (pc_actor context))) (\<lambda>_.
     bind_tx (if onboardingCompleted
         then bind_tx (completeOnboarding ctx (pc_installationId context) (dw_now dw)) (\<lambda>completed.
           if \<not> completed then throw_tx (PilotApiError ''INSTALLATION_INACTIVE'' 403 ''The Stripe installation is not active.'')
           else return_tx ())
         else return_tx ()) (\<lambda>_.
     bind_tx (pilot_audit ctx metadata ''settings.updated'' (ac_stripeUserId (pc_actor context)) ''stripe_installation'' (pc_installationId context)
         [(''approver_count'', JsNum (int (length found))), (''expiration_days'', JsNum expirationDays),
          (''onboarding_completed'', JsBool onboardingCompleted), roles_asserted metadata]) (\<lambda>_.
     bind_tx (gets_tx (getSettings ctx (pc_installationId context))) (\<lambda>settings.
     case settings of
       None \<Rightarrow> throw_tx (PilotApiError ''INSTALLATION_NOT_FOUND'' 404 ''The Stripe installation was not found.'')
     | Some s \<Rightarrow> return_tx (response (settings_body (map tu_stripeUserId (ss_approvers s))
         (si_onboardingCompletedAt (ss_installation s) \<noteq> None))))))))))"

definition createAuditExport ::
  "PilotPrismaRepository \<Rightarrow> PilotTenantContext \<Rightarrow> PilotMutationMetadata \<Rightarrow> MutationDraws \<Rightarrow> txctx \<Rightarrow> PilotStoredResponse tx" where
  "createAuditExport repo context metadata dw ctx =
     (let expiresAt' = toISOString (dw_now dw + AUDIT_LINK_LIFETIME_MILLISECONDS);
          token = createPilotAuditToken (pr_hmac repo) (pr_collate repo)
            \<lparr>tk_actor_id = ac_stripeUserId (pc_actor context), tk_environment = pc_environment context, tk_expires_at = expiresAt',
             tk_installation_id = pc_installationId context, tk_nonce = dw_uuid dw, tk_tenant_id = pc_tenantId context\<rparr>
            (pr_auditSigningKey repo)
      in bind_tx (pilot_audit ctx metadata ''audit.export_prepared'' (ac_stripeUserId (pc_actor context)) ''stripe_installation''
           (pc_installationId context) [(''expires_at'', JsStr expiresAt'), (''format'', JsStr ''csv''), roles_asserted metadata]) (\<lambda>_.
         return_tx (response [(''download_url'', JsStr (pr_origin repo @ ''/api/v1/audit/download?token='' @ token)),
           (''expires_at'', JsStr expiresAt')])))"

definition performMutation ::
  "PilotPrismaRepository \<Rightarrow> PilotTenantContext \<Rightarrow> PilotMutationMetadata \<Rightarrow> MutationDraws \<Rightarrow> PilotMutation \<Rightarrow> txctx \<Rightarrow> PilotStoredResponse tx" where
  "performMutation repo context metadata dw mutation = (case mutation of
     MU_context_sync \<Rightarrow> synchronizeContext context
   | MU_create amountMinor currency justification payment reason resource \<Rightarrow>
       pilot_createRefundRequest repo context metadata dw amountMinor currency justification payment reason
   | MU_approve requestId resource \<Rightarrow> pilot_decideRefundRequest repo context metadata dw D_approve [] requestId resource
   | MU_reject justification requestId resource \<Rightarrow>
       pilot_decideRefundRequest repo context metadata dw D_reject justification requestId resource
   | MU_cancel requestId resource \<Rightarrow> pilot_cancelRefundRequest context metadata dw requestId resource
   | MU_acknowledge alertId \<Rightarrow> acknowledgeAlert context metadata dw alertId
   | MU_settings approverUserIds expirationDays onboardingCompleted \<Rightarrow>
       updateSettings context metadata dw approverUserIds expirationDays onboardingCompleted
   | MU_audit_export format \<Rightarrow> createAuditExport repo context metadata dw)"

subsection \<open>Mutations and their receipts\<close>

text \<open>
  The transaction of a mutation: a stored receipt decides; else the installation is checked again,
  \<open>work\<close> runs and its response is stored.
\<close>

definition receipted_unit ::
  "PilotTenantContext \<Rightarrow> PilotMutationMetadata \<Rightarrow> date \<Rightarrow> (txctx \<Rightarrow> PilotStoredResponse tx) \<Rightarrow> txctx \<Rightarrow> PilotStoredResponse tx" where
  "receipted_unit context metadata later work ctx =
     bind_tx (gets_tx (findMutationReceipt ctx (md_requestNonce metadata))) (\<lambda>existing.
     case existing of
       Some row \<Rightarrow> bind_tx (lift_tx (receiptFromDatabase row)) (\<lambda>receipt.
         bind_tx (lift_tx (assertReceiptMatches receipt metadata)) (\<lambda>_. return_tx (mt_response receipt)))
     | None \<Rightarrow> bind_tx (installation_tenant ctx (pc_installationId context)) (\<lambda>installation.
         bind_tx (lift_tx (assertCurrentInstallation installation context)) (\<lambda>_.
         bind_tx (work ctx) (\<lambda>result.
         if sr_status result < 500
         then bind_tx (createMutationReceipt ctx (receipt_row ctx metadata later result)) (\<lambda>_. return_tx result)
         else return_tx result))))"

text \<open>The common end of both methods: a unique violation means that someone else stored the receipt.\<close>

definition after_transaction ::
  "PilotPrismaRepository \<Rightarrow> PilotTenantContext \<Rightarrow> PilotMutationMetadata \<Rightarrow> err + PilotStoredResponse \<Rightarrow> PilotStoredResponse act" where
  "after_transaction repo context metadata outcome = (case outcome of
     Inr r \<Rightarrow> return_act r
   | Inl (UniqueViolation _) \<Rightarrow> bind_act (pilot_findMutationReceipt repo context (md_requestNonce metadata)) (\<lambda>found.
       case found of
         Some receipt \<Rightarrow> bind_act (lift_act (assertReceiptMatches receipt metadata)) (\<lambda>_. return_act (mt_response receipt))
       | None \<Rightarrow> throw_act (PilotApiError ''WORKFLOW_CONFLICT'' 409 ''The workflow changed concurrently.''))
   | Inl e \<Rightarrow> throw_act e)"

definition executeMutation ::
  "PilotPrismaRepository \<Rightarrow> PilotTenantContext \<Rightarrow> PilotMutationMetadata \<Rightarrow> PilotMutation \<Rightarrow> PilotStoredResponse act" where
  "executeMutation repo context metadata mutation =
     bind_act (draw repo) (\<lambda>dw.
     bind_act (try_act (tx_act (pr_process repo) (\<lambda>ctx. withTenantTransaction ctx (pc_tenantId context)
         (receipted_unit context metadata (dw_later dw) (performMutation repo context metadata dw mutation))))) (\<lambda>outcome.
     after_transaction repo context metadata outcome))"

definition storeMutationReceipt ::
  "PilotPrismaRepository \<Rightarrow> PilotTenantContext \<Rightarrow> PilotMutationMetadata \<Rightarrow> PilotStoredResponse \<Rightarrow> PilotStoredResponse act" where
  "storeMutationReceipt repo context metadata responseToStore =
     (if \<not> safe_integer (sr_status responseToStore) \<or> sr_status responseToStore < 200 \<or> sr_status responseToStore \<ge> 500
      then throw_act (PilotApiError ''INTERNAL_ERROR'' 500 ''A mutation receipt response is invalid.'')
      else bind_act (draw repo) (\<lambda>dw.
       bind_act (try_act (tx_act (pr_process repo) (\<lambda>ctx. withTenantTransaction ctx (pc_tenantId context)
         (receipted_unit context metadata (dw_later dw) (\<lambda>_. return_tx responseToStore))))) (\<lambda>outcome.
       after_transaction repo context metadata outcome)))"

end
