(* ===== verification/Pilot_Reads.thy ===== *)
theory Pilot_Reads
  imports Pilot_Repository
begin

text \<open>
  The reads of \<open>pilot-prisma-repository.ts\<close>: requests as a user of the API sees them, the active request
  of a payment, alerts and settings. A justification is decrypted for its requester and for
  approvers only.
\<close>

subsection \<open>Requests\<close>

definition requestResource :: "RefundRequest \<Rightarrow> err + string \<times> AttestationResourceType" where
  "requestResource detail = (case rr_paymentIntentId detail of
     Some i \<Rightarrow> Inr (i, RT_payment_intent)
   | None \<Rightarrow> (case rr_chargeId detail of Some c \<Rightarrow> Inr (c, RT_charge)
     | None \<Rightarrow> Inl (PilotApiError ''INTERNAL_ERROR'' 500 ''A refund request has no payment resource.'')))"

definition stored_field :: "EncryptedColumns \<Rightarrow> EncryptedField" where
  "stored_field e = \<lparr>ef_algorithm = ''aes-256-gcm'', ef_keyVersion = enc_keyVersion e, ef_nonce = b64_encode (enc_nonce e),
     ef_ciphertext = b64_encode (enc_ciphertext e), ef_authenticationTag = b64_encode (enc_authTag e)\<rparr>"

definition visible_justification :: "PilotPrismaRepository \<Rightarrow> RefundRequest \<Rightarrow> PilotTenantContext \<Rightarrow> err + string option" where
  "visible_justification repo detail context =
     (if rr_requesterUserId detail = ac_id (pc_actor context) \<or> ac_approverEnabled (pc_actor context)
      then map_sum id Some (decrypt (pr_gcm repo) (pr_fieldKeyring repo) (stored_field (rr_justification detail))
        (justification_context (pc_tenantId context) (rr_id detail)))
      else Inr None)"

definition mapRequest ::
  "PilotPrismaRepository \<Rightarrow> PilotTenantContext \<Rightarrow> RefundRequest \<times> ApprovalDecisionRow list \<Rightarrow> string \<Rightarrow> err + PilotRequestRecord" where
  "mapRequest repo context request requesterStripeUserId = (case request of (detail, decided) \<Rightarrow>
     (case rr_chargeId detail of
        None \<Rightarrow> Inl (PilotApiError ''INTERNAL_ERROR'' 500 ''A refund request has no Charge identifier.'')
      | Some chargeId \<Rightarrow>
        bind_err (requestResource detail) (\<lambda>resource.
        bind_err (visible_justification repo detail context) (\<lambda>justification.
        let isRequester = (rr_requesterUserId detail = ac_id (pc_actor context));
            alreadyDecided = list_ex (\<lambda>x. ad_approverUserId x = ac_id (pc_actor context)) decided;
            pending = (rr_workflowStatus detail = W_pending_approval)
        in Inr \<lparr>pq_amount_minor = show_int (rr_amountMinor detail), pq_can_cancel = (isRequester \<and> pending),
             pq_can_decide = (ac_approverEnabled (pc_actor context) \<and> \<not> isRequester \<and> \<not> alreadyDecided \<and> pending),
             pq_created_at = toISOString (rr_createdAt detail), pq_currency = js_lower (rr_currency detail),
             pq_expires_at = toISOString (rr_expiresAt detail), pq_id = rr_id detail, pq_is_requester = isRequester,
             pq_justification = justification, pq_reason = rr_reason detail, pq_requester_user_id = requesterStripeUserId,
             pq_resource_id = fst resource, pq_resource_type = snd resource, pq_status = rr_workflowStatus detail,
             pq_version = rr_version detail, pq_charge_id = chargeId, pq_payment_intent_id = rr_paymentIntentId detail\<rparr>))))"

definition requester_unresolved :: err where
  "requester_unresolved = PilotApiError ''INTERNAL_ERROR'' 500 ''A refund requester could not be resolved.''"

definition request_with_decisions :: "db \<Rightarrow> RefundRequest \<Rightarrow> RefundRequest \<times> ApprovalDecisionRow list" where
  "request_with_decisions d r =
     (r, sort_key (\<lambda>x. (ad_decidedAt x, ad_id x)) (filter (\<lambda>x. ad_requestId x = rr_id r \<and> ad_tenantId x = rr_tenantId r) (decision_rows d)))"

definition requester_of :: "PilotTenantContext \<Rightarrow> RefundRequest \<Rightarrow> db \<Rightarrow> TenantUser option" where
  "requester_of context r d = first_row (\<lambda>u. tu_id u = rr_requesterUserId r \<and> tu_tenantId u = pc_tenantId context) (users d)"

definition map_resolved :: "PilotPrismaRepository \<Rightarrow> PilotTenantContext \<Rightarrow> db \<Rightarrow> RefundRequest \<Rightarrow> err + PilotRequestRecord" where
  "map_resolved repo context d r = (case requester_of context r d of None \<Rightarrow> Inl requester_unresolved
     | Some u \<Rightarrow> mapRequest repo context (request_with_decisions d r) (tu_stripeUserId u))"

fun map_each :: "('a \<Rightarrow> err + 'b) \<Rightarrow> 'a list \<Rightarrow> err + 'b list" where
  "map_each f [] = Inr []"
| "map_each f (x # xs) = bind_err (f x) (\<lambda>y. bind_err (map_each f xs) (\<lambda>ys. Inr (y # ys)))"

definition page :: "('a \<Rightarrow> string) \<Rightarrow> 'a list \<Rightarrow> int \<Rightarrow> 'a PilotPage" where
  "page ident items requestedLimit =
     (items, if int (length items) = requestedLimit then (if items = [] then None else Some (ident (last items))) else None)"

definition tenant_read :: "PilotPrismaRepository \<Rightarrow> PilotTenantContext \<Rightarrow> (txctx \<Rightarrow> 'a tx) \<Rightarrow> 'a act" where
  "tenant_read repo context f = tx_act (pr_process repo) (\<lambda>ctx. withTenantTransaction ctx (pc_tenantId context) f)"

definition active_request :: "PilotTenantContext \<Rightarrow> RefundRequest \<Rightarrow> PilotActiveRequest" where
  "active_request context r = \<lparr>pv_can_cancel = (rr_requesterUserId r = ac_id (pc_actor context)
       \<and> rr_workflowStatus r = W_pending_approval \<and> rr_effectState r = E_not_started),
     pv_id = rr_id r, pv_status = rr_workflowStatus r\<rparr>"

definition findActiveRequest :: "PilotPrismaRepository \<Rightarrow> PilotTenantContext \<Rightarrow> string \<Rightarrow> PilotActiveRequest option act" where
  "findActiveRequest repo context paymentKey =
     tenant_read repo context (\<lambda>ctx. gets_tx (\<lambda>d.
       map_option (active_request context) (getActiveRequestByPayment ctx (pc_environment context) paymentKey d)))"

definition list_scope :: "PilotListScope \<Rightarrow> RequestListScope" where
  "list_scope s = (case s of LS_my_requests \<Rightarrow> RS_requester | LS_awaiting_my_approval \<Rightarrow> RS_awaiting_approval | LS_all_activity \<Rightarrow> RS_all)"

definition list_unit ::
  "PilotPrismaRepository \<Rightarrow> PilotTenantContext \<Rightarrow> string option \<Rightarrow> int \<Rightarrow> PilotListScope \<Rightarrow> txctx \<Rightarrow> PilotRequestRecord PilotPage tx" where
  "list_unit repo context cursor limit scope ctx =
     bind_tx (listRefundRequests ctx (ac_id (pc_actor context)) cursor limit (list_scope scope)) (\<lambda>found.
     with_db (\<lambda>d. bind_tx (lift_tx (map_each (map_resolved repo context d) found)) (\<lambda>mapped. return_tx (page pq_id mapped limit))))"

definition pilot_listRefundRequests ::
  "PilotPrismaRepository \<Rightarrow> PilotTenantContext \<Rightarrow> string option \<Rightarrow> int \<Rightarrow> PilotListScope \<Rightarrow> PilotRequestRecord PilotPage act" where
  "pilot_listRefundRequests repo context cursor limit scope = tenant_read repo context (list_unit repo context cursor limit scope)"

definition get_unit :: "PilotPrismaRepository \<Rightarrow> PilotTenantContext \<Rightarrow> string \<Rightarrow> txctx \<Rightarrow> PilotRequestRecord option tx" where
  "get_unit repo context requestId ctx =
     with_db (\<lambda>d. case getRefundRequest ctx requestId d of None \<Rightarrow> return_tx None
       | Some r \<Rightarrow> bind_tx (lift_tx (map_resolved repo context d r)) (\<lambda>m. return_tx (Some m)))"

definition pilot_getRefundRequest :: "PilotPrismaRepository \<Rightarrow> PilotTenantContext \<Rightarrow> string \<Rightarrow> PilotRequestRecord option act" where
  "pilot_getRefundRequest repo context requestId = tenant_read repo context (get_unit repo context requestId)"

subsection \<open>Alerts and settings\<close>

definition external_alert :: "ExternalRefundAlert \<Rightarrow> PilotExternalAlert" where
  "external_alert a = \<lparr>px_acknowledged = (al_status a = AL_acknowledged), px_amount_minor = show_int (al_amountMinor a),
     px_classification = al_classification a, px_currency = js_lower (al_currency a),
     px_detected_at = toISOString (al_detectedAt a), px_id = al_id a, px_refund_id = al_stripeRefundId a\<rparr>"

definition pilot_listExternalAlerts ::
  "PilotPrismaRepository \<Rightarrow> PilotTenantContext \<Rightarrow> string option \<Rightarrow> int \<Rightarrow> PilotExternalAlert PilotPage act" where
  "pilot_listExternalAlerts repo context cursor limit =
     tenant_read repo context (\<lambda>ctx. bind_tx (listExternalRefundAlerts ctx None cursor limit) (\<lambda>found.
       return_tx (page px_id (map external_alert found) limit)))"

definition observed_user :: "TenantUser \<Rightarrow> PilotObservedUser" where
  "observed_user u = \<lparr>po_stripe_user_id = tu_stripeUserId u, po_display_name = tu_displayName u,
     po_approver_enabled = tu_approverEnabled u, po_last_seen_at = toISOString (tu_lastVerifiedAt u)\<rparr>"

definition settings_unit :: "PilotTenantContext \<Rightarrow> txctx \<Rightarrow> PilotSettings tx" where
  "settings_unit context ctx =
     with_db (\<lambda>d. case getSettings ctx (pc_installationId context) d of
       None \<Rightarrow> throw_tx (PilotApiError ''INSTALLATION_NOT_FOUND'' 404 ''The Stripe installation was not found.'')
     | Some s \<Rightarrow> return_tx \<lparr>pt_approver_user_ids = map tu_stripeUserId (ss_approvers s), pt_expiration_days = 7,
         pt_onboarding_completed = (si_onboardingCompletedAt (ss_installation s) \<noteq> None),
         pt_observed_users = map observed_user (listObservedTenantUsers ctx d)\<rparr>)"

definition pilot_getSettings :: "PilotPrismaRepository \<Rightarrow> PilotTenantContext \<Rightarrow> PilotSettings act" where
  "pilot_getSettings repo context = tenant_read repo context (settings_unit context)"

end
