(* ===== verification/Pilot_Service.thy ===== *)
theory Pilot_Service
  imports Pilot_Reads
begin

text \<open>
  \<open>apps/platform/src/server/pilot-service.ts\<close>: the dispatch of a signed request. The reader of payments
  is a parameter indexed by the number of actions performed; its errors are the errors of the call.
\<close>

record PilotDispatchRequest =
  dr_approvalAttestationId :: "string option"
  dr_canonicalRequestHash :: bytes
  dr_command :: PilotCommand
  dr_identity :: PilotSignedIdentity
  dr_mutation :: bool
  dr_requestNonce :: string
  dr_responseRequestId :: string
  dr_resource :: "PilotPaymentResource option"

record PilotService =
  ps_repository :: PilotPrismaRepository
  ps_retrievePayment :: "nat \<Rightarrow> PilotTenantContext \<Rightarrow> PilotPaymentResource \<Rightarrow> err + NormalizedPayment"
  ps_admitted :: "(string \<times> StripeEnvironment) list"

subsection \<open>Guards\<close>

definition isAdministrator :: "PilotSignedIdentity \<Rightarrow> bool" where
  "isAdministrator identity \<longleftrightarrow> id_rolesAsserted identity \<and> hasStripeAdministratorRole (id_roles identity)"

definition requireApprover :: "PilotTenantContext \<Rightarrow> err + unit" where
  "requireApprover context = (if \<not> ac_approverEnabled (pc_actor context) then Inl approver_required else Inr ())"

definition admin_required :: err where
  "admin_required = PilotApiError ''ADMIN_REQUIRED'' 403 ''A signed Stripe Administrator role is required.''"

definition audit_refused :: err where
  "audit_refused = PilotApiError ''UNAUTHORIZED'' 403 ''Audit export requires an Administrator or explicit approver.''"

definition assertCurrentMutationAccess :: "PilotTenantContext \<Rightarrow> PilotDispatchRequest \<Rightarrow> err + unit" where
  "assertCurrentMutationAccess context input = (case operation_of (dr_command input) of
     OP_refund_request_decide \<Rightarrow> requireApprover context
   | OP_external_alert_acknowledge \<Rightarrow> requireApprover context
   | OP_settings_update \<Rightarrow> if \<not> isAdministrator (dr_identity input) then Inl admin_required else Inr ()
   | OP_audit_export \<Rightarrow> if \<not> ac_approverEnabled (pc_actor context) \<and> \<not> isAdministrator (dr_identity input)
       then Inl audit_refused else Inr ()
   | _ \<Rightarrow> Inr ())"

definition INELIGIBILITY_MESSAGES :: "IneligibilityCode \<Rightarrow> string" where
  "INELIGIBILITY_MESSAGES c = (case c of
     AMOUNT_EXCEEDS_REMAINING \<Rightarrow> ''The requested amount exceeds the remaining refundable balance.''
   | CARD_PRESENT_UNSUPPORTED \<Rightarrow> ''Card-present payments are not supported during the pilot.''
   | CONNECT_UNSUPPORTED \<Rightarrow> ''Payments with Connect transfer semantics are not supported during the pilot.''
   | CURRENCY_MISMATCH \<Rightarrow> ''The requested currency does not match the payment.''
   | DISPUTED \<Rightarrow> ''Disputed payments are not eligible for this workflow.''
   | NOTHING_REFUNDABLE \<Rightarrow> ''This payment has no refundable balance remaining.''
   | NOT_CAPTURED \<Rightarrow> ''The payment has not been captured.''
   | NOT_PAID \<Rightarrow> ''The payment has not been paid.''
   | PAYMENT_METHOD_UNSUPPORTED \<Rightarrow> ''Only captured card payments are supported during the pilot.'')"

definition requirePaymentResource :: "PilotPaymentResource option \<Rightarrow> err + PilotPaymentResource" where
  "requirePaymentResource resource = (case resource of
     None \<Rightarrow> Inl (PilotApiError ''RESOURCE_MISMATCH'' 400 ''This operation requires a Charge or PaymentIntent resource.'')
   | Some r \<Rightarrow> Inr r)"

definition requestMatchesResource :: "PilotRequestRecord \<Rightarrow> PilotPaymentResource \<Rightarrow> bool" where
  "requestMatchesResource request resource \<longleftrightarrow>
     (if rs_type resource = RT_charge then pq_charge_id request = rs_id resource
      else pq_payment_intent_id request = Some (rs_id resource))"

definition paymentMatchesResource :: "NormalizedPayment \<Rightarrow> PilotPaymentResource \<Rightarrow> bool" where
  "paymentMatchesResource payment resource \<longleftrightarrow>
     (if rs_type resource = RT_charge then py_chargeId payment = rs_id resource
      else py_paymentIntentId payment = Some (rs_id resource))"

definition json_option :: "string option \<Rightarrow> json" where
  "json_option x = (case x of None \<Rightarrow> JsNull | Some s \<Rightarrow> JsStr s)"

definition requestSummaryJson :: "PilotRequestRecord \<Rightarrow> (string \<times> json) list" where
  "requestSummaryJson r = [(''amount_minor'', JsStr (pq_amount_minor r)), (''can_cancel'', JsBool (pq_can_cancel r)),
     (''can_decide'', JsBool (pq_can_decide r)), (''created_at'', JsStr (pq_created_at r)), (''currency'', JsStr (pq_currency r)),
     (''expires_at'', JsStr (pq_expires_at r)), (''id'', JsStr (pq_id r)), (''is_requester'', JsBool (pq_is_requester r)),
     (''justification'', json_option (pq_justification r)), (''reason'', JsStr (reason_name (pq_reason r))),
     (''requester_user_id'', JsStr (pq_requester_user_id r)), (''resource_id'', JsStr (pq_resource_id r)),
     (''resource_type'', JsStr (resource_type_name (pq_resource_type r))), (''status'', JsStr (status_name (pq_status r))),
     (''version'', JsNum (pq_version r))]"

definition classification_name :: "AlertClassification \<Rightarrow> string" where
  "classification_name c = (case c of AC_external \<Rightarrow> ''external'' | AC_tampered \<Rightarrow> ''tampered'' | AC_proof_replay \<Rightarrow> ''proof_replay'')"

definition alert_json :: "PilotExternalAlert \<Rightarrow> json" where
  "alert_json a = JsObj [(''acknowledged'', JsBool (px_acknowledged a)), (''amount_minor'', JsStr (px_amount_minor a)),
     (''classification'', JsStr (classification_name (px_classification a))), (''currency'', JsStr (px_currency a)),
     (''detected_at'', JsStr (px_detected_at a)), (''id'', JsStr (px_id a)), (''refund_id'', JsStr (px_refund_id a))]"

definition page_json :: "json list \<Rightarrow> string option \<Rightarrow> PilotStoredResponse" where
  "page_json items next_cursor = response [(''items'', JsArr items), (''next_cursor'', json_option next_cursor)]"

definition contextSyncDisplayName :: "PilotCommand \<Rightarrow> string option" where
  "contextSyncDisplayName c = (case c of ContextSync (Some n) \<Rightarrow> if length n > 0 then Some n else None | _ \<Rightarrow> None)"

definition assertContextBinding :: "PilotTenantContext \<Rightarrow> PilotSignedIdentity \<Rightarrow> err + unit" where
  "assertContextBinding context identity =
     (if pc_stripeAccountId context \<noteq> id_accountId identity \<or> pc_environment context \<noteq> id_environment identity
      then Inl (PilotApiError ''ACCOUNT_ENVIRONMENT_MISMATCH'' 403 ''The signed account and environment do not match the installation.'')
      else if ac_stripeUserId (pc_actor context) \<noteq> id_userId identity
      then Inl (PilotApiError ''UNAUTHORIZED'' 403 ''The signed Stripe user does not match the tenant actor.'')
      else Inr ())"

definition pilot_eligibility_input :: "NormalizedPayment \<Rightarrow> int option \<Rightarrow> string option \<Rightarrow> PaymentEligibilityInput" where
  "pilot_eligibility_input payment amount currency = \<lparr>pe_paymentKey = py_paymentKey payment,
     amountCaptured = py_amountCaptured payment, amountRefunded = py_amountRefunded payment,
     pe_currency = py_currency payment, paid = py_paid payment, captured = py_captured payment,
     disputed = py_disputed payment, paymentMethodType = py_paymentMethodType payment,
     hasConnectSemantics = py_hasConnectSemantics payment, requestedAmountMinor = amount, requestedCurrency = currency\<rparr>"

text \<open>\<open>BigInt\<close> of a decimal text that its schema has checked.\<close>

definition big_int :: "string \<Rightarrow> int" where
  "big_int s = int (read_nat 0 s)"

definition workflow_conflict :: "string \<Rightarrow> err" where
  "workflow_conflict message = PilotApiError ''WORKFLOW_CONFLICT'' 409 message"

subsection \<open>The operations\<close>

definition retrieve_payment :: "PilotService \<Rightarrow> PilotTenantContext \<Rightarrow> PilotPaymentResource \<Rightarrow> NormalizedPayment act" where
  "retrieve_payment svc context resource =
     bind_act (\<lambda>w. (ps_retrievePayment svc (wl_time w) context resource, tick w)) (\<lambda>payment.
     if \<not> paymentMatchesResource payment resource
     then throw_act (PilotApiError ''RESOURCE_MISMATCH'' 422 ''Stripe returned a payment that does not match the signed resource.'')
     else return_act payment)"

definition active_request_json :: "PilotActiveRequest option \<Rightarrow> json" where
  "active_request_json x = (case x of None \<Rightarrow> JsNull
     | Some a \<Rightarrow> JsObj [(''can_cancel'', JsBool (pv_can_cancel a)), (''id'', JsStr (pv_id a)), (''status'', JsStr (status_name (pv_status a)))])"

definition paymentEligibility :: "PilotService \<Rightarrow> PilotTenantContext \<Rightarrow> PilotPaymentResource option \<Rightarrow> PilotStoredResponse act" where
  "paymentEligibility svc context possibleResource =
     bind_act (lift_act (requirePaymentResource possibleResource)) (\<lambda>resource.
     bind_act (retrieve_payment svc context resource) (\<lambda>payment.
     bind_act (lift_act (evaluatePaymentEligibility (pilot_eligibility_input payment None None))) (\<lambda>eligibility.
     bind_act (findActiveRequest (ps_repository svc) context (py_paymentKey payment)) (\<lambda>activeRequest.
     return_act (response [(''active_request'', active_request_json activeRequest), (''approvals_required'', JsNum 1),
       (''currency'', JsStr (js_lower (py_currency payment))),
       (''eligible'', JsBool (case eligibility of Eligible _ _ _ \<Rightarrow> True | Ineligible _ \<Rightarrow> False)),
       (''ineligible_reason'', (case eligibility of Eligible _ _ _ \<Rightarrow> JsNull | Ineligible code \<Rightarrow> JsStr (INELIGIBILITY_MESSAGES code))),
       (''remaining_amount_minor'', JsStr (show_int (max 0 (py_amountCaptured payment - py_amountRefunded payment))))])))))"

definition service_createRefundRequest ::
  "PilotService \<Rightarrow> PilotTenantContext \<Rightarrow> PilotMutationMetadata \<Rightarrow> PilotPaymentResource option \<Rightarrow> string \<Rightarrow> string \<Rightarrow> RefundReason
     \<Rightarrow> string \<Rightarrow> PilotStoredResponse act" where
  "service_createRefundRequest svc context metadata possibleResource amount currency reason justification =
     bind_act (lift_act (requirePaymentResource possibleResource)) (\<lambda>resource.
     bind_act (retrieve_payment svc context resource) (\<lambda>payment.
     bind_act (lift_act (evaluatePaymentEligibility (pilot_eligibility_input payment (Some (big_int amount)) (Some currency)))) (\<lambda>eligibility.
     case eligibility of
       Ineligible code \<Rightarrow> throw_act (PilotApiError ''PAYMENT_NOT_ELIGIBLE'' 422 (INELIGIBILITY_MESSAGES code))
     | Eligible paymentKey normalized remaining \<Rightarrow>
       bind_act (findActiveRequest (ps_repository svc) context (py_paymentKey payment)) (\<lambda>activeRequest.
       if activeRequest \<noteq> None
       then throw_act (workflow_conflict ''A non-terminal refund request already exists for this payment.'')
       else executeMutation (ps_repository svc) context metadata
         (MU_create (big_int amount) normalized justification payment reason resource)))))"

definition requireRequest ::
  "PilotService \<Rightarrow> PilotTenantContext \<Rightarrow> string \<Rightarrow> PilotPaymentResource \<Rightarrow> PilotRequestRecord act" where
  "requireRequest svc context requestId resource =
     bind_act (pilot_getRefundRequest (ps_repository svc) context requestId) (\<lambda>found.
     case found of
       None \<Rightarrow> throw_act (PilotApiError ''REQUEST_NOT_FOUND'' 404 ''The refund request was not found.'')
     | Some request \<Rightarrow>
       if \<not> requestMatchesResource request resource
       then throw_act (PilotApiError ''RESOURCE_MISMATCH'' 403 ''The request does not belong to the signed payment resource.'')
       else if \<not> pq_is_requester request \<and> \<not> ac_approverEnabled (pc_actor context)
       then throw_act (PilotApiError ''UNAUTHORIZED'' 403 ''Only the requester or an explicit approver can read this request.'')
       else return_act request)"

text \<open>The guards both decisions share; the request as the approver sees it is passed on.\<close>

definition decidable_request ::
  "PilotService \<Rightarrow> PilotTenantContext \<Rightarrow> PilotPaymentResource option \<Rightarrow> string \<Rightarrow> (PilotPaymentResource \<times> PilotRequestRecord) act" where
  "decidable_request svc context possibleResource requestId =
     bind_act (lift_act (requireApprover context)) (\<lambda>_.
     bind_act (lift_act (requirePaymentResource possibleResource)) (\<lambda>resource.
     bind_act (requireRequest svc context requestId resource) (\<lambda>request.
     if pq_requester_user_id request = ac_stripeUserId (pc_actor context)
     then throw_act (PilotApiError ''SELF_APPROVAL'' 403 ''A requester cannot approve or reject their own request.'')
     else if pq_status request \<noteq> W_pending_approval
     then throw_act (workflow_conflict ''Only a pending request can be decided.'')
     else return_act (resource, request))))"

definition snapshot_matches :: "ApprovalSnapshot \<Rightarrow> int \<Rightarrow> PilotRequestRecord \<Rightarrow> bool" where
  "snapshot_matches snapshot expectedVersion request \<longleftrightarrow> expectedVersion = pq_version request
     \<and> sn_amount_minor snapshot = pq_amount_minor request \<and> sn_currency snapshot = pq_currency request
     \<and> sn_reason snapshot = pq_reason request \<and> sn_requester_user_id snapshot = pq_requester_user_id request"

definition service_approve ::
  "PilotService \<Rightarrow> PilotTenantContext \<Rightarrow> PilotMutationMetadata \<Rightarrow> PilotPaymentResource option \<Rightarrow> string \<Rightarrow> int \<Rightarrow> ApprovalSnapshot
     \<Rightarrow> PilotStoredResponse act" where
  "service_approve svc context metadata possibleResource requestId expectedVersion snapshot =
     bind_act (decidable_request svc context possibleResource requestId) (\<lambda>(resource, request).
     if md_approvalAttestationId metadata = None \<or> \<not> snapshot_matches snapshot expectedVersion request
     then throw_act (workflow_conflict ''The signed approval no longer matches the request snapshot.'')
     else executeMutation (ps_repository svc) context metadata (MU_approve requestId resource))"

definition service_reject ::
  "PilotService \<Rightarrow> PilotTenantContext \<Rightarrow> PilotMutationMetadata \<Rightarrow> PilotPaymentResource option \<Rightarrow> string \<Rightarrow> string
     \<Rightarrow> PilotStoredResponse act" where
  "service_reject svc context metadata possibleResource requestId justification =
     bind_act (decidable_request svc context possibleResource requestId) (\<lambda>(resource, request).
     executeMutation (ps_repository svc) context metadata (MU_reject justification requestId resource))"

definition service_cancelRefundRequest ::
  "PilotService \<Rightarrow> PilotTenantContext \<Rightarrow> PilotMutationMetadata \<Rightarrow> PilotPaymentResource option \<Rightarrow> string \<Rightarrow> PilotStoredResponse act" where
  "service_cancelRefundRequest svc context metadata possibleResource requestId =
     bind_act (lift_act (requirePaymentResource possibleResource)) (\<lambda>resource.
     bind_act (requireRequest svc context requestId resource) (\<lambda>request.
     if pq_requester_user_id request \<noteq> ac_stripeUserId (pc_actor context)
     then throw_act (PilotApiError ''UNAUTHORIZED'' 403 ''Only the original requester can cancel this request.'')
     else if pq_status request \<noteq> W_pending_approval
     then throw_act (workflow_conflict ''Only a pending request can be canceled.'')
     else executeMutation (ps_repository svc) context metadata (MU_cancel requestId resource)))"

definition service_listRefundRequests ::
  "PilotService \<Rightarrow> PilotTenantContext \<Rightarrow> PilotListScope \<Rightarrow> int \<Rightarrow> string option \<Rightarrow> PilotStoredResponse act" where
  "service_listRefundRequests svc context scope limit cursor =
     bind_act (lift_act (if scope = LS_awaiting_my_approval \<or> scope = LS_all_activity then requireApprover context else Inr ())) (\<lambda>_.
     bind_act (pilot_listRefundRequests (ps_repository svc) context cursor limit scope) (\<lambda>(items, next_cursor).
     return_act (page_json (map (\<lambda>r. JsObj (requestSummaryJson r)) items) next_cursor)))"

definition service_updateSettings ::
  "PilotService \<Rightarrow> PilotTenantContext \<Rightarrow> PilotMutationMetadata \<Rightarrow> PilotSignedIdentity \<Rightarrow> string list \<Rightarrow> int \<Rightarrow> bool \<Rightarrow> PilotStoredResponse act" where
  "service_updateSettings svc context metadata identity approvers expirationDays onboardingCompleted =
     (if \<not> isAdministrator identity then throw_act admin_required
      else let approverUserIds = rev (remdups (rev approvers))
      in if length approverUserIds = 0
         then throw_act (PilotApiError ''NO_DISTINCT_APPROVER'' 422 ''At least one explicit approver must remain enabled.'')
         else executeMutation (ps_repository svc) context metadata (MU_settings approverUserIds expirationDays onboardingCompleted))"

definition run_operation ::
  "PilotService \<Rightarrow> PilotDispatchRequest \<Rightarrow> PilotTenantContext \<Rightarrow> PilotMutationMetadata \<Rightarrow> PilotStoredResponse act" where
  "run_operation svc input context metadata = (case dr_command input of
     ContextSync _ \<Rightarrow> executeMutation (ps_repository svc) context metadata MU_context_sync
   | PaymentEligibility' \<Rightarrow> paymentEligibility svc context (dr_resource input)
   | RefundRequestCreate amount currency reason justification \<Rightarrow>
       service_createRefundRequest svc context metadata (dr_resource input) amount currency reason justification
   | RefundRequestList scope limit cursor \<Rightarrow> service_listRefundRequests svc context scope limit cursor
   | RefundRequestGet requestId \<Rightarrow>
       bind_act (lift_act (requirePaymentResource (dr_resource input))) (\<lambda>resource.
       bind_act (requireRequest svc context requestId resource) (\<lambda>request. return_act (response (requestSummaryJson request))))
   | RefundRequestApprove requestId expectedVersion snapshot \<Rightarrow>
       service_approve svc context metadata (dr_resource input) requestId expectedVersion snapshot
   | RefundRequestReject requestId justification \<Rightarrow> service_reject svc context metadata (dr_resource input) requestId justification
   | RefundRequestCancel requestId \<Rightarrow> service_cancelRefundRequest svc context metadata (dr_resource input) requestId
   | ExternalAlertList limit cursor \<Rightarrow>
       bind_act (lift_act (requireApprover context)) (\<lambda>_.
       bind_act (pilot_listExternalAlerts (ps_repository svc) context cursor limit) (\<lambda>(items, next_cursor).
       return_act (page_json (map alert_json items) next_cursor)))
   | ExternalAlertAcknowledge alertId \<Rightarrow>
       bind_act (lift_act (requireApprover context)) (\<lambda>_. executeMutation (ps_repository svc) context metadata (MU_acknowledge alertId))
   | SettingsGet \<Rightarrow> bind_act (pilot_getSettings (ps_repository svc) context) (\<lambda>settings.
       return_act (response (settings_body (pt_approver_user_ids settings) (pt_onboarding_completed settings))))
   | SettingsUpdate approvers expirationDays onboardingCompleted \<Rightarrow>
       service_updateSettings svc context metadata (dr_identity input) approvers expirationDays onboardingCompleted
   | AuditExport format \<Rightarrow>
       if \<not> ac_approverEnabled (pc_actor context) \<and> \<not> isAdministrator (dr_identity input) then throw_act audit_refused
       else executeMutation (ps_repository svc) context metadata (MU_audit_export format))"

subsection \<open>Dispatch\<close>

definition mutation_metadata :: "PilotDispatchRequest \<Rightarrow> PilotMutationMetadata" where
  "mutation_metadata input = \<lparr>md_actorId = id_userId (dr_identity input), md_approvalAttestationId = dr_approvalAttestationId input,
     md_assertedStripeRoles = (if id_rolesAsserted (dr_identity input) then Some (id_roles (dr_identity input)) else None),
     md_canonicalRequestHash = dr_canonicalRequestHash input, md_operation = operation_of (dr_command input),
     md_requestNonce = dr_requestNonce input, md_responseRequestId = dr_responseRequestId input\<rparr>"

text \<open>The handler of errors: those a client may retry into a different answer are not stored.\<close>

definition catch_operation ::
  "PilotService \<Rightarrow> PilotDispatchRequest \<Rightarrow> PilotTenantContext \<Rightarrow> PilotMutationMetadata \<Rightarrow> err + PilotStoredResponse \<Rightarrow> PilotStoredResponse act" where
  "catch_operation svc input context metadata outcome = (case outcome of
     Inr r \<Rightarrow> return_act r
   | Inl (PilotApiError code status' message) \<Rightarrow>
       if \<not> dr_mutation input \<or> status' = 403 \<or> status' \<ge> 500 then throw_act (PilotApiError code status' message)
       else storeMutationReceipt (ps_repository svc) context metadata
         \<lparr>sr_body = [(''code'', JsStr code), (''message'', JsStr message), (''request_id'', JsStr (md_responseRequestId metadata))],
          sr_status = status'\<rparr>
   | Inl e \<Rightarrow> throw_act e)"

definition dispatch_in_context ::
  "PilotService \<Rightarrow> PilotDispatchRequest \<Rightarrow> PilotTenantContext \<Rightarrow> PilotStoredResponse act" where
  "dispatch_in_context svc input context =
     bind_act (lift_act (assertContextBinding context (dr_identity input))) (\<lambda>_.
     bind_act (lift_act (assertAllowed context (operation_of (dr_command input)) (id_roles (dr_identity input)))) (\<lambda>_.
     bind_act (lift_act (if dr_mutation input then assertCurrentMutationAccess context input else Inr ())) (\<lambda>_.
     bind_act (if dr_mutation input then pilot_findMutationReceipt (ps_repository svc) context (dr_requestNonce input)
         else return_act None) (\<lambda>found.
     case found of
       Some receipt \<Rightarrow> bind_act (lift_act (assertReceiptMatches receipt (mutation_metadata input))) (\<lambda>_. return_act (mt_response receipt))
     | None \<Rightarrow> bind_act (try_act (run_operation svc input context (mutation_metadata input))) (\<lambda>outcome.
         catch_operation svc input context (mutation_metadata input) outcome)))))"

definition dispatch :: "PilotService \<Rightarrow> PilotDispatchRequest \<Rightarrow> PilotStoredResponse act" where
  "dispatch svc input =
     (if \<not> isAdmitted (ps_admitted svc) (id_accountId (dr_identity input)) (id_environment (dr_identity input))
      then throw_act (PilotApiError ''ACCOUNT_ENVIRONMENT_MISMATCH'' 403 ''RefundDesk does not serve this Stripe account and environment.'')
      else bind_act (resolveContext (ps_repository svc) (dr_identity input)
          (operation_of (dr_command input) = OP_context_sync \<and> isAdministrator (dr_identity input))
          (contextSyncDisplayName (dr_command input))) (\<lambda>found.
        case found of
          None \<Rightarrow> throw_act (PilotApiError ''INSTALLATION_NOT_FOUND'' 404 ''No RefundDesk installation matches this account and environment.'')
        | Some context \<Rightarrow> dispatch_in_context svc input context))"

end
