(* ===== verification/Pilot_Runs.thy ===== *)
theory Pilot_Runs
  imports Pilot_Service Worker_Runs
begin

text \<open>
  The web API as a client of the repositories: every unit of work stays within a relation that the
  repository operations keep, so does every method, whatever the rest of the system does in
  between, and so does the dispatch of a request; only a synchronisation by an administrator
  needs the relation to allow provisioning.
\<close>

context repository_client
begin

lemma web_ops:
  "steps R (observeTenantUser ctx s n r t)" "steps R (completeOnboarding ctx i t)" "steps R (createApprovalPolicy ctx s)"
  "steps R (repo_recordDecision ctx x t)" "steps R (cancelPendingRequest ctx i u t)" "steps R (createMutationReceipt ctx m)"
  "steps R (acknowledgeExternalRefundAlert ctx i u t)" "steps R (update_users ctx pu fu)"
  by (rule stepsI, rule operation, (rule repository_step.intros, assumption)+)+

lemma createRefundRequest_client: "new_request r \<Longrightarrow> steps R (createRefundRequest ctx r)"
  by (rule stepsI, rule operation, rule step_createRefundRequest)

lemma new_request_row_new: "new_request (new_request_row c x dw p e a cu pay re)"
  by (simp add: new_request_def new_request_row_def)

lemma steps_prod: "(\<And>x y. steps R (f x y)) \<Longrightarrow> steps R (case p of (x, y) \<Rightarrow> f x y)"
  by (cases p) auto

lemmas web_rules = client_rules web_ops createRefundRequest_client [OF new_request_row_new] steps_prod

lemma installation_tenant_steps: "steps R (installation_tenant ctx i)"
  unfolding installation_tenant_def by (intro web_rules)

lemma pilot_audit_steps: "steps R (pilot_audit ctx m a u e i p)"
  unfolding pilot_audit_def by (intro web_rules)

lemma context_unit_steps: "steps R (context_unit identity n i t ctx)"
  unfolding context_unit_def by (intro web_rules installation_tenant_steps)

lemma synchronizeContext_steps: "steps R (synchronizeContext c ctx)"
  unfolding synchronizeContext_def by (intro web_rules installation_tenant_steps)

lemma pilot_createRefundRequest_steps: "steps R (pilot_createRefundRequest repo c m dw a cu j p r ctx)"
  unfolding pilot_createRefundRequest_def by (intro web_rules pilot_audit_steps)

lemma pilot_decideRefundRequest_steps: "steps R (pilot_decideRefundRequest repo c m dw k j i rs ctx)"
  unfolding pilot_decideRefundRequest_def record_pilot_decision_def by (intro web_rules pilot_audit_steps)

lemma pilot_cancelRefundRequest_steps: "steps R (pilot_cancelRefundRequest c m dw i rs ctx)"
  unfolding pilot_cancelRefundRequest_def by (intro web_rules pilot_audit_steps)

lemma acknowledgeAlert_steps: "steps R (acknowledgeAlert c m dw i ctx)"
  unfolding acknowledgeAlert_def by (intro web_rules pilot_audit_steps)

lemma updateSettings_steps: "steps R (updateSettings c m dw us n b ctx)"
  unfolding updateSettings_def by (intro web_rules pilot_audit_steps)

lemma createAuditExport_steps: "steps R (createAuditExport repo c m dw ctx)"
  unfolding createAuditExport_def Let_def by (intro web_rules pilot_audit_steps)

lemma performMutation_steps: "steps R (performMutation repo c m dw mu ctx)"
  by (cases mu) (simp_all add: performMutation_def synchronizeContext_steps pilot_createRefundRequest_steps
      pilot_decideRefundRequest_steps pilot_cancelRefundRequest_steps acknowledgeAlert_steps updateSettings_steps
      createAuditExport_steps)

lemma receipted_unit_steps: "steps R (work ctx) \<Longrightarrow> steps R (receipted_unit c m t work ctx)"
  unfolding receipted_unit_def by (intro web_rules installation_tenant_steps)

lemma read_steps:
  "steps R (list_unit repo c cu n s ctx)" "steps R (get_unit repo c i ctx)" "steps R (settings_unit c ctx)"
  unfolding list_unit_def get_unit_def settings_unit_def listRefundRequests_def by (intro web_rules)+

end

context worker_process
begin

lemma draw_acts: "pr_process repo = de \<Longrightarrow> acts R (draw repo)"
  unfolding draw_def by (intro act_rules) (auto intro!: act_rules actsI simp: refl_R)

lemma tenant_unit_acts:
  assumes "pr_process repo = de" and "\<And>ctx t. steps R (f (ctx\<lparr>cx_tenant := t\<rparr>))"
  shows "acts R (tx_act (pr_process repo) (\<lambda>ctx. withTenantTransaction ctx t f))"
  unfolding assms(1) by (intro acts_tx steps_withTenantTransaction assms(2))

lemma resolveContext_acts:
  assumes "pr_process repo = de" and "allow \<Longrightarrow> (\<And>d d'. only_installations d d' \<Longrightarrow> R d d')"
  shows "acts R (resolveContext repo identity allow name)"
proof -
  have "allow \<Longrightarrow> steps R (provisionInstallation ctx a e)" for ctx a e
    using assms(2) by (auto intro!: stepsI simp: provisionInstallation_def bind_tx_Inr split: if_splits dest!: provision_only(1))
  then show ?thesis unfolding resolveContext_def
    by (intro act_rules tenant_unit_acts tenant.context_unit_steps assms(1)) (auto intro!: act_rules simp: assms(1))
qed

lemma pilot_findMutationReceipt_acts: "pr_process repo = de \<Longrightarrow> acts R (pilot_findMutationReceipt repo c n)"
  unfolding pilot_findMutationReceipt_def by (intro tenant_unit_acts tenant.web_rules)

lemma after_transaction_acts: "pr_process repo = de \<Longrightarrow> acts R (after_transaction repo c m r)"
  unfolding after_transaction_def
  by (auto intro!: act_rules pilot_findMutationReceipt_acts split: sum.split err.split)

lemma executeMutation_acts: "pr_process repo = de \<Longrightarrow> acts R (executeMutation repo c m mu)"
  unfolding executeMutation_def
  by (intro act_rules draw_acts after_transaction_acts tenant_unit_acts tenant.receipted_unit_steps tenant.performMutation_steps)

lemma storeMutationReceipt_acts: "pr_process repo = de \<Longrightarrow> acts R (storeMutationReceipt repo c m r)"
  unfolding storeMutationReceipt_def
  by (intro act_rules draw_acts after_transaction_acts tenant_unit_acts tenant.receipted_unit_steps) (auto intro!: tenant.web_rules)

lemma pilot_reads_acts:
  assumes "pr_process repo = de"
  shows "acts R (findActiveRequest repo c k)" "acts R (pilot_listRefundRequests repo c cu n s)"
    "acts R (pilot_getRefundRequest repo c i)" "acts R (pilot_listExternalAlerts repo c cu n)" "acts R (pilot_getSettings repo c)"
  unfolding findActiveRequest_def pilot_listRefundRequests_def pilot_getRefundRequest_def pilot_listExternalAlerts_def
    pilot_getSettings_def tenant_read_def listExternalRefundAlerts_def
  by (intro tenant_unit_acts assms tenant.read_steps tenant.web_rules)+

lemmas pilot_rules = act_rules pilot_reads_acts executeMutation_acts

lemma retrieve_payment_acts: "acts R (retrieve_payment svc c r)"
  unfolding retrieve_payment_def by (intro act_rules) (auto intro!: actsI simp: refl_R)

lemma requireRequest_acts: "pr_process (ps_repository svc) = de \<Longrightarrow> acts R (requireRequest svc c i r)"
  unfolding requireRequest_def by (intro pilot_rules)

lemma run_operation_acts:
  assumes "pr_process (ps_repository svc) = de"
  shows "acts R (run_operation svc input c m)"
  unfolding run_operation_def paymentEligibility_def service_createRefundRequest_def service_approve_def service_reject_def
    service_cancelRefundRequest_def service_listRefundRequests_def service_updateSettings_def decidable_request_def
  by (cases "dr_command input")
    (auto intro!: pilot_rules retrieve_payment_acts requireRequest_acts assms simp: Let_def split: PaymentEligibility.split)

lemma dispatch_acts:
  assumes "pr_process (ps_repository svc) = de"
    and "operation_of (dr_command input) = OP_context_sync \<Longrightarrow> isAdministrator (dr_identity input) \<Longrightarrow>
      isAdmitted (ps_admitted svc) (id_accountId (dr_identity input)) (id_environment (dr_identity input)) \<Longrightarrow>
      (\<And>d d'. only_installations d d' \<Longrightarrow> R d d')"
  shows "acts R (dispatch svc input)"
proof -
  have "acts R (dispatch_in_context svc input c)" for c
    unfolding dispatch_in_context_def catch_operation_def
    by (auto intro!: act_rules run_operation_acts storeMutationReceipt_acts pilot_findMutationReceipt_acts assms(1)
        split: sum.split err.split)
  then show ?thesis unfolding dispatch_def
    using assms by (auto intro!: act_rules resolveContext_acts)
qed

end

end
