(* ===== verification/Pilot_Theorems.thy ===== *)
theory Pilot_Theorems
  imports Pilot_Runs Worker_Batches
begin

text \<open>
  What the web API guarantees: it leaves reachable databases, it provisions only for admitted
  administrators, a mutation is answered once, a decision is taken by someone else than the
  requester, and a justification is readable by those it is meant for.
\<close>

subsection \<open>Reachable databases\<close>

text \<open>A scenario for the witnesses: the worker's database, with an administrator's request to synchronise.\<close>

definition pilot_repository :: PilotPrismaRepository where
  "pilot_repository = \<lparr>pr_origin = ''https://refunddesk.example'', pr_auditSigningKey = replicate 32 0,
     pr_fieldKeyring = sample_field_keyring, pr_gcm = sample_gcm, pr_hmac = (\<lambda>_ _. replicate 32 0),
     pr_collate = (\<lambda>a b. a \<le> b), pr_process = worker_deps\<lparr>de_session := (\<lambda>_. worker_session\<lparr>cx_web := True\<rparr>)\<rparr>,
     pr_randomBytes = (\<lambda>_. replicate 12 0)\<rparr>"

definition pilot_service :: PilotService where
  "pilot_service = \<lparr>ps_repository = pilot_repository, ps_retrievePayment = (\<lambda>_ _ _. Inl (PilotApiError ''STRIPE_UNAVAILABLE'' 503 [])),
     ps_admitted = [(''acct_1'', Env_test)]\<rparr>"

definition pilot_identity :: PilotSignedIdentity where
  "pilot_identity = \<lparr>id_accountId = ''acct_1'', id_environment = Env_test, id_roles = [\<lparr>role_id = None, role_name = ''Administrator'', role_type = builtIn\<rparr>],
     id_rolesAsserted = True, id_userId = ''usr_2''\<rparr>"

definition sync_request :: PilotDispatchRequest where
  "sync_request = \<lparr>dr_approvalAttestationId = None, dr_canonicalRequestHash = replicate 32 1, dr_command = ContextSync None,
     dr_identity = pilot_identity, dr_mutation = True, dr_requestNonce = sample_uuid, dr_responseRequestId = sample_uuid,
     dr_resource = None\<rparr>"

definition pilot_context :: PilotTenantContext where
  "pilot_context = \<lparr>pc_actor = \<lparr>ac_id = wid CHR ''d'', ac_approverEnabled = True, ac_stripeUserId = ''usr_2''\<rparr>,
     pc_environment = Env_test, pc_installationId = wid CHR ''b'', pc_installationStatus = I_active, pc_stripeAccountId = ''acct_1'',
     pc_tenantId = wid CHR ''a'', pc_tenantStatus = T_active\<rparr>"

definition pilot_metadata :: PilotMutationMetadata where
  "pilot_metadata = \<lparr>md_actorId = ''usr_2'', md_approvalAttestationId = Some (wid CHR ''f''), md_assertedStripeRoles = None,
     md_canonicalRequestHash = replicate 32 1, md_operation = OP_refund_request_decide, md_requestNonce = wid CHR ''8'',
     md_responseRequestId = wid CHR ''6''\<rparr>"

definition pilot_draws :: MutationDraws where
  "pilot_draws = \<lparr>dw_now = 1900, dw_later = 1950, dw_uuid = wid CHR ''7'', dw_nonce = replicate 12 0\<rparr>"

definition pilot_approval :: PilotMutation where
  "pilot_approval = MU_approve sample_uuid \<lparr>rs_id = ''pi_1'', rs_type = RT_payment_intent\<rparr>"

definition pilot_answer :: PilotStoredResponse where
  "pilot_answer = response [(''request_id'', JsStr sample_uuid), (''status'', JsStr ''approved'')]"

definition pilot_unit :: "err + PilotStoredResponse \<times> db" where
  "pilot_unit = receipted_unit pilot_context pilot_metadata 1950
     (performMutation pilot_repository pilot_context pilot_metadata pilot_draws pilot_approval) (tenant_session True) worker_db_attested"

lemma pilot_unit_answer: "map_sum id fst pilot_unit = Inr pilot_answer"
  by code_simp

definition pilot_db_decided :: db where
  "pilot_db_decided = snd (projr pilot_unit)"

definition pilot_world_decided :: world where
  "pilot_world_decided = \<lparr>wl_db = pilot_db_decided, wl_time = 5, wl_refund_calls = [], wl_jobs = []\<rparr>"

lemma projr_fst: "map_sum id fst x = Inr a \<Longrightarrow> x = Inr (a, snd (projr x))"
  by (cases x) auto

lemma map_sum_Inr: "map_sum id f x = Inr y \<Longrightarrow> \<exists>z. x = Inr z \<and> f z = y"
  by (cases x) auto

lemma pilot_unit_run: "pilot_unit = Inr (pilot_answer, pilot_db_decided)"
  using projr_fst [OF pilot_unit_answer] by (simp add: pilot_db_decided_def)

lemma pilot_calm: "system_environment (pr_process pilot_repository)"
  by (simp add: system_environment_def system_run_def pilot_repository_def worker_deps_def)

lemma worker_attested_reachable: "reachable worker_db_attested"
proof -
  have "reachable worker_db" by (rule reachable.init) (simp add: worker_db_def empty_db_def)
  moreover have "new_request worker_request" by (simp add: new_request_def worker_request_def sample_request_def)
  ultimately have "reachable worker_db_created"
    using step_createRefundRequest [OF _ worker_create] by (blast intro: reachable.step)
  then show ?thesis using step_persistApprovalAttestation [OF worker_persist] by (blast intro: reachable.step)
qed

lemma pilot_approves:
  "executeMutation pilot_repository pilot_context pilot_metadata pilot_approval (worker_world worker_db_attested)
     = (Inr pilot_answer, pilot_world_decided)"
proof -
  have dw: "draw pilot_repository (worker_world worker_db_attested)
      = (Inr pilot_draws, \<lparr>wl_db = worker_db_attested, wl_time = 4, wl_refund_calls = [], wl_jobs = []\<rparr>)"
    by (simp add: draw_def bind_act_def now_act_def random_act_def tick_def worker_world_def pilot_draws_def pilot_repository_def
        worker_deps_def)
  have "withTenantTransaction (worker_session\<lparr>cx_web := True\<rparr>) (wid CHR ''a'') (receipted_unit pilot_context pilot_metadata 1950
      (performMutation pilot_repository pilot_context pilot_metadata pilot_draws pilot_approval)) worker_db_attested
      = Inr (pilot_answer, pilot_db_decided)"
    by (rule withTenantTransaction_calm [OF worker_tenant])
      (simp add: worker_session_def, use pilot_unit_run in \<open>simp add: pilot_unit_def tenant_session_def worker_session_def\<close>)
  then show ?thesis
    by (simp add: executeMutation_def bind_act_def dw try_act_def tx_act_def after_transaction_def return_act_def tick_def
        pilot_world_decided_def pilot_draws_def [symmetric])
      (simp add: pilot_repository_def worker_deps_def pilot_context_def pilot_draws_def return_act_def tick_def)
qed

lemma system_run_trans: "system_run d e \<Longrightarrow> system_run e f \<Longrightarrow> system_run d f"
  unfolding system_run_def by (rule rtranclp_trans)

lemma only_installations_run: "only_installations d d' \<Longrightarrow> system_run d d'"
  unfolding system_run_def by blast

text \<open>
  C11: whatever request the web API dispatches, with whatever outcome and whatever the rest of the
  system does between its transactions, it leaves a reachable database, so every invariant of
  reachable databases holds after it.
\<close>

theorem pilot_dispatch_reachable:
  assumes "system_environment (pr_process (ps_repository svc))" and "reachable (wl_db w)"
  shows "reachable (wl_db (snd (dispatch svc input w)))"
  using worker_run.dispatch_acts [of svc _ input] assms
  by (auto intro!: reachable_act simp: only_installations_run)

theorem pilot_dispatch_reachable_witness:
  "reachable (wl_db (snd (dispatch pilot_service sync_request (worker_world worker_db))))"
proof -
  have "system_environment (pr_process (ps_repository pilot_service))"
    by (simp add: system_environment_def system_run_def pilot_service_def pilot_repository_def worker_deps_def)
  moreover have "reachable (wl_db (worker_world worker_db))"
    using reachable.init [of worker_db] by (simp add: worker_world_def worker_db_def empty_db_def)
  ultimately show ?thesis by (rule pilot_dispatch_reachable)
qed

subsection \<open>Provisioning\<close>

definition same_accounts :: "db \<Rightarrow> db \<Rightarrow> bool" where
  "same_accounts d d' \<longleftrightarrow> length (tenants d') = length (tenants d) \<and> length (installations d') = length (installations d)"

lemma update_own_length: "update_own tn ctx p f rs = Inr (n, rs') \<Longrightarrow> length rs' = length rs"
  unfolding update_own_Inr by (auto dest: list_all2_lengthD)

interpretation accounts_db: repositories same_accounts ctx
  by (unfold_locales, simp add: same_accounts_def, simp add: same_accounts_def)
    (rule stepsI, (auto simp: same_accounts_def statement_defs update_requests_def insert_request_def update_executions_def
      update_alerts_def Let_def dest!: update_own_length split: sum.splits if_splits)[1])+

interpretation quiet: worker_process "\<lambda>d d'. undisturbed de \<longrightarrow> same_accounts d d'" de
  by unfold_locales (auto simp: undisturbed_def accounts_db.refl_R intro: accounts_db.trans_R accounts_db.repository_step_within)

text \<open>
  C14: provisioning requires admission. For an account that is not on the admission list a dispatch
  is refused at once and changes nothing. Otherwise, unless an administrator asks to synchronise,
  no tenant and no installation is added by it.
\<close>

theorem provisioning_requires_admission:
  "(\<not> isAdmitted (ps_admitted svc) (id_accountId (dr_identity input)) (id_environment (dr_identity input)) \<longrightarrow>
     dispatch svc input w = (Inl (PilotApiError ''ACCOUNT_ENVIRONMENT_MISMATCH'' 403
       ''RefundDesk does not serve this Stripe account and environment.''), w))
   \<and> (undisturbed (pr_process (ps_repository svc)) \<and>
       \<not> (operation_of (dr_command input) = OP_context_sync \<and> isAdministrator (dr_identity input)) \<longrightarrow>
     length (tenants (wl_db (snd (dispatch svc input w)))) = length (tenants (wl_db w))
     \<and> length (installations (wl_db (snd (dispatch svc input w)))) = length (installations (wl_db w)))"
proof (intro conjI impI)
  assume "\<not> isAdmitted (ps_admitted svc) (id_accountId (dr_identity input)) (id_environment (dr_identity input))"
  then show "dispatch svc input w = (Inl (PilotApiError ''ACCOUNT_ENVIRONMENT_MISMATCH'' 403
       ''RefundDesk does not serve this Stripe account and environment.''), w)" by (simp add: dispatch_def throw_act_def)
next
  assume a: "undisturbed (pr_process (ps_repository svc)) \<and>
       \<not> (operation_of (dr_command input) = OP_context_sync \<and> isAdministrator (dr_identity input))"
  then have "same_accounts (wl_db w) (wl_db (snd (dispatch svc input w)))"
    using quiet.dispatch_acts [of svc _ input] by (auto simp: acts_def)
  then show "length (tenants (wl_db (snd (dispatch svc input w)))) = length (tenants (wl_db w))"
    and "length (installations (wl_db (snd (dispatch svc input w)))) = length (installations (wl_db w))"
    by (simp_all add: same_accounts_def)
qed

theorem provisioning_requires_admission_witness:
  "dispatch (pilot_service\<lparr>ps_admitted := []\<rparr>) sync_request (worker_world worker_db)
     = (Inl (PilotApiError ''ACCOUNT_ENVIRONMENT_MISMATCH'' 403
         ''RefundDesk does not serve this Stripe account and environment.''), worker_world worker_db)
   \<and> length (tenants (wl_db (snd (dispatch pilot_service (sync_request\<lparr>dr_command := SettingsGet\<rparr>) (worker_world worker_db))))) = 1"
  using provisioning_requires_admission [of "pilot_service\<lparr>ps_admitted := []\<rparr>" sync_request "worker_world worker_db"]
    provisioning_requires_admission [of pilot_service "sync_request\<lparr>dr_command := SettingsGet\<rparr>" "worker_world worker_db"]
  by (simp add: isAdmitted_iff pilot_service_def pilot_repository_def worker_deps_def undisturbed_def operation_of_def sync_request_def
      worker_world_def worker_db_def)

subsection \<open>Receipts\<close>

text \<open>The database holds the receipt of a mutation with its answer.\<close>

definition answered :: "string \<Rightarrow> PilotMutationMetadata \<Rightarrow> PilotStoredResponse \<Rightarrow> db \<Rightarrow> bool" where
  "answered tenantId metadata r d \<longleftrightarrow>
     (\<exists>row. first_row (\<lambda>x. mr_tenantId x = tenantId \<and> mr_requestNonce x = md_requestNonce metadata) (mutations d) = Some row
       \<and> receiptFromDatabase row = Inr \<lparr>mt_actorId = md_actorId metadata, mt_canonicalRequestHash = md_canonicalRequestHash metadata,
           mt_operation = md_operation metadata, mt_response = r\<rparr>)"

definition same_mutation :: "PilotMutationMetadata \<Rightarrow> PilotMutationMetadata \<Rightarrow> bool" where
  "same_mutation m m' \<longleftrightarrow> md_actorId m = md_actorId m' \<and> md_operation m = md_operation m'
     \<and> md_canonicalRequestHash m = md_canonicalRequestHash m'"

lemma first_row_append: "first_row p (xs @ ys) = (case first_row p xs of None \<Rightarrow> first_row p ys | Some x \<Rightarrow> Some x)"
  by (induction xs) (simp_all add: first_row_def)

lemma first_row_prefix: "prefix xs ys \<Longrightarrow> first_row p xs = Some x \<Longrightarrow> first_row p ys = Some x"
  by (auto simp: prefix_def first_row_append)

lemma answered_later: "history d d' \<Longrightarrow> answered t m r d \<Longrightarrow> answered t m r d'"
  by (auto simp: answered_def history_def dest: first_row_prefix)

lemma assertReceiptMatches_Inr:
  "assertReceiptMatches x m = Inr u \<Longrightarrow> x = \<lparr>mt_actorId = md_actorId m, mt_canonicalRequestHash = md_canonicalRequestHash m,
     mt_operation = md_operation m, mt_response = mt_response x\<rparr>"
  by (cases x) (auto simp: assertReceiptMatches_def hashesEqual_def split: if_splits)

lemma found_answered:
  assumes "findMutationReceipt ctx (md_requestNonce m) d = Some row" and "receiptFromDatabase row = Inr x"
    and "assertReceiptMatches x m = Inr u"
  shows "answered (cx_tenant ctx) m (mt_response x) d"
  using assms assertReceiptMatches_Inr [OF assms(3)] by (auto simp: answered_def findMutationReceipt_def conj_commute)

lemma createMutationReceipt_answered:
  assumes "createMutationReceipt ctx (receipt_row ctx m t r) d = Inr (x, d')"
  shows "answered (cx_tenant ctx) m r d'"
proof -
  let ?p = "\<lambda>x. mr_tenantId x = cx_tenant ctx \<and> mr_requestNonce x = md_requestNonce m"
  from assms have d': "mutations d' = mutations d @ [x]" and x: "x = (receipt_row ctx m t r)\<lparr>mr_id := fresh ctx d\<rparr>"
    and none: "first_row ?p (mutations d) = None"
    by (auto simp: createMutationReceipt_def insert_mutation_def Let_def first_row_None receipt_row_def split: if_splits)
  from none have "first_row ?p (mutations d') = first_row ?p [x]" by (simp add: d' first_row_append)
  also have "\<dots> = Some x" by (simp add: x receipt_row_def first_row_def)
  finally show ?thesis
    by (auto simp: answered_def x receiptFromDatabase_def receipt_row_def storedResponse_def bind_err_def)
qed

text \<open>All mutations answer with status 200, so a committed mutation has stored its receipt.\<close>

lemma synchronizeContext_status:
  assumes "synchronizeContext c ctx d = Inr (r, d')"
  shows "sr_status r = 200"
proof -
  from assms obtain found s where "installation_tenant ctx (pc_installationId c) d = Inr (found, s)"
    by (auto simp: synchronizeContext_def bind_tx_Inr)
  with assms show ?thesis
    by (cases found; cases "getSettings ctx (pc_installationId c) s") (auto simp: synchronizeContext_def bind_tx_def response_def)
qed

lemma performMutation_status: "performMutation repo c m dw mu ctx d = Inr (r, d') \<Longrightarrow> sr_status r = 200"
  by (cases mu)
    (auto simp: performMutation_def pilot_createRefundRequest_def pilot_decideRefundRequest_def
      record_pilot_decision_def pilot_cancelRefundRequest_def acknowledgeAlert_def updateSettings_def createAuditExport_def
      response_def bind_tx_Inr with_db_def Let_def dest: synchronizeContext_status split: if_split_asm option.split_asm prod.split_asm)

lemma receipted_unit_answered:
  assumes "receipted_unit c m t (performMutation repo c m dw mu) ctx d = Inr (r, d')"
  shows "answered (cx_tenant ctx) m r d'"
proof (cases "findMutationReceipt ctx (md_requestNonce m) d")
  case None
  with assms obtain d1 x where "performMutation repo c m dw mu ctx d = Inr (r, d1)"
    "sr_status r < 500 \<Longrightarrow> createMutationReceipt ctx (receipt_row ctx m t r) d1 = Inr (x, d')"
    by (auto simp: receipted_unit_def bind_tx_Inr installation_tenant_def with_db_def split: if_split_asm option.split_asm)
  with performMutation_status show ?thesis by (fastforce intro: createMutationReceipt_answered)
next
  case (Some row)
  with assms obtain x where "receiptFromDatabase row = Inr x" "assertReceiptMatches x m = Inr ()" "r = mt_response x" "d' = d"
    by (auto simp: receipted_unit_def bind_tx_Inr)
  with found_answered [OF Some] show ?thesis by simp
qed

lemma receipted_unit_replay:
  assumes "answered (cx_tenant ctx) m r d" and "md_requestNonce m' = md_requestNonce m"
  shows "receipted_unit c m' t work ctx d = (if same_mutation m m' then Inr (r, d) else Inl idempotency_conflict)"
  using assms
  by (auto simp: answered_def receipted_unit_def bind_tx_def findMutationReceipt_def assertReceiptMatches_def hashesEqual_def
      same_mutation_def lift_tx_def)

lemma run_attempts_cases:
  "op d \<noteq> Inl TransactionWriteConflict \<Longrightarrow>
     run_attempts c m op a d = op d \<or> run_attempts c m op a d = Inl (TransactionRetryExhausted m)"
  by (induction c m op a d rule: run_attempts.induct)
    (subst (1 2) run_attempts.simps, auto simp: isRetryableTransactionError_def split: sum.splits)

lemma withTenantTransaction_cases:
  assumes "uuid_nocase t" and "op (ctx\<lparr>cx_tenant := t\<rparr>) d \<noteq> Inl TransactionWriteConflict"
  shows "withTenantTransaction ctx t op d = op (ctx\<lparr>cx_tenant := t\<rparr>) d
    \<or> withTenantTransaction ctx t op d = Inl (TransactionRetryExhausted 3)"
  using run_attempts_cases [of "op (ctx\<lparr>cx_tenant := t\<rparr>)" d "cx_conflict ctx" 3 1] assms
  by (simp add: withTenantTransaction_def tenant_transaction_run)

lemma tx_act_commits:
  "tx_act de operation w = (Inr x, w') \<Longrightarrow>
     \<exists>d. operation (de_session de (wl_time w)) d = Inr (x, wl_db w')"
  by (auto simp: tx_act_def Let_def split: sum.split_asm)

lemma draw_world: "\<exists>dw. draw repo w = (Inr dw, w\<lparr>wl_time := wl_time w + 4\<rparr>)"
  by (simp add: draw_def bind_act_def now_act_def random_act_def tick_def)

lemma after_transaction_Inl:
  "after_transaction repo c m r w = (Inr x, w') \<Longrightarrow> r = Inr x \<and> w' = w
    \<or> (\<exists>s receipt. r = Inl (UniqueViolation s) \<and> pilot_findMutationReceipt repo c (md_requestNonce m) w = (Inr (Some receipt), w')
        \<and> assertReceiptMatches receipt m = Inr () \<and> x = mt_response receipt)"
  by (auto simp: after_transaction_def return_act_def throw_act_def bind_act_def lift_act_def
      split: sum.split_asm err.split_asm option.split_asm prod.split_asm)

lemma executeMutation_answered:
  assumes "executeMutation repo c m mu w = (Inr r, w')"
  shows "uuid_nocase (pc_tenantId c) \<and> answered (pc_tenantId c) m r (wl_db w')"
proof -
  obtain dw where dw: "draw repo w = (Inr dw, w\<lparr>wl_time := wl_time w + 4\<rparr>)"
    using draw_world by blast
  let ?u = "tx_act (pr_process repo) (\<lambda>ctx. withTenantTransaction ctx (pc_tenantId c)
         (receipted_unit c m (dw_later dw) (performMutation repo c m dw mu)))"
  obtain o' w1 where u: "?u (w\<lparr>wl_time := wl_time w + 4\<rparr>) = (o', w1)" by fastforce
  with assms dw have "after_transaction repo c m o' w1 = (Inr r, w')"
    by (simp add: executeMutation_def bind_act_def try_act_def)
  from after_transaction_Inl [OF this] show ?thesis
  proof (elim disjE exE conjE)
    assume "o' = Inr r" "w' = w1"
    with tx_act_commits [of _ _ _ r w'] u show ?thesis
      by (fastforce dest!: withTenantTransaction_Inr receipted_unit_answered)
  next
    fix x assume f: "pilot_findMutationReceipt repo c (md_requestNonce m) w1 = (Inr (Some x), w')"
      and x: "assertReceiptMatches x m = Inr ()" "r = mt_response x"
    let ?s = "(de_session (pr_process repo) (wl_time w1))\<lparr>cx_tenant := pc_tenantId c\<rparr>"
    from f obtain row where "uuid_nocase (pc_tenantId c)" "findMutationReceipt ?s (md_requestNonce m) (wl_db w') = Some row"
      "receiptFromDatabase row = Inr x" unfolding pilot_findMutationReceipt_def
      by (auto dest!: tx_act_commits withTenantTransaction_Inr simp: bind_tx_Inr split: option.split_asm)
    with found_answered [of ?s m "wl_db w'" row x "()"] x show ?thesis by simp
  qed
qed

text \<open>
  C12: a mutation is answered once. When a mutation has been answered, then at any later time, however
  the system went on, a mutation under the same nonce does not change the database: it gets the
  same answer if it is the same mutation of the same actor, the idempotency conflict if it is
  another one, or its transaction runs out of attempts.
\<close>

theorem mutation_answered_once:
  assumes env: "system_environment (pr_process repo)" and start: "reachable (wl_db w)"
    and first: "executeMutation repo c m mu w = (Inr r, w1)" and later: "system_run (wl_db w1) (wl_db w2)"
    and second: "executeMutation repo c' m' mu' w2 = (r', w3)"
    and same: "pc_tenantId c' = pc_tenantId c" "md_requestNonce m' = md_requestNonce m"
  shows "wl_db w3 = de_others (pr_process repo) (wl_time w2 + 4) (wl_db w2)
    \<and> (r' = (if same_mutation m m' then Inr r else Inl idempotency_conflict) \<or> r' = Inl (TransactionRetryExhausted 3))"
proof -
  let ?d = "de_others (pr_process repo) (wl_time w2 + 4) (wl_db w2)"
  note ans = executeMutation_answered [OF first]
  have r1: "reachable (wl_db w1)"
    using reachable_act [OF worker_run.executeMutation_acts env start, of repo c m mu] first by simp
  have run: "system_run (wl_db w1) ?d" using later env system_run_trans unfolding system_environment_def by blast
  have "history (wl_db w1) ?d" using system_run_kept [OF run] reachable_inv [OF r1] by (simp add: kept_def)
  with ans have a: "answered (pc_tenantId c) m r ?d" by (blast intro: answered_later)
  obtain dw where dw: "draw repo w2 = (Inr dw, w2\<lparr>wl_time := wl_time w2 + 4\<rparr>)" using draw_world by blast
  let ?s = "de_session (pr_process repo) (wl_time w2 + 4)"
  let ?op = "receipted_unit c' m' (dw_later dw) (performMutation repo c' m' dw mu')"
  have op: "?op (?s\<lparr>cx_tenant := pc_tenantId c'\<rparr>) ?d = (if same_mutation m m' then Inr (r, ?d) else Inl idempotency_conflict)"
    by (rule receipted_unit_replay) (simp_all add: a same)
  have "withTenantTransaction ?s (pc_tenantId c') ?op ?d = (if same_mutation m m' then Inr (r, ?d) else Inl idempotency_conflict)
    \<or> withTenantTransaction ?s (pc_tenantId c') ?op ?d = Inl (TransactionRetryExhausted 3)"
    using withTenantTransaction_cases [of "pc_tenantId c'" ?op ?s ?d] ans unfolding op
    by (simp add: same idempotency_conflict_def)
  then show ?thesis using second dw
    by (auto simp: executeMutation_def bind_act_def try_act_def tx_act_def Let_def after_transaction_def return_act_def
        throw_act_def idempotency_conflict_def tick_def)
qed

theorem mutation_answered_once_witness:
  "wl_db (snd (executeMutation pilot_repository pilot_context pilot_metadata pilot_approval pilot_world_decided)) = pilot_db_decided
   \<and> fst (executeMutation pilot_repository pilot_context pilot_metadata pilot_approval pilot_world_decided)
     \<in> {Inr pilot_answer, Inl (TransactionRetryExhausted 3)}"
proof -
  have "reachable (wl_db (worker_world worker_db_attested))" by (simp add: worker_world_def worker_attested_reachable)
  from mutation_answered_once [OF pilot_calm this pilot_approves, of pilot_world_decided pilot_context pilot_metadata pilot_approval]
  show ?thesis
    by (cases "executeMutation pilot_repository pilot_context pilot_metadata pilot_approval pilot_world_decided")
      (auto simp: system_run_def same_mutation_def pilot_repository_def worker_deps_def pilot_world_decided_def)
qed

subsection \<open>Decisions\<close>

definition decided_status :: "ApprovalDecisionKind \<Rightarrow> WorkflowStatus" where
  "decided_status k = (case k of D_approve \<Rightarrow> W_approved | D_reject \<Rightarrow> W_rejected)"

lemma update_requests_once_hit:
  assumes "update_requests ctx (\<lambda>r. rr_id r = i \<and> p r) f d = Inr (1, d')"
    and "\<And>r. rr_id (f r) = rr_id r" and "\<And>r. rr_workflowStatus (f r) = s"
  shows "\<exists>q \<in> set (requests d'). rr_id q = i \<and> rr_workflowStatus q = s"
proof -
  from update_requests_hit [OF assms(1)] obtain r where "rr_id r = i" "stamped ctx r (f r) \<in> set (requests d')" by (metis one_neq_zero)
  with assms(2,3) show ?thesis by (intro bexI [of _ "stamped ctx r (f r)"]) simp_all
qed

lemma repo_recordDecision_hit:
  assumes "repo_recordDecision ctx x now d = Inr (result, d')"
    and "if ad_decision x = D_approve then becameApproved result else becameRejected result"
  shows "\<exists>y. decision_rows d' = decision_rows d @ [y] \<and> y = x\<lparr>ad_id := ad_id y, ad_tenantId := cx_tenant ctx\<rparr>"
    and "\<exists>q \<in> set (requests d'). rr_id q = ad_requestId x \<and> rr_workflowStatus q = decided_status (ad_decision x)"
    and "audits d' = audits d" and "mutations d' = mutations d"
proof -
  from assms(1) obtain y d1 where ins: "insert_decision ctx (x\<lparr>ad_tenantId := cx_tenant ctx\<rparr>) d = Inr (y, d1)"
    by (auto simp: repo_recordDecision_def bind_tx_Inr)
  then have y: "y = x\<lparr>ad_id := ad_id y, ad_tenantId := cx_tenant ctx\<rparr>" and d1: "decision_rows d1 = decision_rows d @ [y]"
    "audits d1 = audits d" "mutations d1 = mutations d"
    by (auto simp: insert_decision_def Let_def split: sum.split_asm if_split_asm)
  have k: "ad_decision y = ad_decision x" "ad_requestId y = ad_requestId x" by (subst y, simp)+
  from assms ins obtain p f where u: "update_requests ctx (\<lambda>r. rr_id r = ad_requestId x \<and> p r) f d1 = Inr (1, d')"
    and f: "\<And>r. rr_id (f r) = rr_id r" "\<And>r. rr_workflowStatus (f r) = decided_status (ad_decision x)"
    by (cases "ad_decision x") (fastforce simp: repo_recordDecision_def bind_tx_Inr k decided_status_def)+
  from update_requests_once_hit [OF u f]
  show "\<exists>q \<in> set (requests d'). rr_id q = ad_requestId x \<and> rr_workflowStatus q = decided_status (ad_decision x)" .
  have "decision_rows d' = decision_rows d1" "audits d' = audits d1" "mutations d' = mutations d1"
    by (subst update_requests_cases(2) [OF u], simp)+
  then show "\<exists>y. decision_rows d' = decision_rows d @ [y] \<and> y = x\<lparr>ad_id := ad_id y, ad_tenantId := cx_tenant ctx\<rparr>"
    and "audits d' = audits d" and "mutations d' = mutations d" using y d1 by auto
qed

lemma pilot_audit_Inr:
  assumes "pilot_audit ctx m a u e i p d = Inr (x, d')"
  shows "requests d' = requests d" "decision_rows d' = decision_rows d" "map ae_action (audits d') = map ae_action (audits d) @ [a]"
  using assms by (auto simp: pilot_audit_def appendAuditEvent_def insert_audit_def Let_def split: if_split_asm)

lemma createMutationReceipt_tables:
  assumes "createMutationReceipt ctx x d = Inr (y, d')"
  shows "requests d' = requests d" "decision_rows d' = decision_rows d" "audits d' = audits d"
  using assms by (auto simp: createMutationReceipt_def insert_mutation_def Let_def split: if_split_asm)

text \<open>The effect of a committed decision of kind \<open>k\<close> by the user \<open>u\<close> on the request \<open>i\<close>.\<close>

definition decision_taken :: "PilotMutationMetadata \<Rightarrow> string \<Rightarrow> string \<Rightarrow> ApprovalDecisionKind \<Rightarrow> string \<Rightarrow> db \<Rightarrow> db \<Rightarrow> bool" where
  "decision_taken m t u k i d d' \<longleftrightarrow>
     (\<exists>x. decision_rows d' = decision_rows d @ [x] \<and> ad_requestId x = i \<and> ad_tenantId x = t \<and> ad_approverUserId x = u \<and> ad_decision x = k
        \<and> (if k = D_approve then ad_approvalAttestationId x = md_approvalAttestationId m \<and> md_approvalAttestationId m \<noteq> None
           else ad_approvalAttestationId x = None))
     \<and> (\<exists>q \<in> set (requests d'). rr_id q = i \<and> rr_workflowStatus q = decided_status k)
     \<and> map ae_action (audits d') = map ae_action (audits d) @ [''refund_request.'' @ decision_name k @ ''d'']"

lemma record_pilot_decision_taken:
  assumes "record_pilot_decision m dw u k e i ctx d = Inr (r, d')"
  shows "decision_taken m (cx_tenant ctx) (tu_id u) k i d d'"
proof -
  let ?x = "\<lparr>ad_id = dw_uuid dw, ad_tenantId = cx_tenant ctx, ad_requestId = i, ad_approverUserId = tu_id u,
         ad_approvalAttestationId = (if k = D_approve then md_approvalAttestationId m else None),
         ad_decision = k, ad_rejection = map_option encrypted_columns e,
         ad_stripeRolesSnapshot = stringify (pilotAssertedStripeRolesSnapshot (md_assertedStripeRoles m)),
         ad_decidedAt = cx_clock ctx\<rparr>"
  from assms obtain result d1 y where att: "\<not> (k = D_approve \<and> md_approvalAttestationId m = None)"
    and rec: "repo_recordDecision ctx ?x (dw_now dw) d = Inr (result, d1)"
    and became: "if k = D_approve then becameApproved result else becameRejected result"
    and audit: "pilot_audit ctx m (''refund_request.'' @ decision_name k @ ''d'') (tu_stripeUserId u)
            ''refund_request'' i [(''decision'', JsStr (decision_name k)), roles_asserted m] d1 = Inr (y, d')"
    unfolding record_pilot_decision_def by (auto simp: bind_tx_Inr split: if_split_asm)
  have "if ad_decision ?x = D_approve then becameApproved result else becameRejected result" using became by simp
  note hit = repo_recordDecision_hit [OF rec this]
  from hit(1) obtain z where z: "decision_rows d1 = decision_rows d @ [z]" "z = ?x\<lparr>ad_id := ad_id z, ad_tenantId := cx_tenant ctx\<rparr>"
    by (elim exE conjE)
  have "ad_requestId z = i \<and> ad_tenantId z = cx_tenant ctx \<and> ad_approverUserId z = tu_id u \<and> ad_decision z = k
    \<and> ad_approvalAttestationId z = (if k = D_approve then md_approvalAttestationId m else None)"
    using z(2) by (cases z) simp
  with z hit(2-) pilot_audit_Inr [OF audit] att show ?thesis by (auto simp: decision_taken_def)
qed

lemma receipted_unit_new:
  assumes "receipted_unit c m t work ctx d = Inr (r, d')" and "findMutationReceipt ctx (md_requestNonce m) d = None"
  obtains s tn d1 x where "getInstallationContext ctx (pc_installationId c) d = Some s" and "tn \<in> set (tenants d)"
    and "tn_id tn = si_tenantId s" and "assertCurrentInstallation (Some (s, tn)) c = Inr ()" and "work ctx d = Inr (r, d1)"
    and "sr_status r < 500 \<longrightarrow> createMutationReceipt ctx (receipt_row ctx m t r) d1 = Inr (x, d')"
proof -
  from assms obtain s where s: "getInstallationContext ctx (pc_installationId c) d = Some s"
    by (cases "getInstallationContext ctx (pc_installationId c) d")
      (auto simp: receipted_unit_def bind_tx_Inr installation_tenant_def with_db_def assertCurrentInstallation_def)
  from assms s obtain tn where tn: "first_row (\<lambda>t. tn_id t = si_tenantId s) (tenants d) = Some tn"
    by (cases "first_row (\<lambda>t. tn_id t = si_tenantId s) (tenants d)")
      (auto simp: receipted_unit_def bind_tx_Inr installation_tenant_def with_db_def throw_tx_def)
  from assms s tn that first_row_Some [OF tn] show ?thesis
    by (auto simp: receipted_unit_def bind_tx_Inr installation_tenant_def with_db_def split: if_split_asm)
qed

text \<open>
  C13: a decision needs a second pair of eyes. A committed decision through the API, not a replayed
  one, was on a pending request of the tenant and of the signed resource; its actor is an enabled
  approver of the tenant other than the requester, and the installation and the tenant were
  active. It appended one decision row with that approver, for an approval with the attestation the
  request came with, moved the request, appended one audit event and stored the answer. The action
  of the event is the kind of the decision followed by d, which is not a word for a rejection.
\<close>

theorem pilot_decision_four_eyes:
  assumes run: "receipted_unit c m t (performMutation repo c m dw mu) ctx d = Inr (r, d')"
    and mu: "mu = MU_approve i rs \<and> k = D_approve \<or> mu = MU_reject j i rs \<and> k = D_reject"
    and new: "findMutationReceipt ctx (md_requestNonce m) d = None" and tenant: "cx_tenant ctx = pc_tenantId c"
  shows "(\<exists>q u. getRefundRequest ctx i d = Some q \<and> tenant_user c d = Some u \<and> rr_workflowStatus q = W_pending_approval
      \<and> requestMatchesMutationResource q rs \<and> tu_approverEnabled u \<and> tu_id u \<noteq> rr_requesterUserId q)
    \<and> (\<exists>s tn. getInstallationContext ctx (pc_installationId c) d = Some s \<and> si_status s = I_active
      \<and> si_stripeAccountId s = pc_stripeAccountId c \<and> si_environment s = pc_environment c
      \<and> tn \<in> set (tenants d) \<and> tn_id tn = si_tenantId s \<and> tn_status tn = T_active)
    \<and> decision_taken m (pc_tenantId c) (ac_id (pc_actor c)) k i d d' \<and> answered (pc_tenantId c) m r d'"
proof -
  from receipted_unit_new [OF run new] obtain s tn d1 x where
    i: "getInstallationContext ctx (pc_installationId c) d = Some s" "tn \<in> set (tenants d)" "tn_id tn = si_tenantId s"
      "assertCurrentInstallation (Some (s, tn)) c = Inr ()"
    and p: "performMutation repo c m dw mu ctx d = Inr (r, d1)"
    and x: "sr_status r < 500 \<longrightarrow> createMutationReceipt ctx (receipt_row ctx m t r) d1 = Inr (x, d')" .
  from i(4) have active: "si_stripeAccountId s = pc_stripeAccountId c" "si_environment s = pc_environment c" "si_status s = I_active"
    "tn_status tn = T_active" by (auto simp: assertCurrentInstallation_def split: if_split_asm)
  from performMutation_status [OF p] x have x: "createMutationReceipt ctx (receipt_row ctx m t r) d1 = Inr (x, d')" by simp
  from p mu obtain jj where "pilot_decideRefundRequest repo c m dw k jj i rs ctx d = Inr (r, d1)"
    by (auto simp: performMutation_def)
  then obtain q u e where g: "getRefundRequest ctx i d = Some q" "tenant_user c d = Some u" "tu_approverEnabled u"
      "rr_requesterUserId q \<noteq> tu_id u" "rr_workflowStatus q = W_pending_approval" "requestMatchesMutationResource q rs"
    and rec: "record_pilot_decision m dw u k e i ctx d = Inr (r, d1)"
    unfolding pilot_decideRefundRequest_def with_db_def by (auto simp: bind_tx_Inr split: if_split_asm option.split_asm)
  have "tu_id u = ac_id (pc_actor c)" using g(2) by (auto simp: tenant_user_def dest: first_row_Some)
  with record_pilot_decision_taken [OF rec] tenant createMutationReceipt_tables [OF x]
  have "decision_taken m (pc_tenantId c) (ac_id (pc_actor c)) k i d d'" by (simp add: decision_taken_def)
  moreover have "answered (pc_tenantId c) m r d'" using createMutationReceipt_answered [OF x] tenant by simp
  ultimately show ?thesis using g i active by metis
qed

theorem pilot_decision_four_eyes_witness:
  "decision_taken pilot_metadata (wid CHR ''a'') (wid CHR ''d'') D_approve sample_uuid worker_db_attested pilot_db_decided
   \<and> answered (wid CHR ''a'') pilot_metadata pilot_answer pilot_db_decided"
proof -
  have run: "receipted_unit pilot_context pilot_metadata 1950
     (performMutation pilot_repository pilot_context pilot_metadata pilot_draws pilot_approval) (tenant_session True) worker_db_attested
     = Inr (pilot_answer, pilot_db_decided)"
    using pilot_unit_run by (simp add: pilot_unit_def)
  have "findMutationReceipt (tenant_session True) (md_requestNonce pilot_metadata) worker_db_attested = None"
    by (simp add: findMutationReceipt_def worker_db_attested_def worker_db_created_def worker_db_def empty_db_def first_row_def)
  from pilot_decision_four_eyes [OF run _ this, of sample_uuid "\<lparr>rs_id = ''pi_1'', rs_type = RT_payment_intent\<rparr>" D_approve]
  show ?thesis by (simp add: pilot_approval_def tenant_session_def pilot_context_def)
qed

subsection \<open>Justifications\<close>

lemma pilot_createRefundRequest_row:
  assumes "pilot_createRefundRequest repo c m dw a cu text p re ctx d = Inr (r, d')"
  obtains e policy where "encrypt (pr_gcm repo) (pr_fieldKeyring repo) (dw_nonce dw) text
      (justification_context (pc_tenantId c) (dw_uuid dw)) = Inr e"
    and "new_request_row ctx c dw policy e a cu p re \<in> set (requests d')"
proof -
  from assms obtain e policy q d1 x where e: "encrypt (pr_gcm repo) (pr_fieldKeyring repo) (dw_nonce dw) text
      (justification_context (pc_tenantId c) (dw_uuid dw)) = Inr e"
    and q: "createRefundRequest ctx (new_request_row ctx c dw policy e a cu p re) d = Inr (q, d1)"
    and x: "pilot_audit ctx m ''refund_request.created'' (ac_stripeUserId (pc_actor c)) ''refund_request'' (rr_id q)
             [(''amount_minor'', JsStr (show_int a)), (''currency'', JsStr cu),
              (''payment_key'', JsStr (py_paymentKey p)), roles_asserted m] d1 = Inr (x, d')"
    by (auto simp: pilot_createRefundRequest_def bind_tx_Inr split: if_split_asm option.split_asm)
  let ?r = "new_request_row ctx c dw policy e a cu p re"
  have "new_request ?r" by (simp add: new_request_def new_request_row_def)
  with q have "?r \<in> set (requests d1)"
    by (auto simp: createRefundRequest_def insert_request_def bind_tx_Inr new_request_row_def dest: request_insert_Inr
        split: sum.split_asm if_split_asm)
  with that e pilot_audit_Inr(1) [OF x] show ?thesis by metis
qed

lemma request_found_later:
  assumes "db_inv d" and "db_inv d'" and "history d d'" and "r \<in> set (requests d)" and "rr_tenantId r = cx_tenant ctx"
  obtains r' where "getRefundRequest ctx (rr_id r) d' = Some r'" and "request_evolves r r'"
proof -
  from assms(3) obtain old new where t: "requests d' = old @ new" "list_all2 request_evolves (requests d) old"
    by (auto simp: history_def table_evolves_def)
  from t(2) assms(4) obtain r' where r': "r' \<in> set old" "request_evolves r r'"
    by (induction rule: list_all2_induct) auto
  have k: "rr_id r' = rr_id r" "rr_tenantId r' = cx_tenant ctx" using r'(2) assms(5) by (auto simp: request_evolves_def same_snapshot_def)
  have "inj_on rr_id (set (requests d'))" using assms(2) by (simp add: db_inv_def distinct_map)
  with r'(1) t(1) k have "getRefundRequest ctx (rr_id r) d' = Some r'"
    by (cases "getRefundRequest ctx (rr_id r) d'")
      (auto simp: getRefundRequest_def first_row_None inj_on_def dest!: first_row_Some)
  with that r'(2) show ?thesis by blast
qed

lemma stored_encrypted: "stored_field (encrypted_columns e) = e" if "encrypt gm kr n t x = Inr e"
  using that by (auto simp: encrypt_def Let_def stored_field_def encrypted_columns_def)

text \<open>
  C15: a justification is readable by those it is meant for. A request created through the API with
  a justification is found at any later time, however the system went on and also by a process
  whose keyring has since been rotated as long as it still knows the key; it is shown with exactly
  the text that was given to its requester and to enabled approvers, and without the text to
  everyone else.
\<close>

theorem justification_readable:
  assumes start: "reachable d" and tenant: "cx_tenant ctx = pc_tenantId c" "cx_tenant ctx' = pc_tenantId c" "pc_tenantId c' = pc_tenantId c"
    and run: "pilot_createRefundRequest repo c m dw amount currency text payment reason ctx d = Inr (r, d1)"
    and later: "system_run d1 d2"
    and gcm: "gcm_inverse (pr_gcm repo)" "pr_gcm repo' = pr_gcm repo" "length (dw_nonce dw) = 12"
      "length (vs_key (fe_active (pr_fieldKeyring repo))) = 32"
      "fe_decryptionKeys (pr_fieldKeyring repo') (vs_version (fe_active (pr_fieldKeyring repo)))
         = Some (vs_key (fe_active (pr_fieldKeyring repo)))"
    and requester: "u \<in> set (users d2)" "tu_id u = ac_id (pc_actor c)" "tu_tenantId u = pc_tenantId c"
  shows "\<exists>shown. get_unit repo' c' (dw_uuid dw) ctx' d2 = Inr (Some shown, d2) \<and> pq_id shown = dw_uuid dw
    \<and> pq_amount_minor shown = show_int amount
    \<and> pq_justification shown = (if ac_id (pc_actor c') = ac_id (pc_actor c) \<or> ac_approverEnabled (pc_actor c') then Some text else None)"
proof -
  from pilot_createRefundRequest_row [OF run] obtain e policy where
    e: "encrypt (pr_gcm repo) (pr_fieldKeyring repo) (dw_nonce dw) text (justification_context (pc_tenantId c) (dw_uuid dw)) = Inr e"
    and row: "new_request_row ctx c dw policy e amount currency payment reason \<in> set (requests d1)" .
  let ?q = "new_request_row ctx c dw policy e amount currency payment reason"
  have "steps (\<lambda>d d'. system_environment worker_deps \<longrightarrow> system_run d d')
      (pilot_createRefundRequest repo c m dw amount currency text payment reason (ctx\<lparr>cx_tenant := cx_tenant ctx\<rparr>))"
    by (rule worker_run.tenant.pilot_createRefundRequest_steps)
  then have "system_run d d1" using run worker_deps_calm by (auto dest!: stepsD)
  then have "reachable d1" and "reachable d2" using reachable_run start later by blast+
  then have inv: "db_inv d1" "db_inv d2" by (simp_all add: reachable_inv)
  have "history d1 d2" using system_run_kept [OF later] inv by (simp add: kept_def)
  from request_found_later [OF inv this row, of ctx'] tenant obtain q where
    q: "getRefundRequest ctx' (dw_uuid dw) d2 = Some q" and ev: "request_evolves ?q q"
    by (auto simp: new_request_row_def)
  from ev have k: "rr_id q = dw_uuid dw" "rr_chargeId q = Some (py_chargeId payment)" "rr_justification q = encrypted_columns e"
    "rr_requesterUserId q = ac_id (pc_actor c)" "rr_amountMinor q = amount"
    by (simp_all add: request_evolves_def same_snapshot_def new_request_row_def)
  have dec: "decrypt (pr_gcm repo') (pr_fieldKeyring repo') (stored_field (encrypted_columns e))
      (justification_context (pc_tenantId c') (rr_id q)) = Inr text"
    using decrypt_encrypt [OF gcm(1,4,3) e gcm(5)] by (simp add: stored_encrypted [OF e] gcm(2) tenant k)
  then have vis: "visible_justification repo' q c' = Inr (if ac_id (pc_actor c') = ac_id (pc_actor c) \<or> ac_approverEnabled (pc_actor c') then Some text else None)"
    by (auto simp: visible_justification_def k)
  obtain res where res: "requestResource q = Inr res" by (cases "rr_paymentIntentId q") (auto simp: requestResource_def k)
  obtain v where v: "requester_of c' q d2 = Some v"
    using requester by (cases "requester_of c' q d2") (auto simp: requester_of_def first_row_None k tenant)
  show ?thesis
    by (simp add: get_unit_def with_db_def q bind_tx_def lift_tx_def map_resolved_def v mapRequest_def request_with_decisions_def k res vis Let_def)
qed

definition pilot_db :: db where
  "pilot_db = worker_db\<lparr>policies := map (\<lambda>p. p\<lparr>ap_expiresAfterSeconds := 604800\<rparr>) (policies worker_db)\<rparr>"

definition pilot_requester :: PilotTenantContext where
  "pilot_requester = pilot_context\<lparr>pc_actor := \<lparr>ac_id = wid CHR ''c'', ac_approverEnabled = False, ac_stripeUserId = ''usr_1''\<rparr>\<rparr>"

definition pilot_payment :: NormalizedPayment where
  "pilot_payment = \<lparr>py_paymentKey = ''pi_1'', py_paymentIntentId = Some ''pi_1'', py_chargeId = ''ch_1'', py_amountCaptured = 900,
     py_amountRefunded = 0, py_currency = ''eur'', py_captured = True, py_paid = True, py_disputed = False,
     py_paymentMethodType = Some ''card'', py_hasConnectSemantics = False\<rparr>"

definition pilot_creation :: "err + PilotStoredResponse \<times> db" where
  "pilot_creation = pilot_createRefundRequest pilot_repository pilot_requester pilot_metadata pilot_draws 500 ''eur''
     ''damaged on arrival'' pilot_payment duplicate (tenant_session True) pilot_db"

definition pilot_db_created :: db where
  "pilot_db_created = snd (projr pilot_creation)"

lemma pilot_creation_run:
  "\<exists>r. pilot_creation = Inr (r, pilot_db_created)" and pilot_creation_users: "users pilot_db_created = users worker_db"
proof -
  have x: "map_sum id (\<lambda>(r, d). users d) pilot_creation = Inr (users worker_db)" by code_simp
  obtain y where y: "pilot_creation = Inr y" using map_sum_Inr [OF x] by blast
  then have c: "pilot_creation = Inr (fst y, pilot_db_created)" unfolding pilot_db_created_def by (metis prod.collapse sum.sel(2))
  then show "\<exists>r. pilot_creation = Inr (r, pilot_db_created)" by blast
  show "users pilot_db_created = users worker_db" using x unfolding c by simp
qed

theorem justification_readable_witness:
  "\<exists>shown. get_unit pilot_repository pilot_context (wid CHR ''7'') (tenant_session True) pilot_db_created = Inr (Some shown, pilot_db_created)
     \<and> pq_justification shown = Some ''damaged on arrival''"
proof -
  obtain r where run: "pilot_createRefundRequest pilot_repository pilot_requester pilot_metadata pilot_draws 500 ''eur''
     ''damaged on arrival'' pilot_payment duplicate (tenant_session True) pilot_db = Inr (r, pilot_db_created)"
    using pilot_creation_run by (auto simp: pilot_creation_def)
  have d: "reachable pilot_db" by (rule reachable.init) (simp add: pilot_db_def worker_db_def empty_db_def)
  have s: "cx_tenant (tenant_session True) = pc_tenantId pilot_requester" "pc_tenantId pilot_context = pc_tenantId pilot_requester"
    by (simp_all add: tenant_session_def pilot_requester_def pilot_context_def)
  have u: "hd (users worker_db) \<in> set (users pilot_db_created)" "tu_id (hd (users worker_db)) = ac_id (pc_actor pilot_requester)"
    "tu_tenantId (hd (users worker_db)) = pc_tenantId pilot_requester"
    by (simp_all add: pilot_creation_users worker_db_def pilot_requester_def pilot_context_def)
  show ?thesis
    using justification_readable [OF d s(1) s(1) s(2) run, of pilot_db_created pilot_repository, OF _ _ _ _ _ _ u] sample_gcm_laws(1)
    by (auto simp: system_run_def pilot_repository_def sample_field_keyring_def pilot_draws_def pilot_context_def)
qed

end
