(* ===== verification/Schemas.thy ===== *)
theory Schemas
  imports Canonical_Json
begin

text \<open>
  The validators that \<open>packages/contracts/src/schemas.ts\<close> and \<open>apps/stripe-app/src/api/client.ts\<close> are built
  from. A schema maps a value, or its absence, to the parsed value or a failure. Objects are strict:
  they refuse unknown keys; their parsed value has the keys in the order of the shape. The formats
  of zod that are not regular expressions of the source, UUIDs, URLs and ISO timestamps, are
  parameters.
\<close>

type_synonym schema = "json option \<Rightarrow> json option"

definition z_string :: "(string \<Rightarrow> bool) \<Rightarrow> schema" where
  "z_string p x = (case x of Some (JsStr s) \<Rightarrow> if p s then Some (JsStr s) else None | _ \<Rightarrow> None)"

definition z_trimmed :: "(string \<Rightarrow> bool) \<Rightarrow> schema" where
  "z_trimmed p x = (case x of Some (JsStr s) \<Rightarrow> if p (js_trim s) then Some (JsStr (js_trim s)) else None | _ \<Rightarrow> None)"

definition z_boolean :: schema where
  "z_boolean x = (case x of Some (JsBool b) \<Rightarrow> Some (JsBool b) | _ \<Rightarrow> None)"

definition z_number :: "(int \<Rightarrow> bool) \<Rightarrow> schema" where
  "z_number p x = (case x of Some (JsNum n) \<Rightarrow> if p n then Some (JsNum n) else None | _ \<Rightarrow> None)"

definition z_literal :: "json \<Rightarrow> schema" where
  "z_literal v x = (if x = Some v then Some v else None)"

definition z_enum :: "string list \<Rightarrow> schema" where
  "z_enum values = z_string (\<lambda>s. s \<in> set values)"

definition nullable :: "schema \<Rightarrow> schema" where
  "nullable s x = (if x = Some JsNull then Some JsNull else s x)"

definition with_default :: "json \<Rightarrow> schema \<Rightarrow> schema" where
  "with_default v s x = (if x = None then Some v else s x)"

fun parse_items :: "schema \<Rightarrow> json list \<Rightarrow> json list option" where
  "parse_items s [] = Some []"
| "parse_items s (v # vs) = (case s (Some v) of None \<Rightarrow> None | Some w \<Rightarrow> map_option (\<lambda>ws. w # ws) (parse_items s vs))"

definition z_array :: "(nat \<Rightarrow> bool) \<Rightarrow> schema \<Rightarrow> schema" where
  "z_array p s x = (case x of Some (JsArr vs) \<Rightarrow> if p (length vs) then map_option JsArr (parse_items s vs) else None | _ \<Rightarrow> None)"

datatype field_schema = Required schema | Optional schema

fun parse_shape :: "(string \<times> field_schema) list \<Rightarrow> (string \<times> json) list \<Rightarrow> (string \<times> json) list option" where
  "parse_shape [] ps = Some []"
| "parse_shape ((k, Required s) # fs) ps =
     (case s (map_of ps k) of None \<Rightarrow> None | Some v \<Rightarrow> map_option (\<lambda>vs. (k, v) # vs) (parse_shape fs ps))"
| "parse_shape ((k, Optional s) # fs) ps =
     (case map_of ps k of None \<Rightarrow> parse_shape fs ps
      | Some w \<Rightarrow> (case s (Some w) of None \<Rightarrow> None | Some v \<Rightarrow> map_option (\<lambda>vs. (k, v) # vs) (parse_shape fs ps)))"

definition z_object :: "(string \<times> field_schema) list \<Rightarrow> schema" where
  "z_object shape x = (case x of
     Some (JsObj ps) \<Rightarrow> if list_ex (\<lambda>p. fst p \<notin> set (map fst shape)) ps then None else map_option JsObj (parse_shape shape ps)
   | _ \<Rightarrow> None)"

definition z_strict :: "(string \<times> schema) list \<Rightarrow> schema" where
  "z_strict shape = z_object (map (\<lambda>(k, s). (k, Required s)) shape)"

text \<open>The first alternative that accepts; and the alternative a key selects.\<close>

fun z_union :: "schema list \<Rightarrow> schema" where
  "z_union [] x = None"
| "z_union (s # ss) x = (case s x of None \<Rightarrow> z_union ss x | r \<Rightarrow> r)"

definition z_discriminated :: "string \<Rightarrow> (string \<times> schema) list \<Rightarrow> schema" where
  "z_discriminated key alternatives x = (case x of
     Some (JsObj ps) \<Rightarrow> (case map_of ps key of
         Some (JsStr tag) \<Rightarrow> (case map_of alternatives tag of None \<Rightarrow> None | Some s \<Rightarrow> s x)
       | _ \<Rightarrow> None)
   | _ \<Rightarrow> None)"

record Formats =
  fm_uuid :: "string \<Rightarrow> bool"
  fm_url :: "string \<Rightarrow> bool"
  fm_datetime :: "string \<Rightarrow> bool"

subsection \<open>What schemas accept\<close>

lemma z_string_Some [simp]: "z_string p x = Some v \<longleftrightarrow> (\<exists>s. x = Some (JsStr s) \<and> p s \<and> v = JsStr s)"
  by (auto simp: z_string_def split: option.splits json.splits)

lemma z_trimmed_Some [simp]: "z_trimmed p x = Some v \<longleftrightarrow> (\<exists>s. x = Some (JsStr s) \<and> p (js_trim s) \<and> v = JsStr (js_trim s))"
  by (auto simp: z_trimmed_def split: option.splits json.splits)

lemma z_boolean_Some [simp]: "z_boolean x = Some v \<longleftrightarrow> (\<exists>b. x = Some (JsBool b) \<and> v = JsBool b)"
  by (auto simp: z_boolean_def split: option.splits json.splits)

lemma z_number_Some [simp]: "z_number p x = Some v \<longleftrightarrow> (\<exists>n. x = Some (JsNum n) \<and> p n \<and> v = JsNum n)"
  by (auto simp: z_number_def split: option.splits json.splits)

lemma z_literal_Some [simp]: "z_literal w x = Some v \<longleftrightarrow> x = Some w \<and> v = w"
  by (auto simp: z_literal_def)

lemma z_enum_Some [simp]: "z_enum values x = Some v \<longleftrightarrow> (\<exists>s. x = Some (JsStr s) \<and> s \<in> set values \<and> v = JsStr s)"
  by (simp add: z_enum_def)

lemma with_default_Some [simp]: "with_default w s x = Some v \<longleftrightarrow> (if x = None then v = w else s x = Some v)"
  by (auto simp: with_default_def)

lemma z_array_Some [simp]: "z_array p s x = Some v \<longleftrightarrow>
    (\<exists>vs ws. x = Some (JsArr vs) \<and> p (length vs) \<and> parse_items s vs = Some ws \<and> v = JsArr ws)"
  by (auto simp: z_array_def split: option.splits json.splits)

lemma parse_shape_Required [simp]: "parse_shape ((k, Required s) # fs) ps = Some r \<longleftrightarrow>
    (\<exists>v vs. s (map_of ps k) = Some v \<and> parse_shape fs ps = Some vs \<and> r = (k, v) # vs)"
  by (auto split: option.splits)

lemma parse_shape_Optional [simp]: "parse_shape ((k, Optional s) # fs) ps = Some r \<longleftrightarrow>
    (if map_of ps k = None then parse_shape fs ps = Some r
     else \<exists>v vs. s (map_of ps k) = Some v \<and> parse_shape fs ps = Some vs \<and> r = (k, v) # vs)"
  by (auto split: option.splits)

declare parse_shape.simps(2,3) [simp del]

lemma z_object_Some: "z_object shape x = Some v \<longleftrightarrow>
    (\<exists>ps vs. x = Some (JsObj ps) \<and> fst ` set ps \<subseteq> fst ` set shape \<and> parse_shape shape ps = Some vs \<and> v = JsObj vs)"
  by (auto simp: z_object_def list_ex_iff image_subset_iff split: option.splits json.splits if_splits)

lemma z_union_Some: "z_union ss x = Some v \<Longrightarrow> \<exists>s \<in> set ss. s x = Some v"
  by (induction ss) (auto split: option.splits)

lemma z_discriminated_Some [simp]: "z_discriminated key alternatives x = Some v \<longleftrightarrow>
    (\<exists>ps tag s. x = Some (JsObj ps) \<and> map_of ps key = Some (JsStr tag) \<and> map_of alternatives tag = Some s \<and> s x = Some v)"
  by (auto simp: z_discriminated_def split: option.splits json.splits)

lemma parse_items_map:
  "(\<And>a. a \<in> set as \<Longrightarrow> s (Some (f a)) = Some (g a)) \<Longrightarrow> parse_items s (map f as) = Some (map g as)"
  by (induction as) simp_all

lemma parse_items_all: "parse_items s vs = Some ws \<Longrightarrow> list_all2 (\<lambda>v w. s (Some v) = Some w) vs ws"
  by (induction vs arbitrary: ws) (auto split: option.splits)

end
