(* ===== verification/Extension_Client.thy ===== *)
theory Extension_Client
  imports Pilot_Service Schemas
begin

text \<open>
  \<open>apps/stripe-app/src/api/client.ts\<close>: how the Stripe dashboard extension reads the answers of the API.
\<close>

subsection \<open>The schemas\<close>

definition bounded :: "nat \<Rightarrow> nat \<Rightarrow> schema" where
  "bounded a b = z_string (\<lambda>s. a \<le> length s \<and> length s \<le> b)"

definition minorAmountSchema :: schema where
  "minorAmountSchema = z_string (\<lambda>s. (s = ''0'' \<or> list_all digit s \<and> s \<noteq> [] \<and> hd s \<noteq> CHR ''0'') \<and> length s \<le> 32)"

definition client_currencySchema :: schema where
  "client_currencySchema = z_string currency_pattern"

definition paymentResourceTypeSchema :: schema where
  "paymentResourceTypeSchema = z_enum [''charge'', ''payment_intent'']"

definition workflowStatusSchema :: schema where
  "workflowStatusSchema = z_enum [''pending_approval'', ''approved'', ''executing'', ''reconciliation_required'', ''succeeded'',
     ''failed_terminal'', ''rejected'', ''canceled'', ''expired'', ''stale'']"

definition client_refundReasonSchema :: schema where
  "client_refundReasonSchema = z_enum [''duplicate'', ''fraudulent'', ''requested_by_customer'']"

definition activeRequestSchema :: "Formats \<Rightarrow> schema" where
  "activeRequestSchema fm = z_strict [(''can_cancel'', z_boolean), (''id'', z_string (fm_uuid fm)), (''status'', workflowStatusSchema)]"

definition eligibilityResponseSchema :: "Formats \<Rightarrow> schema" where
  "eligibilityResponseSchema fm = z_strict [(''eligible'', z_boolean),
     (''ineligible_reason'', with_default JsNull (nullable (bounded 0 512))), (''currency'', client_currencySchema),
     (''remaining_amount_minor'', minorAmountSchema), (''approvals_required'', z_literal (JsNum 1)),
     (''active_request'', with_default JsNull (nullable (activeRequestSchema fm)))]"

definition createRequestResponseSchema :: "Formats \<Rightarrow> schema" where
  "createRequestResponseSchema fm = z_strict [(''request_id'', z_string (fm_uuid fm)), (''status'', workflowStatusSchema)]"

definition refundRequestSummarySchema :: "Formats \<Rightarrow> schema" where
  "refundRequestSummarySchema fm = z_strict [(''id'', z_string (fm_uuid fm)), (''resource_type'', paymentResourceTypeSchema),
     (''resource_id'', bounded 1 255), (''amount_minor'', minorAmountSchema), (''currency'', client_currencySchema),
     (''status'', workflowStatusSchema), (''requester_user_id'', bounded 1 255), (''justification'', nullable (bounded 10 2000)),
     (''created_at'', z_string (fm_datetime fm)), (''expires_at'', z_string (fm_datetime fm)),
     (''version'', z_number (\<lambda>n. 0 \<le> n \<and> n \<le> 9007199254740991)), (''can_decide'', z_boolean), (''can_cancel'', z_boolean),
     (''is_requester'', z_boolean), (''reason'', client_refundReasonSchema)]"

definition requestListResponseSchema :: "Formats \<Rightarrow> schema" where
  "requestListResponseSchema fm = z_strict [(''items'', z_array (\<lambda>_. True) (refundRequestSummarySchema fm)),
     (''next_cursor'', nullable (bounded 0 512))]"

definition requestMutationResponseSchema :: "Formats \<Rightarrow> schema" where
  "requestMutationResponseSchema fm = z_strict [(''request_id'', z_string (fm_uuid fm)), (''status'', workflowStatusSchema)]"

definition externalAlertClassificationSchema :: schema where
  "externalAlertClassificationSchema = z_enum [''external'', ''tampered'', ''proof_replay'']"

definition externalAlertSchema :: "Formats \<Rightarrow> schema" where
  "externalAlertSchema fm = z_strict [(''id'', z_string (fm_uuid fm)), (''refund_id'', z_string (prefixed_id ''re_'')),
     (''amount_minor'', minorAmountSchema), (''classification'', externalAlertClassificationSchema),
     (''currency'', client_currencySchema), (''detected_at'', z_string (fm_datetime fm)), (''acknowledged'', z_boolean)]"

definition externalAlertListResponseSchema :: "Formats \<Rightarrow> schema" where
  "externalAlertListResponseSchema fm = z_strict [(''items'', z_array (\<lambda>_. True) (externalAlertSchema fm)),
     (''next_cursor'', nullable (bounded 0 512))]"

definition alertMutationResponseSchema :: "Formats \<Rightarrow> schema" where
  "alertMutationResponseSchema fm = z_strict [(''alert_id'', z_string (fm_uuid fm)), (''acknowledged'', z_literal (JsBool True))]"

definition observedUserSchema :: "Formats \<Rightarrow> schema" where
  "observedUserSchema fm = z_strict [(''stripe_user_id'', z_string (\<lambda>s. prefixed_id ''usr_'' s \<and> length s \<le> 255)),
     (''display_name'', nullable (bounded 0 255)), (''approver_enabled'', z_boolean), (''last_seen_at'', z_string (fm_datetime fm))]"

definition settingsResponseSchema :: "Formats \<Rightarrow> schema" where
  "settingsResponseSchema fm = z_strict [(''approver_user_ids'', z_array (\<lambda>_. True) (bounded 1 255)),
     (''expiration_days'', z_literal (JsNum 7)), (''onboarding_completed'', z_boolean),
     (''observed_users'', z_array (\<lambda>n. n \<le> 500) (observedUserSchema fm))]"

definition contextSyncResponseSchema :: schema where
  "contextSyncResponseSchema = z_strict [(''installation_active'', z_boolean), (''onboarding_completed'', z_boolean),
     (''current_user_is_approver'', z_boolean), (''approvals_required'', z_literal (JsNum 1))]"

definition auditExportResponseSchema :: "Formats \<Rightarrow> schema" where
  "auditExportResponseSchema fm = z_strict [(''download_url'', z_string (fm_url fm)), (''expires_at'', z_string (fm_datetime fm))]"

text \<open>The parsed answer, or the error \<open>RESPONSE_INVALID\<close>.\<close>

definition requestAndParse :: "schema \<Rightarrow> json \<Rightarrow> string + json" where
  "requestAndParse s payload = (case s (Some payload) of None \<Rightarrow> Inl ''RESPONSE_INVALID'' | Some v \<Rightarrow> Inr v)"

text \<open>The schema the client reads the answer of a mutation with.\<close>

definition mutation_schema :: "Formats \<Rightarrow> PilotMutation \<Rightarrow> schema" where
  "mutation_schema fm mutation = (case mutation of
     MU_context_sync \<Rightarrow> contextSyncResponseSchema
   | MU_create _ _ _ _ _ _ \<Rightarrow> createRequestResponseSchema fm
   | MU_approve _ _ \<Rightarrow> requestMutationResponseSchema fm
   | MU_reject _ _ _ \<Rightarrow> requestMutationResponseSchema fm
   | MU_cancel _ _ \<Rightarrow> requestMutationResponseSchema fm
   | MU_acknowledge _ \<Rightarrow> alertMutationResponseSchema fm
   | MU_settings _ _ _ \<Rightarrow> settingsResponseSchema fm
   | MU_audit_export _ \<Rightarrow> auditExportResponseSchema fm)"

end
