(* ===== verification/Extension_Theorems.thy ===== *)
theory Extension_Theorems
  imports Pilot_Theorems Extension_Client
begin

text \<open>
  The API and the extension that calls it: which answers the extension's schemas accept.
\<close>

lemmas schema_defs = z_string_def z_boolean_def z_literal_def z_enum_def z_strict_def z_object_def parse_shape.simps contextSyncResponseSchema_def
  createRequestResponseSchema_def requestMutationResponseSchema_def alertMutationResponseSchema_def auditExportResponseSchema_def
  workflowStatusSchema_def mutation_schema_def requestAndParse_def

lemma status_name_values: "status_name s \<in> set [''pending_approval'', ''approved'', ''executing'', ''reconciliation_required'', ''succeeded'',
     ''failed_terminal'', ''rejected'', ''canceled'', ''expired'', ''stale'']"
  by (cases s) (simp_all add: status_name_def)

text \<open>The identifiers in the answer of a mutation: those of its command and the drawn one.\<close>

definition well_formatted :: "Formats \<Rightarrow> PilotPrismaRepository \<Rightarrow> MutationDraws \<Rightarrow> PilotMutation \<Rightarrow> bool" where
  "well_formatted fm repo dw mu = (case mu of
     MU_create _ _ _ _ _ _ \<Rightarrow> fm_uuid fm (dw_uuid dw)
   | MU_approve i _ \<Rightarrow> fm_uuid fm i | MU_reject _ i _ \<Rightarrow> fm_uuid fm i | MU_cancel i _ \<Rightarrow> fm_uuid fm i | MU_acknowledge i \<Rightarrow> fm_uuid fm i
   | MU_audit_export _ \<Rightarrow> fm_datetime fm (toISOString (dw_now dw + AUDIT_LINK_LIFETIME_MILLISECONDS))
       \<and> (\<forall>token. fm_url fm (pr_origin repo @ ''/api/v1/audit/download?token='' @ token))
   | MU_settings _ _ _ \<Rightarrow> False
   | MU_context_sync \<Rightarrow> True)"

lemma acknowledged_id:
  "acknowledgeExternalRefundAlert ctx i u t d = Inr (Some a, d') \<Longrightarrow> al_id a = i"
  by (auto simp: acknowledgeExternalRefundAlert_def bind_tx_Inr dest!: first_row_Some split: if_split_asm)

lemma updateSettings_body:
  assumes "updateSettings c m dw us n b ctx d = Inr (r, d')"
  shows "\<exists>xs b. sr_body r = settings_body xs b"
proof -
  have "\<exists>s. getSettings ctx (pc_installationId c) d' = Some s \<and> sr_body r = settings_body (map tu_stripeUserId (ss_approvers s))
      (si_onboardingCompletedAt (ss_installation s) \<noteq> None)"
    using assms unfolding updateSettings_def
    by (auto simp: bind_tx_Inr response_def simp del: not_None_eq split: if_split_asm option.split_asm)
  then show ?thesis by (elim exE conjE) (intro exI)
qed

lemma request_answer:
  assumes "performMutation repo c m dw mu ctx d = Inr (r, d')"
  shows "case mu of
      MU_context_sync \<Rightarrow> \<exists>x y z. sr_body r = [(''approvals_required'', JsNum 1), (''current_user_is_approver'', JsBool x),
        (''installation_active'', JsBool y), (''onboarding_completed'', JsBool z)]
    | MU_create _ _ _ _ _ _ \<Rightarrow> \<exists>s. sr_body r = [(''request_id'', JsStr (dw_uuid dw)), (''status'', JsStr (status_name s))]
    | MU_approve i _ \<Rightarrow> sr_body r = [(''request_id'', JsStr i), (''status'', JsStr ''approved'')]
    | MU_reject _ i _ \<Rightarrow> sr_body r = [(''request_id'', JsStr i), (''status'', JsStr ''rejected'')]
    | MU_cancel i _ \<Rightarrow> sr_body r = [(''request_id'', JsStr i), (''status'', JsStr ''canceled'')]
    | MU_acknowledge i \<Rightarrow> sr_body r = [(''acknowledged'', JsBool True), (''alert_id'', JsStr i)]
    | MU_settings _ _ _ \<Rightarrow> \<exists>xs b. sr_body r = settings_body xs b
    | MU_audit_export _ \<Rightarrow> \<exists>token. sr_body r = [(''download_url'', JsStr (pr_origin repo @ ''/api/v1/audit/download?token='' @ token)),
        (''expires_at'', JsStr (toISOString (dw_now dw + AUDIT_LINK_LIFETIME_MILLISECONDS)))]"
proof (cases mu)
  case MU_context_sync
  with assms obtain found s where "installation_tenant ctx (pc_installationId c) d = Inr (found, s)"
    by (auto simp: performMutation_def synchronizeContext_def bind_tx_Inr)
  with assms MU_context_sync show ?thesis
    by (cases found; cases "getSettings ctx (pc_installationId c) s")
      (auto simp: performMutation_def synchronizeContext_def bind_tx_def response_def)
next
  case (MU_create a b j p q rs)
  with assms obtain ctx' x q d1 d2 where "createRefundRequest ctx x d1 = Inr (q, d2)" "rr_id x = dw_uuid dw" "new_request x"
      "sr_body r = [(''request_id'', JsStr (rr_id q)), (''status'', JsStr (status_name (rr_workflowStatus q)))]"
    by (auto simp: performMutation_def pilot_createRefundRequest_def bind_tx_Inr response_def new_request_row_def new_request_def
        split: if_split_asm option.split_asm)
  moreover from this(1-3) have "rr_id q = rr_id x"
    by (auto simp: createRefundRequest_def insert_request_def new_request_def dest!: request_insert_Inr split: sum.split_asm)
  ultimately show ?thesis using MU_create by auto
next
  case (MU_acknowledge i)
  with assms show ?thesis
    by (auto simp: performMutation_def acknowledgeAlert_def bind_tx_Inr response_def dest!: acknowledged_id split: if_split_asm option.split_asm)
next
  case (MU_settings us n b)
  with assms updateSettings_body [of c m dw us n b ctx d r d'] show ?thesis by (simp add: performMutation_def)
qed (use assms in \<open>auto simp: performMutation_def pilot_decideRefundRequest_def record_pilot_decision_def pilot_cancelRefundRequest_def
    createAuditExport_def bind_tx_Inr response_def with_db_def Let_def split: if_split_asm option.split_asm\<close>)

text \<open>
  C37: the answers of the API have the types the extension expects. Whenever a mutation other than a
  change of settings commits and the identifiers, the link and the timestamp in its answer have
  their formats, the extension's strict schema for that operation accepts the answer.
\<close>

theorem mutation_response_accepted:
  assumes "performMutation repo c m dw mu ctx d = Inr (r, d')" and "well_formatted fm repo dw mu"
  shows "\<exists>v. requestAndParse (mutation_schema fm mu) (JsObj (sr_body r)) = Inr v"
proof (cases mu)
  case (MU_create a b j p q rs)
  with request_answer [OF assms(1)] obtain s where "sr_body r = [(''request_id'', JsStr (dw_uuid dw)), (''status'', JsStr (status_name s))]"
    by auto
  with MU_create assms(2) status_name_values [of s] show ?thesis by (simp add: schema_defs well_formatted_def)
qed (use request_answer [OF assms(1)] assms(2) in \<open>auto simp: schema_defs well_formatted_def\<close>)

theorem mutation_response_accepted_witness:
  "\<exists>v. requestAndParse (mutation_schema \<lparr>fm_uuid = uuid_strict, fm_url = (\<lambda>_. True), fm_datetime = (\<lambda>_. True)\<rparr> pilot_approval)
     (JsObj (sr_body pilot_answer)) = Inr v"
proof -
  have "performMutation pilot_repository pilot_context pilot_metadata pilot_draws pilot_approval (tenant_session True) worker_db_attested
    = Inr (pilot_answer, snd (projr (performMutation pilot_repository pilot_context pilot_metadata pilot_draws pilot_approval
        (tenant_session True) worker_db_attested)))"
    by (rule projr_fst) code_simp
  then show ?thesis
    by (rule mutation_response_accepted) (simp add: well_formatted_def pilot_approval_def sample_uuid_strict)
qed

text \<open>
  C40: the settings page cannot be read. Every answer of the API to reading or changing the settings is
  refused by the extension: its strict schema requires the observed users, which the repository
  collects but neither the service nor the mutation returns.
\<close>

theorem settings_response_rejected:
  "(dr_command input = SettingsGet \<and> run_operation svc input c m w = (Inr r, w') \<longrightarrow>
     requestAndParse (settingsResponseSchema fm) (JsObj (sr_body r)) = Inl ''RESPONSE_INVALID'')
   \<and> (updateSettings c m dw us n b ctx d = Inr (r, d') \<longrightarrow>
     requestAndParse (settingsResponseSchema fm) (JsObj (sr_body r)) = Inl ''RESPONSE_INVALID'')"
proof -
  have "requestAndParse (settingsResponseSchema fm) (JsObj (settings_body xs b)) = Inl ''RESPONSE_INVALID''" for xs b
    by (simp add: requestAndParse_def settingsResponseSchema_def z_strict_def z_object_def parse_shape.simps settings_body_def z_array_def split: option.split)
  moreover have "\<exists>xs b. sr_body r = settings_body xs b"
    if get: "dr_command input = SettingsGet" "run_operation svc input c m w = (Inr r, w')"
  proof -
    from get obtain s :: PilotSettings where "sr_body r = settings_body (pt_approver_user_ids s) (pt_onboarding_completed s)"
      by (auto simp: run_operation_def bind_act_def return_act_def response_def split: prod.split_asm sum.split_asm)
    then show ?thesis by (intro exI)
  qed
  ultimately show ?thesis using updateSettings_body by metis
qed

definition pilot_settings :: PilotSettings where
  "pilot_settings = fst (projr (settings_unit pilot_context (tenant_session True) worker_db))"

lemma pilot_settings_read:
  "run_operation pilot_service (sync_request\<lparr>dr_command := SettingsGet\<rparr>) pilot_context pilot_metadata (worker_world worker_db)
     = (Inr (response (settings_body (pt_approver_user_ids pilot_settings) (pt_onboarding_completed pilot_settings))),
        \<lparr>wl_db = worker_db, wl_time = 1, wl_refund_calls = [], wl_jobs = []\<rparr>)"
proof -
  have "map_sum id snd (settings_unit pilot_context (tenant_session True) worker_db) = Inr worker_db" by code_simp
  then have "settings_unit pilot_context (tenant_session True) worker_db = Inr (pilot_settings, worker_db)"
    unfolding pilot_settings_def by (cases "settings_unit pilot_context (tenant_session True) worker_db") auto
  then have "withTenantTransaction (worker_session\<lparr>cx_web := True\<rparr>) (wid CHR ''a'') (settings_unit pilot_context) worker_db
      = Inr (pilot_settings, worker_db)"
    by (intro withTenantTransaction_calm [OF worker_tenant]) (simp_all add: tenant_session_def worker_session_def)
  then show ?thesis
    by (simp add: run_operation_def sync_request_def pilot_getSettings_def tenant_read_def bind_act_def tx_act_def pilot_service_def
        pilot_repository_def worker_deps_def worker_world_def tick_def return_act_def pilot_context_def)
qed

theorem settings_response_rejected_witness:
  "requestAndParse (settingsResponseSchema \<lparr>fm_uuid = uuid_strict, fm_url = (\<lambda>_. True), fm_datetime = (\<lambda>_. True)\<rparr>)
     (JsObj (settings_body (pt_approver_user_ids pilot_settings) (pt_onboarding_completed pilot_settings))) = Inl ''RESPONSE_INVALID''"
proof -
  have "dr_command (sync_request\<lparr>dr_command := SettingsGet\<rparr>) = SettingsGet
    \<and> run_operation pilot_service (sync_request\<lparr>dr_command := SettingsGet\<rparr>) pilot_context pilot_metadata (worker_world worker_db)
     = (Inr (response (settings_body (pt_approver_user_ids pilot_settings) (pt_onboarding_completed pilot_settings))),
        \<lparr>wl_db = worker_db, wl_time = 1, wl_refund_calls = [], wl_jobs = []\<rparr>)"
    using pilot_settings_read by simp
  from settings_response_rejected [THEN conjunct1, THEN mp, OF this] show ?thesis by (simp add: response_def)
qed

end
