(* ===== verification/Audit_Download.thy ===== *)
theory Audit_Download
  imports Pilot_Repository Edge_Admission
begin

text \<open>
  \<open>apps/platform/src/server/pilot-audit-token.ts\<close> and \<open>pilot-audit-download.ts\<close>: the verification of an audit
  link, the paged collection of the events, their CSV text and the handler with its lease of the
  edge gate. \<open>JSON.parse\<close> and the parser of dates are parameters; a request is given by its path, its
  query parameters and its headers. An event has the default schema version 1.
\<close>

subsection \<open>Audit links\<close>

record Parsers =
  js_parse :: "string \<Rightarrow> json option"
  js_date :: "string \<Rightarrow> date option"

definition pilot_environment :: "string \<Rightarrow> StripeEnvironment option" where
  "pilot_environment s = (if s = ''sandbox'' then Some Env_sandbox else if s = ''test'' then Some Env_test else None)"

definition token_payload :: "Parsers \<Rightarrow> date \<Rightarrow> json \<Rightarrow> PilotAuditTokenPayload option" where
  "token_payload ps now value = (case value of
     JsObj r \<Rightarrow>
       (case (map_of r ''actor_id'', map_of r ''environment'', map_of r ''expires_at'', map_of r ''installation_id'',
            map_of r ''nonce'', map_of r ''tenant_id'') of
          (Some (JsStr actor), Some (JsStr env), Some (JsStr expires), Some (JsStr inst), Some (JsStr nonce), Some (JsStr tenant)) \<Rightarrow>
            (case pilot_environment env of None \<Rightarrow> None
             | Some environment \<Rightarrow>
               if length r \<noteq> 6 then None
               else (case js_date ps expires of None \<Rightarrow> None
                 | Some expiry \<Rightarrow> if expiry \<le> now then None
                     else Some \<lparr>tk_actor_id = actor, tk_environment = environment, tk_expires_at = expires,
                       tk_installation_id = inst, tk_nonce = nonce, tk_tenant_id = tenant\<rparr>))
        | _ \<Rightarrow> None)
   | _ \<Rightarrow> None)"

definition verifyPilotAuditToken ::
  "(bytes \<Rightarrow> bytes \<Rightarrow> bytes) \<Rightarrow> Parsers \<Rightarrow> string \<Rightarrow> bytes \<Rightarrow> date \<Rightarrow> PilotAuditTokenPayload option" where
  "verifyPilotAuditToken hmac ps token key now = (case split_on CHR ''.'' token of
     [version, payloadSegment, signatureSegment] \<Rightarrow>
       if version \<noteq> ''v1'' then None
       else if \<not> hashesEqual (b64_decode signatureSegment) (token_signature hmac payloadSegment key) then None
       else (case js_parse ps (utf8_decode (b64_decode payloadSegment)) of
            None \<Rightarrow> None | Some value \<Rightarrow> token_payload ps now value)
   | _ \<Rightarrow> None)"

subsection \<open>Stored administrators\<close>

definition stored_administrator_role :: "json \<Rightarrow> bool" where
  "stored_administrator_role role = (case role of
     JsObj r \<Rightarrow>
       (case (map_of r ''name'', map_of r ''type'') of
          (Some (JsStr name), Some (JsStr type')) \<Rightarrow>
            (type' = ''builtIn'' \<or> type' = ''custom'')
            \<and> (case map_of r ''id'' of
                 None \<Rightarrow> isStripeAdministratorRole \<lparr>role_id = None, role_name = name,
                   role_type = (if type' = ''builtIn'' then builtIn else custom)\<rparr>
               | Some (JsStr i) \<Rightarrow> isStripeAdministratorRole \<lparr>role_id = Some i, role_name = name,
                   role_type = (if type' = ''builtIn'' then builtIn else custom)\<rparr>
               | Some _ \<Rightarrow> False)
        | _ \<Rightarrow> False)
   | _ \<Rightarrow> False)"

definition isStoredStripeAdministrator :: "json \<Rightarrow> bool" where
  "isStoredStripeAdministrator roles = (case roles of JsArr rs \<Rightarrow> list_ex stored_administrator_role rs | _ \<Rightarrow> False)"

text \<open>The column of roles holds JSON; a text that is not JSON does not occur and counts as no role.\<close>

definition stored_roles :: "Parsers \<Rightarrow> TenantUser \<Rightarrow> json" where
  "stored_roles ps u = (case js_parse ps (tu_stripeRoles u) of None \<Rightarrow> JsNull | Some v \<Rightarrow> v)"

definition auditDownloadActorSnapshot :: "bool \<Rightarrow> json \<Rightarrow> json" where
  "auditDownloadActorSnapshot approverEnabled roles = JsObj [(''explicit_approver'', JsBool approverEnabled),
     (''stored_stripe_administrator'', JsBool (isStoredStripeAdministrator roles))]"

subsection \<open>The file\<close>

definition formula_start :: "string \<Rightarrow> bool" where
  "formula_start s \<longleftrightarrow> s \<noteq> [] \<and> hd s \<in> {CHR ''='', CHR ''+'', CHR ''-'', CHR ''@'', CHR 0x09, CHR 0x0D, CHR 0x0A}"

definition double_quotes :: "string \<Rightarrow> string" where
  "double_quotes s = concat (map (\<lambda>c. if c = CHR 0x22 then [CHR 0x22, CHR 0x22] else [c]) s)"

definition formula_safe :: "string \<Rightarrow> string" where
  "formula_safe value = (if formula_start value then CHR 0x27 # value else value)"

definition safeCsvCell :: "string \<Rightarrow> string" where
  "safeCsvCell value = [CHR 0x22] @ double_quotes (formula_safe value) @ [CHR 0x22]"

definition csv_header :: "string list" where
  "csv_header = [''occurred_at'', ''action'', ''entity_type'', ''entity_id'', ''actor_type'', ''actor_id'', ''schema_version'']"

definition csv_cells :: "AuditEvent \<Rightarrow> string list" where
  "csv_cells e = [toISOString (ae_occurredAt e), ae_action e, ae_entityType e, ae_entityId e, ae_actorType e,
     or_default (ae_actorId e) [], ''1'']"

definition csv_row :: "string list \<Rightarrow> string" where
  "csv_row cells = commas (map safeCsvCell cells)"

definition crlf :: string where
  "crlf = [CHR 0x0D, CHR 0x0A]"

definition join_lines :: "string list \<Rightarrow> string" where
  "join_lines ls = concat (case ls of [] \<Rightarrow> [] | l # ls \<Rightarrow> l # map (\<lambda>x. crlf @ x) ls)"

definition renderRedactedAuditCsv :: "AuditEvent list \<Rightarrow> string" where
  "renderRedactedAuditCsv events = csv_row csv_header @ crlf @ join_lines (map (\<lambda>e. csv_row (csv_cells e)) events) @ crlf"

subsection \<open>The transaction\<close>

definition AUDIT_PAGE_SIZE :: int where
  "AUDIT_PAGE_SIZE = 1000"

definition AUDIT_EXPORT_LIMIT :: nat where
  "AUDIT_EXPORT_LIMIT = 10000"

definition export_too_large :: err where
  "export_too_large = PilotApiError ''REQUEST_TOO_LARGE'' 413 ''The audit export is too large for synchronous download.''"

text \<open>The loop over the pages; it ends because a full page brings the collection closer to its limit.\<close>

function collect_pages :: "txctx \<Rightarrow> AuditEvent list \<Rightarrow> string option \<Rightarrow> AuditEvent list tx" where
  "collect_pages ctx collected cursor d =
     (case listAuditEvents ctx None None cursor AUDIT_PAGE_SIZE d of
        Inl e \<Rightarrow> Inl e
      | Inr (page, d') \<Rightarrow>
        if length collected + length page > AUDIT_EXPORT_LIMIT then Inl export_too_large
        else if int (length page) < AUDIT_PAGE_SIZE then Inr (collected @ page, d')
        else collect_pages ctx (collected @ page) (Some (ae_id (last page))) d')"
  by pat_completeness auto
termination
  by (relation "measure (\<lambda>(_, collected, _, _). AUDIT_EXPORT_LIMIT - length collected)")
    (auto simp: AUDIT_PAGE_SIZE_def AUDIT_EXPORT_LIMIT_def)

declare collect_pages.simps [simp del]

definition link_unauthorized :: err where
  "link_unauthorized = PilotApiError ''UNAUTHORIZED'' 403 ''The audit download link is no longer authorized.''"

definition download_unit :: "Parsers \<Rightarrow> PilotAuditTokenPayload \<Rightarrow> txctx \<Rightarrow> AuditEvent list tx" where
  "download_unit ps token ctx =
     bind_tx (installation_tenant ctx (tk_installation_id token)) (\<lambda>found.
     bind_tx (gets_tx (\<lambda>d. first_row (\<lambda>u. tu_stripeUserId u = tk_actor_id token \<and> tu_tenantId u = tk_tenant_id token) (users d))) (\<lambda>actor.
     case (found, actor) of
       (Some (i, t), Some u) \<Rightarrow>
         if si_environment i \<noteq> tk_environment token \<or> si_status i \<noteq> I_active \<or> tn_status t \<noteq> T_active
            \<or> \<not> tu_approverEnabled u \<and> \<not> isStoredStripeAdministrator (stored_roles ps u)
         then throw_tx link_unauthorized
         else bind_tx (collect_pages ctx [] None) (\<lambda>collected.
           bind_tx (appendAuditEvent ctx \<lparr>ae_id = [], ae_tenantId = cx_tenant ctx, ae_actorType = ''stripe_user'',
               ae_actorId = Some (tu_stripeUserId u),
               ae_actorSnapshot = auditDownloadActorSnapshot (tu_approverEnabled u) (stored_roles ps u),
               ae_action = ''audit.export_downloaded'', ae_entityType = ''stripe_installation'', ae_entityId = si_id i,
               ae_payload = JsObj [(''exported_event_count'', JsNum (int (length collected)))],
               ae_correlationRequestId = tk_nonce token, ae_occurredAt = cx_clock ctx\<rparr>) (\<lambda>_.
           return_tx collected))
     | _ \<Rightarrow> throw_tx link_unauthorized))"

subsection \<open>The handler\<close>

record AuditRequest =
  aq_path :: string
  aq_params :: "(string \<times> string) list"
  aq_headers :: headers

record PilotAuditDownloadDependencies =
  dl_signingKey :: bytes
  dl_hmac :: "bytes \<Rightarrow> bytes \<Rightarrow> bytes"
  dl_parsers :: Parsers
  dl_gate :: EdgeConfig
  dl_gate_clock :: "int option"
  dl_gate_others :: "EdgeGate \<Rightarrow> EdgeGate"  \<comment> \<open>other requests between admission and release\<close>
  dl_process :: WorkerDependencies

datatype AuditResponse =
    CsvResponse string string  \<comment> \<open>date of the file name, text\<close>
  | ErrorResponse int string string "int option"  \<comment> \<open>status, code, message, seconds to retry after\<close>

definition auditCsvResponse :: "AuditEvent list \<Rightarrow> date \<Rightarrow> AuditResponse" where
  "auditCsvResponse events now = CsvResponse (take 10 (toISOString now)) (renderRedactedAuditCsv events)"

definition auditEdgeDeniedResponse :: "bool \<Rightarrow> int \<Rightarrow> AuditResponse" where
  "auditEdgeDeniedResponse limited retryAfterSeconds =
     (if limited then ErrorResponse 429 ''EDGE_RATE_LIMITED'' ''Audit download capacity is temporarily exhausted.'' (Some retryAfterSeconds)
      else ErrorResponse 503 ''EDGE_ADMISSION_UNAVAILABLE'' ''Audit download admission is temporarily unavailable.'' (Some retryAfterSeconds))"

definition acquireAuditEdgeAdmission ::
  "PilotAuditDownloadDependencies \<Rightarrow> headers \<Rightarrow> EdgeGate \<Rightarrow> (AuditResponse + nat) \<times> EdgeGate" where
  "acquireAuditEdgeAdmission deps h g = (case acquire (dl_gate deps) h audit_download (dl_gate_clock deps) g of
     (EdgeAllowed lease, g') \<Rightarrow> (Inr lease, g')
   | (EdgeDenied reason status' retry, g') \<Rightarrow>
       (Inl (case retry of
          Some seconds \<Rightarrow> if status' = 429 \<and> safe_integer seconds \<and> seconds > 0 then auditEdgeDeniedResponse True seconds
            else auditEdgeDeniedResponse False 60
        | None \<Rightarrow> auditEdgeDeniedResponse False 60), g'))"

definition link_invalid :: err where
  "link_invalid = PilotApiError ''UNAUTHORIZED'' 403 ''The audit download link is invalid or expired.''"

definition assertDownloadRoute :: "AuditRequest \<Rightarrow> err + unit" where
  "assertDownloadRoute request =
     (if aq_path request \<noteq> ''/api/v1/audit/download'' \<or> map fst (aq_params request) \<noteq> [''token'']
      then Inl (PilotApiError ''ROUTE_MISMATCH'' 400 ''The audit download route is invalid.'') else Inr ())"

text \<open>The part of the handler under its lease.\<close>

definition download_events :: "PilotAuditDownloadDependencies \<Rightarrow> AuditRequest \<Rightarrow> AuditResponse act" where
  "download_events deps request =
     bind_act (lift_act (assertDownloadRoute request)) (\<lambda>_.
     case map_of (aq_params request) ''token'' of
       None \<Rightarrow> throw_act link_invalid
     | Some rawToken \<Rightarrow>
       if length rawToken > 4096 then throw_act link_invalid
       else bind_act (now_act (dl_process deps)) (\<lambda>now.
         case verifyPilotAuditToken (dl_hmac deps) (dl_parsers deps) rawToken (dl_signingKey deps) now of
           None \<Rightarrow> throw_act link_invalid
         | Some token \<Rightarrow>
           bind_act (tx_act (dl_process deps) (\<lambda>ctx. withTenantTransaction ctx (tk_tenant_id token)
             (download_unit (dl_parsers deps) token))) (\<lambda>events.
           bind_act (now_act (dl_process deps)) (\<lambda>later. return_act (auditCsvResponse events later)))))"

definition error_response :: "err \<Rightarrow> AuditResponse" where
  "error_response e = (case asSafePilotError e of
     PilotApiError code status' message \<Rightarrow> ErrorResponse status' code message None
   | _ \<Rightarrow> ErrorResponse 500 ''INTERNAL_ERROR'' [] None)"

definition handlePilotAuditDownload ::
  "PilotAuditDownloadDependencies \<Rightarrow> AuditRequest \<Rightarrow> EdgeGate \<Rightarrow> world \<Rightarrow> AuditResponse \<times> EdgeGate \<times> world" where
  "handlePilotAuditDownload deps request g w = (case acquireAuditEdgeAdmission deps (aq_headers request) g of
     (Inl denied, g') \<Rightarrow> (denied, g', w)
   | (Inr lease, g') \<Rightarrow>
     (case download_events deps request w of (outcome, w') \<Rightarrow>
        ((case outcome of Inr r \<Rightarrow> r | Inl e \<Rightarrow> error_response e), release lease (dl_gate_others deps g'), w')))"

end
