(* ===== verification/Audit_Theorems.thy ===== *)
theory Audit_Theorems
  imports Audit_Download Pilot_Theorems Edge_Theorems "HOL-Library.Multiset"
begin

text \<open>
  The export of the audit log: how long a link lives, that the collection of the pages ends with
  every event exactly once, and who gets the file.
\<close>

subsection \<open>The pages\<close>

text \<open>The events of the tenant, newest first.\<close>

definition event_key :: "AuditEvent \<Rightarrow> date \<times> string" where
  "event_key e = (ae_occurredAt e, ae_id e)"

definition audit_log :: "string \<Rightarrow> db \<Rightarrow> AuditEvent list" where
  "audit_log t d = rev (sort_key event_key (filter (\<lambda>e. ae_tenantId e = t) (audits d)))"

lemma audit_log_set: "set (audit_log t d) = {e \<in> set (audits d). ae_tenantId e = t}"
  by (auto simp: audit_log_def)

lemma audit_log_sorted: "sorted (rev (map event_key (audit_log t d)))"
  by (simp add: audit_log_def rev_map [symmetric])

lemma audit_log_distinct:
  assumes "distinct (map ae_id (audits d))"
  shows "distinct (map ae_id (audit_log t d))"
proof -
  have "distinct (map ae_id (filter (\<lambda>e. ae_tenantId e = t) (audits d)))" using assms by (rule distinct_map_filter)
  then show ?thesis by (simp add: audit_log_def distinct_map rev_map [symmetric])
qed

lemma event_key_before:
  assumes "sorted (rev (map event_key (pre @ r # post)))" and "distinct (map ae_id (pre @ r # post))"
  shows "filter (\<lambda>x. event_key x \<le> event_key r) (pre @ r # post) = r # post"
proof -
  have "event_key r \<le> event_key x \<and> ae_id x \<noteq> ae_id r" if "x \<in> set pre" for x
    using assms that by (auto simp: sorted_append) (metis image_eqI)
  then have "\<not> event_key x \<le> event_key r" if "x \<in> set pre" for x
    using that by (metis event_key_def antisym prod.inject)
  then have "filter (\<lambda>x. event_key x \<le> event_key r) pre = []" by (simp add: filter_empty_conv)
  moreover have "event_key x \<le> event_key r" if "x \<in> set post" for x
    using assms(1) that by (auto simp: sorted_append)
  then have "filter (\<lambda>x. event_key x \<le> event_key r) post = post" by (simp add: filter_id_conv)
  ultimately show ?thesis by simp
qed

lemma listAuditEvents_page:
  assumes "audit_log (cx_tenant ctx) d = pre @ post" and "distinct (map ae_id (audits d))"
  shows "listAuditEvents ctx None None (if pre = [] then None else Some (ae_id (last pre))) AUDIT_PAGE_SIZE d
    = Inr (take 1000 post, d)"
proof -
  let ?rows = "filter (\<lambda>e. ae_tenantId e = cx_tenant ctx) (audits d)"
  let ?c = "if pre = [] then None else Some (ae_id (last pre))"
  have "cursor_page event_key ae_id (\<lambda>e. True) ?c 1000 ?rows = take 1000 post"
  proof (cases "pre = []")
    case True
    then show ?thesis using assms(1) by (simp add: cursor_page_def audit_log_def)
  next
    case False
    then obtain front r where pre: "pre = front @ [r]" by (metis append_butlast_last_id)
    have r: "r \<in> set ?rows" using assms(1) audit_log_set [of "cx_tenant ctx" d] pre by auto
    have "inj_on ae_id (set ?rows)" using assms(2) by (auto simp: distinct_map inj_on_def)
    with r have "first_row (\<lambda>x. ae_id x = ae_id r) ?rows = Some r"
      by (cases "first_row (\<lambda>x. ae_id x = ae_id r) ?rows") (auto simp: first_row_None inj_on_def dest!: first_row_Some)
    moreover have "filter (\<lambda>x. event_key x \<le> event_key r) (audit_log (cx_tenant ctx) d) = r # post"
      using event_key_before [of front r post] audit_log_sorted [of "cx_tenant ctx" d] audit_log_distinct [OF assms(2), of "cx_tenant ctx"]
      by (simp add: assms(1) pre)
    ultimately show ?thesis using False by (simp add: cursor_page_def pre audit_log_def)
  qed
  then show ?thesis
    by (simp add: listAuditEvents_def AUDIT_PAGE_SIZE_def safe_integer_def in_period_def event_key_def [abs_def])
qed

lemma collect_pages_from:
  assumes "distinct (map ae_id (audits d))" and "audit_log (cx_tenant ctx) d = pre @ post"
  shows "collect_pages ctx pre (if pre = [] then None else Some (ae_id (last pre))) d
    = (if length (pre @ post) > AUDIT_EXPORT_LIMIT then Inl export_too_large else Inr (pre @ post, d))"
  using assms(2)
proof (induction "length post" arbitrary: pre post rule: less_induct)
  case less
  have step: "collect_pages ctx pre (if pre = [] then None else Some (ae_id (last pre))) d
    = (if length pre + length (take 1000 post) > AUDIT_EXPORT_LIMIT then Inl export_too_large
       else if length (take 1000 post) < 1000 then Inr (pre @ take 1000 post, d)
       else collect_pages ctx (pre @ take 1000 post) (Some (ae_id (last (take 1000 post)))) d)"
    by (subst collect_pages.simps) (unfold listAuditEvents_page [OF less.prems assms(1)], simp add: AUDIT_PAGE_SIZE_def)
  show ?case
  proof (cases "length pre + length (take 1000 post) > AUDIT_EXPORT_LIMIT \<or> length post < 1000")
    case True
    then show ?thesis unfolding step by auto
  next
    case False
    then have "take 1000 post \<noteq> []" "length (drop 1000 post) < length post" by auto
    moreover have "audit_log (cx_tenant ctx) d = (pre @ take 1000 post) @ drop 1000 post" using less.prems by simp
    ultimately show ?thesis using less.hyps [of "drop 1000 post" "pre @ take 1000 post"] False
      unfolding step by (simp add: last_append)
  qed
qed

text \<open>
  C17: the collection of an export ends and is complete. The loop over the pages returns for every
  database: when the tenant has at most ten thousand events it returns all of them, each exactly
  once and newest first, and leaves the database; when it has more it refuses the export.
\<close>

theorem collect_pages_complete:
  assumes "distinct (map ae_id (audits d))"
  shows "collect_pages ctx [] None d = (if length (audit_log (cx_tenant ctx) d) > 10000 then Inl export_too_large
      else Inr (audit_log (cx_tenant ctx) d, d))
    \<and> mset (audit_log (cx_tenant ctx) d) = filter_mset (\<lambda>e. ae_tenantId e = cx_tenant ctx) (mset (audits d))
    \<and> sorted (rev (map ae_occurredAt (audit_log (cx_tenant ctx) d)))"
proof (intro conjI)
  show "collect_pages ctx [] None d = (if length (audit_log (cx_tenant ctx) d) > 10000 then Inl export_too_large
      else Inr (audit_log (cx_tenant ctx) d, d))"
    using collect_pages_from [OF assms, of ctx "[]"] by (simp add: AUDIT_EXPORT_LIMIT_def)
  show "mset (audit_log (cx_tenant ctx) d) = filter_mset (\<lambda>e. ae_tenantId e = cx_tenant ctx) (mset (audits d))"
    by (simp add: audit_log_def)
  have "sorted (map fst (map event_key (sort_key event_key xs)))" for xs
    by (rule sorted_map_mono [of _ fst, unfolded o_def]) (auto simp: mono_on_def less_eq_prod_def)
  then show "sorted (rev (map ae_occurredAt (audit_log (cx_tenant ctx) d)))"
    by (simp add: audit_log_def rev_map [symmetric] event_key_def o_def)
qed

definition export_db :: db where
  "export_db = worker_db\<lparr>audits := [\<lparr>ae_id = ''1'', ae_tenantId = wid CHR ''a'', ae_actorType = ''worker'', ae_actorId = None,
     ae_actorSnapshot = JsObj [], ae_action = ''older'', ae_entityType = ''refund_request'', ae_entityId = sample_uuid,
     ae_payload = JsObj [], ae_correlationRequestId = [], ae_occurredAt = 100\<rparr>,
     \<lparr>ae_id = ''2'', ae_tenantId = wid CHR ''a'', ae_actorType = ''worker'', ae_actorId = None,
     ae_actorSnapshot = JsObj [], ae_action = ''=newer'', ae_entityType = ''refund_request'', ae_entityId = sample_uuid,
     ae_payload = JsObj [], ae_correlationRequestId = [], ae_occurredAt = 200\<rparr>]\<rparr>"

lemma export_log: "map ae_id (audit_log (wid CHR ''a'') export_db) = [''2'', ''1'']"
  by code_simp

theorem collect_pages_complete_witness:
  "map_sum id (map ae_id \<circ> fst) (collect_pages (tenant_session True) [] None export_db) = Inr [''2'', ''1'']"
proof -
  have distinct: "distinct (map ae_id (audits export_db))" by (simp add: export_db_def)
  have tenant: "cx_tenant (tenant_session True) = wid CHR ''a''" by (simp add: tenant_session_def)
  have "length (audit_log (wid CHR ''a'') export_db) = 2" using arg_cong [OF export_log, of length] by simp
  with collect_pages_complete [OF distinct, of "tenant_session True", unfolded tenant] export_log
  show ?thesis by simp
qed

subsection \<open>Links\<close>

lemma insert_by_mset: "mset (insert_by le x xs) = add_mset x (mset xs)"
  by (induction xs) auto

lemma sort_by_mset: "mset (sort_by le xs) = mset xs"
  by (induction xs) (simp_all add: sort_by_def insert_by_mset)

lemma sort_by_lookup:
  assumes "distinct (map fst xs)"
  shows "map_of (sort_by le xs) = map_of xs" and "length (sort_by le xs) = length xs"
proof -
  have m: "mset (sort_by le xs) = mset xs" by (rule sort_by_mset)
  then have "mset (map fst (sort_by le xs)) = mset (map fst xs)" by simp
  with assms have "distinct (map fst (sort_by le xs))" by (metis mset_eq_imp_distinct_iff)
  moreover have "set (sort_by le xs) = set xs" using m by (metis set_mset_mset)
  ultimately show "map_of (sort_by le xs) = map_of xs" using assms map_of_inject_set by blast
  show "length (sort_by le xs) = length xs" using m by (metis size_mset)
qed

lemma split_on_absent: "c \<notin> set xs \<Longrightarrow> split_on c xs = [xs]"
  by (induction xs) auto

lemma split_on_append: "c \<notin> set xs \<Longrightarrow> split_on c (xs @ c # ys) = xs # split_on c ys"
  by (induction xs) auto

lemma b64_no_dot: "CHR ''.'' \<notin> set (b64_encode bs)"
proof -
  have "\<not> b64_alphabet CHR ''.''" by code_simp
  then show ?thesis using b64_encode_alphabet [of bs] by (auto simp: list_all_iff)
qed

lemma token_payload_normalized:
  assumes "tk_environment p \<in> {Env_test, Env_sandbox}"
  shows "token_payload ps now (normalize le (audit_payload_json p)) = (case js_date ps (tk_expires_at p) of
    None \<Rightarrow> None | Some t \<Rightarrow> if t \<le> now then None else Some p)"
  using assms
  by (auto simp: token_payload_def audit_payload_json_def sort_by_lookup pilot_environment_def env_name_def
      split: option.split)

lemma verify_created:
  assumes "tk_environment p \<in> {Env_test, Env_sandbox}"
    and "js_parse ps (canonicalJson le (audit_payload_json p)) = Some (normalize le (audit_payload_json p))"
  shows "verifyPilotAuditToken hmac ps (createPilotAuditToken hmac le p key) key now = (case js_date ps (tk_expires_at p) of
    None \<Rightarrow> None | Some t \<Rightarrow> if t \<le> now then None else Some p)"
  using assms
  by (simp add: verifyPilotAuditToken_def createPilotAuditToken_def Let_def split_on_append split_on_absent b64_no_dot
      hashesEqual_def token_payload_normalized)

text \<open>
  C18: the lifetime of an audit link. The answer to a prepared export holds a link whose token, for
  every later moment, is accepted exactly while less than five minutes have passed, and then gives
  back the actor, installation, tenant and environment it was made for. \<open>JSON.parse\<close> is assumed to
  read the canonical text of the payload and the date parser its expiry.
\<close>

theorem audit_link_lifetime:
  assumes export: "createAuditExport repo c m dw ctx d = Inr (r, d')" and env: "pc_environment c \<in> {Env_test, Env_sandbox}"
    and payload: "p = \<lparr>tk_actor_id = ac_stripeUserId (pc_actor c), tk_environment = pc_environment c,
      tk_expires_at = toISOString (dw_now dw + 300000), tk_installation_id = pc_installationId c, tk_nonce = dw_uuid dw,
      tk_tenant_id = pc_tenantId c\<rparr>"
    and json: "js_parse ps (canonicalJson (pr_collate repo) (audit_payload_json p)) = Some (normalize (pr_collate repo) (audit_payload_json p))"
    and date: "js_date ps (toISOString (dw_now dw + 300000)) = Some (dw_now dw + 300000)"
  shows "\<exists>token. map_of (sr_body r) ''download_url'' = Some (JsStr (pr_origin repo @ ''/api/v1/audit/download?token='' @ token))
    \<and> (\<forall>now. verifyPilotAuditToken (pr_hmac repo) ps token (pr_auditSigningKey repo) now
        = (if now < dw_now dw + 300000 then Some p else None))"
proof (intro exI conjI allI)
  let ?token = "createPilotAuditToken (pr_hmac repo) (pr_collate repo) p (pr_auditSigningKey repo)"
  have lifetime: "AUDIT_LINK_LIFETIME_MILLISECONDS = 300000" by (simp add: AUDIT_LINK_LIFETIME_MILLISECONDS_def)
  have "response [(''download_url'', JsStr (pr_origin repo @ ''/api/v1/audit/download?token='' @ ?token)),
      (''expires_at'', JsStr (toISOString (dw_now dw + 300000)))] = r"
    using export unfolding createAuditExport_def Let_def bind_tx_Inr lifetime payload
    by (elim exE conjE) (simp only: return_tx_def sum.inject prod.inject)
  from arg_cong [OF this, of "\<lambda>r. map_of (sr_body r) ''download_url''"]
  show "map_of (sr_body r) ''download_url'' = Some (JsStr (pr_origin repo @ ''/api/v1/audit/download?token='' @ ?token))"
    by (simp only: response_def PilotStoredResponse.select_convs map_of.simps fst_conv snd_conv fun_upd_same)
  show "verifyPilotAuditToken (pr_hmac repo) ps ?token (pr_auditSigningKey repo) now
      = (if now < dw_now dw + 300000 then Some p else None)" for now
  proof -
    have "tk_environment p \<in> {Env_test, Env_sandbox}" and expires: "tk_expires_at p = toISOString (dw_now dw + 300000)"
      using env by (simp_all add: payload)
    from this(1) show ?thesis by (simp add: verify_created json expires date)
  qed
qed

definition export_payload :: PilotAuditTokenPayload where
  "export_payload = \<lparr>tk_actor_id = ''usr_2'', tk_environment = Env_test, tk_expires_at = toISOString 301900,
     tk_installation_id = wid CHR ''b'', tk_nonce = wid CHR ''7'', tk_tenant_id = wid CHR ''a''\<rparr>"

definition export_parsers :: Parsers where
  "export_parsers = \<lparr>js_parse = (\<lambda>_. Some (normalize (\<lambda>a b. a \<le> b) (audit_payload_json export_payload))), js_date = (\<lambda>_. Some 301900)\<rparr>"

lemma export_appends: "\<exists>e d'. pilot_audit (tenant_session True) pilot_metadata a u t i p export_db = Inr (e, d')"
  by (simp add: pilot_audit_def appendAuditEvent_def insert_audit_def bind_tx_def Let_def tenant_session_def
      worker_session_def export_db_def worker_db_def empty_db_def wid_def fresh_def
      is_object_def pilotAuditActorSnapshot_def pilot_metadata_def)

theorem audit_link_lifetime_witness:
  "\<exists>r d' token. createAuditExport pilot_repository pilot_context pilot_metadata pilot_draws (tenant_session True) export_db = Inr (r, d')
    \<and> map_of (sr_body r) ''download_url'' = Some (JsStr (''https://refunddesk.example/api/v1/audit/download?token='' @ token))
    \<and> verifyPilotAuditToken (\<lambda>_ _. replicate 32 0) export_parsers token (replicate 32 0) 301899 = Some export_payload
    \<and> verifyPilotAuditToken (\<lambda>_ _. replicate 32 0) export_parsers token (replicate 32 0) 301900 = None"
proof -
  let ?run = "createAuditExport pilot_repository pilot_context pilot_metadata pilot_draws (tenant_session True) export_db"
  obtain e d' where "pilot_audit (tenant_session True) pilot_metadata ''audit.export_prepared'' (ac_stripeUserId (pc_actor pilot_context))
      ''stripe_installation'' (pc_installationId pilot_context)
      [(''expires_at'', JsStr (toISOString (dw_now pilot_draws + AUDIT_LINK_LIFETIME_MILLISECONDS))), (''format'', JsStr ''csv''),
       roles_asserted pilot_metadata] export_db = Inr (e, d')"
    using export_appends by blast
  then have "\<not> isl ?run" by (simp only: createAuditExport_def Let_def bind_tx_def sum.case prod.case return_tx_def) simp
  then obtain r d' where run: "?run = Inr (r, d')" by (cases ?run) auto
  have json: "js_parse export_parsers (canonicalJson (pr_collate pilot_repository) (audit_payload_json export_payload))
      = Some (normalize (pr_collate pilot_repository) (audit_payload_json export_payload))"
    by (simp add: export_parsers_def pilot_repository_def)
  have payload: "export_payload = \<lparr>tk_actor_id = ac_stripeUserId (pc_actor pilot_context),
      tk_environment = pc_environment pilot_context, tk_expires_at = toISOString (dw_now pilot_draws + 300000),
      tk_installation_id = pc_installationId pilot_context, tk_nonce = dw_uuid pilot_draws, tk_tenant_id = pc_tenantId pilot_context\<rparr>"
    by (simp add: export_payload_def pilot_context_def pilot_draws_def)
  have date: "js_date export_parsers (toISOString (dw_now pilot_draws + 300000)) = Some (dw_now pilot_draws + 300000)"
    by (simp add: export_parsers_def pilot_draws_def)
  have env: "pc_environment pilot_context \<in> {Env_test, Env_sandbox}" by (simp add: pilot_context_def)
  have now: "dw_now pilot_draws = 1900" and repo: "pr_origin pilot_repository = ''https://refunddesk.example''"
    "pr_hmac pilot_repository = (\<lambda>_ _. replicate 32 0)" "pr_auditSigningKey pilot_repository = replicate 32 0"
    by (simp_all add: pilot_draws_def pilot_repository_def)
  from audit_link_lifetime [OF run env payload json date] obtain token where token:
    "map_of (sr_body r) ''download_url'' = Some (JsStr (pr_origin pilot_repository @ ''/api/v1/audit/download?token='' @ token))"
    "\<And>now. verifyPilotAuditToken (pr_hmac pilot_repository) export_parsers token (pr_auditSigningKey pilot_repository) now
      = (if now < dw_now pilot_draws + 300000 then Some export_payload else None)"
    by blast
  show ?thesis
    by (intro exI conjI, rule run, simp only: token repo append.simps) (simp_all add: token(2) [unfolded repo now])
qed

subsection \<open>Downloads\<close>

text \<open>The identifiers of audit events stay distinct.\<close>

definition event_ids_kept :: "db \<Rightarrow> db \<Rightarrow> bool" where
  "event_ids_kept d d' \<longleftrightarrow> (distinct (map ae_id (audits d)) \<longrightarrow> distinct (map ae_id (audits d')))"

interpretation event_ids: repositories event_ids_kept ctx
  by (unfold_locales, simp add: event_ids_kept_def, simp add: event_ids_kept_def)
    (rule stepsI, (auto simp: event_ids_kept_def statement_defs update_requests_def insert_request_def update_executions_def
      update_alerts_def Let_def split: sum.splits if_splits)[1])+

lemma event_ids_provisioned: "only_installations d d' \<Longrightarrow> event_ids_kept d d'"
  unfolding only_installations_def event_ids_kept_def by (cases d; cases d') simp

lemma event_ids_run: "system_run d d' \<Longrightarrow> event_ids_kept d d'"
  unfolding system_run_def
  by (induction rule: rtranclp_induct)
    (auto intro: event_ids.refl_R event_ids.trans_R event_ids_provisioned event_ids.repository_step_within)

lemma listAuditEvents_reads: "listAuditEvents ctx a b c n d = Inr (es, d') \<Longrightarrow> d' = d"
  by (auto simp: listAuditEvents_def split: if_split_asm)

lemma collect_pages_reads: "collect_pages ctx collected cursor d = Inr (xs, d') \<Longrightarrow> d' = d"
proof (induction ctx collected cursor d rule: collect_pages.induct)
  case (1 ctx collected cursor d)
  from "1.prems" obtain es where page: "listAuditEvents ctx None None cursor AUDIT_PAGE_SIZE d = Inr (es, d)"
    by (subst (asm) collect_pages.simps) (auto split: sum.split_asm dest: listAuditEvents_reads)
  show ?case using "1.prems" "1.IH" [OF page refl]
    by (subst (asm) collect_pages.simps) (simp add: page split: if_split_asm)
qed

context repository_client
begin

lemma download_unit_steps: "steps R (download_unit ps token ctx)"
proof -
  have "steps R (collect_pages ctx collected cursor)" for collected cursor
    by (rule stepsI, drule collect_pages_reads) (simp add: refl_R)
  then show ?thesis unfolding download_unit_def by (intro web_rules installation_tenant_steps)
qed

end

context worker_process
begin

lemma download_events_acts:
  assumes "dl_process deps = de"
  shows "acts R (download_events deps request)"
  unfolding download_events_def assms
  by (auto intro!: act_rules steps_withTenantTransaction tenant.download_unit_steps)

end

lemma download_unit_Inr:
  assumes "download_unit ps token ctx d = Inr (events, d')" and "cx_tenant ctx = tk_tenant_id token"
  obtains i u e where "i \<in> set (installations d)" "si_id i = tk_installation_id token" "si_tenantId i = tk_tenant_id token"
    "si_environment i = tk_environment token" "si_status i = I_active"
    "u \<in> set (users d)" "tu_stripeUserId u = tk_actor_id token" "tu_tenantId u = tk_tenant_id token"
    "tu_approverEnabled u \<or> isStoredStripeAdministrator (stored_roles ps u)"
    "collect_pages ctx [] None d = Inr (events, d)"
    "d' = d\<lparr>audits := audits d @ [e], db_fresh := Suc (db_fresh d)\<rparr>"
    "ae_tenantId e = tk_tenant_id token" "ae_actorId e = Some (tk_actor_id token)" "ae_action e = ''audit.export_downloaded''"
proof -
  obtain found where found: "installation_tenant ctx (tk_installation_id token) d = Inr (found, d)"
    using assms(1) unfolding download_unit_def bind_tx_Inr
    by (auto simp: installation_tenant_def split: option.split_asm)
  obtain actor where actor: "first_row (\<lambda>u. tu_stripeUserId u = tk_actor_id token \<and> tu_tenantId u = tk_tenant_id token) (users d) = actor"
    by simp
  from assms(1) found actor obtain i t u where *: "found = Some (i, t)" "actor = Some u"
    by (auto simp: download_unit_def bind_tx_Inr gets_tx_def split: option.split_asm)
  with assms(1) found actor obtain d1 where cond: "si_environment i = tk_environment token" "si_status i = I_active"
    "tu_approverEnabled u \<or> isStoredStripeAdministrator (stored_roles ps u)"
    and pages: "collect_pages ctx [] None d = Inr (events, d1)"
    by (auto simp: download_unit_def bind_tx_Inr gets_tx_def split: if_split_asm)
  from collect_pages_reads [OF pages] have pages: "collect_pages ctx [] None d = Inr (events, d)" using pages by simp
  have e: "\<exists>e. d' = d\<lparr>audits := audits d @ [e], db_fresh := Suc (db_fresh d)\<rparr> \<and> ae_tenantId e = cx_tenant ctx
      \<and> ae_actorId e = Some (tu_stripeUserId u) \<and> ae_action e = ''audit.export_downloaded''"
    using assms(1) found actor * pages
    by (auto simp: download_unit_def bind_tx_Inr gets_tx_def appendAuditEvent_def insert_audit_def Let_def split: if_split_asm)
  from first_row_Some [OF actor [unfolded *(2)]]
  have u: "u \<in> set (users d)" "tu_stripeUserId u = tk_actor_id token" "tu_tenantId u = tk_tenant_id token" by simp_all
  from found *(1) have "first_row (\<lambda>i. si_id i = tk_installation_id token \<and> si_tenantId i = cx_tenant ctx) (installations d) = Some i"
    by (auto simp: installation_tenant_def getInstallationContext_def split: option.split_asm)
  from first_row_Some [OF this] e show thesis using that u cond pages assms(2) by auto
qed

lemma download_events_Inr:
  assumes "download_events deps request w = (Inr r, w')"
  obtains raw token events day ctx where "aq_params request = [(''token'', raw)]"
    "verifyPilotAuditToken (dl_hmac deps) (dl_parsers deps) raw (dl_signingKey deps) (de_clock (dl_process deps) (wl_time w)) = Some token"
    "cx_tenant ctx = tk_tenant_id token"
    "download_unit (dl_parsers deps) token ctx (de_others (dl_process deps) (Suc (wl_time w)) (wl_db w)) = Inr (events, wl_db w')"
    "r = auditCsvResponse events day"
proof -
  from assms obtain raw where raw: "aq_params request = [(''token'', raw)]"
    by (cases "aq_params request") (auto simp: download_events_def bind_act_def lift_act_def assertDownloadRoute_def split: if_split_asm)
  with assms obtain token where token:
    "verifyPilotAuditToken (dl_hmac deps) (dl_parsers deps) raw (dl_signingKey deps) (de_clock (dl_process deps) (wl_time w)) = Some token"
    by (auto simp: download_events_def bind_act_def lift_act_def assertDownloadRoute_def throw_act_def now_act_def
        split: if_split_asm option.split_asm)
  let ?u = "\<lambda>ctx. withTenantTransaction ctx (tk_tenant_id token) (download_unit (dl_parsers deps) token)"
  obtain o' w1 where run: "tx_act (dl_process deps) ?u (tick w) = (o', w1)" by fastforce
  with assms raw token obtain events where events: "o' = Inr events"
    "r = auditCsvResponse events (de_clock (dl_process deps) (wl_time w1))" "wl_db w' = wl_db w1"
    by (cases o') (auto simp: download_events_def bind_act_def lift_act_def assertDownloadRoute_def throw_act_def now_act_def
        return_act_def tick_def split: if_split_asm)
  from run events(1) have "?u (de_session (dl_process deps) (Suc (wl_time w))) (de_others (dl_process deps) (Suc (wl_time w)) (wl_db w))
      = Inr (events, wl_db w1)"
    by (auto simp: tx_act_def Let_def tick_def split: sum.split_asm)
  from withTenantTransaction_Inr [OF this] show thesis
    using that [OF raw token, of "(de_session (dl_process deps) (Suc (wl_time w)))\<lparr>cx_tenant := tk_tenant_id token\<rparr>" events] events
    by simp
qed

text \<open>
  C16: who gets an audit file. When a download answers with a file, the edge gate had admitted it
  under a lease that is released afterwards; its only parameter was a token that verified; at the
  time of the transaction the installation of the token was active in its environment and tenant,
  and its actor an approver or stored administrator of the tenant; the file is the whole log of
  that tenant, and exactly one event, which names the actor, is added to the log.
\<close>

theorem audit_download_authorised:
  assumes env: "system_environment (dl_process deps)" and ids: "distinct (map ae_id (audits (wl_db w)))"
    and run: "handlePilotAuditDownload deps request g w = (CsvResponse day csv, g', w')"
    and db: "d = de_others (dl_process deps) (Suc (wl_time w)) (wl_db w)"
  shows "\<exists>raw token i u e lease g1.
    acquire (dl_gate deps) (aq_headers request) audit_download (dl_gate_clock deps) g = (EdgeAllowed lease, g1)
    \<and> g' = release lease (dl_gate_others deps g1)
    \<and> aq_params request = [(''token'', raw)]
    \<and> verifyPilotAuditToken (dl_hmac deps) (dl_parsers deps) raw (dl_signingKey deps) (de_clock (dl_process deps) (wl_time w)) = Some token
    \<and> i \<in> set (installations d) \<and> si_id i = tk_installation_id token \<and> si_tenantId i = tk_tenant_id token
    \<and> si_environment i = tk_environment token \<and> si_status i = I_active
    \<and> u \<in> set (users d) \<and> tu_stripeUserId u = tk_actor_id token \<and> tu_tenantId u = tk_tenant_id token
    \<and> (tu_approverEnabled u \<or> isStoredStripeAdministrator (stored_roles (dl_parsers deps) u))
    \<and> csv = renderRedactedAuditCsv (audit_log (tk_tenant_id token) d)
    \<and> wl_db w' = d\<lparr>audits := audits d @ [e], db_fresh := Suc (db_fresh d)\<rparr>
    \<and> ae_tenantId e = tk_tenant_id token \<and> ae_actorId e = Some (tk_actor_id token) \<and> ae_action e = ''audit.export_downloaded''"
proof -
  from run obtain lease g1 where gate:
    "acquire (dl_gate deps) (aq_headers request) audit_download (dl_gate_clock deps) g = (EdgeAllowed lease, g1)"
    by (auto simp: handlePilotAuditDownload_def acquireAuditEdgeAdmission_def auditEdgeDeniedResponse_def
        split: EdgeAdmissionDecision.split_asm prod.split_asm option.split_asm if_split_asm)
  obtain o' where out: "download_events deps request w = (o', w')" "g' = release lease (dl_gate_others deps g1)"
    "CsvResponse day csv = (case o' of Inr r \<Rightarrow> r | Inl e \<Rightarrow> error_response e)"
    using run gate by (auto simp: handlePilotAuditDownload_def acquireAuditEdgeAdmission_def split: prod.split_asm)
  then have "o' = Inr (CsvResponse day csv)"
    by (auto simp: error_response_def split: sum.split_asm err.split_asm)
  with out(1) have "download_events deps request w = (Inr (CsvResponse day csv), w')" by simp
  from download_events_Inr [OF this] obtain raw token events later ctx where
    raw: "aq_params request = [(''token'', raw)]" and
    token: "verifyPilotAuditToken (dl_hmac deps) (dl_parsers deps) raw (dl_signingKey deps) (de_clock (dl_process deps) (wl_time w)) = Some token"
    and ctx: "cx_tenant ctx = tk_tenant_id token"
    and unit: "download_unit (dl_parsers deps) token ctx d = Inr (events, wl_db w')"
    and csv: "CsvResponse day csv = auditCsvResponse events later" unfolding db by metis
  have "system_run (wl_db w) d" using env by (simp add: system_environment_def db)
  with ids have "distinct (map ae_id (audits d))" using event_ids_run by (auto simp: event_ids_kept_def)
  from collect_pages_from [OF this, of ctx "[]"] have pages:
    "collect_pages ctx [] None d = Inr (es, d) \<Longrightarrow> es = audit_log (cx_tenant ctx) d" for es by (auto split: if_split_asm)
  show ?thesis
    by (rule download_unit_Inr [OF unit ctx])
      (use gate out(2) raw token csv pages ctx in \<open>auto simp: auditCsvResponse_def\<close>)
qed

definition export_token :: string where
  "export_token = createPilotAuditToken (\<lambda>_ _. replicate 32 0) (\<lambda>a b. a \<le> b) export_payload (replicate 32 0)"

definition export_deps :: PilotAuditDownloadDependencies where
  "export_deps = \<lparr>dl_signingKey = replicate 32 0, dl_hmac = (\<lambda>_ _. replicate 32 0), dl_parsers = export_parsers,
     dl_gate = open_gate, dl_gate_clock = Some 1, dl_gate_others = (\<lambda>g. g), dl_process = worker_deps\<rparr>"

definition export_request :: AuditRequest where
  "export_request = \<lparr>aq_path = ''/api/v1/audit/download'', aq_params = [(''token'', export_token)], aq_headers = (\<lambda>_. None)\<rparr>"

lemma export_token_short: "length export_token \<le> 4096"
  by code_simp

lemma export_token_verifies: "verifyPilotAuditToken (\<lambda>_ _. replicate 32 0) export_parsers export_token (replicate 32 0) 1900 = Some export_payload"
  unfolding export_token_def by (subst verify_created) (simp_all add: export_parsers_def export_payload_def)

lemma export_unit: "\<not> isl (download_unit export_parsers export_payload (tenant_session False) export_db)"
  by code_simp

lemma export_admitted: "fst (acquire open_gate (\<lambda>_. None) audit_download (Some 1) new_gate) = EdgeAllowed 0"
  by code_simp

theorem audit_download_authorised_witness:
  "\<exists>day csv g' w'. handlePilotAuditDownload export_deps export_request new_gate (worker_world export_db) = (CsvResponse day csv, g', w')
    \<and> csv = renderRedactedAuditCsv (audit_log (wid CHR ''a'') export_db)"
proof -
  obtain events d' where "download_unit export_parsers export_payload (tenant_session False) export_db = Inr (events, d')"
    using export_unit by (cases "download_unit export_parsers export_payload (tenant_session False) export_db") auto
  then have "withTenantTransaction worker_session (wid CHR ''a'') (download_unit export_parsers export_payload) export_db
      = Inr (events, d')"
    by (intro withTenantTransaction_calm [OF worker_tenant]) (simp_all add: worker_session_def tenant_session_def)
  then obtain day csv w' where "download_events export_deps export_request (worker_world export_db) = (Inr (CsvResponse day csv), w')"
    using export_token_short export_token_verifies
    by (simp add: download_events_def bind_act_def lift_act_def assertDownloadRoute_def export_request_def export_deps_def
        now_act_def tx_act_def return_act_def worker_deps_def worker_world_def tick_def auditCsvResponse_def export_payload_def)
  with export_admitted obtain g' where run:
    "handlePilotAuditDownload export_deps export_request new_gate (worker_world export_db) = (CsvResponse day csv, g', w')"
    by (cases "acquire open_gate (\<lambda>_. None) audit_download (Some 1) new_gate")
      (simp add: handlePilotAuditDownload_def acquireAuditEdgeAdmission_def export_request_def export_deps_def)
  have "system_environment (dl_process export_deps)"
    by (simp add: system_environment_def system_run_def export_deps_def worker_deps_def)
  moreover have "distinct (map ae_id (audits (wl_db (worker_world export_db))))" by (simp add: export_db_def worker_world_def)
  moreover have "export_db = de_others (dl_process export_deps) (Suc (wl_time (worker_world export_db))) (wl_db (worker_world export_db))"
    by (simp add: export_deps_def worker_deps_def worker_world_def)
  ultimately have "\<exists>token. verifyPilotAuditToken (\<lambda>_ _. replicate 32 0) export_parsers export_token (replicate 32 0) 1900 = Some token
      \<and> csv = renderRedactedAuditCsv (audit_log (tk_tenant_id token) export_db)"
    using audit_download_authorised [OF _ _ run, of export_db]
    by (simp add: export_request_def export_deps_def worker_deps_def worker_world_def) metis
  with run export_token_verifies show ?thesis by (auto simp: export_payload_def)
qed

end
