(* ===== verification/Bounded_Body.thy ===== *)
theory Bounded_Body
  imports Domain_Types
begin

text \<open>
  \<open>apps/platform/src/server/bounded-request-body.ts\<close>: reading a request body within a deadline and a
  size. The body stream and the clock are parameters: \<open>bs_reads n\<close> is what the \<open>n\<close>-th read of the
  reader settles to, and \<open>bs_clock n\<close> the \<open>n\<close>-th reading of \<open>Date.now()\<close>, not counting the one that only sets the timer. A read that has not settled
  when the deadline's timer fires is \<open>Pending_read\<close>; the timer then wins the race.
\<close>

datatype ReadResult =
    Chunk bytes
  | Stream_done
  | Not_bytes  \<comment> \<open>a value that is no \<open>Uint8Array\<close>\<close>
  | Read_fails  \<comment> \<open>the stream is in error\<close>
  | Pending_read

record BodyStream =
  bs_null :: bool
  bs_reads :: "nat \<Rightarrow> ReadResult"
  bs_clock :: "nat \<Rightarrow> date"

datatype BodyError = body_invalid | deadline_exceeded | too_large | read_failed  \<comment> \<open>the stream's own error\<close>

definition MAXIMUM_REQUEST_BODY_CHUNKS :: nat where
  "MAXIMUM_REQUEST_BODY_CHUNKS = 1024"

definition REQUEST_BODY_DEADLINE_MS :: int where
  "REQUEST_BODY_DEADLINE_MS = 30000"

text \<open>
  The loop of \<open>consume\<close>; the first reading of the clock is taken by the caller. It ends because every
  round but the last counts a chunk, empty chunks included.
\<close>

function consume :: "BodyStream \<Rightarrow> date \<Rightarrow> nat \<Rightarrow> nat \<Rightarrow> bytes \<Rightarrow> BodyError + bytes" where
  "consume s deadlineAtMs maximumBytes chunkCount body =
     (if bs_clock s (2 * chunkCount + 1) \<ge> deadlineAtMs then Inl deadline_exceeded
      else let result = bs_reads s chunkCount
      in if result = Pending_read then Inl deadline_exceeded
      else if result = Read_fails then Inl read_failed
      else if bs_clock s (2 * chunkCount + 2) \<ge> deadlineAtMs then Inl deadline_exceeded
      else case result of
        Stream_done \<Rightarrow> Inr body
      | Chunk c \<Rightarrow>
          if chunkCount + 1 > MAXIMUM_REQUEST_BODY_CHUNKS then Inl too_large
          else if length c > maximumBytes - length body then Inl too_large
          else consume s deadlineAtMs maximumBytes (chunkCount + 1) (body @ c)
      | _ \<Rightarrow> Inl body_invalid)"
  by pat_completeness auto
termination
  by (relation "measure (\<lambda>(_, _, _, n, _). MAXIMUM_REQUEST_BODY_CHUNKS - n)") (auto simp: MAXIMUM_REQUEST_BODY_CHUNKS_def)

declare consume.simps [simp del]

definition readBoundedRequestBody :: "BodyStream \<Rightarrow> date \<Rightarrow> int \<Rightarrow> BodyError + bytes" where
  "readBoundedRequestBody s deadlineAtMs maximumBytes =
     (if \<not> safe_integer deadlineAtMs \<or> deadlineAtMs < 0 \<or> \<not> safe_integer maximumBytes \<or> maximumBytes \<le> 0
      then Inl body_invalid
      else if bs_clock s 0 \<ge> deadlineAtMs then Inl deadline_exceeded
      else if bs_null s then Inr []
      else consume s deadlineAtMs (nat maximumBytes) 0 [])"

subsection \<open>What a body is\<close>

text \<open>From its \<open>k\<close>-th read on the stream delivers the chunks and ends, every reading of the clock before \<open>t\<close>.\<close>

primrec delivers :: "BodyStream \<Rightarrow> date \<Rightarrow> nat \<Rightarrow> bytes list \<Rightarrow> bool" where
  "delivers s t k [] \<longleftrightarrow> bs_reads s k = Stream_done \<and> bs_clock s (2 * k + 1) < t \<and> bs_clock s (2 * k + 2) < t"
| "delivers s t k (c # cs) \<longleftrightarrow> bs_reads s k = Chunk c \<and> bs_clock s (2 * k + 1) < t \<and> bs_clock s (2 * k + 2) < t
     \<and> delivers s t (Suc k) cs"

lemma consume_delivers:
  "k + length cs \<le> MAXIMUM_REQUEST_BODY_CHUNKS \<Longrightarrow> length body + length (concat cs) \<le> m \<Longrightarrow> delivers s t k cs \<Longrightarrow>
     consume s t m k body = Inr (body @ concat cs)"
  by (induction cs arbitrary: k body) (subst consume.simps, simp)+

lemma consume_only:
  "consume s t m k body = Inr b \<Longrightarrow> k \<le> MAXIMUM_REQUEST_BODY_CHUNKS \<Longrightarrow> length body \<le> m \<Longrightarrow>
     \<exists>cs. delivers s t k cs \<and> b = body @ concat cs \<and> k + length cs \<le> MAXIMUM_REQUEST_BODY_CHUNKS \<and> length b \<le> m"
proof (induction s t m k body rule: consume.induct)
  case (1 s t m k body)
  from "1.prems"(1) have now: "bs_clock s (2 * k + 1) < t" "bs_clock s (2 * k + 2) < t"
    and r: "bs_reads s k \<noteq> Pending_read" "bs_reads s k \<noteq> Read_fails"
    by (subst (asm) consume.simps; simp add: Let_def split: if_split_asm)+
  show ?case
  proof (cases "bs_reads s k")
    case (Chunk c)
    then have "k + 1 \<le> MAXIMUM_REQUEST_BODY_CHUNKS" "length c \<le> m - length body" "consume s t m (k + 1) (body @ c) = Inr b"
      using "1.prems"(1) now by (subst (asm) consume.simps; simp split: if_split_asm)+
    moreover from this "1.prems"(3) have "length (body @ c) \<le> m" by simp
    ultimately obtain cs where "delivers s t (k + 1) cs" "b = (body @ c) @ concat cs"
      "k + 1 + length cs \<le> MAXIMUM_REQUEST_BODY_CHUNKS" "length b \<le> m"
      using "1.IH" [OF _ refl, of c] now Chunk by auto
    with Chunk now show ?thesis by (intro exI [of _ "c # cs"]) simp
  next
    case Stream_done
    then have "b = body" using "1.prems"(1) now by (subst (asm) consume.simps) simp
    with Stream_done now "1.prems" show ?thesis by (intro exI [of _ "[]"]) simp
  qed (use "1.prems"(1) now r in \<open>subst (asm) consume.simps, simp\<close>)+
qed

text \<open>
  C22: reading a body is bounded. For every stream, also one that never ends, the reader answers; it
  answers with a body exactly when the stream delivers that body in at most 1024 chunks before the
  deadline and within the size, and then the body is what was delivered, no byte more or less.
\<close>

theorem bounded_body_exact:
  "readBoundedRequestBody s t m = Inr b \<longleftrightarrow>
     safe_integer t \<and> 0 \<le> t \<and> safe_integer m \<and> 0 < m \<and> bs_clock s 0 < t \<and>
     (if bs_null s then b = []
      else \<exists>cs. delivers s t 0 cs \<and> b = concat cs \<and> length cs \<le> 1024 \<and> int (length b) \<le> m)"
proof -
  have "consume s t (nat m) 0 [] = Inr b \<longleftrightarrow>
      (\<exists>cs. delivers s t 0 cs \<and> b = concat cs \<and> length cs \<le> 1024 \<and> int (length b) \<le> m)" if "0 < m"
    using consume_only [of s t "nat m" 0 "[]" b] consume_delivers [of 0 _ "[]" "nat m" s t] that
    by (auto simp: MAXIMUM_REQUEST_BODY_CHUNKS_def nat_le_iff le_nat_iff)
  then show ?thesis by (auto simp: readBoundedRequestBody_def not_le not_less)
qed

end
