(* ===== verification/Account_Webhook.thy ===== *)
theory Account_Webhook
  imports Pilot_Repository Edge_Admission Bounded_Body
begin

text \<open>
  \<open>apps/platform/src/server/account-webhook.ts\<close>: the endpoint Stripe delivers account events to, with
  its persistence on the database and the lookup of \<open>packages/db/src/webhooks.ts\<close>. The verification of
  the signature by the Stripe SDK, which also decodes the event, is a parameter; so is the number
  a content-length header denotes. Logging is omitted.
\<close>

subsection \<open>Events as the SDK decodes them\<close>

datatype Reference = Reference_id string | Reference_object string  \<comment> \<open>an id, or an expanded object with its id\<close>

record StripeRefundObject =
  sf_id :: string
  sf_payment_intent :: "Reference option"
  sf_charge :: "Reference option"
  sf_amount :: int
  sf_currency :: string
  sf_status :: "string option"
  sf_created :: int
  sf_metadata :: "(string \<times> string) list"  \<comment> \<open>empty when the refund has none\<close>
  sf_reverses_transfer :: bool  \<comment> \<open>it has a transfer reversal of either kind\<close>

datatype StripeEventObject = Refund_object StripeRefundObject | Application_object string | Other_object

record StripeEvent =
  ev_id :: string
  ev_type :: string
  ev_livemode :: bool
  ev_api_version :: "string option"
  ev_account :: "string option"
  ev_created :: int
  ev_idempotency_key :: "string option"
  ev_object :: StripeEventObject

definition SUPPORTED_EVENT_TYPES :: "string list" where
  "SUPPORTED_EVENT_TYPES = [''refund.created'', ''refund.updated'', ''refund.failed'',
     ''account.application.authorized'', ''account.application.deauthorized'']"

definition supportsEventApiVersion :: "StripeEvent \<Rightarrow> string \<Rightarrow> bool" where
  "supportsEventApiVersion event expectedApiVersion \<longleftrightarrow> ev_api_version event = Some expectedApiVersion
     \<or> (ev_type event = ''account.application.authorized'' \<or> ev_type event = ''account.application.deauthorized'')
       \<and> ev_api_version event = Some ''2026-02-25.clover''"

subsection \<open>Normalisation\<close>

definition referencedId :: "Reference option \<Rightarrow> string option" where
  "referencedId value = map_option (\<lambda>r. case r of Reference_id i \<Rightarrow> i | Reference_object i \<Rightarrow> i) value"

definition metadataValue :: "string option \<Rightarrow> string option" where
  "metadataValue value = (case value of Some [] \<Rightarrow> None | v \<Rightarrow> v)"

definition refund_status_of :: "string \<Rightarrow> StripeRefundStatus option" where
  "refund_status_of s = map_of [(''pending'', R_pending), (''requires_action'', R_requires_action),
     (''succeeded'', R_succeeded), (''failed'', R_failed), (''canceled'', R_canceled)] s"

definition parse_payload :: "NormalizedAccountWebhookPayload \<Rightarrow> err + NormalizedAccountWebhookPayload" where
  "parse_payload p = (if normalizedAccountWebhookPayloadSchema p then Inr p else Inl (TypeError ''ZodError''))"

definition normalized_refund :: "StripeRefundObject \<Rightarrow> StripeRefundStatus option \<Rightarrow> NormalizedWebhookRefund" where
  "normalized_refund refund status' = \<lparr>nr_refund_id = sf_id refund, nr_payment_intent_id = referencedId (sf_payment_intent refund),
     nr_charge_id = referencedId (sf_charge refund), nr_amount_minor = show_int (sf_amount refund),
     nr_currency = js_lower (sf_currency refund), nr_status = status', nr_created = sf_created refund,
     nr_metadata_request_id = metadataValue (map_of (sf_metadata refund) ''refunddesk_request_id''),
     nr_metadata_proof = metadataValue (map_of (sf_metadata refund) ''refunddesk_proof'')\<rparr>"

definition normalizeEvent ::
  "StripeEvent \<Rightarrow> StripeEnvironment \<Rightarrow> err + (NormalizedAccountWebhookPayload \<times> string) option" where
  "normalizeEvent event environment =
     (let payload = (\<lambda>body. \<lparr>np_environment = environment, np_event_created = ev_created event,
            np_event_idempotency_key = ev_idempotency_key event, np_event_type = ev_type event, np_body = body\<rparr>)
      in if ev_type event \<notin> set SUPPORTED_EVENT_TYPES then Inr None
      else if ev_type event \<in> {''refund.created'', ''refund.updated'', ''refund.failed''} then
        (case ev_object event of
           Refund_object refund \<Rightarrow>
             if sf_reverses_transfer refund then Inl (Error ''CONNECT_REFUND_UNSUPPORTED'')
             else (case sf_status refund of
               None \<Rightarrow> map_sum id (\<lambda>p. Some (p, sf_id refund)) (parse_payload (payload (RefundBody (normalized_refund refund None))))
             | Some s \<Rightarrow> (case refund_status_of s of None \<Rightarrow> Inl (TypeError ''ZodError'')
                 | Some t \<Rightarrow> map_sum id (\<lambda>p. Some (p, sf_id refund)) (parse_payload (payload (RefundBody (normalized_refund refund (Some t)))))))
         | _ \<Rightarrow> Inl (TypeError ''not a refund''))
      else (case ev_object event of
           Refund_object refund \<Rightarrow> map_sum id (\<lambda>p. Some (p, sf_id refund)) (parse_payload (payload (InstallationBody (sf_id refund))))
         | Application_object i \<Rightarrow> map_sum id (\<lambda>p. Some (p, i)) (parse_payload (payload (InstallationBody i)))
         | Other_object \<Rightarrow> Inl (TypeError ''ZodError'')))"

subsection \<open>Persistence\<close>

record ResolvedWebhookInstallation =
  rw_tenantId :: string
  rw_installationId :: string
  rw_applied :: bool

definition refunddesk_find_webhook_receipt_v2 :: "WebhookEndpoint \<Rightarrow> string \<Rightarrow> string \<Rightarrow> db \<Rightarrow> WebhookReceipt option" where
  "refunddesk_find_webhook_receipt_v2 endpoint event account d =
     first_row (\<lambda>x. wr_stripeEventId x = event \<and> wr_stripeAccountId x = account
       \<and> endpoint_environment endpoint \<noteq> None \<and> endpoint_environment endpoint = endpoint_environment (wr_endpoint x)) (receipts d)"

definition findWebhookReceipt :: "WebhookEndpoint \<Rightarrow> string \<Rightarrow> string \<Rightarrow> db \<Rightarrow> err + WebhookReceipt option" where
  "findWebhookReceipt endpoint stripeEventId stripeAccountId d =
     bind_err (storedWebhookEndpoint_parse endpoint) (\<lambda>_.
     if \<not> prefixed_id ''evt_'' stripeEventId then Inl (TypeError ''Invalid Stripe event ID'')
     else if \<not> prefixed_id ''acct_'' stripeAccountId then Inl (TypeError ''Invalid Stripe account ID'')
     else Inr (refunddesk_find_webhook_receipt_v2 endpoint stripeEventId stripeAccountId d))"

definition not_applied :: "StripeInstallation option \<Rightarrow> ResolvedWebhookInstallation option" where
  "not_applied resolved = map_option (\<lambda>i. \<lparr>rw_tenantId = si_tenantId i, rw_installationId = si_id i, rw_applied = False\<rparr>) resolved"

definition webhook_resolve :: "string \<Rightarrow> NormalizedAccountWebhookPayload \<Rightarrow> string \<Rightarrow> ResolvedWebhookInstallation option tx" where
  "webhook_resolve stripeAccountId payload stripeEventId =
     (if np_event_type payload = ''account.application.authorized'' then
        bind_tx (provisionWebhookInstallation stripeAccountId (np_environment payload) stripeEventId (np_event_created payload * 1000))
          (\<lambda>(r, applied). return_tx (Some \<lparr>rw_tenantId = rv_tenantId r, rw_installationId = rv_installationId r, rw_applied = applied\<rparr>))
      else if np_event_type payload = ''account.application.deauthorized'' then
        with_db (\<lambda>d. bind_tx (lift_tx (resolveWebhookInstallation stripeAccountId (np_environment payload) d)) (\<lambda>r. return_tx (not_applied r)))
      else
        with_db (\<lambda>d. bind_tx (lift_tx (resolveInstallation stripeAccountId (np_environment payload) d)) (\<lambda>r. return_tx (not_applied r))))"

definition WEBHOOK_TENANT_PURGE_DELAY_MILLISECONDS :: int where
  "WEBHOOK_TENANT_PURGE_DELAY_MILLISECONDS = 29 * 24 * 60 * 60 * 1000"

definition refund_event :: "string \<Rightarrow> bool" where
  "refund_event eventType \<longleftrightarrow> take 7 eventType = ''refund.''"

definition webhook_receipt :: "ResolvedWebhookInstallation \<Rightarrow> WebhookEndpoint \<Rightarrow> string \<Rightarrow> string \<Rightarrow> NormalizedAccountWebhookPayload
   \<Rightarrow> string \<Rightarrow> date \<Rightarrow> WebhookReceipt" where
  "webhook_receipt resolved endpoint stripeEventId stripeAccountId payload objectId receivedAt =
     \<lparr>wr_id = [], wr_tenantId = rw_tenantId resolved, wr_installationId = rw_installationId resolved, wr_endpoint = endpoint,
      wr_stripeEventId = stripeEventId, wr_stripeAccountId = stripeAccountId, wr_eventType = np_event_type payload,
      wr_objectId = objectId, wr_normalizedPayload = payload, wr_stripeCreatedAt = np_event_created payload * 1000,
      wr_receivedAt = receivedAt, wr_status = RC_received, wr_processingAttempts = 0, wr_processedAt = None,
      wr_lastErrorCode = None\<rparr>"

definition webhook_insert ::
  "ResolvedWebhookInstallation \<Rightarrow> WebhookEndpoint \<Rightarrow> string \<Rightarrow> string \<Rightarrow> NormalizedAccountWebhookPayload \<Rightarrow> string \<Rightarrow> date
   \<Rightarrow> txctx \<Rightarrow> (WebhookReceipt \<times> bool) tx" where
  "webhook_insert resolved endpoint stripeEventId stripeAccountId payload objectId receivedAt ctx =
     bind_tx (installation_tenant ctx (rw_installationId resolved)) (\<lambda>found.
     case found of
       None \<Rightarrow> throw_tx (Error ''WEBHOOK_INSTALLATION_MISMATCH'')
     | Some (i, t) \<Rightarrow>
       if si_stripeAccountId i \<noteq> stripeAccountId \<or> si_environment i \<noteq> np_environment payload \<or> tn_liveEnabled t
          \<or> refund_event (np_event_type payload) \<and> (si_status i \<noteq> I_active \<or> tn_status t \<noteq> T_active)
       then throw_tx (Error ''WEBHOOK_INSTALLATION_MISMATCH'')
       else bind_tx
         (if np_event_type payload = ''account.application.deauthorized''
          then bind_tx (applyWebhookDeauthorization ctx \<lparr>wd_installationId = rw_installationId resolved,
              wd_stripeEventId = stripeEventId, wd_stripeEventCreatedAt = np_event_created payload * 1000,
              wd_purgeAt = np_event_created payload * 1000 + WEBHOOK_TENANT_PURGE_DELAY_MILLISECONDS\<rparr>) (\<lambda>_. return_tx ())
          else return_tx ()) (\<lambda>_.
         insertWebhookReceipt ctx (webhook_receipt resolved endpoint stripeEventId stripeAccountId payload objectId receivedAt)))"

subsection \<open>The endpoint\<close>

datatype AccountWebhookRouteEnvironment = Route_live | Route_test | Route_sandbox

record WebhookRequest =
  wq_headers :: headers
  wq_contentLength :: "int option"  \<comment> \<open>the number of its header, rounded up, 0 without one, None when not finite\<close>
  wq_body :: BodyStream
  wq_admittedAt :: date

record AccountWebhookDependencies =
  aw_expectedApplicationId :: string
  aw_expectedAccountId :: string
  aw_expectedApiVersion :: string
  aw_signingSecrets :: "string list"
  aw_constructEvent :: "bytes \<Rightarrow> string \<Rightarrow> string \<Rightarrow> StripeEvent option"
  aw_process :: WorkerDependencies
  aw_gate :: EdgeConfig
  aw_gate_clock :: "int option"
  aw_gate_others :: "EdgeGate \<Rightarrow> EdgeGate"  \<comment> \<open>other requests between admission and release\<close>

datatype WebhookResponse =
    WebhookError string int "int option"  \<comment> \<open>code, status, seconds to retry after\<close>
  | WebhookIgnored string  \<comment> \<open>event\<close>
  | WebhookReceived string string bool bool  \<comment> \<open>event, receipt, duplicate, queued by the recovery job\<close>

definition MAX_WEBHOOK_BYTES :: int where
  "MAX_WEBHOOK_BYTES = 1048576"

definition retryableEdgeResponse :: "bool \<Rightarrow> int \<Rightarrow> WebhookResponse" where
  "retryableEdgeResponse limited retryAfterSeconds =
     (if limited then WebhookError ''EDGE_RATE_LIMITED'' 429 (Some retryAfterSeconds)
      else WebhookError ''EDGE_ADMISSION_UNAVAILABLE'' 503 (Some retryAfterSeconds))"

definition acquireWebhookAdmission ::
  "AccountWebhookDependencies \<Rightarrow> headers \<Rightarrow> EdgeGate \<Rightarrow> (WebhookResponse + nat) \<times> EdgeGate" where
  "acquireWebhookAdmission deps h g = (case acquire (aw_gate deps) h account_webhook (aw_gate_clock deps) g of
     (EdgeAllowed lease, g') \<Rightarrow> (Inr lease, g')
   | (EdgeDenied reason status' retry, g') \<Rightarrow>
       (Inl (if reason = WebhookSourceForbidden then WebhookError ''WEBHOOK_SOURCE_FORBIDDEN'' 403 None
         else case retry of
           Some seconds \<Rightarrow> if status' = 429 \<and> safe_integer seconds \<and> seconds > 0 then retryableEdgeResponse True seconds
             else retryableEdgeResponse False 60
         | None \<Rightarrow> retryableEdgeResponse False 60), g'))"

definition accountEndpoint :: "AccountWebhookRouteEnvironment \<Rightarrow> WebhookEndpoint" where
  "accountEndpoint endpoint = (if endpoint = Route_test then EP_account_test else EP_account_sandbox)"

definition environmentFor :: "AccountWebhookRouteEnvironment \<Rightarrow> StripeEnvironment" where
  "environmentFor endpoint = (case endpoint of Route_live \<Rightarrow> Env_live | Route_test \<Rightarrow> Env_test | Route_sandbox \<Rightarrow> Env_sandbox)"

definition body_error_response :: "BodyError \<Rightarrow> WebhookResponse" where
  "body_error_response e = (case e of deadline_exceeded \<Rightarrow> WebhookError ''WEBHOOK_TIMEOUT'' 408 None
     | too_large \<Rightarrow> WebhookError ''PAYLOAD_TOO_LARGE'' 413 None
     | _ \<Rightarrow> WebhookError ''PAYLOAD_INVALID'' 400 None)"

text \<open>The secrets are tried in their order; the first that validates decides.\<close>

fun verified_event :: "AccountWebhookDependencies \<Rightarrow> bytes \<Rightarrow> string \<Rightarrow> string list \<Rightarrow> StripeEvent option" where
  "verified_event deps rawBody signature [] = None"
| "verified_event deps rawBody signature (secret # secrets) = (case aw_constructEvent deps rawBody signature secret of
     Some event \<Rightarrow> Some event | None \<Rightarrow> verified_event deps rawBody signature secrets)"

text \<open>The checks of a request up to its event, and those of the event up to the normalised payload.\<close>

definition webhook_event :: "AccountWebhookDependencies \<Rightarrow> WebhookRequest \<Rightarrow> WebhookResponse + StripeEvent" where
  "webhook_event deps request =
     (if aw_signingSecrets deps = [] \<or> ''disabled'' \<in> set (aw_signingSecrets deps) then Inl (WebhookError ''ENDPOINT_DISABLED'' 503 None)
      else if \<not> prefixed_id ''acct_'' (aw_expectedAccountId deps) then Inl (WebhookError ''ENDPOINT_MISCONFIGURED'' 503 None)
      else case wq_headers request ''stripe-signature'' of
        None \<Rightarrow> Inl (WebhookError ''SIGNATURE_MISSING'' 400 None)
      | Some signature \<Rightarrow>
        if (case wq_contentLength request of None \<Rightarrow> False | Some n \<Rightarrow> n > MAX_WEBHOOK_BYTES)
        then Inl (WebhookError ''PAYLOAD_TOO_LARGE'' 413 None)
        else case readBoundedRequestBody (wq_body request) (wq_admittedAt request + REQUEST_BODY_DEADLINE_MS) MAX_WEBHOOK_BYTES of
          Inl e \<Rightarrow> Inl (body_error_response e)
        | Inr rawBody \<Rightarrow>
          (case verified_event deps rawBody signature (aw_signingSecrets deps) of
             None \<Rightarrow> Inl (WebhookError ''WEBHOOK_INVALID'' 400 None)
           | Some event \<Rightarrow> Inr event))"

definition admissible_event ::
  "AccountWebhookDependencies \<Rightarrow> AccountWebhookRouteEnvironment \<Rightarrow> StripeEvent
   \<Rightarrow> WebhookResponse + NormalizedAccountWebhookPayload \<times> string" where
  "admissible_event deps endpoint event =
     (if ev_livemode event then Inl (WebhookError ''MODE_MISMATCH'' 400 None)
      else if \<not> supportsEventApiVersion event (aw_expectedApiVersion deps) then Inl (WebhookError ''API_VERSION_MISMATCH'' 400 None)
      else if ev_account event \<noteq> None then Inl (WebhookError ''DELIVERY_SCOPE_MISMATCH'' 400 None)
      else case normalizeEvent event (environmentFor endpoint) of
        Inl _ \<Rightarrow> Inl (WebhookError ''PAYLOAD_INVALID'' 400 None)
      | Inr None \<Rightarrow> Inl (WebhookIgnored (ev_id event))
      | Inr (Some (payload, objectId)) \<Rightarrow>
        (case np_body payload of
           InstallationBody a \<Rightarrow> if a \<noteq> aw_expectedApplicationId deps then Inl (WebhookError ''APPLICATION_MISMATCH'' 400 None)
             else Inr (payload, objectId)
         | RefundBody _ \<Rightarrow> Inr (payload, objectId)))"

text \<open>Persisting an admissible event; every failure becomes the same answer.\<close>

definition store_event ::
  "AccountWebhookDependencies \<Rightarrow> WebhookEndpoint \<Rightarrow> string \<Rightarrow> NormalizedAccountWebhookPayload \<Rightarrow> string \<Rightarrow> WebhookResponse act" where
  "store_event deps dbEndpoint eventId payload objectId =
     (let account = aw_expectedAccountId deps; de = aw_process deps
      in bind_act (tx_act de (\<lambda>_. webhook_resolve account payload eventId)) (\<lambda>resolved.
        case resolved of
          None \<Rightarrow> return_act (WebhookError ''INSTALLATION_NOT_FOUND'' 400 None)
        | Some r \<Rightarrow>
          bind_act (now_act de) (\<lambda>now.
          bind_act (tx_act de (\<lambda>ctx. withTenantTransaction ctx (rw_tenantId r)
            (webhook_insert r dbEndpoint eventId account payload objectId now))) (\<lambda>(receipt, inserted).
          return_act (WebhookReceived eventId (wr_id receipt) (\<not> inserted) True)))))"

definition persist_event ::
  "AccountWebhookDependencies \<Rightarrow> WebhookEndpoint \<Rightarrow> string \<Rightarrow> NormalizedAccountWebhookPayload \<Rightarrow> string \<Rightarrow> WebhookResponse act" where
  "persist_event deps dbEndpoint eventId payload objectId =
     bind_act (read_act (aw_process deps) (findWebhookReceipt dbEndpoint eventId (aw_expectedAccountId deps))) (\<lambda>found.
     bind_act (lift_act found) (\<lambda>existing.
     case existing of
       Some x \<Rightarrow> if np_event_type payload \<noteq> ''account.application.deauthorized''
         then return_act (WebhookReceived eventId (wr_id x) True False)
         else store_event deps dbEndpoint eventId payload objectId
     | None \<Rightarrow> store_event deps dbEndpoint eventId payload objectId))"

definition receiveAdmittedAccountWebhook ::
  "AccountWebhookDependencies \<Rightarrow> WebhookRequest \<Rightarrow> AccountWebhookRouteEnvironment \<Rightarrow> world \<Rightarrow> WebhookResponse \<times> world" where
  "receiveAdmittedAccountWebhook deps request endpoint w =
     (case webhook_event deps request of
        Inl answer \<Rightarrow> (answer, w)
      | Inr event \<Rightarrow> (case admissible_event deps endpoint event of
          Inl answer \<Rightarrow> (answer, w)
        | Inr (payload, objectId) \<Rightarrow>
          (case persist_event deps (accountEndpoint endpoint) (ev_id event) payload objectId w of
             (Inr answer, w') \<Rightarrow> (answer, w')
           | (Inl _, w') \<Rightarrow> (WebhookError ''WEBHOOK_PERSISTENCE_UNAVAILABLE'' 503 None, w'))))"

text \<open>
  The lease is given back once, after the verification or at the end of a request refused before;
  the gate is returned as it is then.
\<close>

definition receiveAccountWebhook ::
  "AccountWebhookDependencies \<Rightarrow> WebhookRequest \<Rightarrow> AccountWebhookRouteEnvironment \<Rightarrow> EdgeGate \<Rightarrow> world
   \<Rightarrow> WebhookResponse \<times> EdgeGate \<times> world" where
  "receiveAccountWebhook deps request endpoint g w =
     (if endpoint = Route_live then (WebhookError ''ENDPOINT_DISABLED'' 503 None, g, w)
      else case acquireWebhookAdmission deps (wq_headers request) g of
        (Inl answer, g') \<Rightarrow> (answer, g', w)
      | (Inr lease, g') \<Rightarrow> (case receiveAdmittedAccountWebhook deps request endpoint w of
          (answer, w') \<Rightarrow> (answer, release lease (aw_gate_others deps g'), w')))"

end
