(* ===== verification/Webhook_Theorems.thy ===== *)
theory Webhook_Theorems
  imports Account_Webhook Pilot_Theorems Worker_Idempotence Edge_Theorems
begin

text \<open>
  The account webhook: what a receipt guarantees, that a redelivery changes nothing, and that the
  order in which the lifecycle events of an installation arrive does not matter.
\<close>

subsection \<open>Runs\<close>

lemma provisionWebhookInstallation_only:
  "provisionWebhookInstallation a e v t d = Inr (x, d') \<Longrightarrow> only_installations d d'"
  by (auto simp: provisionWebhookInstallation_def bind_tx_Inr dest!: provision_only(2) split: if_split_asm)

context repository_client
begin

lemma webhook_insert_steps: "steps R (webhook_insert r e v a p i t ctx)"
proof -
  have "steps R (insertWebhookReceipt ctx x)" for x
    by (rule stepsI, rule operation, rule step_insertWebhookReceipt)
  then show ?thesis unfolding webhook_insert_def by (intro web_rules installation_tenant_steps)
qed

end

context worker_process
begin

lemma persist_event_acts:
  assumes "aw_process deps = de" and "\<And>d d'. only_installations d d' \<Longrightarrow> R d d'"
  shows "acts R (persist_event deps e v p i)"
proof -
  have "steps R (webhook_resolve a p v)" for a
    using assms(2) unfolding webhook_resolve_def
    by (auto intro!: steps_if steps_bind steps_prod steps_return stepsI simp: bind_tx_Inr refl_R
        dest!: provisionWebhookInstallation_only)
  then have "acts R (store_event deps e v p i)" unfolding store_event_def assms(1) Let_def
    by (intro act_rules) (auto intro!: act_rules steps_withTenantTransaction tenant.webhook_insert_steps)
  then show ?thesis unfolding persist_event_def assms(1) by (auto intro!: act_rules)
qed

end

lemma receiveAdmitted_run:
  assumes "system_environment (aw_process deps)"
  shows "system_run (wl_db w) (wl_db (snd (receiveAdmittedAccountWebhook deps request endpoint w)))"
proof -
  have "system_run (wl_db w) (wl_db (snd (persist_event deps e v p i w)))" for e v p i
    using worker_run.persist_event_acts [of deps _ e v p i] assms by (auto simp: acts_def only_installations_run)
  then have "persist_event deps e v p i w = (x, w') \<Longrightarrow> system_run (wl_db w) (wl_db w')" for e v p i x w'
    by (metis snd_conv)
  then show ?thesis
    by (auto simp: receiveAdmittedAccountWebhook_def split: sum.split prod.split) (simp_all add: system_run_def)
qed

lemma receiveAccountWebhook_run:
  assumes "system_environment (aw_process deps)" and "receiveAccountWebhook deps request endpoint g w = (r, g', w')"
  shows "system_run (wl_db w) (wl_db w')"
  using receiveAdmitted_run [OF assms(1), of w request endpoint] assms(2)
  by (auto simp: receiveAccountWebhook_def system_run_def split: if_split_asm sum.split_asm prod.split_asm)

subsection \<open>Receipts\<close>

text \<open>Receipts stay, with what identifies them; an event of an account has one.\<close>

definition event_of_receipt :: "WebhookReceipt \<Rightarrow> string \<times> string" where
  "event_of_receipt x = (wr_stripeAccountId x, wr_stripeEventId x)"

definition receipts_kept :: "db \<Rightarrow> db \<Rightarrow> bool" where
  "receipts_kept d d' \<longleftrightarrow> prefix (map receipt_key (receipts d)) (map receipt_key (receipts d'))
     \<and> (distinct (map event_of_receipt (receipts d)) \<longrightarrow> distinct (map event_of_receipt (receipts d')))"

lemma event_of_receipt_key: "map event_of_receipt xs = map (\<lambda>(_, _, _, a, e). (a, e)) (map receipt_key xs)"
  by (simp add: receipt_key_def event_of_receipt_def)

lemma update_own_map:
  assumes "update_own tn ctx p (\<lambda>r. bind_err (raise_when (bad r) e) (\<lambda>_. Inr (f r))) rs = Inr (n, rs')"
  shows "rs' = map (\<lambda>r. if tn r = cx_tenant ctx \<and> p r then f r else r) rs"
proof -
  from assms have "list_all2 (\<lambda>r r'. r' = (if tn r = cx_tenant ctx \<and> p r then f r else r)) rs rs'"
    unfolding update_own_Inr by (auto elim!: list_all2_mono split: if_split_asm)
  then show ?thesis by (simp add: list_all2_conv_all_nth list_eq_iff_nth_eq)
qed

lemma update_receipts_keys:
  assumes "receipt_op f" and "update_receipts ctx p f d = Inr (n, d')"
  shows "map receipt_key (receipts d') = map receipt_key (receipts d)"
proof -
  from assms(2) obtain rs where d': "d' = d\<lparr>receipts := rs\<rparr>"
    and "update_own wr_tenantId ctx p (\<lambda>r. bind_err (raise_when (\<not> receipt_checks (f r)) ''webhook_receipts check constraint'')
        (\<lambda>_. Inr (f r))) (receipts d) = Inr (n, rs)"
    by (auto simp: update_receipts_def split: sum.split_asm)
  from update_own_map [OF this(2)] assms(1) have "map receipt_key rs = map receipt_key (receipts d)"
    by (simp add: receipt_op_def)
  with d' show ?thesis by simp
qed

interpretation webhook_receipts: repositories receipts_kept ctx
proof (unfold_locales, goal_cases)
  case (1 s)
  then show ?case by (simp add: receipts_kept_def)
next
  case (2 s t u)
  then show ?case by (auto simp: receipts_kept_def intro: prefix_order.trans)
next
  case (20 f p)
  have "receipts_kept d d'" if "update_receipts ctx p f d = Inr (n, d')" for d n d'
    using update_receipts_keys [OF 20 that] by (simp add: receipts_kept_def event_of_receipt_key)
  then show ?case by (rule stepsI)
next
  case (19 r)
  show ?case
    by (rule stepsI) (auto simp: receipts_kept_def insert_receipt_skip_def Let_def event_of_receipt_def split: if_split_asm)
qed (rule stepsI, (auto simp: receipts_kept_def statement_defs update_requests_def insert_request_def update_executions_def
      update_alerts_def Let_def split: sum.splits if_splits)[1])+

subsection \<open>Lifecycle events\<close>

text \<open>What an authorization and a deauthorization make of the installation.\<close>

definition authorized_row :: "string \<Rightarrow> date \<Rightarrow> StripeInstallation \<Rightarrow> StripeInstallation" where
  "authorized_row e t i = (if provision_applies i e t then i\<lparr>si_status := I_active, si_deauthorizedAt := None,
     si_lastLifecycleEventId := Some e, si_lastLifecycleEventType := Some ''account.application.authorized'',
     si_lastLifecycleEventCreatedAt := Some t\<rparr> else i)"

definition deauthorized_row :: "string \<Rightarrow> date \<Rightarrow> StripeInstallation \<Rightarrow> StripeInstallation" where
  "deauthorized_row e t i = (if lifecycle_applies i e t then i\<lparr>si_status := I_deauthorized, si_deauthorizedAt := Some t,
     si_lastLifecycleEventId := Some e, si_lastLifecycleEventType := Some ''account.application.deauthorized'',
     si_lastLifecycleEventCreatedAt := Some t\<rparr> else i)"

text \<open>An event identifier has one type: the recorded event is not recorded under the other one.\<close>

definition event_typed :: "string \<Rightarrow> StripeInstallation \<Rightarrow> bool" where
  "event_typed e i \<longleftrightarrow> (si_lastLifecycleEventId i = Some e \<longrightarrow> si_lastLifecycleEventType i = Some ''account.application.authorized'')"

lemma lifecycle_events_order:
  assumes "e \<noteq> e'" and "event_typed e i"
  shows lifecycle_deauthorizes: "lifecycle_applies (authorized_row e t i) e' t'
      \<longleftrightarrow> lifecycle_applies i e' t' \<and> \<not> provision_applies (deauthorized_row e' t' i) e t"
    and lifecycle_authorizes: "provision_applies (deauthorized_row e' t' i) e t
      \<longleftrightarrow> provision_applies i e t \<and> \<not> lifecycle_applies (authorized_row e t i) e' t'"
proof -
  have a: "lifecycle_applies (authorized_row e t i) e' t' \<longleftrightarrow> (if provision_applies i e t then t' \<ge> t else lifecycle_applies i e' t')"
    using assms(1) by (auto simp: authorized_row_def lifecycle_applies_def)
  have d: "provision_applies (deauthorized_row e' t' i) e t \<longleftrightarrow> (if lifecycle_applies i e' t' then t > t' else provision_applies i e t)"
    using assms(1) by (auto simp: deauthorized_row_def provision_applies_def)
  have "provision_applies i e t \<Longrightarrow> t' \<ge> t \<Longrightarrow> lifecycle_applies i e' t'"
    using assms(2) by (auto simp: provision_applies_def lifecycle_applies_def event_typed_def split: option.split option.split_asm)
  moreover have "lifecycle_applies i e' t' \<Longrightarrow> t > t' \<Longrightarrow> provision_applies i e t"
    by (auto simp: provision_applies_def lifecycle_applies_def split: option.split option.split_asm)
  ultimately show "lifecycle_applies (authorized_row e t i) e' t'
      \<longleftrightarrow> lifecycle_applies i e' t' \<and> \<not> provision_applies (deauthorized_row e' t' i) e t"
    "provision_applies (deauthorized_row e' t' i) e t \<longleftrightarrow> provision_applies i e t \<and> \<not> lifecycle_applies (authorized_row e t i) e' t'"
    unfolding a d by (cases "t \<le> t'"; auto simp: not_le)+
qed

lemma lifecycle_rows_commute:
  assumes "e \<noteq> e'" and "event_typed e i"
  shows "deauthorized_row e' t' (authorized_row e t i) = authorized_row e t (deauthorized_row e' t' i)"
  using lifecycle_events_order [OF assms, of t t'] unfolding authorized_row_def deauthorized_row_def by (auto split: if_splits)

lemma first_row_map:
  "(\<And>x. p (g x) = p x) \<Longrightarrow> first_row p (map g xs) = map_option g (first_row p xs)"
  by (induction xs) (auto simp: first_row_def)

definition active_tenant :: "Tenant \<Rightarrow> Tenant" where
  "active_tenant t = t\<lparr>tn_status := T_active, tn_pendingDeleteAt := None\<rparr>"

definition leaving_tenant :: "date \<Rightarrow> Tenant \<Rightarrow> Tenant" where
  "leaving_tenant purge t = t\<lparr>tn_status := T_pending_deletion, tn_pendingDeleteAt := Some purge\<rparr>"

definition on_tenant :: "string \<Rightarrow> (Tenant \<Rightarrow> Tenant) \<Rightarrow> Tenant list \<Rightarrow> Tenant list" where
  "on_tenant k f = map (\<lambda>t. if tn_id t = k then f t else t)"

definition on_installation :: "string \<Rightarrow> (StripeInstallation \<Rightarrow> StripeInstallation) \<Rightarrow> StripeInstallation list \<Rightarrow> StripeInstallation list" where
  "on_installation k f = map (\<lambda>x. if si_id x = k then f x else x)"

lemma on_row_simps:
  "on_tenant k (leaving_tenant p) (on_tenant k active_tenant ts) = on_tenant k (leaving_tenant p) ts"
  "on_tenant k active_tenant (on_tenant k (leaving_tenant p) ts) = on_tenant k active_tenant ts"
  by (simp_all add: on_tenant_def active_tenant_def leaving_tenant_def)

lemma on_installation_unchanged:
  assumes "distinct (map si_id xs)" and "i \<in> set xs" and "f i = i"
  shows "on_installation (si_id i) f xs = xs"
proof -
  have "f x = x" if "x \<in> set xs" and "si_id x = si_id i" for x
    using that assms by (metis distinct_map inj_onD)
  then show ?thesis by (auto simp: on_installation_def intro!: map_idI)
qed

lemma authorization_effect:
  assumes "provisionWebhookInstallation a env e t d = Inr (x, d')" and "distinct (map si_id (installations d))"
    and "first_row (\<lambda>i. si_stripeAccountId i = a \<and> si_environment i = env) (installations d) = Some i"
  shows "installations d' = on_installation (si_id i) (authorized_row e t) (installations d)
    \<and> tenants d' = (if provision_applies i e t then on_tenant (si_tenantId i) active_tenant (tenants d) else tenants d) \<and> env \<noteq> Env_live"
proof -
  have i: "i \<in> set (installations d)" using first_row_Some [OF assms(3)] by simp
  show ?thesis
  proof (cases "provision_applies i e t")
    case True
    have "on_installation (si_id i) (authorized_row e t) (installations d) = map (\<lambda>x. if si_id x = si_id i
        then (x\<lparr>si_status := I_active, si_deauthorizedAt := None\<rparr>)\<lparr>si_lastLifecycleEventId := Some e,
          si_lastLifecycleEventType := Some ''account.application.authorized'', si_lastLifecycleEventCreatedAt := Some t\<rparr> else x) (installations d)"
      using True i assms(2) unfolding on_installation_def
      by (intro map_cong refl) (auto simp: authorized_row_def distinct_map inj_on_def)
    with assms True show ?thesis
      by (auto simp: provisionWebhookInstallation_def refunddesk_provision_webhook_installation_def bind_tx_Inr reactivate_def Let_def
          on_tenant_def active_tenant_def split: if_split_asm sum.split_asm)
  next
    case False
    with assms on_installation_unchanged [OF assms(2) i, of "authorized_row e t"] show ?thesis
      by (auto simp: provisionWebhookInstallation_def refunddesk_provision_webhook_installation_def bind_tx_Inr authorized_row_def
          split: if_split_asm)
  qed
qed

lemma settle_keeps_accounts:
  "settleRequestsForDeauthorization ctx t d = Inr (x, d') \<Longrightarrow> tenants d' = tenants d \<and> installations d' = installations d"
  by (auto simp: settleRequestsForDeauthorization_def settle_requests_def bind_tx_Inr update_requests_def split: if_split_asm sum.split_asm)

lemma update_installations_map:
  assumes "update_installations ctx p f d = Inr (n, d')"
  shows "installations d' = map (\<lambda>r. if si_tenantId r = cx_tenant ctx \<and> p r then f r else r) (installations d) \<and> tenants d' = tenants d"
  using assms by (auto simp: update_installations_def split: sum.split_asm dest!: update_own_map)

lemma update_tenants_map:
  assumes "update_tenants ctx p f d = Inr (n, d')"
  shows "tenants d' = map (\<lambda>r. if tn_id r = cx_tenant ctx \<and> p r then f r else r) (tenants d) \<and> installations d' = installations d"
  using assms by (auto simp: update_tenants_def split: sum.split_asm dest!: update_own_map)

lemma length_filter_single: "distinct xs \<Longrightarrow> i \<in> set xs \<Longrightarrow> length (filter (\<lambda>y. y = i) xs) = 1"
  by (induction xs) (auto simp: filter_empty_conv)

lemma deauthorization_effect:
  assumes "applyWebhookDeauthorization ctx input d = Inr (x, d')" and "distinct (map si_id (installations d))"
    and "getInstallationContext ctx (wd_installationId input) d = Some i" and "si_environment i \<noteq> Env_live"
  defines "e \<equiv> wd_stripeEventId input" and "t \<equiv> wd_stripeEventCreatedAt input"
  shows "installations d' = on_installation (si_id i) (deauthorized_row e t) (installations d)
    \<and> tenants d' = (if lifecycle_applies i e t then on_tenant (cx_tenant ctx) (leaving_tenant (wd_purgeAt input)) (tenants d) else tenants d)"
proof -
  from first_row_Some [OF assms(3) [unfolded getInstallationContext_def]]
  have i: "i \<in> set (installations d)" "si_id i = wd_installationId input" "si_tenantId i = cx_tenant ctx" by simp_all
  have only: "y = i" if "y \<in> set (installations d)" and "si_id y = si_id i" for y
    using that i(1) assms(2) by (meson distinct_map inj_onD)
  have "(si_id y = wd_installationId input \<and> si_tenantId y = cx_tenant ctx) = (y = i)" if "y \<in> set (installations d)" for y
    using only [OF that] i(2,3) by metis
  then have "filter (\<lambda>y. si_id y = wd_installationId input \<and> si_tenantId y = cx_tenant ctx) (installations d) = filter (\<lambda>y. y = i) (installations d)"
    by (rule filter_cong [OF refl])
  moreover have "length (filter (\<lambda>y. y = i) (installations d)) = 1"
    by (rule length_filter_single [OF _ i(1)]) (use assms(2) in \<open>simp add: distinct_map\<close>)
  ultimately have one: "length (filter (\<lambda>y. si_id y = wd_installationId input \<and> si_tenantId y = cx_tenant ctx) (installations d)) = 1"
    by simp
  show ?thesis
  proof (cases "lifecycle_applies i e t")
    case False
    with assms(1,3,4) one on_installation_unchanged [OF assms(2) i(1), of "deauthorized_row e t"] show ?thesis
      by (auto simp: applyWebhookDeauthorization_def deauthorized_row_def e_def t_def bind_tx_Inr split: if_split_asm)
  next
    case True
    have "on_installation (si_id i) (deauthorized_row e t) (installations d)
        = map (\<lambda>y. if si_tenantId y = cx_tenant ctx \<and> si_id y = si_id i then y\<lparr>si_status := I_deauthorized, si_deauthorizedAt := Some t,
            si_lastLifecycleEventId := Some e, si_lastLifecycleEventType := Some ''account.application.deauthorized'',
            si_lastLifecycleEventCreatedAt := Some t\<rparr> else y) (installations d)"
      using True i(3) only unfolding on_installation_def
      by (intro map_cong refl) (auto simp: deauthorized_row_def)
    moreover have "bind_tx (update_installations ctx (\<lambda>y. si_id y = si_id i) (\<lambda>y. y\<lparr>si_status := I_deauthorized,
         si_deauthorizedAt := Some t, si_lastLifecycleEventId := Some e,
         si_lastLifecycleEventType := Some ''account.application.deauthorized'', si_lastLifecycleEventCreatedAt := Some t\<rparr>)) (\<lambda>_.
       bind_tx (settleRequestsForDeauthorization ctx t) (\<lambda>_.
       bind_tx (update_tenants ctx (\<lambda>t. tn_id t = cx_tenant ctx) (\<lambda>t. t\<lparr>tn_status := T_pending_deletion,
         tn_pendingDeleteAt := Some (wd_purgeAt input)\<rparr>)) (\<lambda>n. if n = 0 then throw_tx (DbError ''P2025'') else return_tx True))) d = Inr (x, d')"
      using assms(1) True one assms(3,4) unfolding e_def t_def
      by (simp add: applyWebhookDeauthorization_def bind_tx_def [of "gets_tx f" for f] gets_tx_def split: if_split_asm)
    then obtain n d1 u d2 m where
      "update_installations ctx (\<lambda>y. si_id y = si_id i) (\<lambda>y. y\<lparr>si_status := I_deauthorized, si_deauthorizedAt := Some t,
         si_lastLifecycleEventId := Some e, si_lastLifecycleEventType := Some ''account.application.deauthorized'',
         si_lastLifecycleEventCreatedAt := Some t\<rparr>) d = Inr (n, d1)"
      "settleRequestsForDeauthorization ctx t d1 = Inr (u, d2)"
      "update_tenants ctx (\<lambda>t. tn_id t = cx_tenant ctx) (\<lambda>t. t\<lparr>tn_status := T_pending_deletion,
         tn_pendingDeleteAt := Some (wd_purgeAt input)\<rparr>) d2 = Inr (m, d')"
      unfolding bind_tx_Inr by (elim exE conjE) (auto split: if_split_asm)
    ultimately show ?thesis using True
      by (simp add: on_tenant_def leaving_tenant_def settle_keeps_accounts update_installations_map update_tenants_map)
  qed
qed

lemma row_of_events:
  "si_id (authorized_row e t i) = si_id i" "si_tenantId (authorized_row e t i) = si_tenantId i"
  "si_stripeAccountId (authorized_row e t i) = si_stripeAccountId i" "si_environment (authorized_row e t i) = si_environment i"
  "si_id (deauthorized_row e t i) = si_id i" "si_tenantId (deauthorized_row e t i) = si_tenantId i"
  "si_stripeAccountId (deauthorized_row e t i) = si_stripeAccountId i" "si_environment (deauthorized_row e t i) = si_environment i"
  by (simp_all add: authorized_row_def deauthorized_row_def)

lemma on_installation_ids: "(\<And>x. si_id (f x) = si_id x) \<Longrightarrow> map si_id (on_installation k f xs) = map si_id xs"
  by (simp add: on_installation_def)

text \<open>
  C21: the order of lifecycle events does not matter. When an authorization and a deauthorization of
  one installation, two different events, are both processed, the installation and its tenant end
  the same whichever arrives first: the later event decides, at equal times the deauthorization.
\<close>

theorem lifecycle_events_converge:
  assumes inst: "first_row (\<lambda>i. si_stripeAccountId i = a \<and> si_environment i = env) (installations d) = Some i"
    and ids: "distinct (map si_id (installations d))"
    and own: "wd_installationId input = si_id i" "cx_tenant ctx = si_tenantId i"
    and event_ids: "e \<noteq> wd_stripeEventId input" "event_typed e i"
    and first: "provisionWebhookInstallation a env e t d = Inr (x1, dA)" "applyWebhookDeauthorization ctx input dA = Inr (y1, dAD)"
    and other: "applyWebhookDeauthorization ctx input d = Inr (y2, dD)" "provisionWebhookInstallation a env e t dD = Inr (x2, dDA)"
  shows "installations dAD = installations dDA \<and> tenants dAD = tenants dDA
    \<and> deauthorized_row (wd_stripeEventId input) (wd_stripeEventCreatedAt input) (authorized_row e t i) \<in> set (installations dAD)"
proof -
  let ?A = "authorized_row e t" and ?D = "deauthorized_row (wd_stripeEventId input) (wd_stripeEventCreatedAt input)"
  have i: "i \<in> set (installations d)" "si_stripeAccountId i = a" "si_environment i = env" using first_row_Some [OF inst] by simp_all
  note A = authorization_effect [OF first(1) ids inst]
  have same: "getInstallationContext ctx (wd_installationId input) d = Some i"
  proof -
    have "\<exists>j. first_row (\<lambda>x. si_id x = si_id i \<and> si_tenantId x = si_tenantId i) (installations d) = Some j"
      using first_row_None i(1) by (metis (mono_tags, lifting) not_Some_eq)
    then obtain j where j: "first_row (\<lambda>x. si_id x = si_id i \<and> si_tenantId x = si_tenantId i) (installations d) = Some j" by blast
    from first_row_Some [OF this] ids i(1) have "j = i" by (meson distinct_map inj_onD)
    with j own show ?thesis by (simp add: getInstallationContext_def)
  qed
  have env: "si_environment i \<noteq> Env_live" using A i by simp
  note D = deauthorization_effect [OF other(1) ids same env]
  have found_A: "getInstallationContext ctx (wd_installationId input) dA = Some (?A i)"
    using A same unfolding getInstallationContext_def on_installation_def
    by (simp add: first_row_map row_of_events own)
  have ids_A: "distinct (map si_id (installations dA))" and ids_D: "distinct (map si_id (installations dD))"
    using A D ids by (simp_all add: on_installation_ids row_of_events)
  have found_D: "first_row (\<lambda>i. si_stripeAccountId i = a \<and> si_environment i = env) (installations dD) = Some (?D i)"
    using D inst unfolding on_installation_def by (simp add: first_row_map row_of_events)
  note AD = deauthorization_effect [OF first(2) ids_A found_A, unfolded row_of_events, OF env]
  note DA = authorization_effect [OF other(2) ids_D found_D, unfolded row_of_events]
  note order = lifecycle_events_order [OF event_ids, where t = t and t' = "wd_stripeEventCreatedAt input"]
  have "on_installation (si_id i) ?D (on_installation (si_id i) ?A xs) = on_installation (si_id i) ?A (on_installation (si_id i) ?D xs)"
    if "set xs \<subseteq> set (installations d)" for xs
    using that
  proof (induction xs)
    case (Cons x xs)
    moreover have "x = i" if "si_id x = si_id i" using that Cons.prems ids i(1) by (metis distinct_map inj_onD list.set_intros(1) subsetD)
    ultimately show ?case using lifecycle_rows_commute [OF event_ids] by (auto simp: on_installation_def row_of_events)
  qed (simp add: on_installation_def)
  then have "installations dAD = installations dDA" using A D AD DA by simp
  moreover have "tenants dAD = tenants dDA"
  proof (cases "provision_applies (?D i) e t")
    case True
    with order(2) show ?thesis using A D AD DA own by (simp add: on_row_simps)
  next
    case False
    with order have "lifecycle_applies (?A i) (wd_stripeEventId input) (wd_stripeEventCreatedAt input)
        = lifecycle_applies i (wd_stripeEventId input) (wd_stripeEventCreatedAt input)"
      "provision_applies i e t \<Longrightarrow> lifecycle_applies i (wd_stripeEventId input) (wd_stripeEventCreatedAt input)" by blast+
    with False show ?thesis using A D AD DA own by (cases "provision_applies i e t") (simp_all add: on_row_simps)
  qed
  moreover have "?D (?A i) \<in> set (installations dAD)"
    using A AD i(1) by (auto simp: on_installation_def row_of_events image_iff intro!: bexI [of _ i])
  ultimately show ?thesis by simp
qed

definition webhook_deauthorization :: WebhookDeauthorizationInput where
  "webhook_deauthorization = \<lparr>wd_installationId = wid CHR ''b'', wd_stripeEventId = ''evt_2'', wd_stripeEventCreatedAt = 300,
     wd_purgeAt = 2505600300\<rparr>"

theorem lifecycle_events_converge_witness:
  "\<exists>x1 dA y1 dAD y2 dD x2 dDA. provisionWebhookInstallation ''acct_1'' Env_test ''evt_1'' 400 worker_db = Inr (x1, dA)
    \<and> applyWebhookDeauthorization (tenant_session True) webhook_deauthorization dA = Inr (y1, dAD)
    \<and> applyWebhookDeauthorization (tenant_session True) webhook_deauthorization worker_db = Inr (y2, dD)
    \<and> provisionWebhookInstallation ''acct_1'' Env_test ''evt_1'' 400 dD = Inr (x2, dDA)
    \<and> installations dAD = installations dDA \<and> map si_status (installations dD) = [I_deauthorized] \<and> map si_status (installations dDA) = [I_active]"
proof -
  define dA where "dA = snd (projr (provisionWebhookInstallation ''acct_1'' Env_test ''evt_1'' 400 worker_db))"
  define dD where "dD = snd (projr (applyWebhookDeauthorization (tenant_session True) webhook_deauthorization worker_db))"
  have "\<not> isl (provisionWebhookInstallation ''acct_1'' Env_test ''evt_1'' 400 worker_db)"
    "\<not> isl (applyWebhookDeauthorization (tenant_session True) webhook_deauthorization worker_db)" by code_simp+
  then obtain x1 y2 where 1: "provisionWebhookInstallation ''acct_1'' Env_test ''evt_1'' 400 worker_db = Inr (x1, dA)"
    "applyWebhookDeauthorization (tenant_session True) webhook_deauthorization worker_db = Inr (y2, dD)"
    unfolding dA_def dD_def by (auto simp: isl_def) (metis sum.exhaust_sel prod.collapse)+
  have "\<not> isl (applyWebhookDeauthorization (tenant_session True) webhook_deauthorization dA)"
    "\<not> isl (provisionWebhookInstallation ''acct_1'' Env_test ''evt_1'' 400 dD)" unfolding dA_def dD_def by code_simp+
  then obtain y1 dAD x2 dDA where 2: "applyWebhookDeauthorization (tenant_session True) webhook_deauthorization dA = Inr (y1, dAD)"
    "provisionWebhookInstallation ''acct_1'' Env_test ''evt_1'' 400 dD = Inr (x2, dDA)"
    by (metis isl_def obj_sumE prod.collapse)
  have statuses: "map si_status (installations dD) = [I_deauthorized]" unfolding dD_def by code_simp
  have active: "map si_status (installations (snd (projr (provisionWebhookInstallation ''acct_1'' Env_test ''evt_1'' 400 dD)))) = [I_active]"
    unfolding dD_def by code_simp
  have i: "first_row (\<lambda>i. si_stripeAccountId i = ''acct_1'' \<and> si_environment i = Env_test) (installations worker_db)
      = Some (hd (installations worker_db))" "distinct (map si_id (installations worker_db))"
    "wd_installationId webhook_deauthorization = si_id (hd (installations worker_db))"
    "cx_tenant (tenant_session True) = si_tenantId (hd (installations worker_db))"
    "event_typed ''evt_1'' (hd (installations worker_db))"
    by (simp_all add: worker_db_def empty_db_def first_row_def webhook_deauthorization_def tenant_session_def event_typed_def)
  have e: "''evt_1'' \<noteq> wd_stripeEventId webhook_deauthorization" by (simp add: webhook_deauthorization_def)
  from lifecycle_events_converge [OF i(1-4) e i(5) 1(1) 2(1) 1(2) 2(2)] statuses active 1 2 show ?thesis by auto
qed

subsection \<open>Deliveries\<close>

lemma receipts_provisioned: "only_installations d d' \<Longrightarrow> receipts_kept d d'"
  unfolding only_installations_def receipts_kept_def by (cases d; cases d') simp

lemma receipts_run: "system_run d d' \<Longrightarrow> receipts_kept d d'"
  unfolding system_run_def
proof (induction rule: rtranclp_induct)
  case base
  show ?case by (rule webhook_receipts.refl_R)
next
  case (step b c)
  then have "receipts_kept b c" using webhook_receipts.repository_step_within receipts_provisioned by blast
  with step.IH show ?case by (rule webhook_receipts.trans_R)
qed

lemma receipt_stays:
  assumes "receipts_kept d d'" and "x \<in> set (receipts d)"
  shows "\<exists>y \<in> set (receipts d'). receipt_key y = receipt_key x"
proof -
  have "receipt_key x \<in> set (map receipt_key (receipts d))" using assms(2) by simp
  then have "receipt_key x \<in> set (map receipt_key (receipts d'))"
    using assms(1) set_mono_prefix unfolding receipts_kept_def by blast
  then show ?thesis by auto
qed

lemma unique_receipt_found:
  assumes "distinct (map event_of_receipt (receipts d))" and "x \<in> set (receipts d)"
    and "wr_stripeEventId x = v" "wr_stripeAccountId x = a"
    and "endpoint_environment e \<noteq> None" "endpoint_environment e = endpoint_environment (wr_endpoint x)"
  shows "refunddesk_find_webhook_receipt_v2 e v a d = Some x"
proof -
  let ?p = "\<lambda>x. wr_stripeEventId x = v \<and> wr_stripeAccountId x = a
       \<and> endpoint_environment e \<noteq> None \<and> endpoint_environment e = endpoint_environment (wr_endpoint x)"
  obtain y where y: "first_row ?p (receipts d) = Some y"
    using assms(2-) by (cases "first_row ?p (receipts d)") (auto simp: first_row_None)
  from first_row_Some [OF y] assms(1-4) have "y = x"
    by (intro inj_onD [of event_of_receipt "set (receipts d)"]) (auto simp: distinct_map event_of_receipt_def)
  with y show ?thesis by (simp add: refunddesk_find_webhook_receipt_v2_def)
qed

text \<open>A receipt that was just inserted, with what it holds.\<close>

definition installation_key :: "StripeInstallation \<Rightarrow> string \<times> string \<times> string \<times> StripeEnvironment" where
  "installation_key i = (si_id i, si_tenantId i, si_stripeAccountId i, si_environment i)"

lemma applyWebhookDeauthorization_keys:
  "applyWebhookDeauthorization ctx input d = Inr (b, d') \<Longrightarrow>
     map installation_key (installations d') = map installation_key (installations d)"
  by (auto simp: applyWebhookDeauthorization_def bind_tx_Inr installation_key_def split: if_split_asm option.split_asm
      dest!: settle_keeps_accounts update_installations_map update_tenants_map)

lemma installation_tenant_same: "installation_tenant ctx k d = Inr (x, d') \<Longrightarrow> d' = d"
  by (auto simp: installation_tenant_def split: option.split_asm)

lemma insertWebhookReceipt_Inr:
  assumes "insertWebhookReceipt ctx r d = Inr ((x, inserted), d')"
  shows "installations d' = installations d \<and> x \<in> set (receipts d') \<and> wr_stripeEventId x = wr_stripeEventId r
    \<and> wr_stripeAccountId x = wr_stripeAccountId r
    \<and> (inserted \<longrightarrow> receipt_checks x \<and> x = r\<lparr>wr_id := wr_id x, wr_tenantId := cx_tenant ctx, wr_status := RC_received,
         wr_processingAttempts := 0, wr_processedAt := None, wr_lastErrorCode := None\<rparr>)"
proof -
  let ?p = "\<lambda>x. wr_tenantId x = cx_tenant ctx \<and> wr_stripeAccountId x = wr_stripeAccountId r \<and> wr_stripeEventId x = wr_stripeEventId r"
  let ?r = "r\<lparr>wr_tenantId := cx_tenant ctx, wr_status := RC_received, wr_processingAttempts := 0, wr_processedAt := None, wr_lastErrorCode := None\<rparr>"
  from assms obtain n where n: "insert_receipt_skip ctx ?r d = Inr (n, d')" "inserted = (n = 1)"
    and x: "first_row ?p (receipts d') = Some x"
    by (auto simp: insertWebhookReceipt_def bind_tx_Inr gets_tx_def lift_tx_def assertNormalizedAccountWebhookRowConsistency_def
        split: option.split_asm if_split_asm sum.split_asm)
  have "x = ?r\<lparr>wr_id := fresh ctx d\<rparr> \<and> receipt_checks x" if "n = 1"
  proof -
    from n that have d': "d' = d\<lparr>receipts := receipts d @ [?r\<lparr>wr_id := fresh ctx d\<rparr>], db_fresh := Suc (db_fresh d)\<rparr>"
      and new: "\<not> (\<exists>y \<in> set (receipts d). ?p y)" and checks: "receipt_checks (?r\<lparr>wr_id := fresh ctx d\<rparr>)"
      by (auto simp: insert_receipt_skip_def Let_def split: if_split_asm)
    from first_row_Some [OF x] new d' checks show ?thesis by auto
  qed
  with n x first_row_Some [OF x] show ?thesis
    by (auto simp: insert_receipt_skip_def Let_def split: if_split_asm)
qed

lemma webhook_insert_Inr:
  assumes "webhook_insert r e v a p obj now ctx d = Inr ((x, inserted), d')"
  obtains i where "x \<in> set (receipts d')" "wr_stripeEventId x = v" "wr_stripeAccountId x = a"
    "inserted \<Longrightarrow> wr_normalizedPayload x = p \<and> wr_endpoint x = e \<and> wr_status x = RC_received \<and> wr_tenantId x = cx_tenant ctx
      \<and> wr_installationId x = rw_installationId r \<and> wr_stripeCreatedAt x = np_event_created p * 1000 \<and> wr_objectId x = obj \<and> receipt_checks x"
    "inserted \<Longrightarrow> i \<in> set (installations d') \<and> si_id i = rw_installationId r \<and> si_tenantId i = cx_tenant ctx \<and> si_stripeAccountId i = a
      \<and> si_environment i = np_environment p"
proof -
  from assms obtain f where tenant: "installation_tenant ctx (rw_installationId r) d = Inr (f, d)"
    unfolding webhook_insert_def bind_tx_Inr by (auto dest: installation_tenant_same)
  let ?work = "if np_event_type p = ''account.application.deauthorized''
          then bind_tx (applyWebhookDeauthorization ctx \<lparr>wd_installationId = rw_installationId r,
              wd_stripeEventId = v, wd_stripeEventCreatedAt = np_event_created p * 1000,
              wd_purgeAt = np_event_created p * 1000 + WEBHOOK_TENANT_PURGE_DELAY_MILLISECONDS\<rparr>) (\<lambda>_. return_tx ())
          else return_tx ()"
  from assms tenant obtain i t where f: "f = Some (i, t)" and key: "si_stripeAccountId i = a" "si_environment i = np_environment p"
    and work: "bind_tx ?work (\<lambda>_. insertWebhookReceipt ctx (webhook_receipt r e v a p obj now)) d = Inr ((x, inserted), d')"
    unfolding webhook_insert_def bind_tx_def [of "installation_tenant ctx (rw_installationId r)"]
    by (cases f) (auto split: if_split_asm)
  from work obtain d1 where step: "?work d = Inr ((), d1)" and ins: "insertWebhookReceipt ctx (webhook_receipt r e v a p obj now) d1 = Inr ((x, inserted), d')"
    unfolding bind_tx_Inr by auto
  from step have d1: "map installation_key (installations d1) = map installation_key (installations d)"
    by (auto simp: bind_tx_Inr dest!: applyWebhookDeauthorization_keys split: if_split_asm)
  note found = tenant [unfolded f] key
  from found(1) have "first_row (\<lambda>i. si_id i = rw_installationId r \<and> si_tenantId i = cx_tenant ctx) (installations d) = Some i"
    by (auto simp: installation_tenant_def getInstallationContext_def split: option.split_asm)
  from first_row_Some [OF this] have i: "i \<in> set (installations d)" "si_id i = rw_installationId r" "si_tenantId i = cx_tenant ctx" by simp_all
  from i(1) have "installation_key i \<in> set (map installation_key (installations d1))" unfolding d1 by simp
  then obtain j where j: "j \<in> set (installations d1)" "installation_key j = installation_key i" by auto
  have fields: "wr_normalizedPayload x = p \<and> wr_endpoint x = e \<and> wr_status x = RC_received \<and> wr_tenantId x = cx_tenant ctx
      \<and> wr_installationId x = rw_installationId r \<and> wr_stripeCreatedAt x = np_event_created p * 1000 \<and> wr_objectId x = obj"
    if "x = (webhook_receipt r e v a p obj now)\<lparr>wr_id := k, wr_tenantId := cx_tenant ctx, wr_status := RC_received,
      wr_processingAttempts := 0, wr_processedAt := None, wr_lastErrorCode := None\<rparr>" for k
    using that by (simp add: webhook_receipt_def)
  note row = insertWebhookReceipt_Inr [OF ins]
  then have d': "installations d' = installations d1" and x: "x \<in> set (receipts d')" "wr_stripeEventId x = v" "wr_stripeAccountId x = a"
    by (simp_all add: webhook_receipt_def)
  have x': "inserted \<Longrightarrow> wr_normalizedPayload x = p \<and> wr_endpoint x = e \<and> wr_status x = RC_received \<and> wr_tenantId x = cx_tenant ctx
      \<and> wr_installationId x = rw_installationId r \<and> wr_stripeCreatedAt x = np_event_created p * 1000 \<and> wr_objectId x = obj \<and> receipt_checks x"
    using row fields [of "wr_id x"] by blast
  show thesis using that [OF x x', of j] j i found d' by (simp add: installation_key_def)
qed

lemma findWebhookReceipt_Some:
  "findWebhookReceipt e v a d = Inr (Some x) \<Longrightarrow> x \<in> set (receipts d) \<and> wr_stripeEventId x = v \<and> wr_stripeAccountId x = a"
  by (auto simp: findWebhookReceipt_def refunddesk_find_webhook_receipt_v2_def split: if_split_asm dest!: first_row_Some)

text \<open>What the receipt of an answer holds; \<open>dup\<close> tells that it was there before.\<close>

definition receipt_of_delivery ::
  "bool \<Rightarrow> WebhookEndpoint \<Rightarrow> string \<Rightarrow> string \<Rightarrow> NormalizedAccountWebhookPayload \<Rightarrow> string \<Rightarrow> WebhookReceipt \<Rightarrow> db \<Rightarrow> bool" where
  "receipt_of_delivery dup e v a p obj x d \<longleftrightarrow> x \<in> set (receipts d) \<and> wr_stripeEventId x = v \<and> wr_stripeAccountId x = a
     \<and> (dup \<or> wr_normalizedPayload x = p \<and> wr_objectId x = obj \<and> wr_stripeCreatedAt x = np_event_created p * 1000
          \<and> wr_endpoint x = e \<and> wr_status x = RC_received \<and> receipt_checks x
          \<and> (\<exists>i \<in> set (installations d). si_id i = wr_installationId x \<and> si_tenantId i = wr_tenantId x
              \<and> si_stripeAccountId i = a \<and> si_environment i = np_environment p))"

lemma store_event_answer:
  assumes "store_event deps e v p obj w = (Inr (WebhookReceived v' rid dup q), w')"
  shows "v' = v \<and> (\<exists>x. wr_id x = rid \<and> receipt_of_delivery dup e v (aw_expectedAccountId deps) p obj x (wl_db w'))"
proof -
  let ?de = "aw_process deps" and ?a = "aw_expectedAccountId deps"
  obtain resolved w1 where r: "tx_act ?de (\<lambda>_. webhook_resolve ?a p v) w = (resolved, w1)" by fastforce
  with assms obtain r where resolved: "resolved = Inr (Some r)"
    by (auto simp: store_event_def Let_def bind_act_def return_act_def split: sum.split_asm option.split_asm)
  let ?now = "de_clock ?de (wl_time w1)"
  obtain stored w2 where s: "tx_act ?de (\<lambda>ctx. withTenantTransaction ctx (rw_tenantId r) (webhook_insert r e v ?a p obj ?now)) (tick w1)
      = (stored, w2)" by fastforce
  with assms r resolved obtain x inserted where stored: "stored = Inr (x, inserted)" and answer: "v' = v" "rid = wr_id x" "dup = (\<not> inserted)" "w' = w2"
    by (auto simp: store_event_def Let_def bind_act_def return_act_def now_act_def split: sum.split_asm)
  from tx_act_commits [OF s [unfolded stored]] obtain ctx d where
    "withTenantTransaction ctx (rw_tenantId r) (webhook_insert r e v ?a p obj ?now) d = Inr ((x, inserted), wl_db w2)" by blast
  note ins = conjunct2 [OF withTenantTransaction_Inr [OF this]]
  have "receipt_of_delivery dup e v ?a p obj x (wl_db w2)"
  proof (rule webhook_insert_Inr [OF ins], goal_cases)
    case (1 i)
    then show ?case unfolding receipt_of_delivery_def answer by auto
  qed
  with answer show ?thesis by blast
qed

lemma persist_event_cases:
  assumes "persist_event deps e v p obj w = (Inr y, w')"
  obtains (known) x where "x \<in> set (receipts (wl_db w'))" "wr_stripeEventId x = v" "wr_stripeAccountId x = aw_expectedAccountId deps"
      "y = WebhookReceived v (wr_id x) True False"
    | (new) w1 where "store_event deps e v p obj w1 = (Inr y, w')"
proof -
  let ?d = "de_others (aw_process deps) (wl_time w) (wl_db w)"
  have read: "read_act (aw_process deps) (findWebhookReceipt e v (aw_expectedAccountId deps)) w
      = (Inr (findWebhookReceipt e v (aw_expectedAccountId deps) ?d), (tick w)\<lparr>wl_db := ?d\<rparr>)"
    by (simp add: read_act_def tx_act_def gets_tx_def Let_def)
  show thesis
  proof (cases "findWebhookReceipt e v (aw_expectedAccountId deps) ?d")
    case (Inl err)
    with assms read show ?thesis by (simp add: persist_event_def bind_act_def lift_act_def)
  next
    case (Inr existing)
    with assms read known new show ?thesis
      by (cases existing) (auto simp: persist_event_def bind_act_def lift_act_def return_act_def
          dest: findWebhookReceipt_Some split: if_split_asm)
  qed
qed

lemma persist_event_answer:
  assumes "persist_event deps e v p obj w = (Inr (WebhookReceived v' rid dup q), w')"
  shows "v' = v \<and> (\<exists>x. wr_id x = rid \<and> receipt_of_delivery dup e v (aw_expectedAccountId deps) p obj x (wl_db w'))"
  using assms
proof (cases rule: persist_event_cases)
  case (known x)
  then show ?thesis by (auto simp: receipt_of_delivery_def)
next
  case (new w1)
  from store_event_answer [OF this] show ?thesis .
qed

lemma persist_event_ids:
  assumes "persist_event deps e v p obj w = (Inr y, w')"
  shows "prefixed_id ''evt_'' v \<and> prefixed_id ''acct_'' (aw_expectedAccountId deps)"
  using assms by (auto simp: persist_event_def bind_act_def lift_act_def read_act_def tx_act_def gets_tx_def Let_def
      findWebhookReceipt_def bind_err_def split: sum.split_asm if_split_asm)

lemma verified_event_secret:
  "verified_event deps b s keys = Some ev \<Longrightarrow> \<exists>k \<in> set keys. aw_constructEvent deps b s k = Some ev"
  by (induction keys) (auto split: option.split_asm)

lemma webhook_event_Inr:
  assumes "webhook_event deps request = Inr event"
  obtains signature body secret where "wq_headers request ''stripe-signature'' = Some signature"
    "readBoundedRequestBody (wq_body request) (wq_admittedAt request + REQUEST_BODY_DEADLINE_MS) MAX_WEBHOOK_BYTES = Inr body"
    "secret \<in> set (aw_signingSecrets deps)" "''disabled'' \<notin> set (aw_signingSecrets deps)"
    "aw_constructEvent deps body signature secret = Some event"
  using assms by (auto simp: webhook_event_def split: if_split_asm option.split_asm sum.split_asm dest!: verified_event_secret)

lemma parse_payload_Inr: "parse_payload p = Inr q \<longleftrightarrow> q = p \<and> normalizedAccountWebhookPayloadSchema p"
  by (auto simp: parse_payload_def)

lemma normalizeEvent_payload:
  assumes "normalizeEvent event env = Inr (Some (p, obj))"
  shows "normalizedAccountWebhookPayloadSchema p \<and> np_event_type p = ev_type event \<and> ev_type event \<in> set SUPPORTED_EVENT_TYPES
    \<and> np_environment p = env"
proof -
  have m: "map_sum id (\<lambda>p. Some (p, i)) s = Inr (Some (p, obj)) \<longleftrightarrow> s = Inr p \<and> i = obj" for s :: "err + _" and i
    by (cases s) auto
  show ?thesis using assms by (auto simp: normalizeEvent_def Let_def m parse_payload_Inr
        split: if_split_asm StripeEventObject.split_asm option.split_asm)
qed

lemma admissible_event_Inr:
  "admissible_event deps endpoint event = Inr (p, obj) \<Longrightarrow> \<not> ev_livemode event \<and> ev_account event = None
     \<and> normalizeEvent event (environmentFor endpoint) = Inr (Some (p, obj))
     \<and> supportsEventApiVersion event (aw_expectedApiVersion deps)
     \<and> (\<forall>a. np_body p = InstallationBody a \<longrightarrow> a = aw_expectedApplicationId deps)"
  by (auto simp: admissible_event_def split: if_split_asm sum.split_asm option.split_asm WebhookBody.split_asm)

lemma received_delivery:
  assumes "receiveAccountWebhook deps request endpoint g w = (WebhookReceived v rid dup queued, g', w')"
  obtains lease g1 event p obj where "endpoint \<noteq> Route_live"
    "acquire (aw_gate deps) (wq_headers request) account_webhook (aw_gate_clock deps) g = (EdgeAllowed lease, g1)"
    "g' = release lease (aw_gate_others deps g1)" "webhook_event deps request = Inr event"
    "admissible_event deps endpoint event = Inr (p, obj)" "ev_id event = v"
    "persist_event deps (accountEndpoint endpoint) v p obj w = (Inr (WebhookReceived v rid dup queued), w')"
proof -
  from assms obtain lease g1 where live: "endpoint \<noteq> Route_live"
    and gate: "acquire (aw_gate deps) (wq_headers request) account_webhook (aw_gate_clock deps) g = (EdgeAllowed lease, g1)"
    "g' = release lease (aw_gate_others deps g1)"
    and body: "receiveAdmittedAccountWebhook deps request endpoint w = (WebhookReceived v rid dup queued, w')"
    by (auto simp: receiveAccountWebhook_def acquireWebhookAdmission_def retryableEdgeResponse_def
        split: if_split_asm sum.split_asm prod.split_asm EdgeAdmissionDecision.split_asm option.split_asm)
  from body obtain event where e: "webhook_event deps request = Inr event"
    by (auto simp: receiveAdmittedAccountWebhook_def webhook_event_def body_error_response_def
        split: if_split_asm sum.split_asm prod.split_asm option.split_asm BodyError.split_asm)
  from body e obtain p obj where a: "admissible_event deps endpoint event = Inr (p, obj)"
    and s: "persist_event deps (accountEndpoint endpoint) (ev_id event) p obj w = (Inr (WebhookReceived v rid dup queued), w')"
    by (auto simp: receiveAdmittedAccountWebhook_def admissible_event_def
        split: if_split_asm sum.split_asm prod.split_asm option.split_asm WebhookBody.split_asm)
  from that [OF live gate e a] s persist_event_answer [OF s] show thesis by simp
qed

lemma receipt_of_delivery_job:
  assumes "receipt_of_delivery False e v a p obj x d"
  shows "receipt_job x = Inr \<lparr>pj_tenant_id = wr_tenantId x, pj_installation_id = wr_installationId x, pj_receipt_id = wr_id x,
      pj_stripe_event_id = v, pj_stripe_account_id = a, pj_payload = p\<rparr>"
  using assms by (auto simp: receipt_of_delivery_def receipt_checks_def receipt_job_def assertNormalizedAccountWebhookRowConsistency_def
      storedWebhookEndpoint_parse_def environmentForStoredWebhookEndpoint_def endpoint_environment_def split: WebhookEndpoint.splits)

text \<open>
  C19: what stands behind an answer that an event was received. The endpoint was not live, the edge
  gate had admitted the request and its lease was given back; the body, read within its limits, was
  signed under a configured secret; its event is of a supported type, not live, and not of a
  connected account; and a receipt of the event is in the database. If it is new, it holds the
  normalised event as received, for an installation of the account in the event's environment, and
  the recovery job it gives rise to carries the same event.
\<close>

theorem webhook_delivery_recorded:
  assumes "receiveAccountWebhook deps request endpoint g w = (WebhookReceived v rid dup queued, g', w')"
  shows "endpoint \<noteq> Route_live
    \<and> (\<exists>lease g1. acquire (aw_gate deps) (wq_headers request) account_webhook (aw_gate_clock deps) g = (EdgeAllowed lease, g1)
         \<and> g' = release lease (aw_gate_others deps g1))
    \<and> (\<exists>signature body secret event p obj x. wq_headers request ''stripe-signature'' = Some signature
        \<and> readBoundedRequestBody (wq_body request) (wq_admittedAt request + REQUEST_BODY_DEADLINE_MS) MAX_WEBHOOK_BYTES = Inr body
        \<and> secret \<in> set (aw_signingSecrets deps) \<and> ''disabled'' \<notin> set (aw_signingSecrets deps)
        \<and> aw_constructEvent deps body signature secret = Some event
        \<and> ev_id event = v \<and> \<not> ev_livemode event \<and> ev_account event = None \<and> ev_type event \<in> set SUPPORTED_EVENT_TYPES
        \<and> normalizeEvent event (environmentFor endpoint) = Inr (Some (p, obj))
        \<and> wr_id x = rid
        \<and> receipt_of_delivery dup (accountEndpoint endpoint) v (aw_expectedAccountId deps) p obj x (wl_db w')
        \<and> (dup \<or> receipt_job x = Inr \<lparr>pj_tenant_id = wr_tenantId x, pj_installation_id = wr_installationId x, pj_receipt_id = rid,
             pj_stripe_event_id = v, pj_stripe_account_id = aw_expectedAccountId deps, pj_payload = p\<rparr>))"
proof -
  obtain lease g1 event p obj where d: "endpoint \<noteq> Route_live"
    "acquire (aw_gate deps) (wq_headers request) account_webhook (aw_gate_clock deps) g = (EdgeAllowed lease, g1)"
    "g' = release lease (aw_gate_others deps g1)"
    and e: "webhook_event deps request = Inr event" and a: "admissible_event deps endpoint event = Inr (p, obj)" "ev_id event = v"
    and s: "persist_event deps (accountEndpoint endpoint) v p obj w = (Inr (WebhookReceived v rid dup queued), w')"
    using assms by (rule received_delivery)
  from e obtain signature body secret where signed: "wq_headers request ''stripe-signature'' = Some signature"
    "readBoundedRequestBody (wq_body request) (wq_admittedAt request + REQUEST_BODY_DEADLINE_MS) MAX_WEBHOOK_BYTES = Inr body"
    "secret \<in> set (aw_signingSecrets deps)" "''disabled'' \<notin> set (aw_signingSecrets deps)"
    "aw_constructEvent deps body signature secret = Some event"
    by (rule webhook_event_Inr)
  from persist_event_answer [OF s] obtain x where x: "wr_id x = rid"
    "receipt_of_delivery dup (accountEndpoint endpoint) v (aw_expectedAccountId deps) p obj x (wl_db w')" by blast
  note checks = admissible_event_Inr [OF a(1)]
  note normal = normalizeEvent_payload [OF conjunct1 [OF conjunct2 [OF conjunct2 [OF checks]]]]
  have job: "dup \<or> receipt_job x = Inr \<lparr>pj_tenant_id = wr_tenantId x, pj_installation_id = wr_installationId x, pj_receipt_id = rid,
      pj_stripe_event_id = v, pj_stripe_account_id = aw_expectedAccountId deps, pj_payload = p\<rparr>"
    using receipt_of_delivery_job x by (cases dup) auto
  from d(2,3) have "\<exists>lease g1. acquire (aw_gate deps) (wq_headers request) account_webhook (aw_gate_clock deps) g = (EdgeAllowed lease, g1)
      \<and> g' = release lease (aw_gate_others deps g1)" by blast
  with d(1) signed a(2) checks normal x job show ?thesis by blast
qed

lemma endpoint_environment_account: "endpoint \<noteq> Route_live \<Longrightarrow> endpoint_environment (accountEndpoint endpoint) \<noteq> None"
  by (simp add: accountEndpoint_def endpoint_environment_def)

lemma known_receipt_found:
  assumes "receipts_kept d d'" and "distinct (map event_of_receipt (receipts d))" and "x \<in> set (receipts d)"
    and "wr_stripeEventId x = v" "wr_stripeAccountId x = a" "wr_endpoint x = accountEndpoint endpoint" "endpoint \<noteq> Route_live"
  shows "\<exists>y. refunddesk_find_webhook_receipt_v2 (accountEndpoint endpoint) v a d' = Some y \<and> wr_id y = wr_id x"
proof -
  from receipt_stays [OF assms(1,3)] obtain y where y: "y \<in> set (receipts d')" "receipt_key y = receipt_key x" by blast
  moreover have "distinct (map event_of_receipt (receipts d'))" using assms(1,2) unfolding receipts_kept_def by blast
  ultimately have "refunddesk_find_webhook_receipt_v2 (accountEndpoint endpoint) v a d' = Some y"
    using assms(4-) endpoint_environment_account by (intro unique_receipt_found) (auto simp: receipt_key_def)
  with y(2) show ?thesis by (simp add: receipt_key_def)
qed

lemma storedWebhookEndpoint_account: "storedWebhookEndpoint_parse (accountEndpoint endpoint) = Inr (accountEndpoint endpoint)"
  by (simp add: accountEndpoint_def storedWebhookEndpoint_parse_def)

lemma known_event_answered:
  assumes "prefixed_id ''evt_'' v" "prefixed_id ''acct_'' (aw_expectedAccountId deps)"
    and "refunddesk_find_webhook_receipt_v2 (accountEndpoint endpoint) v (aw_expectedAccountId deps)
      (de_others (aw_process deps) (wl_time w) (wl_db w)) = Some y"
    and "np_event_type p \<noteq> ''account.application.deauthorized''"
  shows "\<exists>w'. persist_event deps (accountEndpoint endpoint) v p obj w = (Inr (WebhookReceived v (wr_id y) True False), w')
    \<and> wl_db w' = de_others (aw_process deps) (wl_time w) (wl_db w)"
  using assms storedWebhookEndpoint_account [of endpoint]
  by (simp add: persist_event_def bind_act_def lift_act_def read_act_def tx_act_def gets_tx_def Let_def return_act_def
      findWebhookReceipt_def)


definition refund_delivery_event :: StripeEvent where
  "refund_delivery_event = \<lparr>ev_id = ''evt_1'', ev_type = ''refund.updated'', ev_livemode = False, ev_api_version = Some ''v1'',
     ev_account = None, ev_created = 2, ev_idempotency_key = None,
     ev_object = Refund_object \<lparr>sf_id = ''re_1'', sf_payment_intent = Some (Reference_id ''pi_1''), sf_charge = Some (Reference_object ''ch_1''),
       sf_amount = 500, sf_currency = ''EUR'', sf_status = Some ''succeeded'', sf_created = 1, sf_metadata = [],
       sf_reverses_transfer = False\<rparr>\<rparr>"

definition delivery_deps :: AccountWebhookDependencies where
  "delivery_deps = \<lparr>aw_expectedApplicationId = ''ca_1'', aw_expectedAccountId = ''acct_1'', aw_expectedApiVersion = ''v1'',
     aw_signingSecrets = [''whsec_1'', ''whsec_0''],
     aw_constructEvent = (\<lambda>body signature secret. if body = [1, 2] \<and> secret = ''whsec_0'' then Some refund_delivery_event else None),
     aw_process = worker_deps, aw_gate = open_gate, aw_gate_clock = Some 1, aw_gate_others = (\<lambda>g. g)\<rparr>"

definition delivery_request :: WebhookRequest where
  "delivery_request = \<lparr>wq_headers = (\<lambda>h. if h = ''stripe-signature'' then Some ''t=1,v1=0'' else None), wq_contentLength = Some 2,
     wq_body = \<lparr>bs_null = False, bs_reads = (\<lambda>n. if n = 0 then Chunk [1] else if n = 1 then Chunk [2] else Stream_done),
       bs_clock = (\<lambda>n. 1900 + int n)\<rparr>, wq_admittedAt = 1900\<rparr>"

definition delivered_payload :: NormalizedAccountWebhookPayload where
  "delivered_payload = \<lparr>np_environment = Env_test, np_event_created = 2, np_event_idempotency_key = None,
     np_event_type = ''refund.updated'', np_body = RefundBody \<lparr>nr_refund_id = ''re_1'', nr_payment_intent_id = Some ''pi_1'',
       nr_charge_id = Some ''ch_1'', nr_amount_minor = ''500'', nr_currency = ''eur'', nr_status = Some R_succeeded, nr_created = 1,
       nr_metadata_request_id = None, nr_metadata_proof = None\<rparr>\<rparr>"

lemma delivery_ids: "prefixed_id ''acct_'' ''acct_1''" "prefixed_id ''evt_'' ''evt_1''"
  by code_simp+

lemma delivery_event: "webhook_event delivery_deps delivery_request = Inr refund_delivery_event"
  by (simp add: delivery_ids webhook_event_def delivery_deps_def delivery_request_def MAX_WEBHOOK_BYTES_def readBoundedRequestBody_def
      safe_integer_def REQUEST_BODY_DEADLINE_MS_def consume.simps MAXIMUM_REQUEST_BODY_CHUNKS_def)

lemma delivery_admissible: "admissible_event delivery_deps Route_test refund_delivery_event = Inr (delivered_payload, ''re_1'')"
  by code_simp

lemma delivery_gate: "fst (acquire open_gate (wq_headers delivery_request) account_webhook (Some 1) new_gate) = EdgeAllowed 0"
  by code_simp

definition delivery_installation :: ResolvedWebhookInstallation where
  "delivery_installation = \<lparr>rw_tenantId = wid CHR ''a'', rw_installationId = wid CHR ''b'', rw_applied = False\<rparr>"

lemma delivery_resolved: "webhook_resolve ''acct_1'' delivered_payload ''evt_1'' worker_db = Inr (Some delivery_installation, worker_db)"
  by code_simp

lemma delivery_insert: "\<exists>x d'. webhook_insert delivery_installation EP_account_test ''evt_1'' ''acct_1'' delivered_payload ''re_1'' 1950
    (tenant_session False) worker_db = Inr ((x, True), d')"
proof -
  have "(case webhook_insert delivery_installation EP_account_test ''evt_1'' ''acct_1'' delivered_payload ''re_1'' 1950
    (tenant_session False) worker_db of Inr ((_, b), _) \<Rightarrow> b | _ \<Rightarrow> False)"
    by code_simp
  then show ?thesis by (auto split: sum.split_asm prod.split_asm)
qed

lemma delivery_received:
  "\<exists>rid g' w'. receiveAccountWebhook delivery_deps delivery_request Route_test new_gate (worker_world worker_db)
     = (WebhookReceived ''evt_1'' rid False True, g', w')"
proof -
  from delivery_insert obtain x d' where "webhook_insert delivery_installation EP_account_test ''evt_1'' ''acct_1'' delivered_payload
      ''re_1'' 1950 (tenant_session False) worker_db = Inr ((x, True), d')" by blast
  then have unit: "withTenantTransaction worker_session (wid CHR ''a'') (webhook_insert delivery_installation EP_account_test ''evt_1''
      ''acct_1'' delivered_payload ''re_1'' 1950) worker_db = Inr ((x, True), d')"
    by (intro withTenantTransaction_calm [OF worker_tenant]) (simp_all add: worker_session_def tenant_session_def)
  have "findWebhookReceipt EP_account_test ''evt_1'' ''acct_1'' worker_db = Inr None"
    by (simp add: findWebhookReceipt_def storedWebhookEndpoint_parse_def delivery_ids refunddesk_find_webhook_receipt_v2_def
        first_row_def worker_db_def empty_db_def)
  with unit obtain w' where "persist_event delivery_deps EP_account_test ''evt_1'' delivered_payload ''re_1'' (worker_world worker_db)
      = (Inr (WebhookReceived ''evt_1'' (wr_id x) False True), w')"
    using delivery_resolved
    by (simp add: persist_event_def store_event_def bind_act_def lift_act_def read_act_def tx_act_def gets_tx_def Let_def return_act_def
        delivery_deps_def worker_deps_def worker_world_def now_act_def tick_def delivery_installation_def)
  with delivery_event delivery_admissible delivery_gate show ?thesis
    by (cases "acquire open_gate (wq_headers delivery_request) account_webhook (Some 1) new_gate")
      (simp add: receiveAccountWebhook_def acquireWebhookAdmission_def receiveAdmittedAccountWebhook_def accountEndpoint_def
        delivery_deps_def refund_delivery_event_def)
qed

theorem webhook_delivery_recorded_witness:
  "\<exists>rid g' w' x. receiveAccountWebhook delivery_deps delivery_request Route_test new_gate (worker_world worker_db)
      = (WebhookReceived ''evt_1'' rid False True, g', w')
    \<and> receipt_of_delivery False EP_account_test ''evt_1'' ''acct_1'' delivered_payload ''re_1'' x (wl_db w')
    \<and> wr_id x = rid"
proof -
  from delivery_received obtain rid g' w' where
    run: "receiveAccountWebhook delivery_deps delivery_request Route_test new_gate (worker_world worker_db)
      = (WebhookReceived ''evt_1'' rid False True, g', w')" by blast
  have "normalizeEvent refund_delivery_event Env_test = Inr (Some (delivered_payload, ''re_1''))"
    using admissible_event_Inr [OF delivery_admissible] by (simp add: environmentFor_def)
  with webhook_delivery_recorded [OF run] have "\<exists>x. wr_id x = rid
      \<and> receipt_of_delivery False EP_account_test ''evt_1'' ''acct_1'' delivered_payload ''re_1'' x (wl_db w')"
    by (auto simp: delivery_deps_def accountEndpoint_def environmentFor_def split: if_split_asm)
  with run show ?thesis by blast
qed


end
