(* ===== verification/Spec2Isabelle.thy ===== *)
theory Spec2Isabelle
  imports Money Workflow Access_Policy Refund_Proof Approval_Attestation
    Worker_Theorems Attestation_Roundtrip Worker_Idempotence Rate_Limits Edge_Theorems
    Key_Rotation Extension_Theorems Audit_Theorems Webhook_Theorems
begin

text \<open>
  RefundDesk: refunds with a second pair of eyes. Support staff ask for a refund of a Stripe payment
  inside the Stripe dashboard, an approver other than the requester decides, and a worker executes
  approved requests, so that every payment is refunded by at most one request and every refund
  that Stripe knows is either linked to its request or raised as an alert. The repository is a
  TypeScript monorepo: pure rules in \<open>packages/domain\<close>, the PostgreSQL database with its triggers and
  the repositories on it in \<open>packages/db\<close>, the job worker in \<open>apps/worker\<close>, the web API in
  \<open>apps/platform\<close> and the dashboard extension in \<open>apps/stripe-app\<close>.

  \<^bold>\<open>Parts and theories.\<close>

  Shared vocabulary: Prelude (the transaction monad \<open>tx\<close>, the relational calculus \<open>steps\<close>, row-wise table
  updates, JavaScript strings and patterns), Encoding (UTF-8, JSON texts, base64url, ISO
  timestamps), Domain\_Types (\<open>types.ts\<close>, \<open>errors.ts\<close>; every error the code throws is a value of
  \<open>err\<close>), Canonical\_Json (\<open>contracts/canonical-json.ts\<close>).

  Domain rules (\<open>packages/domain/src\<close>): Money (\<open>money.ts\<close>, \<open>eligibility.ts\<close>), Workflow (\<open>workflow.ts\<close>,
  \<open>effect.ts\<close>, \<open>error-classification.ts\<close>), Access\_Policy (\<open>stripe-roles.ts\<close>, \<open>access-policy.ts\<close>), Tokens with
  Refund\_Proof (\<open>refund-proof.ts\<close>) and Approval\_Attestation (\<open>approval-attestation.ts\<close>), Field\_Encryption
  (\<open>encryption.ts\<close>), Key\_Rotation (\<open>packages/config/src/key-rotation.ts\<close>,
  \<open>check-key-rotation-transition.ts\<close> and the two files that build keyrings from configured keys).

  Database (\<open>packages/db\<close>): Db\_Schema (one record per table of \<open>schema.prisma\<close>; the database \<open>db\<close> is a
  record of row lists), Db\_Triggers (row triggers and check constraints of the migrations, in
  their last version), Db\_Tables (the statements on each table with the constraints they meet),
  Tenant\_Transaction (\<open>tenant-transaction.ts\<close>), Tenant\_Repositories and Reconciliation\_Repositories
  (\<open>tenant-repositories.ts\<close>, \<open>refund-candidate-policy.ts\<close>), Installations (\<open>installations.ts\<close> and the
  provisioning functions), Gcra and Rate\_Limits (\<open>rate-limits.ts\<close> and its SQL function).

  Worker (\<open>apps/worker/src\<close>): Worker\_Store and Worker\_Observations (\<open>db-store.ts\<close>), Worker\_Process (the
  model of a process, \<open>stripe-failure.ts\<close>), Refund\_Execution (\<open>refund-execution.ts\<close>, \<open>safety.ts\<close>),
  Worker\_Jobs (\<open>execution-recovery.ts\<close>, \<open>expiration.ts\<close>, \<open>webhook-processing.ts\<close>, \<open>webhook-recovery.ts\<close>),
  Reconciliation\_Scanner (\<open>reconciliation-scanner.ts\<close>).

  Web API (\<open>apps/platform/src/server\<close>): Edge\_Admission (\<open>edge-admission.ts\<close>), Pilot\_Api (\<open>pilot-ports.ts\<close>,
  \<open>pilot-errors.ts\<close>, \<open>pilot-access-policy.ts\<close>, \<open>pilot-account-admission.ts\<close>, \<open>pilot-audit-token.ts\<close>, the
  operations of \<open>contracts\<close>), Pilot\_Repository and Pilot\_Reads (\<open>pilot-prisma-repository.ts\<close>),
  Pilot\_Service (\<open>pilot-service.ts\<close>), Audit\_Download (\<open>pilot-audit-download.ts\<close> and the verification in
  \<open>pilot-audit-token.ts\<close>), Bounded\_Body (\<open>bounded-request-body.ts\<close>), Account\_Webhook
  (\<open>account-webhook.ts\<close>, the lookup of \<open>packages/db/src/webhooks.ts\<close>). Extension: Extension\_Client (the answer schemas of
  \<open>apps/stripe-app/src/api/client.ts\<close>).

  \<^bold>\<open>How the parts fit.\<close> A repository operation is a function of a transaction context (tenant
  setting, role, clock, identifiers, conflicts) and the database, with an error or a result and a
  new database. A unit of work composes operations; \<open>withTenantTransaction\<close> runs it with bounded
  retries. A handler of the worker or of the API is an action on a \<open>world\<close>: it interleaves
  transactions with calls to Stripe and readings of the clock, and before each transaction the
  rest of the system may do anything its environment allows. A database is \<open>reachable\<close> when
  repository operations and provisioning, of any tenants in any order, lead to it from one
  without requests.

  \<^bold>\<open>Interfaces.\<close> \<open>evolution\<close>: a reflexive and transitive relation between databases, with the rules
  that carry it through programs of the monad. \<open>ledger\<close> and \<open>repositories\<close>: the laws of the table
  statements; every repository operation is shown to stay within the relation once, and the
  interpretations choose it: the invariant with the history (\<open>kept_db\<close>), isolation of tenants
  (\<open>isolated_db\<close>), frozen payments (\<open>frozen_db\<close>), the number of accounts (\<open>accounts_db\<close>),
  distinct audit events (\<open>event_ids\<close>), receipts that stay (\<open>webhook_receipts\<close>).
  \<open>repository_client\<close>, \<open>system_relation\<close> and \<open>worker_process\<close>: what units of work, stores and processes need;
  interpreted for runs of the system (\<open>worker_run\<close>) and for undisturbed runs (\<open>quiet\<close>). \<open>token_format\<close>:
  signed tokens. \<open>gcra\<close>: rate limiting; interpreted for the durable limit and for the shared and
  the source buckets of the edge gate. \<open>key_family\<close>: keyrings built from a rotation state;
  interpreted for fields, proofs and attestations.

  \<^bold>\<open>What is shown.\<close> Workflow: \<open>transitionWorkflowStatus\<close> refines an abstract state machine, and no
  workflow passes approval without its quorum (Workflow). The life of a request in the database,
  \<open>request_edge\<close>, is an abstract specification that every statement of the repositories
  implements (Repository\_Contract); from it follow the invariant of requests, attested approvals,
  one open request per payment, append-only history, isolation of tenants (Repository\_Invariants,
  Repository\_Theorems), at-most-once claims and boundaries, bounded expiry, convergence of
  observations and frozen payments (Repository\_Outcomes), and agreement of the SQL triggers with
  the domain code, with the places where they differ (Db\_Triggers). Worker: every job leaves a
  reachable database whatever Stripe answers and wherever it fails (Worker\_Contract, Worker\_Runs,
  Worker\_Theorems); the effect boundary and every refund call rest on a verified attestation
  (Worker\_Boundary, Refund\_Authority, Attestation\_Roundtrip); webhook jobs and reconciliation
  windows are idempotent (Worker\_Idempotence); the expiry job is bounded and complete
  (Worker\_Batches). Web API: every dispatch leaves a reachable database, provisioning needs
  admission, mutations are answered once, decisions need a second pair of eyes, justifications
  are readable by those they are meant for (Pilot\_Runs, Pilot\_Theorems), which answers the
  extension accepts (Extension\_Theorems), and the audit export: the lifetime of a link, the end and
  completeness of the page loop, who gets the file (Audit\_Theorems). Account webhook: a body is read
  within its limits (Bounded\_Body), an answered event is verified and recorded, redeliveries change
  nothing, and the order of lifecycle events does not matter (Webhook\_Theorems). Keys and tokens: round trips and binding up to a
  collision of the primitive (Refund\_Proof, Approval\_Attestation, Field\_Encryption) and
  readability across key rotation (Key\_Rotation). Rates: admission bounds of both limiters and
  the consistency of the edge gate (Rate\_Limits, Edge\_Theorems). Worker\_Samples holds the scenario
  of the witnesses.

  \<^bold>\<open>Conventions and bounds.\<close> Cryptographic primitives, Stripe, the clock, drawn identifiers and nonces,
  conflicts, crashes and the interference of other processes are parameters, indexed by the number
  of actions performed where they vary in time; nothing is assumed of them but what a theorem
  names. A transaction reads the database clock once; what a method draws is drawn before its
  transaction. Transactions are serial, as their isolation level is serializable; row and advisory
  locks are that order. Loops that the source bounds recurse on their bound (three attempts of a
  transaction, eight of provisioning, a hundred batches of expiry, the page limits of the scanner),
  so no fuel is chosen here; all functions are total. SQL conditions keep the three-valued logic
  of NULL. Money amounts are \<open>bigint\<close> in the code and \<open>int\<close> here. Texts range over the first 256
  code points and are ordered by code unit; identifiers are compared as text. Columns maintained
  by Prisma only (\<open>updated_at\<close>) are omitted. JSON objects are association lists; the key order of
  JSONB is not modelled.

  \<^bold>\<open>Not modelled.\<close> The HTTP layer of the platform (\<open>pilot-http.ts\<close>, \<open>pilot-routes.ts\<close>), the verification of
  signed requests and the signing side of the extension: parsing, header handling and I/O around
  the modelled cores. The React views of the extension and of the platform, process start-up,
  queue wiring and health endpoints, notifications, logging and the parsing of environment
  variables: no state of the system. Deployment and maintenance scripts, grants and purge
  functions of the database: operated outside the running program.
\<close>

end
